(* ===== verification/Errors.thy ===== *)
theory Errors
  imports Main
begin

text \<open>
  Go error values and the functions that build, unwrap and classify them:
  pkg/domain/errors/errors.go, internal/storage/error.go,
  internal/connectors/engine/errors.go and activities/errors.go,
  internal/api/services/errors.go.  An error is a tree: fmt.Errorf with one or
  two %w verbs wraps one or two errors.
\<close>

section \<open>Error trees\<close>

text \<open>
  The package-level error variables the program compares with errors.Is.
  Packages declare variables of the same name and text (four are called
  ErrValidation); they are different errors, hence the prefixes.
\<close>

datatype sentinel =
    Models_ErrInvalidConfig | Models_ErrFailedAccountCreation
  | Models_ErrMissingFromPayloadInRequest | Models_ErrMissingAccountInRequest
  | Models_ErrInvalidRequest | Models_ErrValidation | Models_ErrWebhookVerification
  | Models_ErrMissingPageSize | Models_ErrExceededMaxPageSize
  | Models_ErrMissingConnectorMetadata | Models_ErrMissingConnectorField
  | Storage_ErrValidation | Storage_ErrNotFound | Storage_ErrDuplicateKeyValue
  | Storage_ErrForeignKeyViolation
  | Engine_ErrValidation | Engine_ErrNotFound
  | Services_ErrValidation | Services_ErrNotFound
  | Connectors_ErrNotFound | Connectors_ErrValidation
  | Plugins_ErrNotImplemented | Plugins_ErrNotYetInstalled | Plugins_ErrInvalidClientRequest
  | Plugins_ErrUpstreamRatelimit | Plugins_ErrUpstreamTimeout | Plugins_ErrUpstreamRetryAfter
  | Plugins_ErrCurrencyNotSupported

fun sentinel_text :: "sentinel \<Rightarrow> string" where
  "sentinel_text Models_ErrInvalidConfig = ''invalid config''"
| "sentinel_text Models_ErrFailedAccountCreation = ''failed to create account''"
| "sentinel_text Models_ErrMissingFromPayloadInRequest = ''missing from payload in request''"
| "sentinel_text Models_ErrMissingAccountInRequest = ''missing account number in request''"
| "sentinel_text Models_ErrInvalidRequest = ''invalid request''"
| "sentinel_text Models_ErrValidation = ''validation error''"
| "sentinel_text Models_ErrWebhookVerification = ''webhook verification error''"
| "sentinel_text Models_ErrMissingPageSize = ''invalid request, missing page size in request''"
| "sentinel_text Models_ErrExceededMaxPageSize = ''invalid request, requested page size too high''"
| "sentinel_text Models_ErrMissingConnectorMetadata = ''missing required metadata in request''"
| "sentinel_text Models_ErrMissingConnectorField = ''missing required field in request''"
| "sentinel_text Storage_ErrValidation = ''validation error''"
| "sentinel_text Storage_ErrNotFound = ''not found''"
| "sentinel_text Storage_ErrDuplicateKeyValue = ''object already exists''"
| "sentinel_text Storage_ErrForeignKeyViolation = ''value not found''"
| "sentinel_text Engine_ErrValidation = ''validation error''"
| "sentinel_text Engine_ErrNotFound = ''not found''"
| "sentinel_text Services_ErrValidation = ''validation error''"
| "sentinel_text Services_ErrNotFound = ''not found''"
| "sentinel_text Connectors_ErrNotFound = ''plugin not loaded in manager''"
| "sentinel_text Connectors_ErrValidation = ''validation error''"
| "sentinel_text Plugins_ErrNotImplemented = ''not implemented''"
| "sentinel_text Plugins_ErrNotYetInstalled = ''not yet installed''"
| "sentinel_text Plugins_ErrInvalidClientRequest = ''invalid client request''"
| "sentinel_text Plugins_ErrUpstreamRatelimit = ''rate limited by upstream server''"
| "sentinel_text Plugins_ErrUpstreamTimeout = ''upstream timeout''"
| "sentinel_text Plugins_ErrUpstreamRetryAfter = ''upstream asked to retry later''"
| "sentinel_text Plugins_ErrCurrencyNotSupported = ''currency not supported''"

text \<open>
  Plain: errors.New.  Wrap m e: fmt.Errorf("m: %w", e).  Multi a b:
  fmt.Errorf("%w: %w", a, b).  StorageErr: services.storageError.
  ConnectorValidation: models.ConnectorValidationError with its field and
  cause.  ApplicationError: temporal's, with type, message, the non-retryable
  flag, the delay asked before the next retry and the cause; of its text only
  the message is represented.  Panic: a Go panic with this message.
\<close>

datatype error =
    Plain string
  | Sentinel sentinel
  | Wrap string error
  | Multi error error
  | StorageErr string error
  | ConnectorValidation string error
  | CapabilityNotSupported string string
  | ApplicationError string string bool "int option" "error option"
  | Panic string

fun error_text :: "error \<Rightarrow> string" where
  "error_text (Plain m) = m"
| "error_text (Sentinel s) = sentinel_text s"
| "error_text (Wrap m e) = m @ '': '' @ error_text e"
| "error_text (Multi a b) = error_text a @ '': '' @ error_text b"
| "error_text (StorageErr m e) = m @ '': '' @ error_text e"
| "error_text (ConnectorValidation field e) =
     ''validation error occurred for field '' @ field @ '': '' @ error_text e"
| "error_text (CapabilityNotSupported capability provider) =
     capability @ '' capability is not supported by the provider '' @ provider @
     ''. Check here the supported features: https://docs.formance.com/modules/connectivity/capabilities''"
| "error_text (ApplicationError t m nr d c) = m"
| "error_text (Panic m) = m"

text \<open>errors.Is against a sentinel.\<close>

fun errors_Is :: "error \<Rightarrow> sentinel \<Rightarrow> bool" where
  "errors_Is (Plain m) s = False"
| "errors_Is (Sentinel t) s = (t = s)"
| "errors_Is (Wrap m e) s = errors_Is e s"
| "errors_Is (Multi a b) s = (errors_Is a s \<or> errors_Is b s)"
| "errors_Is (StorageErr m e) s = errors_Is e s"
| "errors_Is (ConnectorValidation f e) s = errors_Is e s"
| "errors_Is (CapabilityNotSupported c p) s = False"
| "errors_Is (ApplicationError t m nr d None) s = False"
| "errors_Is (ApplicationError t m nr d (Some c)) s = errors_Is c s"
| "errors_Is (Panic m) s = False"

text \<open>errors.As for *models.ConnectorValidationError and for *temporal.ApplicationError (its type).\<close>

fun is_connector_validation :: "error \<Rightarrow> bool" where
  "is_connector_validation (ConnectorValidation f e) = True"
| "is_connector_validation (Wrap m e) = is_connector_validation e"
| "is_connector_validation (Multi a b) = (is_connector_validation a \<or> is_connector_validation b)"
| "is_connector_validation (StorageErr m e) = is_connector_validation e"
| "is_connector_validation (ApplicationError t m nr d (Some c)) = is_connector_validation c"
| "is_connector_validation _ = False"

fun application_error_type :: "error \<Rightarrow> string option" where
  "application_error_type (ApplicationError t m nr d c) = Some t"
| "application_error_type (Wrap m e) = application_error_type e"
| "application_error_type (Multi a b) =
     (case application_error_type a of Some t \<Rightarrow> Some t | None \<Rightarrow> application_error_type b)"
| "application_error_type (StorageErr m e) = application_error_type e"
| "application_error_type (ConnectorValidation f e) = application_error_type e"
| "application_error_type _ = None"

section \<open>pkg/domain/errors\<close>

definition NewWrappedError :: "error \<Rightarrow> error \<Rightarrow> error" where
  "NewWrappedError cause newError = Multi cause newError"

fun Cause :: "error \<Rightarrow> error" where
  "Cause (Wrap m e) = Cause e"
| "Cause (Multi a b) = Cause a"
| "Cause (StorageErr m e) = Cause e"
| "Cause (ConnectorValidation f e) = Cause e"
| "Cause (ApplicationError t m nr d (Some c)) = Cause c"
| "Cause err = err"

definition NewConnectorValidationError :: "string \<Rightarrow> error \<Rightarrow> error" where
  "NewConnectorValidationError field err = ConnectorValidation field err"

section \<open>Storage errors\<close>

text \<open>What postgres.ResolveError (go-libs) makes of a driver error.\<close>

datatype db_error =
    DbConstraintsFailed
  | DbFKConstraintFailed string
  | DbValidationFailed string
  | DbNotFound
  | DbOther error

definition FKViolationColumn :: "string list" where
  "FKViolationColumn =
     [''connector_id'', ''bank_account_id'', ''payment_id'', ''pool_id'', ''schedule_id'',
      ''payment_initiation_id'', ''payment_initiation_reversal_id'']"

fun has_prefix :: "string \<Rightarrow> string \<Rightarrow> bool" where
  "has_prefix [] s = True"
| "has_prefix (c # cs) [] = False"
| "has_prefix (c # cs) (d # ds) = (c = d \<and> has_prefix cs ds)"

text \<open>strings.Contains.\<close>

fun str_contains :: "string \<Rightarrow> string \<Rightarrow> bool" where
  "str_contains [] p = (p = [])"
| "str_contains (c # cs) p = (has_prefix p (c # cs) \<or> str_contains cs p)"

fun storage_e :: "string \<Rightarrow> db_error \<Rightarrow> error" where
  "storage_e msg DbConstraintsFailed = Sentinel Storage_ErrDuplicateKeyValue"
| "storage_e msg (DbFKConstraintFailed constr) =
     (case find (str_contains constr) FKViolationColumn of
        Some column \<Rightarrow> Wrap column (Sentinel Storage_ErrForeignKeyViolation)
      | None \<Rightarrow> Sentinel Storage_ErrForeignKeyViolation)"
| "storage_e msg (DbValidationFailed m) = Wrap m (Sentinel Storage_ErrValidation)"
| "storage_e msg DbNotFound = Sentinel Storage_ErrNotFound"
| "storage_e msg (DbOther err) = Wrap msg err"

section \<open>Classification towards Temporal and the API\<close>

definition ErrTypeStorage :: string where "ErrTypeStorage = ''STORAGE''"
definition ErrTypeDefault :: string where "ErrTypeDefault = ''DEFAULT''"
definition ErrTypeInvalidArgument :: string where "ErrTypeInvalidArgument = ''INVALID_ARGUMENT''"
definition ErrTypeRateLimited :: string where "ErrTypeRateLimited = ''RATE_LIMITED''"
definition ErrTypeTimeout :: string where "ErrTypeTimeout = ''TIMEOUT''"
definition ErrTypeRetryAfter :: string where "ErrTypeRetryAfter = ''RETRY_AFTER''"
definition ErrTypeUnimplemented :: string where "ErrTypeUnimplemented = ''UNIMPLEMENTED''"
definition workflow_ErrValidation :: string where "workflow_ErrValidation = ''VALIDATION''"

lemmas err_types = ErrTypeStorage_def ErrTypeDefault_def ErrTypeInvalidArgument_def
  ErrTypeRateLimited_def ErrTypeTimeout_def ErrTypeRetryAfter_def ErrTypeUnimplemented_def
  workflow_ErrValidation_def

definition temporalPluginErrorCheck :: "int \<Rightarrow> error \<Rightarrow> bool \<Rightarrow> error" where
  "temporalPluginErrorCheck rateLimitingRetryDelay err isPeriodic =
     (let cause = Cause err; msg = error_text err in
      if errors_Is err Plugins_ErrNotImplemented
      then ApplicationError ErrTypeUnimplemented msg True None (Some cause)
      else if errors_Is err Plugins_ErrInvalidClientRequest
      then ApplicationError ErrTypeInvalidArgument msg True None (Some cause)
      else if errors_Is err Plugins_ErrCurrencyNotSupported
      then ApplicationError ErrTypeInvalidArgument msg True None (Some cause)
      else if errors_Is err Connectors_ErrNotFound
      then ApplicationError ErrTypeInvalidArgument msg True None (Some cause)
      else if errors_Is err Models_ErrMissingConnectorMetadata
      then ApplicationError ErrTypeInvalidArgument msg True None (Some cause)
      else if errors_Is err Models_ErrWebhookVerification
      then ApplicationError ErrTypeInvalidArgument msg True None (Some cause)
      else if is_connector_validation err
      then ApplicationError ErrTypeInvalidArgument msg True None (Some cause)
      else if errors_Is err Plugins_ErrUpstreamRatelimit
      then ApplicationError ErrTypeRateLimited msg False (Some rateLimitingRetryDelay) None
      else if errors_Is err Plugins_ErrUpstreamTimeout
      then ApplicationError ErrTypeTimeout msg False None (Some cause)
      else if errors_Is err Plugins_ErrUpstreamRetryAfter
      then ApplicationError ErrTypeRetryAfter msg False (Some rateLimitingRetryDelay) None
      else if errors_Is err Plugins_ErrNotYetInstalled
      then ApplicationError ErrTypeDefault msg False None (Some cause)
      else ApplicationError ErrTypeDefault msg False None (Some cause))"

definition temporalStorageError :: "error option \<Rightarrow> error option" where
  "temporalStorageError err = (case err of
     None \<Rightarrow> None
   | Some er \<Rightarrow>
       if errors_Is er Storage_ErrNotFound \<or> errors_Is er Storage_ErrDuplicateKeyValue
          \<or> errors_Is er Storage_ErrValidation \<or> errors_Is er Storage_ErrForeignKeyViolation
       then Some (ApplicationError ErrTypeStorage (error_text er) True None (Some er))
       else Some (ApplicationError ErrTypeStorage (error_text er) False None (Some er)))"

definition handleWorkflowError :: "error \<Rightarrow> error" where
  "handleWorkflowError err = (case application_error_type err of
     Some t \<Rightarrow> if t = ErrTypeInvalidArgument \<or> t = workflow_ErrValidation
               then NewWrappedError (Cause err) (Sentinel Engine_ErrValidation) else err
   | None \<Rightarrow> err)"

definition handlePluginErrors :: "error option \<Rightarrow> error option" where
  "handlePluginErrors err = (case err of
     None \<Rightarrow> None
   | Some er \<Rightarrow> if errors_Is er Models_ErrInvalidRequest \<or> errors_Is er Models_ErrInvalidConfig
                then Some (NewWrappedError er (Sentinel Engine_ErrValidation)) else Some er)"

definition newStorageError :: "error option \<Rightarrow> string \<Rightarrow> error option" where
  "newStorageError err msg = map_option (StorageErr msg) err"

definition handleEngineErrors :: "error option \<Rightarrow> error option" where
  "handleEngineErrors err = (case err of
     None \<Rightarrow> None
   | Some er \<Rightarrow>
       if errors_Is er Engine_ErrValidation \<or> errors_Is er Models_ErrValidation
       then Some (NewWrappedError er (Sentinel Services_ErrValidation))
       else if errors_Is er Engine_ErrNotFound
       then Some (Multi er (Sentinel Services_ErrNotFound))
       else Some er)"

lemmas error_class_defs = temporalPluginErrorCheck_def temporalStorageError_def
  handleWorkflowError_def handlePluginErrors_def newStorageError_def handleEngineErrors_def
  NewWrappedError_def NewConnectorValidationError_def

section \<open>Facts\<close>

lemma NewWrappedError_Is [simp]:
  "errors_Is (NewWrappedError c n) s \<longleftrightarrow> errors_Is c s \<or> errors_Is n s"
  by (simp add: NewWrappedError_def)

lemma Cause_NewWrappedError [simp]: "Cause (NewWrappedError c n) = Cause c"
  by (simp add: NewWrappedError_def)

text \<open>Cause ends at an error that wraps nothing.\<close>

fun unwraps :: "error \<Rightarrow> bool" where
  "unwraps (Wrap m e) = True"
| "unwraps (Multi a b) = True"
| "unwraps (StorageErr m e) = True"
| "unwraps (ConnectorValidation f e) = True"
| "unwraps (ApplicationError t m nr d (Some c)) = True"
| "unwraps _ = False"

lemma Cause_is_root: "\<not> unwraps (Cause err)"
  by (induction err rule: Cause.induct) auto

lemma Cause_root [simp]: "\<not> unwraps err \<Longrightarrow> Cause err = err"
  by (cases err rule: Cause.cases) auto

lemma Cause_idem [simp]: "Cause (Cause err) = Cause err"
  by (simp add: Cause_is_root)

lemma Cause_Is: "errors_Is (Cause err) s \<Longrightarrow> errors_Is err s"
  by (induction err rule: Cause.induct) auto

fun non_retryable :: "error \<Rightarrow> bool" where
  "non_retryable (ApplicationError t m nr d c) = nr"
| "non_retryable _ = False"

text \<open>Every plugin error becomes an application error that carries its text.\<close>

lemma temporalPluginErrorCheck_shape:
  "\<exists>t nr d c. temporalPluginErrorCheck delay err periodic
     = ApplicationError t (error_text err) nr d c"
  by (auto simp: temporalPluginErrorCheck_def Let_def)

end
