(* ===== verification/Prelude.thy ===== *)
theory Prelude
  imports Errors
begin

text \<open>
  Shared vocabulary of the development: the result type of fallible functions,
  JSON and database/sql values as the source sees them, and database
  transactions as state transformers with rollback.
\<close>

named_theorems go_defs \<open>definitions of the small Go helpers, for evaluation\<close>
named_theorems tx_simps \<open>evaluation of transactions\<close>
named_theorems tbl_simps \<open>rewriting of table operations\<close>

section \<open>Results\<close>

type_synonym 'a result = "error + 'a"

fun result_bind :: "'a result \<Rightarrow> ('a \<Rightarrow> 'b result) \<Rightarrow> 'b result" where
  "result_bind (Inl e) f = Inl e"
| "result_bind (Inr a) f = f a"

fun result_map_list :: "('a \<Rightarrow> 'b result) \<Rightarrow> 'a list \<Rightarrow> 'b list result" where
  "result_map_list f [] = Inr []"
| "result_map_list f (x # xs) =
     result_bind (f x) (\<lambda>y. result_bind (result_map_list f xs) (\<lambda>ys. Inr (y # ys)))"

fun is_ok :: "'a result \<Rightarrow> bool" where
  "is_ok (Inl e) = False"
| "is_ok (Inr a) = True"

lemma result_bind_Inr_iff [simp]:
  "result_bind r f = Inr b \<longleftrightarrow> (\<exists>a. r = Inr a \<and> f a = Inr b)"
  by (cases r) auto

lemma result_map_list_Inr_iff:
  "result_map_list f xs = Inr ys \<longleftrightarrow> list_all2 (\<lambda>x y. f x = Inr y) xs ys"
  by (induction xs arbitrary: ys) (auto simp: list_all2_Cons1)

lemma result_map_list_length:
  "result_map_list f xs = Inr ys \<Longrightarrow> length ys = length xs"
  by (simp add: result_map_list_Inr_iff list_all2_lengthD)

text \<open>The first failing element decides the error.\<close>

lemma result_map_list_Inl_iff:
  "result_map_list f xs = Inl e \<longleftrightarrow>
    (\<exists>us x vs. xs = us @ x # vs \<and> (\<forall>u\<in>set us. is_ok (f u)) \<and> f x = Inl e)"
proof (induction xs)
  case Nil
  then show ?case by simp
next
  case (Cons a xs)
  show ?case
  proof (cases "f a")
    case (Inl d)
    have "(\<exists>us x vs. a # xs = us @ x # vs \<and> (\<forall>u\<in>set us. is_ok (f u)) \<and> f x = Inl e)
        \<longleftrightarrow> d = e"
    proof
      assume "\<exists>us x vs. a # xs = us @ x # vs \<and> (\<forall>u\<in>set us. is_ok (f u)) \<and> f x = Inl e"
      then obtain us x vs where "a # xs = us @ x # vs" "\<forall>u\<in>set us. is_ok (f u)" "f x = Inl e"
        by blast
      with Inl show "d = e" by (cases us) auto
    next
      assume "d = e"
      with Inl show "\<exists>us x vs. a # xs = us @ x # vs \<and> (\<forall>u\<in>set us. is_ok (f u)) \<and> f x = Inl e"
        by (intro exI[of _ "[]"] exI[of _ a] exI[of _ xs]) simp
    qed
    with Inl show ?thesis by simp
  next
    case (Inr b)
    have "result_map_list f (a # xs) = Inl e \<longleftrightarrow> result_map_list f xs = Inl e"
      using Inr by (cases "result_map_list f xs") auto
    also have "\<dots> \<longleftrightarrow>
      (\<exists>us x vs. a # xs = us @ x # vs \<and> (\<forall>u\<in>set us. is_ok (f u)) \<and> f x = Inl e)"
      unfolding Cons.IH
    proof
      assume "\<exists>us x vs. xs = us @ x # vs \<and> (\<forall>u\<in>set us. is_ok (f u)) \<and> f x = Inl e"
      then obtain us x vs where "xs = us @ x # vs" "\<forall>u\<in>set us. is_ok (f u)" "f x = Inl e"
        by blast
      with Inr show "\<exists>us x vs. a # xs = us @ x # vs \<and> (\<forall>u\<in>set us. is_ok (f u)) \<and> f x = Inl e"
        by (intro exI[of _ "a # us"] exI[of _ x] exI[of _ vs]) simp
    next
      assume "\<exists>us x vs. a # xs = us @ x # vs \<and> (\<forall>u\<in>set us. is_ok (f u)) \<and> f x = Inl e"
      then obtain us x vs where *: "a # xs = us @ x # vs" "\<forall>u\<in>set us. is_ok (f u)" "f x = Inl e"
        by blast
      with Inr have "us \<noteq> []" by (cases us) auto
      with * obtain us' where "us = a # us'" by (cases us) auto
      with * show "\<exists>us x vs. xs = us @ x # vs \<and> (\<forall>u\<in>set us. is_ok (f u)) \<and> f x = Inl e"
        by auto
    qed
    finally show ?thesis .
  qed
qed

section \<open>JSON and SQL driver values\<close>

text \<open>
  The JSON documents the hand-written (un)marshallers exchange with
  encoding/json, as trees; object members keep their order.
\<close>

datatype json =
    JNull
  | JBool bool
  | JNum int
  | JString string
  | JArray "json list"
  | JObject "(string \<times> json) list"

text \<open>
  \<^verbatim>\<open>json.Unmarshal(data, &v)\<close> with v a fresh Go string: null leaves v
  at its zero value, a JSON string sets it, any other document is an error.
\<close>

fun json_to_string :: "json \<Rightarrow> string result" where
  "json_to_string JNull = Inr []"
| "json_to_string (JString s) = Inr s"
| "json_to_string _ = Inl (Plain ''json: cannot unmarshal into Go value of type string'')"

text \<open>
  The values database/sql hands to Scan.  A float64 or a time.Time is carried
  as its rendering by the verb %v, the only thing the source takes from it.
\<close>

datatype driver_value =
    DVNil
  | DVString string
  | DVBytes string
  | DVInt int
  | DVBool bool
  | DVOther string

fun nat_digits :: "nat \<Rightarrow> string" where
  "nat_digits n =
     (if n < 10 then [char_of (48 + n)]
      else nat_digits (n div 10) @ [char_of (48 + n mod 10)])"

declare nat_digits.simps [simp del]

definition int_digits :: "int \<Rightarrow> string" where
  "int_digits i = (if i < 0 then CHR ''-'' # nat_digits (nat (- i)) else nat_digits (nat i))"

text \<open>
  \<^verbatim>\<open>driver.String.ConvertValue\<close> followed by the type assertion
  \<^verbatim>\<open>.(string)\<close>: strings and byte slices pass unchanged (and a byte
  slice then fails the assertion), anything else is formatted with %v.  The
  conversion itself never fails, so the first error branch of every Scan is dead.
\<close>

fun convert_to_string :: "driver_value \<Rightarrow> string option" where
  "convert_to_string DVNil = Some ''<nil>''"
| "convert_to_string (DVString s) = Some s"
| "convert_to_string (DVBytes s) = None"
| "convert_to_string (DVInt i) = Some (int_digits i)"
| "convert_to_string (DVBool b) = Some (if b then ''true'' else ''false'')"
| "convert_to_string (DVOther s) = Some s"

section \<open>Transactions\<close>

text \<open>
  A storage function is a state transformer: it reads and writes the database
  and returns a value or an error.  tx_bind stops at the first error and keeps
  the intermediate state; in_tx is BeginTx .. Commit with the deferred
  rollback: on an error the database is the one the transaction started from.
\<close>

type_synonym ('s, 'a) tx = "'s \<Rightarrow> 'a result \<times> 's"

definition tx_return :: "'a \<Rightarrow> ('s, 'a) tx" where
  "tx_return a = (\<lambda>s. (Inr a, s))"

definition tx_fail :: "error \<Rightarrow> ('s, 'a) tx" where
  "tx_fail e = (\<lambda>s. (Inl e, s))"

definition tx_bind :: "('s, 'a) tx \<Rightarrow> ('a \<Rightarrow> ('s, 'b) tx) \<Rightarrow> ('s, 'b) tx" where
  "tx_bind m f = (\<lambda>s. case m s of (Inl e, s') \<Rightarrow> (Inl e, s') | (Inr a, s') \<Rightarrow> f a s')"

definition tx_seq :: "('s, 'a) tx \<Rightarrow> ('s, 'b) tx \<Rightarrow> ('s, 'b) tx" where
  "tx_seq m n = tx_bind m (\<lambda>_. n)"

definition tx_get :: "('s \<Rightarrow> 'a) \<Rightarrow> ('s, 'a) tx" where
  "tx_get f = (\<lambda>s. (Inr (f s), s))"

definition tx_modify :: "('s \<Rightarrow> 's) \<Rightarrow> ('s, unit) tx" where
  "tx_modify f = (\<lambda>s. (Inr (), f s))"

definition tx_lift :: "'a result \<Rightarrow> ('s, 'a) tx" where
  "tx_lift r = (\<lambda>s. (r, s))"

definition tx_when :: "bool \<Rightarrow> ('s, unit) tx \<Rightarrow> ('s, unit) tx" where
  "tx_when b m = (if b then m else tx_return ())"

fun tx_for :: "'a list \<Rightarrow> ('a \<Rightarrow> ('s, unit) tx) \<Rightarrow> ('s, unit) tx" where
  "tx_for [] f = tx_return ()"
| "tx_for (x # xs) f = tx_seq (f x) (tx_for xs f)"

text \<open>
  The faults oracle says which statements the database refuses (connection
  lost, timeout, serialization failure, a trigger) and with what error; a
  statement is named by the message the source gives its error.
\<close>

type_synonym faults = "string \<Rightarrow> db_error option"

definition no_faults :: faults where
  "no_faults = (\<lambda>_. None)"

definition stmt :: "faults \<Rightarrow> string \<Rightarrow> ('s, 'a) tx \<Rightarrow> ('s, 'a) tx" where
  "stmt fl msg m = (case fl msg of Some d \<Rightarrow> tx_fail (storage_e msg d) | None \<Rightarrow> m)"

text \<open>A statement the database refuses because of its data.\<close>

definition refuse :: "string \<Rightarrow> db_error \<Rightarrow> ('s, 'a) tx" where
  "refuse msg d = tx_fail (storage_e msg d)"

text \<open>
  BeginTx, body, Commit; begin_msg and commit_msg are the messages of the
  first and last step in the source.
\<close>

definition in_tx :: "faults \<Rightarrow> string \<Rightarrow> string \<Rightarrow> ('s, 'a) tx \<Rightarrow> ('s, 'a) tx" where
  "in_tx fl begin_msg commit_msg body = (\<lambda>s.
     case fl begin_msg of
       Some d \<Rightarrow> (Inl (storage_e begin_msg d), s)
     | None \<Rightarrow> (case body s of
          (Inl e, s') \<Rightarrow> (Inl e, s)
        | (Inr a, s') \<Rightarrow> (case fl commit_msg of
             Some d \<Rightarrow> (Inl (storage_e commit_msg d), s)
           | None \<Rightarrow> (Inr a, s'))))"

lemmas tx_defs = tx_return_def tx_fail_def tx_bind_def tx_seq_def tx_get_def tx_modify_def
  tx_lift_def tx_when_def

lemma tx_return_apply [tx_simps, simp]: "tx_return a s = (Inr a, s)"
  by (simp add: tx_return_def)

lemma tx_fail_apply [tx_simps, simp]: "tx_fail e s = (Inl e, s)"
  by (simp add: tx_fail_def)

lemma tx_get_apply [tx_simps, simp]: "tx_get f s = (Inr (f s), s)"
  by (simp add: tx_get_def)

lemma tx_modify_apply [tx_simps, simp]: "tx_modify f s = (Inr (), f s)"
  by (simp add: tx_modify_def)

lemma tx_lift_apply [tx_simps, simp]: "tx_lift r s = (r, s)"
  by (simp add: tx_lift_def)

lemma tx_bind_return [tx_simps, simp]: "tx_bind (tx_return a) f = f a"
  by (simp add: tx_bind_def fun_eq_iff)

lemma tx_bind_fail [tx_simps, simp]: "tx_bind (tx_fail e) f = tx_fail e"
  by (simp add: tx_bind_def fun_eq_iff)

lemma tx_bind_assoc: "tx_bind (tx_bind m f) g = tx_bind m (\<lambda>a. tx_bind (f a) g)"
  by (auto simp: tx_bind_def fun_eq_iff split: prod.splits sum.splits)

lemma tx_bind_Inr_iff:
  "tx_bind m f s = (Inr b, s'') \<longleftrightarrow> (\<exists>a s'. m s = (Inr a, s') \<and> f a s' = (Inr b, s''))"
  by (auto simp: tx_bind_def split: prod.splits sum.splits)

lemma tx_bind_Inl_iff:
  "tx_bind m f s = (Inl e, s'') \<longleftrightarrow>
     m s = (Inl e, s'') \<or> (\<exists>a s'. m s = (Inr a, s') \<and> f a s' = (Inl e, s''))"
  by (auto simp: tx_bind_def split: prod.splits sum.splits)

lemma tx_seq_Inr_iff:
  "tx_seq m n s = (Inr b, s'') \<longleftrightarrow> (\<exists>a s'. m s = (Inr a, s') \<and> n s' = (Inr b, s''))"
  by (simp add: tx_seq_def tx_bind_Inr_iff)

lemma tx_when_Inr_iff:
  "tx_when b m s = (Inr u, s') \<longleftrightarrow> (if b then m s = (Inr u, s') else s' = s)"
  by (auto simp: tx_when_def)

lemma stmt_Inr_iff [simp]:
  "stmt fl msg m s = (Inr a, s') \<longleftrightarrow> fl msg = None \<and> m s = (Inr a, s')"
  by (auto simp: stmt_def split: option.splits)

lemma refuse_Inr [simp]: "refuse msg d s \<noteq> (Inr a, s')"
  by (simp add: refuse_def)

lemma stmt_no_faults [tx_simps, simp]: "stmt no_faults msg m = m"
  by (simp add: stmt_def no_faults_def)

lemma in_tx_Inr_iff:
  "in_tx fl b c body s = (Inr a, s') \<longleftrightarrow> fl b = None \<and> fl c = None \<and> body s = (Inr a, s')"
  by (auto simp: in_tx_def split: prod.splits sum.splits option.splits)

text \<open>Atomicity: a transaction that reports an error has not changed the database.\<close>

lemma in_tx_rollback: "in_tx fl b c body s = (Inl e, s') \<Longrightarrow> s' = s"
  by (auto simp: in_tx_def split: prod.splits sum.splits option.splits)

lemma in_tx_no_faults [tx_simps]:
  "in_tx no_faults b c body s =
     (case body s of (Inl e, s') \<Rightarrow> (Inl e, s) | (Inr a, s') \<Rightarrow> (Inr a, s'))"
  by (auto simp: in_tx_def no_faults_def split: prod.splits sum.splits)

lemmas tx_inr = tx_bind_Inr_iff tx_seq_Inr_iff tx_when_Inr_iff in_tx_Inr_iff

text \<open>
  The contract of a function that runs in its own transaction, whichever
  tables it touches: it either returns a value or leaves the state as it was.
\<close>

definition atomic_op :: "('s, 'a) tx \<Rightarrow> bool" where
  "atomic_op m \<longleftrightarrow> (\<forall>s e s'. m s = (Inl e, s') \<longrightarrow> s' = s)"

lemma atomic_in_tx [intro]: "atomic_op (in_tx fl b c body)"
  by (auto simp: atomic_op_def dest: in_tx_rollback)

lemma tx_for_invariant:
  assumes "\<And>x s a s'. x \<in> set xs \<Longrightarrow> P s \<Longrightarrow> f x s = (Inr a, s') \<Longrightarrow> P s'"
    and "P s" and "tx_for xs f s = (Inr u, s')"
  shows "P s'"
  using assms
proof (induction xs arbitrary: s)
  case Nil
  then show ?case by simp
next
  case (Cons x xs)
  from Cons.prems(3) obtain a s1 where "f x s = (Inr a, s1)" "tx_for xs f s1 = (Inr u, s')"
    by (auto simp: tx_seq_Inr_iff)
  with Cons.prems(1,2) Cons.IH[of s1] show ?case
    by (meson list.set_intros)
qed

end
