(* ===== verification/Codec.thy ===== *)
theory Codec
  imports Prelude
begin

text \<open>
  The conversions every enumeration of pkg/domain/models hand-writes: to and
  from its text, JSON and database/sql.  The method bodies come in two shapes,
  one that assigns the receiver only on success and one that assigns it the
  result of the parser even when it failed (the zero constant).  The locales
  state what a text codec promises and derive the JSON and SQL round trips
  once.
\<close>

section \<open>The method bodies\<close>

text \<open>
  The effect of a pointer-receiver method: the error it returns, if any, and
  the value the receiver holds afterwards.
\<close>

type_synonym 'a setter = "error option \<times> 'a"

definition unmarshal_keep :: "(string \<Rightarrow> 'a result) \<Rightarrow> json \<Rightarrow> 'a \<Rightarrow> 'a setter" where
  "unmarshal_keep parse data t =
     (case json_to_string data of
        Inl e \<Rightarrow> (Some e, t)
      | Inr v \<Rightarrow> (case parse v of Inl e \<Rightarrow> (Some e, t) | Inr x \<Rightarrow> (None, x)))"

definition unmarshal_assign :: "(string \<Rightarrow> 'a result) \<Rightarrow> 'a \<Rightarrow> json \<Rightarrow> 'a \<Rightarrow> 'a setter" where
  "unmarshal_assign parse zero data t =
     (case json_to_string data of
        Inl e \<Rightarrow> (Some e, t)
      | Inr v \<Rightarrow> (case parse v of Inl e \<Rightarrow> (Some e, zero) | Inr x \<Rightarrow> (None, x)))"

definition scan_keep ::
  "(string \<Rightarrow> 'a result) \<Rightarrow> string \<Rightarrow> string \<Rightarrow> driver_value \<Rightarrow> 'a \<Rightarrow> 'a setter" where
  "scan_keep parse nil_msg cast_msg v t =
     (if v = DVNil then (Some (Plain nil_msg), t)
      else (case convert_to_string v of
              None \<Rightarrow> (Some (Plain cast_msg), t)
            | Some s \<Rightarrow> (case parse s of Inl e \<Rightarrow> (Some e, t) | Inr x \<Rightarrow> (None, x))))"

definition scan_assign ::
  "(string \<Rightarrow> 'a result) \<Rightarrow> 'a \<Rightarrow> string \<Rightarrow> string \<Rightarrow> driver_value \<Rightarrow> 'a \<Rightarrow> 'a setter" where
  "scan_assign parse zero nil_msg cast_msg v t =
     (if v = DVNil then (Some (Plain nil_msg), t)
      else (case convert_to_string v of
              None \<Rightarrow> (Some (Plain cast_msg), t)
            | Some s \<Rightarrow> (case parse s of Inl e \<Rightarrow> (Some e, zero) | Inr x \<Rightarrow> (None, x))))"

text \<open>The Must.. variants panic with the parser's error.\<close>

fun must :: "'a result \<Rightarrow> 'a result" where
  "must (Inr x) = Inr x"
| "must (Inl e) = Inl (Panic (error_text e))"

lemmas codec_bodies =
  unmarshal_keep_def unmarshal_assign_def scan_keep_def scan_assign_def

section \<open>What a text codec promises\<close>

locale text_codec =
  fixes to_text :: "'a \<Rightarrow> string"
    and of_text :: "string \<Rightarrow> 'a result"
    and writable :: "'a \<Rightarrow> bool"
  assumes of_to: "writable t \<Longrightarrow> of_text (to_text t) = Inr t"
begin

lemma text_inj: "inj_on to_text {t. writable t}"
  by (rule inj_onI) (metis CollectD Inr_inject of_to)

lemma json_keep: "writable t \<Longrightarrow> unmarshal_keep of_text (JString (to_text t)) t0 = (None, t)"
  by (simp add: unmarshal_keep_def of_to)

lemma json_assign:
  "writable t \<Longrightarrow> unmarshal_assign of_text z (JString (to_text t)) t0 = (None, t)"
  by (simp add: unmarshal_assign_def of_to)

lemma sql_keep:
  "writable t \<Longrightarrow> scan_keep of_text n c (DVString (to_text t)) t0 = (None, t)"
  by (simp add: scan_keep_def of_to)

lemma sql_assign:
  "writable t \<Longrightarrow> scan_assign of_text z n c (DVString (to_text t)) t0 = (None, t)"
  by (simp add: scan_assign_def of_to)

lemma must_to: "writable t \<Longrightarrow> must (of_text (to_text t)) = Inr t"
  by (simp add: of_to)

end

text \<open>A strict codec accepts nothing but the texts it writes.\<close>

locale strict_codec = text_codec +
  assumes to_of: "of_text s = Inr t \<Longrightarrow> to_text t = s \<and> writable t"
begin

lemma accepts_iff: "is_ok (of_text s) \<longleftrightarrow> s \<in> to_text ` {t. writable t}"
proof
  assume "is_ok (of_text s)"
  then obtain t where "of_text s = Inr t" by (cases "of_text s") auto
  with to_of show "s \<in> to_text ` {t. writable t}" by blast
next
  assume "s \<in> to_text ` {t. writable t}"
  with of_to show "is_ok (of_text s)" by auto
qed

lemma refused: "s \<notin> to_text ` {t. writable t} \<Longrightarrow> \<exists>e. of_text s = Inl e"
  using accepts_iff[of s] by (cases "of_text s") auto

lemma json_keep_refused:
  "s \<notin> to_text ` {t. writable t} \<Longrightarrow> \<exists>e. unmarshal_keep of_text (JString s) t0 = (Some e, t0)"
  using refused[of s] by (auto simp: unmarshal_keep_def)

lemma json_assign_refused:
  "s \<notin> to_text ` {t. writable t} \<Longrightarrow> \<exists>e. unmarshal_assign of_text z (JString s) t0 = (Some e, z)"
  using refused[of s] by (auto simp: unmarshal_assign_def)

lemma json_keep_ok_iff:
  "fst (unmarshal_keep of_text data t0) = None \<longleftrightarrow>
     (\<exists>t. writable t \<and> json_to_string data = Inr (to_text t))"
proof (cases "json_to_string data")
  case (Inl e)
  then show ?thesis by (simp add: unmarshal_keep_def)
next
  case (Inr s)
  then show ?thesis
    using of_to to_of by (cases "of_text s") (auto simp: unmarshal_keep_def)
qed

end

end
