(* ===== verification/Base64.thy ===== *)
theory Base64
  imports Prelude
begin

text \<open>
  encoding/base64 of the Go standard library as the identifiers use it: the URL
  alphabet without padding (base64.URLEncoding.WithPadding(base64.NoPadding)).
  The decoder is Go's: it skips carriage returns and line feeds, ignores the
  unused low bits of the last digit, and fails on any other character and on a
  last group of a single digit.  Bytes are the characters of a string.
\<close>

section \<open>Digits\<close>

text \<open>The digits A-Z, a-z, 0-9, minus and underscore, in this order.\<close>

definition b64_digit :: "nat \<Rightarrow> char" where
  "b64_digit n = char_of
     (if n < 26 then 65 + n else if n < 52 then 71 + n else if n < 62 then n - 4
      else if n = 62 then 45 else (95 :: nat))"

definition b64_value :: "char \<Rightarrow> nat option" where
  "b64_value c = (let n = (of_char c :: nat) in
     if 65 \<le> n \<and> n \<le> 90 then Some (n - 65)
     else if 97 \<le> n \<and> n \<le> 122 then Some (n - 71)
     else if 48 \<le> n \<and> n \<le> 57 then Some (n + 4)
     else if n = 45 then Some 62
     else if n = 95 then Some 63
     else None)"

section \<open>Encoding and decoding\<close>

fun EncodeToString :: "string \<Rightarrow> string" where
  "EncodeToString [] = []"
| "EncodeToString [a] =
     (let x = (of_char a :: nat) in [b64_digit (x div 4), b64_digit (x mod 4 * 16)])"
| "EncodeToString [a, b] =
     (let x = (of_char a :: nat); y = (of_char b :: nat) in
      [b64_digit (x div 4), b64_digit (x mod 4 * 16 + y div 16), b64_digit (y mod 16 * 4)])"
| "EncodeToString (a # b # c # s) =
     (let x = (of_char a :: nat); y = (of_char b :: nat); z = (of_char c :: nat) in
      b64_digit (x div 4) # b64_digit (x mod 4 * 16 + y div 16) #
      b64_digit (y mod 16 * 4 + z div 64) # b64_digit (z mod 64) # EncodeToString s)"

fun decode_digits :: "nat list \<Rightarrow> string option" where
  "decode_digits [] = Some []"
| "decode_digits [p] = None"
| "decode_digits [p, q] = Some [char_of (p * 4 + q div 16)]"
| "decode_digits [p, q, r] =
     Some [char_of (p * 4 + q div 16), char_of (q mod 16 * 16 + r div 4)]"
| "decode_digits (p # q # r # t # ds) =
     (case decode_digits ds of None \<Rightarrow> None
      | Some s \<Rightarrow> Some (char_of (p * 4 + q div 16) # char_of (q mod 16 * 16 + r div 4) #
                        char_of (r mod 4 * 64 + t) # s))"

fun digit_values :: "string \<Rightarrow> nat list option" where
  "digit_values [] = Some []"
| "digit_values (c # s) =
     (case b64_value c of None \<Rightarrow> None
      | Some n \<Rightarrow> (case digit_values s of None \<Rightarrow> None | Some ns \<Rightarrow> Some (n # ns)))"

definition is_line_break :: "char \<Rightarrow> bool" where
  "is_line_break c \<longleftrightarrow> (of_char c :: nat) = 10 \<or> (of_char c :: nat) = 13"

definition corrupt_input :: error where
  "corrupt_input = Plain ''illegal base64 data''"

definition DecodeString :: "string \<Rightarrow> string result" where
  "DecodeString s =
     (case digit_values (filter (\<lambda>c. \<not> is_line_break c) s) of
        None \<Rightarrow> Inl corrupt_input
      | Some ns \<Rightarrow> (case decode_digits ns of None \<Rightarrow> Inl corrupt_input | Some r \<Rightarrow> Inr r))"

section \<open>Round trip\<close>

lemma of_char_b64_digit:
  assumes "n < 64"
  shows "(of_char (b64_digit n) :: nat) =
    (if n < 26 then 65 + n else if n < 52 then 71 + n else if n < 62 then n - 4
      else if n = 62 then 45 else 95)"
  using assms by (simp add: b64_digit_def)

lemma b64_value_digit:
  assumes "n < 64"
  shows "b64_value (b64_digit n) = Some n" "\<not> is_line_break (b64_digit n)"
  using assms by (auto simp: b64_value_def is_line_break_def of_char_b64_digit Let_def)

lemma of_char_256: "(of_char c :: nat) < 256"
  using nat_of_char_less_256 .

lemma sextets_join:
  fixes x y z :: nat
  assumes "x < 256" "y < 256" "z < 256"
  shows "x div 4 * 4 + (x mod 4 * 16 + y div 16) div 16 = x"
    "x div 4 * 4 + (x mod 4 * 16) div 16 = x"
    "(x mod 4 * 16 + y div 16) mod 16 * 16 + (y mod 16 * 4 + z div 64) div 4 = y"
    "(x mod 4 * 16 + y div 16) mod 16 * 16 + (y mod 16 * 4) div 4 = y"
    "(y mod 16 * 4 + z div 64) mod 4 * 64 + z mod 64 = z"
proof -
  have "y div 16 < 16" "z div 64 < 4"
    using assms by (simp_all add: less_mult_imp_div_less)
  then have "(x mod 4 * 16 + y div 16) div 16 = x mod 4" "(x mod 4 * 16 + y div 16) mod 16 = y div 16"
    "(y mod 16 * 4 + z div 64) div 4 = y mod 16" "(y mod 16 * 4 + z div 64) mod 4 = z div 64"
    by simp_all
  then show "x div 4 * 4 + (x mod 4 * 16 + y div 16) div 16 = x"
    "x div 4 * 4 + (x mod 4 * 16) div 16 = x"
    "(x mod 4 * 16 + y div 16) mod 16 * 16 + (y mod 16 * 4 + z div 64) div 4 = y"
    "(x mod 4 * 16 + y div 16) mod 16 * 16 + (y mod 16 * 4) div 4 = y"
    "(y mod 16 * 4 + z div 64) mod 4 * 64 + z mod 64 = z"
    by (simp_all only: div_mult_mod_eq nonzero_mult_div_cancel_right[of "16::nat"]
        nonzero_mult_div_cancel_right[of "4::nat"] zero_neq_numeral not_False_eq_True
        numeral_neq_zero)
qed

lemma sextet_bounds:
  fixes x y z :: nat
  assumes "x < 256" "y < 256" "z < 256"
  shows "x div 4 < 64" "x mod 4 * 16 < 64" "x mod 4 * 16 + y div 16 < 64"
    "y mod 16 * 4 < 64" "y mod 16 * 4 + z div 64 < 64" "z mod 64 < 64"
proof -
  have "x div 4 < 64" "y div 16 < 16" "z div 64 < 4" "x mod 4 < 4" "y mod 16 < 16" "z mod 64 < 64"
    using assms by (simp_all add: less_mult_imp_div_less)
  then show "x div 4 < 64" "x mod 4 * 16 < 64" "x mod 4 * 16 + y div 16 < 64"
    "y mod 16 * 4 < 64" "y mod 16 * 4 + z div 64 < 64" "z mod 64 < 64"
    by linarith+
qed

lemma EncodeToString_clean: "\<forall>c\<in>set (EncodeToString s). \<not> is_line_break c"
proof (induction s rule: EncodeToString.induct)
  case 1
  then show ?case by simp
next
  case (2 a)
  note a = of_char_256[of a]
  from sextet_bounds[OF a a a] show ?case by (simp add: Let_def b64_value_digit)
next
  case (3 a b)
  note a = of_char_256[of a] and b = of_char_256[of b]
  from sextet_bounds[OF a b b] show ?case by (simp add: Let_def b64_value_digit)
next
  case (4 a b c s)
  note a = of_char_256[of a] and b = of_char_256[of b] and c = of_char_256[of c]
  from sextet_bounds[OF a b c] "4"(1)[OF refl refl refl] show ?case by (simp add: Let_def b64_value_digit)
qed

lemma filter_EncodeToString: "filter (\<lambda>c. \<not> is_line_break c) (EncodeToString s) = EncodeToString s"
  using EncodeToString_clean by (simp add: filter_id_conv)

lemma digits_of_encoded:
  "\<exists>ns. digit_values (EncodeToString s) = Some ns \<and> decode_digits ns = Some s"
proof (induction s rule: EncodeToString.induct)
  case 1
  then show ?case by simp
next
  case (2 a)
  note b = of_char_256[of a]
  show ?case
    using sextet_bounds[OF b b b] sextets_join(2)[OF b b b]
    by (simp add: Let_def b64_value_digit)
next
  case (3 a b)
  note x = of_char_256[of a] and y = of_char_256[of b]
  show ?case
    using sextet_bounds[OF x y y] sextets_join(1,4)[OF x y y]
    by (simp add: Let_def b64_value_digit)
next
  case (4 a b c s)
  note x = of_char_256[of a] and y = of_char_256[of b] and z = of_char_256[of c]
  from "4"(1)[OF refl refl refl] obtain ns
    where "digit_values (EncodeToString s) = Some ns" "decode_digits ns = Some s"
    by blast
  then show ?case
    using sextet_bounds[OF x y z] sextets_join(1,3,5)[OF x y z]
    by (simp add: Let_def b64_value_digit)
qed

lemma Decode_Encode: "DecodeString (EncodeToString s) = Inr s"
  using digits_of_encoded[of s] by (auto simp: DecodeString_def filter_EncodeToString)

lemma EncodeToString_inj: "EncodeToString s = EncodeToString t \<Longrightarrow> s = t"
  by (metis Decode_Encode Inr_inject)

lemma EncodeToString_Nil [simp]: "EncodeToString s = [] \<longleftrightarrow> s = []"
  by (cases s rule: EncodeToString.cases) (simp_all add: Let_def)

end
