(* ===== verification/Payment_Enums.thy ===== *)
theory Payment_Enums
  imports Codec
begin

text \<open>
  The enumerations of payments: payment_status.go, payment_type.go and
  payment_scheme.go of pkg/domain/models.  A Go constant outside the declared
  ones, which prints as UNKNOWN, has no counterpart here.
\<close>

section \<open>PaymentStatus\<close>

datatype PaymentStatus =
    PAYMENT_STATUS_UNKNOWN
  | PAYMENT_STATUS_PENDING
  | PAYMENT_STATUS_SUCCEEDED
  | PAYMENT_STATUS_CANCELLED
  | PAYMENT_STATUS_FAILED
  | PAYMENT_STATUS_EXPIRED
  | PAYMENT_STATUS_REFUNDED
  | PAYMENT_STATUS_REFUNDED_FAILURE
  | PAYMENT_STATUS_REFUND_REVERSED
  | PAYMENT_STATUS_DISPUTE
  | PAYMENT_STATUS_DISPUTE_WON
  | PAYMENT_STATUS_DISPUTE_LOST
  | PAYMENT_STATUS_AMOUNT_ADJUSTMENT
  | PAYMENT_STATUS_AUTHORISATION
  | PAYMENT_STATUS_CAPTURE
  | PAYMENT_STATUS_CAPTURE_FAILED
  | PAYMENT_STATUS_OTHER

fun PaymentStatus_String :: "PaymentStatus \<Rightarrow> string" where
  "PaymentStatus_String PAYMENT_STATUS_UNKNOWN = ''UNKNOWN''"
| "PaymentStatus_String PAYMENT_STATUS_PENDING = ''PENDING''"
| "PaymentStatus_String PAYMENT_STATUS_SUCCEEDED = ''SUCCEEDED''"
| "PaymentStatus_String PAYMENT_STATUS_CANCELLED = ''CANCELLED''"
| "PaymentStatus_String PAYMENT_STATUS_FAILED = ''FAILED''"
| "PaymentStatus_String PAYMENT_STATUS_EXPIRED = ''EXPIRED''"
| "PaymentStatus_String PAYMENT_STATUS_REFUNDED = ''REFUNDED''"
| "PaymentStatus_String PAYMENT_STATUS_REFUNDED_FAILURE = ''REFUNDED_FAILURE''"
| "PaymentStatus_String PAYMENT_STATUS_REFUND_REVERSED = ''REFUND_REVERSED''"
| "PaymentStatus_String PAYMENT_STATUS_DISPUTE = ''DISPUTE''"
| "PaymentStatus_String PAYMENT_STATUS_DISPUTE_WON = ''DISPUTE_WON''"
| "PaymentStatus_String PAYMENT_STATUS_DISPUTE_LOST = ''DISPUTE_LOST''"
| "PaymentStatus_String PAYMENT_STATUS_AMOUNT_ADJUSTMENT = ''AMOUNT_ADJUSTEMENT''"
| "PaymentStatus_String PAYMENT_STATUS_AUTHORISATION = ''AUTHORISATION''"
| "PaymentStatus_String PAYMENT_STATUS_CAPTURE = ''CAPTURE''"
| "PaymentStatus_String PAYMENT_STATUS_CAPTURE_FAILED = ''CAPTURE_FAILED''"
| "PaymentStatus_String PAYMENT_STATUS_OTHER = ''OTHER''"

definition PaymentStatusFromString :: "string \<Rightarrow> PaymentStatus result" where
  "PaymentStatusFromString value = (
     if value = ''PENDING'' then Inr PAYMENT_STATUS_PENDING
     else if value = ''SUCCEEDED'' then Inr PAYMENT_STATUS_SUCCEEDED
     else if value = ''CANCELLED'' then Inr PAYMENT_STATUS_CANCELLED
     else if value = ''FAILED'' then Inr PAYMENT_STATUS_FAILED
     else if value = ''EXPIRED'' then Inr PAYMENT_STATUS_EXPIRED
     else if value = ''REFUNDED'' then Inr PAYMENT_STATUS_REFUNDED
     else if value = ''REFUNDED_FAILURE'' then Inr PAYMENT_STATUS_REFUNDED_FAILURE
     else if value = ''REFUND_REVERSED'' then Inr PAYMENT_STATUS_REFUND_REVERSED
     else if value = ''DISPUTE'' then Inr PAYMENT_STATUS_DISPUTE
     else if value = ''DISPUTE_WON'' then Inr PAYMENT_STATUS_DISPUTE_WON
     else if value = ''DISPUTE_LOST'' then Inr PAYMENT_STATUS_DISPUTE_LOST
     else if value = ''AMOUNT_ADJUSTEMENT'' then Inr PAYMENT_STATUS_AMOUNT_ADJUSTMENT
     else if value = ''AUTHORISATION'' then Inr PAYMENT_STATUS_AUTHORISATION
     else if value = ''CAPTURE'' then Inr PAYMENT_STATUS_CAPTURE
     else if value = ''CAPTURE_FAILED'' then Inr PAYMENT_STATUS_CAPTURE_FAILED
     else if value = ''OTHER'' then Inr PAYMENT_STATUS_OTHER
     else if value = ''UNKNOWN'' then Inr PAYMENT_STATUS_UNKNOWN
     else Inl (Plain ''unknown payment status''))"

definition MustPaymentStatusFromString :: "string \<Rightarrow> PaymentStatus result" where
  "MustPaymentStatusFromString value = must (PaymentStatusFromString value)"

definition PaymentStatus_MarshalJSON :: "PaymentStatus \<Rightarrow> json" where
  "PaymentStatus_MarshalJSON t = JString (PaymentStatus_String t)"

definition PaymentStatus_UnmarshalJSON :: "json \<Rightarrow> PaymentStatus \<Rightarrow> PaymentStatus setter" where
  "PaymentStatus_UnmarshalJSON data t = unmarshal_keep PaymentStatusFromString data t"

definition PaymentStatus_Value :: "PaymentStatus \<Rightarrow> driver_value result" where
  "PaymentStatus_Value t = Inr (DVString (PaymentStatus_String t))"

definition PaymentStatus_Scan :: "driver_value \<Rightarrow> PaymentStatus \<Rightarrow> PaymentStatus setter" where
  "PaymentStatus_Scan v t =
     scan_keep PaymentStatusFromString ''payment status is nil'' ''failed to cast payment status'' v t"

section \<open>PaymentType\<close>

datatype PaymentType =
    PAYMENT_TYPE_UNKNOWN
  | PAYMENT_TYPE_PAYIN
  | PAYMENT_TYPE_PAYOUT
  | PAYMENT_TYPE_TRANSFER
  | PAYMENT_TYPE_OTHER

fun PaymentType_String :: "PaymentType \<Rightarrow> string" where
  "PaymentType_String PAYMENT_TYPE_UNKNOWN = ''UNKNOWN''"
| "PaymentType_String PAYMENT_TYPE_PAYIN = ''PAY-IN''"
| "PaymentType_String PAYMENT_TYPE_PAYOUT = ''PAYOUT''"
| "PaymentType_String PAYMENT_TYPE_TRANSFER = ''TRANSFER''"
| "PaymentType_String PAYMENT_TYPE_OTHER = ''OTHER''"

definition PaymentTypeFromString :: "string \<Rightarrow> PaymentType result" where
  "PaymentTypeFromString value = (
     if value = ''PAY-IN'' then Inr PAYMENT_TYPE_PAYIN
     else if value = ''PAYOUT'' then Inr PAYMENT_TYPE_PAYOUT
     else if value = ''TRANSFER'' then Inr PAYMENT_TYPE_TRANSFER
     else if value = ''OTHER'' then Inr PAYMENT_TYPE_OTHER
     else if value = ''UNKNOWN'' then Inr PAYMENT_TYPE_UNKNOWN
     else Inl (Plain ''unknown payment type''))"

definition MustPaymentTypeFromString :: "string \<Rightarrow> PaymentType result" where
  "MustPaymentTypeFromString value = must (PaymentTypeFromString value)"

definition PaymentType_MarshalJSON :: "PaymentType \<Rightarrow> json" where
  "PaymentType_MarshalJSON t = JString (PaymentType_String t)"

definition PaymentType_UnmarshalJSON :: "json \<Rightarrow> PaymentType \<Rightarrow> PaymentType setter" where
  "PaymentType_UnmarshalJSON data t = unmarshal_keep PaymentTypeFromString data t"

definition PaymentType_Value :: "PaymentType \<Rightarrow> driver_value result" where
  "PaymentType_Value t = Inr (DVString (PaymentType_String t))"

definition PaymentType_Scan :: "driver_value \<Rightarrow> PaymentType \<Rightarrow> PaymentType setter" where
  "PaymentType_Scan v t =
     scan_keep PaymentTypeFromString ''payment type is nil'' ''failed to cast payment type'' v t"

section \<open>PaymentScheme\<close>

datatype PaymentScheme =
    PAYMENT_SCHEME_UNKNOWN
  | PAYMENT_SCHEME_CARD_VISA
  | PAYMENT_SCHEME_CARD_MASTERCARD
  | PAYMENT_SCHEME_CARD_AMEX
  | PAYMENT_SCHEME_CARD_DINERS
  | PAYMENT_SCHEME_CARD_DISCOVER
  | PAYMENT_SCHEME_CARD_JCB
  | PAYMENT_SCHEME_CARD_UNION_PAY
  | PAYMENT_SCHEME_CARD_ALIPAY
  | PAYMENT_SCHEME_CARD_CUP
  | PAYMENT_SCHEME_SEPA_DEBIT
  | PAYMENT_SCHEME_SEPA_CREDIT
  | PAYMENT_SCHEME_SEPA
  | PAYMENT_SCHEME_GOOGLE_PAY
  | PAYMENT_SCHEME_APPLE_PAY
  | PAYMENT_SCHEME_DOKU
  | PAYMENT_SCHEME_DRAGON_PAY
  | PAYMENT_SCHEME_MAESTRO
  | PAYMENT_SCHEME_MOL_PAY
  | PAYMENT_SCHEME_A2A
  | PAYMENT_SCHEME_ACH_DEBIT
  | PAYMENT_SCHEME_ACH
  | PAYMENT_SCHEME_RTP
  | PAYMENT_SCHEME_OTHER

fun PaymentScheme_String :: "PaymentScheme \<Rightarrow> string" where
  "PaymentScheme_String PAYMENT_SCHEME_UNKNOWN = ''UNKNOWN''"
| "PaymentScheme_String PAYMENT_SCHEME_CARD_VISA = ''CARD_VISA''"
| "PaymentScheme_String PAYMENT_SCHEME_CARD_MASTERCARD = ''CARD_MASTERCARD''"
| "PaymentScheme_String PAYMENT_SCHEME_CARD_AMEX = ''CARD_AMEX''"
| "PaymentScheme_String PAYMENT_SCHEME_CARD_DINERS = ''CARD_DINERS''"
| "PaymentScheme_String PAYMENT_SCHEME_CARD_DISCOVER = ''CARD_DISCOVER''"
| "PaymentScheme_String PAYMENT_SCHEME_CARD_JCB = ''CARD_JCB''"
| "PaymentScheme_String PAYMENT_SCHEME_CARD_UNION_PAY = ''CARD_UNION_PAY''"
| "PaymentScheme_String PAYMENT_SCHEME_CARD_ALIPAY = ''CARD_ALIPAY''"
| "PaymentScheme_String PAYMENT_SCHEME_CARD_CUP = ''CARD_CUP''"
| "PaymentScheme_String PAYMENT_SCHEME_SEPA_DEBIT = ''SEPA_DEBIT''"
| "PaymentScheme_String PAYMENT_SCHEME_SEPA_CREDIT = ''SEPA_CREDIT''"
| "PaymentScheme_String PAYMENT_SCHEME_SEPA = ''SEPA''"
| "PaymentScheme_String PAYMENT_SCHEME_GOOGLE_PAY = ''GOOGLE_PAY''"
| "PaymentScheme_String PAYMENT_SCHEME_APPLE_PAY = ''APPLE_PAY''"
| "PaymentScheme_String PAYMENT_SCHEME_DOKU = ''DOKU''"
| "PaymentScheme_String PAYMENT_SCHEME_DRAGON_PAY = ''DRAGON_PAY''"
| "PaymentScheme_String PAYMENT_SCHEME_MAESTRO = ''MAESTRO''"
| "PaymentScheme_String PAYMENT_SCHEME_MOL_PAY = ''MOL_PAY''"
| "PaymentScheme_String PAYMENT_SCHEME_A2A = ''A2A''"
| "PaymentScheme_String PAYMENT_SCHEME_ACH_DEBIT = ''ACH_DEBIT''"
| "PaymentScheme_String PAYMENT_SCHEME_ACH = ''ACH''"
| "PaymentScheme_String PAYMENT_SCHEME_RTP = ''RTP''"
| "PaymentScheme_String PAYMENT_SCHEME_OTHER = ''OTHER''"

definition PaymentSchemeFromString :: "string \<Rightarrow> PaymentScheme result" where
  "PaymentSchemeFromString value = (
     if value = ''CARD_VISA'' then Inr PAYMENT_SCHEME_CARD_VISA
     else if value = ''CARD_MASTERCARD'' then Inr PAYMENT_SCHEME_CARD_MASTERCARD
     else if value = ''CARD_AMEX'' then Inr PAYMENT_SCHEME_CARD_AMEX
     else if value = ''CARD_DINERS'' then Inr PAYMENT_SCHEME_CARD_DINERS
     else if value = ''CARD_DISCOVER'' then Inr PAYMENT_SCHEME_CARD_DISCOVER
     else if value = ''CARD_JCB'' then Inr PAYMENT_SCHEME_CARD_JCB
     else if value = ''CARD_UNION_PAY'' then Inr PAYMENT_SCHEME_CARD_UNION_PAY
     else if value = ''CARD_ALIPAY'' then Inr PAYMENT_SCHEME_CARD_ALIPAY
     else if value = ''CARD_CUP'' then Inr PAYMENT_SCHEME_CARD_CUP
     else if value = ''SEPA_DEBIT'' then Inr PAYMENT_SCHEME_SEPA_DEBIT
     else if value = ''SEPA_CREDIT'' then Inr PAYMENT_SCHEME_SEPA_CREDIT
     else if value = ''SEPA'' then Inr PAYMENT_SCHEME_SEPA
     else if value = ''GOOGLE_PAY'' then Inr PAYMENT_SCHEME_GOOGLE_PAY
     else if value = ''APPLE_PAY'' then Inr PAYMENT_SCHEME_APPLE_PAY
     else if value = ''DOKU'' then Inr PAYMENT_SCHEME_DOKU
     else if value = ''DRAGON_PAY'' then Inr PAYMENT_SCHEME_DRAGON_PAY
     else if value = ''MAESTRO'' then Inr PAYMENT_SCHEME_MAESTRO
     else if value = ''MOL_PAY'' then Inr PAYMENT_SCHEME_MOL_PAY
     else if value = ''A2A'' then Inr PAYMENT_SCHEME_A2A
     else if value = ''ACH_DEBIT'' then Inr PAYMENT_SCHEME_ACH_DEBIT
     else if value = ''ACH'' then Inr PAYMENT_SCHEME_ACH
     else if value = ''RTP'' then Inr PAYMENT_SCHEME_RTP
     else if value = ''OTHER'' then Inr PAYMENT_SCHEME_OTHER
     else if value = ''UNKNOWN'' then Inr PAYMENT_SCHEME_UNKNOWN
     else Inl (Plain ''unknown payment scheme''))"

definition MustPaymentSchemeFromString :: "string \<Rightarrow> PaymentScheme result" where
  "MustPaymentSchemeFromString value = must (PaymentSchemeFromString value)"

definition PaymentScheme_MarshalJSON :: "PaymentScheme \<Rightarrow> json" where
  "PaymentScheme_MarshalJSON t = JString (PaymentScheme_String t)"

definition PaymentScheme_UnmarshalJSON :: "json \<Rightarrow> PaymentScheme \<Rightarrow> PaymentScheme setter" where
  "PaymentScheme_UnmarshalJSON data t = unmarshal_keep PaymentSchemeFromString data t"

definition PaymentScheme_Value :: "PaymentScheme \<Rightarrow> driver_value result" where
  "PaymentScheme_Value t = Inr (DVString (PaymentScheme_String t))"

definition PaymentScheme_Scan :: "driver_value \<Rightarrow> PaymentScheme \<Rightarrow> PaymentScheme setter" where
  "PaymentScheme_Scan v t =
     scan_keep PaymentSchemeFromString ''payment type is nil'' ''failed to cast payment type'' v t"

section \<open>They are strict codecs\<close>

interpretation payment_status: strict_codec PaymentStatus_String PaymentStatusFromString "\<lambda>_. True"
proof unfold_locales
  fix t
  show "PaymentStatusFromString (PaymentStatus_String t) = Inr t" by (cases t) (simp_all add: PaymentStatusFromString_def)
next
  fix s t
  assume "PaymentStatusFromString s = Inr t"
  then show "PaymentStatus_String t = s \<and> True" by (auto simp: PaymentStatusFromString_def split: if_splits)
qed

interpretation payment_type: strict_codec PaymentType_String PaymentTypeFromString "\<lambda>_. True"
proof unfold_locales
  fix t
  show "PaymentTypeFromString (PaymentType_String t) = Inr t" by (cases t) (simp_all add: PaymentTypeFromString_def)
next
  fix s t
  assume "PaymentTypeFromString s = Inr t"
  then show "PaymentType_String t = s \<and> True" by (auto simp: PaymentTypeFromString_def split: if_splits)
qed

interpretation payment_scheme: strict_codec PaymentScheme_String PaymentSchemeFromString "\<lambda>_. True"
proof unfold_locales
  fix t
  show "PaymentSchemeFromString (PaymentScheme_String t) = Inr t" by (cases t) (simp_all add: PaymentSchemeFromString_def)
next
  fix s t
  assume "PaymentSchemeFromString s = Inr t"
  then show "PaymentScheme_String t = s \<and> True" by (auto simp: PaymentSchemeFromString_def split: if_splits)
qed

end
