(* ===== verification/Initiation_Enums.thy ===== *)
theory Initiation_Enums
  imports Codec
begin

text \<open>
  The enumerations of payment initiations and their reversals:
  payment_initiation_type.go, payment_initiation_adjustments_status.go and
  payment_initiation_reversal_adjustment_status.go of pkg/domain/models.  The
  parser of the reversal status never fails: any unknown text is UNKNOWN.
\<close>

section \<open>PaymentInitiationType\<close>

datatype PaymentInitiationType =
    PAYMENT_INITIATION_TYPE_UNKNOWN
  | PAYMENT_INITIATION_TYPE_TRANSFER
  | PAYMENT_INITIATION_TYPE_PAYOUT

fun PaymentInitiationType_String :: "PaymentInitiationType \<Rightarrow> string" where
  "PaymentInitiationType_String PAYMENT_INITIATION_TYPE_UNKNOWN = ''UNKNOWN''"
| "PaymentInitiationType_String PAYMENT_INITIATION_TYPE_TRANSFER = ''TRANSFER''"
| "PaymentInitiationType_String PAYMENT_INITIATION_TYPE_PAYOUT = ''PAYOUT''"

definition PaymentInitiationTypeFromString :: "string \<Rightarrow> PaymentInitiationType result" where
  "PaymentInitiationTypeFromString value = (
     if value = ''TRANSFER'' then Inr PAYMENT_INITIATION_TYPE_TRANSFER
     else if value = ''PAYOUT'' then Inr PAYMENT_INITIATION_TYPE_PAYOUT
     else if value = ''UNKNOWN'' then Inr PAYMENT_INITIATION_TYPE_UNKNOWN
     else Inl (Plain ''invalid payment initiation type value''))"

definition MustPaymentInitiationTypeFromString :: "string \<Rightarrow> PaymentInitiationType result" where
  "MustPaymentInitiationTypeFromString value = must (PaymentInitiationTypeFromString value)"

definition PaymentInitiationType_MarshalJSON :: "PaymentInitiationType \<Rightarrow> json" where
  "PaymentInitiationType_MarshalJSON t = JString (PaymentInitiationType_String t)"

definition PaymentInitiationType_UnmarshalJSON :: "json \<Rightarrow> PaymentInitiationType \<Rightarrow> PaymentInitiationType setter" where
  "PaymentInitiationType_UnmarshalJSON data t =
     unmarshal_keep PaymentInitiationTypeFromString data t"

definition PaymentInitiationType_Value :: "PaymentInitiationType \<Rightarrow> driver_value result" where
  "PaymentInitiationType_Value t = Inr (DVString (PaymentInitiationType_String t))"

definition PaymentInitiationType_Scan :: "driver_value \<Rightarrow> PaymentInitiationType \<Rightarrow> PaymentInitiationType setter" where
  "PaymentInitiationType_Scan v t =
     scan_keep PaymentInitiationTypeFromString ''payment status is nil'' ''failed to cast payment status'' v t"

section \<open>PaymentInitiationAdjustmentStatus\<close>

datatype PaymentInitiationAdjustmentStatus =
    PAYMENT_INITIATION_ADJUSTMENT_STATUS_UNKNOWN
  | PAYMENT_INITIATION_ADJUSTMENT_STATUS_WAITING_FOR_VALIDATION
  | PAYMENT_INITIATION_ADJUSTMENT_STATUS_PROCESSING
  | PAYMENT_INITIATION_ADJUSTMENT_STATUS_PROCESSED
  | PAYMENT_INITIATION_ADJUSTMENT_STATUS_FAILED
  | PAYMENT_INITIATION_ADJUSTMENT_STATUS_REJECTED
  | PAYMENT_INITIATION_ADJUSTMENT_STATUS_REVERSE_PROCESSING
  | PAYMENT_INITIATION_ADJUSTMENT_STATUS_REVERSE_FAILED
  | PAYMENT_INITIATION_ADJUSTMENT_STATUS_REVERSED
  | PAYMENT_INITIATION_ADJUSTMENT_STATUS_SCHEDULED_FOR_PROCESSING

fun PaymentInitiationAdjustmentStatus_String :: "PaymentInitiationAdjustmentStatus \<Rightarrow> string" where
  "PaymentInitiationAdjustmentStatus_String PAYMENT_INITIATION_ADJUSTMENT_STATUS_UNKNOWN =
     ''UNKNOWN''"
| "PaymentInitiationAdjustmentStatus_String PAYMENT_INITIATION_ADJUSTMENT_STATUS_WAITING_FOR_VALIDATION = ''WAITING_FOR_VALIDATION''"
| "PaymentInitiationAdjustmentStatus_String PAYMENT_INITIATION_ADJUSTMENT_STATUS_PROCESSING = ''PROCESSING''"
| "PaymentInitiationAdjustmentStatus_String PAYMENT_INITIATION_ADJUSTMENT_STATUS_PROCESSED = ''PROCESSED''"
| "PaymentInitiationAdjustmentStatus_String PAYMENT_INITIATION_ADJUSTMENT_STATUS_FAILED = ''FAILED''"
| "PaymentInitiationAdjustmentStatus_String PAYMENT_INITIATION_ADJUSTMENT_STATUS_REJECTED = ''REJECTED''"
| "PaymentInitiationAdjustmentStatus_String PAYMENT_INITIATION_ADJUSTMENT_STATUS_REVERSE_PROCESSING = ''REVERSE_PROCESSING''"
| "PaymentInitiationAdjustmentStatus_String PAYMENT_INITIATION_ADJUSTMENT_STATUS_REVERSE_FAILED = ''REVERSE_FAILED''"
| "PaymentInitiationAdjustmentStatus_String PAYMENT_INITIATION_ADJUSTMENT_STATUS_REVERSED = ''REVERSED''"
| "PaymentInitiationAdjustmentStatus_String PAYMENT_INITIATION_ADJUSTMENT_STATUS_SCHEDULED_FOR_PROCESSING = ''SCHEDULED_FOR_PROCESSING''"

definition PaymentInitiationAdjustmentStatusFromString :: "string \<Rightarrow> PaymentInitiationAdjustmentStatus result" where
  "PaymentInitiationAdjustmentStatusFromString s = (
     if s = ''WAITING_FOR_VALIDATION'' then Inr PAYMENT_INITIATION_ADJUSTMENT_STATUS_WAITING_FOR_VALIDATION
     else if s = ''PROCESSING'' then Inr PAYMENT_INITIATION_ADJUSTMENT_STATUS_PROCESSING
     else if s = ''PROCESSED'' then Inr PAYMENT_INITIATION_ADJUSTMENT_STATUS_PROCESSED
     else if s = ''FAILED'' then Inr PAYMENT_INITIATION_ADJUSTMENT_STATUS_FAILED
     else if s = ''REJECTED'' then Inr PAYMENT_INITIATION_ADJUSTMENT_STATUS_REJECTED
     else if s = ''REVERSE_PROCESSING'' then Inr PAYMENT_INITIATION_ADJUSTMENT_STATUS_REVERSE_PROCESSING
     else if s = ''REVERSE_FAILED'' then Inr PAYMENT_INITIATION_ADJUSTMENT_STATUS_REVERSE_FAILED
     else if s = ''REVERSED'' then Inr PAYMENT_INITIATION_ADJUSTMENT_STATUS_REVERSED
     else if s = ''SCHEDULED_FOR_PROCESSING'' then Inr PAYMENT_INITIATION_ADJUSTMENT_STATUS_SCHEDULED_FOR_PROCESSING
     else if s = ''UNKNOWN'' then Inr PAYMENT_INITIATION_ADJUSTMENT_STATUS_UNKNOWN
     else Inl (Plain (''unknown PaymentInitiationAdjustmentStatus: '' @ s)))"

definition PaymentInitiationAdjustmentStatus_MarshalJSON :: "PaymentInitiationAdjustmentStatus \<Rightarrow> json" where
  "PaymentInitiationAdjustmentStatus_MarshalJSON t =
     JString (PaymentInitiationAdjustmentStatus_String t)"

definition PaymentInitiationAdjustmentStatus_UnmarshalJSON :: "json \<Rightarrow> PaymentInitiationAdjustmentStatus \<Rightarrow> PaymentInitiationAdjustmentStatus setter" where
  "PaymentInitiationAdjustmentStatus_UnmarshalJSON data t =
     unmarshal_keep PaymentInitiationAdjustmentStatusFromString data t"

definition PaymentInitiationAdjustmentStatus_Value :: "PaymentInitiationAdjustmentStatus \<Rightarrow> driver_value result" where
  "PaymentInitiationAdjustmentStatus_Value t =
     Inr (DVString (PaymentInitiationAdjustmentStatus_String t))"

definition PaymentInitiationAdjustmentStatus_Scan :: "driver_value \<Rightarrow> PaymentInitiationAdjustmentStatus \<Rightarrow> PaymentInitiationAdjustmentStatus setter" where
  "PaymentInitiationAdjustmentStatus_Scan v t =
     scan_keep PaymentInitiationAdjustmentStatusFromString ''payment initiation adjustment status is nil'' ''failed to cast payment initiation adjustment status'' v t"

section \<open>PaymentInitiationReversalAdjustmentStatus\<close>

datatype PaymentInitiationReversalAdjustmentStatus =
    PAYMENT_INITIATION_REVERSAL_STATUS_UNKNOWN
  | PAYMENT_INITIATION_REVERSAL_STATUS_PROCESSING
  | PAYMENT_INITIATION_REVERSAL_STATUS_PROCESSED
  | PAYMENT_INITIATION_REVERSAL_STATUS_FAILED

fun PaymentInitiationReversalAdjustmentStatus_String :: "PaymentInitiationReversalAdjustmentStatus \<Rightarrow> string" where
  "PaymentInitiationReversalAdjustmentStatus_String PAYMENT_INITIATION_REVERSAL_STATUS_UNKNOWN =
     ''UNKNOWN''"
| "PaymentInitiationReversalAdjustmentStatus_String PAYMENT_INITIATION_REVERSAL_STATUS_PROCESSING = ''PROCESSING''"
| "PaymentInitiationReversalAdjustmentStatus_String PAYMENT_INITIATION_REVERSAL_STATUS_PROCESSED = ''PROCESSED''"
| "PaymentInitiationReversalAdjustmentStatus_String PAYMENT_INITIATION_REVERSAL_STATUS_FAILED = ''FAILED''"

definition PaymentInitiationReversalStatusFromString :: "string \<Rightarrow> PaymentInitiationReversalAdjustmentStatus result" where
  "PaymentInitiationReversalStatusFromString s = (
     if s = ''PROCESSING'' then Inr PAYMENT_INITIATION_REVERSAL_STATUS_PROCESSING
     else if s = ''PROCESSED'' then Inr PAYMENT_INITIATION_REVERSAL_STATUS_PROCESSED
     else if s = ''FAILED'' then Inr PAYMENT_INITIATION_REVERSAL_STATUS_FAILED
     else Inr PAYMENT_INITIATION_REVERSAL_STATUS_UNKNOWN)"

definition PaymentInitiationReversalAdjustmentStatus_MarshalJSON :: "PaymentInitiationReversalAdjustmentStatus \<Rightarrow> json" where
  "PaymentInitiationReversalAdjustmentStatus_MarshalJSON t =
     JString (PaymentInitiationReversalAdjustmentStatus_String t)"

definition PaymentInitiationReversalAdjustmentStatus_UnmarshalJSON :: "json \<Rightarrow> PaymentInitiationReversalAdjustmentStatus \<Rightarrow> PaymentInitiationReversalAdjustmentStatus setter" where
  "PaymentInitiationReversalAdjustmentStatus_UnmarshalJSON data t =
     unmarshal_keep PaymentInitiationReversalStatusFromString data t"

definition PaymentInitiationReversalAdjustmentStatus_Value :: "PaymentInitiationReversalAdjustmentStatus \<Rightarrow> driver_value result" where
  "PaymentInitiationReversalAdjustmentStatus_Value t =
     Inr (DVString (PaymentInitiationReversalAdjustmentStatus_String t))"

definition PaymentInitiationReversalAdjustmentStatus_Scan :: "driver_value \<Rightarrow> PaymentInitiationReversalAdjustmentStatus \<Rightarrow> PaymentInitiationReversalAdjustmentStatus setter" where
  "PaymentInitiationReversalAdjustmentStatus_Scan v t =
     scan_keep PaymentInitiationReversalStatusFromString ''payment initiation reversal status status is nil'' ''failed to cast payment initiation reversal status'' v t"

section \<open>Codecs\<close>

interpretation pi_type: strict_codec PaymentInitiationType_String PaymentInitiationTypeFromString "\<lambda>_. True"
proof unfold_locales
  fix t
  show "PaymentInitiationTypeFromString (PaymentInitiationType_String t) = Inr t" by (cases t) (simp_all add: PaymentInitiationTypeFromString_def)
next
  fix s t
  assume "PaymentInitiationTypeFromString s = Inr t"
  then show "PaymentInitiationType_String t = s \<and> True" by (auto simp: PaymentInitiationTypeFromString_def split: if_splits)
qed

interpretation pi_status: strict_codec PaymentInitiationAdjustmentStatus_String PaymentInitiationAdjustmentStatusFromString "\<lambda>_. True"
proof unfold_locales
  fix t
  show "PaymentInitiationAdjustmentStatusFromString (PaymentInitiationAdjustmentStatus_String t) = Inr t" by (cases t) (simp_all add: PaymentInitiationAdjustmentStatusFromString_def)
next
  fix s t
  assume "PaymentInitiationAdjustmentStatusFromString s = Inr t"
  then show "PaymentInitiationAdjustmentStatus_String t = s \<and> True" by (auto simp: PaymentInitiationAdjustmentStatusFromString_def split: if_splits)
qed

interpretation reversal_status: text_codec PaymentInitiationReversalAdjustmentStatus_String PaymentInitiationReversalStatusFromString "\<lambda>_. True"
proof unfold_locales
  fix t
  show "PaymentInitiationReversalStatusFromString (PaymentInitiationReversalAdjustmentStatus_String t) = Inr t" by (cases t) (simp_all add: PaymentInitiationReversalStatusFromString_def)
qed

end
