(* ===== verification/Ids.thy ===== *)
theory Ids
  imports "HOL-Library.Word" Codec Base64 Payment_Enums Initiation_Enums
begin

text \<open>
  The identifiers of pkg/domain/models (the _id.go files): structures whose
  text is the URL base64 of their canonical JSON.  The canonical JSON encoder
  and decoder are the third-party package canonicaljson-go, so they are the
  arguments marshal and unmarshal of the definitions; the base64 layer, the
  empty-identifier conventions, the panics and the SQL conversions are the
  program's.  A time is a number of nanoseconds since Go's zero time, so
  IsZero is being 0; a uuid is its 128 bits.
\<close>

type_synonym time = int
type_synonym uuid = "128 word"

definition uuid_Nil :: uuid where
  "uuid_Nil = 0"

definition time_IsZero :: "time \<Rightarrow> bool" where
  "time_IsZero t \<longleftrightarrow> t = 0"

section \<open>The common method bodies\<close>

definition id_String :: "('i \<Rightarrow> string result) \<Rightarrow> 'i \<Rightarrow> string result" where
  "id_String marshal i = (case marshal i of
     Inl e \<Rightarrow> Inl (Panic (error_text e))
   | Inr data \<Rightarrow> Inr (EncodeToString data))"

definition id_FromString :: "(string \<Rightarrow> 'i result) \<Rightarrow> string \<Rightarrow> 'i result" where
  "id_FromString unmarshal value = result_bind (DecodeString value) unmarshal"

definition id_Value :: "string result \<Rightarrow> driver_value result" where
  "id_Value r = result_bind r (\<lambda>s. Inr (DVString s))"

text \<open>The rendering of a byte slice by the verb %v.\<close>

fun bytes_v :: "string \<Rightarrow> string" where
  "bytes_v [] = []"
| "bytes_v [c] = nat_digits (of_char c)"
| "bytes_v (c # s) = nat_digits (of_char c) @ '' '' @ bytes_v s"

definition id_Scan ::
  "(string \<Rightarrow> 'i result) \<Rightarrow> string \<Rightarrow> string \<Rightarrow> string \<Rightarrow> driver_value \<Rightarrow> 'i \<Rightarrow> 'i setter" where
  "id_Scan parse nil_msg parse_msg scan_msg v t =
     (if v = DVNil then (Some (Plain nil_msg), t)
      else (case convert_to_string v of
              Some s \<Rightarrow> (case parse s of
                  Inl e \<Rightarrow> (Some (Plain (parse_msg @ s @ '': '' @ error_text e)), t)
                | Inr i \<Rightarrow> (None, i))
            | None \<Rightarrow>
                (Some (Plain (scan_msg @ (case v of DVBytes b \<Rightarrow> ''['' @ bytes_v b @ '']'' | _ \<Rightarrow> []))), t)))"

interpretation base64: text_codec EncodeToString DecodeString "\<lambda>_. True"
  by unfold_locales (simp add: Decode_Encode)

text \<open>
  If the JSON decoder inverts the encoder at i, the identifier reads back from
  its text and from its SQL value.
\<close>

lemma id_text_round_trip:
  assumes "marshal i = Inr d" "unmarshal d = Inr i"
  shows "id_String marshal i = Inr (EncodeToString d)"
    "id_FromString unmarshal (EncodeToString d) = Inr i"
  using assms by (simp_all add: id_String_def id_FromString_def base64.of_to)

lemma id_text_inj:
  assumes "\<And>i d. marshal i = Inr d \<Longrightarrow> unmarshal d = Inr i"
    and "id_String marshal i = Inr s" "id_String marshal j = Inr s"
  shows "i = j"
proof -
  from assms(2) obtain d where d: "marshal i = Inr d" "s = EncodeToString d"
    by (auto simp: id_String_def split: sum.splits)
  from assms(3) obtain e where e: "marshal j = Inr e" "s = EncodeToString e"
    by (auto simp: id_String_def split: sum.splits)
  from d e have "d = e" by (auto dest: EncodeToString_inj)
  with assms(1) d(1) e(1) show ?thesis by (metis Inr_inject)
qed

lemma id_sql_round_trip:
  assumes "\<And>d. marshal i = Inr d \<Longrightarrow> unmarshal d = Inr i" "id_String marshal i = Inr s"
  shows "id_Scan (id_FromString unmarshal) n p c (DVString s) t0 = (None, i)"
proof -
  from assms(2) obtain d where "marshal i = Inr d" "s = EncodeToString d"
    by (auto simp: id_String_def split: sum.splits)
  with assms(1) id_text_round_trip(2)[of marshal i d unmarshal] show ?thesis
    by (simp add: id_Scan_def)
qed

section \<open>ConnectorID\<close>

record ConnectorID =
  ConnectorID_Reference :: uuid
  ConnectorID_Provider :: string

definition ConnectorID_String ::
  "(ConnectorID \<Rightarrow> string result) \<Rightarrow> ConnectorID option \<Rightarrow> string result" where
  "ConnectorID_String marshal aid = (case aid of None \<Rightarrow> Inr []
     | Some i \<Rightarrow> if ConnectorID_Reference i = uuid_Nil then Inr [] else id_String marshal i)"

definition ConnectorIDFromString ::
  "(string \<Rightarrow> ConnectorID result) \<Rightarrow> string \<Rightarrow> ConnectorID result" where
  "ConnectorIDFromString unmarshal value = id_FromString unmarshal value"

definition MustConnectorIDFromString ::
  "(string \<Rightarrow> ConnectorID result) \<Rightarrow> string \<Rightarrow> ConnectorID result" where
  "MustConnectorIDFromString unmarshal value = must (ConnectorIDFromString unmarshal value)"

definition ConnectorID_Value ::
  "(ConnectorID \<Rightarrow> string result) \<Rightarrow> ConnectorID \<Rightarrow> driver_value result" where
  "ConnectorID_Value marshal i = id_Value (ConnectorID_String marshal (Some i))"

definition ConnectorID_Scan ::
  "(string \<Rightarrow> ConnectorID result) \<Rightarrow> driver_value \<Rightarrow> ConnectorID \<Rightarrow> ConnectorID setter" where
  "ConnectorID_Scan unmarshal v i =
     id_Scan (ConnectorIDFromString unmarshal) ''connector id is nil''
       ''failed to parse connector id ''
       ''failed to scan connector id: '' v i"

section \<open>AccountID\<close>

record AccountID =
  AccountID_Reference :: string
  AccountID_ConnectorID :: ConnectorID

definition AccountID_String ::
  "(AccountID \<Rightarrow> string result) \<Rightarrow> AccountID option \<Rightarrow> string result" where
  "AccountID_String marshal aid = (case aid of None \<Rightarrow> Inr []
     | Some i \<Rightarrow> if AccountID_Reference i = [] then Inr [] else id_String marshal i)"

definition AccountIDFromString ::
  "(string \<Rightarrow> AccountID result) \<Rightarrow> string \<Rightarrow> AccountID result" where
  "AccountIDFromString unmarshal value = id_FromString unmarshal value"

definition MustAccountIDFromString ::
  "(string \<Rightarrow> AccountID result) \<Rightarrow> string \<Rightarrow> AccountID result" where
  "MustAccountIDFromString unmarshal value = must (AccountIDFromString unmarshal value)"

definition AccountID_Value ::
  "(AccountID \<Rightarrow> string result) \<Rightarrow> AccountID \<Rightarrow> driver_value result" where
  "AccountID_Value marshal i = id_Value (AccountID_String marshal (Some i))"

definition AccountID_Scan ::
  "(string \<Rightarrow> AccountID result) \<Rightarrow> driver_value \<Rightarrow> AccountID \<Rightarrow> AccountID setter" where
  "AccountID_Scan unmarshal v i =
     id_Scan (AccountIDFromString unmarshal) ''account id is nil''
       ''failed to parse account id ''
       ''failed to scan account id: '' v i"

text \<open>Ref, StringPtr and NewAccountID; a nil pointer is None.\<close>

definition AccountID_Ref :: "AccountID option \<Rightarrow> string option" where
  "AccountID_Ref aid = map_option AccountID_Reference aid"

definition AccountID_StringPtr ::
  "(AccountID \<Rightarrow> string result) \<Rightarrow> AccountID option \<Rightarrow> string option result" where
  "AccountID_StringPtr marshal aid = (case aid of None \<Rightarrow> Inr None
     | Some i \<Rightarrow> if AccountID_Reference i = [] then Inr None
                 else result_bind (AccountID_String marshal (Some i)) (\<lambda>s. Inr (Some s)))"

definition NewAccountID :: "string option \<Rightarrow> ConnectorID \<Rightarrow> AccountID option" where
  "NewAccountID ref connectorID = (case ref of None \<Rightarrow> None
     | Some r \<Rightarrow> if r = [] then None
       else Some \<lparr>AccountID_Reference = r, AccountID_ConnectorID = connectorID\<rparr>)"

section \<open>PaymentID\<close>

record PaymentReference =
  PaymentReference_Reference :: string
  PaymentReference_Type :: PaymentType

record PaymentID =
  PaymentID_PaymentReference :: PaymentReference
  PaymentID_ConnectorID :: ConnectorID

definition PaymentID_String ::
  "(PaymentID \<Rightarrow> string result) \<Rightarrow> PaymentID \<Rightarrow> string result" where
  "PaymentID_String marshal i = id_String marshal i"

definition PaymentIDFromString ::
  "(string \<Rightarrow> PaymentID result) \<Rightarrow> string \<Rightarrow> PaymentID result" where
  "PaymentIDFromString unmarshal value = id_FromString unmarshal value"

definition MustPaymentIDFromString ::
  "(string \<Rightarrow> PaymentID result) \<Rightarrow> string \<Rightarrow> PaymentID result" where
  "MustPaymentIDFromString unmarshal value = must (PaymentIDFromString unmarshal value)"

definition PaymentID_Value ::
  "(PaymentID \<Rightarrow> string result) \<Rightarrow> PaymentID \<Rightarrow> driver_value result" where
  "PaymentID_Value marshal i = id_Value (PaymentID_String marshal i)"

definition PaymentID_Scan ::
  "(string \<Rightarrow> PaymentID result) \<Rightarrow> driver_value \<Rightarrow> PaymentID \<Rightarrow> PaymentID setter" where
  "PaymentID_Scan unmarshal v i =
     id_Scan (PaymentIDFromString unmarshal) ''payment id is nil''
       ''failed to parse paymentid ''
       ''failed to scan paymentid: '' v i"

section \<open>PaymentAdjustmentID\<close>

record PaymentAdjustmentID =
  PaymentAdjustmentID_PaymentID :: PaymentID
  PaymentAdjustmentID_Reference :: string
  PaymentAdjustmentID_CreatedAt :: time
  PaymentAdjustmentID_Status :: PaymentStatus

definition PaymentAdjustmentID_String ::
  "(PaymentAdjustmentID \<Rightarrow> string result) \<Rightarrow> PaymentAdjustmentID \<Rightarrow> string result" where
  "PaymentAdjustmentID_String marshal i = id_String marshal i"

definition PaymentAdjustmentIDFromString ::
  "(string \<Rightarrow> PaymentAdjustmentID result) \<Rightarrow> string \<Rightarrow> PaymentAdjustmentID result" where
  "PaymentAdjustmentIDFromString unmarshal value = id_FromString unmarshal value"

definition MustPaymentAdjustmentIDFromString ::
  "(string \<Rightarrow> PaymentAdjustmentID result) \<Rightarrow> string \<Rightarrow> PaymentAdjustmentID result" where
  "MustPaymentAdjustmentIDFromString unmarshal value = must (PaymentAdjustmentIDFromString unmarshal value)"

definition PaymentAdjustmentID_Value ::
  "(PaymentAdjustmentID \<Rightarrow> string result) \<Rightarrow> PaymentAdjustmentID \<Rightarrow> driver_value result" where
  "PaymentAdjustmentID_Value marshal i = id_Value (PaymentAdjustmentID_String marshal i)"

definition PaymentAdjustmentID_Scan ::
  "(string \<Rightarrow> PaymentAdjustmentID result) \<Rightarrow> driver_value \<Rightarrow> PaymentAdjustmentID \<Rightarrow> PaymentAdjustmentID setter" where
  "PaymentAdjustmentID_Scan unmarshal v i =
     id_Scan (PaymentAdjustmentIDFromString unmarshal) ''payment adjustment id is nil''
       ''failed to parse payment adjustment id ''
       ''failed to scan payment adjustment id: '' v i"

section \<open>PaymentInitiationID\<close>

record PaymentInitiationID =
  PaymentInitiationID_Reference :: string
  PaymentInitiationID_ConnectorID :: ConnectorID

definition PaymentInitiationID_String ::
  "(PaymentInitiationID \<Rightarrow> string result) \<Rightarrow> PaymentInitiationID \<Rightarrow> string result" where
  "PaymentInitiationID_String marshal i = id_String marshal i"

definition PaymentInitiationIDFromString ::
  "(string \<Rightarrow> PaymentInitiationID result) \<Rightarrow> string \<Rightarrow> PaymentInitiationID result" where
  "PaymentInitiationIDFromString unmarshal value = id_FromString unmarshal value"

definition MustPaymentInitiationIDFromString ::
  "(string \<Rightarrow> PaymentInitiationID result) \<Rightarrow> string \<Rightarrow> PaymentInitiationID result" where
  "MustPaymentInitiationIDFromString unmarshal value = must (PaymentInitiationIDFromString unmarshal value)"

definition PaymentInitiationID_Value ::
  "(PaymentInitiationID \<Rightarrow> string result) \<Rightarrow> PaymentInitiationID \<Rightarrow> driver_value result" where
  "PaymentInitiationID_Value marshal i = id_Value (PaymentInitiationID_String marshal i)"

definition PaymentInitiationID_Scan ::
  "(string \<Rightarrow> PaymentInitiationID result) \<Rightarrow> driver_value \<Rightarrow> PaymentInitiationID \<Rightarrow> PaymentInitiationID setter" where
  "PaymentInitiationID_Scan unmarshal v i =
     id_Scan (PaymentInitiationIDFromString unmarshal) ''payment initiation id is nil''
       ''failed to parse payment initiation id ''
       ''failed to scan payment initiation id: '' v i"

section \<open>PaymentInitiationAdjustmentID\<close>

record PaymentInitiationAdjustmentID =
  PaymentInitiationAdjustmentID_PaymentInitiationID :: PaymentInitiationID
  PaymentInitiationAdjustmentID_CreatedAt :: time
  PaymentInitiationAdjustmentID_Status :: PaymentInitiationAdjustmentStatus

definition PaymentInitiationAdjustmentID_String ::
  "(PaymentInitiationAdjustmentID \<Rightarrow> string result) \<Rightarrow> PaymentInitiationAdjustmentID \<Rightarrow> string result" where
  "PaymentInitiationAdjustmentID_String marshal i = id_String marshal i"

definition PaymentInitiationAdjustmentIDFromString ::
  "(string \<Rightarrow> PaymentInitiationAdjustmentID result) \<Rightarrow> string \<Rightarrow> PaymentInitiationAdjustmentID result" where
  "PaymentInitiationAdjustmentIDFromString unmarshal value = id_FromString unmarshal value"

definition MustPaymentInitiationAdjustmentIDFromString ::
  "(string \<Rightarrow> PaymentInitiationAdjustmentID result) \<Rightarrow> string \<Rightarrow> PaymentInitiationAdjustmentID result" where
  "MustPaymentInitiationAdjustmentIDFromString unmarshal value = must (PaymentInitiationAdjustmentIDFromString unmarshal value)"

definition PaymentInitiationAdjustmentID_Value ::
  "(PaymentInitiationAdjustmentID \<Rightarrow> string result) \<Rightarrow> PaymentInitiationAdjustmentID \<Rightarrow> driver_value result" where
  "PaymentInitiationAdjustmentID_Value marshal i = id_Value (PaymentInitiationAdjustmentID_String marshal i)"

definition PaymentInitiationAdjustmentID_Scan ::
  "(string \<Rightarrow> PaymentInitiationAdjustmentID result) \<Rightarrow> driver_value \<Rightarrow> PaymentInitiationAdjustmentID \<Rightarrow> PaymentInitiationAdjustmentID setter" where
  "PaymentInitiationAdjustmentID_Scan unmarshal v i =
     id_Scan (PaymentInitiationAdjustmentIDFromString unmarshal) ''payment adjustment id is nil''
       ''failed to parse payment adjustment id ''
       ''failed to scan payment adjustment id: '' v i"

section \<open>PaymentInitiationReversalID\<close>

record PaymentInitiationReversalID =
  PaymentInitiationReversalID_Reference :: string
  PaymentInitiationReversalID_ConnectorID :: ConnectorID

definition PaymentInitiationReversalID_String ::
  "(PaymentInitiationReversalID \<Rightarrow> string result) \<Rightarrow> PaymentInitiationReversalID \<Rightarrow> string result" where
  "PaymentInitiationReversalID_String marshal i = id_String marshal i"

definition PaymentInitiationReversalIDFromString ::
  "(string \<Rightarrow> PaymentInitiationReversalID result) \<Rightarrow> string \<Rightarrow> PaymentInitiationReversalID result" where
  "PaymentInitiationReversalIDFromString unmarshal value = id_FromString unmarshal value"

definition MustPaymentInitiationReversalIDFromString ::
  "(string \<Rightarrow> PaymentInitiationReversalID result) \<Rightarrow> string \<Rightarrow> PaymentInitiationReversalID result" where
  "MustPaymentInitiationReversalIDFromString unmarshal value = must (PaymentInitiationReversalIDFromString unmarshal value)"

definition PaymentInitiationReversalID_Value ::
  "(PaymentInitiationReversalID \<Rightarrow> string result) \<Rightarrow> PaymentInitiationReversalID \<Rightarrow> driver_value result" where
  "PaymentInitiationReversalID_Value marshal i = id_Value (PaymentInitiationReversalID_String marshal i)"

definition PaymentInitiationReversalID_Scan ::
  "(string \<Rightarrow> PaymentInitiationReversalID result) \<Rightarrow> driver_value \<Rightarrow> PaymentInitiationReversalID \<Rightarrow> PaymentInitiationReversalID setter" where
  "PaymentInitiationReversalID_Scan unmarshal v i =
     id_Scan (PaymentInitiationReversalIDFromString unmarshal) ''payment initiation reversal id is nil''
       ''failed to parse payment initiation reversal id ''
       ''failed to scan payment initiation reversal id: '' v i"

section \<open>PaymentInitiationReversalAdjustmentID\<close>

record PaymentInitiationReversalAdjustmentID =
  PaymentInitiationReversalAdjustmentID_PaymentInitiationReversalID :: PaymentInitiationReversalID
  PaymentInitiationReversalAdjustmentID_CreatedAt :: time
  PaymentInitiationReversalAdjustmentID_Status :: PaymentInitiationReversalAdjustmentStatus

definition PaymentInitiationReversalAdjustmentID_String ::
  "(PaymentInitiationReversalAdjustmentID \<Rightarrow> string result) \<Rightarrow> PaymentInitiationReversalAdjustmentID \<Rightarrow> string result" where
  "PaymentInitiationReversalAdjustmentID_String marshal i = id_String marshal i"

definition PaymentInitiationReversalAdjustmentIDFromString ::
  "(string \<Rightarrow> PaymentInitiationReversalAdjustmentID result) \<Rightarrow> string \<Rightarrow> PaymentInitiationReversalAdjustmentID result" where
  "PaymentInitiationReversalAdjustmentIDFromString unmarshal value = id_FromString unmarshal value"

definition MustPaymentInitiationReversalAdjustmentIDFromString ::
  "(string \<Rightarrow> PaymentInitiationReversalAdjustmentID result) \<Rightarrow> string \<Rightarrow> PaymentInitiationReversalAdjustmentID result" where
  "MustPaymentInitiationReversalAdjustmentIDFromString unmarshal value = must (PaymentInitiationReversalAdjustmentIDFromString unmarshal value)"

definition PaymentInitiationReversalAdjustmentID_Value ::
  "(PaymentInitiationReversalAdjustmentID \<Rightarrow> string result) \<Rightarrow> PaymentInitiationReversalAdjustmentID \<Rightarrow> driver_value result" where
  "PaymentInitiationReversalAdjustmentID_Value marshal i = id_Value (PaymentInitiationReversalAdjustmentID_String marshal i)"

definition PaymentInitiationReversalAdjustmentID_Scan ::
  "(string \<Rightarrow> PaymentInitiationReversalAdjustmentID result) \<Rightarrow> driver_value \<Rightarrow> PaymentInitiationReversalAdjustmentID \<Rightarrow> PaymentInitiationReversalAdjustmentID setter" where
  "PaymentInitiationReversalAdjustmentID_Scan unmarshal v i =
     id_Scan (PaymentInitiationReversalAdjustmentIDFromString unmarshal) ''payment reversal adjustment id is nil''
       ''failed to parse payment reversal adjustment id ''
       ''failed to scan payment reversal adjustment id: '' v i"

section \<open>OrderID\<close>

record OrderID =
  OrderID_Reference :: string
  OrderID_ConnectorID :: ConnectorID

definition OrderID_String ::
  "(OrderID \<Rightarrow> string result) \<Rightarrow> OrderID \<Rightarrow> string result" where
  "OrderID_String marshal i = id_String marshal i"

definition OrderIDFromString ::
  "(string \<Rightarrow> OrderID result) \<Rightarrow> string \<Rightarrow> OrderID result" where
  "OrderIDFromString unmarshal value = id_FromString unmarshal value"

definition MustOrderIDFromString ::
  "(string \<Rightarrow> OrderID result) \<Rightarrow> string \<Rightarrow> OrderID result" where
  "MustOrderIDFromString unmarshal value = must (OrderIDFromString unmarshal value)"

definition OrderID_Value ::
  "(OrderID \<Rightarrow> string result) \<Rightarrow> OrderID \<Rightarrow> driver_value result" where
  "OrderID_Value marshal i = id_Value (OrderID_String marshal i)"

definition OrderID_Scan ::
  "(string \<Rightarrow> OrderID result) \<Rightarrow> driver_value \<Rightarrow> OrderID \<Rightarrow> OrderID setter" where
  "OrderID_Scan unmarshal v i =
     id_Scan (OrderIDFromString unmarshal) ''order id is nil''
       ''failed to parse order id ''
       ''failed to scan order id: '' v i"

section \<open>ConversionID\<close>

record ConversionID =
  ConversionID_Reference :: string
  ConversionID_ConnectorID :: ConnectorID

definition ConversionID_String ::
  "(ConversionID \<Rightarrow> string result) \<Rightarrow> ConversionID \<Rightarrow> string result" where
  "ConversionID_String marshal i = id_String marshal i"

definition ConversionIDFromString ::
  "(string \<Rightarrow> ConversionID result) \<Rightarrow> string \<Rightarrow> ConversionID result" where
  "ConversionIDFromString unmarshal value = id_FromString unmarshal value"

definition MustConversionIDFromString ::
  "(string \<Rightarrow> ConversionID result) \<Rightarrow> string \<Rightarrow> ConversionID result" where
  "MustConversionIDFromString unmarshal value = must (ConversionIDFromString unmarshal value)"

definition ConversionID_Value ::
  "(ConversionID \<Rightarrow> string result) \<Rightarrow> ConversionID \<Rightarrow> driver_value result" where
  "ConversionID_Value marshal i = id_Value (ConversionID_String marshal i)"

definition ConversionID_Scan ::
  "(string \<Rightarrow> ConversionID result) \<Rightarrow> driver_value \<Rightarrow> ConversionID \<Rightarrow> ConversionID setter" where
  "ConversionID_Scan unmarshal v i =
     id_Scan (ConversionIDFromString unmarshal) ''conversion id is nil''
       ''failed to parse conversion id ''
       ''failed to scan conversion id: '' v i"

section \<open>StateID\<close>

record StateID =
  StateID_Reference :: string
  StateID_ConnectorID :: ConnectorID

definition StateID_String ::
  "(StateID \<Rightarrow> string result) \<Rightarrow> StateID option \<Rightarrow> string result" where
  "StateID_String marshal aid = (case aid of None \<Rightarrow> Inr []
     | Some i \<Rightarrow> if StateID_Reference i = [] then Inr [] else id_String marshal i)"

definition StateIDFromString ::
  "(string \<Rightarrow> StateID result) \<Rightarrow> string \<Rightarrow> StateID result" where
  "StateIDFromString unmarshal value = id_FromString unmarshal value"

definition MustStateIDFromString ::
  "(string \<Rightarrow> StateID result) \<Rightarrow> string \<Rightarrow> StateID result" where
  "MustStateIDFromString unmarshal value = must (StateIDFromString unmarshal value)"

definition StateID_Value ::
  "(StateID \<Rightarrow> string result) \<Rightarrow> StateID \<Rightarrow> driver_value result" where
  "StateID_Value marshal i = id_Value (StateID_String marshal (Some i))"

definition StateID_Scan ::
  "(string \<Rightarrow> StateID result) \<Rightarrow> driver_value \<Rightarrow> StateID \<Rightarrow> StateID setter" where
  "StateID_Scan unmarshal v i =
     id_Scan (StateIDFromString unmarshal) ''account id is nil''
       ''failed to parse account id ''
       ''failed to scan account id: '' v i"

section \<open>TaskID\<close>

record TaskID =
  TaskID_Reference :: string
  TaskID_ConnectorID :: ConnectorID

definition TaskID_String ::
  "(TaskID \<Rightarrow> string result) \<Rightarrow> TaskID option \<Rightarrow> string result" where
  "TaskID_String marshal aid = (case aid of None \<Rightarrow> Inr []
     | Some i \<Rightarrow> if TaskID_Reference i = [] then Inr [] else id_String marshal i)"

definition TaskIDFromString ::
  "(string \<Rightarrow> TaskID result) \<Rightarrow> string \<Rightarrow> TaskID result" where
  "TaskIDFromString unmarshal value = id_FromString unmarshal value"

definition MustTaskIDFromString ::
  "(string \<Rightarrow> TaskID result) \<Rightarrow> string \<Rightarrow> TaskID result" where
  "MustTaskIDFromString unmarshal value = must (TaskIDFromString unmarshal value)"

definition TaskID_Value ::
  "(TaskID \<Rightarrow> string result) \<Rightarrow> TaskID \<Rightarrow> driver_value result" where
  "TaskID_Value marshal i = id_Value (TaskID_String marshal (Some i))"

definition TaskID_Scan ::
  "(string \<Rightarrow> TaskID result) \<Rightarrow> driver_value \<Rightarrow> TaskID \<Rightarrow> TaskID setter" where
  "TaskID_Scan unmarshal v i =
     id_Scan (TaskIDFromString unmarshal) ''task id is nil''
       ''failed to parse task id ''
       ''failed to scan task id: '' v i"

text \<open>The reference under which the task of an operation is stored.\<close>

definition TaskIDReference :: "(uuid \<Rightarrow> string) \<Rightarrow> string \<Rightarrow> ConnectorID \<Rightarrow> string \<Rightarrow> string" where
  "TaskIDReference uuid_String prefix connectorID objectID =
     (if objectID = [] then
        prefix @ ''-'' @ ConnectorID_Provider connectorID @ ''-'' @
        uuid_String (ConnectorID_Reference connectorID)
      else
        prefix @ ''-'' @ ConnectorID_Provider connectorID @ ''-'' @
        uuid_String (ConnectorID_Reference connectorID) @ ''-'' @ objectID)"

section \<open>EventID\<close>

record EventID =
  EventID_EventIdempotencyKey :: string
  EventID_ConnectorID :: "ConnectorID option"

definition EventID_String ::
  "(EventID \<Rightarrow> string result) \<Rightarrow> EventID option \<Rightarrow> string result" where
  "EventID_String marshal aid = (case aid of None \<Rightarrow> Inr []
     | Some i \<Rightarrow> if EventID_EventIdempotencyKey i = [] then Inr [] else id_String marshal i)"

definition EventIDFromString ::
  "(string \<Rightarrow> EventID result) \<Rightarrow> string \<Rightarrow> EventID result" where
  "EventIDFromString unmarshal value = id_FromString unmarshal value"

definition EventID_Value ::
  "(EventID \<Rightarrow> string result) \<Rightarrow> EventID \<Rightarrow> driver_value result" where
  "EventID_Value marshal i = id_Value (EventID_String marshal (Some i))"

definition EventID_Scan ::
  "(string \<Rightarrow> EventID result) \<Rightarrow> driver_value \<Rightarrow> EventID \<Rightarrow> EventID setter" where
  "EventID_Scan unmarshal v i =
     id_Scan (EventIDFromString unmarshal) ''event id is nil''
       ''failed to parse event id ''
       ''failed to scan event id: '' v i"

section \<open>Idempotency keys\<close>

text \<open>
  IdempotencyKey hashes the canonical JSON with SHA-1 (the argument sha1, the
  digest's bytes) and prints it in hexadecimal.
\<close>

definition hex_digit :: "nat \<Rightarrow> char" where
  "hex_digit n = char_of (if n < 10 then 48 + n else 87 + n)"

definition hex_bytes :: "string \<Rightarrow> string" where
  "hex_bytes s = concat (map (\<lambda>c. [hex_digit (of_char c div 16), hex_digit (of_char c mod 16)]) s)"

definition IdempotencyKey ::
  "('u \<Rightarrow> string result) \<Rightarrow> (string \<Rightarrow> string) \<Rightarrow> 'u \<Rightarrow> string result" where
  "IdempotencyKey marshal sha1 u = (case marshal u of
     Inl e \<Rightarrow> Inl (Panic (error_text e))
   | Inr data \<Rightarrow> Inr (hex_bytes (sha1 data)))"

end
