(* ===== verification/Assets.thy ===== *)
theory Assets
  imports Prelude
begin

text \<open>
  pkg/domain/assets/assets.go: the pattern of an asset name, as a regular
  expression, and IsValid.  The part of Go's regexp syntax the pattern uses is
  a datatype with an executable matcher; lang is its meaning.
\<close>

section \<open>Regular expressions\<close>

datatype rx =
    Class "char \<Rightarrow> bool"
  | Seq rx rx
  | Rep rx nat nat
  | Opt rx

text \<open>The remainders of a text after a match from its start: between m and m + n rounds of f.\<close>

fun rounds :: "('a \<Rightarrow> 'a list) \<Rightarrow> nat \<Rightarrow> nat \<Rightarrow> 'a \<Rightarrow> 'a list" where
  "rounds f (Suc m) n s = concat (map (rounds f m n) (f s))"
| "rounds f 0 0 s = [s]"
| "rounds f 0 (Suc n) s = s # concat (map (rounds f 0 n) (f s))"

fun rests :: "rx \<Rightarrow> string \<Rightarrow> string list" where
  "rests (Class p) [] = []"
| "rests (Class p) (c # s) = (if p c then [s] else [])"
| "rests (Seq r q) s = concat (map (rests q) (rests r s))"
| "rests (Rep r m n) s = rounds (rests r) m (n - m) s"
| "rests (Opt r) s = s # rests r s"

text \<open>MatchString of the expression anchored at both ends.\<close>

definition match_string :: "rx \<Rightarrow> string \<Rightarrow> bool" where
  "match_string r s = list_ex (\<lambda>t. t = []) (rests r s)"

definition is_upper :: "char \<Rightarrow> bool" where
  "is_upper c = (65 \<le> (of_char c :: nat) \<and> (of_char c :: nat) \<le> 90)"

definition is_digit :: "char \<Rightarrow> bool" where
  "is_digit c = (48 \<le> (of_char c :: nat) \<and> (of_char c :: nat) \<le> 57)"

definition Pattern :: rx where
  "Pattern =
     Seq (Class is_upper)
      (Seq (Rep (Class (\<lambda>c. is_upper c \<or> is_digit c)) 0 16)
       (Seq (Opt (Seq (Class (\<lambda>c. c = CHR ''_'')) (Rep (Class is_upper) 1 16)))
            (Opt (Seq (Class (\<lambda>c. c = CHR ''/'')) (Rep (Class is_digit) 1 6)))))"

definition IsValid :: "string \<Rightarrow> bool" where
  "IsValid v = match_string Pattern v"

section \<open>Their meaning\<close>

inductive rx_lang :: "rx \<Rightarrow> string \<Rightarrow> bool" where
  lang_class: "p c \<Longrightarrow> rx_lang (Class p) [c]"
| lang_seq: "rx_lang r u \<Longrightarrow> rx_lang q v \<Longrightarrow> rx_lang (Seq r q) (u @ v)"
| lang_rep: "\<forall>u\<in>set us. rx_lang r u \<Longrightarrow> m \<le> length us \<Longrightarrow> length us \<le> m + (n - m) \<Longrightarrow>
    rx_lang (Rep r m n) (concat us)"
| lang_opt_none: "rx_lang (Opt r) []"
| lang_opt: "rx_lang r u \<Longrightarrow> rx_lang (Opt r) u"

inductive_simps lang_simps:
  "rx_lang (Class p) s" "rx_lang (Seq r q) s" "rx_lang (Rep r m n) s" "rx_lang (Opt r) s"

lemma rounds_iff:
  assumes "\<And>s t. t \<in> set (f s) \<longleftrightarrow> (\<exists>u. L u \<and> s = u @ t)"
  shows "t \<in> set (rounds f m n s) \<longleftrightarrow>
    (\<exists>us. (\<forall>u\<in>set us. L u) \<and> m \<le> length us \<and> length us \<le> m + n \<and> s = concat us @ t)"
  using assms
proof (induction f m n s rule: rounds.induct)
  case (1 f m n s)
  have step: "(\<exists>s'\<in>set (f s). Q s') \<longleftrightarrow> (\<exists>u s'. L u \<and> s = u @ s' \<and> Q s')" for Q
    unfolding Bex_def 1(2) by auto
  let ?P = "\<lambda>k us s. (\<forall>u\<in>set us. L u) \<and> k \<le> length us \<and> length us \<le> k + n \<and> s = concat us @ t"
  have "t \<in> set (rounds f (Suc m) n s) \<longleftrightarrow> (\<exists>s'\<in>set (f s). \<exists>us. ?P m us s')"
    by (simp add: 1(1)[OF _ 1(2)])
  also have "\<dots> \<longleftrightarrow> (\<exists>u us. L u \<and> ?P m us (concat us @ t) \<and> s = u @ concat us @ t)"
    unfolding step by auto
  also have "\<dots> \<longleftrightarrow> (\<exists>us. ?P (Suc m) us s)"
  proof
    assume "\<exists>u us. L u \<and> ?P m us (concat us @ t) \<and> s = u @ concat us @ t"
    then obtain u us where "L u" "?P m us (concat us @ t)" "s = u @ concat us @ t" by blast
    then have "?P (Suc m) (u # us) s" by simp
    then show "\<exists>us. ?P (Suc m) us s" by blast
  next
    assume "\<exists>us. ?P (Suc m) us s"
    then obtain us where us: "?P (Suc m) us s" by blast
    then obtain u us' where "us = u # us'" by (cases us) auto
    with us show "\<exists>u us. L u \<and> ?P m us (concat us @ t) \<and> s = u @ concat us @ t" by auto
  qed
  finally show ?case .
next
  case (2 f s)
  then show ?case by auto
next
  case (3 f n s)
  have step: "(\<exists>s'\<in>set (f s). Q s') \<longleftrightarrow> (\<exists>u s'. L u \<and> s = u @ s' \<and> Q s')" for Q
    unfolding Bex_def 3(2) by auto
  let ?P = "\<lambda>k us s. (\<forall>u\<in>set us. L u) \<and> length us \<le> k \<and> s = concat us @ t"
  have "t \<in> set (rounds f 0 (Suc n) s) \<longleftrightarrow> t = s \<or> (\<exists>s'\<in>set (f s). \<exists>us. ?P n us s')"
    by (auto simp: 3(1)[OF _ 3(2)])
  also have "\<dots> \<longleftrightarrow> t = s \<or> (\<exists>u us. L u \<and> ?P n us (concat us @ t) \<and> s = u @ concat us @ t)"
    unfolding step by auto
  also have "\<dots> \<longleftrightarrow> (\<exists>us. ?P (Suc n) us s)"
  proof
    assume "t = s \<or> (\<exists>u us. L u \<and> ?P n us (concat us @ t) \<and> s = u @ concat us @ t)"
    then show "\<exists>us. ?P (Suc n) us s"
    proof
      assume "t = s"
      then have "?P (Suc n) [] s" by simp
      then show ?thesis by blast
    next
      assume "\<exists>u us. L u \<and> ?P n us (concat us @ t) \<and> s = u @ concat us @ t"
      then obtain u us where "L u" "?P n us (concat us @ t)" "s = u @ concat us @ t" by blast
      then have "?P (Suc n) (u # us) s" by simp
      then show ?thesis by blast
    qed
  next
    assume "\<exists>us. ?P (Suc n) us s"
    then obtain us where us: "?P (Suc n) us s" by blast
    then show "t = s \<or> (\<exists>u us. L u \<and> ?P n us (concat us @ t) \<and> s = u @ concat us @ t)"
      by (cases us) auto
  qed
  finally show ?case by simp
qed

lemma rests_iff: "t \<in> set (rests r s) \<longleftrightarrow> (\<exists>u. rx_lang r u \<and> s = u @ t)"
proof (induction r arbitrary: s t)
  case (Class p)
  then show ?case by (cases s) (auto simp: lang_simps)
next
  case (Seq r q)
  then show ?case by (auto simp: lang_simps) (metis append.assoc)
next
  case (Rep r m n)
  from rounds_iff[of "rests r" "rx_lang r", OF Rep.IH] show ?case
    by (auto simp: lang_simps)
next
  case (Opt r)
  then show ?case by (auto simp: lang_simps)
qed

text \<open>The matcher decides the language.\<close>

lemma match_string_iff: "match_string r s \<longleftrightarrow> rx_lang r s"
  using rests_iff[of "[]" r s] by (auto simp: match_string_def list_ex_iff)

lemma lang_class_power:
  "(\<exists>us. (\<forall>u\<in>set us. rx_lang (Class p) u) \<and> length us = k \<and> s = concat us) \<longleftrightarrow>
     (\<forall>c\<in>set s. p c) \<and> length s = k"
proof (induction k arbitrary: s)
  case 0
  then show ?case by auto
next
  case (Suc k)
  show ?case
  proof
    assume "\<exists>us. (\<forall>u\<in>set us. rx_lang (Class p) u) \<and> length us = Suc k \<and> s = concat us"
    then obtain u us where "rx_lang (Class p) u" "\<forall>u\<in>set us. rx_lang (Class p) u"
      "length us = k" "s = u @ concat us"
      by (metis concat.simps(2) length_Suc_conv list.set_intros)
    with Suc.IH[of "concat us"] show "(\<forall>c\<in>set s. p c) \<and> length s = Suc k"
      by (auto simp: lang_simps)
  next
    assume s: "(\<forall>c\<in>set s. p c) \<and> length s = Suc k"
    then obtain c s' where "s = c # s'" "(\<forall>c\<in>set s'. p c) \<and> length s' = k" "p c"
      by (cases s) auto
    with Suc.IH[of s'] obtain us where
      "\<forall>u\<in>set us. rx_lang (Class p) u" "length us = k" "s' = concat us" by blast
    with \<open>s = c # s'\<close> \<open>p c\<close>
    show "\<exists>us. (\<forall>u\<in>set us. rx_lang (Class p) u) \<and> length us = Suc k \<and> s = concat us"
      by (intro exI[of _ "[c] # us"]) (simp add: lang_simps)
  qed
qed

lemma lang_rep_class:
  assumes "m \<le> n"
  shows "rx_lang (Rep (Class p) m n) s \<longleftrightarrow> (\<forall>c\<in>set s. p c) \<and> m \<le> length s \<and> length s \<le> n"
proof -
  have "rx_lang (Rep (Class p) m n) s \<longleftrightarrow>
      (\<exists>k. m \<le> k \<and> k \<le> n \<and>
        (\<exists>us. (\<forall>u\<in>set us. rx_lang (Class p) u) \<and> length us = k \<and> s = concat us))"
    using assms by (auto simp: lang_simps(3))
  then show ?thesis unfolding lang_class_power by auto
qed

text \<open>The three parts of an asset name: the code, an optional suffix, an optional precision.\<close>

lemma IsValid_iff:
  "IsValid v \<longleftrightarrow>
    (\<exists>c w x y. v = c # w @ x @ y \<and> is_upper c \<and> length w \<le> 16 \<and>
       (\<forall>d\<in>set w. is_upper d \<or> is_digit d) \<and>
       (x = [] \<or> (\<exists>u. x = CHR ''_'' # u \<and> 1 \<le> length u \<and> length u \<le> 16 \<and> (\<forall>d\<in>set u. is_upper d))) \<and>
       (y = [] \<or> (\<exists>u. y = CHR ''/'' # u \<and> 1 \<le> length u \<and> length u \<le> 6 \<and> (\<forall>d\<in>set u. is_digit d))))"
proof -
  have opt: "rx_lang (Opt (Seq (Class (\<lambda>d. d = a)) (Rep (Class p) 1 k))) x \<longleftrightarrow>
      x = [] \<or> (\<exists>u. x = a # u \<and> 1 \<le> length u \<and> length u \<le> k \<and> (\<forall>d\<in>set u. p d))"
    if "1 \<le> k" for a p k x
    using that by (auto simp: lang_simps(1,2,4) lang_rep_class)
  define W where "W w \<longleftrightarrow> (\<forall>d\<in>set w. is_upper d \<or> is_digit d) \<and> length w \<le> 16" for w
  define X where "X = rx_lang (Opt (Seq (Class (\<lambda>d. d = CHR ''_'')) (Rep (Class is_upper) 1 16)))"
  define Y where "Y = rx_lang (Opt (Seq (Class (\<lambda>d. d = CHR ''/'')) (Rep (Class is_digit) 1 6)))"
  have W: "rx_lang (Rep (Class (\<lambda>c. is_upper c \<or> is_digit c)) 0 16) = W"
    by (auto simp: fun_eq_iff W_def lang_rep_class)
  have "IsValid v \<longleftrightarrow> (\<exists>c w x y. v = c # w @ x @ y \<and> is_upper c \<and> W w \<and> X x \<and> Y y)"
    (is "_ \<longleftrightarrow> ?R")
  proof -
    have "IsValid v \<longleftrightarrow> (\<exists>u t. v = u @ t \<and> (\<exists>c. u = [c] \<and> is_upper c) \<and>
        (\<exists>w z. t = w @ z \<and> W w \<and> (\<exists>x y. z = x @ y \<and> X x \<and> Y y)))"
      unfolding IsValid_def match_string_iff Pattern_def lang_simps(2) lang_simps(1)
        X_def[symmetric] Y_def[symmetric] W by blast
    also have "\<dots> \<longleftrightarrow> ?R"
    proof
      assume "\<exists>u t. v = u @ t \<and> (\<exists>c. u = [c] \<and> is_upper c) \<and>
        (\<exists>w z. t = w @ z \<and> W w \<and> (\<exists>x y. z = x @ y \<and> X x \<and> Y y))"
      then show ?R by fastforce
    next
      assume ?R
      then obtain c w x y where "v = [c] @ w @ x @ y" "is_upper c" "W w" "X x" "Y y" by auto
      then show "\<exists>u t. v = u @ t \<and> (\<exists>c. u = [c] \<and> is_upper c) \<and>
        (\<exists>w z. t = w @ z \<and> W w \<and> (\<exists>x y. z = x @ y \<and> X x \<and> Y y))"
        by blast
    qed
    finally show ?thesis .
  qed
  moreover have "X x \<longleftrightarrow> x = [] \<or> (\<exists>u. x = CHR ''_'' # u \<and> 1 \<le> length u \<and> length u \<le> 16 \<and>
      (\<forall>d\<in>set u. is_upper d))" for x
    unfolding X_def by (rule opt) simp
  moreover have "Y y \<longleftrightarrow> y = [] \<or> (\<exists>u. y = CHR ''/'' # u \<and> 1 \<le> length u \<and> length u \<le> 6 \<and>
      (\<forall>d\<in>set u. is_digit d))" for y
    unfolding Y_def by (rule opt) simp
  ultimately show ?thesis by (simp only: W_def) blast
qed

end
