(* ===== verification/Payments_Model.thy ===== *)
theory Payments_Model
  imports Ids Assets
begin

text \<open>
  pkg/domain/models/payments.go and payment_adjustments.go: the payment a
  connector reports (PSPPayment), the payment the program keeps (Payment) with
  its adjustments, their validation and the conversion from one to the other.
  A *big.Int, a *string or a nilable byte slice is an option; a map of metadata
  is a partial function.
\<close>

section \<open>Data\<close>

type_synonym metadata = "string \<rightharpoonup> string"

record PSPPayment =
  PSPPayment_ParentReference :: string
  PSPPayment_Reference :: string
  PSPPayment_CreatedAt :: time
  PSPPayment_Type :: PaymentType
  PSPPayment_Amount :: "int option"
  PSPPayment_Asset :: string
  PSPPayment_Scheme :: PaymentScheme
  PSPPayment_Status :: PaymentStatus
  PSPPayment_SourceAccountReference :: "string option"
  PSPPayment_DestinationAccountReference :: "string option"
  PSPPayment_PsuID :: "uuid option"
  PSPPayment_OpenBankingConnectionID :: "string option"
  PSPPayment_Metadata :: metadata
  PSPPayment_Raw :: "string option"

record PaymentAdjustment =
  PaymentAdjustment_ID :: PaymentAdjustmentID
  PaymentAdjustment_Reference :: string
  PaymentAdjustment_CreatedAt :: time
  PaymentAdjustment_Status :: PaymentStatus
  PaymentAdjustment_Amount :: "int option"
  PaymentAdjustment_Asset :: "string option"
  PaymentAdjustment_Metadata :: metadata
  PaymentAdjustment_Raw :: "string option"

record Payment =
  Payment_ID :: PaymentID
  Payment_ConnectorID :: ConnectorID
  Payment_Reference :: string
  Payment_CreatedAt :: time
  Payment_Type :: PaymentType
  Payment_InitialAmount :: "int option"
  Payment_Amount :: "int option"
  Payment_Asset :: string
  Payment_Scheme :: PaymentScheme
  Payment_Status :: PaymentStatus
  Payment_SourceAccountID :: "AccountID option"
  Payment_DestinationAccountID :: "AccountID option"
  Payment_PsuID :: "uuid option"
  Payment_OpenBankingConnectionID :: "string option"
  Payment_Metadata :: metadata
  Payment_Adjustments :: "PaymentAdjustment list"

section \<open>Validation\<close>

definition validation_error :: "string \<Rightarrow> error" where
  "validation_error msg = NewWrappedError (Plain msg) (Sentinel Models_ErrValidation)"

definition PSPPayment_Validate :: "PSPPayment \<Rightarrow> error option" where
  "PSPPayment_Validate p =
     (if PSPPayment_Reference p = [] then Some (validation_error ''missing payment reference'')
      else if time_IsZero (PSPPayment_CreatedAt p)
      then Some (validation_error ''missing payment createdAt'')
      else if PSPPayment_Type p = PAYMENT_TYPE_UNKNOWN
      then Some (validation_error ''missing payment type'')
      else if PSPPayment_Amount p = None then Some (validation_error ''missing payment amount'')
      else if \<not> IsValid (PSPPayment_Asset p)
      then Some (validation_error ''invalid payment asset'')
      else if PSPPayment_Raw p = None then Some (validation_error ''missing payment raw'')
      else None)"

definition PSPPayment_HasParent :: "PSPPayment \<Rightarrow> bool" where
  "PSPPayment_HasParent p \<longleftrightarrow> PSPPayment_ParentReference p \<noteq> []"

section \<open>Conversion\<close>

definition FromPSPPaymentToPaymentAdjustment :: "PSPPayment \<Rightarrow> ConnectorID \<Rightarrow> PaymentAdjustment" where
  "FromPSPPaymentToPaymentAdjustment from connectorID =
     (let parentReference =
            (if PSPPayment_HasParent from then PSPPayment_ParentReference from
             else PSPPayment_Reference from);
          paymentID =
            \<lparr>PaymentID_PaymentReference =
               \<lparr>PaymentReference_Reference = parentReference,
                PaymentReference_Type = PSPPayment_Type from\<rparr>,
             PaymentID_ConnectorID = connectorID\<rparr> in
      \<lparr>PaymentAdjustment_ID =
         \<lparr>PaymentAdjustmentID_PaymentID = paymentID,
          PaymentAdjustmentID_Reference = PSPPayment_Reference from,
          PaymentAdjustmentID_CreatedAt = PSPPayment_CreatedAt from,
          PaymentAdjustmentID_Status = PSPPayment_Status from\<rparr>,
       PaymentAdjustment_Reference = PSPPayment_Reference from,
       PaymentAdjustment_CreatedAt = PSPPayment_CreatedAt from,
       PaymentAdjustment_Status = PSPPayment_Status from,
       PaymentAdjustment_Amount = PSPPayment_Amount from,
       PaymentAdjustment_Asset = Some (PSPPayment_Asset from),
       PaymentAdjustment_Metadata = PSPPayment_Metadata from,
       PaymentAdjustment_Raw = PSPPayment_Raw from\<rparr>)"

definition FromPSPPaymentToPayment :: "PSPPayment \<Rightarrow> ConnectorID \<Rightarrow> Payment result" where
  "FromPSPPaymentToPayment from connectorID = (case PSPPayment_Validate from of
     Some err \<Rightarrow> Inl err
   | None \<Rightarrow>
      (let paymentReference =
             (if PSPPayment_HasParent from then PSPPayment_ParentReference from
              else PSPPayment_Reference from);
           p = \<lparr>Payment_ID =
                  \<lparr>PaymentID_PaymentReference =
                     \<lparr>PaymentReference_Reference = paymentReference,
                      PaymentReference_Type = PSPPayment_Type from\<rparr>,
                   PaymentID_ConnectorID = connectorID\<rparr>,
                Payment_ConnectorID = connectorID,
                Payment_Reference = paymentReference,
                Payment_CreatedAt = PSPPayment_CreatedAt from,
                Payment_Type = PSPPayment_Type from,
                Payment_InitialAmount = PSPPayment_Amount from,
                Payment_Amount = PSPPayment_Amount from,
                Payment_Asset = PSPPayment_Asset from,
                Payment_Scheme = PSPPayment_Scheme from,
                Payment_Status = PSPPayment_Status from,
                Payment_SourceAccountID =
                  NewAccountID (PSPPayment_SourceAccountReference from) connectorID,
                Payment_DestinationAccountID =
                  NewAccountID (PSPPayment_DestinationAccountReference from) connectorID,
                Payment_PsuID = PSPPayment_PsuID from,
                Payment_OpenBankingConnectionID = PSPPayment_OpenBankingConnectionID from,
                Payment_Metadata = PSPPayment_Metadata from,
                Payment_Adjustments = []\<rparr>;
           p = (if Payment_Status p = PAYMENT_STATUS_AUTHORISATION
                then p\<lparr>Payment_Amount := Some 0\<rparr> else p) in
       Inr (p\<lparr>Payment_Adjustments :=
                Payment_Adjustments p @ [FromPSPPaymentToPaymentAdjustment from connectorID]\<rparr>)))"

definition FromPSPPayments :: "PSPPayment list \<Rightarrow> ConnectorID \<Rightarrow> Payment list result" where
  "FromPSPPayments from connectorID =
     result_map_list (\<lambda>p. FromPSPPaymentToPayment p connectorID) from"

section \<open>Facts\<close>

lemma Validate_None_iff:
  "PSPPayment_Validate p = None \<longleftrightarrow>
     PSPPayment_Reference p \<noteq> [] \<and> PSPPayment_CreatedAt p \<noteq> 0 \<and>
     PSPPayment_Type p \<noteq> PAYMENT_TYPE_UNKNOWN \<and> PSPPayment_Amount p \<noteq> None \<and>
     IsValid (PSPPayment_Asset p) \<and> PSPPayment_Raw p \<noteq> None"
  by (simp add: PSPPayment_Validate_def time_IsZero_def)

lemma Validate_Some_validation:
  "PSPPayment_Validate p = Some e \<Longrightarrow> errors_Is e Models_ErrValidation"
  by (auto simp: PSPPayment_Validate_def validation_error_def split: if_splits)

text \<open>
  What every payment the program builds from a connector's payment satisfies:
  its ID is made of its own reference, type and connector, and it carries one
  adjustment, which belongs to it and has the amount and status reported.
\<close>

definition fresh_payment :: "PSPPayment \<Rightarrow> ConnectorID \<Rightarrow> Payment \<Rightarrow> bool" where
  "fresh_payment from c p \<longleftrightarrow>
     PaymentID_ConnectorID (Payment_ID p) = c \<and> Payment_ConnectorID p = c \<and>
     PaymentReference_Reference (PaymentID_PaymentReference (Payment_ID p)) = Payment_Reference p \<and>
     PaymentReference_Type (PaymentID_PaymentReference (Payment_ID p)) = Payment_Type p \<and>
     Payment_Reference p \<noteq> [] \<and> IsValid (Payment_Asset p) \<and>
     Payment_Status p = PSPPayment_Status from \<and>
     Payment_InitialAmount p = PSPPayment_Amount from \<and> Payment_InitialAmount p \<noteq> None \<and>
     Payment_Amount p = (if PSPPayment_Status from = PAYMENT_STATUS_AUTHORISATION then Some 0
                         else PSPPayment_Amount from) \<and>
     (\<exists>a. Payment_Adjustments p = [a] \<and>
        PaymentAdjustmentID_PaymentID (PaymentAdjustment_ID a) = Payment_ID p \<and>
        PaymentAdjustment_Amount a = PSPPayment_Amount from \<and>
        PaymentAdjustment_Status a = Payment_Status p)"

lemma FromPSPPaymentToPayment_fresh:
  "FromPSPPaymentToPayment from c = Inr p \<Longrightarrow> fresh_payment from c p"
  by (cases "PSPPayment_Status from = PAYMENT_STATUS_AUTHORISATION")
    (auto simp: FromPSPPaymentToPayment_def FromPSPPaymentToPaymentAdjustment_def
      fresh_payment_def Let_def Validate_None_iff PSPPayment_HasParent_def
      split: option.splits if_splits)

lemma FromPSPPaymentToPayment_error_iff:
  "FromPSPPaymentToPayment from c = Inl e \<longleftrightarrow> PSPPayment_Validate from = Some e"
  by (auto simp: FromPSPPaymentToPayment_def Let_def split: option.splits)

lemma FromPSPPayments_all_fresh:
  "FromPSPPayments from c = Inr ps \<longleftrightarrow>
     list_all2 (\<lambda>f p. FromPSPPaymentToPayment f c = Inr p) from ps"
  by (simp add: FromPSPPayments_def result_map_list_Inr_iff)

end
