(* ===== verification/Accounts_Model.thy ===== *)
theory Accounts_Model
  imports Payments_Model
begin

text \<open>
  pkg/domain/models/accounts.go, account_type.go, balances.go and the provider
  names of connectors.go: what a connector reports about accounts and
  balances, what the program keeps of it, validation and conversion.
\<close>

section \<open>Connectors\<close>

text \<open>Provider names of version 2 become those of version 3.\<close>

definition ToV3Provider :: "string \<Rightarrow> string" where
  "ToV3Provider provider =
     (if provider = ''ADYEN'' then ''adyen''
      else if provider = ''ATLAR'' then ''atlar''
      else if provider = ''BANKING-CIRCLE'' then ''bankingcircle''
      else if provider = ''CURRENCY-CLOUD'' then ''currencycloud''
      else if provider = ''DUMMY-PAY'' then ''dummypay''
      else if provider = ''GENERIC'' then ''generic''
      else if provider = ''MANGOPAY'' then ''mangopay''
      else if provider = ''MODULR'' then ''modulr''
      else if provider = ''MONEYCORP'' then ''moneycorp''
      else if provider = ''STRIPE'' then ''stripe''
      else if provider = ''WISE'' then ''wise''
      else provider)"

record ConnectorBase =
  ConnectorBase_ID :: ConnectorID
  ConnectorBase_Name :: string
  ConnectorBase_CreatedAt :: time
  ConnectorBase_Provider :: string

section \<open>Accounts\<close>

type_synonym AccountType = string

definition ACCOUNT_TYPE_UNKNOWN :: AccountType where "ACCOUNT_TYPE_UNKNOWN = ''UNKNOWN''"
definition ACCOUNT_TYPE_INTERNAL :: AccountType where "ACCOUNT_TYPE_INTERNAL = ''INTERNAL''"
definition ACCOUNT_TYPE_EXTERNAL :: AccountType where "ACCOUNT_TYPE_EXTERNAL = ''EXTERNAL''"

lemmas account_types = ACCOUNT_TYPE_UNKNOWN_def ACCOUNT_TYPE_INTERNAL_def ACCOUNT_TYPE_EXTERNAL_def

definition AccountTypeFromString :: "string \<Rightarrow> AccountType" where
  "AccountTypeFromString value =
     (if value = ACCOUNT_TYPE_INTERNAL then ACCOUNT_TYPE_INTERNAL
      else if value = ACCOUNT_TYPE_EXTERNAL then ACCOUNT_TYPE_EXTERNAL
      else ACCOUNT_TYPE_UNKNOWN)"

record PSPAccount =
  PSPAccount_Reference :: string
  PSPAccount_CreatedAt :: time
  PSPAccount_Name :: "string option"
  PSPAccount_DefaultAsset :: "string option"
  PSPAccount_PsuID :: "uuid option"
  PSPAccount_OpenBankingConnectionID :: "string option"
  PSPAccount_Metadata :: metadata
  PSPAccount_Raw :: "string option"

record Account =
  Account_ID :: AccountID
  Account_ConnectorID :: ConnectorID
  Account_Connector :: "ConnectorBase option"
  Account_Reference :: string
  Account_CreatedAt :: time
  Account_Type :: AccountType
  Account_Name :: "string option"
  Account_DefaultAsset :: "string option"
  Account_PsuID :: "uuid option"
  Account_OpenBankingConnectionID :: "string option"
  Account_Metadata :: metadata
  Account_Raw :: "string option"

text \<open>fmt.Errorf("..: %w", ErrValidation).\<close>

definition model_invalid :: "string \<Rightarrow> error" where
  "model_invalid msg = Wrap msg (Sentinel Models_ErrValidation)"

definition PSPAccount_Validate :: "PSPAccount \<Rightarrow> error option" where
  "PSPAccount_Validate p =
     (if PSPAccount_Reference p = [] then Some (model_invalid ''missing account reference'')
      else if time_IsZero (PSPAccount_CreatedAt p)
      then Some (model_invalid ''missing account createdAt'')
      else if PSPAccount_Raw p = None then Some (model_invalid ''missing account raw'')
      else if (case PSPAccount_DefaultAsset p of None \<Rightarrow> False | Some a \<Rightarrow> \<not> IsValid a)
      then Some (model_invalid ''invalid default asset'')
      else None)"

definition FromPSPAccount :: "PSPAccount \<Rightarrow> AccountType \<Rightarrow> ConnectorID \<Rightarrow> Account result" where
  "FromPSPAccount from accountType connectorID = (case PSPAccount_Validate from of
     Some err \<Rightarrow> Inl err
   | None \<Rightarrow> Inr
      \<lparr>Account_ID = \<lparr>AccountID_Reference = PSPAccount_Reference from,
                     AccountID_ConnectorID = connectorID\<rparr>,
       Account_ConnectorID = connectorID,
       Account_Connector = None,
       Account_Reference = PSPAccount_Reference from,
       Account_CreatedAt = PSPAccount_CreatedAt from,
       Account_Type = accountType,
       Account_Name = PSPAccount_Name from,
       Account_DefaultAsset = PSPAccount_DefaultAsset from,
       Account_PsuID = PSPAccount_PsuID from,
       Account_OpenBankingConnectionID = PSPAccount_OpenBankingConnectionID from,
       Account_Metadata = PSPAccount_Metadata from,
       Account_Raw = PSPAccount_Raw from\<rparr>)"

text \<open>A nil metadata map and an empty one are the same here, so its initialisation is invisible.\<close>

definition FromPSPAccounts ::
  "PSPAccount list \<Rightarrow> AccountType \<Rightarrow> ConnectorID \<Rightarrow> Account list result" where
  "FromPSPAccounts from accountType connectorID =
     result_map_list (\<lambda>a. FromPSPAccount a accountType connectorID) from"

definition ToPSPAccount :: "Account option \<Rightarrow> PSPAccount option" where
  "ToPSPAccount from = (case from of None \<Rightarrow> None
   | Some a \<Rightarrow> Some
      \<lparr>PSPAccount_Reference = Account_Reference a,
       PSPAccount_CreatedAt = Account_CreatedAt a,
       PSPAccount_Name = Account_Name a,
       PSPAccount_DefaultAsset = Account_DefaultAsset a,
       PSPAccount_PsuID = Account_PsuID a,
       PSPAccount_OpenBankingConnectionID = Account_OpenBankingConnectionID a,
       PSPAccount_Metadata = Account_Metadata a,
       PSPAccount_Raw = Account_Raw a\<rparr>)"

section \<open>Balances\<close>

record PSPBalance =
  PSPBalance_AccountReference :: string
  PSPBalance_CreatedAt :: time
  PSPBalance_Amount :: "int option"
  PSPBalance_Asset :: string
  PSPBalance_PsuID :: "uuid option"
  PSPBalance_OpenBankingConnectionID :: "string option"

record Balance =
  Balance_AccountID :: AccountID
  Balance_CreatedAt :: time
  Balance_LastUpdatedAt :: time
  Balance_Asset :: string
  Balance_Balance :: "int option"
  Balance_PsuID :: "uuid option"
  Balance_OpenBankingConnectionID :: "string option"

record AggregatedBalance =
  AggregatedBalance_Asset :: string
  AggregatedBalance_Amount :: int
  AggregatedBalance_RelatedAccounts :: "AccountID list"

definition PSPBalance_Validate :: "PSPBalance \<Rightarrow> error option" where
  "PSPBalance_Validate p =
     (if PSPBalance_AccountReference p = [] then Some (model_invalid ''missing account reference'')
      else if time_IsZero (PSPBalance_CreatedAt p)
      then Some (model_invalid ''missing balance createdAt'')
      else if PSPBalance_Amount p = None then Some (model_invalid ''missing balance amount'')
      else if \<not> IsValid (PSPBalance_Asset p) then Some (model_invalid ''invalid balance asset'')
      else None)"

text \<open>What the idempotency key of a balance is computed from; Unix nanoseconds for the times.\<close>

type_synonym balance_ik = "AccountID \<times> time \<times> time \<times> string"

definition Balance_ik :: "Balance \<Rightarrow> balance_ik" where
  "Balance_ik b =
     (Balance_AccountID b, Balance_CreatedAt b, Balance_LastUpdatedAt b, Balance_Asset b)"

definition FromPSPBalance ::
  "PSPBalance \<Rightarrow> ConnectorID \<Rightarrow> uuid option \<Rightarrow> string option \<Rightarrow> Balance result" where
  "FromPSPBalance from connectorID psuId openBankingConnectionId =
     (case PSPBalance_Validate from of
        Some err \<Rightarrow> Inl err
      | None \<Rightarrow>
         (let psuId = (if psuId = None then PSPBalance_PsuID from else psuId);
              openBankingConnectionId =
                (if openBankingConnectionId = None then PSPBalance_OpenBankingConnectionID from
                 else openBankingConnectionId) in
          Inr \<lparr>Balance_AccountID = \<lparr>AccountID_Reference = PSPBalance_AccountReference from,
                                     AccountID_ConnectorID = connectorID\<rparr>,
               Balance_CreatedAt = PSPBalance_CreatedAt from,
               Balance_LastUpdatedAt = PSPBalance_CreatedAt from,
               Balance_Asset = PSPBalance_Asset from,
               Balance_Balance = PSPBalance_Amount from,
               Balance_PsuID = psuId,
               Balance_OpenBankingConnectionID = openBankingConnectionId\<rparr>))"

definition FromPSPBalances ::
  "PSPBalance list \<Rightarrow> ConnectorID \<Rightarrow> uuid option \<Rightarrow> string option \<Rightarrow> Balance list result" where
  "FromPSPBalances from connectorID psuId openBankingConnectionId =
     result_map_list (\<lambda>b. FromPSPBalance b connectorID psuId openBankingConnectionId) from"

section \<open>Facts\<close>

lemma ToV3Provider_idem [simp]: "ToV3Provider (ToV3Provider p) = ToV3Provider p"
  by (simp add: ToV3Provider_def)

lemma ToPSPAccount_FromPSPAccount:
  "FromPSPAccount from t c = Inr a \<Longrightarrow> ToPSPAccount (Some a) = Some from"
  by (cases "from") (auto simp: FromPSPAccount_def ToPSPAccount_def split: option.splits)

lemma FromPSPAccount_shape:
  "FromPSPAccount from t c = Inr a \<Longrightarrow>
     Account_ID a = \<lparr>AccountID_Reference = Account_Reference a, AccountID_ConnectorID = c\<rparr> \<and>
     Account_Reference a \<noteq> [] \<and> Account_Type a = t \<and> Account_ConnectorID a = c"
  by (auto simp: FromPSPAccount_def PSPAccount_Validate_def split: option.splits if_splits)

lemma FromPSPBalance_shape:
  "FromPSPBalance from c u o' = Inr b \<Longrightarrow>
     Balance_CreatedAt b = Balance_LastUpdatedAt b \<and> Balance_CreatedAt b \<noteq> 0 \<and>
     Balance_Balance b \<noteq> None \<and> IsValid (Balance_Asset b) \<and>
     AccountID_ConnectorID (Balance_AccountID b) = c"
  by (auto simp: FromPSPBalance_def PSPBalance_Validate_def time_IsZero_def Let_def
      split: option.splits if_splits)

end
