(* ===== verification/Initiations_Model.thy ===== *)
theory Initiations_Model
  imports Accounts_Model
begin

text \<open>
  pkg/domain/models/payment_initiations.go, payment_initiation_adjustments.go,
  payment_initiation_related_payments, payment_initiation_reversals.go,
  payment_initiation_reversal_adjustments.go and the status mapping at the end
  of payment_initiation_adjustments_status.go.
\<close>

section \<open>Data\<close>

record PSPPaymentInitiation =
  PSPPaymentInitiation_Reference :: string
  PSPPaymentInitiation_CreatedAt :: time
  PSPPaymentInitiation_Description :: string
  PSPPaymentInitiation_SourceAccount :: "PSPAccount option"
  PSPPaymentInitiation_DestinationAccount :: "PSPAccount option"
  PSPPaymentInitiation_Amount :: "int option"
  PSPPaymentInitiation_Asset :: string
  PSPPaymentInitiation_Metadata :: metadata

record PaymentInitiation =
  PaymentInitiation_ID :: PaymentInitiationID
  PaymentInitiation_ConnectorID :: ConnectorID
  PaymentInitiation_Reference :: string
  PaymentInitiation_CreatedAt :: time
  PaymentInitiation_ScheduledAt :: time
  PaymentInitiation_Description :: string
  PaymentInitiation_Type :: PaymentInitiationType
  PaymentInitiation_SourceAccountID :: "AccountID option"
  PaymentInitiation_DestinationAccountID :: "AccountID option"
  PaymentInitiation_Amount :: "int option"
  PaymentInitiation_Asset :: string
  PaymentInitiation_Metadata :: metadata

record PaymentInitiationAdjustment =
  PaymentInitiationAdjustment_ID :: PaymentInitiationAdjustmentID
  PaymentInitiationAdjustment_CreatedAt :: time
  PaymentInitiationAdjustment_Status :: PaymentInitiationAdjustmentStatus
  PaymentInitiationAdjustment_Amount :: "int option"
  PaymentInitiationAdjustment_Asset :: "string option"
  PaymentInitiationAdjustment_Error :: "error option"
  PaymentInitiationAdjustment_Metadata :: metadata

record PaymentInitiationRelatedPayments =
  PaymentInitiationRelatedPayments_PaymentInitiationID :: PaymentInitiationID
  PaymentInitiationRelatedPayments_PaymentID :: PaymentID

record PSPPaymentInitiationReversal =
  PSPPaymentInitiationReversal_Reference :: string
  PSPPaymentInitiationReversal_CreatedAt :: time
  PSPPaymentInitiationReversal_Description :: string
  PSPPaymentInitiationReversal_RelatedPaymentInitiation :: PSPPaymentInitiation
  PSPPaymentInitiationReversal_Amount :: "int option"
  PSPPaymentInitiationReversal_Asset :: string
  PSPPaymentInitiationReversal_Metadata :: metadata

record PaymentInitiationReversal =
  PaymentInitiationReversal_ID :: PaymentInitiationReversalID
  PaymentInitiationReversal_ConnectorID :: ConnectorID
  PaymentInitiationReversal_PaymentInitiationID :: PaymentInitiationID
  PaymentInitiationReversal_Reference :: string
  PaymentInitiationReversal_CreatedAt :: time
  PaymentInitiationReversal_Description :: string
  PaymentInitiationReversal_Amount :: "int option"
  PaymentInitiationReversal_Asset :: string
  PaymentInitiationReversal_Metadata :: metadata

record PaymentInitiationReversalAdjustment =
  PaymentInitiationReversalAdjustment_ID :: PaymentInitiationReversalAdjustmentID
  PaymentInitiationReversalAdjustment_PaymentInitiationReversalID :: PaymentInitiationReversalID
  PaymentInitiationReversalAdjustment_CreatedAt :: time
  PaymentInitiationReversalAdjustment_Status :: PaymentInitiationReversalAdjustmentStatus
  PaymentInitiationReversalAdjustment_Error :: "error option"
  PaymentInitiationReversalAdjustment_Metadata :: metadata

section \<open>Conversions\<close>

definition FromPaymentInitiationToPSPPaymentInitiation ::
  "PaymentInitiation \<Rightarrow> PSPAccount option \<Rightarrow> PSPAccount option \<Rightarrow> PSPPaymentInitiation" where
  "FromPaymentInitiationToPSPPaymentInitiation from sourceAccount destinationAccount =
     (let createdAt = (if \<not> time_IsZero (PaymentInitiation_ScheduledAt from)
                       then PaymentInitiation_ScheduledAt from
                       else PaymentInitiation_CreatedAt from) in
      \<lparr>PSPPaymentInitiation_Reference = PaymentInitiation_Reference from,
       PSPPaymentInitiation_CreatedAt = createdAt,
       PSPPaymentInitiation_Description = PaymentInitiation_Description from,
       PSPPaymentInitiation_SourceAccount = sourceAccount,
       PSPPaymentInitiation_DestinationAccount = destinationAccount,
       PSPPaymentInitiation_Amount = PaymentInitiation_Amount from,
       PSPPaymentInitiation_Asset = PaymentInitiation_Asset from,
       PSPPaymentInitiation_Metadata = PaymentInitiation_Metadata from\<rparr>)"

definition FromPaymentInitiationReversalToPSPPaymentInitiationReversal ::
  "PaymentInitiationReversal \<Rightarrow> PSPPaymentInitiation \<Rightarrow> PSPPaymentInitiationReversal" where
  "FromPaymentInitiationReversalToPSPPaymentInitiationReversal from relatedPI =
     \<lparr>PSPPaymentInitiationReversal_Reference = PaymentInitiationReversal_Reference from,
      PSPPaymentInitiationReversal_CreatedAt = PaymentInitiationReversal_CreatedAt from,
      PSPPaymentInitiationReversal_Description = PaymentInitiationReversal_Description from,
      PSPPaymentInitiationReversal_RelatedPaymentInitiation = relatedPI,
      PSPPaymentInitiationReversal_Amount = PaymentInitiationReversal_Amount from,
      PSPPaymentInitiationReversal_Asset = PaymentInitiationReversal_Asset from,
      PSPPaymentInitiationReversal_Metadata = PaymentInitiationReversal_Metadata from\<rparr>"

text \<open>
  The status a payment's status gives to the initiation it comes from, with
  the error recorded for it; None when no adjustment is to be added.
\<close>

fun pi_status_of_payment ::
  "PaymentStatus \<Rightarrow> (PaymentInitiationAdjustmentStatus \<times> error option) option" where
  "pi_status_of_payment PAYMENT_STATUS_AMOUNT_ADJUSTMENT = None"
| "pi_status_of_payment PAYMENT_STATUS_UNKNOWN = None"
| "pi_status_of_payment PAYMENT_STATUS_PENDING =
     Some (PAYMENT_INITIATION_ADJUSTMENT_STATUS_PROCESSING, None)"
| "pi_status_of_payment PAYMENT_STATUS_AUTHORISATION =
     Some (PAYMENT_INITIATION_ADJUSTMENT_STATUS_PROCESSING, None)"
| "pi_status_of_payment PAYMENT_STATUS_SUCCEEDED =
     Some (PAYMENT_INITIATION_ADJUSTMENT_STATUS_PROCESSED, None)"
| "pi_status_of_payment PAYMENT_STATUS_CAPTURE =
     Some (PAYMENT_INITIATION_ADJUSTMENT_STATUS_PROCESSED, None)"
| "pi_status_of_payment PAYMENT_STATUS_REFUND_REVERSED =
     Some (PAYMENT_INITIATION_ADJUSTMENT_STATUS_PROCESSED, None)"
| "pi_status_of_payment PAYMENT_STATUS_DISPUTE_WON =
     Some (PAYMENT_INITIATION_ADJUSTMENT_STATUS_PROCESSED, None)"
| "pi_status_of_payment PAYMENT_STATUS_CANCELLED =
     Some (PAYMENT_INITIATION_ADJUSTMENT_STATUS_FAILED, Some (Plain ''payment failed''))"
| "pi_status_of_payment PAYMENT_STATUS_CAPTURE_FAILED =
     Some (PAYMENT_INITIATION_ADJUSTMENT_STATUS_FAILED, Some (Plain ''payment failed''))"
| "pi_status_of_payment PAYMENT_STATUS_EXPIRED =
     Some (PAYMENT_INITIATION_ADJUSTMENT_STATUS_FAILED, Some (Plain ''payment failed''))"
| "pi_status_of_payment PAYMENT_STATUS_FAILED =
     Some (PAYMENT_INITIATION_ADJUSTMENT_STATUS_FAILED, Some (Plain ''payment failed''))"
| "pi_status_of_payment PAYMENT_STATUS_DISPUTE_LOST =
     Some (PAYMENT_INITIATION_ADJUSTMENT_STATUS_FAILED, Some (Plain ''payment failed''))"
| "pi_status_of_payment PAYMENT_STATUS_DISPUTE =
     Some (PAYMENT_INITIATION_ADJUSTMENT_STATUS_UNKNOWN, None)"
| "pi_status_of_payment PAYMENT_STATUS_REFUNDED =
     Some (PAYMENT_INITIATION_ADJUSTMENT_STATUS_REVERSED, None)"
| "pi_status_of_payment PAYMENT_STATUS_REFUNDED_FAILURE =
     Some (PAYMENT_INITIATION_ADJUSTMENT_STATUS_REVERSE_FAILED,
           Some (Plain ''payment refund failed''))"
| "pi_status_of_payment PAYMENT_STATUS_OTHER = None"

definition FromPaymentDataToPaymentInitiationAdjustment ::
  "PaymentStatus \<Rightarrow> time \<Rightarrow> PaymentInitiationID \<Rightarrow> PaymentInitiationAdjustment option" where
  "FromPaymentDataToPaymentInitiationAdjustment status createdAt piID =
     (case pi_status_of_payment status of
        None \<Rightarrow> None
      | Some (piStatus, err) \<Rightarrow> Some
          \<lparr>PaymentInitiationAdjustment_ID =
             \<lparr>PaymentInitiationAdjustmentID_PaymentInitiationID = piID,
              PaymentInitiationAdjustmentID_CreatedAt = createdAt,
              PaymentInitiationAdjustmentID_Status = piStatus\<rparr>,
           PaymentInitiationAdjustment_CreatedAt = createdAt,
           PaymentInitiationAdjustment_Status = piStatus,
           PaymentInitiationAdjustment_Amount = None,
           PaymentInitiationAdjustment_Asset = None,
           PaymentInitiationAdjustment_Error = err,
           PaymentInitiationAdjustment_Metadata = Map.empty\<rparr>)"

section \<open>Facts\<close>

text \<open>An adjustment derived from a payment never carries an amount, also when it reverses.\<close>

lemma FromPaymentData_shape:
  "FromPaymentDataToPaymentInitiationAdjustment st t i = Some a \<Longrightarrow>
     PaymentInitiationAdjustment_Amount a = None \<and>
     PaymentInitiationAdjustmentID_PaymentInitiationID (PaymentInitiationAdjustment_ID a) = i \<and>
     PaymentInitiationAdjustmentID_Status (PaymentInitiationAdjustment_ID a)
       = PaymentInitiationAdjustment_Status a \<and>
     PaymentInitiationAdjustmentID_CreatedAt (PaymentInitiationAdjustment_ID a)
       = PaymentInitiationAdjustment_CreatedAt a \<and>
     (PaymentInitiationAdjustment_Error a \<noteq> None \<longleftrightarrow>
        PaymentInitiationAdjustment_Status a \<in>
          {PAYMENT_INITIATION_ADJUSTMENT_STATUS_FAILED,
           PAYMENT_INITIATION_ADJUSTMENT_STATUS_REVERSE_FAILED})"
  by (cases st) (auto simp: FromPaymentDataToPaymentInitiationAdjustment_def)

end
