(* ===== verification/Order_Enums.thy ===== *)
theory Order_Enums
  imports Codec
begin

text \<open>
  The enumerations of orders and conversions: order_status.go,
  order_direction.go, order_type.go, time_in_force.go and conversion_status.go
  of pkg/domain/models.  Their Value methods refuse the UNKNOWN constant, and
  their (un)marshallers assign the receiver UNKNOWN when the parser fails.
\<close>

section \<open>OrderStatus\<close>

datatype OrderStatus =
    ORDER_STATUS_UNKNOWN
  | ORDER_STATUS_PENDING
  | ORDER_STATUS_OPEN
  | ORDER_STATUS_PARTIALLY_FILLED
  | ORDER_STATUS_FILLED
  | ORDER_STATUS_CANCELLED
  | ORDER_STATUS_FAILED
  | ORDER_STATUS_EXPIRED

fun OrderStatus_String :: "OrderStatus \<Rightarrow> string" where
  "OrderStatus_String ORDER_STATUS_UNKNOWN = ''UNKNOWN''"
| "OrderStatus_String ORDER_STATUS_PENDING = ''PENDING''"
| "OrderStatus_String ORDER_STATUS_OPEN = ''OPEN''"
| "OrderStatus_String ORDER_STATUS_PARTIALLY_FILLED = ''PARTIALLY_FILLED''"
| "OrderStatus_String ORDER_STATUS_FILLED = ''FILLED''"
| "OrderStatus_String ORDER_STATUS_CANCELLED = ''CANCELLED''"
| "OrderStatus_String ORDER_STATUS_FAILED = ''FAILED''"
| "OrderStatus_String ORDER_STATUS_EXPIRED = ''EXPIRED''"

definition OrderStatusFromString :: "string \<Rightarrow> OrderStatus result" where
  "OrderStatusFromString str = (
     if str = ''PENDING'' then Inr ORDER_STATUS_PENDING
     else if str = ''OPEN'' then Inr ORDER_STATUS_OPEN
     else if str = ''PARTIALLY_FILLED'' then Inr ORDER_STATUS_PARTIALLY_FILLED
     else if str = ''FILLED'' then Inr ORDER_STATUS_FILLED
     else if str = ''CANCELLED'' then Inr ORDER_STATUS_CANCELLED
     else if str = ''FAILED'' then Inr ORDER_STATUS_FAILED
     else if str = ''EXPIRED'' then Inr ORDER_STATUS_EXPIRED
     else if str = ''UNKNOWN'' then Inr ORDER_STATUS_UNKNOWN
     else Inl (Plain (''unknown order status: '' @ str)))"

definition OrderStatus_MarshalJSON :: "OrderStatus \<Rightarrow> json" where
  "OrderStatus_MarshalJSON t = JString (OrderStatus_String t)"

definition OrderStatus_UnmarshalJSON :: "json \<Rightarrow> OrderStatus \<Rightarrow> OrderStatus setter" where
  "OrderStatus_UnmarshalJSON data t =
     unmarshal_assign OrderStatusFromString ORDER_STATUS_UNKNOWN data t"

definition OrderStatus_Value :: "OrderStatus \<Rightarrow> driver_value result" where
  "OrderStatus_Value t =
     (if t = ORDER_STATUS_UNKNOWN then Inl (Plain ''unknown order status'') else Inr (DVString (OrderStatus_String t)))"

definition OrderStatus_Scan :: "driver_value \<Rightarrow> OrderStatus \<Rightarrow> OrderStatus setter" where
  "OrderStatus_Scan v t =
     scan_assign OrderStatusFromString ORDER_STATUS_UNKNOWN ''order status is nil'' ''failed to cast order status'' v t"

section \<open>OrderDirection\<close>

datatype OrderDirection =
    ORDER_DIRECTION_UNKNOWN
  | ORDER_DIRECTION_BUY
  | ORDER_DIRECTION_SELL

fun OrderDirection_String :: "OrderDirection \<Rightarrow> string" where
  "OrderDirection_String ORDER_DIRECTION_UNKNOWN = ''UNKNOWN''"
| "OrderDirection_String ORDER_DIRECTION_BUY = ''BUY''"
| "OrderDirection_String ORDER_DIRECTION_SELL = ''SELL''"

definition OrderDirectionFromString :: "string \<Rightarrow> OrderDirection result" where
  "OrderDirectionFromString s = (
     if s = ''BUY'' then Inr ORDER_DIRECTION_BUY
     else if s = ''SELL'' then Inr ORDER_DIRECTION_SELL
     else if s = ''UNKNOWN'' then Inr ORDER_DIRECTION_UNKNOWN
     else Inl (Plain (''unknown order direction: '' @ s)))"

definition OrderDirection_MarshalJSON :: "OrderDirection \<Rightarrow> json" where
  "OrderDirection_MarshalJSON t = JString (OrderDirection_String t)"

definition OrderDirection_UnmarshalJSON :: "json \<Rightarrow> OrderDirection \<Rightarrow> OrderDirection setter" where
  "OrderDirection_UnmarshalJSON data t =
     unmarshal_assign OrderDirectionFromString ORDER_DIRECTION_UNKNOWN data t"

definition OrderDirection_Value :: "OrderDirection \<Rightarrow> driver_value result" where
  "OrderDirection_Value t =
     (if t = ORDER_DIRECTION_UNKNOWN then Inl (Plain ''unknown order direction'') else Inr (DVString (OrderDirection_String t)))"

definition OrderDirection_Scan :: "driver_value \<Rightarrow> OrderDirection \<Rightarrow> OrderDirection setter" where
  "OrderDirection_Scan v t =
     scan_assign OrderDirectionFromString ORDER_DIRECTION_UNKNOWN ''order direction is nil'' ''failed to cast order direction'' v t"

section \<open>OrderType\<close>

datatype OrderType =
    ORDER_TYPE_UNKNOWN
  | ORDER_TYPE_MARKET
  | ORDER_TYPE_LIMIT
  | ORDER_TYPE_STOP_LIMIT
  | ORDER_TYPE_STOP
  | ORDER_TYPE_TWAP
  | ORDER_TYPE_VWAP
  | ORDER_TYPE_PEG
  | ORDER_TYPE_BLOCK
  | ORDER_TYPE_RFQ
  | ORDER_TYPE_TRAILING_STOP
  | ORDER_TYPE_TRAILING_STOP_LIMIT
  | ORDER_TYPE_TAKE_PROFIT
  | ORDER_TYPE_TAKE_PROFIT_LIMIT
  | ORDER_TYPE_LIMIT_MAKER

fun OrderType_String :: "OrderType \<Rightarrow> string" where
  "OrderType_String ORDER_TYPE_UNKNOWN = ''UNKNOWN''"
| "OrderType_String ORDER_TYPE_MARKET = ''MARKET''"
| "OrderType_String ORDER_TYPE_LIMIT = ''LIMIT''"
| "OrderType_String ORDER_TYPE_STOP_LIMIT = ''STOP_LIMIT''"
| "OrderType_String ORDER_TYPE_STOP = ''STOP''"
| "OrderType_String ORDER_TYPE_TWAP = ''TWAP''"
| "OrderType_String ORDER_TYPE_VWAP = ''VWAP''"
| "OrderType_String ORDER_TYPE_PEG = ''PEG''"
| "OrderType_String ORDER_TYPE_BLOCK = ''BLOCK''"
| "OrderType_String ORDER_TYPE_RFQ = ''RFQ''"
| "OrderType_String ORDER_TYPE_TRAILING_STOP = ''TRAILING_STOP''"
| "OrderType_String ORDER_TYPE_TRAILING_STOP_LIMIT = ''TRAILING_STOP_LIMIT''"
| "OrderType_String ORDER_TYPE_TAKE_PROFIT = ''TAKE_PROFIT''"
| "OrderType_String ORDER_TYPE_TAKE_PROFIT_LIMIT = ''TAKE_PROFIT_LIMIT''"
| "OrderType_String ORDER_TYPE_LIMIT_MAKER = ''LIMIT_MAKER''"

definition OrderTypeFromString :: "string \<Rightarrow> OrderType result" where
  "OrderTypeFromString s = (
     if s = ''MARKET'' then Inr ORDER_TYPE_MARKET
     else if s = ''LIMIT'' then Inr ORDER_TYPE_LIMIT
     else if s = ''STOP_LIMIT'' then Inr ORDER_TYPE_STOP_LIMIT
     else if s = ''STOP'' then Inr ORDER_TYPE_STOP
     else if s = ''TWAP'' then Inr ORDER_TYPE_TWAP
     else if s = ''VWAP'' then Inr ORDER_TYPE_VWAP
     else if s = ''PEG'' then Inr ORDER_TYPE_PEG
     else if s = ''BLOCK'' then Inr ORDER_TYPE_BLOCK
     else if s = ''RFQ'' then Inr ORDER_TYPE_RFQ
     else if s = ''TRAILING_STOP'' then Inr ORDER_TYPE_TRAILING_STOP
     else if s = ''TRAILING_STOP_LIMIT'' then Inr ORDER_TYPE_TRAILING_STOP_LIMIT
     else if s = ''TAKE_PROFIT'' then Inr ORDER_TYPE_TAKE_PROFIT
     else if s = ''TAKE_PROFIT_LIMIT'' then Inr ORDER_TYPE_TAKE_PROFIT_LIMIT
     else if s = ''LIMIT_MAKER'' then Inr ORDER_TYPE_LIMIT_MAKER
     else if s = ''UNKNOWN'' then Inr ORDER_TYPE_UNKNOWN
     else Inl (Plain (''unknown order type: '' @ s)))"

definition OrderType_MarshalJSON :: "OrderType \<Rightarrow> json" where
  "OrderType_MarshalJSON t = JString (OrderType_String t)"

definition OrderType_UnmarshalJSON :: "json \<Rightarrow> OrderType \<Rightarrow> OrderType setter" where
  "OrderType_UnmarshalJSON data t = unmarshal_assign OrderTypeFromString ORDER_TYPE_UNKNOWN data t"

definition OrderType_Value :: "OrderType \<Rightarrow> driver_value result" where
  "OrderType_Value t =
     (if t = ORDER_TYPE_UNKNOWN then Inl (Plain ''unknown order type'') else Inr (DVString (OrderType_String t)))"

definition OrderType_Scan :: "driver_value \<Rightarrow> OrderType \<Rightarrow> OrderType setter" where
  "OrderType_Scan v t =
     scan_assign OrderTypeFromString ORDER_TYPE_UNKNOWN ''order type is nil'' ''failed to cast order type'' v t"

section \<open>TimeInForce\<close>

datatype TimeInForce =
    TIME_IN_FORCE_UNKNOWN
  | TIME_IN_FORCE_GOOD_UNTIL_CANCELLED
  | TIME_IN_FORCE_GOOD_UNTIL_DATE_TIME
  | TIME_IN_FORCE_IMMEDIATE_OR_CANCEL
  | TIME_IN_FORCE_FILL_OR_KILL

fun TimeInForce_String :: "TimeInForce \<Rightarrow> string" where
  "TimeInForce_String TIME_IN_FORCE_UNKNOWN = ''UNKNOWN''"
| "TimeInForce_String TIME_IN_FORCE_GOOD_UNTIL_CANCELLED = ''GOOD_UNTIL_CANCELLED''"
| "TimeInForce_String TIME_IN_FORCE_GOOD_UNTIL_DATE_TIME = ''GOOD_UNTIL_DATE_TIME''"
| "TimeInForce_String TIME_IN_FORCE_IMMEDIATE_OR_CANCEL = ''IMMEDIATE_OR_CANCEL''"
| "TimeInForce_String TIME_IN_FORCE_FILL_OR_KILL = ''FILL_OR_KILL''"

definition TimeInForceFromString :: "string \<Rightarrow> TimeInForce result" where
  "TimeInForceFromString s = (
     if s = ''GOOD_UNTIL_CANCELLED'' \<or> s = ''GTC'' then Inr TIME_IN_FORCE_GOOD_UNTIL_CANCELLED
     else if s = ''GOOD_UNTIL_DATE_TIME'' \<or> s = ''GTD'' then Inr TIME_IN_FORCE_GOOD_UNTIL_DATE_TIME
     else if s = ''IMMEDIATE_OR_CANCEL'' \<or> s = ''IOC'' then Inr TIME_IN_FORCE_IMMEDIATE_OR_CANCEL
     else if s = ''FILL_OR_KILL'' \<or> s = ''FOK'' then Inr TIME_IN_FORCE_FILL_OR_KILL
     else if s = ''UNKNOWN'' then Inr TIME_IN_FORCE_UNKNOWN
     else Inl (Plain (''unknown time in force: '' @ s)))"

definition TimeInForce_MarshalJSON :: "TimeInForce \<Rightarrow> json" where
  "TimeInForce_MarshalJSON t = JString (TimeInForce_String t)"

definition TimeInForce_UnmarshalJSON :: "json \<Rightarrow> TimeInForce \<Rightarrow> TimeInForce setter" where
  "TimeInForce_UnmarshalJSON data t =
     unmarshal_assign TimeInForceFromString TIME_IN_FORCE_UNKNOWN data t"

definition TimeInForce_Value :: "TimeInForce \<Rightarrow> driver_value result" where
  "TimeInForce_Value t =
     (if t = TIME_IN_FORCE_UNKNOWN then Inl (Plain ''unknown time in force'') else Inr (DVString (TimeInForce_String t)))"

definition TimeInForce_Scan :: "driver_value \<Rightarrow> TimeInForce \<Rightarrow> TimeInForce setter" where
  "TimeInForce_Scan v t =
     scan_assign TimeInForceFromString TIME_IN_FORCE_UNKNOWN ''time in force is nil'' ''failed to cast time in force'' v t"

section \<open>ConversionStatus\<close>

datatype ConversionStatus =
    CONVERSION_STATUS_UNKNOWN
  | CONVERSION_STATUS_PENDING
  | CONVERSION_STATUS_COMPLETED
  | CONVERSION_STATUS_FAILED

fun ConversionStatus_String :: "ConversionStatus \<Rightarrow> string" where
  "ConversionStatus_String CONVERSION_STATUS_UNKNOWN = ''UNKNOWN''"
| "ConversionStatus_String CONVERSION_STATUS_PENDING = ''PENDING''"
| "ConversionStatus_String CONVERSION_STATUS_COMPLETED = ''COMPLETED''"
| "ConversionStatus_String CONVERSION_STATUS_FAILED = ''FAILED''"

definition ConversionStatusFromString :: "string \<Rightarrow> ConversionStatus result" where
  "ConversionStatusFromString str = (
     if str = ''PENDING'' then Inr CONVERSION_STATUS_PENDING
     else if str = ''COMPLETED'' then Inr CONVERSION_STATUS_COMPLETED
     else if str = ''FAILED'' then Inr CONVERSION_STATUS_FAILED
     else if str = ''UNKNOWN'' then Inr CONVERSION_STATUS_UNKNOWN
     else Inl (Plain (''unknown conversion status: '' @ str)))"

definition ConversionStatus_MarshalJSON :: "ConversionStatus \<Rightarrow> json" where
  "ConversionStatus_MarshalJSON t = JString (ConversionStatus_String t)"

definition ConversionStatus_UnmarshalJSON :: "json \<Rightarrow> ConversionStatus \<Rightarrow> ConversionStatus setter" where
  "ConversionStatus_UnmarshalJSON data t =
     unmarshal_assign ConversionStatusFromString CONVERSION_STATUS_UNKNOWN data t"

definition ConversionStatus_Value :: "ConversionStatus \<Rightarrow> driver_value result" where
  "ConversionStatus_Value t =
     (if t = CONVERSION_STATUS_UNKNOWN then Inl (Plain ''unknown conversion status'') else Inr (DVString (ConversionStatus_String t)))"

definition ConversionStatus_Scan :: "driver_value \<Rightarrow> ConversionStatus \<Rightarrow> ConversionStatus setter" where
  "ConversionStatus_Scan v t =
     scan_assign ConversionStatusFromString CONVERSION_STATUS_UNKNOWN ''conversion status is nil'' ''failed to cast conversion status'' v t"

section \<open>Final and cancellable statuses\<close>

fun OrderStatus_IsFinal :: "OrderStatus \<Rightarrow> bool" where
  "OrderStatus_IsFinal ORDER_STATUS_FILLED = True"
| "OrderStatus_IsFinal ORDER_STATUS_CANCELLED = True"
| "OrderStatus_IsFinal ORDER_STATUS_FAILED = True"
| "OrderStatus_IsFinal ORDER_STATUS_EXPIRED = True"
| "OrderStatus_IsFinal _ = False"

fun OrderStatus_CanCancel :: "OrderStatus \<Rightarrow> bool" where
  "OrderStatus_CanCancel ORDER_STATUS_PENDING = True"
| "OrderStatus_CanCancel ORDER_STATUS_OPEN = True"
| "OrderStatus_CanCancel ORDER_STATUS_PARTIALLY_FILLED = True"
| "OrderStatus_CanCancel _ = False"

fun ConversionStatus_IsFinal :: "ConversionStatus \<Rightarrow> bool" where
  "ConversionStatus_IsFinal CONVERSION_STATUS_COMPLETED = True"
| "ConversionStatus_IsFinal CONVERSION_STATUS_FAILED = True"
| "ConversionStatus_IsFinal _ = False"

section \<open>Codecs\<close>

interpretation order_status: strict_codec OrderStatus_String OrderStatusFromString "\<lambda>_. True"
proof unfold_locales
  fix t
  show "OrderStatusFromString (OrderStatus_String t) = Inr t" by (cases t) (simp_all add: OrderStatusFromString_def)
next
  fix s t
  assume "OrderStatusFromString s = Inr t"
  then show "OrderStatus_String t = s \<and> True" by (auto simp: OrderStatusFromString_def split: if_splits)
qed

interpretation order_direction: strict_codec OrderDirection_String OrderDirectionFromString "\<lambda>_. True"
proof unfold_locales
  fix t
  show "OrderDirectionFromString (OrderDirection_String t) = Inr t" by (cases t) (simp_all add: OrderDirectionFromString_def)
next
  fix s t
  assume "OrderDirectionFromString s = Inr t"
  then show "OrderDirection_String t = s \<and> True" by (auto simp: OrderDirectionFromString_def split: if_splits)
qed

interpretation order_type: strict_codec OrderType_String OrderTypeFromString "\<lambda>_. True"
proof unfold_locales
  fix t
  show "OrderTypeFromString (OrderType_String t) = Inr t" by (cases t) (simp_all add: OrderTypeFromString_def)
next
  fix s t
  assume "OrderTypeFromString s = Inr t"
  then show "OrderType_String t = s \<and> True" by (auto simp: OrderTypeFromString_def split: if_splits)
qed

interpretation time_in_force: text_codec TimeInForce_String TimeInForceFromString "\<lambda>_. True"
proof unfold_locales
  fix t
  show "TimeInForceFromString (TimeInForce_String t) = Inr t" by (cases t) (simp_all add: TimeInForceFromString_def)
qed

interpretation conversion_status: strict_codec ConversionStatus_String ConversionStatusFromString "\<lambda>_. True"
proof unfold_locales
  fix t
  show "ConversionStatusFromString (ConversionStatus_String t) = Inr t" by (cases t) (simp_all add: ConversionStatusFromString_def)
next
  fix s t
  assume "ConversionStatusFromString s = Inr t"
  then show "ConversionStatus_String t = s \<and> True" by (auto simp: ConversionStatusFromString_def split: if_splits)
qed

end
