(* ===== verification/Orders_Model.thy ===== *)
theory Orders_Model
  imports Payments_Model Order_Enums
begin

text \<open>
  pkg/domain/models/orders.go and conversions.go: the orders and conversions an
  exchange reports, their validation, and what the program keeps of them.  The
  orders of one batch with one identifier are merged into one order that carries
  the adjustments of all of them.
\<close>

section \<open>Orders\<close>

record PSPOrder =
  PSPOrder_Reference :: string
  PSPOrder_ClientOrderID :: string
  PSPOrder_CreatedAt :: time
  PSPOrder_Direction :: OrderDirection
  PSPOrder_SourceAsset :: string
  PSPOrder_DestinationAsset :: string
  PSPOrder_Type :: OrderType
  PSPOrder_Status :: OrderStatus
  PSPOrder_BaseQuantityOrdered :: "int option"
  PSPOrder_BaseQuantityFilled :: "int option"
  PSPOrder_LimitPrice :: "int option"
  PSPOrder_StopPrice :: "int option"
  PSPOrder_TimeInForce :: TimeInForce
  PSPOrder_ExpiresAt :: "time option"
  PSPOrder_QuoteAmount :: "int option"
  PSPOrder_QuoteAsset :: string
  PSPOrder_Fee :: "int option"
  PSPOrder_FeeAsset :: "string option"
  PSPOrder_AverageFillPrice :: "int option"
  PSPOrder_PriceAsset :: "string option"
  PSPOrder_SourceAccountReference :: "string option"
  PSPOrder_DestinationAccountReference :: "string option"
  PSPOrder_Metadata :: metadata
  PSPOrder_Raw :: "string option"

record OrderAdjustmentID =
  OrderAdjustmentID_OrderID :: OrderID
  OrderAdjustmentID_Reference :: string
  OrderAdjustmentID_Status :: OrderStatus
  OrderAdjustmentID_BaseQuantityFilled :: "int option"
  OrderAdjustmentID_Fee :: "int option"
  OrderAdjustmentID_FeeAsset :: "string option"

record OrderAdjustment =
  OrderAdjustment_ID :: OrderAdjustmentID
  OrderAdjustment_Reference :: string
  OrderAdjustment_CreatedAt :: time
  OrderAdjustment_Status :: OrderStatus
  OrderAdjustment_BaseQuantityFilled :: "int option"
  OrderAdjustment_Fee :: "int option"
  OrderAdjustment_FeeAsset :: "string option"
  OrderAdjustment_Metadata :: metadata
  OrderAdjustment_Raw :: "string option"

record Order =
  Order_ID :: OrderID
  Order_ConnectorID :: ConnectorID
  Order_Reference :: string
  Order_ClientOrderID :: string
  Order_CreatedAt :: time
  Order_UpdatedAt :: time
  Order_Direction :: OrderDirection
  Order_SourceAsset :: string
  Order_DestinationAsset :: string
  Order_Type :: OrderType
  Order_Status :: OrderStatus
  Order_BaseQuantityOrdered :: "int option"
  Order_BaseQuantityFilled :: "int option"
  Order_LimitPrice :: "int option"
  Order_StopPrice :: "int option"
  Order_TimeInForce :: TimeInForce
  Order_ExpiresAt :: "time option"
  Order_QuoteAmount :: "int option"
  Order_QuoteAsset :: string
  Order_Fee :: "int option"
  Order_FeeAsset :: "string option"
  Order_AverageFillPrice :: "int option"
  Order_PriceAsset :: "string option"
  Order_SourceAccountID :: "AccountID option"
  Order_DestinationAccountID :: "AccountID option"
  Order_Metadata :: metadata
  Order_Adjustments :: "OrderAdjustment list"

definition PSPOrder_Validate :: "PSPOrder \<Rightarrow> error option" where
  "PSPOrder_Validate o' =
     (if PSPOrder_Reference o' = [] then Some (validation_error ''missing order reference'')
      else if time_IsZero (PSPOrder_CreatedAt o') then Some (validation_error ''missing order createdAt'')
      else if PSPOrder_Direction o' = ORDER_DIRECTION_UNKNOWN
      then Some (validation_error ''missing order direction'')
      else if \<not> IsValid (PSPOrder_SourceAsset o')
      then Some (validation_error ''invalid order source asset'')
      else if \<not> IsValid (PSPOrder_DestinationAsset o')
      then Some (validation_error ''invalid order target asset'')
      else if PSPOrder_Type o' = ORDER_TYPE_UNKNOWN then Some (validation_error ''missing order type'')
      else if PSPOrder_Status o' = ORDER_STATUS_UNKNOWN
      then Some (validation_error ''missing order status'')
      else if PSPOrder_BaseQuantityOrdered o' = None
      then Some (validation_error ''missing order base quantity ordered'')
      else if PSPOrder_Raw o' = None then Some (validation_error ''missing order raw'')
      else None)"

definition FromPSPOrderToOrderAdjustment ::
  "PSPOrder \<Rightarrow> ConnectorID \<Rightarrow> time \<Rightarrow> OrderAdjustment" where
  "FromPSPOrderToOrderAdjustment from connectorID observedAt =
     \<lparr>OrderAdjustment_ID = 
         \<lparr>OrderAdjustmentID_OrderID = \<lparr>OrderID_Reference = PSPOrder_Reference from,
                      OrderID_ConnectorID = connectorID\<rparr>,
          OrderAdjustmentID_Reference = PSPOrder_Reference from,
          OrderAdjustmentID_Status = PSPOrder_Status from,
          OrderAdjustmentID_BaseQuantityFilled = PSPOrder_BaseQuantityFilled from,
          OrderAdjustmentID_Fee = PSPOrder_Fee from,
          OrderAdjustmentID_FeeAsset = PSPOrder_FeeAsset from\<rparr>,
      OrderAdjustment_Reference = PSPOrder_Reference from,
      OrderAdjustment_CreatedAt = observedAt,
      OrderAdjustment_Status = PSPOrder_Status from,
      OrderAdjustment_BaseQuantityFilled = PSPOrder_BaseQuantityFilled from,
      OrderAdjustment_Fee = PSPOrder_Fee from,
      OrderAdjustment_FeeAsset = PSPOrder_FeeAsset from,
      OrderAdjustment_Metadata = PSPOrder_Metadata from,
      OrderAdjustment_Raw = PSPOrder_Raw from\<rparr>"

definition FromPSPOrderToOrder :: "PSPOrder \<Rightarrow> ConnectorID \<Rightarrow> time \<Rightarrow> Order result" where
  "FromPSPOrderToOrder from connectorID observedAt = (case PSPOrder_Validate from of
     Some err \<Rightarrow> Inl err
   | None \<Rightarrow> Inr
      \<lparr>Order_ID = \<lparr>OrderID_Reference = PSPOrder_Reference from, OrderID_ConnectorID = connectorID\<rparr>,
       Order_ConnectorID = connectorID,
       Order_Reference = PSPOrder_Reference from,
       Order_ClientOrderID = PSPOrder_ClientOrderID from,
       Order_CreatedAt = PSPOrder_CreatedAt from,
       Order_UpdatedAt = observedAt,
       Order_Direction = PSPOrder_Direction from,
       Order_SourceAsset = PSPOrder_SourceAsset from,
       Order_DestinationAsset = PSPOrder_DestinationAsset from,
       Order_Type = PSPOrder_Type from,
       Order_Status = PSPOrder_Status from,
       Order_BaseQuantityOrdered = PSPOrder_BaseQuantityOrdered from,
       Order_BaseQuantityFilled = PSPOrder_BaseQuantityFilled from,
       Order_LimitPrice = PSPOrder_LimitPrice from,
       Order_StopPrice = PSPOrder_StopPrice from,
       Order_TimeInForce = PSPOrder_TimeInForce from,
       Order_ExpiresAt = PSPOrder_ExpiresAt from,
       Order_QuoteAmount = PSPOrder_QuoteAmount from,
       Order_QuoteAsset = PSPOrder_QuoteAsset from,
       Order_Fee = PSPOrder_Fee from,
       Order_FeeAsset = PSPOrder_FeeAsset from,
       Order_AverageFillPrice = PSPOrder_AverageFillPrice from,
       Order_PriceAsset = PSPOrder_PriceAsset from,
       Order_SourceAccountID = NewAccountID (PSPOrder_SourceAccountReference from) connectorID,
       Order_DestinationAccountID = NewAccountID (PSPOrder_DestinationAccountReference from) connectorID,
       Order_Metadata = PSPOrder_Metadata from,
       Order_Adjustments = [FromPSPOrderToOrderAdjustment from connectorID observedAt]\<rparr>)"

text \<open>
  FromPSPOrders: merge_order is the duplicate branch of its loop, which rewrites
  the order already collected at the position of its identifier.
\<close>

definition merge_order :: "Order \<Rightarrow> Order \<Rightarrow> Order" where
  "merge_order existing order =
     (let (newest, oldest) =
            (if Order_CreatedAt order < Order_CreatedAt existing then (existing, order)
             else (order, existing)) in
      newest\<lparr>Order_Adjustments := Order_Adjustments oldest @ Order_Adjustments newest\<rparr>)"

definition add_order :: "Order list \<Rightarrow> Order \<Rightarrow> Order list" where
  "add_order orders order =
     (if list_ex (\<lambda>o'. Order_ID o' = Order_ID order) orders
      then map (\<lambda>o'. if Order_ID o' = Order_ID order then merge_order o' order else o') orders
      else orders @ [order])"

fun psp_orders_loop :: "ConnectorID \<Rightarrow> time \<Rightarrow> PSPOrder list \<Rightarrow> Order list \<Rightarrow> Order list result" where
  "psp_orders_loop connectorID observedAt [] orders = Inr orders"
| "psp_orders_loop connectorID observedAt (x # xs) orders =
     result_bind (FromPSPOrderToOrder x connectorID observedAt)
       (\<lambda>order. psp_orders_loop connectorID observedAt xs (add_order orders order))"

definition FromPSPOrders :: "PSPOrder list \<Rightarrow> ConnectorID \<Rightarrow> time \<Rightarrow> Order list result" where
  "FromPSPOrders from connectorID observedAt = psp_orders_loop connectorID observedAt from []"

text \<open>The raw message of the last of the newest adjustments.\<close>

fun latest_adjustment :: "OrderAdjustment \<Rightarrow> OrderAdjustment list \<Rightarrow> OrderAdjustment" where
  "latest_adjustment latest [] = latest"
| "latest_adjustment latest (a # as) =
     latest_adjustment
       (if OrderAdjustment_CreatedAt a < OrderAdjustment_CreatedAt latest then latest else a) as"

fun latestAdjustmentRaw :: "OrderAdjustment list \<Rightarrow> string option" where
  "latestAdjustmentRaw [] = None"
| "latestAdjustmentRaw (a # as) = OrderAdjustment_Raw (latest_adjustment a as)"

definition ToPSPOrder :: "Order \<Rightarrow> PSPOrder" where
  "ToPSPOrder order =
     \<lparr>PSPOrder_Reference = Order_Reference order,
      PSPOrder_ClientOrderID = [],
      PSPOrder_CreatedAt = Order_CreatedAt order,
      PSPOrder_Direction = Order_Direction order,
      PSPOrder_SourceAsset = Order_SourceAsset order,
      PSPOrder_DestinationAsset = Order_DestinationAsset order,
      PSPOrder_Type = Order_Type order,
      PSPOrder_Status = Order_Status order,
      PSPOrder_BaseQuantityOrdered = Order_BaseQuantityOrdered order,
      PSPOrder_BaseQuantityFilled = Order_BaseQuantityFilled order,
      PSPOrder_LimitPrice = Order_LimitPrice order,
      PSPOrder_StopPrice = Order_StopPrice order,
      PSPOrder_TimeInForce = Order_TimeInForce order,
      PSPOrder_ExpiresAt = Order_ExpiresAt order,
      PSPOrder_QuoteAmount = Order_QuoteAmount order,
      PSPOrder_QuoteAsset = Order_QuoteAsset order,
      PSPOrder_Fee = Order_Fee order,
      PSPOrder_FeeAsset = Order_FeeAsset order,
      PSPOrder_AverageFillPrice = Order_AverageFillPrice order,
      PSPOrder_PriceAsset = Order_PriceAsset order,
      PSPOrder_SourceAccountReference = AccountID_Ref (Order_SourceAccountID order),
      PSPOrder_DestinationAccountReference = AccountID_Ref (Order_DestinationAccountID order),
      PSPOrder_Metadata = Order_Metadata order,
      PSPOrder_Raw = latestAdjustmentRaw (Order_Adjustments order)\<rparr>"

section \<open>Conversions\<close>

record PSPConversion =
  PSPConversion_Reference :: string
  PSPConversion_CreatedAt :: time
  PSPConversion_SourceAsset :: string
  PSPConversion_DestinationAsset :: string
  PSPConversion_SourceAmount :: "int option"
  PSPConversion_DestinationAmount :: "int option"
  PSPConversion_Fee :: "int option"
  PSPConversion_FeeAsset :: "string option"
  PSPConversion_Status :: ConversionStatus
  PSPConversion_SourceAccountReference :: "string option"
  PSPConversion_DestinationAccountReference :: "string option"
  PSPConversion_Metadata :: metadata
  PSPConversion_Raw :: "string option"

record Conversion =
  Conversion_ID :: ConversionID
  Conversion_ConnectorID :: ConnectorID
  Conversion_Reference :: string
  Conversion_CreatedAt :: time
  Conversion_UpdatedAt :: time
  Conversion_SourceAsset :: string
  Conversion_DestinationAsset :: string
  Conversion_SourceAmount :: "int option"
  Conversion_DestinationAmount :: "int option"
  Conversion_Fee :: "int option"
  Conversion_FeeAsset :: "string option"
  Conversion_Status :: ConversionStatus
  Conversion_SourceAccountID :: "AccountID option"
  Conversion_DestinationAccountID :: "AccountID option"
  Conversion_Metadata :: metadata
  Conversion_Raw :: "string option"

text \<open>What the idempotency key of a conversion is computed from.\<close>

definition Conversion_ik :: "Conversion \<Rightarrow> ConversionID \<times> ConversionStatus" where
  "Conversion_ik c = (Conversion_ID c, Conversion_Status c)"

definition PSPConversion_Validate :: "PSPConversion \<Rightarrow> error option" where
  "PSPConversion_Validate c =
     (if PSPConversion_Reference c = [] then Some (validation_error ''missing conversion reference'')
      else if time_IsZero (PSPConversion_CreatedAt c)
      then Some (validation_error ''missing conversion createdAt'')
      else if \<not> IsValid (PSPConversion_SourceAsset c)
      then Some (validation_error ''invalid conversion source asset'')
      else if \<not> IsValid (PSPConversion_DestinationAsset c)
      then Some (validation_error ''invalid conversion destination asset'')
      else if PSPConversion_SourceAmount c = None
      then Some (validation_error ''missing conversion source amount'')
      else if PSPConversion_Status c = CONVERSION_STATUS_UNKNOWN
      then Some (validation_error ''missing conversion status'')
      else if PSPConversion_Raw c = None then Some (validation_error ''missing conversion raw'')
      else None)"

text \<open>now: time.Now().UTC().\<close>

definition FromPSPConversionToConversion ::
  "time \<Rightarrow> PSPConversion \<Rightarrow> ConnectorID \<Rightarrow> Conversion result" where
  "FromPSPConversionToConversion now from connectorID = (case PSPConversion_Validate from of
     Some err \<Rightarrow> Inl err
   | None \<Rightarrow> Inr
      \<lparr>Conversion_ID = \<lparr>ConversionID_Reference = PSPConversion_Reference from, ConversionID_ConnectorID = connectorID\<rparr>,
       Conversion_ConnectorID = connectorID,
       Conversion_Reference = PSPConversion_Reference from,
       Conversion_CreatedAt = PSPConversion_CreatedAt from,
       Conversion_UpdatedAt = now,
       Conversion_SourceAsset = PSPConversion_SourceAsset from,
       Conversion_DestinationAsset = PSPConversion_DestinationAsset from,
       Conversion_SourceAmount = PSPConversion_SourceAmount from,
       Conversion_DestinationAmount = PSPConversion_DestinationAmount from,
       Conversion_Fee = PSPConversion_Fee from,
       Conversion_FeeAsset = PSPConversion_FeeAsset from,
       Conversion_Status = PSPConversion_Status from,
       Conversion_SourceAccountID = NewAccountID (PSPConversion_SourceAccountReference from) connectorID,
       Conversion_DestinationAccountID = NewAccountID (PSPConversion_DestinationAccountReference from) connectorID,
       Conversion_Metadata = PSPConversion_Metadata from,
       Conversion_Raw = PSPConversion_Raw from\<rparr>)"

definition FromPSPConversions ::
  "time \<Rightarrow> PSPConversion list \<Rightarrow> ConnectorID \<Rightarrow> Conversion list result" where
  "FromPSPConversions now from connectorID =
     result_map_list (\<lambda>c. FromPSPConversionToConversion now c connectorID) from"

end
