(* ===== verification/Users_Model.thy ===== *)
theory Users_Model
  imports Accounts_Model
begin

text \<open>
  pkg/domain/models/bank_accounts.go, bank_accounts_related_accounts.go, psu.go,
  open_banking_connections.go, token.go, webhooks.go and
  connector_tasks_tree.go: bank accounts, payment service users, their open
  banking connections, webhooks, and the tree of tasks of a connector.
\<close>

section \<open>Bank accounts\<close>

record BankAccountRelatedAccount =
  BankAccountRelatedAccount_AccountID :: AccountID
  BankAccountRelatedAccount_CreatedAt :: time

record BankAccount =
  BankAccount_ID :: uuid
  BankAccount_CreatedAt :: time
  BankAccount_Name :: string
  BankAccount_AccountNumber :: "string option"
  BankAccount_IBAN :: "string option"
  BankAccount_SwiftBicCode :: "string option"
  BankAccount_Country :: "string option"
  BankAccount_Metadata :: metadata
  BankAccount_RelatedAccounts :: "BankAccountRelatedAccount list"

text \<open>
  What the idempotency key of a bank account is computed from; the key itself
  (with the hash of non-empty metadata) is the canonical JSON library's.
\<close>

definition BankAccount_ik :: "BankAccount \<Rightarrow> uuid \<times> AccountID option \<times> metadata" where
  "BankAccount_ik b =
     (BankAccount_ID b,
      (if BankAccount_RelatedAccounts b = [] then None
       else Some (BankAccountRelatedAccount_AccountID (last (BankAccount_RelatedAccounts b)))),
      BankAccount_Metadata b)"

text \<open>The prefix and the suffix kept overlap: everything is masked.\<close>

definition obfuscate :: "string \<Rightarrow> nat \<Rightarrow> nat \<Rightarrow> string" where
  "obfuscate v prefix suffix =
     (let n = length v in
      if n < prefix + suffix then replicate n (CHR ''*'')
      else take prefix v @ replicate (n - prefix - suffix) (CHR ''*'') @ drop (n - suffix) v)"

definition BankAccount_Obfuscate :: "BankAccount \<Rightarrow> BankAccount" where
  "BankAccount_Obfuscate a =
     a\<lparr>BankAccount_IBAN := map_option (\<lambda>v. obfuscate v 4 4) (BankAccount_IBAN a),
       BankAccount_AccountNumber := map_option (\<lambda>v. obfuscate v 2 3) (BankAccount_AccountNumber a)\<rparr>"

text \<open>Metadata keys.\<close>

definition bankAccountOwnerNamespace :: string where
  "bankAccountOwnerNamespace = ''com.formance.spec/'' @ ''owner/''"

definition owner_key :: "string \<Rightarrow> string" where
  "owner_key k = bankAccountOwnerNamespace @ k"

text \<open>A missing key of a Go map reads as the empty string.\<close>

definition metadata_get :: "metadata \<Rightarrow> string \<Rightarrow> string" where
  "metadata_get m k = (case m k of None \<Rightarrow> [] | Some v \<Rightarrow> v)"

definition fillMetadata :: "metadata \<Rightarrow> string \<Rightarrow> string option \<Rightarrow> metadata" where
  "fillMetadata m key v = (case v of None \<Rightarrow> m | Some x \<Rightarrow> m(key \<mapsto> x))"

definition FillBankAccountDetailsToAccountMetadata :: "Account \<Rightarrow> BankAccount \<Rightarrow> Account" where
  "FillBankAccountDetailsToAccountMetadata account bankAccount =
     (let copied = (\<lambda>m k. m(owner_key k \<mapsto> metadata_get (BankAccount_Metadata bankAccount) (owner_key k)));
          m1 = foldl copied (Account_Metadata account)
                 [''addressLine1'', ''addressLine2'', ''city'', ''region'', ''postalCode''];
          m2 = fillMetadata m1 (owner_key ''accountNumber'') (BankAccount_AccountNumber bankAccount);
          m3 = fillMetadata m2 (owner_key ''iban'') (BankAccount_IBAN bankAccount);
          m4 = fillMetadata m3 (owner_key ''swiftBicCode'') (BankAccount_SwiftBicCode bankAccount);
          m5 = fillMetadata m4 (owner_key ''country'') (BankAccount_Country bankAccount) in
      account\<lparr>Account_Metadata := m5(owner_key ''name'' \<mapsto> BankAccount_Name bankAccount)\<rparr>)"

section \<open>Payment service users\<close>

record Address =
  Address_StreetName :: "string option"
  Address_StreetNumber :: "string option"
  Address_City :: "string option"
  Address_Region :: "string option"
  Address_PostalCode :: "string option"
  Address_Country :: "string option"

record ContactDetails =
  ContactDetails_Email :: "string option"
  ContactDetails_PhoneNumber :: "string option"
  ContactDetails_Locale :: "string option"

record PSPPaymentServiceUser =
  PSPPaymentServiceUser_ID :: uuid
  PSPPaymentServiceUser_Name :: string
  PSPPaymentServiceUser_CreatedAt :: time
  PSPPaymentServiceUser_ContactDetails :: "ContactDetails option"
  PSPPaymentServiceUser_Address :: "Address option"
  PSPPaymentServiceUser_Metadata :: metadata

record PaymentServiceUser =
  PaymentServiceUser_ID :: uuid
  PaymentServiceUser_Name :: string
  PaymentServiceUser_CreatedAt :: time
  PaymentServiceUser_ContactDetails :: "ContactDetails option"
  PaymentServiceUser_Address :: "Address option"
  PaymentServiceUser_Metadata :: metadata
  PaymentServiceUser_BankAccountIDs :: "uuid list"
  PaymentServiceUser_OpenBankingConnections :: "uuid list"

definition ToPSPPaymentServiceUser :: "PaymentServiceUser option \<Rightarrow> PSPPaymentServiceUser option" where
  "ToPSPPaymentServiceUser = map_option (\<lambda>from.
     \<lparr>PSPPaymentServiceUser_ID = PaymentServiceUser_ID from,
      PSPPaymentServiceUser_Name = PaymentServiceUser_Name from,
      PSPPaymentServiceUser_CreatedAt = PaymentServiceUser_CreatedAt from,
      PSPPaymentServiceUser_ContactDetails = PaymentServiceUser_ContactDetails from,
      PSPPaymentServiceUser_Address = PaymentServiceUser_Address from,
      PSPPaymentServiceUser_Metadata = PaymentServiceUser_Metadata from\<rparr>)"

text \<open>The first line of the address: number and name of the street, or the name alone.\<close>

definition address_line1 :: "Address \<Rightarrow> string option" where
  "address_line1 a =
     (case (Address_StreetNumber a, Address_StreetName a) of
        (Some n, Some s) \<Rightarrow> Some (n @ '' '' @ s)
      | (None, Some s) \<Rightarrow> Some s
      | (_, None) \<Rightarrow> None)"

text \<open>The map of the metadata is not nil (the storage reads it from a column that is not null).\<close>

definition FillBankAccountMetadataWithPaymentServiceUserInfo ::
  "BankAccount \<Rightarrow> PaymentServiceUser \<Rightarrow> BankAccount" where
  "FillBankAccountMetadataWithPaymentServiceUserInfo ba psu =
     (let fill = (\<lambda>m (k, v). fillMetadata m (owner_key k) v);
          m1 = (case PaymentServiceUser_Address psu of
                  None \<Rightarrow> BankAccount_Metadata ba
                | Some a \<Rightarrow> foldl fill (BankAccount_Metadata ba)
                    [(''addressLine1'', address_line1 a), (''streetName'', Address_StreetName a),
                     (''streetNumber'', Address_StreetNumber a), (''city'', Address_City a),
                     (''region'', Address_Region a), (''postalCode'', Address_PostalCode a)]);
          m2 = (case PaymentServiceUser_ContactDetails psu of
                  None \<Rightarrow> m1
                | Some c \<Rightarrow> foldl fill m1
                    [(''email'', ContactDetails_Email c), (''phoneNumber'', ContactDetails_PhoneNumber c)]) in
      ba\<lparr>BankAccount_Metadata := m2\<rparr>)"

section \<open>Open banking\<close>

record Token =
  Token_Token :: string
  Token_ExpiresAt :: time

type_synonym OpenBankingConnectionAttemptStatus = string

definition OpenBankingConnectionAttemptStatusPending :: OpenBankingConnectionAttemptStatus where
  "OpenBankingConnectionAttemptStatusPending = ''pending''"
definition OpenBankingConnectionAttemptStatusCompleted :: OpenBankingConnectionAttemptStatus where
  "OpenBankingConnectionAttemptStatusCompleted = ''completed''"
definition OpenBankingConnectionAttemptStatusExited :: OpenBankingConnectionAttemptStatus where
  "OpenBankingConnectionAttemptStatusExited = ''exited''"

type_synonym ConnectionStatus = string

definition ConnectionStatusActive :: ConnectionStatus where "ConnectionStatusActive = ''ACTIVE''"
definition ConnectionStatusError :: ConnectionStatus where "ConnectionStatusError = ''ERROR''"

lemma connection_statuses_distinct [simp]:
  "ConnectionStatusActive \<noteq> ConnectionStatusError" "ConnectionStatusError \<noteq> ConnectionStatusActive"
  by (simp_all add: ConnectionStatusActive_def ConnectionStatusError_def)

record CallbackState =
  CallbackState_Randomized :: string
  CallbackState_AttemptID :: uuid

record OpenBankingConnectionAttempt =
  OpenBankingConnectionAttempt_ID :: uuid
  OpenBankingConnectionAttempt_PsuID :: uuid
  OpenBankingConnectionAttempt_ConnectorID :: ConnectorID
  OpenBankingConnectionAttempt_CreatedAt :: time
  OpenBankingConnectionAttempt_Status :: OpenBankingConnectionAttemptStatus
  OpenBankingConnectionAttempt_State :: CallbackState
  OpenBankingConnectionAttempt_ClientRedirectURL :: "string option"
  OpenBankingConnectionAttempt_TemporaryToken :: "Token option"
  OpenBankingConnectionAttempt_Error :: "string option"

record OpenBankingForwardedUser =
  OpenBankingForwardedUser_PsuID :: uuid
  OpenBankingForwardedUser_ConnectorID :: ConnectorID
  OpenBankingForwardedUser_AccessToken :: "Token option"
  OpenBankingForwardedUser_PSPUserID :: "string option"
  OpenBankingForwardedUser_Metadata :: metadata

record PSPOpenBankingConnection =
  PSPOpenBankingConnection_ConnectionID :: string
  PSPOpenBankingConnection_CreatedAt :: time
  PSPOpenBankingConnection_AccessToken :: "Token option"
  PSPOpenBankingConnection_Metadata :: metadata

record OpenBankingConnection =
  OpenBankingConnection_ConnectionID :: string
  OpenBankingConnection_ConnectorID :: ConnectorID
  OpenBankingConnection_CreatedAt :: time
  OpenBankingConnection_DataUpdatedAt :: time
  OpenBankingConnection_Status :: ConnectionStatus
  OpenBankingConnection_UpdatedAt :: time
  OpenBankingConnection_AccessToken :: "Token option"
  OpenBankingConnection_Error :: "string option"
  OpenBankingConnection_Metadata :: metadata

definition ToPSPOpenBankingConnection :: "OpenBankingConnection \<Rightarrow> PSPOpenBankingConnection" where
  "ToPSPOpenBankingConnection from =
     \<lparr>PSPOpenBankingConnection_ConnectionID = OpenBankingConnection_ConnectionID from,
      PSPOpenBankingConnection_CreatedAt = OpenBankingConnection_CreatedAt from,
      PSPOpenBankingConnection_AccessToken = OpenBankingConnection_AccessToken from,
      PSPOpenBankingConnection_Metadata = OpenBankingConnection_Metadata from\<rparr>"

text \<open>The status and the error stay at their zero values.\<close>

definition FromPSPOpenBankingConnection ::
  "PSPOpenBankingConnection \<Rightarrow> ConnectorID \<Rightarrow> OpenBankingConnection" where
  "FromPSPOpenBankingConnection from connectorID =
     \<lparr>OpenBankingConnection_ConnectionID = PSPOpenBankingConnection_ConnectionID from,
      OpenBankingConnection_ConnectorID = connectorID,
      OpenBankingConnection_CreatedAt = PSPOpenBankingConnection_CreatedAt from,
      OpenBankingConnection_DataUpdatedAt = 0,
      OpenBankingConnection_Status = [],
      OpenBankingConnection_UpdatedAt = PSPOpenBankingConnection_CreatedAt from,
      OpenBankingConnection_AccessToken = PSPOpenBankingConnection_AccessToken from,
      OpenBankingConnection_Error = None,
      OpenBankingConnection_Metadata = PSPOpenBankingConnection_Metadata from\<rparr>"

section \<open>Webhooks\<close>

type_synonym multi_map = "string \<rightharpoonup> string list"

record PSPWebhookConfig =
  PSPWebhookConfig_Name :: string
  PSPWebhookConfig_URLPath :: string
  PSPWebhookConfig_Metadata :: metadata

record WebhookConfig =
  WebhookConfig_Name :: string
  WebhookConfig_ConnectorID :: ConnectorID
  WebhookConfig_URLPath :: string
  WebhookConfig_FullURL :: string
  WebhookConfig_Metadata :: metadata

record BasicAuth =
  BasicAuth_Username :: string
  BasicAuth_Password :: string

record Webhook =
  Webhook_ID :: string
  Webhook_ConnectorID :: ConnectorID
  Webhook_IdempotencyKey :: "string option"
  Webhook_BasicAuth :: "BasicAuth option"
  Webhook_QueryValues :: multi_map
  Webhook_Headers :: multi_map
  Webhook_Body :: string

definition ToPSPWebhookConfig :: "WebhookConfig \<Rightarrow> PSPWebhookConfig" where
  "ToPSPWebhookConfig config =
     \<lparr>PSPWebhookConfig_Name = WebhookConfig_Name config,
      PSPWebhookConfig_URLPath = WebhookConfig_URLPath config,
      PSPWebhookConfig_Metadata = WebhookConfig_Metadata config\<rparr>"

definition ToPSPWebhookConfigs :: "WebhookConfig list \<Rightarrow> PSPWebhookConfig list" where
  "ToPSPWebhookConfigs configs = map ToPSPWebhookConfig configs"

section \<open>Tasks of a connector\<close>

datatype TaskType =
    TASK_FETCH_OTHERS
  | TASK_FETCH_ACCOUNTS
  | TASK_FETCH_BALANCES
  | TASK_FETCH_EXTERNAL_ACCOUNTS
  | TASK_FETCH_PAYMENTS
  | TASK_CREATE_WEBHOOKS
  | TASK_FETCH_ORDERS
  | TASK_FETCH_CONVERSIONS

text \<open>The eight pointers to empty structures carry no data beyond the type and are left out.\<close>

datatype ConnectorTaskTree =
  ConnectorTaskTree (TaskTree_TaskType: TaskType) (TaskTree_Name: string)
    (TaskTree_Periodically: bool) (TaskTree_NextTasks: "ConnectorTaskTree list")

type_synonym ConnectorTasksTree = "ConnectorTaskTree list"

section \<open>Masking\<close>

lemma obfuscate_length: "length (obfuscate v p s) = length v"
  by (simp add: obfuscate_def Let_def)

lemma obfuscate_masks:
  assumes "p \<le> i" "i + s < length v"
  shows "obfuscate v p s ! i = CHR ''*''"
proof -
  have "i - p < length v - (p + s)" using assms by linarith
  with assms show ?thesis by (simp add: obfuscate_def Let_def nth_append)
qed

lemma obfuscate_masks_short: "length v < p + s \<Longrightarrow> obfuscate v p s = replicate (length v) (CHR ''*'')"
  by (simp add: obfuscate_def Let_def)

text \<open>A value of exactly the kept length is not masked at all.\<close>

lemma obfuscate_exact: "length v = p + s \<Longrightarrow> obfuscate v p s = v"
  by (simp add: obfuscate_def Let_def)

end
