(* ===== verification/Entities_Model.thy ===== *)
theory Entities_Model
  imports Initiations_Model Orders_Model Users_Model
begin

text \<open>
  The remaining entities of pkg/domain/models the storage keeps: tasks, pools,
  schedules, states, workflow instances, outbox events and the record of the
  events already sent.
\<close>

section \<open>Tasks\<close>

type_synonym TaskStatus = string

definition TASK_STATUS_PROCESSING :: TaskStatus where "TASK_STATUS_PROCESSING = ''PROCESSING''"
definition TASK_STATUS_SUCCEEDED :: TaskStatus where "TASK_STATUS_SUCCEEDED = ''SUCCEEDED''"
definition TASK_STATUS_FAILED :: TaskStatus where "TASK_STATUS_FAILED = ''FAILED''"

lemmas task_statuses = TASK_STATUS_PROCESSING_def TASK_STATUS_SUCCEEDED_def TASK_STATUS_FAILED_def

record Task =
  Task_ID :: TaskID
  Task_ConnectorID :: "ConnectorID option"
  Task_Status :: TaskStatus
  Task_CreatedAt :: time
  Task_UpdatedAt :: time
  Task_CreatedObjectID :: "string option"
  Task_Error :: "error option"

section \<open>Connectors\<close>

record Connector =
  Connector_Base :: ConnectorBase
  Connector_ScheduledForDeletion :: bool
  Connector_Config :: string
  Connector_UpdatedAt :: "time option"

section \<open>Pools\<close>

type_synonym PoolType = string

definition POOL_TYPE_STATIC :: PoolType where "POOL_TYPE_STATIC = ''STATIC''"
definition POOL_TYPE_DYNAMIC :: PoolType where "POOL_TYPE_DYNAMIC = ''DYNAMIC''"

lemmas pool_types = POOL_TYPE_STATIC_def POOL_TYPE_DYNAMIC_def

record Pool =
  Pool_ID :: uuid
  Pool_Name :: string
  Pool_CreatedAt :: time
  Pool_Type :: PoolType
  Pool_Query :: json
  Pool_PoolAccounts :: "AccountID list"

text \<open>What the idempotency key of a pool is computed from: not its name, type or query.\<close>

definition Pool_ik :: "Pool \<Rightarrow> uuid \<times> AccountID list" where
  "Pool_ik p = (Pool_ID p, Pool_PoolAccounts p)"

section \<open>Schedules, states, workflow instances\<close>

record Schedule =
  Schedule_ID :: string
  Schedule_ConnectorID :: ConnectorID
  Schedule_CreatedAt :: time
  Schedule_PausedAt :: "time option"
  Schedule_PausedReason :: "string option"

record State =
  State_ID :: StateID
  State_ConnectorID :: ConnectorID
  State_State :: "string option"

record Instance =
  Instance_ID :: string
  Instance_ScheduleID :: string
  Instance_ConnectorID :: ConnectorID
  Instance_CreatedAt :: time
  Instance_UpdatedAt :: time
  Instance_Terminated :: bool
  Instance_TerminatedAt :: "time option"
  Instance_Error :: "string option"

section \<open>Event payloads\<close>

text \<open>
  The messages internal/events declares and the storage functions put in the
  outbox.  A JSON document is represented by the Go value it encodes.
\<close>

record PaymentMessagePayload =
  PaymentMessage_ID :: string
  PaymentMessage_ConnectorID :: string
  PaymentMessage_Provider :: string
  PaymentMessage_Reference :: string
  PaymentMessage_CreatedAt :: time
  PaymentMessage_Type :: string
  PaymentMessage_Status :: string
  PaymentMessage_Scheme :: string
  PaymentMessage_Asset :: string
  PaymentMessage_RawData :: "string option"
  PaymentMessage_InitialAmount :: "int option"
  PaymentMessage_Amount :: "int option"
  PaymentMessage_SourceAccountID :: string
  PaymentMessage_DestinationAccountID :: string
  PaymentMessage_Metadata :: metadata

record AccountMessagePayload =
  AccountMessage_ID :: string
  AccountMessage_Provider :: string
  AccountMessage_ConnectorID :: string
  AccountMessage_CreatedAt :: time
  AccountMessage_Reference :: string
  AccountMessage_Type :: string
  AccountMessage_RawData :: "string option"
  AccountMessage_DefaultAsset :: string
  AccountMessage_Name :: string
  AccountMessage_Metadata :: metadata

record BalanceMessagePayload =
  BalanceMessage_AccountID :: string
  BalanceMessage_ConnectorID :: string
  BalanceMessage_Provider :: string
  BalanceMessage_CreatedAt :: time
  BalanceMessage_LastUpdatedAt :: time
  BalanceMessage_Asset :: string
  BalanceMessage_Balance :: "int option"

record PaymentInitiationMessagePayload =
  PaymentInitiationMessage_ID :: string
  PaymentInitiationMessage_ConnectorID :: string
  PaymentInitiationMessage_Provider :: string
  PaymentInitiationMessage_Reference :: string
  PaymentInitiationMessage_CreatedAt :: time
  PaymentInitiationMessage_ScheduledAt :: time
  PaymentInitiationMessage_Description :: string
  PaymentInitiationMessage_Type :: string
  PaymentInitiationMessage_Amount :: "int option"
  PaymentInitiationMessage_Asset :: string
  PaymentInitiationMessage_SourceAccountID :: string
  PaymentInitiationMessage_DestinationAccountID :: string
  PaymentInitiationMessage_Metadata :: metadata

record PaymentInitiationAdjustmentMessagePayload =
  PaymentInitiationAdjustmentMessage_ID :: string
  PaymentInitiationAdjustmentMessage_PaymentInitiationID :: string
  PaymentInitiationAdjustmentMessage_Status :: string
  PaymentInitiationAdjustmentMessage_Amount :: "int option"
  PaymentInitiationAdjustmentMessage_Asset :: "string option"
  PaymentInitiationAdjustmentMessage_Error :: "string option"
  PaymentInitiationAdjustmentMessage_Metadata :: metadata

record PoolMessagePayload =
  PoolMessage_ID :: string
  PoolMessage_Name :: string
  PoolMessage_CreatedAt :: time
  PoolMessage_Type :: PoolType
  PoolMessage_Query :: json
  PoolMessage_AccountIDs :: "string list"

record TaskMessagePayload =
  TaskMessage_ID :: string
  TaskMessage_ConnectorID :: "string option"
  TaskMessage_Status :: string
  TaskMessage_CreatedAt :: time
  TaskMessage_UpdatedAt :: time
  TaskMessage_CreatedObjectID :: "string option"
  TaskMessage_Error :: "string option"

record OrderAdjustmentPayload =
  OrderAdjustmentMessage_ID :: string
  OrderAdjustmentMessage_Reference :: string
  OrderAdjustmentMessage_CreatedAt :: time
  OrderAdjustmentMessage_Status :: string
  OrderAdjustmentMessage_BaseQuantityFilled :: "int option"
  OrderAdjustmentMessage_Fee :: "int option"
  OrderAdjustmentMessage_FeeAsset :: "string option"
  OrderAdjustmentMessage_Metadata :: metadata
  OrderAdjustmentMessage_Raw :: "string option"

record OrderMessagePayload =
  OrderMessage_ID :: string
  OrderMessage_ConnectorID :: string
  OrderMessage_Provider :: string
  OrderMessage_Reference :: string
  OrderMessage_ClientOrderID :: string
  OrderMessage_CreatedAt :: time
  OrderMessage_UpdatedAt :: time
  OrderMessage_Direction :: string
  OrderMessage_SourceAsset :: string
  OrderMessage_DestinationAsset :: string
  OrderMessage_Type :: string
  OrderMessage_Status :: string
  OrderMessage_TimeInForce :: string
  OrderMessage_ExpiresAt :: "time option"
  OrderMessage_BaseQuantityOrdered :: "int option"
  OrderMessage_BaseQuantityFilled :: "int option"
  OrderMessage_LimitPrice :: "int option"
  OrderMessage_StopPrice :: "int option"
  OrderMessage_QuoteAmount :: "int option"
  OrderMessage_QuoteAsset :: string
  OrderMessage_Fee :: "int option"
  OrderMessage_FeeAsset :: "string option"
  OrderMessage_AverageFillPrice :: "int option"
  OrderMessage_PriceAsset :: "string option"
  OrderMessage_SourceAccountID :: string
  OrderMessage_DestinationAccountID :: string
  OrderMessage_RawData :: "string option"
  OrderMessage_Metadata :: metadata
  OrderMessage_Adjustments :: "OrderAdjustmentPayload list"

record ConversionMessagePayload =
  ConversionMessage_ID :: string
  ConversionMessage_ConnectorID :: string
  ConversionMessage_Provider :: string
  ConversionMessage_Reference :: string
  ConversionMessage_CreatedAt :: time
  ConversionMessage_UpdatedAt :: time
  ConversionMessage_SourceAsset :: string
  ConversionMessage_DestinationAsset :: string
  ConversionMessage_SourceAmount :: "int option"
  ConversionMessage_DestinationAmount :: "int option"
  ConversionMessage_Fee :: "int option"
  ConversionMessage_FeeAsset :: "string option"
  ConversionMessage_Status :: string
  ConversionMessage_SourceAccountID :: string
  ConversionMessage_DestinationAccountID :: string
  ConversionMessage_Metadata :: metadata
  ConversionMessage_Raw :: "string option"

record ConnectorMessagePayload =
  ConnectorMessage_CreatedAt :: time
  ConnectorMessage_ConnectorID :: string

record BankAccountRelatedAccountsPayload =
  BankAccountRelatedMessage_CreatedAt :: time
  BankAccountRelatedMessage_AccountID :: string
  BankAccountRelatedMessage_ConnectorID :: string
  BankAccountRelatedMessage_Provider :: string

record BankAccountMessagePayload =
  BankAccountMessage_ID :: string
  BankAccountMessage_CreatedAt :: time
  BankAccountMessage_Name :: string
  BankAccountMessage_AccountNumber :: string
  BankAccountMessage_IBAN :: string
  BankAccountMessage_SwiftBicCode :: string
  BankAccountMessage_Country :: string
  BankAccountMessage_Metadata :: metadata
  BankAccountMessage_RelatedAccounts :: "BankAccountRelatedAccountsPayload list"

record OpenBankingUserLinkStatus =
  UserLinkStatus_PsuID :: uuid
  UserLinkStatus_ConnectorID :: string
  UserLinkStatus_Status :: string
  UserLinkStatus_Error :: "string option"

record OpenBankingUserConnectionDataSynced =
  DataSynced_PsuID :: uuid
  DataSynced_ConnectorID :: string
  DataSynced_ConnectionID :: string
  DataSynced_At :: time

record OpenBankingUserConnectionDisconnected =
  Disconnected_PsuID :: uuid
  Disconnected_ConnectorID :: string
  Disconnected_ConnectionID :: string
  Disconnected_ErrorType :: string
  Disconnected_At :: time
  Disconnected_Reason :: "string option"

record OpenBankingUserConnectionReconnected =
  Reconnected_PsuID :: uuid
  Reconnected_ConnectorID :: string
  Reconnected_ConnectionID :: string
  Reconnected_At :: time

datatype payload =
    SavedPayment PaymentMessagePayload
  | DeletedPayment string
  | SavedAccount AccountMessagePayload
  | SavedBalance BalanceMessagePayload
  | SavedPaymentInitiation PaymentInitiationMessagePayload
  | SavedPaymentInitiationAdjustment PaymentInitiationAdjustmentMessagePayload
  | SavedPaymentInitiationRelatedPayment string string
  | SavedPool PoolMessagePayload
  | DeletedPool string time
  | UpdatedTask TaskMessagePayload
  | SavedOrder OrderMessagePayload
  | SavedConversion ConversionMessagePayload
  | ConnectorReset ConnectorMessagePayload
  | SavedBankAccount BankAccountMessagePayload
  | UserLinkStatus OpenBankingUserLinkStatus
  | UserConnectionDataSynced OpenBankingUserConnectionDataSynced
  | UserConnectionDisconnected OpenBankingUserConnectionDisconnected
  | UserConnectionReconnected OpenBankingUserConnectionReconnected

section \<open>The outbox\<close>

type_synonym OutboxEventStatus = string

definition OUTBOX_STATUS_PENDING :: OutboxEventStatus where "OUTBOX_STATUS_PENDING = ''pending''"
definition OUTBOX_STATUS_FAILED :: OutboxEventStatus where "OUTBOX_STATUS_FAILED = ''failed''"
definition OUTBOX_STATUS_PROCESSED :: OutboxEventStatus where
  "OUTBOX_STATUS_PROCESSED = ''processed''"

lemmas outbox_statuses =
  OUTBOX_STATUS_PENDING_def OUTBOX_STATUS_FAILED_def OUTBOX_STATUS_PROCESSED_def

lemma outbox_statuses_distinct [simp]:
  "OUTBOX_STATUS_PENDING \<noteq> OUTBOX_STATUS_FAILED" "OUTBOX_STATUS_FAILED \<noteq> OUTBOX_STATUS_PENDING"
  "OUTBOX_STATUS_PENDING \<noteq> OUTBOX_STATUS_PROCESSED" "OUTBOX_STATUS_PROCESSED \<noteq> OUTBOX_STATUS_PENDING"
  "OUTBOX_STATUS_FAILED \<noteq> OUTBOX_STATUS_PROCESSED" "OUTBOX_STATUS_PROCESSED \<noteq> OUTBOX_STATUS_FAILED"
  by (simp_all add: outbox_statuses)

definition MaxOutboxRetries :: int where
  "MaxOutboxRetries = 5"

record OutboxEvent =
  OutboxEvent_ID :: EventID
  OutboxEvent_EventType :: string
  OutboxEvent_EntityID :: string
  OutboxEvent_Payload :: payload
  OutboxEvent_CreatedAt :: time
  OutboxEvent_Status :: OutboxEventStatus
  OutboxEvent_ConnectorID :: "ConnectorID option"
  OutboxEvent_RetryCount :: int
  OutboxEvent_LastRetryAt :: "time option"
  OutboxEvent_Error :: "string option"

record EventSent =
  EventSent_ID :: EventID
  EventSent_ConnectorID :: "ConnectorID option"
  EventSent_SentAt :: time

end
