(* ===== verification/Tables.thy ===== *)
theory Tables
  imports Prelude
begin

text \<open>
  Generic SQL statements over a table with a primary key.  Rows are kept in
  insertion order.  Every statement of internal/storage that writes more than
  one row is one of these.
\<close>

section \<open>Statements\<close>

definition has_key :: "('r \<Rightarrow> 'k) \<Rightarrow> 'k \<Rightarrow> 'r list \<Rightarrow> bool" where
  "has_key key k tbl = list_ex (\<lambda>r. key r = k) tbl"

definition lookup_row :: "('r \<Rightarrow> 'k) \<Rightarrow> 'k \<Rightarrow> 'r list \<Rightarrow> 'r option" where
  "lookup_row key k tbl = find (\<lambda>r. key r = k) tbl"

text \<open>INSERT .. ON CONFLICT (key) DO NOTHING RETURNING *: the rows really inserted and the table.\<close>

fun insert_ignore :: "('r \<Rightarrow> 'k) \<Rightarrow> 'r list \<Rightarrow> 'r list \<Rightarrow> 'r list \<times> 'r list" where
  "insert_ignore key [] tbl = ([], tbl)"
| "insert_ignore key (r # rs) tbl =
     (if has_key key (key r) tbl then insert_ignore key rs tbl
      else let (ins, tbl') = insert_ignore key rs (tbl @ [r]) in (r # ins, tbl'))"

text \<open>INSERT without a conflict clause: a duplicate key fails the statement.\<close>

fun insert_strict :: "('r \<Rightarrow> 'k) \<Rightarrow> 'r list \<Rightarrow> 'r list \<Rightarrow> 'r list option" where
  "insert_strict key [] tbl = Some tbl"
| "insert_strict key (r # rs) tbl =
     (if has_key key (key r) tbl then None else insert_strict key rs (tbl @ [r]))"

text \<open>UPDATE t SET .. WHERE p.\<close>

definition update_where :: "('r \<Rightarrow> bool) \<Rightarrow> ('r \<Rightarrow> 'r) \<Rightarrow> 'r list \<Rightarrow> 'r list" where
  "update_where p f tbl = map (\<lambda>r. if p r then f r else r) tbl"

text \<open>DELETE FROM t WHERE p.\<close>

definition delete_where :: "('r \<Rightarrow> bool) \<Rightarrow> 'r list \<Rightarrow> 'r list" where
  "delete_where p tbl = filter (\<lambda>r. \<not> p r) tbl"

text \<open>
  INSERT .. ON CONFLICT (key) DO UPDATE SET ..: the update of an existing row
  by a proposed one is g old new.  PostgreSQL refuses a statement whose rows
  would touch one row twice, so duplicate keys in the proposal fail it.
\<close>

definition upsert_row :: "('r \<Rightarrow> 'k) \<Rightarrow> ('r \<Rightarrow> 'r \<Rightarrow> 'r) \<Rightarrow> 'r \<Rightarrow> 'r list \<Rightarrow> 'r list" where
  "upsert_row key g r tbl =
     (if has_key key (key r) tbl then update_where (\<lambda>x. key x = key r) (\<lambda>x. g x r) tbl
      else tbl @ [r])"

definition insert_update ::
  "('r \<Rightarrow> 'k) \<Rightarrow> ('r \<Rightarrow> 'r \<Rightarrow> 'r) \<Rightarrow> 'r list \<Rightarrow> 'r list \<Rightarrow> 'r list option" where
  "insert_update key g rs tbl =
     (if distinct (map key rs) then Some (fold (upsert_row key g) rs tbl) else None)"

text \<open>
  SELECT .. ORDER BY c DESC, sort_id DESC LIMIT 1: the greatest c, the last
  inserted among equals.
\<close>

fun latest_by :: "('r \<Rightarrow> 'c::linorder) \<Rightarrow> 'r list \<Rightarrow> 'r option" where
  "latest_by c [] = None"
| "latest_by c (r # rs) =
     (case latest_by c rs of None \<Rightarrow> Some r
      | Some m \<Rightarrow> if c r \<le> c m then Some m else Some r)"

section \<open>Keys and lookup\<close>

lemma has_key_iff [tbl_simps]: "has_key key k tbl \<longleftrightarrow> k \<in> key ` set tbl"
  by (auto simp: has_key_def list_ex_iff)

lemma has_key_simps [simp]:
  "has_key key k [] = False"
  "has_key key k (r # rs) = (key r = k \<or> has_key key k rs)"
  "has_key key k (xs @ ys) = (has_key key k xs \<or> has_key key k ys)"
  by (auto simp: has_key_def)

lemma lookup_row_simps [simp]:
  "lookup_row key k [] = None"
  "lookup_row key k (r # rs) = (if key r = k then Some r else lookup_row key k rs)"
  by (auto simp: lookup_row_def)

lemma lookup_row_None_iff [simp]: "lookup_row key k tbl = None \<longleftrightarrow> \<not> has_key key k tbl"
  by (induction tbl) auto

lemma lookup_row_absent [simp]: "\<not> has_key key k tbl \<Longrightarrow> lookup_row key k tbl = None"
  by simp

lemma lookup_row_present: "has_key key k tbl \<Longrightarrow> \<exists>r. lookup_row key k tbl = Some r"
  using lookup_row_None_iff[of key k tbl] by (cases "lookup_row key k tbl") simp_all

lemma lookup_row_append:
  "lookup_row key k (xs @ ys) =
     (if has_key key k xs then lookup_row key k xs else lookup_row key k ys)"
  by (induction xs) auto

lemma lookup_row_SomeD: "lookup_row key k tbl = Some r \<Longrightarrow> r \<in> set tbl \<and> key r = k"
  by (induction tbl) (auto split: if_splits)

lemma lookup_row_distinct:
  "distinct (map key tbl) \<Longrightarrow> lookup_row key k tbl = Some r \<longleftrightarrow> r \<in> set tbl \<and> key r = k"
  by (induction tbl) (auto simp: rev_image_eqI)

lemma lookup_row_update_where:
  assumes "\<And>r. key (f r) = key r"
  shows "lookup_row key k (update_where p f tbl) =
    map_option (\<lambda>r. if p r then f r else r) (lookup_row key k tbl)"
  using assms by (induction tbl) (auto simp: update_where_def)

lemma map_key_update_where [simp]:
  assumes "\<And>r. p r \<Longrightarrow> key (f r) = key r"
  shows "map key (update_where p f tbl) = map key tbl"
  using assms by (simp add: update_where_def)

lemma length_update_where [simp]: "length (update_where p f tbl) = length tbl"
  by (simp add: update_where_def)

lemma set_delete_where [simp]: "set (delete_where p tbl) = {r \<in> set tbl. \<not> p r}"
  by (auto simp: delete_where_def)

lemma distinct_map_delete_where [simp, intro]:
  "distinct (map key tbl) \<Longrightarrow> distinct (map key (delete_where p tbl))"
  by (simp add: delete_where_def distinct_map_filter)

section \<open>INSERT .. ON CONFLICT DO NOTHING\<close>

lemma insert_ignore_append: "insert_ignore key rs tbl = (ins, tbl') \<Longrightarrow> tbl' = tbl @ ins"
  by (induction key rs tbl arbitrary: ins tbl' rule: insert_ignore.induct)
    (auto split: prod.splits if_splits)

lemma snd_insert_ignore: "snd (insert_ignore key rs tbl) = tbl @ fst (insert_ignore key rs tbl)"
  by (metis insert_ignore_append prod.collapse)

lemma insert_ignore_sound:
  "insert_ignore key rs tbl = (ins, tbl') \<Longrightarrow>
     distinct (map key ins) \<and> key ` set ins \<inter> key ` set tbl = {} \<and> set ins \<subseteq> set rs \<and>
     key ` set rs \<subseteq> key ` set tbl \<union> key ` set ins"
proof (induction rs arbitrary: tbl ins tbl')
  case Nil
  then show ?case by simp
next
  case (Cons r rs)
  show ?case
  proof (cases "has_key key (key r) tbl")
    case True
    with Cons.prems have "insert_ignore key rs tbl = (ins, tbl')" by simp
    from Cons.IH[OF this] True show ?thesis by (auto simp: tbl_simps)
  next
    case False
    obtain ins0 tbl0 where r: "insert_ignore key rs (tbl @ [r]) = (ins0, tbl0)"
      by (cases "insert_ignore key rs (tbl @ [r])") auto
    with False Cons.prems have "ins = r # ins0" by simp
    with Cons.IH[OF r] False show ?thesis
      by (auto simp: tbl_simps)
  qed
qed

lemma insert_ignore_keys:
  assumes "insert_ignore key rs tbl = (ins, tbl')"
  shows "distinct (map key ins)" "key ` set ins \<inter> key ` set tbl = {}"
    "key ` set tbl' = key ` set tbl \<union> key ` set rs" "set ins \<subseteq> set rs"
proof -
  note snd = insert_ignore_sound[OF assms]
  from snd show "distinct (map key ins)" "key ` set ins \<inter> key ` set tbl = {}"
    "set ins \<subseteq> set rs" by simp_all
  have "key ` set tbl' = key ` set tbl \<union> key ` set ins"
    by (simp add: insert_ignore_append[OF assms] image_Un)
  also have "\<dots> = key ` set tbl \<union> key ` set rs"
    using snd image_mono[of "set ins" "set rs" key] by blast
  finally show "key ` set tbl' = key ` set tbl \<union> key ` set rs" .
qed

lemma insert_ignore_distinct:
  assumes "distinct (map key tbl)" "insert_ignore key rs tbl = (ins, tbl')"
  shows "distinct (map key tbl')"
proof -
  from insert_ignore_sound[OF assms(2)]
  have "distinct (map key ins)" "key ` set tbl \<inter> key ` set ins = {}"
    by (simp_all only: Int_commute[of "key ` set tbl"])
  with assms(1) show ?thesis by (simp add: insert_ignore_append[OF assms(2)])
qed

lemma insert_ignore_present:
  "key ` set rs \<subseteq> key ` set tbl \<Longrightarrow> insert_ignore key rs tbl = ([], tbl)"
  by (induction rs) (auto simp: tbl_simps)

text \<open>Replaying an insert inserts nothing.\<close>

lemma insert_ignore_replay:
  "insert_ignore key rs tbl = (ins, tbl') \<Longrightarrow> insert_ignore key rs tbl' = ([], tbl')"
  by (rule insert_ignore_present) (auto dest: insert_ignore_keys(3))

text \<open>Fresh distinct rows are all inserted, in order.\<close>

lemma insert_ignore_fresh:
  assumes "distinct (map key rs)" "key ` set rs \<inter> key ` set tbl = {}"
  shows "insert_ignore key rs tbl = (rs, tbl @ rs)"
  using assms
proof (induction rs arbitrary: tbl)
  case Nil
  then show ?case by simp
next
  case (Cons r rs)
  from Cons.prems have "insert_ignore key rs (tbl @ [r]) = (rs, (tbl @ [r]) @ rs)"
    by (intro Cons.IH) auto
  with Cons.prems show ?case by (auto simp: tbl_simps)
qed

text \<open>A key is inserted when it is proposed and not in the table yet; the first proposal wins.\<close>

lemma insert_ignore_inserted_keys:
  assumes "insert_ignore key rs tbl = (ins, tbl')"
  shows "key ` set ins = key ` set rs - key ` set tbl"
proof -
  have set_fact: "A = C - B" if "B \<union> A = B \<union> C" "A \<inter> B = {}" for A B C :: "'b set"
    using that by blast
  have "key ` set tbl' = key ` set tbl \<union> key ` set ins"
    by (simp add: insert_ignore_append[OF assms] image_Un)
  with insert_ignore_keys(3)[OF assms]
  have "key ` set tbl \<union> key ` set ins = key ` set tbl \<union> key ` set rs" by simp
  from set_fact[OF this insert_ignore_keys(2)[OF assms]] show ?thesis .
qed

lemma lookup_insert_ignore:
  assumes "insert_ignore key rs tbl = (ins, tbl')"
  shows "lookup_row key k tbl' =
    (case lookup_row key k tbl of Some r \<Rightarrow> Some r | None \<Rightarrow> lookup_row key k rs)"
  using assms
proof (induction rs arbitrary: tbl ins tbl')
  case Nil
  then show ?case by (auto split: option.splits)
next
  case (Cons r rs)
  show ?case
  proof (cases "has_key key (key r) tbl")
    case True
    with Cons have *: "lookup_row key k tbl' =
        (case lookup_row key k tbl of Some r \<Rightarrow> Some r | None \<Rightarrow> lookup_row key k rs)"
      by simp
    from True have "\<exists>x. lookup_row key k tbl = Some x" if "key r = k"
      using that lookup_row_present[of key k tbl] by simp
    with * show ?thesis by (auto split: option.splits)
  next
    case False
    with Cons have "lookup_row key k tbl' =
        (case lookup_row key k (tbl @ [r]) of Some r \<Rightarrow> Some r | None \<Rightarrow> lookup_row key k rs)"
      by (auto split: prod.splits)
    moreover have "lookup_row key k (tbl @ [r]) =
        (case lookup_row key k tbl of Some x \<Rightarrow> Some x
         | None \<Rightarrow> if key r = k then Some r else None)"
      by (auto simp: lookup_row_append split: option.splits dest: lookup_row_SomeD)
    ultimately show ?thesis
      using False by (cases "lookup_row key k tbl") auto
  qed
qed

section \<open>INSERT .. ON CONFLICT DO UPDATE, plain INSERT\<close>

lemma upsert_row_keys:
  assumes "\<And>x y. key x = key y \<Longrightarrow> key (g x y) = key x"
  shows "key ` set (upsert_row key g r tbl) = insert (key r) (key ` set tbl)"
    and "distinct (map key tbl) \<Longrightarrow> distinct (map key (upsert_row key g r tbl))"
proof -
  have m: "map key (update_where (\<lambda>x. key x = key r) (\<lambda>x. g x r) tbl) = map key tbl"
    using assms by (intro map_key_update_where) auto
  then have "key ` set (update_where (\<lambda>x. key x = key r) (\<lambda>x. g x r) tbl) = key ` set tbl"
    by (metis list.set_map)
  then show "key ` set (upsert_row key g r tbl) = insert (key r) (key ` set tbl)"
    by (auto simp: upsert_row_def tbl_simps)
  show "distinct (map key tbl) \<Longrightarrow> distinct (map key (upsert_row key g r tbl))"
    using m by (auto simp: upsert_row_def tbl_simps)
qed

lemma lookup_upsert_row:
  assumes "\<And>x y. key x = key y \<Longrightarrow> key (g x y) = key x"
  shows "lookup_row key k (upsert_row key g r tbl) =
    (if k = key r then Some (case lookup_row key k tbl of None \<Rightarrow> r | Some x \<Rightarrow> g x r)
     else lookup_row key k tbl)"
proof (cases "has_key key (key r) tbl")
  case True
  have "lookup_row key k (update_where (\<lambda>x. key x = key r) (\<lambda>x. g x r) tbl) =
      (if k = key r then map_option (\<lambda>x. g x r) (lookup_row key k tbl) else lookup_row key k tbl)"
    using assms by (induction tbl) (auto simp: update_where_def)
  with True show ?thesis
    by (auto simp: upsert_row_def split: option.splits)
next
  case False
  then show ?thesis
    by (cases "has_key key k tbl") (auto simp: upsert_row_def lookup_row_append)
qed

lemma lookup_fold_upsert:
  assumes "\<And>x y. key x = key y \<Longrightarrow> key (g x y) = key x" "distinct (map key rs)"
  shows "lookup_row key k (fold (upsert_row key g) rs tbl) =
    (case lookup_row key k rs of
       None \<Rightarrow> lookup_row key k tbl
     | Some r \<Rightarrow> Some (case lookup_row key k tbl of None \<Rightarrow> r | Some x \<Rightarrow> g x r))"
  using assms(2)
proof (induction rs arbitrary: tbl)
  case Nil
  then show ?case by simp
next
  case (Cons r rs)
  have "lookup_row key k rs = None" if "key r = k"
    using Cons.prems that by (auto simp: tbl_simps)
  moreover have "lookup_row key k (fold (upsert_row key g) rs (upsert_row key g r tbl)) =
    (case lookup_row key k rs of
       None \<Rightarrow> lookup_row key k (upsert_row key g r tbl)
     | Some r' \<Rightarrow> Some (case lookup_row key k (upsert_row key g r tbl) of
                          None \<Rightarrow> r' | Some x \<Rightarrow> g x r'))"
    using Cons.prems by (intro Cons.IH) simp
  ultimately show ?case
    using lookup_upsert_row[of key g k r tbl] assms(1) by (auto split: option.splits)
qed

text \<open>An update whose rows all exist keeps the keys, row by row.\<close>

lemma map_key_fold_upsert:
  assumes "\<And>x y. key x = key y \<Longrightarrow> key (g x y) = key x" "key ` set rs \<subseteq> key ` set tbl"
  shows "map key (fold (upsert_row key g) rs tbl) = map key tbl"
  using assms(2)
proof (induction rs arbitrary: tbl)
  case Nil
  then show ?case by simp
next
  case (Cons r rs)
  have "map key (update_where (\<lambda>x. key x = key r) (\<lambda>x. g x r) tbl) = map key tbl"
    by (rule map_key_update_where) (simp add: assms(1))
  with Cons.prems have m: "map key (upsert_row key g r tbl) = map key tbl"
    by (simp add: upsert_row_def tbl_simps)
  then have "key ` set (upsert_row key g r tbl) = key ` set tbl" by (metis list.set_map)
  with Cons.prems have "map key (fold (upsert_row key g) rs (upsert_row key g r tbl))
      = map key (upsert_row key g r tbl)" by (intro Cons.IH) simp
  with m show ?case by simp
qed

lemma insert_strict_Some_iff:
  "insert_strict key rs tbl = Some tbl' \<longleftrightarrow>
     distinct (map key rs) \<and> key ` set rs \<inter> key ` set tbl = {} \<and> tbl' = tbl @ rs"
  by (induction key rs tbl rule: insert_strict.induct) (auto simp: tbl_simps)

section \<open>Latest row\<close>

lemma latest_by_None_iff [simp]: "latest_by c rs = None \<longleftrightarrow> rs = []"
  by (induction rs) (auto split: option.splits)

lemma latest_by_SomeD:
  assumes "latest_by c rs = Some m"
  shows "m \<in> set rs" "\<forall>r\<in>set rs. c r \<le> c m"
proof -
  have "m \<in> set rs \<and> (\<forall>r\<in>set rs. c r \<le> c m)"
    using assms
  proof (induction rs arbitrary: m)
    case Nil
    then show ?case by simp
  next
    case (Cons r rs)
    show ?case
    proof (cases "latest_by c rs")
      case None
      with Cons.prems show ?thesis by simp
    next
      case (Some n)
      with Cons.IH[of n] Cons.prems show ?thesis by (auto split: if_splits)
    qed
  qed
  then show "m \<in> set rs" "\<forall>r\<in>set rs. c r \<le> c m" by auto
qed

lemma latest_by_snoc:
  "latest_by c (rs @ [r]) =
     (case latest_by c rs of None \<Rightarrow> Some r | Some m \<Rightarrow> if c m \<le> c r then Some r else Some m)"
  by (induction rs) (auto split: option.splits)

lemma latest_by_append_lower:
  assumes "latest_by c rs = Some m" "\<forall>r\<in>set qs. c r < c m"
  shows "latest_by c (rs @ qs) = Some m"
  using assms
proof (induction qs rule: rev_induct)
  case Nil
  then show ?case by simp
next
  case (snoc q qs)
  then have "latest_by c (rs @ qs) = Some m" by simp
  moreover have "latest_by c ((rs @ qs) @ [q]) = Some m"
    using calculation snoc.prems(2) leD unfolding latest_by_snoc by fastforce
  ultimately show ?case by simp
qed

section \<open>The contract of a deduplicating table\<close>

text \<open>
  Several storage functions rely on the same behaviour of the table they write
  to: rows are identified by a key, inserting is idempotent and never changes
  a row that is already there.
\<close>

locale dedup_store =
  fixes ins :: "'r list \<Rightarrow> 'd \<Rightarrow> 'r list \<times> 'd"
    and rows :: "'d \<Rightarrow> 'r list"
    and key :: "'r \<Rightarrow> 'k"
  assumes appends: "ins rs d = (new, d') \<Longrightarrow> rows d' = rows d @ new"
    and new_keys: "ins rs d = (new, d') \<Longrightarrow> key ` set new = key ` set rs - key ` set (rows d)"
    and new_distinct: "ins rs d = (new, d') \<Longrightarrow> distinct (map key new)"
    and new_from: "ins rs d = (new, d') \<Longrightarrow> set new \<subseteq> set rs"
    and nothing_new: "key ` set rs \<subseteq> key ` set (rows d) \<Longrightarrow> ins rs d = ([], d)"
begin

lemma replay: "ins rs d = (new, d') \<Longrightarrow> ins rs d' = ([], d')"
proof -
  assume *: "ins rs d = (new, d')"
  have "key ` set rs \<subseteq> key ` set (rows d')"
    by (simp add: appends[OF *] new_keys[OF *] image_Un)
  then show ?thesis by (rule nothing_new)
qed

lemma keeps_keys_distinct:
  "distinct (map key (rows d)) \<Longrightarrow> ins rs d = (new, d') \<Longrightarrow> distinct (map key (rows d'))"
proof -
  assume d: "distinct (map key (rows d))" and i: "ins rs d = (new, d')"
  have "key ` set new \<inter> key ` set (rows d) = {}" using new_keys[OF i] by blast
  with d new_distinct[OF i] show ?thesis
    unfolding appends[OF i] by (auto simp: Int_commute)
qed

lemma keeps_rows: "ins rs d = (new, d') \<Longrightarrow> r \<in> set (rows d) \<Longrightarrow> r \<in> set (rows d')"
  by (simp add: appends)

lemma all_keys_present: "ins rs d = (new, d') \<Longrightarrow> key ` set rs \<subseteq> key ` set (rows d')"
  by (simp add: appends new_keys image_Un)

lemma lookup_kept:
  "ins rs d = (new, d') \<Longrightarrow> lookup_row key k (rows d) = Some r \<Longrightarrow>
     lookup_row key k (rows d') = Some r"
  by (auto simp: appends lookup_row_append tbl_simps dest: lookup_row_SomeD)

end

interpretation ignore_store: dedup_store "insert_ignore key" "\<lambda>tbl. tbl" key for key
proof unfold_locales
  fix rs d new d'
  assume *: "insert_ignore key rs d = (new, d')"
  show "d' = d @ new" by (rule insert_ignore_append[OF *])
  show "key ` set new = key ` set rs - key ` set d" by (rule insert_ignore_inserted_keys[OF *])
  show "distinct (map key new)" by (rule insert_ignore_keys(1)[OF *])
  show "set new \<subseteq> set rs" by (rule insert_ignore_keys(4)[OF *])
next
  fix rs d
  assume "key ` set rs \<subseteq> key ` set d"
  then show "insert_ignore key rs d = ([], d)" by (rule insert_ignore_present)
qed

end
