(* ===== verification/Schema.thy ===== *)
theory Schema
  imports Entities_Model Tables
begin

text \<open>
  The PostgreSQL database behind internal/storage: the row structures of the
  bun models, the tables, and what the storage layer takes from outside (clock,
  identifier texts, idempotency keys, rounding of timestamps).

  Identifier columns hold the structured identifiers; the text written to the
  column is injective (see the round trips of theory Ids), so comparing
  structures is comparing columns.  A column declared NOT NULL whose Go field
  is a pointer has the pointed-to type, and the insert is refused for nil.
\<close>

section \<open>Rows\<close>

record connector_row =
  connector_id :: ConnectorID
  connector_name :: string
  connector_created_at :: time
  connector_provider :: string
  connector_scheduled_for_deletion :: bool
  connector_config :: string
  connector_updated_at :: "time option"

record account_row =
  account_id :: AccountID
  account_connector_id :: ConnectorID
  account_created_at :: time
  account_reference :: string
  account_type :: string
  account_raw :: "string option"
  account_default_asset :: "string option"
  account_name :: "string option"
  account_psu_id :: "uuid option"
  account_open_banking_connection_id :: "string option"
  account_metadata :: metadata

record balance_row =
  balance_account_id :: AccountID
  balance_created_at :: time
  balance_asset :: string
  balance_connector_id :: ConnectorID
  balance_balance :: int
  balance_last_updated_at :: time
  balance_psu_id :: "uuid option"
  balance_open_banking_connection_id :: "string option"

record payment_row =
  payment_id :: PaymentID
  payment_connector_id :: ConnectorID
  payment_reference :: string
  payment_created_at :: time
  payment_type :: PaymentType
  payment_initial_amount :: int
  payment_amount :: int
  payment_asset :: string
  payment_scheme :: PaymentScheme
  payment_source_account_id :: "AccountID option"
  payment_destination_account_id :: "AccountID option"
  payment_psu_id :: "uuid option"
  payment_open_banking_connection_id :: "string option"
  payment_metadata :: metadata

record payment_adjustment_row =
  pa_id :: PaymentAdjustmentID
  pa_payment_id :: PaymentID
  pa_reference :: string
  pa_created_at :: time
  pa_status :: PaymentStatus
  pa_raw :: "string option"
  pa_amount :: "int option"
  pa_asset :: "string option"
  pa_metadata :: metadata

record payment_initiation_row =
  pi_id :: PaymentInitiationID
  pi_connector_id :: ConnectorID
  pi_reference :: string
  pi_created_at :: time
  pi_scheduled_at :: time
  pi_description :: string
  pi_type :: PaymentInitiationType
  pi_amount :: int
  pi_asset :: string
  pi_source_account_id :: "AccountID option"
  pi_destination_account_id :: "AccountID option"
  pi_metadata :: metadata

record pi_related_payment_row =
  pirp_payment_initiation_id :: PaymentInitiationID
  pirp_payment_id :: PaymentID
  pirp_created_at :: time

record pi_adjustment_row =
  pia_id :: PaymentInitiationAdjustmentID
  pia_payment_initiation_id :: PaymentInitiationID
  pia_created_at :: time
  pia_status :: PaymentInitiationAdjustmentStatus
  pia_error :: "string option"
  pia_amount :: "int option"
  pia_asset :: "string option"
  pia_metadata :: metadata

record pi_reversal_row =
  pir_id :: PaymentInitiationReversalID
  pir_connector_id :: ConnectorID
  pir_payment_initiation_id :: PaymentInitiationID
  pir_reference :: string
  pir_created_at :: time
  pir_description :: string
  pir_amount :: int
  pir_asset :: string
  pir_metadata :: metadata

record pi_reversal_adjustment_row =
  pira_id :: PaymentInitiationReversalAdjustmentID
  pira_payment_initiation_reversal_id :: PaymentInitiationReversalID
  pira_created_at :: time
  pira_status :: PaymentInitiationReversalAdjustmentStatus
  pira_error :: "string option"
  pira_metadata :: metadata

record pool_row =
  pool_id :: uuid
  pool_name :: string
  pool_created_at :: time
  pool_type :: PoolType
  pool_query :: json

record pool_account_row =
  pac_pool_id :: uuid
  pac_account_id :: AccountID
  pac_connector_id :: ConnectorID

record task_row =
  task_id :: TaskID
  task_status :: TaskStatus
  task_created_at :: time
  task_updated_at :: time
  task_connector_id :: "ConnectorID option"
  task_created_object_id :: "string option"
  task_error :: "string option"

record schedule_row =
  schedule_id :: string
  schedule_connector_id :: ConnectorID
  schedule_created_at :: time
  schedule_paused_at :: "time option"
  schedule_paused_reason :: "string option"

record state_row =
  state_id :: StateID
  state_connector_id :: ConnectorID
  state_state :: "string option"

record instance_row =
  instance_id :: string
  instance_schedule_id :: string
  instance_connector_id :: ConnectorID
  instance_created_at :: time
  instance_updated_at :: time
  instance_terminated :: bool
  instance_terminated_at :: "time option"
  instance_error :: "string option"

record order_row =
  order_id :: OrderID
  order_connector_id :: ConnectorID
  order_reference :: string
  order_client_order_id :: string
  order_created_at :: time
  order_updated_at :: time
  order_direction :: OrderDirection
  order_source_asset :: string
  order_destination_asset :: string
  order_type :: OrderType
  order_base_quantity_ordered :: int
  order_time_in_force :: TimeInForce
  order_status :: OrderStatus
  order_base_quantity_filled :: "int option"
  order_limit_price :: "int option"
  order_stop_price :: "int option"
  order_expires_at :: "time option"
  order_fee :: "int option"
  order_quote_amount :: "int option"
  order_quote_asset :: string
  order_fee_asset :: "string option"
  order_average_fill_price :: "int option"
  order_price_asset :: "string option"
  order_source_account_id :: "AccountID option"
  order_destination_account_id :: "AccountID option"
  order_metadata :: metadata

record order_adjustment_row =
  oa_id :: OrderAdjustmentID
  oa_order_id :: OrderID
  oa_reference :: string
  oa_created_at :: time
  oa_status :: OrderStatus
  oa_raw :: "string option"
  oa_base_quantity_filled :: "int option"
  oa_fee :: "int option"
  oa_fee_asset :: "string option"
  oa_metadata :: metadata

record conversion_row =
  conversion_id :: ConversionID
  conversion_connector_id :: ConnectorID
  conversion_reference :: string
  conversion_created_at :: time
  conversion_updated_at :: time
  conversion_source_asset :: string
  conversion_destination_asset :: string
  conversion_source_amount :: int
  conversion_status :: ConversionStatus
  conversion_destination_amount :: "int option"
  conversion_fee :: "int option"
  conversion_fee_asset :: "string option"
  conversion_source_account_id :: "AccountID option"
  conversion_destination_account_id :: "AccountID option"
  conversion_metadata :: metadata
  conversion_raw :: "string option"

record outbox_row =
  outbox_id :: EventID
  outbox_event_type :: string
  outbox_entity_id :: string
  outbox_payload :: payload
  outbox_created_at :: time
  outbox_status :: OutboxEventStatus
  outbox_connector_id :: "ConnectorID option"
  outbox_retry_count :: int
  outbox_last_retry_at :: "time option"
  outbox_error :: "string option"

record event_sent_row =
  sent_id :: EventID
  sent_connector_id :: "ConnectorID option"
  sent_at :: time

text \<open>
  Bank accounts, payment service users and open banking.  The encrypted columns
  hold what pgp_sym_encrypt returned, or NULL.  The connection of a token that
  belongs to a user is the default of its column, the empty string.  The column
  expires_at of the forwarded users is never written: it is left out.
\<close>

record payment_service_user_row =
  psu_id :: uuid
  psu_created_at :: time
  psu_name :: "string option"
  psu_street_name :: "string option"
  psu_street_number :: "string option"
  psu_city :: "string option"
  psu_region :: "string option"
  psu_postal_code :: "string option"
  psu_country :: "string option"
  psu_email :: "string option"
  psu_phone_number :: "string option"
  psu_locale :: "string option"
  psu_metadata :: metadata

record bank_account_row =
  ba_id :: uuid
  ba_created_at :: time
  ba_name :: string
  ba_account_number :: "string option"
  ba_iban :: "string option"
  ba_swift_bic_code :: "string option"
  ba_country :: "string option"
  ba_metadata :: metadata
  ba_psu_id :: "uuid option"

record bank_account_related_row =
  bar_bank_account_id :: uuid
  bar_account_id :: AccountID
  bar_connector_id :: ConnectorID
  bar_created_at :: time

record ob_attempt_row =
  oba_id :: uuid
  oba_psu_id :: uuid
  oba_connector_id :: ConnectorID
  oba_created_at :: time
  oba_status :: OpenBankingConnectionAttemptStatus
  oba_state :: CallbackState
  oba_client_redirect_url :: "string option"
  oba_expires_at :: "time option"
  oba_error :: "string option"
  oba_temporary_token :: "string option"

record ob_forwarded_user_row =
  obf_psu_id :: uuid
  obf_connector_id :: ConnectorID
  obf_psp_user_id :: "string option"
  obf_metadata :: metadata

record ob_connection_row =
  obc_psu_id :: uuid
  obc_connector_id :: ConnectorID
  obc_connection_id :: string
  obc_created_at :: time
  obc_data_updated_at :: time
  obc_status :: ConnectionStatus
  obc_updated_at :: time
  obc_error :: "string option"
  obc_metadata :: metadata

record ob_token_row =
  obt_psu_id :: uuid
  obt_connector_id :: ConnectorID
  obt_connection_id :: string
  obt_access_token :: string
  obt_expires_at :: time

record webhook_config_row =
  wc_name :: string
  wc_connector_id :: ConnectorID
  wc_url_path :: string
  wc_metadata :: metadata

record webhook_row =
  wh_id :: string
  wh_connector_id :: ConnectorID
  wh_idempotency_key :: "string option"
  wh_headers :: multi_map
  wh_query_values :: multi_map
  wh_body :: string

record tasks_tree_row =
  tt_connector_id :: ConnectorID
  tt_tasks :: ConnectorTasksTree

section \<open>The database\<close>

record db =
  connectors :: "connector_row list"
  accounts :: "account_row list"
  balances :: "balance_row list"
  payments :: "payment_row list"
  payment_adjustments :: "payment_adjustment_row list"
  payment_initiations :: "payment_initiation_row list"
  pi_related_payments :: "pi_related_payment_row list"
  pi_adjustments :: "pi_adjustment_row list"
  pi_reversals :: "pi_reversal_row list"
  pi_reversal_adjustments :: "pi_reversal_adjustment_row list"
  pools :: "pool_row list"
  pool_accounts :: "pool_account_row list"
  tasks :: "task_row list"
  schedules :: "schedule_row list"
  states :: "state_row list"
  workflow_instances :: "instance_row list"
  orders :: "order_row list"
  order_adjustments :: "order_adjustment_row list"
  conversions :: "conversion_row list"
  outbox_events :: "outbox_row list"
  events_sent :: "event_sent_row list"
  payment_service_users :: "payment_service_user_row list"
  bank_accounts :: "bank_account_row list"
  bank_account_relations :: "bank_account_related_row list"
  ob_attempts :: "ob_attempt_row list"
  ob_forwarded_users :: "ob_forwarded_user_row list"
  ob_connections :: "ob_connection_row list"
  ob_tokens :: "ob_token_row list"
  webhooks_configs :: "webhook_config_row list"
  webhooks :: "webhook_row list"
  connector_tasks_tree :: "tasks_tree_row list"

definition empty_db :: db where
  "empty_db =
     \<lparr>connectors = [], accounts = [], balances = [], payments = [], payment_adjustments = [],
      payment_initiations = [], pi_related_payments = [], pi_adjustments = [], pi_reversals = [],
      pi_reversal_adjustments = [], pools = [], pool_accounts = [], tasks = [], schedules = [],
      states = [], workflow_instances = [], orders = [], order_adjustments = [], conversions = [],
      outbox_events = [], events_sent = [], payment_service_users = [], bank_accounts = [],
      bank_account_relations = [], ob_attempts = [], ob_forwarded_users = [], ob_connections = [],
      ob_tokens = [], webhooks_configs = [], webhooks = [], connector_tasks_tree = []\<rparr>"

section \<open>What comes from outside\<close>

text \<open>
  env_now: time.Now().UTC().  env_db_time: internalTime.New of go-libs, which
  rounds a timestamp to what the column stores.  env_json_valid: whether a raw
  message is a JSON document, the one thing that makes json.Marshal of a
  payload fail.  The texts and keys: String() of identifiers and
  IdempotencyKey, both over the third-party canonical JSON encoder; env_time_text:
  the RFC 3339 text of a time; env_encrypt and env_decrypt: pgp_sym_encrypt and
  pgp_sym_decrypt of the database under the configured key.
\<close>

record env =
  env_now :: time
  env_db_time :: "time \<Rightarrow> time"
  env_json_valid :: "string \<Rightarrow> bool"
  env_uuid_text :: "uuid \<Rightarrow> string"
  env_connector_text :: "ConnectorID \<Rightarrow> string"
  env_account_text :: "AccountID \<Rightarrow> string"
  env_payment_text :: "PaymentID \<Rightarrow> string"
  env_pi_text :: "PaymentInitiationID \<Rightarrow> string"
  env_pia_text :: "PaymentInitiationAdjustmentID \<Rightarrow> string"
  env_task_text :: "TaskID \<Rightarrow> string"
  env_payment_adjustment_key :: "PaymentAdjustmentID \<Rightarrow> string"
  env_account_key :: "AccountID \<Rightarrow> string"
  env_balance_key :: "balance_ik \<Rightarrow> string"
  env_pi_key :: "PaymentInitiationID \<Rightarrow> string"
  env_pia_key :: "PaymentInitiationAdjustmentID \<Rightarrow> string"
  env_pirp_key :: "PaymentInitiationRelatedPayments \<Rightarrow> string"
  env_pool_key :: "uuid \<times> AccountID list \<Rightarrow> string"
  env_task_key :: "Task \<Rightarrow> string"
  env_order_text :: "OrderID \<Rightarrow> string"
  env_order_adjustment_text :: "OrderAdjustmentID \<Rightarrow> string"
  env_order_adjustment_key :: "OrderAdjustmentID \<Rightarrow> string"
  env_conversion_text :: "ConversionID \<Rightarrow> string"
  env_conversion_key :: "ConversionID \<times> ConversionStatus \<Rightarrow> string"
  env_bank_account_key :: "uuid \<times> AccountID option \<times> metadata \<Rightarrow> string"
  env_payload_key :: "payload \<Rightarrow> string"
  env_time_text :: "time \<Rightarrow> string"
  env_encrypt :: "string \<Rightarrow> string"
  env_decrypt :: "string \<Rightarrow> string"

definition raw_ok :: "env \<Rightarrow> string option \<Rightarrow> bool" where
  "raw_ok env raw = (case raw of None \<Rightarrow> True | Some r \<Rightarrow> env_json_valid env r)"

text \<open>The foreign key every entity has to its connector.\<close>

definition connector_exists :: "db \<Rightarrow> ConnectorID \<Rightarrow> bool" where
  "connector_exists d c \<longleftrightarrow> has_key connector_id c (connectors d)"

definition connector_ref_ok :: "db \<Rightarrow> ConnectorID option \<Rightarrow> bool" where
  "connector_ref_ok d c = (case c of None \<Rightarrow> True | Some i \<Rightarrow> connector_exists d i)"

text \<open>
  The foreign keys of accounts and payments to the payment service user and to
  the open banking connection they come from; a key with a NULL column is not checked.
\<close>

definition ob_connection_key :: "ob_connection_row \<Rightarrow> uuid \<times> ConnectorID \<times> string" where
  "ob_connection_key r = (obc_psu_id r, obc_connector_id r, obc_connection_id r)"

definition psu_ref_ok :: "db \<Rightarrow> uuid option \<Rightarrow> bool" where
  "psu_ref_ok d u = (case u of None \<Rightarrow> True | Some i \<Rightarrow> has_key psu_id i (payment_service_users d))"

definition connection_ref :: "uuid option \<Rightarrow> ConnectorID \<Rightarrow> string option \<Rightarrow> (uuid \<times> ConnectorID \<times> string) option" where
  "connection_ref u c ob = (case (u, ob) of (Some i, Some n) \<Rightarrow> Some (i, c, n) | _ \<Rightarrow> None)"

definition connection_ref_ok :: "db \<Rightarrow> uuid option \<Rightarrow> ConnectorID \<Rightarrow> string option \<Rightarrow> bool" where
  "connection_ref_ok d u c ob =
     (case connection_ref u c ob of
        None \<Rightarrow> True | Some k \<Rightarrow> has_key ob_connection_key k (ob_connections d))"

text \<open>The error of a column that must not be null.\<close>

definition not_null_violation :: db_error where
  "not_null_violation = DbOther (Plain ''null value violates not-null constraint'')"

text \<open>The error of a batch with one key twice under ON CONFLICT DO UPDATE.\<close>

definition cardinality_violation :: db_error where
  "cardinality_violation =
     DbOther (Plain ''ON CONFLICT DO UPDATE command cannot affect row a second time'')"

end
