(* ===== verification/Outbox.thy ===== *)
theory Outbox
  imports Schema
begin

text \<open>
  internal/storage/outbox.go and events.go, and the activities that publish
  and clean the outbox (internal/connectors/engine/activities/outbox_publisher.go
  and outbox_cleanup.go).  Every storage function that changes an entity inserts
  its events in the same transaction; the publisher takes them from there.
\<close>

section \<open>Rows and models\<close>

definition fromOutboxEventModel :: "env \<Rightarrow> OutboxEvent \<Rightarrow> outbox_row" where
  "fromOutboxEventModel env from =
     \<lparr>outbox_id = OutboxEvent_ID from,
      outbox_event_type = OutboxEvent_EventType from,
      outbox_entity_id = OutboxEvent_EntityID from,
      outbox_payload = OutboxEvent_Payload from,
      outbox_created_at = env_db_time env (OutboxEvent_CreatedAt from),
      outbox_status = OutboxEvent_Status from,
      outbox_connector_id = OutboxEvent_ConnectorID from,
      outbox_retry_count = OutboxEvent_RetryCount from,
      outbox_last_retry_at = map_option (env_db_time env) (OutboxEvent_LastRetryAt from),
      outbox_error = OutboxEvent_Error from\<rparr>"

definition toOutboxEventModel :: "outbox_row \<Rightarrow> OutboxEvent" where
  "toOutboxEventModel from =
     \<lparr>OutboxEvent_ID = outbox_id from,
      OutboxEvent_EventType = outbox_event_type from,
      OutboxEvent_EntityID = outbox_entity_id from,
      OutboxEvent_Payload = outbox_payload from,
      OutboxEvent_CreatedAt = outbox_created_at from,
      OutboxEvent_Status = outbox_status from,
      OutboxEvent_ConnectorID = outbox_connector_id from,
      OutboxEvent_RetryCount = outbox_retry_count from,
      OutboxEvent_LastRetryAt = outbox_last_retry_at from,
      OutboxEvent_Error = outbox_error from\<rparr>"

definition fromEventSentModel :: "env \<Rightarrow> EventSent \<Rightarrow> event_sent_row" where
  "fromEventSentModel env from =
     \<lparr>sent_id = EventSent_ID from,
      sent_connector_id = EventSent_ConnectorID from,
      sent_at = env_db_time env (EventSent_SentAt from)\<rparr>"

definition toEventSentModel :: "event_sent_row \<Rightarrow> EventSent" where
  "toEventSentModel from =
     \<lparr>EventSent_ID = sent_id from,
      EventSent_ConnectorID = sent_connector_id from,
      EventSent_SentAt = sent_at from\<rparr>"

section \<open>Inserting events\<close>

text \<open>The events not sent yet, in order; an event without key is an error.\<close>

fun filter_unsent :: "env \<Rightarrow> faults \<Rightarrow> OutboxEvent list \<Rightarrow> (db, outbox_row list) tx" where
  "filter_unsent env fl [] = tx_return []"
| "filter_unsent env fl (event # es) =
     (if EventID_EventIdempotencyKey (OutboxEvent_ID event) = []
      then tx_fail (Wrap ''event ID must be set with EventIdempotencyKey''
                      (Plain ''missing event ID''))
      else tx_bind (stmt fl ''failed to check if event already sent''
                      (tx_get (\<lambda>d. has_key sent_id (OutboxEvent_ID event) (events_sent d))))
        (\<lambda>exists. tx_bind (filter_unsent env fl es)
          (\<lambda>rest. tx_return (if exists then rest else fromOutboxEventModel env event # rest))))"

definition insert_outbox_rows :: "outbox_row list \<Rightarrow> db \<Rightarrow> outbox_row list \<times> db" where
  "insert_outbox_rows rows d =
     (let (ins, tbl) = insert_ignore outbox_id rows (outbox_events d) in
      (ins, d\<lparr>outbox_events := tbl\<rparr>))"

definition OutboxEventsInsert :: "env \<Rightarrow> faults \<Rightarrow> OutboxEvent list \<Rightarrow> (db, unit) tx" where
  "OutboxEventsInsert env fl events =
     (if events = [] then tx_return ()
      else tx_bind (filter_unsent env fl events)
        (\<lambda>toInsert. if toInsert = [] then tx_return ()
           else stmt fl ''failed to insert outbox events''
             (\<lambda>d. let (ins, d') = insert_outbox_rows toInsert d in
                  if list_all (\<lambda>r. connector_ref_ok d (outbox_connector_id r)) ins
                  then (Inr (), d')
                  else refuse ''failed to insert outbox events''
                         (DbFKConstraintFailed ''outbox_events_connector_id_fk'') d)))"

definition OutboxEventsInsertWithTx :: "env \<Rightarrow> faults \<Rightarrow> OutboxEvent list \<Rightarrow> (db, unit) tx" where
  "OutboxEventsInsertWithTx env fl events =
     (if events = [] then tx_return ()
      else in_tx fl ''failed to begin transaction'' ''failed to commit transaction''
             (OutboxEventsInsert env fl events))"

section \<open>Polling, failures, success\<close>

definition OutboxEventsPollPending :: "faults \<Rightarrow> nat \<Rightarrow> (db, OutboxEvent list) tx" where
  "OutboxEventsPollPending fl limit =
     stmt fl ''failed to poll pending outbox events''
       (tx_get (\<lambda>d. map toOutboxEventModel
          (take limit (sort_key outbox_created_at
             (filter (\<lambda>r. outbox_status r = OUTBOX_STATUS_PENDING) (outbox_events d))))))"

text \<open>
  What the publisher returns for an event: nil, or an error with the marker
  interface NonRetryableError of pkg/domain/errors or without it.
\<close>

datatype publish_result = Published | PublishError error bool

definition MarkFailed_row :: "env \<Rightarrow> int \<Rightarrow> error \<Rightarrow> bool \<Rightarrow> outbox_row \<Rightarrow> outbox_row" where
  "MarkFailed_row env retryCount err nonRetryable r =
     r\<lparr>outbox_status := (if retryCount \<ge> MaxOutboxRetries \<or> nonRetryable
                         then OUTBOX_STATUS_FAILED else OUTBOX_STATUS_PENDING),
       outbox_retry_count := retryCount,
       outbox_last_retry_at := Some (env_now env),
       outbox_error := Some (error_text err)\<rparr>"

definition OutboxEventsMarkFailed ::
  "env \<Rightarrow> faults \<Rightarrow> EventID \<Rightarrow> int \<Rightarrow> error \<Rightarrow> bool \<Rightarrow> (db, unit) tx" where
  "OutboxEventsMarkFailed env fl eventID retryCount err nonRetryable =
     stmt fl ''failed to mark outbox event''
       (tx_modify (\<lambda>d. d\<lparr>outbox_events :=
          update_where (\<lambda>r. outbox_id r = eventID) (MarkFailed_row env retryCount err nonRetryable)
            (outbox_events d)\<rparr>))"

definition mark_processed :: "EventID list \<Rightarrow> db \<Rightarrow> db" where
  "mark_processed eventIDs d = d\<lparr>outbox_events :=
     update_where (\<lambda>r. outbox_id r \<in> set eventIDs)
       (\<lambda>r. r\<lparr>outbox_status := OUTBOX_STATUS_PROCESSED\<rparr>) (outbox_events d)\<rparr>"

definition insert_sent_rows :: "event_sent_row list \<Rightarrow> db \<Rightarrow> event_sent_row list \<times> db" where
  "insert_sent_rows rows d =
     (let (ins, tbl) = insert_ignore sent_id rows (events_sent d) in
      (ins, d\<lparr>events_sent := tbl\<rparr>))"

definition insert_sent_stmt :: "faults \<Rightarrow> string \<Rightarrow> event_sent_row list \<Rightarrow> (db, unit) tx" where
  "insert_sent_stmt fl msg rows =
     stmt fl msg
       (\<lambda>d. let (ins, d') = insert_sent_rows rows d in
            if list_all (\<lambda>r. connector_ref_ok d (sent_connector_id r)) ins then (Inr (), d')
            else refuse msg (DbFKConstraintFailed ''events_sent_connector_id_fk'') d)"

definition OutboxEventsMarkProcessedAndRecordSent ::
  "env \<Rightarrow> faults \<Rightarrow> EventID list \<Rightarrow> EventSent list \<Rightarrow> (db, unit) tx" where
  "OutboxEventsMarkProcessedAndRecordSent env fl eventIDs eventsSent =
     (if eventIDs = [] then tx_return ()
      else if length eventIDs \<noteq> length eventsSent
      then tx_fail (Wrap ''eventIDs and eventsSent must have the same length''
                      (Plain ''length mismatch''))
      else in_tx fl ''failed to create transaction'' ''failed to commit transaction''
        (tx_seq (stmt fl ''failed to mark published events as processed''
                   (tx_modify (mark_processed eventIDs)))
          (let toInsert = map (fromEventSentModel env) eventsSent in
           if length toInsert > 0 then insert_sent_stmt fl ''failed to record events as sent'' toInsert
           else tx_return ())))"

definition OutboxEventsDeleteOldProcessed :: "faults \<Rightarrow> time \<Rightarrow> (db, unit) tx" where
  "OutboxEventsDeleteOldProcessed fl olderThan =
     stmt fl ''failed to delete old processed outbox events''
       (tx_modify (\<lambda>d. d\<lparr>outbox_events :=
          delete_where (\<lambda>r. outbox_status r = OUTBOX_STATUS_PROCESSED \<and>
                            outbox_created_at r < olderThan) (outbox_events d)\<rparr>))"

section \<open>Sent events\<close>

definition EventsSentUpsert :: "env \<Rightarrow> faults \<Rightarrow> EventSent \<Rightarrow> (db, unit) tx" where
  "EventsSentUpsert env fl event =
     insert_sent_stmt fl ''failed to insert event sent'' [fromEventSentModel env event]"

definition EventsSentGet :: "faults \<Rightarrow> EventID \<Rightarrow> (db, EventSent) tx" where
  "EventsSentGet fl i =
     stmt fl ''failed to get event sent''
       (\<lambda>d. case lookup_row sent_id i (events_sent d) of
          None \<Rightarrow> refuse ''failed to get event sent'' DbNotFound d
        | Some r \<Rightarrow> (Inr (toEventSentModel r), d))"

definition EventsSentExists :: "faults \<Rightarrow> EventID \<Rightarrow> (db, bool) tx" where
  "EventsSentExists fl i =
     stmt fl ''failed to get event sent'' (tx_get (\<lambda>d. has_key sent_id i (events_sent d)))"

definition EventsSentDeleteFromConnectorID :: "faults \<Rightarrow> ConnectorID \<Rightarrow> (db, unit) tx" where
  "EventsSentDeleteFromConnectorID fl c =
     stmt fl ''failed to delete event sent''
       (tx_modify (\<lambda>d. d\<lparr>events_sent :=
          delete_where (\<lambda>r. sent_connector_id r = Some c) (events_sent d)\<rparr>))"

definition EventsSentDeleteFromConnectorIDBatch :: "faults \<Rightarrow> ConnectorID \<Rightarrow> int \<Rightarrow> (db, int) tx" where
  "EventsSentDeleteFromConnectorIDBatch fl c batchSize =
     (if batchSize \<le> 0 then tx_fail (Wrap ''invalid batchSize'' (Sentinel Storage_ErrValidation))
      else stmt fl ''failed to delete events_sent batch''
        (\<lambda>d. let ids = map sent_id
                   (take (nat batchSize) (filter (\<lambda>r. sent_connector_id r = Some c) (events_sent d)));
                 rest = delete_where (\<lambda>r. sent_id r \<in> set ids) (events_sent d) in
             (Inr (int (length (events_sent d)) - int (length rest)), d\<lparr>events_sent := rest\<rparr>)))"

section \<open>The publisher and the cleaner\<close>

text \<open>
  publish is the answer of the message broker for each event.  The loop marks
  a failed event at once and collects the published ones; acc is the reverse
  of what it collected.
\<close>

fun publish_loop ::
  "env \<Rightarrow> faults \<Rightarrow> (OutboxEvent \<Rightarrow> publish_result) \<Rightarrow> OutboxEvent list \<Rightarrow> EventSent list \<Rightarrow>
     (db, EventSent list) tx" where
  "publish_loop env fl publish [] acc = tx_return (rev acc)"
| "publish_loop env fl publish (event # es) acc =
     (case publish event of
        PublishError err nonRetryable \<Rightarrow>
          (\<lambda>d. case OutboxEventsMarkFailed env fl (OutboxEvent_ID event)
                     (OutboxEvent_RetryCount event + 1) err nonRetryable d of
                 (Inl markErr, d') \<Rightarrow> (Inl (Wrap ''failed to update event retry count'' markErr), d')
               | (Inr _, d') \<Rightarrow> publish_loop env fl publish es acc d')
      | Published \<Rightarrow>
          publish_loop env fl publish es
            (\<lparr>EventSent_ID = OutboxEvent_ID event,
              EventSent_ConnectorID = OutboxEvent_ConnectorID event,
              EventSent_SentAt = env_now env\<rparr> # acc))"

definition tx_wrap :: "string \<Rightarrow> ('s, 'a) tx \<Rightarrow> ('s, 'a) tx" where
  "tx_wrap msg m = (\<lambda>s. case m s of (Inl e, s') \<Rightarrow> (Inl (Wrap msg e), s') | (Inr a, s') \<Rightarrow> (Inr a, s'))"

definition OutboxPublishPendingEvents ::
  "env \<Rightarrow> faults \<Rightarrow> (OutboxEvent \<Rightarrow> publish_result) \<Rightarrow> nat \<Rightarrow> (db, unit) tx" where
  "OutboxPublishPendingEvents env fl publish limit =
     tx_bind (tx_wrap ''failed to poll pending outbox events'' (OutboxEventsPollPending fl limit))
       (\<lambda>outboxEvents. if outboxEvents = [] then tx_return ()
          else tx_bind (publish_loop env fl publish outboxEvents [])
            (\<lambda>sent. if sent = [] then tx_return ()
               else tx_wrap ''failed to mark outbox events as processed and record sent''
                      (OutboxEventsMarkProcessedAndRecordSent env fl (map EventSent_ID sent) sent)))"

text \<open>The cutoff is one calendar month before now (time.AddDate of the standard library).\<close>

definition OutboxDeleteOldProcessedEvents :: "faults \<Rightarrow> time \<Rightarrow> (db, unit) tx" where
  "OutboxDeleteOldProcessedEvents fl cutoffDate =
     tx_wrap ''failed to delete old processed outbox events''
       (OutboxEventsDeleteOldProcessed fl cutoffDate)"

section \<open>Facts\<close>

interpretation outbox_store: dedup_store insert_outbox_rows outbox_events outbox_id
proof unfold_locales
  fix rs d new d'
  assume "insert_outbox_rows rs d = (new, d')"
  then obtain tbl where i: "insert_ignore outbox_id rs (outbox_events d) = (new, tbl)"
    and d': "d' = d\<lparr>outbox_events := tbl\<rparr>"
    by (auto simp: insert_outbox_rows_def split: prod.splits)
  show "outbox_events d' = outbox_events d @ new"
    using d' ignore_store.appends[OF i] by simp
  show "outbox_id ` set new = outbox_id ` set rs - outbox_id ` set (outbox_events d)"
    by (rule ignore_store.new_keys[OF i])
  show "distinct (map outbox_id new)" by (rule ignore_store.new_distinct[OF i])
  show "set new \<subseteq> set rs" by (rule ignore_store.new_from[OF i])
next
  fix rs :: "outbox_row list" and d :: db
  assume "outbox_id ` set rs \<subseteq> outbox_id ` set (outbox_events d)"
  then have "insert_ignore outbox_id rs (outbox_events d) = ([], outbox_events d)"
    by (rule ignore_store.nothing_new)
  then show "insert_outbox_rows rs d = ([], d)" by (simp add: insert_outbox_rows_def)
qed

interpretation sent_store: dedup_store insert_sent_rows events_sent sent_id
proof unfold_locales
  fix rs d new d'
  assume "insert_sent_rows rs d = (new, d')"
  then obtain tbl where i: "insert_ignore sent_id rs (events_sent d) = (new, tbl)"
    and d': "d' = d\<lparr>events_sent := tbl\<rparr>"
    by (auto simp: insert_sent_rows_def split: prod.splits)
  show "events_sent d' = events_sent d @ new"
    using d' ignore_store.appends[OF i] by simp
  show "sent_id ` set new = sent_id ` set rs - sent_id ` set (events_sent d)"
    by (rule ignore_store.new_keys[OF i])
  show "distinct (map sent_id new)" by (rule ignore_store.new_distinct[OF i])
  show "set new \<subseteq> set rs" by (rule ignore_store.new_from[OF i])
next
  fix rs :: "event_sent_row list" and d :: db
  assume "sent_id ` set rs \<subseteq> sent_id ` set (events_sent d)"
  then have "insert_ignore sent_id rs (events_sent d) = ([], events_sent d)"
    by (rule ignore_store.nothing_new)
  then show "insert_sent_rows rs d = ([], d)" by (simp add: insert_sent_rows_def)
qed

lemma fromOutboxEventModel_simps [simp]:
  "outbox_id (fromOutboxEventModel env e) = OutboxEvent_ID e"
  "outbox_status (fromOutboxEventModel env e) = OutboxEvent_Status e"
  "outbox_payload (fromOutboxEventModel env e) = OutboxEvent_Payload e"
  "outbox_connector_id (fromOutboxEventModel env e) = OutboxEvent_ConnectorID e"
  "outbox_retry_count (fromOutboxEventModel env e) = OutboxEvent_RetryCount e"
  by (simp_all add: fromOutboxEventModel_def)

lemma toOutboxEventModel_simps [simp]:
  "OutboxEvent_ID (toOutboxEventModel r) = outbox_id r"
  "OutboxEvent_Status (toOutboxEventModel r) = outbox_status r"
  "OutboxEvent_RetryCount (toOutboxEventModel r) = outbox_retry_count r"
  "OutboxEvent_ConnectorID (toOutboxEventModel r) = outbox_connector_id r"
  by (simp_all add: toOutboxEventModel_def)

lemma fromEventSentModel_id [simp]: "sent_id (fromEventSentModel env e) = EventSent_ID e"
  by (simp add: fromEventSentModel_def)

abbreviation event_key :: "OutboxEvent \<Rightarrow> string" where
  "event_key e \<equiv> EventID_EventIdempotencyKey (OutboxEvent_ID e)"

lemma filter_unsent_Inr:
  "filter_unsent env fl evs d = (Inr rows, d') \<Longrightarrow>
     d' = d \<and> (\<forall>e\<in>set evs. event_key e \<noteq> []) \<and>
     rows = map (fromOutboxEventModel env)
       (filter (\<lambda>e. \<not> has_key sent_id (OutboxEvent_ID e) (events_sent d)) evs)"
  by (induction evs arbitrary: rows) (auto simp: tx_inr split: if_splits)

lemma filter_unsent_Inl: "filter_unsent env fl evs d = (Inl e, d') \<Longrightarrow> d' = d"
  by (induction evs arbitrary: e)
    (auto simp: tx_bind_Inl_iff stmt_def tx_bind_Inr_iff dest!: filter_unsent_Inr
      split: if_splits option.splits)

text \<open>
  The contract every storage function relies on when it emits events: emitting
  touches nothing but the outbox, adds rows for events that are neither in
  the outbox nor recorded as sent, and leaves every emitted event recorded in
  one of the two.
\<close>

locale event_sink =
  fixes emit :: "OutboxEvent list \<Rightarrow> (db, unit) tx"
  assumes emit_ok: "emit evs d = (Inr u, d') \<Longrightarrow>
      \<exists>new. d' = d\<lparr>outbox_events := outbox_events d @ new\<rparr> \<and>
        outbox_id ` set new = OutboxEvent_ID ` set evs
          - sent_id ` set (events_sent d) - outbox_id ` set (outbox_events d) \<and>
        distinct (map outbox_id new) \<and>
        (\<forall>r\<in>set new. \<exists>e\<in>set evs. outbox_id r = OutboxEvent_ID e \<and>
            outbox_status r = OutboxEvent_Status e \<and> outbox_payload r = OutboxEvent_Payload e)"
    and emit_error: "emit evs d = (Inl err, d') \<Longrightarrow> d' = d"
    and emit_none: "emit [] = tx_return ()"
begin

lemma only_outbox: "emit evs d = (Inr u, d') \<Longrightarrow> \<exists>t. d' = d\<lparr>outbox_events := t\<rparr>"
  using emit_ok by blast

lemma keeps_rows:
  "emit evs d = (Inr u, d') \<Longrightarrow> r \<in> set (outbox_events d) \<Longrightarrow> r \<in> set (outbox_events d')"
  using emit_ok by fastforce

lemma all_recorded:
  assumes "emit evs d = (Inr u, d')" "e \<in> set evs"
  shows "OutboxEvent_ID e \<in> outbox_id ` set (outbox_events d') \<union> sent_id ` set (events_sent d')"
proof -
  from emit_ok[OF assms(1)] obtain new where
    d': "d' = d\<lparr>outbox_events := outbox_events d @ new\<rparr>" and
    ids: "outbox_id ` set new = OutboxEvent_ID ` set evs
      - sent_id ` set (events_sent d) - outbox_id ` set (outbox_events d)" by blast
  have "OutboxEvent_ID e \<in> OutboxEvent_ID ` set evs" using assms(2) by blast
  then have "OutboxEvent_ID e \<in> outbox_id ` set new \<union> sent_id ` set (events_sent d)
      \<union> outbox_id ` set (outbox_events d)"
    unfolding ids by blast
  then show ?thesis unfolding d' by (auto simp: image_Un)
qed

lemma keeps_distinct:
  assumes "emit evs d = (Inr u, d')" "distinct (map outbox_id (outbox_events d))"
  shows "distinct (map outbox_id (outbox_events d'))"
proof -
  from emit_ok[OF assms(1)] obtain new where
    d': "d' = d\<lparr>outbox_events := outbox_events d @ new\<rparr>" and
    ids: "outbox_id ` set new = OutboxEvent_ID ` set evs
      - sent_id ` set (events_sent d) - outbox_id ` set (outbox_events d)" and
    dist: "distinct (map outbox_id new)" by blast
  from ids have "outbox_id ` set (outbox_events d) \<inter> outbox_id ` set new = {}" by blast
  with assms(2) dist show ?thesis by (simp add: d')
qed

text \<open>An event already in the outbox or sent is not emitted a second time.\<close>

lemma nothing_to_emit:
  assumes "emit evs d = (Inr u, d')"
    "OutboxEvent_ID ` set evs \<subseteq> sent_id ` set (events_sent d) \<union> outbox_id ` set (outbox_events d)"
  shows "d' = d"
proof -
  from emit_ok[OF assms(1)] obtain new where
    d': "d' = d\<lparr>outbox_events := outbox_events d @ new\<rparr>" and
    ids: "outbox_id ` set new = OutboxEvent_ID ` set evs
      - sent_id ` set (events_sent d) - outbox_id ` set (outbox_events d)" by blast
  have "A - B - C = {}" if "A \<subseteq> B \<union> C" for A B C :: "EventID set"
    using that by blast
  from this[OF assms(2)] have "outbox_id ` set new = {}" by (simp only: ids)
  with d' show ?thesis by simp
qed

end

lemma OutboxEventsInsert_rows:
  assumes "OutboxEventsInsert env fl evs d = (Inr u, d')" "evs \<noteq> []"
  obtains new where
    "insert_outbox_rows (map (fromOutboxEventModel env)
       (filter (\<lambda>e. \<not> has_key sent_id (OutboxEvent_ID e) (events_sent d)) evs)) d = (new, d')"
proof -
  let ?rows = "map (fromOutboxEventModel env)
       (filter (\<lambda>e. \<not> has_key sent_id (OutboxEvent_ID e) (events_sent d)) evs)"
  from assms obtain rows d1 where
    f: "filter_unsent env fl evs d = (Inr rows, d1)" and
    i: "(if rows = [] then tx_return () else stmt fl ''failed to insert outbox events''
          (\<lambda>d. let (ins, d') = insert_outbox_rows rows d in
               if list_all (\<lambda>r. connector_ref_ok d (outbox_connector_id r)) ins
               then (Inr (), d')
               else refuse ''failed to insert outbox events''
                      (DbFKConstraintFailed ''outbox_events_connector_id_fk'') d)) d1 = (Inr u, d')"
    unfolding OutboxEventsInsert_def by (auto simp: tx_bind_Inr_iff)
  from filter_unsent_Inr[OF f] have d1: "d1 = d" and rows: "rows = ?rows" by simp_all
  obtain new d2 where n: "insert_outbox_rows rows d = (new, d2)" by fastforce
  have "d2 = d'"
  proof (cases "rows = []")
    case True
    with i n d1 show ?thesis by (simp add: insert_outbox_rows_def)
  next
    case False
    with i d1 n show ?thesis by (simp split: if_splits)
  qed
  with n rows that show thesis by simp
qed

lemma OutboxEventsInsert_error:
  assumes "OutboxEventsInsert env fl evs d = (Inl err, d')"
  shows "d' = d"
proof (cases "evs = []")
  case True
  with assms show ?thesis by (simp add: OutboxEventsInsert_def)
next
  case False
  show ?thesis
  proof (cases "filter_unsent env fl evs d")
    case (Pair r d1)
    show ?thesis
    proof (cases r)
      case (Inl e)
      with Pair filter_unsent_Inl[of env fl evs d e d1] assms False show ?thesis
        by (simp add: OutboxEventsInsert_def tx_bind_def)
    next
      case (Inr rows)
      with Pair filter_unsent_Inr[of env fl evs d rows d1] have "d1 = d" by simp
      obtain new d2 where "insert_outbox_rows rows d = (new, d2)" by fastforce
      with assms False Pair Inr \<open>d1 = d\<close> show ?thesis
        by (simp add: OutboxEventsInsert_def tx_bind_def stmt_def refuse_def
            split: if_splits option.splits)
    qed
  qed
qed

interpretation outbox: event_sink "OutboxEventsInsert env fl" for env fl
proof unfold_locales
  fix evs d u d'
  assume ok: "OutboxEventsInsert env fl evs d = (Inr u, d')"
  show "\<exists>new. d' = d\<lparr>outbox_events := outbox_events d @ new\<rparr> \<and>
      outbox_id ` set new = OutboxEvent_ID ` set evs
        - sent_id ` set (events_sent d) - outbox_id ` set (outbox_events d) \<and>
      distinct (map outbox_id new) \<and>
      (\<forall>r\<in>set new. \<exists>e\<in>set evs. outbox_id r = OutboxEvent_ID e \<and>
          outbox_status r = OutboxEvent_Status e \<and> outbox_payload r = OutboxEvent_Payload e)"
    (is "\<exists>new. ?Q new")
  proof (cases "evs = []")
    case True
    with ok have "d' = d" by (simp add: OutboxEventsInsert_def)
    with True have "?Q []" by simp
    then show ?thesis by blast
  next
    case False
    define todo where "todo = filter (\<lambda>e. \<not> has_key sent_id (OutboxEvent_ID e) (events_sent d)) evs"
    define rows where "rows = map (fromOutboxEventModel env) todo"
    from ok obtain new where i: "insert_outbox_rows rows d = (new, d')"
      using False unfolding rows_def todo_def by (rule OutboxEventsInsert_rows)
    have ids: "outbox_id ` set rows = OutboxEvent_ID ` set evs - sent_id ` set (events_sent d)"
      by (auto simp: rows_def todo_def tbl_simps image_iff)
    have "d' = d\<lparr>outbox_events := outbox_events d @ new\<rparr>"
      using i outbox_store.appends[OF i]
      by (auto simp: insert_outbox_rows_def split: prod.splits)
    moreover have "outbox_id ` set new = OutboxEvent_ID ` set evs
        - sent_id ` set (events_sent d) - outbox_id ` set (outbox_events d)"
      using outbox_store.new_keys[OF i] ids by simp
    moreover have "distinct (map outbox_id new)" by (rule outbox_store.new_distinct[OF i])
    moreover have "\<forall>r\<in>set new. \<exists>e\<in>set evs. outbox_id r = OutboxEvent_ID e \<and>
          outbox_status r = OutboxEvent_Status e \<and> outbox_payload r = OutboxEvent_Payload e"
      using outbox_store.new_from[OF i] by (fastforce simp: rows_def todo_def)
    ultimately have "?Q new" by blast
    then show ?thesis by blast
  qed
next
  fix evs d err d'
  assume "OutboxEventsInsert env fl evs d = (Inl err, d')"
  then show "d' = d" by (rule OutboxEventsInsert_error)
next
  show "OutboxEventsInsert env fl [] = tx_return ()" by (simp add: OutboxEventsInsert_def)
qed

text \<open>Without faults, events with keys and known connectors are always accepted.\<close>

lemma filter_unsent_succeeds:
  "\<forall>e\<in>set evs. event_key e \<noteq> [] \<Longrightarrow> \<exists>rows. filter_unsent env no_faults evs d = (Inr rows, d)"
proof (induction evs)
  case Nil
  then show ?case by simp
next
  case (Cons e evs)
  then obtain rows where "filter_unsent env no_faults evs d = (Inr rows, d)" by auto
  with Cons.prems show ?case by (simp add: tx_bind_def)
qed

lemma OutboxEventsInsert_succeeds:
  assumes "\<forall>e\<in>set evs. event_key e \<noteq> [] \<and> connector_ref_ok d (OutboxEvent_ConnectorID e)"
  shows "\<exists>d'. OutboxEventsInsert env no_faults evs d = (Inr (), d')"
proof (cases "evs = []")
  case True
  then show ?thesis by (simp add: OutboxEventsInsert_def)
next
  case False
  obtain rows where f: "filter_unsent env no_faults evs d = (Inr rows, d)"
    using filter_unsent_succeeds[of evs env d] assms by blast
  from filter_unsent_Inr[OF f]
  have rows: "rows = map (fromOutboxEventModel env)
       (filter (\<lambda>e. \<not> has_key sent_id (OutboxEvent_ID e) (events_sent d)) evs)" by blast
  obtain ins d1 where i: "insert_outbox_rows rows d = (ins, d1)" by fastforce
  have "set ins \<subseteq> set rows" by (rule outbox_store.new_from[OF i])
  then have "connector_ref_ok d (outbox_connector_id r)" if "r \<in> set ins" for r
    using that assms unfolding rows by auto
  then have "list_all (\<lambda>r. connector_ref_ok d (outbox_connector_id r)) ins"
    by (simp add: list_all_iff)
  with False f i show ?thesis
    by (auto simp: OutboxEventsInsert_def tx_bind_def)
qed

end
