(* ===== verification/Payments_Store.thy ===== *)
theory Payments_Store
  imports Outbox
begin

text \<open>
  internal/storage/payments.go: payments, their adjustments, and the amounts
  derived from them.  PaymentsUpsert is replayed by Temporal (activities are
  at-least-once), so what it does must depend only on the adjustments that are
  new; the lemmas below say so.
\<close>

section \<open>Rows and models\<close>

text \<open>
  initial_amount and amount are NOT NULL: a payment with a nil amount is
  refused by the insert (payment_not_null), the value 0 stands for it only
  where the statement fails.
\<close>

definition amount_or_zero :: "int option \<Rightarrow> int" where
  "amount_or_zero a = (case a of None \<Rightarrow> 0 | Some x \<Rightarrow> x)"

definition payment_not_null :: "Payment \<Rightarrow> bool" where
  "payment_not_null p \<longleftrightarrow> Payment_InitialAmount p \<noteq> None \<and> Payment_Amount p \<noteq> None"

definition fromPaymentModels :: "env \<Rightarrow> Payment \<Rightarrow> payment_row" where
  "fromPaymentModels env from =
     \<lparr>payment_id = Payment_ID from,
      payment_connector_id = Payment_ConnectorID from,
      payment_reference = Payment_Reference from,
      payment_created_at = env_db_time env (Payment_CreatedAt from),
      payment_type = Payment_Type from,
      payment_initial_amount = amount_or_zero (Payment_InitialAmount from),
      payment_amount = amount_or_zero (Payment_Amount from),
      payment_asset = Payment_Asset from,
      payment_scheme = Payment_Scheme from,
      payment_source_account_id = Payment_SourceAccountID from,
      payment_destination_account_id = Payment_DestinationAccountID from,
      payment_psu_id = Payment_PsuID from,
      payment_open_banking_connection_id = Payment_OpenBankingConnectionID from,
      payment_metadata = Payment_Metadata from\<rparr>"

definition toPaymentModels :: "payment_row \<Rightarrow> PaymentStatus \<Rightarrow> Payment" where
  "toPaymentModels p status =
     \<lparr>Payment_ID = payment_id p,
      Payment_ConnectorID = payment_connector_id p,
      Payment_Reference = payment_reference p,
      Payment_CreatedAt = payment_created_at p,
      Payment_Type = payment_type p,
      Payment_InitialAmount = Some (payment_initial_amount p),
      Payment_Amount = Some (payment_amount p),
      Payment_Asset = payment_asset p,
      Payment_Scheme = payment_scheme p,
      Payment_Status = status,
      Payment_SourceAccountID = payment_source_account_id p,
      Payment_DestinationAccountID = payment_destination_account_id p,
      Payment_PsuID = payment_psu_id p,
      Payment_OpenBankingConnectionID = payment_open_banking_connection_id p,
      Payment_Metadata = payment_metadata p,
      Payment_Adjustments = []\<rparr>"

definition fromPaymentAdjustmentModels :: "env \<Rightarrow> PaymentAdjustment \<Rightarrow> payment_adjustment_row" where
  "fromPaymentAdjustmentModels env from =
     \<lparr>pa_id = PaymentAdjustment_ID from,
      pa_payment_id = PaymentAdjustmentID_PaymentID (PaymentAdjustment_ID from),
      pa_reference = PaymentAdjustment_Reference from,
      pa_created_at = env_db_time env (PaymentAdjustment_CreatedAt from),
      pa_status = PaymentAdjustment_Status from,
      pa_raw = PaymentAdjustment_Raw from,
      pa_amount = PaymentAdjustment_Amount from,
      pa_asset = PaymentAdjustment_Asset from,
      pa_metadata = PaymentAdjustment_Metadata from\<rparr>"

definition toPaymentAdjustmentModels :: "payment_adjustment_row \<Rightarrow> PaymentAdjustment" where
  "toPaymentAdjustmentModels from =
     \<lparr>PaymentAdjustment_ID = pa_id from,
      PaymentAdjustment_Reference = pa_reference from,
      PaymentAdjustment_CreatedAt = pa_created_at from,
      PaymentAdjustment_Status = pa_status from,
      PaymentAdjustment_Amount = pa_amount from,
      PaymentAdjustment_Asset = pa_asset from,
      PaymentAdjustment_Metadata = pa_metadata from,
      PaymentAdjustment_Raw = pa_raw from\<rparr>"

section \<open>PaymentsUpsert\<close>

text \<open>paymentMap: the last payment of the batch with the identifier.\<close>

definition paymentMap :: "Payment list \<Rightarrow> PaymentID \<Rightarrow> Payment option" where
  "paymentMap ps i = find (\<lambda>p. Payment_ID p = i) (rev ps)"

definition accumulate_amount :: "payment_row \<Rightarrow> int \<Rightarrow> payment_row list \<Rightarrow> payment_row list" where
  "accumulate_amount row a acc =
     (if has_key payment_id (payment_id row) acc
      then update_where (\<lambda>r. payment_id r = payment_id row)
             (\<lambda>r. r\<lparr>payment_amount := payment_amount r + a\<rparr>) acc
      else acc @ [row\<lparr>payment_amount := a\<rparr>])"

text \<open>One inserted adjustment, into the pair (paymentsRefunded, paymentsCaptured).\<close>

definition amount_delta_step ::
  "env \<Rightarrow> Payment list \<Rightarrow> payment_adjustment_row \<Rightarrow> payment_row list \<times> payment_row list \<Rightarrow>
     payment_row list \<times> payment_row list" where
  "amount_delta_step env ps adj rc =
     (case pa_amount adj of
        None \<Rightarrow> rc
      | Some a \<Rightarrow> (case paymentMap ps (pa_payment_id adj) of
          None \<Rightarrow> rc
        | Some p \<Rightarrow>
            if pa_status adj = PAYMENT_STATUS_REFUNDED
            then (accumulate_amount (fromPaymentModels env p) a (fst rc), snd rc)
            else if pa_status adj = PAYMENT_STATUS_CAPTURE
                    \<or> pa_status adj = PAYMENT_STATUS_REFUND_REVERSED
            then (fst rc, accumulate_amount (fromPaymentModels env p) a (snd rc))
            else rc))"

definition amount_deltas ::
  "env \<Rightarrow> Payment list \<Rightarrow> payment_adjustment_row list \<Rightarrow> payment_row list \<times> payment_row list" where
  "amount_deltas env ps inserted = fold (amount_delta_step env ps) inserted ([], [])"

definition set_initial_amount :: "payment_row \<Rightarrow> int \<Rightarrow> payment_row list \<Rightarrow> payment_row list" where
  "set_initial_amount row a acc =
     (if has_key payment_id (payment_id row) acc
      then update_where (\<lambda>r. payment_id r = payment_id row)
             (\<lambda>r. r\<lparr>payment_initial_amount := a\<rparr>) acc
      else acc @ [row\<lparr>payment_initial_amount := a\<rparr>])"

definition initial_amount_step ::
  "env \<Rightarrow> Payment \<Rightarrow> PaymentAdjustment \<Rightarrow> payment_row list \<Rightarrow> payment_row list" where
  "initial_amount_step env p a acc =
     (if PaymentAdjustment_Status a \<noteq> PAYMENT_STATUS_AMOUNT_ADJUSTMENT then acc
      else (case PaymentAdjustment_Amount a of
              None \<Rightarrow> acc
            | Some x \<Rightarrow> set_initial_amount (fromPaymentModels env p) x acc))"

definition initial_amounts :: "env \<Rightarrow> Payment list \<Rightarrow> payment_row list" where
  "initial_amounts env ps =
     fold (\<lambda>p. fold (initial_amount_step env p) (Payment_Adjustments p)) ps []"

definition insert_payments_stmt :: "faults \<Rightarrow> payment_row list \<Rightarrow> bool \<Rightarrow> (db, unit) tx" where
  "insert_payments_stmt fl rows not_null =
     stmt fl ''failed to insert payments''
       (\<lambda>d. let (ins, tbl) = insert_ignore payment_id rows (payments d) in
            if \<not> not_null then refuse ''failed to insert payments'' not_null_violation d
            else if \<not> list_all (\<lambda>r. connector_exists d (payment_connector_id r)) ins
            then refuse ''failed to insert payments''
                   (DbFKConstraintFailed ''payments_connector_id_fk'') d
            else if \<not> list_all (\<lambda>r. psu_ref_ok d (payment_psu_id r)) ins
            then refuse ''failed to insert payments'' (DbFKConstraintFailed ''payments_psu_id_fk'') d
            else if \<not> list_all (\<lambda>r. connection_ref_ok d (payment_psu_id r) (payment_connector_id r)
                                    (payment_open_banking_connection_id r)) ins
            then refuse ''failed to insert payments''
                   (DbFKConstraintFailed ''payments_open_banking_connection_id_fk'') d
            else (Inr (), d\<lparr>payments := tbl\<rparr>))"

definition insert_adjustments_stmt ::
  "faults \<Rightarrow> payment_adjustment_row list \<Rightarrow> (db, payment_adjustment_row list) tx" where
  "insert_adjustments_stmt fl rows =
     stmt fl ''failed to insert adjustments''
       (\<lambda>d. let (ins, tbl) = insert_ignore pa_id rows (payment_adjustments d) in
            if \<not> list_all (\<lambda>r. has_key payment_id (pa_payment_id r) (payments d)) ins
            then refuse ''failed to insert adjustments''
                   (DbFKConstraintFailed ''payment_adjustments_payment_id_fk'') d
            else (Inr ins, d\<lparr>payment_adjustments := tbl\<rparr>))"

text \<open>INSERT .. ON CONFLICT (id) DO UPDATE SET one column.\<close>

definition update_payments_stmt ::
  "faults \<Rightarrow> (payment_row \<Rightarrow> payment_row \<Rightarrow> payment_row) \<Rightarrow> payment_row list \<Rightarrow> (db, unit) tx" where
  "update_payments_stmt fl g rows =
     (if rows = [] then tx_return ()
      else stmt fl ''failed to update payment''
        (\<lambda>d. case insert_update payment_id g rows (payments d) of
           None \<Rightarrow> refuse ''failed to update payment''
                    (DbOther (Plain ''ON CONFLICT DO UPDATE command cannot affect row a second time'')) d
         | Some tbl \<Rightarrow> (Inr (), d\<lparr>payments := tbl\<rparr>)))"

definition set_initial :: "payment_row \<Rightarrow> payment_row \<Rightarrow> payment_row" where
  "set_initial old new = old\<lparr>payment_initial_amount := payment_initial_amount new\<rparr>"

definition add_amount :: "payment_row \<Rightarrow> payment_row \<Rightarrow> payment_row" where
  "add_amount old new = old\<lparr>payment_amount := payment_amount old + payment_amount new\<rparr>"

definition sub_amount :: "payment_row \<Rightarrow> payment_row \<Rightarrow> payment_row" where
  "sub_amount old new = old\<lparr>payment_amount := payment_amount old - payment_amount new\<rparr>"

definition payment_payload :: "env \<Rightarrow> Payment \<Rightarrow> payment_adjustment_row \<Rightarrow> PaymentMessagePayload" where
  "payment_payload env p adj =
     \<lparr>PaymentMessage_ID = env_payment_text env (Payment_ID p),
      PaymentMessage_ConnectorID = env_connector_text env (Payment_ConnectorID p),
      PaymentMessage_Provider = ToV3Provider (ConnectorID_Provider (Payment_ConnectorID p)),
      PaymentMessage_Reference = Payment_Reference p,
      PaymentMessage_CreatedAt = Payment_CreatedAt p,
      PaymentMessage_Type = PaymentType_String (Payment_Type p),
      PaymentMessage_Status = PaymentStatus_String (pa_status adj),
      PaymentMessage_Scheme = PaymentScheme_String (Payment_Scheme p),
      PaymentMessage_Asset = Payment_Asset p,
      PaymentMessage_RawData = pa_raw adj,
      PaymentMessage_InitialAmount = Payment_InitialAmount p,
      PaymentMessage_Amount = Payment_Amount p,
      PaymentMessage_SourceAccountID =
        (case Payment_SourceAccountID p of None \<Rightarrow> [] | Some a \<Rightarrow> env_account_text env a),
      PaymentMessage_DestinationAccountID =
        (case Payment_DestinationAccountID p of None \<Rightarrow> [] | Some a \<Rightarrow> env_account_text env a),
      PaymentMessage_Metadata = Payment_Metadata p\<rparr>"

definition payment_event :: "env \<Rightarrow> Payment \<Rightarrow> payment_adjustment_row \<Rightarrow> OutboxEvent" where
  "payment_event env p adj =
     \<lparr>OutboxEvent_ID =
        \<lparr>EventID_EventIdempotencyKey =
           env_payment_adjustment_key env (PaymentAdjustment_ID (toPaymentAdjustmentModels adj)),
         EventID_ConnectorID = Some (Payment_ConnectorID p)\<rparr>,
      OutboxEvent_EventType = ''SAVED_PAYMENT'',
      OutboxEvent_EntityID = env_payment_text env (Payment_ID p),
      OutboxEvent_Payload = SavedPayment (payment_payload env p adj),
      OutboxEvent_CreatedAt = env_now env,
      OutboxEvent_Status = OUTBOX_STATUS_PENDING,
      OutboxEvent_ConnectorID = Some (Payment_ConnectorID p),
      OutboxEvent_RetryCount = 0,
      OutboxEvent_LastRetryAt = None,
      OutboxEvent_Error = None\<rparr>"

definition marshal_error :: "string \<Rightarrow> error" where
  "marshal_error msg = Wrap msg (Plain ''json: error calling MarshalJSON'')"

fun payment_events ::
  "env \<Rightarrow> Payment list \<Rightarrow> payment_adjustment_row list \<Rightarrow> OutboxEvent list result" where
  "payment_events env ps [] = Inr []"
| "payment_events env ps (adj # adjs) =
     (case paymentMap ps (pa_payment_id adj) of
        None \<Rightarrow> payment_events env ps adjs
      | Some p \<Rightarrow>
          if \<not> raw_ok env (pa_raw adj)
          then Inl (marshal_error ''failed to marshal payment event payload'')
          else result_bind (payment_events env ps adjs) (\<lambda>es. Inr (payment_event env p adj # es)))"

text \<open>
  What follows the inserts: the absolute initial amounts, then what was
  captured, then what was refunded, then one event per inserted adjustment.
\<close>

definition apply_inserted ::
  "env \<Rightarrow> faults \<Rightarrow> Payment list \<Rightarrow> payment_adjustment_row list \<Rightarrow> (db, unit) tx" where
  "apply_inserted env fl ps insertedAdjustments =
     (let (paymentsRefunded, paymentsCaptured) = amount_deltas env ps insertedAdjustments in
      tx_seq (update_payments_stmt fl set_initial (initial_amounts env ps))
       (tx_seq (update_payments_stmt fl add_amount paymentsCaptured)
         (tx_seq (update_payments_stmt fl sub_amount paymentsRefunded)
           (if insertedAdjustments = [] then tx_return ()
            else tx_bind (tx_lift (payment_events env ps insertedAdjustments))
              (\<lambda>outboxEvents. if outboxEvents = [] then tx_return ()
                 else OutboxEventsInsert env fl outboxEvents)))))"

definition PaymentsUpsert :: "env \<Rightarrow> faults \<Rightarrow> Payment list \<Rightarrow> (db, unit) tx" where
  "PaymentsUpsert env fl ps =
     (let paymentsToInsert = map (fromPaymentModels env) ps;
          adjustmentsToInsert =
            map (fromPaymentAdjustmentModels env) (concat (map Payment_Adjustments ps)) in
      in_tx fl ''failed to create transaction'' ''failed to commit transaction''
       (tx_seq
         (if paymentsToInsert = [] then tx_return ()
          else insert_payments_stmt fl paymentsToInsert (list_all payment_not_null ps))
         (tx_bind
           (if adjustmentsToInsert = [] then tx_return []
            else insert_adjustments_stmt fl adjustmentsToInsert)
           (apply_inserted env fl ps))))"

section \<open>Metadata and reading\<close>

definition PaymentsUpdateMetadata :: "faults \<Rightarrow> PaymentID \<Rightarrow> metadata \<Rightarrow> (db, unit) tx" where
  "PaymentsUpdateMetadata fl i metadata =
     in_tx fl ''update payment metadata'' ''failed to commit transaction''
       (stmt fl ''update payment metadata''
         (\<lambda>d. case lookup_row payment_id i (payments d) of
            None \<Rightarrow> refuse ''update payment metadata'' DbNotFound d
          | Some p \<Rightarrow> (Inr (), d\<lparr>payments :=
              update_where (\<lambda>r. payment_id r = i)
                (\<lambda>r. r\<lparr>payment_metadata := payment_metadata p ++ metadata\<rparr>) (payments d)\<rparr>)))"

text \<open>ORDER BY created_at DESC, sort_id DESC: sort is stable, so reversing twice puts the last inserted first.\<close>

definition adjustments_of :: "PaymentID \<Rightarrow> db \<Rightarrow> payment_adjustment_row list" where
  "adjustments_of i d =
     rev (sort_key pa_created_at (filter (\<lambda>r. pa_payment_id r = i) (payment_adjustments d)))"

definition load_payment :: "db \<Rightarrow> payment_row \<Rightarrow> Payment" where
  "load_payment d p =
     (let adjustments = map toPaymentAdjustmentModels (adjustments_of (payment_id p) d);
          status = (case adjustments of [] \<Rightarrow> PAYMENT_STATUS_PENDING
                    | a # _ \<Rightarrow> PaymentAdjustment_Status a) in
      (toPaymentModels p status)\<lparr>Payment_Adjustments := adjustments\<rparr>)"

definition PaymentsGet :: "faults \<Rightarrow> PaymentID \<Rightarrow> (db, Payment) tx" where
  "PaymentsGet fl i =
     stmt fl ''failed to get payment''
       (\<lambda>d. case lookup_row payment_id i (payments d) of
          None \<Rightarrow> refuse ''failed to get payment'' DbNotFound d
        | Some p \<Rightarrow> stmt fl ''failed to get payment adjustments'' (tx_get (\<lambda>d. load_payment d p)) d)"

text \<open>SELECT .. WHERE reference and connector: the first matching row, or ErrNotFound.\<close>

definition select_payment_by_reference ::
  "faults \<Rightarrow> string \<Rightarrow> ConnectorID \<Rightarrow> (db, payment_row) tx" where
  "select_payment_by_reference fl reference connectorID =
     stmt fl ''failed to get payment''
       (\<lambda>d. case find (\<lambda>r. payment_reference r = reference \<and> payment_connector_id r = connectorID)
                  (payments d) of
          None \<Rightarrow> refuse ''failed to get payment'' DbNotFound d
        | Some p \<Rightarrow> (Inr p, d))"

definition PaymentsGetByReference :: "faults \<Rightarrow> string \<Rightarrow> ConnectorID \<Rightarrow> (db, Payment) tx" where
  "PaymentsGetByReference fl reference connectorID =
     tx_bind (select_payment_by_reference fl reference connectorID)
       (\<lambda>p. stmt fl ''failed to get payment adjustments'' (tx_get (\<lambda>d. load_payment d p)))"

section \<open>Deleting\<close>

text \<open>DELETE FROM payments WHERE p, with the cascade of the adjustments' foreign key.\<close>

definition delete_payments :: "(payment_row \<Rightarrow> bool) \<Rightarrow> db \<Rightarrow> db" where
  "delete_payments p d =
     (let gone = filter p (payments d) in
      d\<lparr>payments := delete_where p (payments d),
        payment_adjustments :=
          delete_where (\<lambda>a. has_key payment_id (pa_payment_id a) gone) (payment_adjustments d)\<rparr>)"

definition PaymentsDeleteFromConnectorID :: "faults \<Rightarrow> ConnectorID \<Rightarrow> (db, unit) tx" where
  "PaymentsDeleteFromConnectorID fl c =
     stmt fl ''failed to delete payments''
       (tx_modify (delete_payments (\<lambda>r. payment_connector_id r = c)))"

text \<open>
  LIMIT without ORDER BY chooses any rows; here the first ones.  The fmt.Errorf
  text holds the size and the connector, only its cause is represented.
\<close>

definition PaymentsDeleteFromConnectorIDBatch :: "faults \<Rightarrow> ConnectorID \<Rightarrow> int \<Rightarrow> (db, int) tx" where
  "PaymentsDeleteFromConnectorIDBatch fl c batchSize =
     (if batchSize \<le> 0 then tx_fail (Wrap ''invalid batchSize'' (Sentinel Storage_ErrValidation))
      else stmt fl ''failed to delete payments batch''
        (\<lambda>d. let ids = map payment_id
                   (take (nat batchSize) (filter (\<lambda>r. payment_connector_id r = c) (payments d)));
                 d' = delete_payments (\<lambda>r. payment_id r \<in> set ids) d in
             (Inr (int (length (payments d)) - int (length (payments d'))), d')))"

definition PaymentsDelete :: "faults \<Rightarrow> PaymentID \<Rightarrow> (db, unit) tx" where
  "PaymentsDelete fl i =
     stmt fl ''failed to delete payment'' (tx_modify (delete_payments (\<lambda>r. payment_id r = i)))"

definition payment_deleted_event :: "env \<Rightarrow> PaymentID \<Rightarrow> ConnectorID \<Rightarrow> OutboxEvent" where
  "payment_deleted_event env i connectorID =
     \<lparr>OutboxEvent_ID =
        \<lparr>EventID_EventIdempotencyKey = ''delete:'' @ env_payment_text env i,
         EventID_ConnectorID = Some connectorID\<rparr>,
      OutboxEvent_EventType = ''DELETED_PAYMENT'',
      OutboxEvent_EntityID = env_payment_text env i,
      OutboxEvent_Payload = DeletedPayment (env_payment_text env i),
      OutboxEvent_CreatedAt = env_now env,
      OutboxEvent_Status = OUTBOX_STATUS_PENDING,
      OutboxEvent_ConnectorID = Some connectorID,
      OutboxEvent_RetryCount = 0,
      OutboxEvent_LastRetryAt = None,
      OutboxEvent_Error = None\<rparr>"

definition PaymentsDeleteFromReference ::
  "env \<Rightarrow> faults \<Rightarrow> string \<Rightarrow> ConnectorID \<Rightarrow> (db, unit) tx" where
  "PaymentsDeleteFromReference env fl reference connectorID =
     in_tx fl ''failed to create transaction'' ''failed to commit transaction''
       (\<lambda>d. case select_payment_by_reference fl reference connectorID d of
          (Inl pErr, d') \<Rightarrow>
            if errors_Is pErr Storage_ErrNotFound then (Inr (), d') else (Inl pErr, d')
        | (Inr p, d') \<Rightarrow>
            tx_seq (stmt fl ''failed to delete payment'' (tx_modify (delete_payments
                     (\<lambda>r. payment_reference r = reference \<and> payment_connector_id r = connectorID))))
              (OutboxEventsInsert env fl [payment_deleted_event env (payment_id p) connectorID]) d')"

definition PaymentsDeleteFromAccountID :: "faults \<Rightarrow> AccountID \<Rightarrow> (db, unit) tx" where
  "PaymentsDeleteFromAccountID fl a =
     stmt fl ''failed to delete payments''
       (tx_modify (delete_payments (\<lambda>r. payment_source_account_id r = Some a
                                       \<or> payment_destination_account_id r = Some a)))"

definition PaymentsDeleteFromPSUID :: "faults \<Rightarrow> uuid \<Rightarrow> (db, unit) tx" where
  "PaymentsDeleteFromPSUID fl u =
     stmt fl ''failed to delete payments''
       (tx_modify (delete_payments (\<lambda>r. payment_psu_id r = Some u)))"

definition PaymentsDeleteFromConnectorIDAndPSUID :: "faults \<Rightarrow> ConnectorID \<Rightarrow> uuid \<Rightarrow> (db, unit) tx" where
  "PaymentsDeleteFromConnectorIDAndPSUID fl c u =
     stmt fl ''failed to delete payments''
       (tx_modify (delete_payments (\<lambda>r. payment_connector_id r = c \<and> payment_psu_id r = Some u)))"

definition PaymentsDeleteFromOpenBankingConnectionID ::
  "faults \<Rightarrow> uuid \<Rightarrow> ConnectorID \<Rightarrow> string \<Rightarrow> (db, unit) tx" where
  "PaymentsDeleteFromOpenBankingConnectionID fl u c ob =
     stmt fl ''failed to delete payments''
       (tx_modify (delete_payments (\<lambda>r. payment_psu_id r = Some u \<and> payment_connector_id r = c
                                       \<and> payment_open_banking_connection_id r = Some ob)))"

end
