(* ===== verification/Payments_Proofs.thy ===== *)
theory Payments_Proofs
  imports Payments_Store
begin

text \<open>
  What PaymentsUpsert does, in closed form: which rows it inserts, the amounts
  it leaves (one delta per adjustment that is new), the events it emits, and
  that replaying it changes nothing.
\<close>

section \<open>Conversions and the payment map\<close>

lemma fromPaymentModels_simps [simp]:
  "payment_id (fromPaymentModels env p) = Payment_ID p"
  "payment_connector_id (fromPaymentModels env p) = Payment_ConnectorID p"
  "payment_amount (fromPaymentModels env p) = amount_or_zero (Payment_Amount p)"
  "payment_initial_amount (fromPaymentModels env p) = amount_or_zero (Payment_InitialAmount p)"
  "payment_psu_id (fromPaymentModels env p) = Payment_PsuID p"
  "payment_open_banking_connection_id (fromPaymentModels env p) = Payment_OpenBankingConnectionID p"
  by (simp_all add: fromPaymentModels_def)

lemma fromPaymentAdjustmentModels_simps [simp]:
  "pa_id (fromPaymentAdjustmentModels env a) = PaymentAdjustment_ID a"
  "pa_payment_id (fromPaymentAdjustmentModels env a) = PaymentAdjustmentID_PaymentID (PaymentAdjustment_ID a)"
  "pa_status (fromPaymentAdjustmentModels env a) = PaymentAdjustment_Status a"
  "pa_amount (fromPaymentAdjustmentModels env a) = PaymentAdjustment_Amount a"
  "pa_raw (fromPaymentAdjustmentModels env a) = PaymentAdjustment_Raw a"
  by (simp_all add: fromPaymentAdjustmentModels_def)

lemma toPaymentAdjustmentModels_simps [simp]:
  "PaymentAdjustment_ID (toPaymentAdjustmentModels r) = pa_id r"
  "PaymentAdjustment_Status (toPaymentAdjustmentModels r) = pa_status r"
  by (simp_all add: toPaymentAdjustmentModels_def)

lemma find_SomeD: "find P xs = Some x \<Longrightarrow> x \<in> set xs \<and> P x"
  by (induction xs) (auto split: if_splits)

lemma paymentMap_SomeD: "paymentMap ps i = Some p \<Longrightarrow> p \<in> set ps \<and> Payment_ID p = i"
  using find_SomeD[of "\<lambda>p. Payment_ID p = i" "rev ps" p] by (simp add: paymentMap_def)

lemma paymentMap_None_iff: "paymentMap ps i = None \<longleftrightarrow> i \<notin> Payment_ID ` set ps"
  by (auto simp: paymentMap_def find_None_iff)

definition batch_adjustments :: "env \<Rightarrow> Payment list \<Rightarrow> payment_adjustment_row list" where
  "batch_adjustments env ps = map (fromPaymentAdjustmentModels env) (concat (map Payment_Adjustments ps))"

section \<open>Accumulated deltas\<close>

definition amount_in :: "PaymentID \<Rightarrow> payment_row list \<Rightarrow> int" where
  "amount_in i rows = (case lookup_row payment_id i rows of None \<Rightarrow> 0 | Some r \<Rightarrow> payment_amount r)"

lemma lookup_map_upd:
  assumes "\<And>r. payment_id (f r) = payment_id r"
  shows "lookup_row payment_id i (update_where (\<lambda>r. payment_id r = k) f rows) =
    (if i = k then map_option f (lookup_row payment_id i rows) else lookup_row payment_id i rows)"
  using lookup_row_update_where[of payment_id f i "\<lambda>r. payment_id r = k" rows, OF assms]
  by (cases "lookup_row payment_id i rows") (auto dest: lookup_row_SomeD)

lemma accumulate_keys:
  "payment_id ` set (accumulate_amount row a acc) = insert (payment_id row) (payment_id ` set acc)"
  "distinct (map payment_id acc) \<Longrightarrow> distinct (map payment_id (accumulate_amount row a acc))"
proof -
  have m: "map payment_id (update_where (\<lambda>r. payment_id r = payment_id row)
      (\<lambda>r. r\<lparr>payment_amount := payment_amount r + a\<rparr>) acc) = map payment_id acc"
    by (rule map_key_update_where) simp
  then have "payment_id ` set (update_where (\<lambda>r. payment_id r = payment_id row)
      (\<lambda>r. r\<lparr>payment_amount := payment_amount r + a\<rparr>) acc) = payment_id ` set acc"
    by (metis list.set_map)
  then show "payment_id ` set (accumulate_amount row a acc) = insert (payment_id row) (payment_id ` set acc)"
    by (auto simp: accumulate_amount_def tbl_simps)
  show "distinct (map payment_id acc) \<Longrightarrow> distinct (map payment_id (accumulate_amount row a acc))"
    using m by (auto simp: accumulate_amount_def tbl_simps)
qed

lemma amount_in_accumulate:
  "amount_in i (accumulate_amount row a acc) = amount_in i acc + (if i = payment_id row then a else 0)"
proof (cases "has_key payment_id (payment_id row) acc")
  case True
  then show ?thesis
    using lookup_row_present[OF True]
    by (auto simp: amount_in_def accumulate_amount_def lookup_map_upd)
next
  case False
  then show ?thesis
    by (cases "lookup_row payment_id i acc")
      (auto simp: amount_in_def accumulate_amount_def lookup_row_append dest: lookup_row_SomeD)
qed

text \<open>What one adjustment adds to and takes from the amount of its payment.\<close>

definition captured_by :: "payment_adjustment_row \<Rightarrow> int" where
  "captured_by a =
     (if pa_status a = PAYMENT_STATUS_CAPTURE \<or> pa_status a = PAYMENT_STATUS_REFUND_REVERSED
      then amount_or_zero (pa_amount a) else 0)"

definition refunded_by :: "payment_adjustment_row \<Rightarrow> int" where
  "refunded_by a = (if pa_status a = PAYMENT_STATUS_REFUNDED then amount_or_zero (pa_amount a) else 0)"

definition payment_delta :: "payment_adjustment_row \<Rightarrow> int" where
  "payment_delta a = captured_by a - refunded_by a"

definition deltas_of :: "PaymentID \<Rightarrow> payment_adjustment_row list \<Rightarrow> int" where
  "deltas_of i as = sum_list (map payment_delta (filter (\<lambda>a. pa_payment_id a = i) as))"

lemma deltas_of_simps [simp]:
  "deltas_of i [] = 0"
  "deltas_of i (a # as) = (if pa_payment_id a = i then payment_delta a else 0) + deltas_of i as"
  "deltas_of i (as @ bs) = deltas_of i as + deltas_of i bs"
  by (simp_all add: deltas_of_def)

definition rc_ok :: "Payment list \<Rightarrow> payment_row list \<times> payment_row list \<Rightarrow> bool" where
  "rc_ok ps rc \<longleftrightarrow>
     distinct (map payment_id (fst rc)) \<and> distinct (map payment_id (snd rc)) \<and>
     payment_id ` set (fst rc) \<subseteq> Payment_ID ` set ps \<and>
     payment_id ` set (snd rc) \<subseteq> Payment_ID ` set ps"

lemma amount_delta_step_ok:
  assumes "rc_ok ps rc"
  shows "rc_ok ps (amount_delta_step env ps adj rc)"
    "amount_in i (snd (amount_delta_step env ps adj rc)) - amount_in i (fst (amount_delta_step env ps adj rc))
     = amount_in i (snd rc) - amount_in i (fst rc) +
       (if pa_payment_id adj = i \<and> i \<in> Payment_ID ` set ps then payment_delta adj else 0)"
proof -
  have in_ps: "Payment_ID p \<in> Payment_ID ` set ps" if "paymentMap ps (pa_payment_id adj) = Some p" for p
    using paymentMap_SomeD[OF that] by blast
  show "rc_ok ps (amount_delta_step env ps adj rc)"
    using assms in_ps
    by (auto simp: rc_ok_def amount_delta_step_def accumulate_keys split: option.splits)
  show "amount_in i (snd (amount_delta_step env ps adj rc)) - amount_in i (fst (amount_delta_step env ps adj rc))
     = amount_in i (snd rc) - amount_in i (fst rc) +
       (if pa_payment_id adj = i \<and> i \<in> Payment_ID ` set ps then payment_delta adj else 0)"
  proof (cases "paymentMap ps (pa_payment_id adj)")
    case None
    then have "amount_delta_step env ps adj rc = rc"
      by (simp add: amount_delta_step_def split: option.splits)
    with None show ?thesis by (auto simp: paymentMap_None_iff)
  next
    case (Some p)
    from paymentMap_SomeD[OF Some] have "Payment_ID p = pa_payment_id adj" by simp
    moreover have "pa_payment_id adj \<in> Payment_ID ` set ps"
      using in_ps[OF Some] calculation by simp
    ultimately show ?thesis using Some
      by (auto simp: amount_delta_step_def amount_in_accumulate payment_delta_def captured_by_def
          refunded_by_def amount_or_zero_def split: option.splits)
  qed
qed

lemma amount_deltas_fold:
  assumes "rc_ok ps rc"
  shows "rc_ok ps (fold (amount_delta_step env ps) adjs rc)"
    "amount_in i (snd (fold (amount_delta_step env ps) adjs rc))
       - amount_in i (fst (fold (amount_delta_step env ps) adjs rc))
     = amount_in i (snd rc) - amount_in i (fst rc) +
       (if i \<in> Payment_ID ` set ps then deltas_of i adjs else 0)"
proof -
  have "rc_ok ps (fold (amount_delta_step env ps) adjs rc) \<and>
    amount_in i (snd (fold (amount_delta_step env ps) adjs rc))
       - amount_in i (fst (fold (amount_delta_step env ps) adjs rc))
     = amount_in i (snd rc) - amount_in i (fst rc) +
       (if i \<in> Payment_ID ` set ps then deltas_of i adjs else 0)"
    using assms
  proof (induction adjs arbitrary: rc)
    case Nil
    then show ?case by simp
  next
    case (Cons a adjs)
    note step = amount_delta_step_ok[OF Cons.prems, where env = env and adj = a]
    from Cons.IH[OF step(1)] step(2)[where i = i] show ?case by simp
  qed
  then show "rc_ok ps (fold (amount_delta_step env ps) adjs rc)"
    "amount_in i (snd (fold (amount_delta_step env ps) adjs rc))
       - amount_in i (fst (fold (amount_delta_step env ps) adjs rc))
     = amount_in i (snd rc) - amount_in i (fst rc) +
       (if i \<in> Payment_ID ` set ps then deltas_of i adjs else 0)"
    by simp_all
qed

lemma amount_deltas_ok:
  assumes "amount_deltas env ps adjs = (R, C)"
  shows "rc_ok ps (R, C)"
    "amount_in i C - amount_in i R = (if i \<in> Payment_ID ` set ps then deltas_of i adjs else 0)"
  using amount_deltas_fold[of ps "([], [])", where env = env and adjs = adjs] assms
  by (simp_all add: amount_deltas_def rc_ok_def amount_in_def)

section \<open>Initial amounts\<close>

lemma set_initial_keys:
  "payment_id ` set (set_initial_amount row a acc) = insert (payment_id row) (payment_id ` set acc)"
  "distinct (map payment_id acc) \<Longrightarrow> distinct (map payment_id (set_initial_amount row a acc))"
proof -
  have m: "map payment_id (update_where (\<lambda>r. payment_id r = payment_id row)
      (\<lambda>r. r\<lparr>payment_initial_amount := a\<rparr>) acc) = map payment_id acc"
    by (rule map_key_update_where) simp
  then have "payment_id ` set (update_where (\<lambda>r. payment_id r = payment_id row)
      (\<lambda>r. r\<lparr>payment_initial_amount := a\<rparr>) acc) = payment_id ` set acc"
    by (metis list.set_map)
  then show "payment_id ` set (set_initial_amount row a acc) = insert (payment_id row) (payment_id ` set acc)"
    by (auto simp: set_initial_amount_def tbl_simps)
  show "distinct (map payment_id acc) \<Longrightarrow> distinct (map payment_id (set_initial_amount row a acc))"
    using m by (auto simp: set_initial_amount_def tbl_simps)
qed

definition init_ok :: "Payment list \<Rightarrow> payment_row list \<Rightarrow> bool" where
  "init_ok ps I \<longleftrightarrow> distinct (map payment_id I) \<and> payment_id ` set I \<subseteq> Payment_ID ` set ps"

lemma initial_amount_step_ok:
  "p \<in> set ps \<Longrightarrow> init_ok ps acc \<Longrightarrow> init_ok ps (initial_amount_step env p a acc)"
  by (auto simp: init_ok_def initial_amount_step_def set_initial_keys split: option.splits)

lemma initial_amounts_ok: "init_ok ps (initial_amounts env ps)"
proof -
  have inner: "init_ok ps (fold (initial_amount_step env p) as acc)"
    if "p \<in> set ps" "init_ok ps acc" for p as acc
    using that by (induction as arbitrary: acc) (auto intro: initial_amount_step_ok)
  have "init_ok ps (fold (\<lambda>p. fold (initial_amount_step env p) (Payment_Adjustments p)) qs acc)"
    if "set qs \<subseteq> set ps" "init_ok ps acc" for qs acc
    using that by (induction qs arbitrary: acc) (auto intro: inner)
  then show ?thesis by (simp add: initial_amounts_def init_ok_def)
qed

section \<open>PaymentsUpsert in closed form\<close>

abbreviation upd :: "(payment_row \<Rightarrow> payment_row \<Rightarrow> payment_row) \<Rightarrow> payment_row list \<Rightarrow>
    payment_row list \<Rightarrow> payment_row list" where
  "upd g rows T \<equiv> fold (upsert_row payment_id g) rows T"

lemma update_payments_stmt_Inr:
  "update_payments_stmt fl g rows s = (Inr u, s') \<longleftrightarrow>
     s' = s\<lparr>payments := upd g rows (payments s)\<rparr> \<and> distinct (map payment_id rows) \<and>
     (rows \<noteq> [] \<longrightarrow> fl ''failed to update payment'' = None)"
  by (auto simp: update_payments_stmt_def insert_update_def split: option.splits if_splits)

lemma insert_payments_stmt_Inr:
  "insert_payments_stmt fl rows nn s = (Inr u, s') \<Longrightarrow>
     s' = s\<lparr>payments := snd (insert_ignore payment_id rows (payments s))\<rparr> \<and> nn"
  by (auto simp: insert_payments_stmt_def split: prod.splits if_splits)

lemma insert_adjustments_stmt_Inr:
  "insert_adjustments_stmt fl rows s = (Inr new, s') \<Longrightarrow>
     insert_ignore pa_id rows (payment_adjustments s) = (new, payment_adjustments s') \<and>
     s' = s\<lparr>payment_adjustments := payment_adjustments s @ new\<rparr> \<and>
     (\<forall>r\<in>set new. has_key payment_id (pa_payment_id r) (payments s))"
  using insert_ignore_append[of pa_id rows "payment_adjustments s"]
  by (auto simp: insert_adjustments_stmt_def list_all_iff split: prod.splits if_splits)

text \<open>
  P1 is the payments table after the insert, new the adjustments that were not
  there, d1 the database before the events are emitted.
\<close>

lemma PaymentsUpsert_result:
  assumes "PaymentsUpsert env fl ps d = (Inr u, d')"
  obtains P1 new R C evs d1 where
    "P1 = snd (insert_ignore payment_id (map (fromPaymentModels env) ps) (payments d))"
    "insert_ignore pa_id (batch_adjustments env ps) (payment_adjustments d)
       = (new, payment_adjustments d @ new)"
    "\<forall>r\<in>set new. has_key payment_id (pa_payment_id r) P1"
    "amount_deltas env ps new = (R, C)"
    "d1 = d\<lparr>payments := upd sub_amount R (upd add_amount C (upd set_initial (initial_amounts env ps) P1)),
            payment_adjustments := payment_adjustments d @ new\<rparr>"
    "payment_events env ps new = Inr evs"
    "OutboxEventsInsert env fl evs d1 = (Inr u, d')"
    "ps \<noteq> [] \<longrightarrow> list_all payment_not_null ps"
proof -
  let ?rows = "map (fromPaymentModels env) ps"
  let ?adjs = "batch_adjustments env ps"
  let ?I = "initial_amounts env ps"
  from assms obtain s1 new s2 where
    s1: "(if ?rows = [] then tx_return ()
          else insert_payments_stmt fl ?rows (list_all payment_not_null ps)) d = (Inr (), s1)" and
    s2: "(if ?adjs = [] then tx_return [] else insert_adjustments_stmt fl ?adjs) s1 = (Inr new, s2)" and
    rest: "apply_inserted env fl ps new s2 = (Inr u, d')"
    by (auto simp: PaymentsUpsert_def Let_def in_tx_Inr_iff tx_seq_Inr_iff tx_bind_Inr_iff
        batch_adjustments_def[symmetric])
  obtain R C where rc: "amount_deltas env ps new = (R, C)" by fastforce
  let ?P1 = "snd (insert_ignore payment_id ?rows (payments d))"
  have s1': "s1 = d\<lparr>payments := ?P1\<rparr>" "ps \<noteq> [] \<longrightarrow> list_all payment_not_null ps"
    using s1 insert_payments_stmt_Inr[of fl ?rows "list_all payment_not_null ps" d "()" s1]
    by (auto split: if_splits)
  have s2': "insert_ignore pa_id ?adjs (payment_adjustments s1) = (new, payment_adjustments s1 @ new)"
      "s2 = s1\<lparr>payment_adjustments := payment_adjustments s1 @ new\<rparr>"
      "\<forall>r\<in>set new. has_key payment_id (pa_payment_id r) (payments s1)"
    using s2 insert_adjustments_stmt_Inr[of fl ?adjs s1 new s2] by (auto split: if_splits)
  let ?d1 = "d\<lparr>payments := upd sub_amount R (upd add_amount C (upd set_initial ?I ?P1)),
            payment_adjustments := payment_adjustments d @ new\<rparr>"
  from rest obtain s3 s4 s5 where
    u3: "update_payments_stmt fl set_initial ?I s2 = (Inr (), s3)" and
    u4: "update_payments_stmt fl add_amount C s3 = (Inr (), s4)" and
    u5: "update_payments_stmt fl sub_amount R s4 = (Inr (), s5)" and
    fin: "(if new = [] then tx_return ()
       else tx_bind (tx_lift (payment_events env ps new))
         (\<lambda>es. if es = [] then tx_return () else OutboxEventsInsert env fl es)) s5 = (Inr u, d')"
    by (auto simp: apply_inserted_def rc tx_seq_Inr_iff)
  have s5: "s5 = ?d1"
    using u3 u4 u5 s1' s2' by (simp add: update_payments_stmt_Inr)
  have "\<exists>evs. payment_events env ps new = Inr evs \<and> OutboxEventsInsert env fl evs s5 = (Inr u, d')"
  proof (cases "new = []")
    case True
    with fin show ?thesis by (simp add: OutboxEventsInsert_def)
  next
    case False
    with fin show ?thesis
      by (auto simp: tx_bind_Inr_iff OutboxEventsInsert_def split: if_splits)
  qed
  then obtain evs where "payment_events env ps new = Inr evs"
      "OutboxEventsInsert env fl evs s5 = (Inr u, d')" by blast
  with that[of ?P1 new R C s5 evs] s5 s1' s2' rc show thesis by simp
qed

section \<open>The amounts it leaves\<close>

lemma payment_key_laws:
  "payment_id (set_initial x y) = payment_id x"
  "payment_id (add_amount x y) = payment_id x"
  "payment_id (sub_amount x y) = payment_id x"
  by (simp_all add: set_initial_def add_amount_def sub_amount_def)

lemma lookup_upd_existing:
  assumes "\<And>x y. payment_id (g x y) = payment_id x" "distinct (map payment_id rows)"
    "payment_id ` set rows \<subseteq> payment_id ` set T"
  shows "lookup_row payment_id i (upd g rows T) =
    (case lookup_row payment_id i rows of
       None \<Rightarrow> lookup_row payment_id i T
     | Some r \<Rightarrow> map_option (\<lambda>x. g x r) (lookup_row payment_id i T))"
proof -
  have "\<exists>x. lookup_row payment_id i T = Some x" if "lookup_row payment_id i rows = Some r" for r
  proof -
    from lookup_row_SomeD[OF that] have "i \<in> payment_id ` set rows" by blast
    with assms(3) have "has_key payment_id i T" by (auto simp: tbl_simps)
    then show ?thesis by (rule lookup_row_present)
  qed
  with lookup_fold_upsert[of payment_id g rows i T] assms(1,2) show ?thesis
    by (fastforce split: option.splits)
qed

lemma upd_keys:
  assumes "\<And>x y. payment_id (g x y) = payment_id x" "payment_id ` set rows \<subseteq> payment_id ` set T"
  shows "map payment_id (upd g rows T) = map payment_id T"
  using assms by (intro map_key_fold_upsert) auto

text \<open>A row after the three updates: the identity of the row, its initial amount and its amount.\<close>

definition adjusted :: "payment_row list \<Rightarrow> PaymentID \<Rightarrow> int \<Rightarrow> payment_row \<Rightarrow> payment_row" where
  "adjusted I i delta r =
     r\<lparr>payment_initial_amount :=
         (case lookup_row payment_id i I of None \<Rightarrow> payment_initial_amount r
          | Some x \<Rightarrow> payment_initial_amount x),
       payment_amount := payment_amount r + delta\<rparr>"

lemma adjusted_initial:
  "payment_initial_amount (adjusted I i delta r) =
     (case lookup_row payment_id i I of None \<Rightarrow> payment_initial_amount r
      | Some x \<Rightarrow> payment_initial_amount x)"
  by (simp add: adjusted_def)

lemma adjusted_amount: "payment_amount (adjusted I i delta r) = payment_amount r + delta"
  by (simp add: adjusted_def)

lemma three_updates_lookup:
  assumes "init_ok ps I" "rc_ok ps (R, C)" "Payment_ID ` set ps \<subseteq> payment_id ` set P1"
  shows "lookup_row payment_id i (upd sub_amount R (upd add_amount C (upd set_initial I P1))) =
      map_option (adjusted I i (amount_in i C - amount_in i R)) (lookup_row payment_id i P1)"
    and "map payment_id (upd sub_amount R (upd add_amount C (upd set_initial I P1))) = map payment_id P1"
proof -
  have I: "distinct (map payment_id I)" "payment_id ` set I \<subseteq> payment_id ` set P1"
    and C: "distinct (map payment_id C)" "payment_id ` set C \<subseteq> payment_id ` set P1"
    and R: "distinct (map payment_id R)" "payment_id ` set R \<subseteq> payment_id ` set P1"
    using assms(1,2) subset_trans[OF _ assms(3)] by (simp_all add: init_ok_def rc_ok_def)
  let ?T1 = "upd set_initial I P1"
  let ?T2 = "upd add_amount C ?T1"
  have k1: "map payment_id ?T1 = map payment_id P1"
    by (rule upd_keys[OF payment_key_laws(1) I(2)])
  then have s1: "payment_id ` set ?T1 = payment_id ` set P1" by (metis list.set_map)
  have k2: "map payment_id ?T2 = map payment_id ?T1"
    by (rule upd_keys[OF payment_key_laws(2)]) (simp add: s1 C(2))
  then have s2: "payment_id ` set ?T2 = payment_id ` set P1" using s1 by (metis list.set_map)
  have "map payment_id (upd sub_amount R ?T2) = map payment_id ?T2"
    by (rule upd_keys[OF payment_key_laws(3)]) (simp add: s2 R(2))
  with k1 k2 show "map payment_id (upd sub_amount R ?T2) = map payment_id P1" by simp
  have l1: "lookup_row payment_id i ?T1 = (case lookup_row payment_id i I of
       None \<Rightarrow> lookup_row payment_id i P1
     | Some r \<Rightarrow> map_option (\<lambda>x. set_initial x r) (lookup_row payment_id i P1))"
    by (rule lookup_upd_existing[OF payment_key_laws(1) I])
  have l2: "lookup_row payment_id i ?T2 = (case lookup_row payment_id i C of
       None \<Rightarrow> lookup_row payment_id i ?T1
     | Some r \<Rightarrow> map_option (\<lambda>x. add_amount x r) (lookup_row payment_id i ?T1))"
    by (rule lookup_upd_existing[OF payment_key_laws(2) C(1)]) (simp add: s1 C(2))
  have l3: "lookup_row payment_id i (upd sub_amount R ?T2) = (case lookup_row payment_id i R of
       None \<Rightarrow> lookup_row payment_id i ?T2
     | Some r \<Rightarrow> map_option (\<lambda>x. sub_amount x r) (lookup_row payment_id i ?T2))"
    by (rule lookup_upd_existing[OF payment_key_laws(3) R(1)]) (simp add: s2 R(2))
  show "lookup_row payment_id i (upd sub_amount R ?T2) =
      map_option (adjusted I i (amount_in i C - amount_in i R)) (lookup_row payment_id i P1)"
    unfolding l3 l2 l1
    by (cases "lookup_row payment_id i P1"; cases "lookup_row payment_id i I";
        cases "lookup_row payment_id i C"; cases "lookup_row payment_id i R")
      (simp_all add: adjusted_def amount_in_def set_initial_def add_amount_def sub_amount_def)
qed

text \<open>The closed form: inserted rows, adjusted rows, inserted adjustments.\<close>

definition inserted_payments :: "env \<Rightarrow> Payment list \<Rightarrow> db \<Rightarrow> payment_row list" where
  "inserted_payments env ps d =
     payments d @ fst (insert_ignore payment_id (map (fromPaymentModels env) ps) (payments d))"

lemma lookup_inserted_payments:
  "lookup_row payment_id i (inserted_payments env ps d) =
     (case lookup_row payment_id i (payments d) of
        Some r \<Rightarrow> Some r
      | None \<Rightarrow> lookup_row payment_id i (map (fromPaymentModels env) ps))"
proof -
  obtain ins T where i: "insert_ignore payment_id (map (fromPaymentModels env) ps) (payments d) = (ins, T)"
    by fastforce
  from lookup_insert_ignore[OF i] insert_ignore_append[OF i] i show ?thesis
    by (simp add: inserted_payments_def)
qed

lemma inserted_payments_keys:
  "payment_id ` set (inserted_payments env ps d) = payment_id ` set (payments d) \<union> Payment_ID ` set ps"
proof -
  obtain ins T where i: "insert_ignore payment_id (map (fromPaymentModels env) ps) (payments d) = (ins, T)"
    by fastforce
  from insert_ignore_keys(3)[OF i] insert_ignore_append[OF i] i show ?thesis
    by (simp add: inserted_payments_def image_image)
qed

lemma inserted_payments_distinct:
  assumes "distinct (map payment_id (payments d))"
  shows "distinct (map payment_id (inserted_payments env ps d))"
proof -
  obtain ins T where i: "insert_ignore payment_id (map (fromPaymentModels env) ps) (payments d) = (ins, T)"
    by fastforce
  from insert_ignore_distinct[OF assms i] insert_ignore_append[OF i] i show ?thesis
    by (simp add: inserted_payments_def)
qed

lemma PaymentsUpsert_closed:
  assumes "PaymentsUpsert env fl ps d = (Inr u, d')"
  obtains new evs d1 where
    "insert_ignore pa_id (batch_adjustments env ps) (payment_adjustments d)
       = (new, payment_adjustments d @ new)"
    "payment_adjustments d' = payment_adjustments d @ new"
    "\<forall>r\<in>set new. has_key payment_id (pa_payment_id r) (payments d')"
    "\<And>i. lookup_row payment_id i (payments d') =
       map_option (adjusted (initial_amounts env ps) i
          (if i \<in> Payment_ID ` set ps then deltas_of i new else 0))
         (lookup_row payment_id i (inserted_payments env ps d))"
    "map payment_id (payments d') = map payment_id (inserted_payments env ps d)"
    "payment_events env ps new = Inr evs"
    "OutboxEventsInsert env fl evs d1 = (Inr u, d')"
    "d1 = d\<lparr>payments := payments d', payment_adjustments := payment_adjustments d'\<rparr>"
    "\<exists>t. d' = d1\<lparr>outbox_events := t\<rparr>"
proof -
  from PaymentsUpsert_result[OF assms] obtain P1 new R C evs d1 where
    P1: "P1 = snd (insert_ignore payment_id (map (fromPaymentModels env) ps) (payments d))" and
    new: "insert_ignore pa_id (batch_adjustments env ps) (payment_adjustments d)
       = (new, payment_adjustments d @ new)" and
    fk: "\<forall>r\<in>set new. has_key payment_id (pa_payment_id r) P1" and
    rc: "amount_deltas env ps new = (R, C)" and
    d1: "d1 = d\<lparr>payments := upd sub_amount R (upd add_amount C (upd set_initial (initial_amounts env ps) P1)),
            payment_adjustments := payment_adjustments d @ new\<rparr>" and
    evs: "payment_events env ps new = Inr evs" "OutboxEventsInsert env fl evs d1 = (Inr u, d')"
    by metis
  have P1': "P1 = inserted_payments env ps d"
    by (simp add: P1 inserted_payments_def snd_insert_ignore)
  have "Payment_ID ` set ps \<subseteq> payment_id ` set P1"
    by (simp add: P1' inserted_payments_keys)
  note three = three_updates_lookup[OF initial_amounts_ok[of ps env] amount_deltas_ok(1)[OF rc] this]
  obtain t where d': "d' = d1\<lparr>outbox_events := t\<rparr>" using outbox.only_outbox[OF evs(2)] by blast
  have keys: "map payment_id (payments d') = map payment_id (inserted_payments env ps d)"
    using three(2) by (simp add: d' d1 P1')
  then have "payment_id ` set (payments d') = payment_id ` set P1" unfolding P1' by (metis list.set_map)
  with fk have fk': "\<forall>r\<in>set new. has_key payment_id (pa_payment_id r) (payments d')"
    by (simp add: tbl_simps)
  have "lookup_row payment_id i (payments d') =
       map_option (adjusted (initial_amounts env ps) i
          (if i \<in> Payment_ID ` set ps then deltas_of i new else 0))
         (lookup_row payment_id i (inserted_payments env ps d))" for i
    using three(1)[of i] amount_deltas_ok(2)[OF rc, of i] by (simp add: d' d1 P1')
  moreover have "payment_adjustments d' = payment_adjustments d @ new" by (simp add: d' d1)
  moreover have "d1 = d\<lparr>payments := payments d', payment_adjustments := payment_adjustments d'\<rparr>"
    by (simp add: d' d1)
  ultimately show thesis using that new fk' keys evs d' by blast
qed

section \<open>Replaying an upsert\<close>

lemma upd_fixpoint:
  assumes "\<And>r x. r \<in> set T \<Longrightarrow> x \<in> set rows \<Longrightarrow> payment_id r = payment_id x \<Longrightarrow> g r x = r"
    "payment_id ` set rows \<subseteq> payment_id ` set T"
  shows "upd g rows T = T"
  using assms
proof (induction rows)
  case Nil
  then show ?case by simp
next
  case (Cons x rows)
  have "update_where (\<lambda>r. payment_id r = payment_id x) (\<lambda>r. g r x) T = T"
    using Cons.prems(1) by (auto simp: update_where_def map_idI)
  with Cons.prems(2) have "upsert_row payment_id g x T = T"
    by (simp add: upsert_row_def tbl_simps)
  with Cons show ?case by simp
qed

lemma PaymentsUpsert_replay_state:
  assumes ok: "PaymentsUpsert env fl ps d = (Inr u, d')"
    and pk: "distinct (map payment_id (payments d))"
  shows "PaymentsUpsert env no_faults ps d' = (Inr (), d')"
proof -
  let ?I = "initial_amounts env ps"
  from PaymentsUpsert_closed[OF ok] obtain new evs d1 where
    new: "insert_ignore pa_id (batch_adjustments env ps) (payment_adjustments d)
       = (new, payment_adjustments d @ new)" and
    adj: "payment_adjustments d' = payment_adjustments d @ new" and
    look: "\<And>i. lookup_row payment_id i (payments d') =
       map_option (adjusted ?I i (if i \<in> Payment_ID ` set ps then deltas_of i new else 0))
         (lookup_row payment_id i (inserted_payments env ps d))" and
    keys: "map payment_id (payments d') = map payment_id (inserted_payments env ps d)"
    by metis
  have nn: "ps \<noteq> [] \<longrightarrow> list_all payment_not_null ps"
    using PaymentsUpsert_result[OF ok] by metis
  have keyset: "payment_id ` set (payments d') = payment_id ` set (payments d) \<union> Payment_ID ` set ps"
    using keys inserted_payments_keys[of env ps d] by (metis list.set_map)
  from inserted_payments_distinct[OF pk] keys have dist: "distinct (map payment_id (payments d'))" by simp
  have I: "distinct (map payment_id ?I)" "payment_id ` set ?I \<subseteq> Payment_ID ` set ps"
    using initial_amounts_ok[of ps env] by (simp_all add: init_ok_def)
  have fixp: "upd set_initial ?I (payments d') = payments d'"
  proof (rule upd_fixpoint)
    fix r x
    assume r: "r \<in> set (payments d')" and x: "x \<in> set ?I" and e: "payment_id r = payment_id x"
    have "lookup_row payment_id (payment_id r) (payments d') = Some r"
      using r dist by (simp add: lookup_row_distinct)
    with look[of "payment_id r"] have "map_option (adjusted ?I (payment_id r)
        (if payment_id r \<in> Payment_ID ` set ps then deltas_of (payment_id r) new else 0))
        (lookup_row payment_id (payment_id r) (inserted_payments env ps d)) = Some r" by simp
    then obtain z k where z: "r = adjusted ?I (payment_id r) k z" by (metis map_option_eq_Some)
    have "lookup_row payment_id (payment_id r) ?I = Some x"
      using x e I(1) by (simp add: lookup_row_distinct)
    with adjusted_initial[of ?I "payment_id r" k z] z
    have "payment_initial_amount r = payment_initial_amount x" by simp
    then show "set_initial r x = r" by (simp add: set_initial_def)
  next
    show "payment_id ` set ?I \<subseteq> payment_id ` set (payments d')" using I(2) keyset by blast
  qed
  have ins1: "insert_ignore payment_id (map (fromPaymentModels env) ps) (payments d') = ([], payments d')"
    by (rule insert_ignore_present) (simp add: keyset image_image)
  have "insert_ignore pa_id (batch_adjustments env ps) (payment_adjustments d @ new)
      = ([], payment_adjustments d @ new)"
    by (rule insert_ignore_replay[OF new])
  then have ins2: "insert_ignore pa_id (batch_adjustments env ps) (payment_adjustments d')
      = ([], payment_adjustments d')" by (simp add: adj)
  have s1: "(if map (fromPaymentModels env) ps = [] then tx_return ()
      else insert_payments_stmt no_faults (map (fromPaymentModels env) ps)
             (list_all payment_not_null ps)) d' = (Inr (), d')"
    using nn ins1 by (auto simp: insert_payments_stmt_def)
  have s2: "(if batch_adjustments env ps = [] then tx_return []
      else insert_adjustments_stmt no_faults (batch_adjustments env ps)) d' = (Inr [], d')"
    using ins2 by (auto simp: insert_adjustments_stmt_def)
  have s3: "apply_inserted env no_faults ps [] d' = (Inr (), d')"
    using fixp I(1) by (auto simp: apply_inserted_def amount_deltas_def tx_seq_Inr_iff
        update_payments_stmt_Inr no_faults_def)
  show ?thesis
    using s1 s2 s3
    by (auto simp: PaymentsUpsert_def Let_def in_tx_Inr_iff tx_seq_Inr_iff tx_bind_Inr_iff
        batch_adjustments_def[symmetric] no_faults_def)
qed

section \<open>The events it emits\<close>

definition adjustment_event_id :: "env \<Rightarrow> Payment list \<Rightarrow> payment_adjustment_row \<Rightarrow> EventID option" where
  "adjustment_event_id env ps a = map_option
     (\<lambda>p. \<lparr>EventID_EventIdempotencyKey = env_payment_adjustment_key env (pa_id a),
           EventID_ConnectorID = Some (Payment_ConnectorID p)\<rparr>) (paymentMap ps (pa_payment_id a))"

lemma payment_events_ids:
  "payment_events env ps adjs = Inr evs \<Longrightarrow>
     map Some (map OutboxEvent_ID evs) = filter (\<lambda>x. x \<noteq> None) (map (adjustment_event_id env ps) adjs) \<and>
     (\<forall>e\<in>set evs. OutboxEvent_Status e = OUTBOX_STATUS_PENDING)"
  by (induction adjs arbitrary: evs)
    (auto simp: adjustment_event_id_def payment_event_def split: option.splits if_splits)

section \<open>Splitting a table by payment\<close>

lemma filter_insert_ignore:
  assumes "\<And>r. P r \<longleftrightarrow> Q (key r)"
  shows "filter P (fst (insert_ignore key rs T)) = fst (insert_ignore key (filter P rs) (filter P T))"
proof (induction rs arbitrary: T)
  case Nil
  then show ?case by simp
next
  case (Cons r rs)
  have "has_key key (key r) (filter P T) \<longleftrightarrow> has_key key (key r) T \<and> P r"
    using assms by (auto simp: tbl_simps image_iff)
  then show ?case
    using Cons.IH[of T] Cons.IH[of "T @ [r]"] by (cases "P r") (auto split: prod.splits)
qed

end
