(* ===== verification/Payments_Ledger.thy ===== *)
theory Payments_Ledger
  imports Payments_Proofs
begin

text \<open>
  The ledger the storage keeps: every stored payment has its adjustments, and
  its amount is the opening amount plus the adjustments captured since, minus
  the refunded ones.  The invariant is kept by every operation on payments and
  holds in every database they reach.
\<close>

section \<open>The invariant\<close>

definition adjustments_for :: "PaymentID \<Rightarrow> payment_adjustment_row list \<Rightarrow> payment_adjustment_row list" where
  "adjustments_for i as = filter (\<lambda>a. pa_payment_id a = i) as"

text \<open>What a payment starts with: nothing when its first report is an authorisation.\<close>

definition opening_amount :: "payment_adjustment_row \<Rightarrow> int" where
  "opening_amount a =
     (if pa_status a = PAYMENT_STATUS_AUTHORISATION then 0 else amount_or_zero (pa_amount a))"

definition ledger_amount :: "payment_adjustment_row list \<Rightarrow> int" where
  "ledger_amount as = (case as of [] \<Rightarrow> 0 | a # _ \<Rightarrow> opening_amount a)
     + sum_list (map payment_delta as)"

definition payment_row_ok :: "payment_adjustment_row list \<Rightarrow> payment_row \<Rightarrow> bool" where
  "payment_row_ok as r \<longleftrightarrow>
     adjustments_for (payment_id r) as \<noteq> [] \<and>
     payment_amount r = ledger_amount (adjustments_for (payment_id r) as)"

definition adjustment_row_ok :: "payment_row list \<Rightarrow> payment_adjustment_row \<Rightarrow> bool" where
  "adjustment_row_ok ps a \<longleftrightarrow>
     pa_payment_id a = PaymentAdjustmentID_PaymentID (pa_id a) \<and> has_key payment_id (pa_payment_id a) ps"

definition ledger_ok :: "db \<Rightarrow> bool" where
  "ledger_ok d \<longleftrightarrow>
     distinct (map payment_id (payments d)) \<and>
     distinct (map pa_id (payment_adjustments d)) \<and>
     (\<forall>a\<in>set (payment_adjustments d). adjustment_row_ok (payments d) a) \<and>
     (\<forall>r\<in>set (payments d). payment_row_ok (payment_adjustments d) r)"

lemma ledger_okI:
  assumes "distinct (map payment_id (payments d))" "distinct (map pa_id (payment_adjustments d))"
    "\<And>a. a \<in> set (payment_adjustments d) \<Longrightarrow> adjustment_row_ok (payments d) a"
    "\<And>r. r \<in> set (payments d) \<Longrightarrow> payment_row_ok (payment_adjustments d) r"
  shows "ledger_ok d"
  using assms by (simp add: ledger_ok_def)

lemma ledger_okD:
  assumes "ledger_ok d"
  shows "distinct (map payment_id (payments d))" "distinct (map pa_id (payment_adjustments d))"
    "a \<in> set (payment_adjustments d) \<Longrightarrow> adjustment_row_ok (payments d) a"
    "r \<in> set (payments d) \<Longrightarrow> payment_row_ok (payment_adjustments d) r"
  using assms by (simp_all add: ledger_ok_def)

lemma adjustments_for_append [simp]:
  "adjustments_for i (as @ bs) = adjustments_for i as @ adjustments_for i bs"
  by (simp add: adjustments_for_def)

lemma ledger_amount_append:
  "as \<noteq> [] \<Longrightarrow> ledger_amount (as @ bs) = ledger_amount as + sum_list (map payment_delta bs)"
  by (cases as) (simp_all add: ledger_amount_def)

lemma deltas_of_adjustments_for: "deltas_of i as = sum_list (map payment_delta (adjustments_for i as))"
  by (simp add: deltas_of_def adjustments_for_def)

lemma adjustments_for_absent:
  assumes "\<And>a. a \<in> set as \<Longrightarrow> adjustment_row_ok ps a" "\<not> has_key payment_id i ps"
  shows "adjustments_for i as = []"
proof -
  have "pa_payment_id a \<noteq> i" if "a \<in> set as" for a
    using assms(1)[OF that] assms(2) by (auto simp: adjustment_row_ok_def)
  then show ?thesis by (simp add: adjustments_for_def filter_empty_conv)
qed

section \<open>Upserting what connectors report\<close>

definition payments_fresh :: "Payment list \<Rightarrow> bool" where
  "payments_fresh ps \<longleftrightarrow> (\<forall>p\<in>set ps. \<exists>f c. fresh_payment f c p)"

lemma FromPSPPayments_fresh: "FromPSPPayments from c = Inr ps \<Longrightarrow> payments_fresh ps"
proof -
  assume "FromPSPPayments from c = Inr ps"
  then have "list_all2 (\<lambda>f p. FromPSPPaymentToPayment f c = Inr p) from ps"
    by (simp only: FromPSPPayments_all_fresh)
  then show "payments_fresh ps"
    by (induction rule: list_all2_induct) (auto intro: FromPSPPaymentToPayment_fresh simp: payments_fresh_def)
qed

lemma payments_fresh_Cons [simp]:
  "payments_fresh (p # ps) \<longleftrightarrow> (\<exists>f c. fresh_payment f c p) \<and> payments_fresh ps"
  by (auto simp: payments_fresh_def)

lemma batch_adjustments_Cons:
  "batch_adjustments env (p # ps)
     = map (fromPaymentAdjustmentModels env) (Payment_Adjustments p) @ batch_adjustments env ps"
  by (simp add: batch_adjustments_def)

lemma batch_rows:
  assumes "payments_fresh ps" "a \<in> set (batch_adjustments env ps)"
  shows "pa_payment_id a = PaymentAdjustmentID_PaymentID (pa_id a) \<and> pa_payment_id a \<in> Payment_ID ` set ps"
  using assms
  by (induction ps) (auto simp: batch_adjustments_Cons fresh_payment_def batch_adjustments_def)

text \<open>The first payment of the batch with an identifier and the first adjustment for it agree.\<close>

lemma batch_first:
  assumes "payments_fresh ps"
    "lookup_row payment_id i (map (fromPaymentModels env) ps) = Some r"
  shows "\<exists>a as. adjustments_for i (batch_adjustments env ps) = a # as \<and> payment_amount r = opening_amount a"
  using assms
proof (induction ps)
  case Nil
  then show ?case by simp
next
  case (Cons p ps)
  from Cons.prems(1) obtain f c where st: "fresh_payment f c p" and fr: "payments_fresh ps"
    unfolding payments_fresh_Cons by blast
  from st obtain x where
    x: "Payment_Adjustments p = [x]" "PaymentAdjustmentID_PaymentID (PaymentAdjustment_ID x) = Payment_ID p"
      "PaymentAdjustment_Amount x = PSPPayment_Amount f" "PaymentAdjustment_Status x = Payment_Status p" and
    p: "Payment_Amount p = (if PSPPayment_Status f = PAYMENT_STATUS_AUTHORISATION then Some 0
                         else PSPPayment_Amount f)"
    unfolding fresh_payment_def by blast
  show ?case
  proof (cases "Payment_ID p = i")
    case True
    have "payment_amount r = amount_or_zero (Payment_Amount p)"
      using Cons.prems(2) True by auto
    also have "\<dots> = opening_amount (fromPaymentAdjustmentModels env x)"
      using st x p by (simp add: opening_amount_def amount_or_zero_def fresh_payment_def)
    finally show ?thesis
      using True x by (auto simp: batch_adjustments_Cons adjustments_for_def)
  next
    case False
    with Cons.IH[OF fr] Cons.prems(2) x show ?thesis
      by (simp add: batch_adjustments_Cons adjustments_for_def)
  qed
qed

lemma adjustments_for_by_id:
  assumes "\<And>a. a \<in> set as \<Longrightarrow> pa_payment_id a = PaymentAdjustmentID_PaymentID (pa_id a)"
  shows "adjustments_for i as = filter (\<lambda>a. PaymentAdjustmentID_PaymentID (pa_id a) = i) as"
  unfolding adjustments_for_def by (rule filter_cong) (use assms in simp_all)

lemma first_of_new:
  assumes "payments_fresh ps"
    and new: "insert_ignore pa_id (batch_adjustments env ps) T = (new, T @ new)"
    and ok: "\<And>a. a \<in> set T \<Longrightarrow> adjustment_row_ok P a"
    and old: "adjustments_for i T = []"
    and first: "adjustments_for i (batch_adjustments env ps) = a # as"
  shows "\<exists>bs. adjustments_for i new = a # bs"
proof -
  let ?P = "\<lambda>a. PaymentAdjustmentID_PaymentID (pa_id a) = i"
  have from_batch: "set new \<subseteq> set (batch_adjustments env ps)"
    by (rule ignore_store.new_from[OF new])
  have f: "filter ?P new = fst (insert_ignore pa_id (filter ?P (batch_adjustments env ps)) (filter ?P T))"
    using filter_insert_ignore[of ?P "\<lambda>k. PaymentAdjustmentID_PaymentID k = i" pa_id
        "batch_adjustments env ps" T] new by simp
  have "adjustments_for i new = filter ?P new"
    using batch_rows[OF assms(1)] from_batch by (intro adjustments_for_by_id) blast
  moreover have "adjustments_for i T = filter ?P T"
    using ok by (intro adjustments_for_by_id) (simp add: adjustment_row_ok_def)
  moreover have "adjustments_for i (batch_adjustments env ps) = filter ?P (batch_adjustments env ps)"
    using batch_rows[OF assms(1)] by (intro adjustments_for_by_id) blast
  ultimately have "adjustments_for i new = fst (insert_ignore pa_id (a # as) [])"
    using f old first by simp
  then show ?thesis by (simp split: prod.splits)
qed

lemma amounts_after_upsert:
  assumes "payments_fresh ps" "ledger_ok d"
    and new: "insert_ignore pa_id (batch_adjustments env ps) (payment_adjustments d)
       = (new, payment_adjustments d @ new)"
    and base: "lookup_row payment_id i (inserted_payments env ps d) = Some b"
  shows "adjustments_for i (payment_adjustments d @ new) \<noteq> [] \<and>
    payment_amount b + (if i \<in> Payment_ID ` set ps then deltas_of i new else 0)
      = ledger_amount (adjustments_for i (payment_adjustments d @ new))"
proof -
  have from_batch: "set new \<subseteq> set (batch_adjustments env ps)"
    by (rule ignore_store.new_from[OF new])
  have absent: "adjustments_for i new = []" if "i \<notin> Payment_ID ` set ps"
    using that from_batch batch_rows[OF assms(1)]
    by (auto simp: adjustments_for_def filter_empty_conv)
  show ?thesis
  proof (cases "lookup_row payment_id i (payments d)")
    case (Some r)
    with base have b: "b = r" by (simp add: lookup_inserted_payments)
    from lookup_row_SomeD[OF Some] have r: "r \<in> set (payments d)" "payment_id r = i" by simp_all
    from ledger_okD(4)[OF assms(2) r(1)] r(2)
    have ok: "adjustments_for i (payment_adjustments d) \<noteq> []"
      "payment_amount r = ledger_amount (adjustments_for i (payment_adjustments d))"
      by (simp_all add: payment_row_ok_def)
    have "(if i \<in> Payment_ID ` set ps then deltas_of i new else 0)
        = sum_list (map payment_delta (adjustments_for i new))"
      using absent by (auto simp: deltas_of_adjustments_for)
    with ok show ?thesis by (simp add: b ledger_amount_append)
  next
    case None
    with base have l: "lookup_row payment_id i (map (fromPaymentModels env) ps) = Some b"
      by (simp add: lookup_inserted_payments)
    from batch_first[OF assms(1) l] obtain a as where
      a: "adjustments_for i (batch_adjustments env ps) = a # as" "payment_amount b = opening_amount a"
      by blast
    have old: "adjustments_for i (payment_adjustments d) = []"
      by (rule adjustments_for_absent[OF ledger_okD(3)[OF assms(2)]]) (use None in simp_all)
    have "i \<in> Payment_ID ` set ps"
      using lookup_row_SomeD[OF l] by auto
    obtain bs where bs: "adjustments_for i new = a # bs"
      using first_of_new[OF assms(1) new ledger_okD(3)[OF assms(2)] old a(1)] by blast
    with a old \<open>i \<in> Payment_ID ` set ps\<close> show ?thesis
      by (simp add: deltas_of_adjustments_for ledger_amount_def)
  qed
qed

lemma PaymentsUpsert_ledger:
  assumes ok: "PaymentsUpsert env fl ps d = (Inr u, d')"
    and fresh: "payments_fresh ps" and inv: "ledger_ok d"
  shows "ledger_ok d'"
proof -
  from PaymentsUpsert_closed[OF ok] obtain new evs d1 where
    new: "insert_ignore pa_id (batch_adjustments env ps) (payment_adjustments d)
       = (new, payment_adjustments d @ new)" and
    adj: "payment_adjustments d' = payment_adjustments d @ new" and
    fk: "\<forall>r\<in>set new. has_key payment_id (pa_payment_id r) (payments d')" and
    look: "\<And>i. lookup_row payment_id i (payments d') =
       map_option (adjusted (initial_amounts env ps) i (if i \<in> Payment_ID ` set ps then deltas_of i new else 0))
         (lookup_row payment_id i (inserted_payments env ps d))" and
    keys: "map payment_id (payments d') = map payment_id (inserted_payments env ps d)"
    by metis
  have keyset: "payment_id ` set (payments d') = payment_id ` set (payments d) \<union> Payment_ID ` set ps"
    using keys inserted_payments_keys[of env ps d] by (metis list.set_map)
  have pk: "distinct (map payment_id (payments d'))"
    using inserted_payments_distinct[OF ledger_okD(1)[OF inv]] keys by simp
  show ?thesis
  proof (rule ledger_okI)
    show "distinct (map payment_id (payments d'))" by (rule pk)
    show "distinct (map pa_id (payment_adjustments d'))"
      unfolding adj by (rule insert_ignore_distinct[OF ledger_okD(2)[OF inv] new])
  next
    fix a assume "a \<in> set (payment_adjustments d')"
    then consider "a \<in> set (payment_adjustments d)" | "a \<in> set new" by (auto simp: adj)
    then show "adjustment_row_ok (payments d') a"
    proof cases
      case 1
      from ledger_okD(3)[OF inv 1] show ?thesis
        unfolding adjustment_row_ok_def has_key_iff keyset by blast
    next
      case 2
      with ignore_store.new_from[OF new] have "a \<in> set (batch_adjustments env ps)" by blast
      from batch_rows[OF fresh this] fk 2 show ?thesis unfolding adjustment_row_ok_def by blast
    qed
  next
    fix r assume r: "r \<in> set (payments d')"
    then have "lookup_row payment_id (payment_id r) (payments d') = Some r"
      using pk by (simp add: lookup_row_distinct)
    from this[unfolded look map_option_eq_Some] obtain b where
      b: "lookup_row payment_id (payment_id r) (inserted_payments env ps d) = Some b" and
      r_is: "adjusted (initial_amounts env ps) (payment_id r)
        (if payment_id r \<in> Payment_ID ` set ps then deltas_of (payment_id r) new else 0) b = r"
      by blast
    have "payment_amount r = payment_amount b
        + (if payment_id r \<in> Payment_ID ` set ps then deltas_of (payment_id r) new else 0)"
      using arg_cong[OF r_is, of payment_amount] by (simp add: adjusted_amount)
    with amounts_after_upsert[OF fresh inv new b] show "payment_row_ok (payment_adjustments d') r"
      by (simp add: payment_row_ok_def adj)
  qed
qed

section \<open>Deleting and annotating\<close>

lemma delete_payments_ledger:
  assumes "ledger_ok d"
  shows "ledger_ok (delete_payments q d)"
proof -
  let ?d = "delete_payments q d"
  let ?gone = "\<lambda>a. has_key payment_id (pa_payment_id a) (filter q (payments d))"
  have pays: "payments ?d = delete_where q (payments d)"
    and adjs: "payment_adjustments ?d = delete_where ?gone (payment_adjustments d)"
    by (simp_all add: delete_payments_def)
  have uniq: "r = r'" if "r \<in> set (payments d)" "r' \<in> set (payments d)" "payment_id r = payment_id r'" for r r'
    using that ledger_okD(1)[OF assms] by (auto simp: distinct_map dest: inj_onD)
  have kept: "adjustments_for (payment_id r) (payment_adjustments ?d)
      = adjustments_for (payment_id r) (payment_adjustments d)"
    if "r \<in> set (payments d)" "\<not> q r" for r
  proof -
    have "\<not> has_key payment_id (payment_id r) (filter q (payments d))"
      using that uniq by (auto simp: tbl_simps)
    then show ?thesis
      by (auto simp: adjs adjustments_for_def delete_where_def intro!: filter_cong)
  qed
  show ?thesis
  proof (rule ledger_okI)
    show "distinct (map payment_id (payments ?d))" "distinct (map pa_id (payment_adjustments ?d))"
      using ledger_okD(1,2)[OF assms] by (simp_all add: pays adjs)
  next
    fix a assume a: "a \<in> set (payment_adjustments ?d)"
    then have in_d: "a \<in> set (payment_adjustments d)" and ng: "\<not> ?gone a" by (simp_all add: adjs)
    from ledger_okD(3)[OF assms in_d] obtain r where
      "r \<in> set (payments d)" "payment_id r = pa_payment_id a"
      by (auto simp: adjustment_row_ok_def tbl_simps)
    moreover from calculation ng have "\<not> q r" by (force simp: tbl_simps)
    ultimately have "r \<in> set (payments ?d)" by (simp add: pays)
    then have "has_key payment_id (pa_payment_id a) (payments ?d)"
      unfolding has_key_iff \<open>payment_id r = pa_payment_id a\<close>[symmetric] by (rule imageI)
    with ledger_okD(3)[OF assms in_d] show "adjustment_row_ok (payments ?d) a"
      unfolding adjustment_row_ok_def by blast
  next
    fix r assume "r \<in> set (payments ?d)"
    then have r: "r \<in> set (payments d)" "\<not> q r" by (simp_all add: pays)
    from ledger_okD(4)[OF assms r(1)] kept[OF r]
    show "payment_row_ok (payment_adjustments ?d) r" by (simp add: payment_row_ok_def)
  qed
qed

lemma ledger_ok_only:
  "payments d' = payments d \<Longrightarrow> payment_adjustments d' = payment_adjustments d \<Longrightarrow>
     ledger_ok d' \<longleftrightarrow> ledger_ok d"
  by (simp add: ledger_ok_def)

lemma PaymentsUpdateMetadata_ledger:
  assumes "PaymentsUpdateMetadata fl i m d = (Inr u, d')" "ledger_ok d"
  shows "ledger_ok d'"
proof -
  from assms(1) obtain p where p: "lookup_row payment_id i (payments d) = Some p"
    by (cases "lookup_row payment_id i (payments d)")
      (simp_all add: PaymentsUpdateMetadata_def in_tx_Inr_iff del: lookup_row_None_iff)
  from assms(1) have d': "d' = d\<lparr>payments := update_where (\<lambda>r. payment_id r = i)
                (\<lambda>r. r\<lparr>payment_metadata := payment_metadata p ++ m\<rparr>) (payments d)\<rparr>"
    by (simp add: PaymentsUpdateMetadata_def in_tx_Inr_iff p)
  have keys: "map payment_id (payments d') = map payment_id (payments d)"
    by (simp add: d' map_key_update_where)
  then have "has_key payment_id k (payments d') = has_key payment_id k (payments d)" for k
    by (metis has_key_iff list.set_map)
  note has = this
  show ?thesis
  proof (rule ledger_okI)
    show "distinct (map payment_id (payments d'))" unfolding keys by (rule ledger_okD(1)[OF assms(2)])
    show "distinct (map pa_id (payment_adjustments d'))" using ledger_okD(2)[OF assms(2)] by (simp add: d')
  next
    fix a assume "a \<in> set (payment_adjustments d')"
    then have "a \<in> set (payment_adjustments d)" by (simp add: d')
    from ledger_okD(3)[OF assms(2) this] show "adjustment_row_ok (payments d') a"
      unfolding adjustment_row_ok_def has .
  next
    fix r assume "r \<in> set (payments d')"
    then obtain r0 where "r0 \<in> set (payments d)" "payment_id r = payment_id r0"
      "payment_amount r = payment_amount r0"
      by (auto simp: d' update_where_def)
    then show "payment_row_ok (payment_adjustments d') r"
      using ledger_okD(4)[OF assms(2), of r0] by (simp add: payment_row_ok_def d')
  qed
qed

section \<open>Reachable databases\<close>

text \<open>
  The payments part of the storage as a state machine: a step is one call of a
  storage operation that returned nil, or a change of any other table.
\<close>

inductive payments_step :: "db \<Rightarrow> db \<Rightarrow> bool" where
  upsert: "FromPSPPayments from c = Inr ps \<Longrightarrow> PaymentsUpsert env fl ps d = (Inr (), d') \<Longrightarrow>
     payments_step d d'"
| metadata: "PaymentsUpdateMetadata fl i m d = (Inr (), d') \<Longrightarrow> payments_step d d'"
| delete_connector: "PaymentsDeleteFromConnectorID fl c d = (Inr (), d') \<Longrightarrow> payments_step d d'"
| delete_batch: "PaymentsDeleteFromConnectorIDBatch fl c n d = (Inr k, d') \<Longrightarrow> payments_step d d'"
| delete: "PaymentsDelete fl i d = (Inr (), d') \<Longrightarrow> payments_step d d'"
| delete_reference: "PaymentsDeleteFromReference env fl reference c d = (Inr (), d') \<Longrightarrow>
     payments_step d d'"
| delete_account: "PaymentsDeleteFromAccountID fl a d = (Inr (), d') \<Longrightarrow> payments_step d d'"
| delete_psu: "PaymentsDeleteFromPSUID fl u d = (Inr (), d') \<Longrightarrow> payments_step d d'"
| delete_connector_psu: "PaymentsDeleteFromConnectorIDAndPSUID fl c u d = (Inr (), d') \<Longrightarrow>
     payments_step d d'"
| delete_connection: "PaymentsDeleteFromOpenBankingConnectionID fl u c ob d = (Inr (), d') \<Longrightarrow>
     payments_step d d'"
| cascade: "payments d' = payments (delete_payments q d) \<Longrightarrow>
     payment_adjustments d' = payment_adjustments (delete_payments q d) \<Longrightarrow> payments_step d d'"
| elsewhere: "payments d' = payments d \<Longrightarrow> payment_adjustments d' = payment_adjustments d \<Longrightarrow>
     payments_step d d'"

inductive payments_reachable :: "db \<Rightarrow> bool" where
  start: "payments_reachable empty_db"
| more: "payments_reachable d \<Longrightarrow> payments_step d d' \<Longrightarrow> payments_reachable d'"

inductive_cases payments_stepE: "payments_step d d'"

lemma PaymentsDeleteFromReference_shape:
  assumes "PaymentsDeleteFromReference env fl reference c d = (Inr (), d')"
  shows "d' = d \<or> (\<exists>q t. d' = (delete_payments q d)\<lparr>outbox_events := t\<rparr>)"
proof -
  obtain r d1 where s: "select_payment_by_reference fl reference c d = (r, d1)" by fastforce
  have d1: "d1 = d" using s
    by (auto simp: select_payment_by_reference_def stmt_def refuse_def split: option.splits)
  show ?thesis
  proof (cases r)
    case (Inl e)
    with assms s d1 show ?thesis
      by (auto simp: PaymentsDeleteFromReference_def in_tx_Inr_iff split: if_splits)
  next
    case (Inr p)
    let ?q = "\<lambda>r. payment_reference r = reference \<and> payment_connector_id r = c"
    from assms s d1 Inr have
      "OutboxEventsInsert env fl [payment_deleted_event env (payment_id p) c] (delete_payments ?q d)
         = (Inr (), d')"
      by (auto simp: PaymentsDeleteFromReference_def in_tx_Inr_iff tx_seq_Inr_iff)
    from outbox.only_outbox[OF this] show ?thesis by blast
  qed
qed

lemma payments_step_ledger:
  assumes "payments_step d d'" "ledger_ok d"
  shows "ledger_ok d'"
  using assms(1)
proof (cases rule: payments_step.cases)
  case upsert
  then show ?thesis using PaymentsUpsert_ledger FromPSPPayments_fresh assms(2) by blast
next
  case metadata
  then show ?thesis using PaymentsUpdateMetadata_ledger assms(2) by blast
next
  case delete_reference
  from PaymentsDeleteFromReference_shape[OF this] show ?thesis
  proof
    assume "d' = d"
    then show ?thesis using assms(2) by simp
  next
    assume "\<exists>q t. d' = (delete_payments q d)\<lparr>outbox_events := t\<rparr>"
    then obtain q t where "d' = (delete_payments q d)\<lparr>outbox_events := t\<rparr>" by blast
    then show ?thesis
      using ledger_ok_only[of d' "delete_payments q d"] delete_payments_ledger[OF assms(2)] by simp
  qed
next
  case cascade
  then show ?thesis using ledger_ok_only delete_payments_ledger[OF assms(2)] by blast
next
  case elsewhere
  then show ?thesis using ledger_ok_only assms(2) by blast
qed (auto simp: PaymentsDeleteFromConnectorID_def PaymentsDeleteFromConnectorIDBatch_def
    PaymentsDelete_def PaymentsDeleteFromAccountID_def PaymentsDeleteFromPSUID_def
    PaymentsDeleteFromConnectorIDAndPSUID_def PaymentsDeleteFromOpenBankingConnectionID_def Let_def
    split: if_splits intro: delete_payments_ledger[OF assms(2)])

lemma payments_reachable_ledger: "payments_reachable d \<Longrightarrow> ledger_ok d"
proof (induction rule: payments_reachable.induct)
  case start
  then show ?case by (simp add: empty_db_def ledger_ok_def)
next
  case (more d d')
  then show ?case by (blast intro: payments_step_ledger)
qed

end
