(* ===== verification/Payments_Success.thy ===== *)
theory Payments_Success
  imports Payments_Ledger
begin

text \<open>
  PaymentsUpsert never fails on what the program builds from a connector's
  answer when the database does not: in particular the three updates never
  meet the same row twice, whatever the batch repeats.
\<close>

lemma update_payments_stmt_succeeds:
  "distinct (map payment_id rows) \<Longrightarrow>
     update_payments_stmt no_faults g rows s = (Inr (), s\<lparr>payments := upd g rows (payments s)\<rparr>)"
  by (simp add: update_payments_stmt_Inr no_faults_def)

lemma payment_events_succeed:
  assumes "\<forall>a\<in>set adjs. raw_ok env (pa_raw a)"
  shows "\<exists>evs. payment_events env ps adjs = Inr evs \<and>
    (\<forall>e\<in>set evs. \<exists>p\<in>set ps. \<exists>a\<in>set adjs. e = payment_event env p a)"
  using assms
proof (induction adjs)
  case Nil
  then show ?case by simp
next
  case (Cons a adjs)
  then obtain evs where
    evs: "payment_events env ps adjs = Inr evs"
      "\<forall>e\<in>set evs. \<exists>p\<in>set ps. \<exists>a\<in>set adjs. e = payment_event env p a" by auto
  show ?case
  proof (cases "paymentMap ps (pa_payment_id a)")
    case None
    with evs show ?thesis by (fastforce simp del: payment_events.simps(1))
  next
    case (Some p)
    with paymentMap_SomeD[OF Some] evs Cons.prems show ?thesis by fastforce
  qed
qed

lemma payment_events_complete:
  "payment_events env ps adjs = Inr evs \<Longrightarrow> a \<in> set adjs \<Longrightarrow>
     paymentMap ps (pa_payment_id a) = Some p \<Longrightarrow> payment_event env p a \<in> set evs"
  by (induction adjs arbitrary: evs) (auto split: option.splits if_splits)

lemma insert_payments_succeeds:
  assumes "\<forall>r\<in>set rows. connector_exists s (payment_connector_id r) \<and> psu_ref_ok s (payment_psu_id r) \<and>
    connection_ref_ok s (payment_psu_id r) (payment_connector_id r) (payment_open_banking_connection_id r)"
  shows "insert_payments_stmt no_faults rows True s =
    (Inr (), s\<lparr>payments := snd (insert_ignore payment_id rows (payments s))\<rparr>)"
proof -
  obtain ins T where i: "insert_ignore payment_id rows (payments s) = (ins, T)" by fastforce
  have "set ins \<subseteq> set rows" by (rule ignore_store.new_from[OF i])
  with assms i show ?thesis by (auto simp: insert_payments_stmt_def list_all_iff)
qed

lemma insert_adjustments_succeeds:
  assumes "\<forall>r\<in>set rows. has_key payment_id (pa_payment_id r) (payments s)"
  shows "\<exists>ins T. insert_adjustments_stmt no_faults rows s = (Inr ins, s\<lparr>payment_adjustments := T\<rparr>)
    \<and> set ins \<subseteq> set rows"
proof -
  obtain ins T where i: "insert_ignore pa_id rows (payment_adjustments s) = (ins, T)" by fastforce
  have "set ins \<subseteq> set rows" by (rule ignore_store.new_from[OF i])
  with assms i show ?thesis by (auto simp: insert_adjustments_stmt_def list_all_iff)
qed

definition batch_accepted :: "env \<Rightarrow> db \<Rightarrow> Payment list \<Rightarrow> bool" where
  "batch_accepted env d ps \<longleftrightarrow>
     (\<forall>p\<in>set ps. connector_exists d (Payment_ConnectorID p) \<and> psu_ref_ok d (Payment_PsuID p) \<and>
        connection_ref_ok d (Payment_PsuID p) (Payment_ConnectorID p) (Payment_OpenBankingConnectionID p) \<and>
        (\<forall>a\<in>set (Payment_Adjustments p). raw_ok env (PaymentAdjustment_Raw a)))"

lemma batch_accepted_Cons:
  "batch_accepted env d (p # ps) \<longleftrightarrow> connector_exists d (Payment_ConnectorID p) \<and>
     psu_ref_ok d (Payment_PsuID p) \<and>
     connection_ref_ok d (Payment_PsuID p) (Payment_ConnectorID p) (Payment_OpenBankingConnectionID p) \<and>
     (\<forall>a\<in>set (Payment_Adjustments p). raw_ok env (PaymentAdjustment_Raw a)) \<and> batch_accepted env d ps"
  by (simp add: batch_accepted_def)

lemma batch_raw_ok:
  assumes "batch_accepted env d ps" "a \<in> set (batch_adjustments env ps)"
  shows "raw_ok env (pa_raw a)"
  using assms
  by (induction ps) (auto simp: batch_adjustments_Cons batch_accepted_Cons batch_adjustments_def)

lemma fresh_not_null: "payments_fresh ps \<Longrightarrow> list_all payment_not_null ps"
proof (induction ps)
  case (Cons p ps)
  then obtain f c where "fresh_payment f c p" "payments_fresh ps" unfolding payments_fresh_Cons by blast
  then have "Payment_InitialAmount p \<noteq> None" "Payment_Amount p = Some 0 \<or> Payment_Amount p = Payment_InitialAmount p"
    unfolding fresh_payment_def by (metis, metis)
  with Cons.IH \<open>payments_fresh ps\<close> show ?case by (auto simp: payment_not_null_def)
qed simp

lemma apply_inserted_succeeds:
  assumes acc: "batch_accepted env d ps" and new: "set new \<subseteq> set (batch_adjustments env ps)"
    and keys: "\<forall>i. env_payment_adjustment_key env i \<noteq> []"
    and conn: "connectors s = connectors d"
  shows "\<exists>d'. apply_inserted env no_faults ps new s = (Inr (), d')"
proof -
  obtain R C where rc: "amount_deltas env ps new = (R, C)" by fastforce
  from amount_deltas_ok(1)[OF rc] have RC: "distinct (map payment_id R)" "distinct (map payment_id C)"
    by (simp_all add: rc_ok_def)
  have I: "distinct (map payment_id (initial_amounts env ps))"
    using initial_amounts_ok[of ps env] by (simp add: init_ok_def)
  have "\<forall>a\<in>set new. raw_ok env (pa_raw a)" using new batch_raw_ok[OF acc] by blast
  from payment_events_succeed[OF this, of ps] obtain evs where
    evs: "payment_events env ps new = Inr evs"
      "\<forall>e\<in>set evs. \<exists>p\<in>set ps. \<exists>a\<in>set new. e = payment_event env p a" by blast
  define s3 where "s3 = s\<lparr>payments := upd sub_amount R (upd add_amount C
      (upd set_initial (initial_amounts env ps) (payments s)))\<rparr>"
  have conn3: "connector_exists s3 c = connector_exists d c" for c
    by (simp add: s3_def connector_exists_def conn)
  have "\<forall>e\<in>set evs. event_key e \<noteq> [] \<and> connector_ref_ok s3 (OutboxEvent_ConnectorID e)"
  proof
    fix e assume "e \<in> set evs"
    with evs(2) obtain p a where "p \<in> set ps" "e = payment_event env p a" by blast
    with acc keys show "event_key e \<noteq> [] \<and> connector_ref_ok s3 (OutboxEvent_ConnectorID e)"
      by (simp add: payment_event_def connector_ref_ok_def conn3 batch_accepted_def)
  qed
  from OutboxEventsInsert_succeeds[OF this, of env] obtain d' where
    "OutboxEventsInsert env no_faults evs s3 = (Inr (), d')" by blast
  with RC I rc evs(1) show ?thesis
    by (auto simp: apply_inserted_def tx_seq_def tx_bind_def update_payments_stmt_succeeds s3_def)
qed

lemma PaymentsUpsert_runs:
  assumes fresh: "payments_fresh ps" and acc: "batch_accepted env d ps"
    and keys: "\<forall>i. env_payment_adjustment_key env i \<noteq> []"
  shows "\<exists>d'. PaymentsUpsert env no_faults ps d = (Inr (), d')"
proof -
  let ?rows = "map (fromPaymentModels env) ps"
  let ?P1 = "snd (insert_ignore payment_id ?rows (payments d))"
  let ?d1 = "d\<lparr>payments := ?P1\<rparr>"
  have s1: "(if ?rows = [] then tx_return ()
      else insert_payments_stmt no_faults ?rows (list_all payment_not_null ps)) d = (Inr (), ?d1)"
    using fresh_not_null[OF fresh] acc insert_payments_succeeds[of ?rows d]
    by (simp add: batch_accepted_def)
  have P1: "Payment_ID ` set ps \<subseteq> payment_id ` set ?P1"
    using inserted_payments_keys[of env ps d]
    by (simp add: inserted_payments_def snd_insert_ignore)
  have fk: "\<forall>r\<in>set (batch_adjustments env ps). has_key payment_id (pa_payment_id r) (payments ?d1)"
  proof
    fix r assume "r \<in> set (batch_adjustments env ps)"
    from batch_rows[OF fresh this] P1 have "pa_payment_id r \<in> payment_id ` set ?P1" by blast
    then show "has_key payment_id (pa_payment_id r) (payments ?d1)" unfolding has_key_iff by simp
  qed
  obtain T' new' where s2': "(if batch_adjustments env ps = [] then tx_return []
      else insert_adjustments_stmt no_faults (batch_adjustments env ps)) ?d1
       = (Inr new', ?d1\<lparr>payment_adjustments := T'\<rparr>)" "set new' \<subseteq> set (batch_adjustments env ps)"
  proof (cases "batch_adjustments env ps = []")
    case True
    then show thesis using that[of "[]" "payment_adjustments ?d1"] by simp
  next
    case False
    with insert_adjustments_succeeds[OF fk] that show thesis by auto
  qed
  from apply_inserted_succeeds[OF acc s2'(2) keys, of "?d1\<lparr>payment_adjustments := T'\<rparr>"]
  obtain d' where "apply_inserted env no_faults ps new' (?d1\<lparr>payment_adjustments := T'\<rparr>) = (Inr (), d')"
    by auto
  with s1 s2'(1) show ?thesis
    by (auto simp: PaymentsUpsert_def Let_def in_tx_Inr_iff tx_seq_Inr_iff tx_bind_Inr_iff
        batch_adjustments_def[symmetric] no_faults_def)
qed

end
