(* ===== verification/Examples.thy ===== *)
theory Examples
  imports Payments_Success
begin

text \<open>
  Concrete values the witnesses share: a connector, an environment, a reported
  payment and the databases before and after it is stored.
\<close>

definition ex_connector :: ConnectorID where
  "ex_connector = \<lparr>ConnectorID_Reference = 1, ConnectorID_Provider = ''stripe''\<rparr>"

definition ex_env :: env where
  "ex_env =
     \<lparr>env_now = 100, env_db_time = (\<lambda>t. t), env_json_valid = (\<lambda>s. s \<noteq> []),
      env_uuid_text = (\<lambda>u. ''uuid''), env_connector_text = (\<lambda>c. ''connector''),
      env_account_text = AccountID_Reference, env_payment_text = (\<lambda>p.
        PaymentReference_Reference (PaymentID_PaymentReference p)),
      env_pi_text = PaymentInitiationID_Reference, env_pia_text = (\<lambda>i. ''pia''),
      env_task_text = TaskID_Reference,
      env_payment_adjustment_key = (\<lambda>a. ''payment:'' @ PaymentAdjustmentID_Reference a),
      env_account_key = (\<lambda>a. ''account:'' @ AccountID_Reference a), env_balance_key = (\<lambda>b. ''balance''),
      env_pi_key = (\<lambda>i. ''pi:'' @ PaymentInitiationID_Reference i), env_pia_key = (\<lambda>i. ''pia''),
      env_pirp_key = (\<lambda>i. ''pirp''), env_pool_key = (\<lambda>p. ''pool''), env_task_key = (\<lambda>t. ''task''),
      env_order_text = OrderID_Reference, env_order_adjustment_text = (\<lambda>a. ''adjustment''),
      env_order_adjustment_key = (\<lambda>a. ''order:'' @ OrderStatus_String (OrderAdjustmentID_Status a)),
      env_conversion_text = ConversionID_Reference, env_conversion_key = (\<lambda>c. ''conversion''),
      env_bank_account_key = (\<lambda>b. ''bank''), env_payload_key = (\<lambda>p. ''payload''),
      env_time_text = int_digits, env_encrypt = rev, env_decrypt = rev\<rparr>"

definition ex_psp_payment :: "string \<Rightarrow> string \<Rightarrow> PaymentStatus \<Rightarrow> int \<Rightarrow> PSPPayment" where
  "ex_psp_payment parent reference status amount =
     \<lparr>PSPPayment_ParentReference = parent, PSPPayment_Reference = reference,
      PSPPayment_CreatedAt = 7, PSPPayment_Type = PAYMENT_TYPE_PAYIN,
      PSPPayment_Amount = Some amount, PSPPayment_Asset = ''USD/2'',
      PSPPayment_Scheme = PAYMENT_SCHEME_OTHER, PSPPayment_Status = status,
      PSPPayment_SourceAccountReference = None, PSPPayment_DestinationAccountReference = Some ''acc'',
      PSPPayment_PsuID = None, PSPPayment_OpenBankingConnectionID = None,
      PSPPayment_Metadata = Map.empty, PSPPayment_Raw = Some ''{}''\<rparr>"

definition ex_payment :: "string \<Rightarrow> string \<Rightarrow> PaymentStatus \<Rightarrow> int \<Rightarrow> Payment" where
  "ex_payment parent reference status amount =
     (case FromPSPPaymentToPayment (ex_psp_payment parent reference status amount) ex_connector of
        Inr p \<Rightarrow> p | Inl _ \<Rightarrow> undefined)"

definition ex_db :: db where
  "ex_db = empty_db\<lparr>connectors := [\<lparr>connector_id = ex_connector, connector_name = ''stripe-1'',
     connector_created_at = 1, connector_provider = ''stripe'',
     connector_scheduled_for_deletion = False, connector_config = ''{}'', connector_updated_at = None\<rparr>]\<rparr>"

definition ex_upsert :: "Payment list \<Rightarrow> db \<Rightarrow> db" where
  "ex_upsert ps d = snd (PaymentsUpsert ex_env no_faults ps d)"

lemma ex_asset: "IsValid ''USD/2''" by code_simp

lemma ex_payment_ok [simp]:
  "reference \<noteq> [] \<Longrightarrow>
   FromPSPPaymentToPayment (ex_psp_payment parent reference status amount) ex_connector
     = Inr (ex_payment parent reference status amount)"
  by (cases "FromPSPPaymentToPayment (ex_psp_payment parent reference status amount) ex_connector")
    (auto simp: ex_payment_def FromPSPPaymentToPayment_error_iff ex_psp_payment_def
      PSPPayment_Validate_def time_IsZero_def ex_asset split: if_splits)

lemma ex_payment_simp:
  "reference \<noteq> [] \<Longrightarrow> ex_payment parent reference status amount =
     \<lparr>Payment_ID = \<lparr>PaymentID_PaymentReference = \<lparr>PaymentReference_Reference = (if parent = [] then reference else parent),
          PaymentReference_Type = PAYMENT_TYPE_PAYIN\<rparr>, PaymentID_ConnectorID = ex_connector\<rparr>,
      Payment_ConnectorID = ex_connector,
      Payment_Reference = (if parent = [] then reference else parent),
      Payment_CreatedAt = 7, Payment_Type = PAYMENT_TYPE_PAYIN,
      Payment_InitialAmount = Some amount,
      Payment_Amount = (if status = PAYMENT_STATUS_AUTHORISATION then Some 0 else Some amount),
      Payment_Asset = ''USD/2'', Payment_Scheme = PAYMENT_SCHEME_OTHER, Payment_Status = status,
      Payment_SourceAccountID = None,
      Payment_DestinationAccountID = NewAccountID (Some ''acc'') ex_connector,
      Payment_PsuID = None, Payment_OpenBankingConnectionID = None, Payment_Metadata = Map.empty,
      Payment_Adjustments = [FromPSPPaymentToPaymentAdjustment
        (ex_psp_payment parent reference status amount) ex_connector]\<rparr>"
  using ex_payment_ok[of reference parent status amount]
  by (auto simp: FromPSPPaymentToPayment_def ex_psp_payment_def PSPPayment_Validate_def time_IsZero_def
      ex_asset PSPPayment_HasParent_def NewAccountID_def Let_def split: if_splits)

lemma ex_payments:
  "list_all (\<lambda>(parent, reference, status, amount). reference \<noteq> []) xs \<Longrightarrow>
   FromPSPPayments (map (\<lambda>(parent, reference, status, amount).
       ex_psp_payment parent reference status amount) xs) ex_connector
     = Inr (map (\<lambda>(parent, reference, status, amount). ex_payment parent reference status amount) xs)"
  by (induction xs) (auto simp: FromPSPPayments_def)

lemma ex_payment_fresh: "reference \<noteq> [] \<Longrightarrow>
  fresh_payment (ex_psp_payment parent reference status amount) ex_connector
    (ex_payment parent reference status amount)"
  by (rule FromPSPPaymentToPayment_fresh) simp

lemma ex_keys: "\<forall>i. env_payment_adjustment_key ex_env i \<noteq> []"
  by (simp add: ex_env_def)

lemma ex_accepted:
  assumes "connectors d = connectors ex_db" "reference \<noteq> []"
  shows "batch_accepted ex_env d [ex_payment parent reference status amount]"
  using assms by (simp add: batch_accepted_def ex_payment_simp connector_exists_def psu_ref_ok_def
      connection_ref_ok_def connection_ref_def ex_db_def
      raw_ok_def ex_env_def FromPSPPaymentToPaymentAdjustment_def ex_psp_payment_def Let_def)

lemma ex_upsert_ok:
  assumes "connectors d = connectors ex_db" "reference \<noteq> []"
  shows "PaymentsUpsert ex_env no_faults [ex_payment parent reference status amount] d
    = (Inr (), ex_upsert [ex_payment parent reference status amount] d)"
proof -
  have "payments_fresh [ex_payment parent reference status amount]"
    using ex_payment_fresh[OF assms(2)] by (simp add: payments_fresh_def) blast
  from PaymentsUpsert_runs[OF this ex_accepted[OF assms] ex_keys] show ?thesis
    by (auto simp: ex_upsert_def)
qed

text \<open>An authorisation of 500, a capture of 300 of it and a refund of 100, reported one after the other.\<close>

definition ex_authorised :: "Payment" where
  "ex_authorised = ex_payment [] ''p1'' PAYMENT_STATUS_AUTHORISATION 500"

definition ex_captured :: "Payment" where
  "ex_captured = ex_payment ''p1'' ''p1-capture'' PAYMENT_STATUS_CAPTURE 300"

definition ex_db1 :: db where
  "ex_db1 = ex_upsert [ex_authorised] ex_db"

definition ex_db2 :: db where
  "ex_db2 = ex_upsert [ex_captured] ex_db1"

lemma ex_connectors1: "connectors ex_db1 = connectors ex_db"
  by (simp add: ex_db1_def ex_upsert_def) (code_simp)

lemma ex_upsert1: "PaymentsUpsert ex_env no_faults [ex_authorised] ex_db = (Inr (), ex_db1)"
  unfolding ex_authorised_def ex_db1_def by (rule ex_upsert_ok) simp_all

lemma ex_upsert2: "PaymentsUpsert ex_env no_faults [ex_captured] ex_db1 = (Inr (), ex_db2)"
  unfolding ex_captured_def ex_db2_def by (rule ex_upsert_ok) (simp_all add: ex_connectors1)

end
