(* ===== verification/Payments_Properties.thy ===== *)
theory Payments_Properties
  imports Examples
begin

text \<open>
  What the storage of payments promises, each property with a witness that
  applies it to the sample payment of theory Examples.
\<close>

lemma ex_reachable: "payments_reachable ex_db2"
proof -
  have "payments_step empty_db ex_db"
    by (rule payments_step.elsewhere) (simp_all add: ex_db_def)
  then have r0: "payments_reachable ex_db" by (blast intro: payments_reachable.intros)
  have from1: "FromPSPPayments [ex_psp_payment [] ''p1'' PAYMENT_STATUS_AUTHORISATION 500] ex_connector
      = Inr [ex_authorised]"
    by (simp add: FromPSPPayments_def ex_authorised_def)
  have from2: "FromPSPPayments [ex_psp_payment ''p1'' ''p1-capture'' PAYMENT_STATUS_CAPTURE 300] ex_connector
      = Inr [ex_captured]"
    by (simp add: FromPSPPayments_def ex_captured_def)
  show ?thesis
    by (rule payments_reachable.more[OF payments_reachable.more[OF r0
        payments_step.upsert[OF from1 ex_upsert1]] payments_step.upsert[OF from2 ex_upsert2]])
qed

text \<open>C1: in every database reached by the operations on payments, other
  operations, and the deletions that cascade to payments, a stored payment has
  its adjustments, and its amount is the opening amount of the first of them
  (nothing for an authorisation) plus everything captured or refund-reversed
  minus everything refunded by its adjustments.\<close>

theorem payment_amount_is_ledger:
  assumes "payments_reachable d" "r \<in> set (payments d)"
  shows "adjustments_for (payment_id r) (payment_adjustments d) \<noteq> [] \<and>
    payment_amount r = ledger_amount (adjustments_for (payment_id r) (payment_adjustments d))"
  using ledger_okD(4)[OF payments_reachable_ledger[OF assms(1)] assms(2)]
  by (simp add: payment_row_ok_def)

lemma payment_amount_is_ledger_witness:
  "payment_amount (hd (payments ex_db2)) = 300 \<and>
   payment_amount (hd (payments ex_db2))
     = ledger_amount (adjustments_for (payment_id (hd (payments ex_db2))) (payment_adjustments ex_db2))"
proof -
  have "hd (payments ex_db2) \<in> set (payments ex_db2)" by (rule hd_in_set) code_simp
  note payment_amount_is_ledger[OF ex_reachable this]
  moreover have "payment_amount (hd (payments ex_db2)) = 300" by code_simp
  ultimately show ?thesis by blast
qed

text \<open>C5: replaying an upsert that succeeded succeeds and changes nothing, so a
  retried Temporal activity neither adds an amount twice nor emits an event
  twice.\<close>

theorem PaymentsUpsert_replay:
  assumes "PaymentsUpsert env fl ps d = (Inr (), d')" "distinct (map payment_id (payments d))"
  shows "PaymentsUpsert env no_faults ps d' = (Inr (), d')"
  by (rule PaymentsUpsert_replay_state[OF assms])

lemma PaymentsUpsert_replay_witness:
  "PaymentsUpsert ex_env no_faults [ex_captured] ex_db2 = (Inr (), ex_db2) \<and>
   map payment_amount (payments ex_db2) = [300]"
proof
  show "PaymentsUpsert ex_env no_faults [ex_captured] ex_db2 = (Inr (), ex_db2)"
    by (rule PaymentsUpsert_replay[OF ex_upsert2]) (code_simp)
  show "map payment_amount (payments ex_db2) = [300]" by code_simp
qed

text \<open>C14: an upsert changes the amount of a stored payment by exactly the
  adjustments that were not stored before: those of the batch, first occurrence
  first, whose identifier was absent; nothing else about them is lost, and no
  stored payment or adjustment disappears.\<close>

theorem PaymentsUpsert_amounts:
  assumes "PaymentsUpsert env fl ps d = (Inr (), d')"
  shows "\<exists>new. insert_ignore pa_id (batch_adjustments env ps) (payment_adjustments d)
        = (new, payment_adjustments d @ new) \<and>
      payment_adjustments d' = payment_adjustments d @ new \<and>
      map payment_id (payments d') = map payment_id (inserted_payments env ps d) \<and>
      (\<forall>i. map_option payment_amount (lookup_row payment_id i (payments d')) =
         map_option (\<lambda>r. payment_amount r + (if i \<in> Payment_ID ` set ps then deltas_of i new else 0))
           (lookup_row payment_id i (inserted_payments env ps d)))"
proof -
  from PaymentsUpsert_closed[OF assms] obtain new evs d1 where
    "insert_ignore pa_id (batch_adjustments env ps) (payment_adjustments d)
       = (new, payment_adjustments d @ new)"
    "payment_adjustments d' = payment_adjustments d @ new"
    "\<And>i. lookup_row payment_id i (payments d') =
       map_option (adjusted (initial_amounts env ps) i (if i \<in> Payment_ID ` set ps then deltas_of i new else 0))
         (lookup_row payment_id i (inserted_payments env ps d))"
    "map payment_id (payments d') = map payment_id (inserted_payments env ps d)"
    by metis
  then show ?thesis
    by (intro exI[of _ new]) (simp add: option.map_comp comp_def adjusted_amount)
qed

lemma PaymentsUpsert_amounts_witness:
  "(\<exists>new. payment_adjustments ex_db2 = payment_adjustments ex_db1 @ new) \<and>
   map payment_amount (payments ex_db1) = [0] \<and> map payment_amount (payments ex_db2) = [300]"
proof (intro conjI)
  show "\<exists>new. payment_adjustments ex_db2 = payment_adjustments ex_db1 @ new"
    using PaymentsUpsert_amounts[OF ex_upsert2] by blast
  show "map payment_amount (payments ex_db1) = [0]" by code_simp
  show "map payment_amount (payments ex_db2) = [300]" by code_simp
qed

text \<open>C15: every adjustment an upsert adds has its event recorded when the
  transaction commits, in the outbox or among the sent ones, under the key of
  the adjustment; an upsert that adds no adjustment leaves the outbox alone.\<close>

theorem PaymentsUpsert_emits:
  assumes "PaymentsUpsert env fl ps d = (Inr (), d')" "payments_fresh ps"
  shows "\<exists>new. payment_adjustments d' = payment_adjustments d @ new \<and>
      (\<forall>a\<in>set new. \<exists>p\<in>set ps. Payment_ID p = pa_payment_id a \<and>
         OutboxEvent_ID (payment_event env p a)
           \<in> outbox_id ` set (outbox_events d') \<union> sent_id ` set (events_sent d')) \<and>
      (new = [] \<longrightarrow> outbox_events d' = outbox_events d)"
proof -
  from PaymentsUpsert_closed[OF assms(1)] obtain new evs d1 where
    new: "insert_ignore pa_id (batch_adjustments env ps) (payment_adjustments d)
       = (new, payment_adjustments d @ new)" and
    adj: "payment_adjustments d' = payment_adjustments d @ new" and
    evs: "payment_events env ps new = Inr evs" and
    emit: "OutboxEventsInsert env fl evs d1 = (Inr (), d')" and
    d1: "d1 = d\<lparr>payments := payments d', payment_adjustments := payment_adjustments d'\<rparr>"
    by metis
  have recorded: "\<exists>p\<in>set ps. Payment_ID p = pa_payment_id a \<and> OutboxEvent_ID (payment_event env p a)
      \<in> outbox_id ` set (outbox_events d') \<union> sent_id ` set (events_sent d')" if "a \<in> set new" for a
  proof -
    have "a \<in> set (batch_adjustments env ps)" using ignore_store.new_from[OF new] that by blast
    with batch_rows[OF assms(2)] have "pa_payment_id a \<in> Payment_ID ` set ps" by blast
    then obtain p where p: "paymentMap ps (pa_payment_id a) = Some p"
      by (cases "paymentMap ps (pa_payment_id a)") (simp add: paymentMap_None_iff, blast)
    have "payment_event env p a \<in> set evs" using payment_events_complete[OF evs that p] .
    from outbox.all_recorded[OF emit this] paymentMap_SomeD[OF p] show ?thesis by blast
  qed
  have "outbox_events d' = outbox_events d" if "new = []"
  proof -
    have "d' = d1" using that evs emit by (simp add: outbox.emit_none)
    moreover have "outbox_events d1 = outbox_events d" unfolding d1 by simp
    ultimately show ?thesis by simp
  qed
  with adj recorded show ?thesis by blast
qed

lemma PaymentsUpsert_emits_witness:
  "(\<exists>new. payment_adjustments ex_db2 = payment_adjustments ex_db1 @ new \<and>
     (new = [] \<longrightarrow> outbox_events ex_db2 = outbox_events ex_db1)) \<and>
   map (EventID_EventIdempotencyKey \<circ> outbox_id) (outbox_events ex_db2)
     = [''payment:p1'', ''payment:p1-capture'']"
proof
  have "fresh_payment (ex_psp_payment ''p1'' ''p1-capture'' PAYMENT_STATUS_CAPTURE 300) ex_connector ex_captured"
    unfolding ex_captured_def by (rule ex_payment_fresh) simp
  then have "payments_fresh [ex_captured]" by (simp add: payments_fresh_def) blast
  from PaymentsUpsert_emits[OF ex_upsert2 this]
  show "\<exists>new. payment_adjustments ex_db2 = payment_adjustments ex_db1 @ new \<and>
     (new = [] \<longrightarrow> outbox_events ex_db2 = outbox_events ex_db1)" by blast
  show "map (EventID_EventIdempotencyKey \<circ> outbox_id) (outbox_events ex_db2)
     = [''payment:p1'', ''payment:p1-capture'']" by code_simp
qed

text \<open>C29: what the program builds from a connector's answer is stored: when the
  database raises no fault, the connector, user and open banking connection exist
  and the raw messages are JSON, PaymentsUpsert succeeds on any database, whatever the batch repeats.\<close>

theorem PaymentsUpsert_succeeds:
  assumes "FromPSPPayments from c = Inr ps" "batch_accepted env d ps"
    "\<forall>i. env_payment_adjustment_key env i \<noteq> []"
  shows "\<exists>d'. PaymentsUpsert env no_faults ps d = (Inr (), d')"
  using PaymentsUpsert_runs[OF FromPSPPayments_fresh[OF assms(1)] assms(2,3)] .

lemma PaymentsUpsert_succeeds_witness:
  "\<exists>d'. PaymentsUpsert ex_env no_faults [ex_captured, ex_captured] ex_db = (Inr (), d')"
proof (rule PaymentsUpsert_succeeds)
  show "FromPSPPayments [ex_psp_payment ''p1'' ''p1-capture'' PAYMENT_STATUS_CAPTURE 300,
      ex_psp_payment ''p1'' ''p1-capture'' PAYMENT_STATUS_CAPTURE 300] ex_connector
      = Inr [ex_captured, ex_captured]"
    by (simp add: FromPSPPayments_def ex_captured_def)
  show "batch_accepted ex_env ex_db [ex_captured, ex_captured]"
    using ex_accepted[of ex_db "''p1-capture''" "''p1''" PAYMENT_STATUS_CAPTURE 300]
    by (simp add: batch_accepted_def ex_captured_def)
  show "\<forall>i. env_payment_adjustment_key ex_env i \<noteq> []" by (rule ex_keys)
qed

text \<open>A payment whose first report is a capture is stored with twice the
  captured amount: the insert takes the amount of the report, and the new
  adjustment then adds it again.\<close>

theorem first_capture_counts_twice:
  assumes "FromPSPPaymentToPayment from c = Inr p" "PSPPayment_Status from = PAYMENT_STATUS_CAPTURE"
    "PSPPayment_Amount from = Some x" "PaymentsUpsert env fl [p] d = (Inr (), d')"
    "\<not> has_key payment_id (Payment_ID p) (payments d)"
    "\<not> has_key pa_id (PaymentAdjustment_ID (hd (Payment_Adjustments p))) (payment_adjustments d)"
  shows "map_option payment_amount (lookup_row payment_id (Payment_ID p) (payments d')) = Some (2 * x)"
proof -
  from FromPSPPaymentToPayment_fresh[OF assms(1)] assms(2,3) obtain a where
    a: "Payment_Adjustments p = [a]" "PaymentAdjustmentID_PaymentID (PaymentAdjustment_ID a) = Payment_ID p"
      "PaymentAdjustment_Amount a = Some x" "PaymentAdjustment_Status a = PAYMENT_STATUS_CAPTURE"
      "Payment_Amount p = Some x"
    by (auto simp: fresh_payment_def)
  let ?a = "fromPaymentAdjustmentModels env a"
  have b: "batch_adjustments env [p] = [?a]" by (simp add: batch_adjustments_def a)
  from PaymentsUpsert_closed[OF assms(4)] obtain new evs d1 where
    new: "insert_ignore pa_id (batch_adjustments env [p]) (payment_adjustments d)
       = (new, payment_adjustments d @ new)" and
    look: "lookup_row payment_id (Payment_ID p) (payments d') =
       map_option (adjusted (initial_amounts env [p]) (Payment_ID p)
         (if Payment_ID p \<in> Payment_ID ` set [p] then deltas_of (Payment_ID p) new else 0))
         (lookup_row payment_id (Payment_ID p) (inserted_payments env [p] d))"
    by metis
  from new assms(6) have "new = [?a]" by (auto simp: b a)
  then have "deltas_of (Payment_ID p) new = x"
    by (simp add: a payment_delta_def captured_by_def refunded_by_def amount_or_zero_def)
  with look assms(5) show ?thesis
    by (simp add: lookup_inserted_payments adjusted_amount a amount_or_zero_def)
qed

lemma first_capture_counts_twice_witness:
  "map_option payment_amount (lookup_row payment_id (Payment_ID ex_captured)
     (payments (ex_upsert [ex_captured] ex_db))) = Some 600"
proof -
  have f: "FromPSPPaymentToPayment (ex_psp_payment ''p1'' ''p1-capture'' PAYMENT_STATUS_CAPTURE 300) ex_connector
    = Inr ex_captured" by (simp add: ex_captured_def)
  have u: "PaymentsUpsert ex_env no_faults [ex_captured] ex_db = (Inr (), ex_upsert [ex_captured] ex_db)"
    unfolding ex_captured_def by (rule ex_upsert_ok) simp_all
  from first_capture_counts_twice[OF f _ _ u, of 300] show ?thesis
    by (simp add: ex_psp_payment_def ex_db_def empty_db_def)
qed

end
