(* ===== verification/Outbox_Machine.thy ===== *)
theory Outbox_Machine
  imports Outbox
begin

text \<open>
  The life of outbox events as a state machine: storage functions emit events
  in their own transactions while the publisher polls a batch, publishes its
  events one by one, marks the failures at once and records the successes at
  the end; it can stop at any point.  The invariant relates the outbox, the
  events recorded as sent and the events the broker accepted.
\<close>

section \<open>States and steps\<close>

datatype publisher = Idle | Busy "OutboxEvent list" "EventSent list"

text \<open>world_log is a ghost: the identifiers of the events the broker accepted.\<close>

record world =
  world_db :: db
  world_publisher :: publisher
  world_log :: "EventID list"

definition sent_record :: "env \<Rightarrow> OutboxEvent \<Rightarrow> EventSent" where
  "sent_record env e =
     \<lparr>EventSent_ID = OutboxEvent_ID e, EventSent_ConnectorID = OutboxEvent_ConnectorID e,
      EventSent_SentAt = env_now env\<rparr>"

inductive outbox_step :: "world \<Rightarrow> world \<Rightarrow> bool" where
  emit: "OutboxEventsInsert env fl evs (world_db w) = (Inr u, d') \<Longrightarrow>
     \<forall>e\<in>set evs. OutboxEvent_Status e = OUTBOX_STATUS_PENDING \<Longrightarrow>
     outbox_step w (w\<lparr>world_db := d'\<rparr>)"
| poll: "world_publisher w = Idle \<Longrightarrow>
     OutboxEventsPollPending fl limit (world_db w) = (Inr evs, d') \<Longrightarrow>
     outbox_step w (w\<lparr>world_publisher := Busy evs []\<rparr>)"
| accepted: "world_publisher w = Busy (e # es) acc \<Longrightarrow>
     outbox_step w (w\<lparr>world_publisher := Busy es (sent_record env e # acc),
                      world_log := OutboxEvent_ID e # world_log w\<rparr>)"
| refused: "world_publisher w = Busy (e # es) acc \<Longrightarrow>
     OutboxEventsMarkFailed env fl (OutboxEvent_ID e) (OutboxEvent_RetryCount e + 1) err nr
       (world_db w) = (Inr u, d') \<Longrightarrow>
     outbox_step w (w\<lparr>world_db := d', world_publisher := Busy es acc\<rparr>)"
| finish: "world_publisher w = Busy [] acc \<Longrightarrow>
     OutboxEventsMarkProcessedAndRecordSent env fl (map EventSent_ID (rev acc)) (rev acc)
       (world_db w) = (Inr u, d') \<Longrightarrow>
     outbox_step w (w\<lparr>world_db := d', world_publisher := Idle\<rparr>)"
| abandon: "outbox_step w (w\<lparr>world_publisher := Idle\<rparr>)"
| clean: "OutboxEventsDeleteOldProcessed fl t (world_db w) = (Inr u, d') \<Longrightarrow>
     outbox_step w (w\<lparr>world_db := d'\<rparr>)"

inductive outbox_reachable :: "world \<Rightarrow> bool" where
  start: "outbox_events d = [] \<Longrightarrow> events_sent d = [] \<Longrightarrow>
     outbox_reachable \<lparr>world_db = d, world_publisher = Idle, world_log = []\<rparr>"
| more: "outbox_reachable w \<Longrightarrow> outbox_step w w' \<Longrightarrow> outbox_reachable w'"

section \<open>The invariant\<close>

text \<open>
  Identifiers are unique; a row is processed exactly when its identifier is
  recorded as sent; what is recorded as sent was accepted by the broker; the
  batch the publisher holds consists of pending rows.
\<close>

definition rows_ok :: "db \<Rightarrow> bool" where
  "rows_ok d \<longleftrightarrow>
     distinct (map outbox_id (outbox_events d)) \<and> distinct (map sent_id (events_sent d)) \<and>
     (\<forall>r\<in>set (outbox_events d).
        outbox_status r = OUTBOX_STATUS_PROCESSED \<longleftrightarrow> outbox_id r \<in> sent_id ` set (events_sent d))"

definition pending_ids :: "db \<Rightarrow> EventID set" where
  "pending_ids d = outbox_id ` {r \<in> set (outbox_events d). outbox_status r = OUTBOX_STATUS_PENDING}"

fun batch_ids :: "publisher \<Rightarrow> EventID list" where
  "batch_ids Idle = []"
| "batch_ids (Busy todo acc) = map OutboxEvent_ID todo @ map EventSent_ID acc"

fun accepted_ids :: "publisher \<Rightarrow> EventID list" where
  "accepted_ids Idle = []"
| "accepted_ids (Busy todo acc) = map EventSent_ID acc"

definition outbox_inv :: "world \<Rightarrow> bool" where
  "outbox_inv w \<longleftrightarrow>
     rows_ok (world_db w) \<and>
     sent_id ` set (events_sent (world_db w)) \<subseteq> set (world_log w) \<and>
     distinct (batch_ids (world_publisher w)) \<and>
     set (batch_ids (world_publisher w)) \<subseteq> pending_ids (world_db w) \<and>
     set (accepted_ids (world_publisher w)) \<subseteq> set (world_log w)"

lemma pending_ids_update [simp]:
  "pending_ids (d\<lparr>events_sent := x\<rparr>) = pending_ids d"
  by (simp add: pending_ids_def)

lemma emit_rows:
  assumes "OutboxEventsInsert env fl evs d = (Inr u, d')"
    "\<forall>e\<in>set evs. OutboxEvent_Status e = OUTBOX_STATUS_PENDING" "rows_ok d"
  shows "rows_ok d'" "events_sent d' = events_sent d" "pending_ids d \<subseteq> pending_ids d'"
proof -
  from outbox.emit_ok[OF assms(1)] obtain new where
    d': "d' = d\<lparr>outbox_events := outbox_events d @ new\<rparr>" and
    ids: "outbox_id ` set new = OutboxEvent_ID ` set evs
      - sent_id ` set (events_sent d) - outbox_id ` set (outbox_events d)" and
    st: "\<forall>r\<in>set new. \<exists>e\<in>set evs. outbox_id r = OutboxEvent_ID e \<and>
      outbox_status r = OutboxEvent_Status e \<and> outbox_payload r = OutboxEvent_Payload e" by blast
  show "events_sent d' = events_sent d" by (simp add: d')
  show "pending_ids d \<subseteq> pending_ids d'" by (auto simp: d' pending_ids_def)
  have new: "outbox_status r = OUTBOX_STATUS_PENDING \<and> outbox_id r \<notin> sent_id ` set (events_sent d)"
    if "r \<in> set new" for r
  proof
    from st that assms(2) show "outbox_status r = OUTBOX_STATUS_PENDING" by fastforce
    have "outbox_id r \<in> outbox_id ` set new" using that by blast
    then show "outbox_id r \<notin> sent_id ` set (events_sent d)" unfolding ids by blast
  qed
  have "distinct (map outbox_id (outbox_events d'))"
    using outbox.keeps_distinct[OF assms(1)] assms(3) by (simp add: rows_ok_def)
  with assms(3) new show "rows_ok d'" by (auto simp: rows_ok_def d')
qed

lemma mark_failed_rows:
  assumes "OutboxEventsMarkFailed env fl i n err nr d = (Inr u, d')" "rows_ok d" "i \<in> pending_ids d"
  shows "rows_ok d'" "events_sent d' = events_sent d" "pending_ids d - {i} \<subseteq> pending_ids d'"
proof -
  let ?f = "MarkFailed_row env n err nr"
  from assms(1) have d': "d' = d\<lparr>outbox_events :=
      update_where (\<lambda>r. outbox_id r = i) ?f (outbox_events d)\<rparr>"
    by (simp add: OutboxEventsMarkFailed_def)
  show "events_sent d' = events_sent d" by (simp add: d')
  have f: "outbox_id (?f r) = outbox_id r" "outbox_status (?f r) \<noteq> OUTBOX_STATUS_PROCESSED" for r
    by (simp_all add: MarkFailed_row_def)
  show "pending_ids d - {i} \<subseteq> pending_ids d'"
    by (auto simp: d' pending_ids_def update_where_def image_iff)
  from assms(3) obtain r0 where "r0 \<in> set (outbox_events d)" "outbox_id r0 = i"
      "outbox_status r0 = OUTBOX_STATUS_PENDING" by (auto simp: pending_ids_def)
  with assms(2) have i: "i \<notin> sent_id ` set (events_sent d)" by (auto simp: rows_ok_def)
  have "map outbox_id (update_where (\<lambda>r. outbox_id r = i) ?f (outbox_events d))
      = map outbox_id (outbox_events d)"
    by (rule map_key_update_where) (simp add: f)
  with assms(2) have "distinct (map outbox_id (outbox_events d'))" by (simp add: rows_ok_def d')
  moreover have "outbox_status r = OUTBOX_STATUS_PROCESSED
      \<longleftrightarrow> outbox_id r \<in> sent_id ` set (events_sent d)" if r: "r \<in> set (outbox_events d')" for r
  proof -
    from r obtain r0 where "r0 \<in> set (outbox_events d)" "r = (if outbox_id r0 = i then ?f r0 else r0)"
      by (auto simp: d' update_where_def)
    with assms(2) i f show ?thesis by (auto simp: rows_ok_def)
  qed
  ultimately show "rows_ok d'" using assms(2) by (simp add: rows_ok_def d')
qed

lemma MarkProcessed_effect:
  assumes "OutboxEventsMarkProcessedAndRecordSent env fl ids sent d = (Inr u, d')" "ids \<noteq> []"
  shows "\<exists>new. insert_sent_rows (map (fromEventSentModel env) sent) (mark_processed ids d) = (new, d')"
  using assms
  by (auto simp: OutboxEventsMarkProcessedAndRecordSent_def tx_inr insert_sent_stmt_def Let_def
      insert_sent_rows_def split: if_splits prod.splits)

lemma mark_processed_rows:
  assumes "OutboxEventsMarkProcessedAndRecordSent env fl (map EventSent_ID sent) sent d = (Inr u, d')"
    and ok: "rows_ok d"
  shows "rows_ok d'"
    "sent_id ` set (events_sent d') = sent_id ` set (events_sent d) \<union> EventSent_ID ` set sent"
proof -
  have "rows_ok d' \<and> sent_id ` set (events_sent d')
      = sent_id ` set (events_sent d) \<union> EventSent_ID ` set sent"
  proof (cases "sent = []")
    case True
    with assms show ?thesis by (simp add: OutboxEventsMarkProcessedAndRecordSent_def)
  next
    case False
    with MarkProcessed_effect[OF assms(1)] obtain new where
      i: "insert_sent_rows (map (fromEventSentModel env) sent)
            (mark_processed (map EventSent_ID sent) d) = (new, d')" by auto
    let ?d = "mark_processed (map EventSent_ID sent) d"
    have es: "events_sent ?d = events_sent d" by (simp add: mark_processed_def)
    have ob: "outbox_events d' = outbox_events ?d"
      using i by (auto simp: insert_sent_rows_def split: prod.splits)
    have ids: "map outbox_id (outbox_events ?d) = map outbox_id (outbox_events d)"
      by (simp add: mark_processed_def)
    have sent: "sent_id ` set (events_sent d')
        = sent_id ` set (events_sent d) \<union> EventSent_ID ` set sent"
      using sent_store.appends[OF i] sent_store.new_keys[OF i]
      by (simp add: es image_Un image_image)
    have "distinct (map sent_id (events_sent d'))"
      using sent_store.keeps_keys_distinct[OF _ i] ok by (simp add: rows_ok_def es)
    moreover have "outbox_status r = OUTBOX_STATUS_PROCESSED \<longleftrightarrow> outbox_id r \<in> sent_id ` set (events_sent d')"
      if r: "r \<in> set (outbox_events d')" for r
    proof -
      from r obtain r0 where r0: "r0 \<in> set (outbox_events d)"
        "r = (if outbox_id r0 \<in> EventSent_ID ` set sent
              then r0\<lparr>outbox_status := OUTBOX_STATUS_PROCESSED\<rparr> else r0)"
        unfolding ob by (auto simp: mark_processed_def update_where_def)
      with ok have "outbox_status r0 = OUTBOX_STATUS_PROCESSED
          \<longleftrightarrow> outbox_id r0 \<in> sent_id ` set (events_sent d)" by (auto simp: rows_ok_def)
      with r0(2) show ?thesis unfolding sent by auto
    qed
    ultimately show ?thesis using ok sent ids by (simp add: rows_ok_def ob)
  qed
  then show "rows_ok d'"
    "sent_id ` set (events_sent d') = sent_id ` set (events_sent d) \<union> EventSent_ID ` set sent"
    by simp_all
qed

lemma clean_rows:
  assumes "OutboxEventsDeleteOldProcessed fl t d = (Inr u, d')" "rows_ok d"
  shows "rows_ok d'" "events_sent d' = events_sent d" "pending_ids d' = pending_ids d"
proof -
  from assms(1) have d': "d' = d\<lparr>outbox_events :=
      delete_where (\<lambda>r. outbox_status r = OUTBOX_STATUS_PROCESSED \<and> outbox_created_at r < t)
        (outbox_events d)\<rparr>"
    by (simp add: OutboxEventsDeleteOldProcessed_def)
  show "events_sent d' = events_sent d" by (simp add: d')
  show "pending_ids d' = pending_ids d" by (auto simp: d' pending_ids_def)
  from assms(2) show "rows_ok d'" by (auto simp: rows_ok_def d')
qed

lemma poll_batch:
  assumes "OutboxEventsPollPending fl limit d = (Inr evs, d')" "rows_ok d"
  shows "d' = d" "distinct (map OutboxEvent_ID evs)" "set (map OutboxEvent_ID evs) \<subseteq> pending_ids d"
proof -
  let ?rows = "take limit (sort_key outbox_created_at
      (filter (\<lambda>r. outbox_status r = OUTBOX_STATUS_PENDING) (outbox_events d)))"
  from assms(1) show "d' = d" by (simp add: OutboxEventsPollPending_def)
  from assms(1) have evs: "evs = map toOutboxEventModel ?rows"
    by (auto simp: OutboxEventsPollPending_def)
  have ids: "map OutboxEvent_ID evs = map outbox_id ?rows"
    by (simp add: evs comp_def)
  have inj: "inj_on outbox_id (set (outbox_events d))" and dist: "distinct (outbox_events d)"
    using assms(2) by (simp_all add: rows_ok_def distinct_map)
  have sub: "set ?rows \<subseteq> {r \<in> set (outbox_events d). outbox_status r = OUTBOX_STATUS_PENDING}"
    using set_take_subset by fastforce
  have "distinct ?rows" using dist by (simp add: distinct_take)
  moreover have "inj_on outbox_id (set ?rows)" using inj sub by (auto intro: inj_on_subset)
  ultimately show "distinct (map OutboxEvent_ID evs)" by (simp only: ids distinct_map)
  show "set (map OutboxEvent_ID evs) \<subseteq> pending_ids d"
    unfolding ids using sub by (auto simp: pending_ids_def)
qed

lemma outbox_step_preserves:
  assumes "outbox_step w w'" "outbox_inv w"
  shows "outbox_inv w'"
  using assms
proof (induction rule: outbox_step.induct)
  case (emit env fl evs w u d')
  with emit_rows[OF emit(1,2)] show ?case by (auto simp: outbox_inv_def)
next
  case (poll w fl limit evs d')
  with poll_batch[OF poll(2)] show ?case by (simp add: outbox_inv_def)
next
  case (accepted w e es acc env)
  then show ?case by (auto simp: outbox_inv_def sent_record_def)
next
  case (refused w e es acc env fl err nr u d')
  then have "rows_ok (world_db w)" "OutboxEvent_ID e \<in> pending_ids (world_db w)"
    by (simp_all add: outbox_inv_def)
  note * = mark_failed_rows[OF refused(2) this]
  have "set (map OutboxEvent_ID es @ map EventSent_ID acc) \<subseteq> pending_ids (world_db w) - {OutboxEvent_ID e}"
    using refused by (simp add: outbox_inv_def subset_Diff_insert)
  from subset_trans[OF this *(3)] *(1,2) refused show ?case by (simp add: outbox_inv_def)
next
  case (finish w acc env fl u d')
  then have "rows_ok (world_db w)" by (simp add: outbox_inv_def)
  note * = mark_processed_rows[OF finish(2) this]
  with finish show ?case by (auto simp: outbox_inv_def)
next
  case (abandon w)
  then show ?case by (simp add: outbox_inv_def)
next
  case (clean fl t w u d')
  then have "rows_ok (world_db w)" by (simp add: outbox_inv_def)
  from clean_rows[OF clean(1) this] clean show ?case by (simp add: outbox_inv_def)
qed

lemma outbox_reachable_inv: "outbox_reachable w \<Longrightarrow> outbox_inv w"
proof (induction rule: outbox_reachable.induct)
  case (start d)
  then show ?case by (simp add: outbox_inv_def rows_ok_def)
next
  case (more w w')
  then show ?case by (blast intro: outbox_step_preserves)
qed

section \<open>The publishing activity is a path of the machine\<close>

abbreviation world :: "db \<Rightarrow> publisher \<Rightarrow> EventID list \<Rightarrow> world" where
  "world d p l \<equiv> \<lparr>world_db = d, world_publisher = p, world_log = l\<rparr>"

lemma step_accepted:
  "outbox_step (world d (Busy (e # es) acc) l)
     (world d (Busy es (sent_record env e # acc)) (OutboxEvent_ID e # l))"
  using outbox_step.accepted[of "world d (Busy (e # es) acc) l" e es acc env] by simp

lemma step_refused:
  "OutboxEventsMarkFailed env fl (OutboxEvent_ID e) (OutboxEvent_RetryCount e + 1) err nr d = (Inr u, d') \<Longrightarrow>
   outbox_step (world d (Busy (e # es) acc) l) (world d' (Busy es acc) l)"
  using outbox_step.refused[of "world d (Busy (e # es) acc) l" e es acc env fl err nr u d'] by simp

lemma publish_loop_path:
  "publish_loop env fl publish es acc d = (r, d') \<Longrightarrow>
     \<exists>p l'. outbox_step\<^sup>*\<^sup>* (world d (Busy es acc) l) (world d' p l') \<and>
       (\<forall>sent. r = Inr sent \<longrightarrow> p = Busy [] (rev sent))"
proof (induction es arbitrary: acc d l)
  case Nil
  then have "d' = d" "r = Inr (rev acc)" by simp_all
  then show ?case by (intro exI[of _ "Busy [] acc"] exI[of _ l]) simp
next
  case (Cons e es)
  show ?case
  proof (cases "publish e")
    case Published
    with Cons.prems have "publish_loop env fl publish es (sent_record env e # acc) d = (r, d')"
      by (simp add: sent_record_def)
    from Cons.IH[OF this, of "OutboxEvent_ID e # l"] step_accepted[of d e es acc l env]
    show ?thesis by (meson converse_rtranclp_into_rtranclp)
  next
    case (PublishError err nr)
    obtain q d1 where m: "OutboxEventsMarkFailed env fl (OutboxEvent_ID e)
        (OutboxEvent_RetryCount e + 1) err nr d = (q, d1)" by fastforce
    show ?thesis
    proof (cases q)
      case (Inl x)
      with m have "d1 = d" by (auto simp: OutboxEventsMarkFailed_def stmt_def split: option.splits)
      with Cons.prems PublishError m Inl have "d' = d" "\<exists>x. r = Inl x" by auto
      then show ?thesis by (intro exI[of _ "Busy (e # es) acc"] exI[of _ l]) auto
    next
      case (Inr u)
      with Cons.prems PublishError m have "publish_loop env fl publish es acc d1 = (r, d')" by simp
      from Cons.IH[OF this, of l] step_refused[OF m[unfolded Inr], of es acc l]
      show ?thesis by (meson converse_rtranclp_into_rtranclp)
    qed
  qed
qed

lemma step_abandon: "outbox_step (world d p l) (world d Idle l)"
  using outbox_step.abandon[of "world d p l"] by simp

lemma MarkProcessed_atomic:
  "OutboxEventsMarkProcessedAndRecordSent env fl ids sent d = (Inl err, d') \<Longrightarrow> d' = d"
  by (auto simp: OutboxEventsMarkProcessedAndRecordSent_def dest: in_tx_rollback split: if_splits)

lemma publish_activity_path:
  assumes "OutboxPublishPendingEvents env fl publish limit d = (r, d')"
  shows "\<exists>l'. outbox_step\<^sup>*\<^sup>* (world d Idle l) (world d' Idle l')"
proof -
  obtain q d1 where p: "OutboxEventsPollPending fl limit d = (q, d1)" by fastforce
  have d1: "d1 = d"
    using p by (auto simp: OutboxEventsPollPending_def stmt_def split: option.splits)
  show ?thesis
  proof (cases q)
    case (Inl x)
    with p assms d1 show ?thesis
      by (auto simp: OutboxPublishPendingEvents_def tx_bind_def tx_wrap_def)
  next
    case (Inr evs)
    from outbox_step.poll[of "world d Idle l" fl limit evs d1] p Inr
    have poll: "outbox_step (world d Idle l) (world d (Busy evs []) l)" by simp
    obtain q2 d2 where lp: "publish_loop env fl publish evs [] d = (q2, d2)" by fastforce
    from publish_loop_path[OF lp, of l] obtain pub l' where
      path: "outbox_step\<^sup>*\<^sup>* (world d (Busy evs []) l) (world d2 pub l')" and
      pub: "\<forall>sent. q2 = Inr sent \<longrightarrow> pub = Busy [] (rev sent)" by blast
    from poll path have whole: "outbox_step\<^sup>*\<^sup>* (world d Idle l) (world d2 pub l')" by simp
    have stop: "\<exists>l'. outbox_step\<^sup>*\<^sup>* (world d Idle l) (world d' Idle l')" if "d' = d2"
      using whole step_abandon[of d2 pub l'] that by (meson rtranclp.rtrancl_into_rtrancl)
    show ?thesis
    proof (cases "evs = []")
      case True
      with assms p Inr d1 lp show ?thesis
        by (intro stop) (simp add: OutboxPublishPendingEvents_def tx_bind_def tx_wrap_def)
    next
      case False
      show ?thesis
      proof (cases q2)
        case (Inl x)
        with False assms p Inr d1 lp show ?thesis
          by (intro stop) (simp add: OutboxPublishPendingEvents_def tx_bind_def tx_wrap_def)
      next
        case sent: (Inr sent)
        show ?thesis
        proof (cases "sent = []")
          case True
          with sent False assms p Inr d1 lp show ?thesis
            by (intro stop) (simp add: OutboxPublishPendingEvents_def tx_bind_def tx_wrap_def)
        next
          case ne: False
          obtain q3 d3 where m: "OutboxEventsMarkProcessedAndRecordSent env fl
              (map EventSent_ID sent) sent d2 = (q3, d3)" by fastforce
          from sent ne False assms p Inr d1 lp m have d3: "d' = d3"
            by (cases q3) (simp_all add: OutboxPublishPendingEvents_def tx_bind_def tx_wrap_def)
          show ?thesis
          proof (cases q3)
            case (Inl x)
            with m d3 show ?thesis by (intro stop) (simp add: MarkProcessed_atomic)
          next
            case (Inr u)
            with m d3 have "outbox_step (world d2 (Busy [] (rev sent)) l') (world d' Idle l')"
              using outbox_step.finish[of "world d2 (Busy [] (rev sent)) l'" "rev sent" env fl u d3]
              by simp
            moreover from pub sent have "pub = Busy [] (rev sent)" by simp
            ultimately show ?thesis using whole by (blast intro: rtranclp.rtrancl_into_rtrancl)
          qed
        qed
      qed
    qed
  qed
qed

end
