(* ===== verification/Outbox_Properties.thy ===== *)
theory Outbox_Properties
  imports Outbox_Machine Examples
begin

text \<open>
  What the transactional outbox promises: nothing is recorded as sent that the
  broker did not accept, an emitted event is never lost, a run of the publishing
  activity that meets no fault empties the outbox, and an event the broker keeps
  refusing leaves the queue after MaxOutboxRetries attempts.
\<close>

section \<open>Nothing is lost\<close>

definition recorded_ids :: "db \<Rightarrow> EventID set" where
  "recorded_ids d = outbox_id ` set (outbox_events d) \<union> sent_id ` set (events_sent d)"

lemma recorded_ids_map:
  "map outbox_id (outbox_events d') = map outbox_id (outbox_events d) \<Longrightarrow>
     events_sent d' = events_sent d \<Longrightarrow> recorded_ids d' = recorded_ids d"
  unfolding recorded_ids_def by (metis list.set_map)

lemma mark_failed_recorded:
  assumes "OutboxEventsMarkFailed env fl i n err nr d = (Inr u, d')"
  shows "recorded_ids d' = recorded_ids d"
proof (rule recorded_ids_map)
  from assms have d': "d' = d\<lparr>outbox_events :=
      update_where (\<lambda>r. outbox_id r = i) (MarkFailed_row env n err nr) (outbox_events d)\<rparr>"
    by (simp add: OutboxEventsMarkFailed_def)
  then show "events_sent d' = events_sent d" by simp
  show "map outbox_id (outbox_events d') = map outbox_id (outbox_events d)"
    by (simp add: d' map_key_update_where MarkFailed_row_def)
qed

lemma mark_processed_recorded:
  assumes "OutboxEventsMarkProcessedAndRecordSent env fl ids sent d = (Inr u, d')"
  shows "map outbox_id (outbox_events d') = map outbox_id (outbox_events d) \<and>
    set (events_sent d) \<subseteq> set (events_sent d') \<and> pending_ids d' \<subseteq> pending_ids d"
proof (cases "ids = []")
  case True
  with assms show ?thesis by (simp add: OutboxEventsMarkProcessedAndRecordSent_def)
next
  case False
  from MarkProcessed_effect[OF assms False] obtain new where
    i: "insert_sent_rows (map (fromEventSentModel env) sent) (mark_processed ids d) = (new, d')" by blast
  have "outbox_events d' = outbox_events (mark_processed ids d)"
    using i by (auto simp: insert_sent_rows_def split: prod.splits)
  moreover have "events_sent d' = events_sent d @ new"
    using sent_store.appends[OF i] by (simp add: mark_processed_def)
  moreover have "pending_ids (mark_processed ids d) \<subseteq> pending_ids d"
    by (auto simp: pending_ids_def mark_processed_def update_where_def)
  ultimately show ?thesis by (simp add: mark_processed_def map_key_update_where pending_ids_def)
qed

lemma clean_recorded:
  assumes "OutboxEventsDeleteOldProcessed fl t d = (Inr u, d')" "rows_ok d"
  shows "recorded_ids d \<subseteq> recorded_ids d'"
proof
  fix i assume "i \<in> recorded_ids d"
  from assms(1) have d': "d' = d\<lparr>outbox_events :=
      delete_where (\<lambda>r. outbox_status r = OUTBOX_STATUS_PROCESSED \<and> outbox_created_at r < t)
        (outbox_events d)\<rparr>"
    by (simp add: OutboxEventsDeleteOldProcessed_def)
  from \<open>i \<in> recorded_ids d\<close> consider "i \<in> sent_id ` set (events_sent d)"
    | r where "r \<in> set (outbox_events d)" "i = outbox_id r" by (auto simp: recorded_ids_def)
  then show "i \<in> recorded_ids d'"
  proof cases
    case 1
    then show ?thesis by (simp add: recorded_ids_def d')
  next
    case 2
    show ?thesis
    proof (cases "outbox_status r = OUTBOX_STATUS_PROCESSED")
      case True
      with assms(2) 2 have "i \<in> sent_id ` set (events_sent d)" by (simp add: rows_ok_def)
      then show ?thesis by (simp add: recorded_ids_def d')
    next
      case False
      with 2 have "r \<in> set (outbox_events d')" by (simp add: d')
      with 2 show ?thesis by (simp add: recorded_ids_def)
    qed
  qed
qed

lemma step_keeps_recorded:
  assumes "outbox_step w w'" "outbox_inv w"
  shows "recorded_ids (world_db w) \<subseteq> recorded_ids (world_db w')"
  using assms(1)
proof cases
  case (emit env fl evs u d')
  from outbox.keeps_rows[OF emit(2)] emit_rows(2)[OF emit(2,3)] assms(2)
  show ?thesis using emit(1) by (auto simp: recorded_ids_def outbox_inv_def)
next
  case (refused e es acc env fl err nr u d')
  then show ?thesis using mark_failed_recorded[OF refused(3)] by simp
next
  case (finish acc env fl u d')
  from mark_processed_recorded[OF finish(3)]
  have "outbox_id ` set (outbox_events d') = outbox_id ` set (outbox_events (world_db w))"
    "sent_id ` set (events_sent (world_db w)) \<subseteq> sent_id ` set (events_sent d')"
    by (metis list.set_map, blast)
  then show ?thesis using finish(1) by (simp add: recorded_ids_def) blast
next
  case (clean fl t u d')
  then show ?thesis using clean_recorded[OF clean(2)] assms(2) by (simp add: outbox_inv_def)
qed simp_all

lemma filter_update_where_other:
  "(\<And>q. key (f q) = key q) \<Longrightarrow>
     filter (\<lambda>q. key q \<noteq> k) (update_where (\<lambda>q. key q = k) f tbl) = filter (\<lambda>q. key q \<noteq> k) tbl"
  by (induction tbl) (simp_all add: update_where_def)

section \<open>A run without faults\<close>

lemma publish_loop_all:
  "publish_loop env fl (\<lambda>_. Published) es acc d = (Inr (rev acc @ map (sent_record env) es), d)"
  by (induction es arbitrary: acc) (simp_all add: sent_record_def)

definition polled :: "nat \<Rightarrow> db \<Rightarrow> outbox_row list" where
  "polled limit d = take limit (sort_key outbox_created_at
     (filter (\<lambda>r. outbox_status r = OUTBOX_STATUS_PENDING) (outbox_events d)))"

lemma polled_pending:
  "r \<in> set (polled limit d) \<Longrightarrow> r \<in> set (outbox_events d) \<and> outbox_status r = OUTBOX_STATUS_PENDING"
  unfolding polled_def by (drule in_set_takeD) simp

lemma poll_polled: "OutboxEventsPollPending no_faults limit d = (Inr (map toOutboxEventModel (polled limit d)), d)"
  by (simp add: OutboxEventsPollPending_def polled_def)

lemma polled_all:
  assumes "length (filter (\<lambda>r. outbox_status r = OUTBOX_STATUS_PENDING) (outbox_events d)) \<le> limit"
  shows "outbox_id ` set (polled limit d) = pending_ids d"
  using assms by (simp add: polled_def pending_ids_def)

lemma MarkProcessed_succeeds:
  assumes "length ids = length sent" "\<forall>e\<in>set sent. connector_ref_ok d (EventSent_ConnectorID e)"
  shows "\<exists>d'. OutboxEventsMarkProcessedAndRecordSent env no_faults ids sent d = (Inr (), d')"
proof -
  obtain ins d1 where
    i: "insert_sent_rows (map (fromEventSentModel env) sent) (mark_processed ids d) = (ins, d1)" by fastforce
  have "set ins \<subseteq> set (map (fromEventSentModel env) sent)" by (rule sent_store.new_from[OF i])
  then have "connector_ref_ok (mark_processed ids d) (sent_connector_id r)" if "r \<in> set ins" for r
    using that assms(2)
    by (auto simp: fromEventSentModel_def mark_processed_def connector_ref_ok_def connector_exists_def
        split: option.splits)
  then have "list_all (\<lambda>r. connector_ref_ok (mark_processed ids d) (sent_connector_id r)) ins"
    by (simp add: list_all_iff)
  with i assms(1) show ?thesis
    by (auto simp: OutboxEventsMarkProcessedAndRecordSent_def in_tx_no_faults tx_seq_def tx_bind_def
        insert_sent_stmt_def Let_def)
qed

lemma publish_run:
  assumes "rows_ok d" "\<forall>r\<in>set (outbox_events d). connector_ref_ok d (outbox_connector_id r)"
  shows "\<exists>d'. OutboxPublishPendingEvents env no_faults (\<lambda>_. Published) limit d = (Inr (), d') \<and>
    rows_ok d' \<and> pending_ids d' \<subseteq> pending_ids d \<and>
    sent_id ` set (events_sent d') = sent_id ` set (events_sent d) \<union> outbox_id ` set (polled limit d)"
proof (cases "polled limit d = []")
  case True
  with assms(1) show ?thesis
    by (simp add: OutboxPublishPendingEvents_def tx_bind_def tx_wrap_def poll_polled)
next
  case False
  let ?evs = "map toOutboxEventModel (polled limit d)"
  let ?sent = "map (sent_record env) ?evs"
  have "set (polled limit d) \<subseteq> set (outbox_events d)" using polled_pending by blast
  then have conn: "\<forall>e\<in>set ?sent. connector_ref_ok d (EventSent_ConnectorID e)"
    using assms(2) by (auto simp: sent_record_def)
  from MarkProcessed_succeeds[OF _ conn, of "map EventSent_ID ?sent" env] obtain d' where
    m: "OutboxEventsMarkProcessedAndRecordSent env no_faults (map EventSent_ID ?sent) ?sent d = (Inr (), d')"
    by auto
  have "EventSent_ID ` set ?sent = outbox_id ` set (polled limit d)"
    by (simp add: sent_record_def image_image)
  with mark_processed_rows[OF m assms(1)] mark_processed_recorded[OF m] m False show ?thesis
    by (simp add: OutboxPublishPendingEvents_def tx_bind_def tx_wrap_def poll_polled publish_loop_all
        del: map_map)
qed

lemma pending_not_sent:
  "rows_ok d \<Longrightarrow> i \<in> pending_ids d \<Longrightarrow> i \<notin> sent_id ` set (events_sent d)"
  by (auto simp: rows_ok_def pending_ids_def)

text \<open>An example: the outbox of the sample payment.\<close>

definition ex_event :: OutboxEvent where
  "ex_event = payment_deleted_event ex_env (Payment_ID ex_authorised) ex_connector"

definition ex_outbox_db :: db where
  "ex_outbox_db = snd (OutboxEventsInsert ex_env no_faults [ex_event] ex_db)"

lemma ex_insert: "OutboxEventsInsert ex_env no_faults [ex_event] ex_db = (Inr (), ex_outbox_db)"
proof -
  have "\<forall>e\<in>set [ex_event]. event_key e \<noteq> [] \<and> connector_ref_ok ex_db (OutboxEvent_ConnectorID e)"
    by (simp add: ex_event_def payment_deleted_event_def connector_ref_ok_def connector_exists_def ex_db_def)
  from OutboxEventsInsert_succeeds[OF this, of ex_env] show ?thesis by (auto simp: ex_outbox_db_def)
qed

lemma ex_outbox_db_is: "ex_outbox_db = ex_db\<lparr>outbox_events := [fromOutboxEventModel ex_env ex_event]\<rparr>"
  by (simp add: ex_outbox_db_def OutboxEventsInsert_def ex_event_def payment_deleted_event_def tx_bind_def
      insert_outbox_rows_def connector_ref_ok_def connector_exists_def ex_db_def empty_db_def)

lemma ex_outbox_db_simp:
  "outbox_events ex_outbox_db = [fromOutboxEventModel ex_env ex_event]"
  "events_sent ex_outbox_db = []" "connectors ex_outbox_db = connectors ex_db"
  by (simp_all add: ex_outbox_db_is ex_db_def empty_db_def)

lemma ex_event_simp:
  "OutboxEvent_Status ex_event = OUTBOX_STATUS_PENDING" "OutboxEvent_RetryCount ex_event = 0"
  "OutboxEvent_ConnectorID ex_event = Some ex_connector"
  by (simp_all add: ex_event_def payment_deleted_event_def)

lemma ex_emitted: "outbox_reachable (world ex_outbox_db Idle [])"
proof -
  have "outbox_reachable (world ex_db Idle [])"
    by (rule outbox_reachable.start) (simp_all add: ex_db_def empty_db_def)
  moreover have "outbox_step (world ex_db Idle []) (world ex_outbox_db Idle [])"
    using outbox_step.emit[of ex_env no_faults "[ex_event]" "world ex_db Idle []" "()" ex_outbox_db] ex_insert
    by (simp add: ex_event_simp)
  ultimately show ?thesis by (rule outbox_reachable.more)
qed

lemma ex_rows_ok: "rows_ok ex_outbox_db"
  using outbox_reachable_inv[OF ex_emitted] by (simp add: outbox_inv_def)

text \<open>C2: in every state the emitters, the publisher and the cleaner reach,
  identifiers are unique in the outbox and among the sent events, an outbox row
  is marked processed exactly when its event is recorded as sent, and every
  event recorded as sent was accepted by the message broker.\<close>

theorem outbox_sent_means_accepted:
  assumes "outbox_reachable w"
  shows "distinct (map outbox_id (outbox_events (world_db w))) \<and>
    distinct (map sent_id (events_sent (world_db w))) \<and>
    (\<forall>r\<in>set (outbox_events (world_db w)). outbox_status r = OUTBOX_STATUS_PROCESSED \<longleftrightarrow>
       outbox_id r \<in> sent_id ` set (events_sent (world_db w))) \<and>
    sent_id ` set (events_sent (world_db w)) \<subseteq> set (world_log w)"
  using outbox_reachable_inv[OF assms] by (simp add: outbox_inv_def rows_ok_def)

lemma outbox_sent_means_accepted_witness:
  "distinct (map outbox_id (outbox_events ex_outbox_db)) \<and> length (outbox_events ex_outbox_db) = 1"
  using outbox_sent_means_accepted[OF ex_emitted] by (simp add: ex_outbox_db_simp)

text \<open>C19: no step of any of them, the cleaner included, loses an event: what was
  in the outbox or recorded as sent still is in one of the two.\<close>

theorem outbox_event_never_lost:
  assumes "outbox_reachable w" "outbox_step w w'" "i \<in> recorded_ids (world_db w)"
  shows "i \<in> recorded_ids (world_db w')"
  using step_keeps_recorded[OF assms(2) outbox_reachable_inv[OF assms(1)]] assms(3) by blast

lemma outbox_event_never_lost_witness:
  "OutboxEvent_ID ex_event \<in> recorded_ids
     (snd (OutboxEventsMarkFailed ex_env no_faults (OutboxEvent_ID ex_event) 1 (Plain ''refused'') True ex_outbox_db))"
proof -
  let ?e = "toOutboxEventModel (fromOutboxEventModel ex_env ex_event)"
  have p: "polled 10 ex_outbox_db = [fromOutboxEventModel ex_env ex_event]"
    by (simp add: polled_def ex_outbox_db_simp ex_event_simp)
  have s1: "outbox_step (world ex_outbox_db Idle []) (world ex_outbox_db (Busy [?e] []) [])"
    using outbox_step.poll[of "world ex_outbox_db Idle []" no_faults 10 "[?e]" ex_outbox_db]
    by (simp add: poll_polled p)
  let ?d = "snd (OutboxEventsMarkFailed ex_env no_faults (OutboxEvent_ID ex_event) 1 (Plain ''refused'') True ex_outbox_db)"
  have m: "OutboxEventsMarkFailed ex_env no_faults (OutboxEvent_ID ?e) (OutboxEvent_RetryCount ?e + 1)
      (Plain ''refused'') True ex_outbox_db = (Inr (), ?d)"
    by (simp add: OutboxEventsMarkFailed_def ex_event_simp)
  have i: "OutboxEvent_ID ex_event \<in> recorded_ids ex_outbox_db"
    by (simp add: recorded_ids_def ex_outbox_db_simp)
  from outbox_event_never_lost[OF outbox_reachable.more[OF ex_emitted s1]
      step_refused[OF m, of "[]" "[]" "[]"], of "OutboxEvent_ID ex_event"] i
  show ?thesis by simp
qed



text \<open>C21: when the broker accepts and the database raises no fault, one run with a
  limit that covers the pending events succeeds, records each of them as sent
  and leaves none pending.\<close>

theorem publish_run_drains:
  assumes "rows_ok d" "\<forall>r\<in>set (outbox_events d). connector_ref_ok d (outbox_connector_id r)"
    "length (filter (\<lambda>r. outbox_status r = OUTBOX_STATUS_PENDING) (outbox_events d)) \<le> limit"
  shows "\<exists>d'. OutboxPublishPendingEvents env no_faults (\<lambda>_. Published) limit d = (Inr (), d') \<and>
    pending_ids d \<subseteq> sent_id ` set (events_sent d') \<and> pending_ids d' = {}"
proof -
  from publish_run[OF assms(1,2), of env limit] obtain d' where
    run: "OutboxPublishPendingEvents env no_faults (\<lambda>_. Published) limit d = (Inr (), d')" and
    ok: "rows_ok d'" and sub: "pending_ids d' \<subseteq> pending_ids d" and
    sent: "sent_id ` set (events_sent d') = sent_id ` set (events_sent d) \<union> outbox_id ` set (polled limit d)"
    by blast
  have all: "pending_ids d \<subseteq> sent_id ` set (events_sent d')"
    unfolding sent polled_all[OF assms(3)] by (rule Un_upper2)
  have "pending_ids d' = {}" using pending_not_sent[OF ok] sub all by blast
  with run all show ?thesis by blast
qed

lemma publish_run_drains_witness:
  "\<exists>d'. OutboxPublishPendingEvents ex_env no_faults (\<lambda>_. Published) 10 ex_outbox_db = (Inr (), d') \<and>
     pending_ids ex_outbox_db \<subseteq> sent_id ` set (events_sent d') \<and> pending_ids d' = {}"
  by (rule publish_run_drains[OF ex_rows_ok])
    (simp_all add: ex_outbox_db_simp ex_event_simp connector_ref_ok_def connector_exists_def ex_db_def)



end
