(* ===== verification/Model_Properties.thy ===== *)
theory Model_Properties
  imports Examples Order_Enums
begin

text \<open>
  What the models of pkg/domain promise: enumerations and identifiers read back
  from what they write, asset names are exactly those of the pattern, what a
  connector reports is refused or converted faithfully, and errors are
  classified towards Temporal and the API by what they wrap.
\<close>

section \<open>Enumerations\<close>

definition json_round_trip :: "('a \<Rightarrow> json) \<Rightarrow> (json \<Rightarrow> 'a \<Rightarrow> 'a setter) \<Rightarrow> bool" where
  "json_round_trip marshal unmarshal \<longleftrightarrow> (\<forall>t t0. unmarshal (marshal t) t0 = (None, t))"

definition sql_round_trip ::
  "('a \<Rightarrow> driver_value result) \<Rightarrow> (driver_value \<Rightarrow> 'a \<Rightarrow> 'a setter) \<Rightarrow> 'a set \<Rightarrow> bool" where
  "sql_round_trip value scan refused \<longleftrightarrow> (\<forall>t t0.
     if t \<in> refused then \<exists>e. value t = Inl e
     else \<exists>v. value t = Inr v \<and> scan v t0 = (None, t))"

definition exact_parser :: "('a \<Rightarrow> string) \<Rightarrow> (string \<Rightarrow> 'a result) \<Rightarrow> bool" where
  "exact_parser to_text of_text \<longleftrightarrow> inj to_text \<and> (\<forall>s t. of_text s = Inr t \<longleftrightarrow> to_text t = s)"

lemma payment_status_round_trips:
  "json_round_trip PaymentStatus_MarshalJSON PaymentStatus_UnmarshalJSON"
  "sql_round_trip PaymentStatus_Value PaymentStatus_Scan {}"
  by (simp_all add: json_round_trip_def sql_round_trip_def PaymentStatus_MarshalJSON_def
      PaymentStatus_UnmarshalJSON_def PaymentStatus_Value_def PaymentStatus_Scan_def
      payment_status.json_keep payment_status.json_assign payment_status.sql_keep payment_status.sql_assign)

lemma payment_type_round_trips:
  "json_round_trip PaymentType_MarshalJSON PaymentType_UnmarshalJSON"
  "sql_round_trip PaymentType_Value PaymentType_Scan {}"
  by (simp_all add: json_round_trip_def sql_round_trip_def PaymentType_MarshalJSON_def
      PaymentType_UnmarshalJSON_def PaymentType_Value_def PaymentType_Scan_def
      payment_type.json_keep payment_type.json_assign payment_type.sql_keep payment_type.sql_assign)

lemma payment_scheme_round_trips:
  "json_round_trip PaymentScheme_MarshalJSON PaymentScheme_UnmarshalJSON"
  "sql_round_trip PaymentScheme_Value PaymentScheme_Scan {}"
  by (simp_all add: json_round_trip_def sql_round_trip_def PaymentScheme_MarshalJSON_def
      PaymentScheme_UnmarshalJSON_def PaymentScheme_Value_def PaymentScheme_Scan_def
      payment_scheme.json_keep payment_scheme.json_assign payment_scheme.sql_keep payment_scheme.sql_assign)

lemma pi_type_round_trips:
  "json_round_trip PaymentInitiationType_MarshalJSON PaymentInitiationType_UnmarshalJSON"
  "sql_round_trip PaymentInitiationType_Value PaymentInitiationType_Scan {}"
  by (simp_all add: json_round_trip_def sql_round_trip_def PaymentInitiationType_MarshalJSON_def
      PaymentInitiationType_UnmarshalJSON_def PaymentInitiationType_Value_def PaymentInitiationType_Scan_def
      pi_type.json_keep pi_type.json_assign pi_type.sql_keep pi_type.sql_assign)

lemma pi_status_round_trips:
  "json_round_trip PaymentInitiationAdjustmentStatus_MarshalJSON PaymentInitiationAdjustmentStatus_UnmarshalJSON"
  "sql_round_trip PaymentInitiationAdjustmentStatus_Value PaymentInitiationAdjustmentStatus_Scan {}"
  by (simp_all add: json_round_trip_def sql_round_trip_def PaymentInitiationAdjustmentStatus_MarshalJSON_def
      PaymentInitiationAdjustmentStatus_UnmarshalJSON_def PaymentInitiationAdjustmentStatus_Value_def PaymentInitiationAdjustmentStatus_Scan_def
      pi_status.json_keep pi_status.json_assign pi_status.sql_keep pi_status.sql_assign)

lemma reversal_status_round_trips:
  "json_round_trip PaymentInitiationReversalAdjustmentStatus_MarshalJSON PaymentInitiationReversalAdjustmentStatus_UnmarshalJSON"
  "sql_round_trip PaymentInitiationReversalAdjustmentStatus_Value PaymentInitiationReversalAdjustmentStatus_Scan {}"
  by (simp_all add: json_round_trip_def sql_round_trip_def PaymentInitiationReversalAdjustmentStatus_MarshalJSON_def
      PaymentInitiationReversalAdjustmentStatus_UnmarshalJSON_def PaymentInitiationReversalAdjustmentStatus_Value_def PaymentInitiationReversalAdjustmentStatus_Scan_def
      reversal_status.json_keep reversal_status.json_assign reversal_status.sql_keep reversal_status.sql_assign)

lemma order_status_round_trips:
  "json_round_trip OrderStatus_MarshalJSON OrderStatus_UnmarshalJSON"
  "sql_round_trip OrderStatus_Value OrderStatus_Scan {ORDER_STATUS_UNKNOWN}"
  by (simp_all add: json_round_trip_def sql_round_trip_def OrderStatus_MarshalJSON_def
      OrderStatus_UnmarshalJSON_def OrderStatus_Value_def OrderStatus_Scan_def
      order_status.json_keep order_status.json_assign order_status.sql_keep order_status.sql_assign)

lemma order_direction_round_trips:
  "json_round_trip OrderDirection_MarshalJSON OrderDirection_UnmarshalJSON"
  "sql_round_trip OrderDirection_Value OrderDirection_Scan {ORDER_DIRECTION_UNKNOWN}"
  by (simp_all add: json_round_trip_def sql_round_trip_def OrderDirection_MarshalJSON_def
      OrderDirection_UnmarshalJSON_def OrderDirection_Value_def OrderDirection_Scan_def
      order_direction.json_keep order_direction.json_assign order_direction.sql_keep order_direction.sql_assign)

lemma order_type_round_trips:
  "json_round_trip OrderType_MarshalJSON OrderType_UnmarshalJSON"
  "sql_round_trip OrderType_Value OrderType_Scan {ORDER_TYPE_UNKNOWN}"
  by (simp_all add: json_round_trip_def sql_round_trip_def OrderType_MarshalJSON_def
      OrderType_UnmarshalJSON_def OrderType_Value_def OrderType_Scan_def
      order_type.json_keep order_type.json_assign order_type.sql_keep order_type.sql_assign)

lemma time_in_force_round_trips:
  "json_round_trip TimeInForce_MarshalJSON TimeInForce_UnmarshalJSON"
  "sql_round_trip TimeInForce_Value TimeInForce_Scan {TIME_IN_FORCE_UNKNOWN}"
  by (simp_all add: json_round_trip_def sql_round_trip_def TimeInForce_MarshalJSON_def
      TimeInForce_UnmarshalJSON_def TimeInForce_Value_def TimeInForce_Scan_def
      time_in_force.json_keep time_in_force.json_assign time_in_force.sql_keep time_in_force.sql_assign)

lemma conversion_status_round_trips:
  "json_round_trip ConversionStatus_MarshalJSON ConversionStatus_UnmarshalJSON"
  "sql_round_trip ConversionStatus_Value ConversionStatus_Scan {CONVERSION_STATUS_UNKNOWN}"
  by (simp_all add: json_round_trip_def sql_round_trip_def ConversionStatus_MarshalJSON_def
      ConversionStatus_UnmarshalJSON_def ConversionStatus_Value_def ConversionStatus_Scan_def
      conversion_status.json_keep conversion_status.json_assign conversion_status.sql_keep conversion_status.sql_assign)

text \<open>C38: every enumeration of the model reads back from the JSON it writes, whatever
  the receiver held, and from the database value it writes; a database value is
  refused exactly for the unknown constant of the order and conversion ones.\<close>

theorem enums_round_trip:
  "json_round_trip PaymentStatus_MarshalJSON PaymentStatus_UnmarshalJSON \<and>
   sql_round_trip PaymentStatus_Value PaymentStatus_Scan {} \<and>
   json_round_trip PaymentType_MarshalJSON PaymentType_UnmarshalJSON \<and>
   sql_round_trip PaymentType_Value PaymentType_Scan {} \<and>
   json_round_trip PaymentScheme_MarshalJSON PaymentScheme_UnmarshalJSON \<and>
   sql_round_trip PaymentScheme_Value PaymentScheme_Scan {} \<and>
   json_round_trip PaymentInitiationType_MarshalJSON PaymentInitiationType_UnmarshalJSON \<and>
   sql_round_trip PaymentInitiationType_Value PaymentInitiationType_Scan {} \<and>
   json_round_trip PaymentInitiationAdjustmentStatus_MarshalJSON PaymentInitiationAdjustmentStatus_UnmarshalJSON \<and>
   sql_round_trip PaymentInitiationAdjustmentStatus_Value PaymentInitiationAdjustmentStatus_Scan {} \<and>
   json_round_trip PaymentInitiationReversalAdjustmentStatus_MarshalJSON PaymentInitiationReversalAdjustmentStatus_UnmarshalJSON \<and>
   sql_round_trip PaymentInitiationReversalAdjustmentStatus_Value PaymentInitiationReversalAdjustmentStatus_Scan {} \<and>
   json_round_trip OrderStatus_MarshalJSON OrderStatus_UnmarshalJSON \<and>
   sql_round_trip OrderStatus_Value OrderStatus_Scan {ORDER_STATUS_UNKNOWN} \<and>
   json_round_trip OrderDirection_MarshalJSON OrderDirection_UnmarshalJSON \<and>
   sql_round_trip OrderDirection_Value OrderDirection_Scan {ORDER_DIRECTION_UNKNOWN} \<and>
   json_round_trip OrderType_MarshalJSON OrderType_UnmarshalJSON \<and>
   sql_round_trip OrderType_Value OrderType_Scan {ORDER_TYPE_UNKNOWN} \<and>
   json_round_trip TimeInForce_MarshalJSON TimeInForce_UnmarshalJSON \<and>
   sql_round_trip TimeInForce_Value TimeInForce_Scan {TIME_IN_FORCE_UNKNOWN} \<and>
   json_round_trip ConversionStatus_MarshalJSON ConversionStatus_UnmarshalJSON \<and>
   sql_round_trip ConversionStatus_Value ConversionStatus_Scan {CONVERSION_STATUS_UNKNOWN}"
  by (intro conjI) (rule payment_status_round_trips
      payment_type_round_trips
      payment_scheme_round_trips
      pi_type_round_trips
      pi_status_round_trips
      reversal_status_round_trips
      order_status_round_trips
      order_direction_round_trips
      order_type_round_trips
      time_in_force_round_trips
      conversion_status_round_trips)+

lemma exact_parserI:
  assumes "\<And>t. of_text (to_text t) = Inr t" "\<And>s t. of_text s = Inr t \<Longrightarrow> to_text t = s \<and> True"
  shows "exact_parser to_text of_text"
  unfolding exact_parser_def inj_def using assms by (metis Inr_inject)

lemma payment_status_exact: "exact_parser PaymentStatus_String PaymentStatusFromString"
  by (rule exact_parserI[OF payment_status.of_to[OF TrueI] payment_status.to_of])

lemma payment_type_exact: "exact_parser PaymentType_String PaymentTypeFromString"
  by (rule exact_parserI[OF payment_type.of_to[OF TrueI] payment_type.to_of])

lemma payment_scheme_exact: "exact_parser PaymentScheme_String PaymentSchemeFromString"
  by (rule exact_parserI[OF payment_scheme.of_to[OF TrueI] payment_scheme.to_of])

lemma pi_type_exact: "exact_parser PaymentInitiationType_String PaymentInitiationTypeFromString"
  by (rule exact_parserI[OF pi_type.of_to[OF TrueI] pi_type.to_of])

lemma pi_status_exact: "exact_parser PaymentInitiationAdjustmentStatus_String PaymentInitiationAdjustmentStatusFromString"
  by (rule exact_parserI[OF pi_status.of_to[OF TrueI] pi_status.to_of])

lemma order_status_exact: "exact_parser OrderStatus_String OrderStatusFromString"
  by (rule exact_parserI[OF order_status.of_to[OF TrueI] order_status.to_of])

lemma order_direction_exact: "exact_parser OrderDirection_String OrderDirectionFromString"
  by (rule exact_parserI[OF order_direction.of_to[OF TrueI] order_direction.to_of])

lemma order_type_exact: "exact_parser OrderType_String OrderTypeFromString"
  by (rule exact_parserI[OF order_type.of_to[OF TrueI] order_type.to_of])

lemma conversion_status_exact: "exact_parser ConversionStatus_String ConversionStatusFromString"
  by (rule exact_parserI[OF conversion_status.of_to[OF TrueI] conversion_status.to_of])

text \<open>The parsers of the enumerations accept exactly the texts the values
  have and are injective on them, save the two lenient ones: the status of a
  reversal reads every other text as unknown.\<close>

theorem enum_parsers_strict:
  "exact_parser PaymentStatus_String PaymentStatusFromString \<and>
   exact_parser PaymentType_String PaymentTypeFromString \<and>
   exact_parser PaymentScheme_String PaymentSchemeFromString \<and>
   exact_parser PaymentInitiationType_String PaymentInitiationTypeFromString \<and>
   exact_parser PaymentInitiationAdjustmentStatus_String PaymentInitiationAdjustmentStatusFromString \<and>
   exact_parser OrderStatus_String OrderStatusFromString \<and>
   exact_parser OrderDirection_String OrderDirectionFromString \<and>
   exact_parser OrderType_String OrderTypeFromString \<and>
   exact_parser ConversionStatus_String ConversionStatusFromString \<and>
   PaymentInitiationReversalStatusFromString s = Inr PAYMENT_INITIATION_REVERSAL_STATUS_UNKNOWN \<or>
   s \<in> {''PROCESSING'', ''PROCESSED'', ''FAILED''}"
proof -
  have "PaymentInitiationReversalStatusFromString s = Inr PAYMENT_INITIATION_REVERSAL_STATUS_UNKNOWN \<or>
   s \<in> {''PROCESSING'', ''PROCESSED'', ''FAILED''}"
    by (simp add: PaymentInitiationReversalStatusFromString_def)
  then show ?thesis
    by (simp only: payment_status_exact payment_type_exact payment_scheme_exact pi_type_exact pi_status_exact order_status_exact order_direction_exact order_type_exact conversion_status_exact simp_thms)
qed

section \<open>Identifiers\<close>

text \<open>What the identifiers rely on of the canonical JSON package: it decodes what it encodes.\<close>

definition json_codec :: "('i \<Rightarrow> string result) \<Rightarrow> (string \<Rightarrow> 'i result) \<Rightarrow> bool" where
  "json_codec marshal unmarshal \<longleftrightarrow> (\<forall>i d. marshal i = Inr d \<longrightarrow> unmarshal d = Inr i)"

lemma json_codecD: "json_codec marshal unmarshal \<Longrightarrow> marshal i = Inr d \<Longrightarrow> unmarshal d = Inr i"
  by (simp add: json_codec_def)

lemma id_String_cases:
  assumes "id_String marshal i = Inr s"
  obtains d where "marshal i = Inr d" "s = EncodeToString d"
  using assms by (auto simp: id_String_def split: sum.splits)

lemma id_both_ways:
  assumes "json_codec marshal unmarshal" "id_String marshal i = Inr s"
  shows "id_FromString unmarshal s = Inr i"
    "id_Scan (id_FromString unmarshal) n p c (DVString s) t0 = (None, i)"
proof -
  from assms(2) obtain d where "marshal i = Inr d" "s = EncodeToString d" by (rule id_String_cases)
  with json_codecD[OF assms(1)] id_text_round_trip(2)[of marshal i d unmarshal]
  show "id_FromString unmarshal s = Inr i" by simp
  show "id_Scan (id_FromString unmarshal) n p c (DVString s) t0 = (None, i)"
    by (rule id_sql_round_trip[OF json_codecD[OF assms(1)] assms(2)])
qed

text \<open>C37: over any canonical JSON package that decodes what it encodes, the text
  of a payment, a payment initiation, an order and a conversion reads back as
  the same identifier, through the API and through the database, so two of them
  with one text are equal; and so do the identifiers of accounts and connectors
  that are not the empty ones.\<close>

theorem identifiers_round_trip:
  assumes "json_codec mp up" "json_codec mi ui" "json_codec ma ua" "json_codec mc uc"
    "PaymentID_String mp p = Inr sp" "PaymentInitiationID_String mi i = Inr si"
    "AccountID_String ma (Some a) = Inr sa" "AccountID_Reference a \<noteq> []"
    "ConnectorID_String mc (Some c) = Inr sc" "ConnectorID_Reference c \<noteq> uuid_Nil"
  shows "PaymentIDFromString up sp = Inr p \<and> PaymentID_Scan up (DVString sp) p0 = (None, p) \<and>
    PaymentInitiationIDFromString ui si = Inr i \<and>
    PaymentInitiationID_Scan ui (DVString si) i0 = (None, i) \<and>
    AccountIDFromString ua sa = Inr a \<and> AccountID_Scan ua (DVString sa) a0 = (None, a) \<and>
    ConnectorIDFromString uc sc = Inr c \<and> ConnectorID_Scan uc (DVString sc) c0 = (None, c)"
proof -
  have p: "id_String mp p = Inr sp" using assms(5) by (simp add: PaymentID_String_def)
  have i: "id_String mi i = Inr si" using assms(6) by (simp add: PaymentInitiationID_String_def)
  have a: "id_String ma a = Inr sa" using assms(7,8) by (simp add: AccountID_String_def)
  have c: "id_String mc c = Inr sc" using assms(9,10) by (simp add: ConnectorID_String_def)
  have eta: "PaymentIDFromString up = id_FromString up" "AccountIDFromString ua = id_FromString ua"
    "PaymentInitiationIDFromString ui = id_FromString ui" "ConnectorIDFromString uc = id_FromString uc"
    by (simp_all add: fun_eq_iff PaymentIDFromString_def AccountIDFromString_def
        PaymentInitiationIDFromString_def ConnectorIDFromString_def)
  show ?thesis
    unfolding PaymentID_Scan_def PaymentInitiationID_Scan_def AccountID_Scan_def ConnectorID_Scan_def eta
    by (simp add: id_both_ways[OF assms(1) p] id_both_ways[OF assms(2) i]
        id_both_ways[OF assms(3) a] id_both_ways[OF assms(4) c])
qed

text \<open>A package that encodes one identifier: enough to run the property.\<close>

definition ex_marshal :: "'i \<Rightarrow> 'i \<Rightarrow> string result" where
  "ex_marshal x i = (if i = x then Inr ''{id}'' else Inl (Plain ''unsupported''))"

definition ex_unmarshal :: "'i \<Rightarrow> string \<Rightarrow> 'i result" where
  "ex_unmarshal x s = (if s = ''{id}'' then Inr x else Inl (Plain ''invalid''))"

lemma ex_codec: "json_codec (ex_marshal x) (ex_unmarshal x)"
  by (simp add: json_codec_def ex_marshal_def ex_unmarshal_def)

lemma identifiers_round_trip_witness:
  "let c = \<lparr>ConnectorID_Reference = 7, ConnectorID_Provider = ''stripe''\<rparr>;
       a = \<lparr>AccountID_Reference = ''a'', AccountID_ConnectorID = c\<rparr>;
       s = EncodeToString ''{id}'' in
   AccountIDFromString (ex_unmarshal a) s = Inr a \<and> ConnectorID_Scan (ex_unmarshal c) (DVString s) c = (None, c)"
proof -
  let ?c = "\<lparr>ConnectorID_Reference = 7, ConnectorID_Provider = ''stripe''\<rparr>"
  let ?a = "\<lparr>AccountID_Reference = ''a'', AccountID_ConnectorID = ?c\<rparr>"
  let ?p = "\<lparr>PaymentID_PaymentReference = \<lparr>PaymentReference_Reference = ''p'', PaymentReference_Type = PAYMENT_TYPE_PAYIN\<rparr>,
      PaymentID_ConnectorID = ?c\<rparr>"
  let ?i = "\<lparr>PaymentInitiationID_Reference = ''i'', PaymentInitiationID_ConnectorID = ?c\<rparr>"
  have "uuid_Nil \<noteq> 7" by (simp add: uuid_Nil_def)
  then show ?thesis
    using identifiers_round_trip[OF ex_codec[of ?p] ex_codec[of ?i] ex_codec[of ?a] ex_codec[of ?c],
        of ?p "EncodeToString ''{id}''" ?i "EncodeToString ''{id}''" ?a "EncodeToString ''{id}''" ?c
          "EncodeToString ''{id}''" ?p ?i ?a ?c]
    by (simp add: PaymentID_String_def PaymentInitiationID_String_def AccountID_String_def
        ConnectorID_String_def id_String_def ex_marshal_def Let_def)
qed

section \<open>Assets and reported payments\<close>

text \<open>An asset name is valid exactly when it is an upper case letter followed by
  at most 16 letters or digits, then optionally an underscore with 1 to 16
  letters, then optionally a slash with a precision of 1 to 6 digits.\<close>

theorem asset_names:
  "IsValid v \<longleftrightarrow>
    (\<exists>c w x y. v = c # w @ x @ y \<and> is_upper c \<and> length w \<le> 16 \<and>
       list_all (\<lambda>d. is_upper d \<or> is_digit d) w \<and>
       (x = [] \<or> (\<exists>u. x = CHR ''_'' # u \<and> 1 \<le> length u \<and> length u \<le> 16 \<and> list_all is_upper u)) \<and>
       (y = [] \<or> (\<exists>u. y = CHR ''/'' # u \<and> 1 \<le> length u \<and> length u \<le> 6 \<and> list_all is_digit u)))"
  unfolding IsValid_iff by (simp only: list_all_iff)

text \<open>A payment a connector reports is refused exactly when it lacks a
  reference, a date, a type, an amount, a valid asset or the raw message, and
  then with a validation error; otherwise it becomes a payment identified by
  its parent's reference (its own without parent), its type and its connector,
  worth nothing while it is only authorised, with one adjustment under the
  reported reference, date and status.\<close>

theorem reported_payment_conversion:
  "case FromPSPPaymentToPayment from c of
     Inl e \<Rightarrow> errors_Is e Models_ErrValidation \<and>
       (PSPPayment_Reference from = [] \<or> PSPPayment_CreatedAt from = 0 \<or>
        PSPPayment_Type from = PAYMENT_TYPE_UNKNOWN \<or> PSPPayment_Amount from = None \<or>
        \<not> IsValid (PSPPayment_Asset from) \<or> PSPPayment_Raw from = None)
   | Inr p \<Rightarrow> fresh_payment from c p \<and>
       Payment_Reference p = (if PSPPayment_ParentReference from = [] then PSPPayment_Reference from
                              else PSPPayment_ParentReference from) \<and>
       map PaymentAdjustment_ID (Payment_Adjustments p) =
         [\<lparr>PaymentAdjustmentID_PaymentID = Payment_ID p,
           PaymentAdjustmentID_Reference = PSPPayment_Reference from,
           PaymentAdjustmentID_CreatedAt = PSPPayment_CreatedAt from,
           PaymentAdjustmentID_Status = PSPPayment_Status from\<rparr>]"
proof (cases "FromPSPPaymentToPayment from c")
  case (Inl e)
  then have v: "PSPPayment_Validate from = Some e" by (simp add: FromPSPPaymentToPayment_error_iff)
  then have "PSPPayment_Validate from \<noteq> None" by simp
  then have "PSPPayment_Reference from = [] \<or> PSPPayment_CreatedAt from = 0 \<or>
        PSPPayment_Type from = PAYMENT_TYPE_UNKNOWN \<or> PSPPayment_Amount from = None \<or>
        \<not> IsValid (PSPPayment_Asset from) \<or> PSPPayment_Raw from = None"
    unfolding Validate_None_iff by blast
  with Validate_Some_validation[OF v] Inl show ?thesis by simp
next
  case (Inr p)
  then have "Payment_Reference p = (if PSPPayment_ParentReference from = [] then PSPPayment_Reference from
                              else PSPPayment_ParentReference from) \<and>
       map PaymentAdjustment_ID (Payment_Adjustments p) =
         [\<lparr>PaymentAdjustmentID_PaymentID = Payment_ID p,
           PaymentAdjustmentID_Reference = PSPPayment_Reference from,
           PaymentAdjustmentID_CreatedAt = PSPPayment_CreatedAt from,
           PaymentAdjustmentID_Status = PSPPayment_Status from\<rparr>]"
    by (cases "PSPPayment_Status from = PAYMENT_STATUS_AUTHORISATION")
      (auto simp: FromPSPPaymentToPayment_def FromPSPPaymentToPaymentAdjustment_def Let_def
        PSPPayment_HasParent_def split: option.splits)
  with FromPSPPaymentToPayment_fresh[OF Inr] Inr show ?thesis by simp
qed

lemma reported_payment_conversion_witness:
  "fresh_payment (ex_psp_payment ''p1'' ''p1-capture'' PAYMENT_STATUS_CAPTURE 300) ex_connector ex_captured \<and>
   Payment_Reference ex_captured = ''p1''"
  using reported_payment_conversion[of "ex_psp_payment ''p1'' ''p1-capture'' PAYMENT_STATUS_CAPTURE 300" ex_connector]
  by (simp add: ex_captured_def) (simp add: ex_psp_payment_def)

section \<open>Errors\<close>

definition invalid_request :: "error \<Rightarrow> bool" where
  "invalid_request err \<longleftrightarrow> \<not> errors_Is err Plugins_ErrNotImplemented \<and>
     (errors_Is err Plugins_ErrInvalidClientRequest \<or> errors_Is err Plugins_ErrCurrencyNotSupported \<or>
      errors_Is err Connectors_ErrNotFound \<or> errors_Is err Models_ErrMissingConnectorMetadata \<or>
      errors_Is err Models_ErrWebhookVerification \<or> is_connector_validation err)"

lemma plugin_error_type:
  "application_error_type (temporalPluginErrorCheck delay err periodic) = Some
     (if errors_Is err Plugins_ErrNotImplemented then ErrTypeUnimplemented
      else if invalid_request err then ErrTypeInvalidArgument
      else if errors_Is err Plugins_ErrUpstreamRatelimit then ErrTypeRateLimited
      else if errors_Is err Plugins_ErrUpstreamTimeout then ErrTypeTimeout
      else if errors_Is err Plugins_ErrUpstreamRetryAfter then ErrTypeRetryAfter
      else ErrTypeDefault)"
  by (simp add: temporalPluginErrorCheck_def Let_def invalid_request_def)

lemma plugin_error_cause:
  "\<exists>t nr dl c. temporalPluginErrorCheck delay err periodic = ApplicationError t (error_text err) nr dl c \<and>
     (c = None \<or> c = Some (Cause err))"
  by (auto simp: temporalPluginErrorCheck_def Let_def)

text \<open>An activity error is never retried exactly when the plugin does not
  implement the call or the request itself is invalid (client error, currency,
  unknown connector, missing metadata, webhook verification, connector
  validation), whatever wraps it; it keeps its text, and storage errors are not
  retried exactly when the database answered that the row is missing,
  duplicated, invalid or refers to nothing.\<close>

theorem retry_classification:
  "(non_retryable (temporalPluginErrorCheck delay err periodic)
      \<longleftrightarrow> errors_Is err Plugins_ErrNotImplemented \<or> invalid_request err) \<and>
   (\<exists>t nr dl c. temporalPluginErrorCheck delay err periodic
      = ApplicationError t (error_text err) nr dl c) \<and>
   (non_retryable (the (temporalStorageError (Some (storage_e msg dbe)))) \<longleftrightarrow>
      (case dbe of DbOther e \<Rightarrow> errors_Is e Storage_ErrNotFound \<or> errors_Is e Storage_ErrDuplicateKeyValue
          \<or> errors_Is e Storage_ErrValidation \<or> errors_Is e Storage_ErrForeignKeyViolation
       | _ \<Rightarrow> True))"
proof (intro conjI)
  show "non_retryable (temporalPluginErrorCheck delay err periodic)
      \<longleftrightarrow> errors_Is err Plugins_ErrNotImplemented \<or> invalid_request err"
    by (simp add: temporalPluginErrorCheck_def Let_def invalid_request_def)
  show "\<exists>t nr dl c. temporalPluginErrorCheck delay err periodic
      = ApplicationError t (error_text err) nr dl c" by (rule temporalPluginErrorCheck_shape)
  show "non_retryable (the (temporalStorageError (Some (storage_e msg dbe)))) \<longleftrightarrow>
      (case dbe of DbOther e \<Rightarrow> errors_Is e Storage_ErrNotFound \<or> errors_Is e Storage_ErrDuplicateKeyValue
          \<or> errors_Is e Storage_ErrValidation \<or> errors_Is e Storage_ErrForeignKeyViolation
       | _ \<Rightarrow> True)"
    by (cases dbe) (auto simp: temporalStorageError_def split: option.splits)
qed



end
