(* ===== verification/Accounts_Store.thy ===== *)
theory Accounts_Store
  imports Outbox
begin

text \<open>
  internal/storage/accounts.go and balances.go: accounts are inserted once and
  never changed; balances form, per account and asset, a history of intervals.
\<close>

section \<open>Events of a transaction\<close>

text \<open>Marshalling the payloads can fail; without events the outbox is not touched.\<close>

definition emit_events :: "env \<Rightarrow> faults \<Rightarrow> OutboxEvent list result \<Rightarrow> (db, unit) tx" where
  "emit_events env fl evs = tx_bind (tx_lift evs)
     (\<lambda>outboxEvents. if outboxEvents = [] then tx_return ()
        else OutboxEventsInsert env fl outboxEvents)"

section \<open>Accounts\<close>

definition fromAccountModels :: "env \<Rightarrow> Account \<Rightarrow> account_row" where
  "fromAccountModels env from =
     \<lparr>account_id = Account_ID from,
      account_connector_id = Account_ConnectorID from,
      account_created_at = env_db_time env (Account_CreatedAt from),
      account_reference = Account_Reference from,
      account_type = Account_Type from,
      account_raw = Account_Raw from,
      account_default_asset = Account_DefaultAsset from,
      account_name = Account_Name from,
      account_psu_id = Account_PsuID from,
      account_open_banking_connection_id = Account_OpenBankingConnectionID from,
      account_metadata = Account_Metadata from\<rparr>"

definition toConnectorBaseModels :: "connector_row \<Rightarrow> ConnectorBase" where
  "toConnectorBaseModels from =
     \<lparr>ConnectorBase_ID = connector_id from, ConnectorBase_Name = connector_name from,
      ConnectorBase_CreatedAt = connector_created_at from,
      ConnectorBase_Provider = connector_provider from\<rparr>"

text \<open>The joined connector is the second argument.\<close>

definition toAccountModels :: "account_row \<Rightarrow> connector_row option \<Rightarrow> Account" where
  "toAccountModels from connector =
     \<lparr>Account_ID = account_id from,
      Account_ConnectorID = account_connector_id from,
      Account_Connector = map_option toConnectorBaseModels connector,
      Account_Reference = account_reference from,
      Account_CreatedAt = account_created_at from,
      Account_Type = account_type from,
      Account_Name = account_name from,
      Account_DefaultAsset = account_default_asset from,
      Account_PsuID = account_psu_id from,
      Account_OpenBankingConnectionID = account_open_banking_connection_id from,
      Account_Metadata = account_metadata from,
      Account_Raw = account_raw from\<rparr>"

definition insert_accounts_stmt :: "faults \<Rightarrow> account_row list \<Rightarrow> (db, account_row list) tx" where
  "insert_accounts_stmt fl rows =
     stmt fl ''failed to insert accounts''
       (\<lambda>d. let (ins, tbl) = insert_ignore account_id rows (accounts d) in
            if \<not> list_all (\<lambda>r. connector_exists d (account_connector_id r)) ins
            then refuse ''failed to insert accounts''
                   (DbFKConstraintFailed ''accounts_connector_id_fk'') d
            else if \<not> list_all (\<lambda>r. psu_ref_ok d (account_psu_id r)) ins
            then refuse ''failed to insert accounts'' (DbFKConstraintFailed ''accounts_psu_id_fk'') d
            else if \<not> list_all (\<lambda>r. connection_ref_ok d (account_psu_id r) (account_connector_id r)
                                    (account_open_banking_connection_id r)) ins
            then refuse ''failed to insert accounts''
                   (DbFKConstraintFailed ''accounts_open_banking_connection_id_fk'') d
            else (Inr ins, d\<lparr>accounts := tbl\<rparr>))"

definition account_payload :: "env \<Rightarrow> Account \<Rightarrow> AccountMessagePayload" where
  "account_payload env a =
     \<lparr>AccountMessage_ID = env_account_text env (Account_ID a),
      AccountMessage_Provider = ToV3Provider (ConnectorID_Provider (Account_ConnectorID a)),
      AccountMessage_ConnectorID = env_connector_text env (Account_ConnectorID a),
      AccountMessage_CreatedAt = Account_CreatedAt a,
      AccountMessage_Reference = Account_Reference a,
      AccountMessage_Type = Account_Type a,
      AccountMessage_RawData = Account_Raw a,
      AccountMessage_DefaultAsset = (case Account_DefaultAsset a of None \<Rightarrow> [] | Some x \<Rightarrow> x),
      AccountMessage_Name = (case Account_Name a of None \<Rightarrow> [] | Some x \<Rightarrow> x),
      AccountMessage_Metadata = Account_Metadata a\<rparr>"

definition account_event :: "env \<Rightarrow> Account \<Rightarrow> OutboxEvent" where
  "account_event env a =
     \<lparr>OutboxEvent_ID =
        \<lparr>EventID_EventIdempotencyKey = env_account_key env (Account_ID a),
         EventID_ConnectorID = Some (Account_ConnectorID a)\<rparr>,
      OutboxEvent_EventType = ''SAVED_ACCOUNT'',
      OutboxEvent_EntityID = env_account_text env (Account_ID a),
      OutboxEvent_Payload = SavedAccount (account_payload env a),
      OutboxEvent_CreatedAt = env_now env,
      OutboxEvent_Status = OUTBOX_STATUS_PENDING,
      OutboxEvent_ConnectorID = Some (Account_ConnectorID a),
      OutboxEvent_RetryCount = 0,
      OutboxEvent_LastRetryAt = None,
      OutboxEvent_Error = None\<rparr>"

text \<open>
  The events of the accounts whose identifier was inserted; the map is keyed
  by the text of the identifier.
\<close>

definition marshal_failed :: "string \<Rightarrow> error" where
  "marshal_failed msg = Wrap msg (Plain ''json: error calling MarshalJSON'')"

fun account_events :: "env \<Rightarrow> string list \<Rightarrow> Account list \<Rightarrow> OutboxEvent list result" where
  "account_events env insertedAccountIDs [] = Inr []"
| "account_events env insertedAccountIDs (a # as) =
     (if env_account_text env (Account_ID a) \<notin> set insertedAccountIDs
      then account_events env insertedAccountIDs as
      else if \<not> raw_ok env (Account_Raw a)
      then Inl (marshal_failed ''failed to marshal account event payload'')
      else result_bind (account_events env insertedAccountIDs as)
             (\<lambda>es. Inr (account_event env a # es)))"

definition AccountsUpsert :: "env \<Rightarrow> faults \<Rightarrow> Account list \<Rightarrow> (db, unit) tx" where
  "AccountsUpsert env fl as =
     (if as = [] then tx_return ()
      else in_tx fl ''failed to create transaction'' ''failed to commit transaction''
        (tx_bind (insert_accounts_stmt fl (map (fromAccountModels env) as))
          (\<lambda>insertedAccounts. emit_events env fl
             (account_events env
               (map (\<lambda>r. env_account_text env (account_id r)) insertedAccounts) as))))"

definition AccountsGet :: "faults \<Rightarrow> AccountID \<Rightarrow> (db, Account) tx" where
  "AccountsGet fl i =
     stmt fl ''failed to get account''
       (\<lambda>d. case lookup_row account_id i (accounts d) of
          None \<Rightarrow> refuse ''failed to get account'' DbNotFound d
        | Some a \<Rightarrow>
            (Inr (toAccountModels a (lookup_row connector_id (account_connector_id a) (connectors d))), d))"

definition delete_accounts :: "faults \<Rightarrow> (account_row \<Rightarrow> bool) \<Rightarrow> (db, unit) tx" where
  "delete_accounts fl p =
     stmt fl ''failed to delete account''
       (tx_modify (\<lambda>d. d\<lparr>accounts := delete_where p (accounts d)\<rparr>))"

definition AccountsDeleteFromConnectorID :: "faults \<Rightarrow> ConnectorID \<Rightarrow> (db, unit) tx" where
  "AccountsDeleteFromConnectorID fl c = delete_accounts fl (\<lambda>r. account_connector_id r = c)"

definition AccountsDeleteFromConnectorIDBatch :: "faults \<Rightarrow> ConnectorID \<Rightarrow> int \<Rightarrow> (db, int) tx" where
  "AccountsDeleteFromConnectorIDBatch fl c batchSize =
     (if batchSize \<le> 0 then tx_fail (Wrap ''invalid batchSize'' (Sentinel Storage_ErrValidation))
      else stmt fl ''failed to delete accounts batch''
        (\<lambda>d. let ids = map account_id
                   (take (nat batchSize) (filter (\<lambda>r. account_connector_id r = c) (accounts d)));
                 rest = delete_where (\<lambda>r. account_id r \<in> set ids) (accounts d) in
             (Inr (int (length (accounts d)) - int (length rest)), d\<lparr>accounts := rest\<rparr>)))"

definition AccountsDeleteFromPSUID :: "faults \<Rightarrow> uuid \<Rightarrow> (db, unit) tx" where
  "AccountsDeleteFromPSUID fl u = delete_accounts fl (\<lambda>r. account_psu_id r = Some u)"

definition AccountsDeleteFromConnectorIDAndPSUID :: "faults \<Rightarrow> ConnectorID \<Rightarrow> uuid \<Rightarrow> (db, unit) tx" where
  "AccountsDeleteFromConnectorIDAndPSUID fl c u =
     delete_accounts fl (\<lambda>r. account_connector_id r = c \<and> account_psu_id r = Some u)"

definition AccountsDeleteFromOpenBankingConnectionID ::
  "faults \<Rightarrow> uuid \<Rightarrow> ConnectorID \<Rightarrow> string \<Rightarrow> (db, unit) tx" where
  "AccountsDeleteFromOpenBankingConnectionID fl u c ob =
     delete_accounts fl (\<lambda>r. account_psu_id r = Some u \<and> account_connector_id r = c
                            \<and> account_open_banking_connection_id r = Some ob)"

definition AccountsDelete :: "faults \<Rightarrow> AccountID \<Rightarrow> (db, unit) tx" where
  "AccountsDelete fl i = delete_accounts fl (\<lambda>r. account_id r = i)"

section \<open>Balances\<close>

text \<open>The column balance is NOT NULL; 0 stands for a nil amount only where the insert is refused.\<close>

definition fromBalanceModels :: "env \<Rightarrow> Balance \<Rightarrow> balance_row" where
  "fromBalanceModels env from =
     \<lparr>balance_account_id = Balance_AccountID from,
      balance_created_at = env_db_time env (Balance_CreatedAt from),
      balance_asset = Balance_Asset from,
      balance_connector_id = AccountID_ConnectorID (Balance_AccountID from),
      balance_balance = (case Balance_Balance from of None \<Rightarrow> 0 | Some x \<Rightarrow> x),
      balance_last_updated_at = env_db_time env (Balance_LastUpdatedAt from),
      balance_psu_id = Balance_PsuID from,
      balance_open_banking_connection_id = Balance_OpenBankingConnectionID from\<rparr>"

definition toBalanceModels :: "balance_row \<Rightarrow> Balance" where
  "toBalanceModels from =
     \<lparr>Balance_AccountID = balance_account_id from,
      Balance_CreatedAt = balance_created_at from,
      Balance_LastUpdatedAt = balance_last_updated_at from,
      Balance_Asset = balance_asset from,
      Balance_Balance = Some (balance_balance from),
      Balance_PsuID = balance_psu_id from,
      Balance_OpenBankingConnectionID = balance_open_banking_connection_id from\<rparr>"

definition balance_pair :: "balance_row \<Rightarrow> AccountID \<times> string" where
  "balance_pair r = (balance_account_id r, balance_asset r)"

definition balance_key :: "balance_row \<Rightarrow> AccountID \<times> time \<times> string" where
  "balance_key r = (balance_account_id r, balance_created_at r, balance_asset r)"

definition last_balance :: "AccountID \<times> string \<Rightarrow> balance_row list \<Rightarrow> balance_row option" where
  "last_balance k tbl = latest_by balance_created_at (filter (\<lambda>r. balance_pair r = k) tbl)"

definition insert_balance_row :: "faults \<Rightarrow> balance_row \<Rightarrow> (db, unit) tx" where
  "insert_balance_row fl b =
     stmt fl ''failed to insert balance''
       (\<lambda>d. if has_key balance_key (balance_key b) (balances d)
            then refuse ''failed to insert balance'' DbConstraintsFailed d
            else if \<not> connector_exists d (balance_connector_id b)
            then refuse ''failed to insert balance''
                   (DbFKConstraintFailed ''balances_connector_id'') d
            else if \<not> psu_ref_ok d (balance_psu_id b)
            then refuse ''failed to insert balance'' (DbFKConstraintFailed ''balances_psu_id_fk'') d
            else if \<not> connection_ref_ok d (balance_psu_id b) (balance_connector_id b)
                      (balance_open_banking_connection_id b)
            then refuse ''failed to insert balance''
                   (DbFKConstraintFailed ''balances_open_banking_connection_id_fk'') d
            else (Inr (), d\<lparr>balances := balances d @ [b]\<rparr>))"

definition set_last_updated :: "faults \<Rightarrow> balance_row \<Rightarrow> time \<Rightarrow> (db, unit) tx" where
  "set_last_updated fl lastBalance t =
     stmt fl ''failed to update balance''
       (tx_modify (\<lambda>d. d\<lparr>balances := update_where (\<lambda>r. balance_key r = balance_key lastBalance)
          (\<lambda>r. r\<lparr>balance_last_updated_at := t\<rparr>) (balances d)\<rparr>))"

text \<open>
  Whether the table changed.  A nil amount makes Cmp panic when there is a last
  balance, and violates NOT NULL when there is none.
\<close>

definition insertBalances :: "faults \<Rightarrow> balance_row \<Rightarrow> bool \<Rightarrow> (db, bool) tx" where
  "insertBalances fl b nil_amount = stmt fl ''failed to get balance''
     (\<lambda>d. case last_balance (balance_pair b) (balances d) of
        None \<Rightarrow>
          if nil_amount
          then stmt fl ''failed to insert balance''
                 (refuse ''failed to insert balance'' not_null_violation) d
          else tx_seq (insert_balance_row fl b) (tx_return True) d
      | Some lastBalance \<Rightarrow>
          if balance_created_at lastBalance > balance_created_at b then (Inr False, d)
          else if nil_amount
          then (Inl (Panic ''runtime error: invalid memory address or nil pointer dereference''), d)
          else if balance_balance lastBalance = balance_balance b
          then tx_seq (set_last_updated fl lastBalance (balance_last_updated_at b)) (tx_return True) d
          else tx_seq (insert_balance_row fl b)
                (tx_seq (set_last_updated fl lastBalance (balance_created_at b)) (tx_return True)) d)"

text \<open>The balances of the batch that changed the table, in order.\<close>

fun insert_balances_loop :: "env \<Rightarrow> faults \<Rightarrow> Balance list \<Rightarrow> (db, Balance list) tx" where
  "insert_balances_loop env fl [] = tx_return []"
| "insert_balances_loop env fl (b # bs) =
     tx_bind (insertBalances fl (fromBalanceModels env b) (Balance_Balance b = None))
       (\<lambda>changed. tx_bind (insert_balances_loop env fl bs)
          (\<lambda>rest. tx_return (if changed then b # rest else rest)))"

definition balance_event :: "env \<Rightarrow> Balance \<Rightarrow> OutboxEvent" where
  "balance_event env b =
     (let c = AccountID_ConnectorID (Balance_AccountID b) in
      \<lparr>OutboxEvent_ID =
         \<lparr>EventID_EventIdempotencyKey = env_balance_key env (Balance_ik b),
          EventID_ConnectorID = Some c\<rparr>,
       OutboxEvent_EventType = ''SAVED_BALANCE'',
       OutboxEvent_EntityID = env_account_text env (Balance_AccountID b),
       OutboxEvent_Payload = SavedBalance
         \<lparr>BalanceMessage_AccountID = env_account_text env (Balance_AccountID b),
          BalanceMessage_ConnectorID = env_connector_text env c,
          BalanceMessage_Provider = ToV3Provider (ConnectorID_Provider c),
          BalanceMessage_CreatedAt = Balance_CreatedAt b,
          BalanceMessage_LastUpdatedAt = Balance_LastUpdatedAt b,
          BalanceMessage_Asset = Balance_Asset b,
          BalanceMessage_Balance = Balance_Balance b\<rparr>,
       OutboxEvent_CreatedAt = env_now env,
       OutboxEvent_Status = OUTBOX_STATUS_PENDING,
       OutboxEvent_ConnectorID = Some c,
       OutboxEvent_RetryCount = 0,
       OutboxEvent_LastRetryAt = None,
       OutboxEvent_Error = None\<rparr>)"

text \<open>The error of BeginTx is returned as it is, without the storage's classification.\<close>

definition raw_begin :: "faults \<Rightarrow> ('s, 'a) tx \<Rightarrow> ('s, 'a) tx" where
  "raw_begin fl m = (case fl ''begin'' of
     None \<Rightarrow> m
   | Some (DbOther err) \<Rightarrow> tx_fail err
   | Some _ \<Rightarrow> tx_fail (Plain ''driver error''))"

definition BalancesUpsert :: "env \<Rightarrow> faults \<Rightarrow> Balance list \<Rightarrow> (db, unit) tx" where
  "BalancesUpsert env fl bs =
     (if bs = [] then tx_return ()
      else raw_begin fl (in_tx (fl(''begin'' := None)) ''begin'' ''failed to commit transaction''
        (tx_bind (insert_balances_loop env fl bs)
          (\<lambda>insertedBalances. if insertedBalances = [] then tx_return ()
             else OutboxEventsInsert env fl (map (balance_event env) insertedBalances)))))"

definition BalancesDeleteFromConnectorID :: "faults \<Rightarrow> ConnectorID \<Rightarrow> (db, unit) tx" where
  "BalancesDeleteFromConnectorID fl c =
     stmt fl ''delete balances''
       (tx_modify (\<lambda>d. d\<lparr>balances := delete_where (\<lambda>r. balance_connector_id r = c) (balances d)\<rparr>))"

section \<open>Queries on balances\<close>

record BalanceQuery =
  BalanceQuery_AccountID :: "AccountID option"
  BalanceQuery_Asset :: string
  BalanceQuery_From :: time
  BalanceQuery_To :: time

definition NewBalanceQuery :: BalanceQuery where
  "NewBalanceQuery = \<lparr>BalanceQuery_AccountID = None, BalanceQuery_Asset = [],
     BalanceQuery_From = 0, BalanceQuery_To = 0\<rparr>"

definition WithAccountID :: "BalanceQuery \<Rightarrow> AccountID option \<Rightarrow> BalanceQuery" where
  "WithAccountID b accountID = b\<lparr>BalanceQuery_AccountID := accountID\<rparr>"

definition WithAsset :: "BalanceQuery \<Rightarrow> string \<Rightarrow> BalanceQuery" where
  "WithAsset b asset = b\<lparr>BalanceQuery_Asset := asset\<rparr>"

definition WithFrom :: "BalanceQuery \<Rightarrow> time \<Rightarrow> BalanceQuery" where
  "WithFrom b t = b\<lparr>BalanceQuery_From := t\<rparr>"

definition WithTo :: "BalanceQuery \<Rightarrow> time \<Rightarrow> BalanceQuery" where
  "WithTo b t = b\<lparr>BalanceQuery_To := t\<rparr>"

text \<open>The rows the query selects.\<close>

definition applyBalanceQuery :: "BalanceQuery \<Rightarrow> balance_row \<Rightarrow> bool" where
  "applyBalanceQuery q r \<longleftrightarrow>
     (case BalanceQuery_AccountID q of None \<Rightarrow> True | Some a \<Rightarrow> balance_account_id r = a) \<and>
     (BalanceQuery_Asset q = [] \<or> balance_asset r = BalanceQuery_Asset q) \<and>
     (time_IsZero (BalanceQuery_From q) \<or> balance_last_updated_at r \<ge> BalanceQuery_From q) \<and>
     (time_IsZero (BalanceQuery_To q) \<or> balance_created_at r \<le> BalanceQuery_To q)"

text \<open>Per account and asset the latest row among those the instant selects.\<close>

definition balance_at :: "time option \<Rightarrow> AccountID \<times> string \<Rightarrow> balance_row list \<Rightarrow> balance_row option" where
  "balance_at t k tbl = last_balance k (filter (\<lambda>r. case t of None \<Rightarrow> True
     | Some x \<Rightarrow> time_IsZero x \<or> (balance_created_at r \<le> x \<and> x \<le> balance_last_updated_at r)) tbl)"

definition selected_balances :: "AccountID list \<Rightarrow> time option \<Rightarrow> balance_row list \<Rightarrow> balance_row list" where
  "selected_balances accountIDs t tbl =
     List.map_filter (\<lambda>k. balance_at t k tbl)
       (remdups (map balance_pair (filter (\<lambda>r. balance_account_id r \<in> set accountIDs) tbl)))"

definition BalancesGetFromAccountIDs ::
  "faults \<Rightarrow> AccountID list \<Rightarrow> time option \<Rightarrow> (db, AggregatedBalance list) tx" where
  "BalancesGetFromAccountIDs fl accountIDs t =
     (if accountIDs = [] then tx_return []
      else stmt fl ''failed to list balance assets''
        (tx_get (\<lambda>d. let sel = selected_balances accountIDs t (balances d) in
           map (\<lambda>asset. let rows = filter (\<lambda>r. balance_asset r = asset) sel in
             \<lparr>AggregatedBalance_Asset = asset,
              AggregatedBalance_Amount = sum_list (map balance_balance rows),
              AggregatedBalance_RelatedAccounts = map balance_account_id rows\<rparr>)
             (remdups (map balance_asset sel)))))"

end
