(* ===== verification/Retries.thy ===== *)
theory Retries
  imports Prelude
begin

text \<open>
  Temporal runs an activity at least once: an attempt can fail and be repeated,
  and an attempt that succeeded can be repeated because its answer was lost.
  The contract of a storage function that may be retried, and what follows from
  it for any sequence of attempts.
\<close>

text \<open>The states after a sequence of attempts, each with the faults the database shows it.\<close>

fun attempts :: "(faults \<Rightarrow> ('s, 'a) tx) \<Rightarrow> faults list \<Rightarrow> 's \<Rightarrow> 's" where
  "attempts op [] s = s"
| "attempts op (fl # fls) s = attempts op fls (snd (op fl s))"

definition succeeds :: "(faults \<Rightarrow> ('s, 'a) tx) \<Rightarrow> faults \<Rightarrow> 's \<Rightarrow> bool" where
  "succeeds op fl s \<longleftrightarrow> is_ok (fst (op fl s))"

locale retried =
  fixes op :: "faults \<Rightarrow> ('s, 'a) tx"
    and ok :: "'s \<Rightarrow> bool"
  assumes atomic: "op fl s = (Inl e, s') \<Longrightarrow> s' = s"
    and again: "ok s \<Longrightarrow> op fl s = (Inr a, s') \<Longrightarrow> op fl' s' = (Inr a', s'') \<Longrightarrow> s'' = s'"
begin

lemma failed: "\<not> succeeds op fl s \<Longrightarrow> snd (op fl s) = s"
  using atomic[of fl s] by (cases "op fl s"; cases "fst (op fl s)") (auto simp: succeeds_def)

lemma settled:
  assumes "ok s" "op fl s = (Inr a, s')"
  shows "attempts op fls s' = s'"
proof (induction fls)
  case Nil
  then show ?case by simp
next
  case (Cons fl' fls)
  have "snd (op fl' s') = s'"
  proof (cases "succeeds op fl' s'")
    case True
    then obtain a' where "fst (op fl' s') = Inr a'" by (cases "fst (op fl' s')") (auto simp: succeeds_def)
    then have "op fl' s' = (Inr a', snd (op fl' s'))" by (metis prod.collapse)
    with again[OF assms] show ?thesis by blast
  next
    case False
    then show ?thesis by (rule failed)
  qed
  with Cons show ?case by simp
qed

text \<open>
  Whatever fails in between, the attempts leave either the state they started
  from or the state of the first attempt that succeeded.
\<close>

lemma any_attempts:
  assumes "ok s"
  shows "attempts op fls s = s \<or> (\<exists>fl\<in>set fls. succeeds op fl s \<and> attempts op fls s = snd (op fl s))"
  using assms
proof (induction fls)
  case Nil
  then show ?case by simp
next
  case (Cons fl fls)
  show ?case
  proof (cases "succeeds op fl s")
    case True
    then obtain a where "fst (op fl s) = Inr a" by (cases "fst (op fl s)") (auto simp: succeeds_def)
    then have "op fl s = (Inr a, snd (op fl s))" by (metis prod.collapse)
    from settled[OF Cons.prems this, of fls] True show ?thesis by auto
  next
    case False
    with failed[OF False] Cons show ?thesis by auto
  qed
qed

end

end
