(* ===== verification/Accounts_Proofs.thy ===== *)
theory Accounts_Proofs
  imports Accounts_Store Retries
begin

text \<open>
  Accounts: the first report wins, its event is emitted once, and any sequence
  of attempts to store a batch has the effect of one.
\<close>

section \<open>Statements without faults\<close>

lemma filter_unsent_mono:
  "filter_unsent env fl evs d = (Inr rows, d') \<Longrightarrow> filter_unsent env no_faults evs d = (Inr rows, d')"
  by (induction evs arbitrary: rows) (auto simp: tx_bind_Inr_iff split: if_splits)

lemma OutboxEventsInsert_mono:
  assumes ok: "OutboxEventsInsert env fl evs d = (Inr u, d')"
  shows "OutboxEventsInsert env no_faults evs d = (Inr u, d')"
proof (cases "evs = []")
  case True
  with ok show ?thesis by (simp add: OutboxEventsInsert_def)
next
  case False
  with ok obtain rows d1 where f: "filter_unsent env fl evs d = (Inr rows, d1)" and
    rest: "(if rows = [] then tx_return ()
       else stmt fl ''failed to insert outbox events''
             (\<lambda>d. let (ins, d') = insert_outbox_rows rows d in
                  if list_all (\<lambda>r. connector_ref_ok d (outbox_connector_id r)) ins then (Inr (), d')
                  else refuse ''failed to insert outbox events''
                         (DbFKConstraintFailed ''outbox_events_connector_id_fk'') d)) d1 = (Inr u, d')"
    unfolding OutboxEventsInsert_def by (auto simp: tx_bind_Inr_iff)
  from filter_unsent_mono[OF f] rest False show ?thesis
    by (cases "rows = []") (simp_all add: OutboxEventsInsert_def tx_bind_def)
qed

lemma emit_events_Inr:
  "emit_events env fl evs d = (Inr u, d') \<longleftrightarrow>
     (\<exists>es. evs = Inr es \<and> OutboxEventsInsert env fl es d = (Inr u, d'))"
  by (auto simp: emit_events_def tx_bind_Inr_iff OutboxEventsInsert_def)

section \<open>AccountsUpsert\<close>

lemma fromAccountModels_simps [simp]:
  "account_id (fromAccountModels env a) = Account_ID a"
  "account_connector_id (fromAccountModels env a) = Account_ConnectorID a"
  "account_psu_id (fromAccountModels env a) = Account_PsuID a"
  "account_open_banking_connection_id (fromAccountModels env a) = Account_OpenBankingConnectionID a"
  by (simp_all add: fromAccountModels_def)

lemma account_event_simps [simp]:
  "OutboxEvent_Status (account_event env a) = OUTBOX_STATUS_PENDING"
  by (simp add: account_event_def)

lemma account_events_set:
  "account_events env ids as = Inr es \<Longrightarrow>
     set es = account_event env ` {a \<in> set as. env_account_text env (Account_ID a) \<in> set ids}"
  by (induction as arbitrary: es) (auto split: if_splits)

lemma AccountsUpsert_result:
  assumes "AccountsUpsert env fl as d = (Inr u, d')"
  obtains new es where
    "insert_ignore account_id (map (fromAccountModels env) as) (accounts d) = (new, accounts d @ new)"
    "account_events env (map (\<lambda>r. env_account_text env (account_id r)) new) as = Inr es"
    "OutboxEventsInsert env fl es (d\<lparr>accounts := accounts d @ new\<rparr>) = (Inr u, d')"
    "accounts d' = accounts d @ new"
    "list_all (\<lambda>r. connector_exists d (account_connector_id r)) new"
proof (cases "as = []")
  case True
  with assms have "d' = d" by (simp add: AccountsUpsert_def)
  with True that[of "[]" "[]"] show thesis by (simp add: OutboxEventsInsert_def)
next
  case False
  obtain new T where
    i: "insert_ignore account_id (map (fromAccountModels env) as) (accounts d) = (new, T)" by fastforce
  have T: "T = accounts d @ new" by (rule insert_ignore_append[OF i])
  let ?d1 = "d\<lparr>accounts := accounts d @ new\<rparr>"
  from assms False i obtain es where
    c: "list_all (\<lambda>r. connector_exists d (account_connector_id r)) new" and
    es: "account_events env (map (\<lambda>r. env_account_text env (account_id r)) new) as = Inr es" and
    o: "OutboxEventsInsert env fl es ?d1 = (Inr u, d')"
    by (auto simp: AccountsUpsert_def in_tx_Inr_iff tx_bind_Inr_iff insert_accounts_stmt_def T
        emit_events_Inr split: if_splits)
  obtain t where "d' = ?d1\<lparr>outbox_events := t\<rparr>" using outbox.only_outbox[OF o] by blast
  then have "accounts d' = accounts d @ new" by simp
  with that i T c es o show thesis by simp
qed

lemma AccountsUpsert_again:
  assumes "AccountsUpsert env fl as d = (Inr u, d')" "AccountsUpsert env fl' as d' = (Inr u', d'')"
  shows "d'' = d'"
proof -
  from AccountsUpsert_result[OF assms(1)] obtain new where
    new: "insert_ignore account_id (map (fromAccountModels env) as) (accounts d) = (new, accounts d @ new)" and
    acc: "accounts d' = accounts d @ new" by metis
  from AccountsUpsert_result[OF assms(2)] obtain new2 es2 where
    new2: "insert_ignore account_id (map (fromAccountModels env) as) (accounts d') = (new2, accounts d' @ new2)" and
    es2: "account_events env (map (\<lambda>r. env_account_text env (account_id r)) new2) as = Inr es2" and
    o2: "OutboxEventsInsert env fl' es2 (d'\<lparr>accounts := accounts d' @ new2\<rparr>) = (Inr u', d'')" by metis
  have "new2 = []" using insert_ignore_replay[OF new] new2 acc by simp
  moreover from this es2 have "es2 = []" using account_events_set[OF es2] by simp
  ultimately show ?thesis using o2 by (simp add: outbox.emit_none)
qed

interpretation accounts_retried: retried "\<lambda>fl. AccountsUpsert env fl as" "\<lambda>_. True" for env as
proof unfold_locales
  fix fl d e d'
  assume "AccountsUpsert env fl as d = (Inl e, d')"
  then show "d' = d" by (auto simp: AccountsUpsert_def dest: in_tx_rollback split: if_splits)
next
  fix d fl a d' fl' a' d''
  assume "AccountsUpsert env fl as d = (Inr a, d')" "AccountsUpsert env fl' as d' = (Inr a', d'')"
  then show "d'' = d'" by (rule AccountsUpsert_again)
qed

section \<open>Histories of balances\<close>

text \<open>
  The rows of one account and asset, in the order they were inserted: their
  dates increase, each was in force until the date of the next.
\<close>

definition follows :: "balance_row \<Rightarrow> balance_row \<Rightarrow> bool" where
  "follows r s \<longleftrightarrow> balance_created_at r < balance_created_at s \<and>
     balance_last_updated_at r = balance_created_at s"

definition history_ok :: "balance_row list \<Rightarrow> bool" where
  "history_ok rs \<longleftrightarrow> successively follows rs \<and>
     (rs \<noteq> [] \<longrightarrow> balance_created_at (last rs) \<le> balance_last_updated_at (last rs))"

definition history :: "AccountID \<times> string \<Rightarrow> balance_row list \<Rightarrow> balance_row list" where
  "history k tbl = filter (\<lambda>r. balance_pair r = k) tbl"

definition balances_ok :: "db \<Rightarrow> bool" where
  "balances_ok d \<longleftrightarrow> (\<forall>k. history_ok (history k (balances d))) \<and>
     (\<forall>r\<in>set (balances d). balance_connector_id r = AccountID_ConnectorID (balance_account_id r))"

lemma balances_okD: "balances_ok d \<Longrightarrow> history_ok (history k (balances d))"
  unfolding balances_ok_def by blast

lemma history_append [simp]: "history k (xs @ ys) = history k xs @ history k ys"
  by (simp add: history_def)

lemma balance_key_split: "balance_key r = balance_key s \<longleftrightarrow>
    balance_pair r = balance_pair s \<and> balance_created_at r = balance_created_at s"
  by (auto simp: balance_key_def balance_pair_def)

lemma successively_created_sorted:
  "successively follows rs \<Longrightarrow> sorted_wrt (\<lambda>r s. balance_created_at r < balance_created_at s) rs"
proof -
  assume "successively follows rs"
  then have "successively (\<lambda>r s. balance_created_at r < balance_created_at s) rs"
    by (rule successively_mono) (auto simp: follows_def)
  moreover have "transp (\<lambda>r s. balance_created_at r < balance_created_at s)"
    by (rule transpI) (rule less_trans)
  ultimately show ?thesis using successively_conv_sorted_wrt by metis
qed

lemma history_before:
  assumes "history_ok (rs @ [l])" "r \<in> set rs"
  shows "balance_created_at r < balance_created_at l"
  using successively_created_sorted[of "rs @ [l]"] assms by (simp add: history_ok_def sorted_wrt_append)

lemma latest_of_sorted:
  assumes "\<And>r. r \<in> set rs \<Longrightarrow> c r < c l"
  shows "latest_by c (rs @ [l]) = Some l"
  using assms by (induction rs) (auto simp: less_imp_le not_le)

lemma last_balance_history:
  assumes "history_ok (history k tbl)"
  shows "last_balance k tbl = (if history k tbl = [] then None else Some (last (history k tbl)))"
proof (cases "history k tbl" rule: rev_cases)
  case Nil
  then show ?thesis by (simp add: last_balance_def history_def)
next
  case (snoc rs l)
  have "latest_by balance_created_at (rs @ [l]) = Some l"
    by (rule latest_of_sorted) (use history_before assms snoc in metis)
  with snoc show ?thesis by (simp add: last_balance_def history_def)
qed

lemma history_update:
  assumes "\<And>r. balance_pair (f r) = balance_pair r"
  shows "history k (update_where (\<lambda>r. balance_key r = balance_key l) f tbl) =
    (if k = balance_pair l
     then update_where (\<lambda>r. balance_created_at r = balance_created_at l) f (history k tbl)
     else history k tbl)"
  using assms by (induction tbl) (auto simp: history_def update_where_def balance_key_split)

lemma history_update_last:
  assumes "history_ok (rs @ [l])"
  shows "update_where (\<lambda>r. balance_created_at r = balance_created_at l) f (rs @ [l]) = rs @ [f l]"
proof -
  have "map (\<lambda>r. if balance_created_at r = balance_created_at l then f r else r) rs = map (\<lambda>r. r) rs"
    by (rule map_cong[OF refl]) (use history_before[OF assms] in fastforce)
  then show ?thesis by (simp add: update_where_def)
qed

lemma history_ok_touch:
  assumes "history_ok (rs @ [l])" "balance_created_at l \<le> t"
  shows "history_ok (rs @ [l\<lparr>balance_last_updated_at := t\<rparr>])"
  using assms by (auto simp: history_ok_def successively_append_iff follows_def)

lemma history_ok_extend:
  assumes "history_ok (rs @ [l])" "balance_created_at l < balance_created_at b"
    "balance_created_at b \<le> balance_last_updated_at b"
  shows "history_ok (rs @ [l\<lparr>balance_last_updated_at := balance_created_at b\<rparr>, b])"
  using assms by (auto simp: history_ok_def successively_append_iff follows_def)

lemma history_ok_single: "balance_created_at b \<le> balance_last_updated_at b \<Longrightarrow> history_ok [b]"
  by (simp add: history_ok_def)

text \<open>What inserting one balance does to the table, in each case.\<close>

lemma insertBalances_cases:
  assumes "insertBalances fl b nil_amount d = (Inr changed, d')"
  obtains
    (first) "last_balance (balance_pair b) (balances d) = None" "changed"
      "d' = d\<lparr>balances := balances d @ [b]\<rparr>"
  | (stale) l where "last_balance (balance_pair b) (balances d) = Some l"
      "balance_created_at l > balance_created_at b" "\<not> changed" "d' = d"
  | (same) l where "last_balance (balance_pair b) (balances d) = Some l"
      "balance_created_at l \<le> balance_created_at b" "balance_balance l = balance_balance b" "changed"
      "d' = d\<lparr>balances := update_where (\<lambda>r. balance_key r = balance_key l)
          (\<lambda>r. r\<lparr>balance_last_updated_at := balance_last_updated_at b\<rparr>) (balances d)\<rparr>"
  | (other) l where "last_balance (balance_pair b) (balances d) = Some l"
      "balance_created_at l \<le> balance_created_at b" "balance_balance l \<noteq> balance_balance b" "changed"
      "\<not> has_key balance_key (balance_key b) (balances d)"
      "d' = d\<lparr>balances := update_where (\<lambda>r. balance_key r = balance_key l)
          (\<lambda>r. r\<lparr>balance_last_updated_at := balance_created_at b\<rparr>) (balances d @ [b])\<rparr>"
proof (cases "last_balance (balance_pair b) (balances d)")
  case None
  with assms have "changed \<and> d' = d\<lparr>balances := balances d @ [b]\<rparr>"
    by (simp add: insertBalances_def tx_seq_Inr_iff insert_balance_row_def split: if_splits)
  with None show thesis by (intro first) simp_all
next
  case (Some l)
  show thesis
  proof (cases "balance_created_at l > balance_created_at b")
    case True
    with Some assms have "\<not> changed \<and> d' = d" by (simp add: insertBalances_def)
    with Some True show thesis by (intro stale) simp_all
  next
    case False
    then have le: "balance_created_at l \<le> balance_created_at b" by simp
    show thesis
    proof (cases "balance_balance l = balance_balance b")
      case True
      with Some False assms have "changed \<and>
        d' = d\<lparr>balances := update_where (\<lambda>r. balance_key r = balance_key l)
          (\<lambda>r. r\<lparr>balance_last_updated_at := balance_last_updated_at b\<rparr>) (balances d)\<rparr>"
        by (simp add: insertBalances_def tx_seq_Inr_iff set_last_updated_def split: if_splits)
      with Some le True show thesis by (intro same) simp_all
    next
      case ne: False
      with Some False assms have "changed \<and> \<not> has_key balance_key (balance_key b) (balances d) \<and>
        d' = d\<lparr>balances := update_where (\<lambda>r. balance_key r = balance_key l)
          (\<lambda>r. r\<lparr>balance_last_updated_at := balance_created_at b\<rparr>) (balances d @ [b])\<rparr>"
        by (simp add: insertBalances_def tx_seq_Inr_iff set_last_updated_def insert_balance_row_def
            split: if_splits)
      with Some le ne show thesis by (intro other) simp_all
    qed
  qed
qed

lemma last_balance_SomeD:
  "last_balance k tbl = Some l \<Longrightarrow> l \<in> set tbl \<and> balance_pair l = k"
  unfolding last_balance_def by (drule latest_by_SomeD(1)) simp

lemma insertBalances_ok:
  assumes ins: "insertBalances fl b nil_amount d = (Inr changed, d')" and ok: "balances_ok d"
    and b: "balance_created_at b \<le> balance_last_updated_at b"
      "balance_connector_id b = AccountID_ConnectorID (balance_account_id b)"
  shows "balances_ok d'"
  unfolding balances_ok_def
proof (intro conjI allI)
  have own: "balance_connector_id r = AccountID_ConnectorID (balance_account_id r)"
    if "r \<in> set (balances d)" for r using ok that by (simp add: balances_ok_def)
  from ins show "\<forall>r\<in>set (balances d'). balance_connector_id r = AccountID_ConnectorID (balance_account_id r)"
    by (cases rule: insertBalances_cases) (auto simp: own b(2) update_where_def)
next
  fix k
  note h = balances_okD[OF ok, of k] and hb = balances_okD[OF ok, of "balance_pair b"]
  have other_pair: "history k [b] = []" if "k \<noteq> balance_pair b" using that by (simp add: history_def)
  have same_pair: "history (balance_pair b) [b] = [b]" by (simp add: history_def)
  have split: "\<exists>rs. history (balance_pair b) (balances d) = rs @ [l]"
    if "last_balance (balance_pair b) (balances d) = Some l" for l
    using last_balance_history[OF hb] that
    by (cases "history (balance_pair b) (balances d)" rule: rev_cases) auto
  from ins show "history_ok (history k (balances d'))"
  proof (cases rule: insertBalances_cases)
    case first
    with last_balance_history[OF hb] have "history (balance_pair b) (balances d) = []"
      by (simp split: if_splits)
    with first h b(1) show ?thesis
      by (cases "k = balance_pair b") (simp_all add: other_pair same_pair history_ok_single)
  next
    case stale
    with h show ?thesis by simp
  next
    case (same l)
    from last_balance_SomeD[OF same(1)] have l: "balance_pair l = balance_pair b" by simp
    from split[OF same(1)] obtain rs where rs: "history (balance_pair b) (balances d) = rs @ [l]" by blast
    have p: "balance_pair (r\<lparr>balance_last_updated_at := t\<rparr>) = balance_pair r" for r :: balance_row and t
      by (simp add: balance_pair_def)
    show ?thesis
    proof (cases "k = balance_pair b")
      case True
      have "history_ok (rs @ [l\<lparr>balance_last_updated_at := balance_last_updated_at b\<rparr>])"
        by (rule history_ok_touch) (use hb rs same(2) b(1) in simp_all)
      with True same(5) rs hb show ?thesis by (simp add: history_update[OF p] l history_update_last)
    next
      case False
      with same(5) h show ?thesis by (simp add: history_update[OF p] l)
    qed
  next
    case (other l)
    from last_balance_SomeD[OF other(1)] have l: "l \<in> set (balances d)" "balance_pair l = balance_pair b" by simp_all
    from split[OF other(1)] obtain rs where rs: "history (balance_pair b) (balances d) = rs @ [l]" by blast
    have "balance_key l \<noteq> balance_key b" using other(5) l(1) by (metis has_key_iff imageI)
    with l(2) other(2) have lt: "balance_created_at l < balance_created_at b"
      by (auto simp: balance_key_split)
    have p: "balance_pair (r\<lparr>balance_last_updated_at := t\<rparr>) = balance_pair r" for r :: balance_row and t
      by (simp add: balance_pair_def)
    have upd: "update_where (\<lambda>r. balance_created_at r = balance_created_at l) f (xs @ [b])
        = update_where (\<lambda>r. balance_created_at r = balance_created_at l) f xs @ [b]" for f xs
      using lt by (simp add: update_where_def)
    show ?thesis
    proof (cases "k = balance_pair b")
      case True
      have "history_ok (rs @ [l\<lparr>balance_last_updated_at := balance_created_at b\<rparr>, b])"
        by (rule history_ok_extend) (use hb rs lt b(1) in simp_all)
      with True other(6) rs hb show ?thesis
        by (simp add: history_update[OF p] l same_pair upd history_update_last del: append_assoc)
          (simp add: history_update_last upd)
    next
      case False
      with other(6) h show ?thesis by (simp add: history_update[OF p] l other_pair)
    qed
  qed
qed

lemma insert_balances_loop_ok:
  assumes "insert_balances_loop env fl bs d = (Inr r, d')" "balances_ok d"
    "\<forall>b\<in>set bs. env_db_time env (Balance_CreatedAt b) \<le> env_db_time env (Balance_LastUpdatedAt b)"
  shows "balances_ok d'"
  using assms
proof (induction bs arbitrary: d r)
  case Nil
  then show ?case by simp
next
  case (Cons b bs)
  from Cons.prems(1) obtain ch d1 r1 where
    i: "insertBalances fl (fromBalanceModels env b) (Balance_Balance b = None) d = (Inr ch, d1)" and
    l: "insert_balances_loop env fl bs d1 = (Inr r1, d')"
    by (auto simp: tx_bind_Inr_iff)
  have "balances_ok d1"
    by (rule insertBalances_ok[OF i Cons.prems(2)]) (use Cons.prems(3) in \<open>simp_all add: fromBalanceModels_def\<close>)
  with Cons.IH[OF l] Cons.prems(3) show ?case by simp
qed

lemma BalancesUpsert_Inr:
  assumes "BalancesUpsert env fl bs d = (Inr u, d')"
  obtains ins d1 where "insert_balances_loop env fl bs d = (Inr ins, d1)"
    "OutboxEventsInsert env fl (map (balance_event env) ins) d1 = (Inr u, d')"
proof (cases "bs = []")
  case True
  with assms that[of "[]" d] show thesis by (simp add: BalancesUpsert_def outbox.emit_none)
next
  case False
  with assms obtain ins d1 where
    l: "insert_balances_loop env fl bs d = (Inr ins, d1)" and
    o: "(if ins = [] then tx_return ()
         else OutboxEventsInsert env fl (map (balance_event env) ins)) d1 = (Inr u, d')"
    by (auto simp: BalancesUpsert_def raw_begin_def in_tx_Inr_iff tx_bind_Inr_iff
        split: option.splits db_error.splits)
  have "OutboxEventsInsert env fl (map (balance_event env) ins) d1 = (Inr u, d')"
    using o by (cases "ins = []") (simp_all add: outbox.emit_none)
  with l that show thesis by blast
qed

lemma BalancesUpsert_error: "BalancesUpsert env fl bs d = (Inl e, d') \<Longrightarrow> d' = d"
  by (auto simp: BalancesUpsert_def raw_begin_def dest: in_tx_rollback
      split: if_splits option.splits db_error.splits)

lemma balances_ok_only: "balances d' = balances d \<Longrightarrow> balances_ok d' \<longleftrightarrow> balances_ok d"
  by (simp add: balances_ok_def)

lemma BalancesUpsert_ok:
  assumes "BalancesUpsert env fl bs d = (Inr u, d')" "balances_ok d"
    "\<forall>b\<in>set bs. env_db_time env (Balance_CreatedAt b) \<le> env_db_time env (Balance_LastUpdatedAt b)"
  shows "balances_ok d'"
proof -
  from BalancesUpsert_Inr[OF assms(1)] obtain ins d1 where
    l: "insert_balances_loop env fl bs d = (Inr ins, d1)" and
    o: "OutboxEventsInsert env fl (map (balance_event env) ins) d1 = (Inr u, d')" by blast
  obtain t where "d' = d1\<lparr>outbox_events := t\<rparr>" using outbox.only_outbox[OF o] by blast
  then have "balances d' = balances d1" by simp
  with insert_balances_loop_ok[OF l assms(2,3)] balances_ok_only show ?thesis by blast
qed

section \<open>Deleting balances\<close>

lemma history_delete_connector:
  assumes "\<forall>r\<in>set tbl. balance_connector_id r = AccountID_ConnectorID (balance_account_id r)"
  shows "history k (delete_where (\<lambda>r. balance_connector_id r = c) tbl) =
    (if AccountID_ConnectorID (fst k) = c then [] else history k tbl)"
  using assms by (induction tbl) (auto simp: history_def delete_where_def balance_pair_def)

lemma BalancesDelete_ok:
  assumes "BalancesDeleteFromConnectorID fl c d = (Inr u, d')" "balances_ok d"
  shows "balances_ok d'"
proof -
  have own: "\<forall>r\<in>set (balances d). balance_connector_id r = AccountID_ConnectorID (balance_account_id r)"
    using assms(2) by (simp add: balances_ok_def)
  have d': "balances d' = delete_where (\<lambda>r. balance_connector_id r = c) (balances d)"
    using assms(1) by (auto simp: BalancesDeleteFromConnectorID_def)
  have "history_ok (history k (balances d'))" for k
    unfolding d' history_delete_connector[OF own]
    using balances_okD[OF assms(2), of k] by (simp add: history_ok_def)
  with own show ?thesis by (simp add: balances_ok_def d')
qed

inductive balances_step :: "db \<Rightarrow> db \<Rightarrow> bool" where
  upsert: "FromPSPBalances from c psu ob = Inr bs \<Longrightarrow> BalancesUpsert env fl bs d = (Inr (), d') \<Longrightarrow>
     balances_step d d'"
| delete: "BalancesDeleteFromConnectorID fl c d = (Inr (), d') \<Longrightarrow> balances_step d d'"
| elsewhere: "balances d' = balances d \<Longrightarrow> balances_step d d'"

inductive balances_reachable :: "db \<Rightarrow> bool" where
  start: "balances_reachable empty_db"
| more: "balances_reachable d \<Longrightarrow> balances_step d d' \<Longrightarrow> balances_reachable d'"

lemma FromPSPBalances_dates:
  assumes "FromPSPBalances from c psu ob = Inr bs" "b \<in> set bs"
  shows "Balance_CreatedAt b = Balance_LastUpdatedAt b"
proof -
  from assms(1) have "list_all2 (\<lambda>f b. FromPSPBalance f c psu ob = Inr b) from bs"
    by (simp add: FromPSPBalances_def result_map_list_Inr_iff)
  then have "\<forall>b\<in>set bs. Balance_CreatedAt b = Balance_LastUpdatedAt b"
    by (induction rule: list_all2_induct) (auto dest: FromPSPBalance_shape)
  with assms(2) show ?thesis by blast
qed

lemma balances_reachable_ok: "balances_reachable d \<Longrightarrow> balances_ok d"
proof (induction rule: balances_reachable.induct)
  case start
  then show ?case by (simp add: balances_ok_def empty_db_def history_def history_ok_def)
next
  case (more d d')
  from more(2) show ?case
  proof (cases rule: balances_step.cases)
    case (upsert psps c psu ob bs env fl)
    have "\<forall>b\<in>set bs. env_db_time env (Balance_CreatedAt b) \<le> env_db_time env (Balance_LastUpdatedAt b)"
      using FromPSPBalances_dates[OF upsert(1)] by simp
    with BalancesUpsert_ok[OF upsert(2) more.IH] show ?thesis by blast
  next
    case delete
    then show ?thesis using BalancesDelete_ok more.IH by blast
  next
    case elsewhere
    then show ?thesis using balances_ok_only more.IH by blast
  qed
qed

section \<open>The balance in force at an instant\<close>

lemma latest_by_filter:
  "latest_by c xs = Some m \<Longrightarrow> P m \<Longrightarrow> latest_by c (filter P xs) = Some m"
proof (induction xs arbitrary: m)
  case Nil
  then show ?case by simp
next
  case (Cons x xs)
  show ?case
  proof (cases "latest_by c xs")
    case None
    with Cons.prems show ?thesis by simp
  next
    case (Some n)
    show ?thesis
    proof (cases "c x \<le> c n")
      case True
      with Some Cons have "latest_by c (filter P xs) = Some m" "m = n" by simp_all
      with True show ?thesis by simp
    next
      case False
      with Some Cons.prems have m: "m = x" by simp
      show ?thesis
      proof (cases "latest_by c (filter P xs)")
        case None
        with m Cons.prems(2) show ?thesis by simp
      next
        case (Some q)
        from latest_by_SomeD(1)[OF this] have "q \<in> set xs" by simp
        with latest_by_SomeD(2)[OF \<open>latest_by c xs = Some n\<close>] False have "\<not> c x \<le> c q" by force
        with Some m Cons.prems(2) show ?thesis by simp
      qed
    qed
  qed
qed

lemma in_force_row:
  assumes "history_ok rs" "rs \<noteq> []" "t \<le> balance_last_updated_at (last rs)"
    "latest_by balance_created_at (filter (\<lambda>r. balance_created_at r \<le> t) rs) = Some m"
  shows "t \<le> balance_last_updated_at m"
proof -
  from latest_by_SomeD[OF assms(4)] have m: "m \<in> set rs" "balance_created_at m \<le> t"
    and max: "\<And>r. r \<in> set rs \<Longrightarrow> balance_created_at r \<le> t \<Longrightarrow> balance_created_at r \<le> balance_created_at m"
    by auto
  from m(1) obtain xs ys where rs: "rs = xs @ m # ys" by (meson split_list)
  show ?thesis
  proof (cases ys)
    case Nil
    with assms(3) rs show ?thesis by simp
  next
    case (Cons s zs)
    with assms(1) rs have f: "follows m s" by (simp add: history_ok_def successively_append_iff)
    have "\<not> balance_created_at s \<le> t"
      using max[of s] f rs Cons by (auto simp: follows_def)
    with f show ?thesis by (simp add: follows_def)
  qed
qed

lemma balance_at_in_force:
  assumes ok: "history_ok (history k tbl)" and ne: "history k tbl \<noteq> []"
    and t: "t \<noteq> 0" "t \<le> balance_last_updated_at (last (history k tbl))"
  shows "balance_at (Some t) k tbl =
    latest_by balance_created_at (filter (\<lambda>r. balance_created_at r \<le> t) (history k tbl))"
proof -
  let ?rs = "filter (\<lambda>r. balance_created_at r \<le> t) (history k tbl)"
  have sel: "balance_at (Some t) k tbl
      = latest_by balance_created_at (filter (\<lambda>r. t \<le> balance_last_updated_at r) ?rs)"
    using t(1) by (simp add: balance_at_def last_balance_def history_def time_IsZero_def conj_ac)
  show ?thesis
  proof (cases "latest_by balance_created_at ?rs")
    case None
    then show ?thesis by (simp add: sel)
  next
    case (Some m)
    with latest_by_filter[of _ _ m "\<lambda>r. t \<le> balance_last_updated_at r", OF Some in_force_row[OF ok ne t(2) Some]] show ?thesis by (simp add: sel)
  qed
qed

end
