(* ===== verification/Accounts_Properties.thy ===== *)
theory Accounts_Properties
  imports Accounts_Proofs Examples
begin

text \<open>
  What the storage of accounts and balances promises, and that storing
  payments and accounts may be attempted any number of times.
\<close>

section \<open>Payments may be attempted any number of times\<close>

lemma apply_inserted_mono:
  assumes "apply_inserted env fl ps new s = (Inr u, s')"
  shows "apply_inserted env no_faults ps new s = (Inr u, s')"
proof -
  obtain R C where rc: "amount_deltas env ps new = (R, C)" by fastforce
  from assms obtain s1 s2 s3 where
    u: "update_payments_stmt fl set_initial (initial_amounts env ps) s = (Inr (), s1)"
      "update_payments_stmt fl add_amount C s1 = (Inr (), s2)"
      "update_payments_stmt fl sub_amount R s2 = (Inr (), s3)" and
    r: "(if new = [] then tx_return ()
         else tx_bind (tx_lift (payment_events env ps new))
           (\<lambda>evs. if evs = [] then tx_return () else OutboxEventsInsert env fl evs)) s3 = (Inr u, s')"
    by (auto simp: apply_inserted_def rc tx_seq_Inr_iff)
  have u': "update_payments_stmt no_faults set_initial (initial_amounts env ps) s = (Inr (), s1)"
      "update_payments_stmt no_faults add_amount C s1 = (Inr (), s2)"
      "update_payments_stmt no_faults sub_amount R s2 = (Inr (), s3)"
    using u unfolding update_payments_stmt_Inr by (simp_all add: no_faults_def)
  have "(if new = [] then tx_return ()
         else tx_bind (tx_lift (payment_events env ps new))
           (\<lambda>evs. if evs = [] then tx_return () else OutboxEventsInsert env no_faults evs)) s3 = (Inr u, s')"
  proof (cases "new = []")
    case True
    with r show ?thesis by simp
  next
    case False
    with r obtain evs where evs: "payment_events env ps new = Inr evs"
      "(if evs = [] then tx_return () else OutboxEventsInsert env fl evs) s3 = (Inr u, s')"
      by (auto simp: tx_bind_Inr_iff)
    then show ?thesis
      using False OutboxEventsInsert_mono[of env fl evs s3 u s'] by (auto simp: tx_bind_def)
  qed
  with u' show ?thesis by (auto simp: apply_inserted_def rc tx_seq_Inr_iff)
qed

lemma PaymentsUpsert_mono:
  assumes "PaymentsUpsert env fl ps d = (Inr u, d')"
  shows "PaymentsUpsert env no_faults ps d = (Inr u, d')"
proof -
  let ?rows = "map (fromPaymentModels env) ps" and ?adjs = "batch_adjustments env ps"
  from assms obtain s1 new s2 where
    s1: "(if ?rows = [] then tx_return ()
          else insert_payments_stmt fl ?rows (list_all payment_not_null ps)) d = (Inr (), s1)" and
    s2: "(if ?adjs = [] then tx_return [] else insert_adjustments_stmt fl ?adjs) s1 = (Inr new, s2)" and
    rest: "apply_inserted env fl ps new s2 = (Inr u, d')"
    by (auto simp: PaymentsUpsert_def Let_def in_tx_Inr_iff tx_seq_Inr_iff tx_bind_Inr_iff
        batch_adjustments_def[symmetric])
  have "(if ?rows = [] then tx_return ()
          else insert_payments_stmt no_faults ?rows (list_all payment_not_null ps)) d = (Inr (), s1)"
    using s1 by (cases "?rows = []") (simp_all add: insert_payments_stmt_def)
  moreover have "(if ?adjs = [] then tx_return [] else insert_adjustments_stmt no_faults ?adjs) s1 = (Inr new, s2)"
    using s2 by (cases "?adjs = []") (simp_all add: insert_adjustments_stmt_def)
  ultimately show ?thesis
    using apply_inserted_mono[OF rest]
    by (simp only: PaymentsUpsert_def Let_def in_tx_Inr_iff tx_seq_Inr_iff tx_bind_Inr_iff
        batch_adjustments_def[symmetric] no_faults_def) blast
qed

interpretation payments_retried: retried "\<lambda>fl. PaymentsUpsert env fl ps"
  "\<lambda>d. distinct (map payment_id (payments d))" for env ps
proof unfold_locales
  fix fl d e d'
  assume "PaymentsUpsert env fl ps d = (Inl e, d')"
  then show "d' = d" unfolding PaymentsUpsert_def Let_def by (rule in_tx_rollback)
next
  fix d fl a d' fl' a' d''
  assume pk: "distinct (map payment_id (payments d))"
    and ok: "PaymentsUpsert env fl ps d = (Inr a, d')"
    and again: "PaymentsUpsert env fl' ps d' = (Inr a', d'')"
  from PaymentsUpsert_replay_state[OF ok pk] PaymentsUpsert_mono[OF again] show "d'' = d'" by simp
qed

text \<open>Storing a batch of payments or of accounts may be attempted any number of
  times, with any database faults in any attempt: the database afterwards is
  the one before, or the one the first attempt that succeeded made of it.\<close>

theorem upserts_any_attempts:
  assumes "distinct (map payment_id (payments d))"
  shows "(attempts (\<lambda>fl. PaymentsUpsert env fl ps) fls d = d \<or>
      (\<exists>fl\<in>set fls. succeeds (\<lambda>fl. PaymentsUpsert env fl ps) fl d \<and>
         attempts (\<lambda>fl. PaymentsUpsert env fl ps) fls d = snd (PaymentsUpsert env fl ps d))) \<and>
    (attempts (\<lambda>fl. AccountsUpsert env fl as) fls d = d \<or>
      (\<exists>fl\<in>set fls. succeeds (\<lambda>fl. AccountsUpsert env fl as) fl d \<and>
         attempts (\<lambda>fl. AccountsUpsert env fl as) fls d = snd (AccountsUpsert env fl as d)))"
  using payments_retried.any_attempts[OF assms, of env ps fls]
    accounts_retried.any_attempts[OF TrueI, of env as fls d] by blast

lemma upserts_any_attempts_witness:
  "attempts (\<lambda>fl. PaymentsUpsert ex_env fl [ex_captured])
     [\<lambda>_. Some DbNotFound, no_faults, no_faults] ex_db1 \<in> {ex_db1, ex_db2}"
proof -
  have "distinct (map payment_id (payments ex_db1))" by code_simp
  note upserts_any_attempts[OF this, of ex_env "[ex_captured]" "[\<lambda>_. Some DbNotFound, no_faults, no_faults]" "[]"]
  moreover have "snd (PaymentsUpsert ex_env no_faults [ex_captured] ex_db1) = ex_db2" by (simp add: ex_upsert2)
  moreover have "snd (PaymentsUpsert ex_env (\<lambda>_. Some DbNotFound) [ex_captured] ex_db1) = ex_db1"
    by (simp add: PaymentsUpsert_def in_tx_def)
  ultimately show ?thesis by auto
qed

section \<open>Accounts\<close>

lemma insert_ignore_first:
  assumes "insert_ignore key rs tbl = (new, tbl')" "r \<in> set new"
  shows "lookup_row key (key r) rs = Some r"
proof -
  have "key r \<in> key ` set new" using assms(2) by (rule imageI)
  then have absent: "\<not> has_key key (key r) tbl"
    unfolding ignore_store.new_keys[OF assms(1)] has_key_iff by blast
  have "lookup_row key (key r) new = Some r"
    using lookup_row_distinct[OF ignore_store.new_distinct[OF assms(1)]] assms(2) by blast
  then have "lookup_row key (key r) tbl' = Some r"
    using absent by (simp add: insert_ignore_append[OF assms(1)] lookup_row_append)
  with lookup_insert_ignore[OF assms(1)] absent show ?thesis by simp
qed

text \<open>The first report of an account wins: stored accounts stay as they are, the
  ones added are the first of the batch for each identifier that was absent,
  each added account has its event in the outbox or among the sent ones, and
  when none is added the outbox is left alone.\<close>

theorem AccountsUpsert_first_wins:
  assumes "AccountsUpsert env fl as d = (Inr (), d')"
  shows "\<exists>new. accounts d' = accounts d @ new \<and> distinct (map account_id new) \<and>
    account_id ` set new = Account_ID ` set as - account_id ` set (accounts d) \<and>
    (\<forall>r\<in>set new. lookup_row account_id (account_id r) (map (fromAccountModels env) as) = Some r) \<and>
    (\<forall>a\<in>set as. env_account_text env (Account_ID a) \<in> env_account_text env ` account_id ` set new \<longrightarrow>
       OutboxEvent_ID (account_event env a) \<in> outbox_id ` set (outbox_events d') \<union> sent_id ` set (events_sent d')) \<and>
    (new = [] \<longrightarrow> outbox_events d' = outbox_events d)"
proof -
  from AccountsUpsert_result[OF assms] obtain new es where
    i: "insert_ignore account_id (map (fromAccountModels env) as) (accounts d) = (new, accounts d @ new)" and
    es: "account_events env (map (\<lambda>r. env_account_text env (account_id r)) new) as = Inr es" and
    o: "OutboxEventsInsert env fl es (d\<lparr>accounts := accounts d @ new\<rparr>) = (Inr (), d')" and
    acc: "accounts d' = accounts d @ new" by metis
  note set_es = account_events_set[OF es]
  have "OutboxEvent_ID (account_event env a) \<in> outbox_id ` set (outbox_events d') \<union> sent_id ` set (events_sent d')"
    if "a \<in> set as" "env_account_text env (Account_ID a) \<in> env_account_text env ` account_id ` set new" for a
  proof (rule outbox.all_recorded[OF o])
    show "account_event env a \<in> set es" using that by (auto simp: set_es)
  qed
  moreover have "outbox_events d' = outbox_events d" if "new = []"
    using that o set_es by (simp add: outbox.emit_none)
  moreover have "account_id ` set new = Account_ID ` set as - account_id ` set (accounts d)"
    using ignore_store.new_keys[OF i] by (simp add: image_image)
  moreover have "lookup_row account_id (account_id r) (map (fromAccountModels env) as) = Some r"
    if "r \<in> set new" for r
    by (rule insert_ignore_first[OF i that])
  ultimately show ?thesis using acc ignore_store.new_distinct[OF i] by blast
qed

definition ex_account :: Account where
  "ex_account = \<lparr>Account_ID = \<lparr>AccountID_Reference = ''acc'', AccountID_ConnectorID = ex_connector\<rparr>,
     Account_ConnectorID = ex_connector, Account_Connector = None, Account_Reference = ''acc'',
     Account_CreatedAt = 5, Account_Type = ACCOUNT_TYPE_INTERNAL, Account_Name = None,
     Account_DefaultAsset = None, Account_PsuID = None, Account_OpenBankingConnectionID = None,
     Account_Metadata = Map.empty, Account_Raw = Some ''{}''\<rparr>"

lemma AccountsUpsert_first_wins_witness:
  "accounts (snd (AccountsUpsert ex_env no_faults [ex_account] ex_db)) = [fromAccountModels ex_env ex_account] \<and>
   (\<exists>new. accounts (snd (AccountsUpsert ex_env no_faults [ex_account] ex_db)) = accounts ex_db @ new \<and>
     distinct (map account_id new))"
proof -
  have e: "fst (AccountsUpsert ex_env no_faults [ex_account] ex_db) = Inr ()"
    "accounts (snd (AccountsUpsert ex_env no_faults [ex_account] ex_db)) = [fromAccountModels ex_env ex_account]"
    by (simp_all add: AccountsUpsert_def in_tx_no_faults tx_bind_def insert_accounts_stmt_def emit_events_def
        ex_account_def ex_db_def empty_db_def connector_exists_def raw_ok_def ex_env_def
        account_event_def OutboxEventsInsert_def insert_outbox_rows_def connector_ref_ok_def
        psu_ref_ok_def connection_ref_ok_def connection_ref_def)
  then have "AccountsUpsert ex_env no_faults [ex_account] ex_db
      = (Inr (), snd (AccountsUpsert ex_env no_faults [ex_account] ex_db))" by (metis prod.collapse)
  from AccountsUpsert_first_wins[OF this] e(2) show ?thesis by blast
qed

section \<open>Balances\<close>

text \<open>C16: in every database reached by storing reported balances and deleting the
  balances of connectors, the rows of an account and asset form a history: each row is older than the next and was in force exactly
  until the date of the next, and the last one is not older than its own update.\<close>

theorem balances_form_histories:
  assumes "balances_reachable d"
  shows "successively (\<lambda>r s. balance_created_at r < balance_created_at s \<and>
      balance_last_updated_at r = balance_created_at s) (history k (balances d)) \<and>
    (case rev (history k (balances d)) of [] \<Rightarrow> True
     | l # _ \<Rightarrow> balance_created_at l \<le> balance_last_updated_at l \<and>
         last_balance k (balances d) = Some l)"
proof -
  note h = balances_okD[OF balances_reachable_ok[OF assms], of k]
  have "successively (\<lambda>r s. balance_created_at r < balance_created_at s \<and>
      balance_last_updated_at r = balance_created_at s) (history k (balances d))"
    using h by (simp add: history_ok_def follows_def[abs_def])
  moreover have "case rev (history k (balances d)) of [] \<Rightarrow> True
     | l # _ \<Rightarrow> balance_created_at l \<le> balance_last_updated_at l \<and> last_balance k (balances d) = Some l"
    using h last_balance_history[OF h]
    by (cases "history k (balances d)" rule: rev_cases) (simp_all add: history_ok_def)
  ultimately show ?thesis by blast
qed

definition ex_psp_balance :: "time \<Rightarrow> int \<Rightarrow> PSPBalance" where
  "ex_psp_balance t amount = \<lparr>PSPBalance_AccountReference = ''acc'', PSPBalance_CreatedAt = t,
     PSPBalance_Amount = Some amount, PSPBalance_Asset = ''USD/2'', PSPBalance_PsuID = None,
     PSPBalance_OpenBankingConnectionID = None\<rparr>"

definition ex_balance :: "time \<Rightarrow> int \<Rightarrow> Balance" where
  "ex_balance t amount = \<lparr>Balance_AccountID = \<lparr>AccountID_Reference = ''acc'', AccountID_ConnectorID = ex_connector\<rparr>,
     Balance_CreatedAt = t, Balance_LastUpdatedAt = t, Balance_Asset = ''USD/2'',
     Balance_Balance = Some amount, Balance_PsuID = None, Balance_OpenBankingConnectionID = None\<rparr>"

lemma ex_balance_ok: "t \<noteq> 0 \<Longrightarrow> FromPSPBalances [ex_psp_balance t amount] ex_connector None None
    = Inr [ex_balance t amount]"
  by (simp add: FromPSPBalances_def FromPSPBalance_def PSPBalance_Validate_def ex_psp_balance_def
      ex_balance_def time_IsZero_def ex_asset Let_def)

definition ex_balances :: "(time \<times> int) list \<Rightarrow> db" where
  "ex_balances xs = fold (\<lambda>(t, a) d. snd (BalancesUpsert ex_env no_faults [ex_balance t a] d)) xs ex_db"

lemma ex_balances_snoc: "ex_balances (xs @ [(t, a)])
    = snd (BalancesUpsert ex_env no_faults [ex_balance t a] (ex_balances xs))"
  by (simp add: ex_balances_def)

lemma ex_balances_reachable: "\<forall>(t, a)\<in>set xs. t \<noteq> 0 \<Longrightarrow> balances_reachable (ex_balances xs)"
proof (induction xs rule: rev_induct)
  case Nil
  have "balances_step empty_db ex_db" by (rule balances_step.elsewhere) (simp add: ex_db_def)
  then show ?case by (simp add: ex_balances_def) (blast intro: balances_reachable.intros)
next
  case (snoc x xs)
  obtain t a where x: "x = (t, a)" by fastforce
  obtain r d' where r: "BalancesUpsert ex_env no_faults [ex_balance t a] (ex_balances xs) = (r, d')" by fastforce
  have "balances_step (ex_balances xs) d'"
  proof (cases r)
    case (Inl e)
    with r have "d' = ex_balances xs" by (simp add: BalancesUpsert_error)
    then show ?thesis by (simp add: balances_step.elsewhere)
  next
    case (Inr u)
    with r snoc.prems x balances_step.upsert[OF ex_balance_ok[of t a]] show ?thesis by simp
  qed
  with snoc x r show ?case by (simp add: ex_balances_snoc) (blast intro: balances_reachable.more)
qed

definition ex_pair :: "AccountID \<times> string" where
  "ex_pair = (\<lparr>AccountID_Reference = ''acc'', AccountID_ConnectorID = ex_connector\<rparr>, ''USD/2'')"

lemma balances_form_histories_witness:
  "map (\<lambda>r. (balance_created_at r, balance_last_updated_at r, balance_balance r))
     (history ex_pair (balances (ex_balances [(10, 1), (20, 1), (30, 5)]))) = [(10, 30, 1), (30, 30, 5)] \<and>
   successively (\<lambda>r s. balance_created_at r < balance_created_at s \<and>
      balance_last_updated_at r = balance_created_at s)
     (history ex_pair (balances (ex_balances [(10, 1), (20, 1), (30, 5)])))"
proof
  show "map (\<lambda>r. (balance_created_at r, balance_last_updated_at r, balance_balance r))
     (history ex_pair (balances (ex_balances [(10, 1), (20, 1), (30, 5)]))) = [(10, 30, 1), (30, 30, 5)]"
    by code_simp
  have "balances_reachable (ex_balances [(10, 1), (20, 1), (30, 5)])"
    by (rule ex_balances_reachable) simp
  from balances_form_histories[OF this] show "successively (\<lambda>r s. balance_created_at r < balance_created_at s \<and>
      balance_last_updated_at r = balance_created_at s)
     (history ex_pair (balances (ex_balances [(10, 1), (20, 1), (30, 5)])))" by blast
qed

section \<open>The balance at an instant\<close>

lemma balance_at_pair: "balance_at t k tbl = Some r \<Longrightarrow> balance_pair r = k"
  unfolding balance_at_def by (drule last_balance_SomeD) simp

lemma selected_asset:
  assumes "\<forall>k\<in>set ps. fst k = a" "distinct ps"
  shows "filter (\<lambda>r. balance_asset r = x) (List.map_filter (\<lambda>k. balance_at t k tbl) ps) =
    (if (a, x) \<in> set ps then (case balance_at t (a, x) tbl of None \<Rightarrow> [] | Some m \<Rightarrow> [m]) else [])"
  using assms
proof (induction ps)
  case Nil
  then show ?case by simp
next
  case (Cons k ps)
  obtain y where k: "k = (a, y)" using Cons.prems(1) by (cases k) simp
  have asset: "balance_asset m = y" if "balance_at t k tbl = Some m" for m
    using balance_at_pair[OF that] k by (simp add: balance_pair_def)
  from Cons k asset show ?case
    by (cases "balance_at t k tbl") (auto simp: map_filter_simps)
qed

lemma one_account_result:
  assumes "balance_at t (a, x) (balances d) = Some m"
  shows "\<exists>res. BalancesGetFromAccountIDs no_faults [a] t d = (Inr res, d) \<and>
    \<lparr>AggregatedBalance_Asset = x, AggregatedBalance_Amount = balance_balance m,
     AggregatedBalance_RelatedAccounts = [a]\<rparr> \<in> set res"
proof -
  let ?ps = "remdups (map balance_pair (filter (\<lambda>r. balance_account_id r \<in> set [a]) (balances d)))"
  have fst: "\<forall>k\<in>set ?ps. fst k = a" by (auto simp: balance_pair_def)
  have pair: "balance_pair m = (a, x)" by (rule balance_at_pair[OF assms])
  have "m \<in> set (balances d)" using assms unfolding balance_at_def by (auto dest: last_balance_SomeD)
  then have "balance_pair m \<in> set ?ps"
    using pair by (auto simp: balance_pair_def)
  with selected_asset[OF fst distinct_remdups, of x t "balances d"] assms pair
  have rows: "filter (\<lambda>r. balance_asset r = x) (selected_balances [a] t (balances d)) = [m]"
    by (simp add: selected_balances_def)
  then have "m \<in> set (filter (\<lambda>r. balance_asset r = x) (selected_balances [a] t (balances d)))" by simp
  then have "x \<in> set (remdups (map balance_asset (selected_balances [a] t (balances d))))" by auto
  with rows pair show ?thesis
    by (auto simp: BalancesGetFromAccountIDs_def Let_def balance_pair_def intro!: image_eqI[of _ _ x])
qed

text \<open>C33: asked for the balances of an account at an instant inside the recorded
  history of an asset, the storage answers with the latest balance reported not
  after that instant, however long ago that was.\<close>

theorem balance_at_instant:
  assumes "balances_reachable d" "history (a, x) (balances d) \<noteq> []"
    "t \<noteq> 0" "balance_created_at (hd (history (a, x) (balances d))) \<le> t"
    "t \<le> balance_last_updated_at (last (history (a, x) (balances d)))"
  shows "\<exists>m res. latest_by balance_created_at
        (filter (\<lambda>r. balance_created_at r \<le> t) (history (a, x) (balances d))) = Some m \<and>
      BalancesGetFromAccountIDs no_faults [a] (Some t) d = (Inr res, d) \<and>
      \<lparr>AggregatedBalance_Asset = x, AggregatedBalance_Amount = balance_balance m,
       AggregatedBalance_RelatedAccounts = [a]\<rparr> \<in> set res"
proof -
  let ?h = "history (a, x) (balances d)"
  note ok = balances_okD[OF balances_reachable_ok[OF assms(1)], of "(a, x)"]
  have "hd ?h \<in> set (filter (\<lambda>r. balance_created_at r \<le> t) ?h)" using assms(2,4) by simp
  then have "filter (\<lambda>r. balance_created_at r \<le> t) ?h \<noteq> []" by (metis empty_iff list.set(1))
  then obtain m where m: "latest_by balance_created_at (filter (\<lambda>r. balance_created_at r \<le> t) ?h) = Some m"
    by (cases "latest_by balance_created_at (filter (\<lambda>r. balance_created_at r \<le> t) ?h)") simp_all
  with balance_at_in_force[OF ok assms(2,3,5)] have "balance_at (Some t) (a, x) (balances d) = Some m" by simp
  from one_account_result[OF this] m show ?thesis by blast
qed

lemma balance_at_instant_witness:
  "\<exists>(m :: balance_row) res. balance_balance m = 1 \<and>
     BalancesGetFromAccountIDs no_faults [fst ex_pair] (Some 25) (ex_balances [(10, 1), (20, 1), (30, 5)])
       = (Inr res, ex_balances [(10, 1), (20, 1), (30, 5)]) \<and>
     \<lparr>AggregatedBalance_Asset = ''USD/2'', AggregatedBalance_Amount = balance_balance m,
      AggregatedBalance_RelatedAccounts = [fst ex_pair]\<rparr> \<in> set res"
proof -
  let ?d = "ex_balances [(10, 1), (20, 1), (30, 5)]"
  have p: "(fst ex_pair, ''USD/2'') = ex_pair" by (simp add: ex_pair_def)
  have r: "balances_reachable ?d" by (rule ex_balances_reachable) simp
  have "history ex_pair (balances ?d) \<noteq> []" by code_simp
  moreover have "balance_created_at (hd (history ex_pair (balances ?d))) \<le> 25" by code_simp
  moreover have "25 \<le> balance_last_updated_at (last (history ex_pair (balances ?d)))" by code_simp
  ultimately obtain m res where
    m: "latest_by balance_created_at (filter (\<lambda>r. balance_created_at r \<le> 25) (history ex_pair (balances ?d))) = Some m" and
    res: "BalancesGetFromAccountIDs no_faults [fst ex_pair] (Some 25) ?d = (Inr res, ?d)"
      "\<lparr>AggregatedBalance_Asset = ''USD/2'', AggregatedBalance_Amount = balance_balance m,
       AggregatedBalance_RelatedAccounts = [fst ex_pair]\<rparr> \<in> set res"
    using balance_at_instant[OF r, of "fst ex_pair" "''USD/2''" 25, unfolded p] by auto
  have "map_option balance_balance (latest_by balance_created_at
      (filter (\<lambda>r. balance_created_at r \<le> 25) (history ex_pair (balances ?d)))) = Some 1" by code_simp
  with m have "balance_balance m = 1" by simp
  with res show ?thesis by blast
qed

text \<open>A batch is refused as a whole, with the error of a duplicate, when one of
  its balances has the date of the last one stored for its account and asset
  and another amount.\<close>

theorem conflicting_balance_refuses_batch:
  assumes "last_balance (Balance_AccountID b, Balance_Asset b) (balances d) = Some l"
    "balance_created_at l = env_db_time env (Balance_CreatedAt b)" "Balance_Balance b = Some y"
    "balance_balance l \<noteq> y"
  shows "BalancesUpsert env no_faults (b # bs) d = (Inl (Sentinel Storage_ErrDuplicateKeyValue), d)"
proof -
  let ?b = "fromBalanceModels env b"
  have b: "balance_pair ?b = (Balance_AccountID b, Balance_Asset b)"
    "balance_created_at ?b = env_db_time env (Balance_CreatedAt b)" "balance_balance ?b = y"
    using assms(3) by (simp_all add: fromBalanceModels_def balance_pair_def)
  from last_balance_SomeD[OF assms(1)] have l: "l \<in> set (balances d)" "balance_pair l = balance_pair ?b"
    by (simp_all add: b)
  have "balance_key ?b = balance_key l" using l(2) assms(2) by (simp add: balance_key_split b)
  with l(1) have "has_key balance_key (balance_key ?b) (balances d)"
    unfolding has_key_iff by (metis imageI)
  then have "insertBalances no_faults ?b (Balance_Balance b = None) d
      = (Inl (Sentinel Storage_ErrDuplicateKeyValue), d)"
    using assms b by (simp add: insertBalances_def tx_seq_def tx_bind_def insert_balance_row_def refuse_def)
  then show ?thesis
    by (simp add: BalancesUpsert_def raw_begin_def no_faults_def[symmetric] in_tx_no_faults tx_bind_def)
      (simp add: no_faults_def in_tx_def tx_bind_def)
qed

lemma conflicting_balance_refuses_batch_witness:
  "BalancesUpsert ex_env no_faults [ex_balance 10 2, ex_balance 20 3] (ex_balances [(10, 1)])
     = (Inl (Sentinel Storage_ErrDuplicateKeyValue), ex_balances [(10, 1)])"
proof -
  have "map_option (\<lambda>l. (balance_created_at l, balance_balance l))
      (last_balance ex_pair (balances (ex_balances [(10, 1)]))) = Some (10, 1)" by code_simp
  then obtain l where l: "last_balance ex_pair (balances (ex_balances [(10, 1)])) = Some l"
    "balance_created_at l = 10" "balance_balance l = 1" by auto
  show ?thesis
    by (rule conflicting_balance_refuses_batch[of _ _ l _ 2])
      (use l in \<open>simp_all add: ex_balance_def ex_pair_def ex_env_def\<close>)
qed

lemma history_ended:
  assumes "history_ok (rs @ [l])" "r \<in> set rs"
  shows "balance_last_updated_at r \<le> balance_created_at l"
proof -
  from assms(2) obtain xs ys where rs: "rs = xs @ r # ys" by (meson split_list)
  show ?thesis
  proof (cases ys)
    case Nil
    with assms(1) rs show ?thesis by (simp add: history_ok_def successively_append_iff follows_def)
  next
    case (Cons s zs)
    with assms(1) rs have "follows r s" by (simp add: history_ok_def successively_append_iff)
    with history_before[OF assms(1), of s] rs Cons show ?thesis by (simp add: follows_def)
  qed
qed

text \<open>A late report of the amount already stored moves the end of the last
  interval back: at an instant the history covered before, the storage then
  answers that the account has no balance.\<close>

theorem late_report_forgets:
  assumes "balances_reachable d" "last_balance (balance_pair b) (balances d) = Some l"
    "balance_created_at l \<le> balance_created_at b" "balance_balance l = balance_balance b"
    "balance_created_at b \<le> balance_last_updated_at b"
    "balance_last_updated_at b < t" "t \<le> balance_last_updated_at l" "t \<noteq> 0"
    "insertBalances fl b False d = (Inr changed, d')"
  shows "balance_at (Some t) (balance_pair b) (balances d) = Some l \<and>
    balance_at (Some t) (balance_pair b) (balances d') = None"
proof -
  let ?k = "balance_pair b"
  note ok = balances_okD[OF balances_reachable_ok[OF assms(1)], of ?k]
  from last_balance_history[OF ok] assms(2) obtain rs where
    rs: "history ?k (balances d) = rs @ [l]"
    by (cases "history ?k (balances d)" rule: rev_cases) (simp_all split: if_splits)
  from last_balance_SomeD[OF assms(2)] have l: "balance_pair l = ?k" by simp
  have before: "balance_created_at r < balance_created_at l" if "r \<in> set rs" for r
    using history_before[of rs l r] ok rs that by simp
  have "latest_by balance_created_at (rs @ [l]) = Some l" by (rule latest_of_sorted) (rule before)
  then have "latest_by balance_created_at (filter (\<lambda>r. balance_created_at r \<le> t) (rs @ [l])) = Some l"
    by (rule latest_by_filter) (use assms in simp)
  then have now: "balance_at (Some t) ?k (balances d) = Some l"
    using balance_at_in_force[OF ok, of t] rs assms(7,8) by simp
  from assms(9) have d': "balances d' = update_where (\<lambda>r. balance_key r = balance_key l)
      (\<lambda>r. r\<lparr>balance_last_updated_at := balance_last_updated_at b\<rparr>) (balances d)"
    by (cases rule: insertBalances_cases) (use assms(2-4) in auto)
  have "history ?k (balances d') = rs @ [l\<lparr>balance_last_updated_at := balance_last_updated_at b\<rparr>]"
  proof -
    have p: "balance_pair (r\<lparr>balance_last_updated_at := u\<rparr>) = balance_pair r" for r :: balance_row and u
      by (simp add: balance_pair_def)
    show ?thesis
      unfolding d' history_update[OF p] using ok by (simp add: l rs history_update_last)
  qed
  moreover have "balance_last_updated_at r < t" if "r \<in> set rs" for r
    using history_ended[of rs l r] ok rs that assms(3,5,6) by simp
  ultimately have "filter (\<lambda>r. balance_created_at r \<le> t \<and> t \<le> balance_last_updated_at r)
      (history ?k (balances d')) = []"
    using assms(6) by (auto simp: filter_empty_conv not_le)
  then have "balance_at (Some t) ?k (balances d') = None"
    using assms(8) by (simp add: balance_at_def last_balance_def history_def time_IsZero_def conj_ac)
  with now show ?thesis by blast
qed

lemma late_report_forgets_witness:
  "\<exists>l d'. insertBalances no_faults (fromBalanceModels ex_env (ex_balance 15 1)) False
        (ex_balances [(10, 1), (20, 1)]) = (Inr True, d') \<and>
     balance_at (Some 18) ex_pair (balances (ex_balances [(10, 1), (20, 1)])) = Some l \<and>
     balance_at (Some 18) ex_pair (balances d') = None"
proof -
  let ?d = "ex_balances [(10, 1), (20, 1)]" and ?b = "fromBalanceModels ex_env (ex_balance 15 1)"
  have r: "balances_reachable ?d" by (rule ex_balances_reachable) simp
  have p: "balance_pair ?b = ex_pair"
    by (simp add: fromBalanceModels_def ex_balance_def balance_pair_def ex_pair_def)
  have "map_option (\<lambda>l. (balance_created_at l, balance_balance l, balance_last_updated_at l))
      (last_balance ex_pair (balances ?d)) = Some (10, 1, 20)" by code_simp
  then obtain l where l: "last_balance (balance_pair ?b) (balances ?d) = Some l"
    "balance_created_at l = 10" "balance_balance l = 1" "balance_last_updated_at l = 20"
    unfolding p by auto
  have b: "balance_created_at ?b = 15" "balance_balance ?b = 1" "balance_last_updated_at ?b = 15"
    by (simp_all add: fromBalanceModels_def ex_balance_def ex_env_def)
  obtain q d' where i: "insertBalances no_faults ?b False ?d = (q, d')" by fastforce
  have q: "q = Inr True" using i l b by (simp add: insertBalances_def tx_seq_def tx_bind_def set_last_updated_def)
  from late_report_forgets[OF r l(1) _ _ _ _ _ _ i[unfolded q], of 18] l b
  have "balance_at (Some 18) ex_pair (balances ?d) = Some l \<and> balance_at (Some 18) ex_pair (balances d') = None"
    by (simp add: p)
  with i q show ?thesis by (intro exI[of _ l] exI[of _ d']) simp
qed

end
