(* ===== verification/Initiations_Store.thy ===== *)
theory Initiations_Store
  imports Accounts_Proofs Payments_Store
begin

text \<open>
  internal/storage/payment_initiations.go: payment initiations, their
  adjustments (the log of their states) and the payments related to them.
  Every insert emits its event in the same transaction.
\<close>

section \<open>Rows and models\<close>

text \<open>The column amount is NOT NULL; 0 stands for a nil amount only where the insert is refused.\<close>

definition fromPaymentInitiationModels :: "env \<Rightarrow> PaymentInitiation \<Rightarrow> payment_initiation_row" where
  "fromPaymentInitiationModels env from =
     \<lparr>pi_id = PaymentInitiation_ID from,
      pi_connector_id = PaymentInitiation_ConnectorID from,
      pi_reference = PaymentInitiation_Reference from,
      pi_created_at = env_db_time env (PaymentInitiation_CreatedAt from),
      pi_scheduled_at = env_db_time env (PaymentInitiation_ScheduledAt from),
      pi_description = PaymentInitiation_Description from,
      pi_type = PaymentInitiation_Type from,
      pi_amount = (case PaymentInitiation_Amount from of None \<Rightarrow> 0 | Some x \<Rightarrow> x),
      pi_asset = PaymentInitiation_Asset from,
      pi_source_account_id = PaymentInitiation_SourceAccountID from,
      pi_destination_account_id = PaymentInitiation_DestinationAccountID from,
      pi_metadata = PaymentInitiation_Metadata from\<rparr>"

definition toPaymentInitiationModels :: "payment_initiation_row \<Rightarrow> PaymentInitiation" where
  "toPaymentInitiationModels from =
     \<lparr>PaymentInitiation_ID = pi_id from,
      PaymentInitiation_ConnectorID = pi_connector_id from,
      PaymentInitiation_Reference = pi_reference from,
      PaymentInitiation_CreatedAt = pi_created_at from,
      PaymentInitiation_ScheduledAt = pi_scheduled_at from,
      PaymentInitiation_Description = pi_description from,
      PaymentInitiation_Type = pi_type from,
      PaymentInitiation_SourceAccountID = pi_source_account_id from,
      PaymentInitiation_DestinationAccountID = pi_destination_account_id from,
      PaymentInitiation_Amount = Some (pi_amount from),
      PaymentInitiation_Asset = pi_asset from,
      PaymentInitiation_Metadata = pi_metadata from\<rparr>"

definition fromPaymentInitiationAdjustmentModels ::
  "env \<Rightarrow> PaymentInitiationAdjustment \<Rightarrow> pi_adjustment_row" where
  "fromPaymentInitiationAdjustmentModels env from =
     \<lparr>pia_id = PaymentInitiationAdjustment_ID from,
      pia_payment_initiation_id =
        PaymentInitiationAdjustmentID_PaymentInitiationID (PaymentInitiationAdjustment_ID from),
      pia_created_at = env_db_time env (PaymentInitiationAdjustment_CreatedAt from),
      pia_status = PaymentInitiationAdjustment_Status from,
      pia_error = map_option error_text (PaymentInitiationAdjustment_Error from),
      pia_amount = PaymentInitiationAdjustment_Amount from,
      pia_asset = PaymentInitiationAdjustment_Asset from,
      pia_metadata = PaymentInitiationAdjustment_Metadata from\<rparr>"

definition toPaymentInitiationAdjustmentModels :: "pi_adjustment_row \<Rightarrow> PaymentInitiationAdjustment" where
  "toPaymentInitiationAdjustmentModels from =
     \<lparr>PaymentInitiationAdjustment_ID = pia_id from,
      PaymentInitiationAdjustment_CreatedAt = pia_created_at from,
      PaymentInitiationAdjustment_Status = pia_status from,
      PaymentInitiationAdjustment_Amount = pia_amount from,
      PaymentInitiationAdjustment_Asset = pia_asset from,
      PaymentInitiationAdjustment_Error = map_option Plain (pia_error from),
      PaymentInitiationAdjustment_Metadata = pia_metadata from\<rparr>"

section \<open>Events\<close>

definition pi_payload :: "env \<Rightarrow> PaymentInitiation \<Rightarrow> PaymentInitiationMessagePayload" where
  "pi_payload env p =
     \<lparr>PaymentInitiationMessage_ID = env_pi_text env (PaymentInitiation_ID p),
      PaymentInitiationMessage_ConnectorID = env_connector_text env (PaymentInitiation_ConnectorID p),
      PaymentInitiationMessage_Provider =
        ToV3Provider (ConnectorID_Provider (PaymentInitiation_ConnectorID p)),
      PaymentInitiationMessage_Reference = PaymentInitiation_Reference p,
      PaymentInitiationMessage_CreatedAt = PaymentInitiation_CreatedAt p,
      PaymentInitiationMessage_ScheduledAt = PaymentInitiation_ScheduledAt p,
      PaymentInitiationMessage_Description = PaymentInitiation_Description p,
      PaymentInitiationMessage_Type = PaymentInitiationType_String (PaymentInitiation_Type p),
      PaymentInitiationMessage_Amount = PaymentInitiation_Amount p,
      PaymentInitiationMessage_Asset = PaymentInitiation_Asset p,
      PaymentInitiationMessage_SourceAccountID =
        (case PaymentInitiation_SourceAccountID p of None \<Rightarrow> [] | Some a \<Rightarrow> env_account_text env a),
      PaymentInitiationMessage_DestinationAccountID =
        (case PaymentInitiation_DestinationAccountID p of None \<Rightarrow> [] | Some a \<Rightarrow> env_account_text env a),
      PaymentInitiationMessage_Metadata = PaymentInitiation_Metadata p\<rparr>"

definition pi_event :: "env \<Rightarrow> PaymentInitiation \<Rightarrow> OutboxEvent" where
  "pi_event env p =
     \<lparr>OutboxEvent_ID =
        \<lparr>EventID_EventIdempotencyKey = env_pi_key env (PaymentInitiation_ID p),
         EventID_ConnectorID = Some (PaymentInitiation_ConnectorID p)\<rparr>,
      OutboxEvent_EventType = ''SAVED_PAYMENT_INITIATION'',
      OutboxEvent_EntityID = env_pi_text env (PaymentInitiation_ID p),
      OutboxEvent_Payload = SavedPaymentInitiation (pi_payload env p),
      OutboxEvent_CreatedAt = env_now env,
      OutboxEvent_Status = OUTBOX_STATUS_PENDING,
      OutboxEvent_ConnectorID = Some (PaymentInitiation_ConnectorID p),
      OutboxEvent_RetryCount = 0,
      OutboxEvent_LastRetryAt = None,
      OutboxEvent_Error = None\<rparr>"

definition pi_adjustment_payload ::
  "env \<Rightarrow> PaymentInitiationAdjustment \<Rightarrow> PaymentInitiationAdjustmentMessagePayload" where
  "pi_adjustment_payload env adj =
     \<lparr>PaymentInitiationAdjustmentMessage_ID = env_pia_text env (PaymentInitiationAdjustment_ID adj),
      PaymentInitiationAdjustmentMessage_PaymentInitiationID = env_pi_text env
        (PaymentInitiationAdjustmentID_PaymentInitiationID (PaymentInitiationAdjustment_ID adj)),
      PaymentInitiationAdjustmentMessage_Status =
        PaymentInitiationAdjustmentStatus_String (PaymentInitiationAdjustment_Status adj),
      PaymentInitiationAdjustmentMessage_Amount = PaymentInitiationAdjustment_Amount adj,
      PaymentInitiationAdjustmentMessage_Asset = PaymentInitiationAdjustment_Asset adj,
      PaymentInitiationAdjustmentMessage_Error =
        map_option error_text (PaymentInitiationAdjustment_Error adj),
      PaymentInitiationAdjustmentMessage_Metadata = PaymentInitiationAdjustment_Metadata adj\<rparr>"

definition pi_adjustment_event :: "env \<Rightarrow> PaymentInitiationAdjustment \<Rightarrow> OutboxEvent" where
  "pi_adjustment_event env adj =
     (let c = PaymentInitiationID_ConnectorID
                (PaymentInitiationAdjustmentID_PaymentInitiationID (PaymentInitiationAdjustment_ID adj)) in
      \<lparr>OutboxEvent_ID =
         \<lparr>EventID_EventIdempotencyKey = env_pia_key env (PaymentInitiationAdjustment_ID adj),
          EventID_ConnectorID = Some c\<rparr>,
       OutboxEvent_EventType = ''SAVED_PAYMENT_INITIATION_ADJUSTMENT'',
       OutboxEvent_EntityID = env_pia_text env (PaymentInitiationAdjustment_ID adj),
       OutboxEvent_Payload = SavedPaymentInitiationAdjustment (pi_adjustment_payload env adj),
       OutboxEvent_CreatedAt = env_now env,
       OutboxEvent_Status = OUTBOX_STATUS_PENDING,
       OutboxEvent_ConnectorID = Some c,
       OutboxEvent_RetryCount = 0,
       OutboxEvent_LastRetryAt = None,
       OutboxEvent_Error = None\<rparr>)"

definition related_payment_event :: "env \<Rightarrow> PaymentInitiationID \<Rightarrow> PaymentID \<Rightarrow> OutboxEvent" where
  "related_payment_event env piID pID =
     \<lparr>OutboxEvent_ID =
        \<lparr>EventID_EventIdempotencyKey = env_pirp_key env
           \<lparr>PaymentInitiationRelatedPayments_PaymentInitiationID = piID,
            PaymentInitiationRelatedPayments_PaymentID = pID\<rparr>,
         EventID_ConnectorID = Some (PaymentInitiationID_ConnectorID piID)\<rparr>,
      OutboxEvent_EventType = ''SAVED_PAYMENT_INITIATION_RELATED_PAYMENT'',
      OutboxEvent_EntityID = env_pi_text env piID @ '':'' @ env_payment_text env pID,
      OutboxEvent_Payload =
        SavedPaymentInitiationRelatedPayment (env_pi_text env piID) (env_payment_text env pID),
      OutboxEvent_CreatedAt = env_now env,
      OutboxEvent_Status = OUTBOX_STATUS_PENDING,
      OutboxEvent_ConnectorID = Some (PaymentInitiationID_ConnectorID piID),
      OutboxEvent_RetryCount = 0,
      OutboxEvent_LastRetryAt = None,
      OutboxEvent_Error = None\<rparr>"

section \<open>Payment initiations\<close>

definition insert_payment_initiation_stmt :: "faults \<Rightarrow> payment_initiation_row \<Rightarrow> bool \<Rightarrow> (db, unit) tx" where
  "insert_payment_initiation_stmt fl row nil_amount =
     stmt fl ''failed to insert payment initiations''
       (\<lambda>d. if nil_amount
            then refuse ''failed to insert payment initiations'' not_null_violation d
            else case insert_strict pi_id [row] (payment_initiations d) of
              None \<Rightarrow> refuse ''failed to insert payment initiations'' DbConstraintsFailed d
            | Some tbl \<Rightarrow>
                if connector_exists d (pi_connector_id row)
                then (Inr (), d\<lparr>payment_initiations := tbl\<rparr>)
                else refuse ''failed to insert payment initiations''
                       (DbFKConstraintFailed ''payment_initiations_connector_id_fk'') d)"

text \<open>The rows really inserted.\<close>

definition insert_pi_adjustments_stmt ::
  "faults \<Rightarrow> pi_adjustment_row list \<Rightarrow> (db, pi_adjustment_row list) tx" where
  "insert_pi_adjustments_stmt fl rows =
     stmt fl ''failed to insert payment initiation adjustments''
       (\<lambda>d. let (ins, tbl) = insert_ignore pia_id rows (pi_adjustments d) in
            if list_all (\<lambda>r. has_key pi_id (pia_payment_initiation_id r) (payment_initiations d)) ins
            then (Inr ins, d\<lparr>pi_adjustments := tbl\<rparr>)
            else refuse ''failed to insert payment initiation adjustments''
                   (DbFKConstraintFailed ''payment_initiation_adjustments_payment_initiation_id_fk'') d)"

definition PaymentInitiationsInsert ::
  "env \<Rightarrow> faults \<Rightarrow> PaymentInitiation \<Rightarrow> PaymentInitiationAdjustment list \<Rightarrow> (db, unit) tx" where
  "PaymentInitiationsInsert env fl p adjustments =
     in_tx fl ''upsert payment initiations'' ''failed to commit transaction''
       (tx_seq
         (insert_payment_initiation_stmt fl (fromPaymentInitiationModels env p)
            (PaymentInitiation_Amount p = None))
         (tx_bind
           (if adjustments = [] then tx_return []
            else insert_pi_adjustments_stmt fl (map (fromPaymentInitiationAdjustmentModels env) adjustments))
           (\<lambda>inserted. OutboxEventsInsert env fl
              (pi_event env p #
               map (\<lambda>r. pi_adjustment_event env (toPaymentInitiationAdjustmentModels r)) inserted))))"

definition PaymentInitiationsUpdateMetadata ::
  "faults \<Rightarrow> PaymentInitiationID \<Rightarrow> metadata \<Rightarrow> (db, unit) tx" where
  "PaymentInitiationsUpdateMetadata fl piID md =
     in_tx fl ''update payment metadata'' ''failed to commit transaction''
       (stmt fl ''update payment initiation metadata''
         (\<lambda>d. case lookup_row pi_id piID (payment_initiations d) of
            None \<Rightarrow> refuse ''update payment initiation metadata'' DbNotFound d
          | Some r \<Rightarrow> (Inr (), d\<lparr>payment_initiations :=
              update_where (\<lambda>x. pi_id x = piID) (\<lambda>x. x\<lparr>pi_metadata := pi_metadata r ++ md\<rparr>)
                (payment_initiations d)\<rparr>)))"

definition PaymentInitiationsGet :: "faults \<Rightarrow> PaymentInitiationID \<Rightarrow> (db, PaymentInitiation) tx" where
  "PaymentInitiationsGet fl piID =
     stmt fl ''failed to get payment initiation''
       (\<lambda>d. case lookup_row pi_id piID (payment_initiations d) of
          None \<Rightarrow> refuse ''failed to get payment initiation'' DbNotFound d
        | Some r \<Rightarrow> (Inr (toPaymentInitiationModels r), d))"

text \<open>ON DELETE CASCADE of the tables that refer to reversals and to payment initiations.\<close>

definition cascade_reversals :: "PaymentInitiationReversalID set \<Rightarrow> db \<Rightarrow> db" where
  "cascade_reversals ids d = d\<lparr>pi_reversal_adjustments :=
     delete_where (\<lambda>r. pira_payment_initiation_reversal_id r \<in> ids) (pi_reversal_adjustments d)\<rparr>"

definition remove_reversals :: "(pi_reversal_row \<Rightarrow> bool) \<Rightarrow> db \<Rightarrow> db" where
  "remove_reversals p d =
     (cascade_reversals (pir_id ` {r \<in> set (pi_reversals d). p r}) d)
        \<lparr>pi_reversals := delete_where p (pi_reversals d)\<rparr>"

definition remove_initiations :: "(payment_initiation_row \<Rightarrow> bool) \<Rightarrow> db \<Rightarrow> db" where
  "remove_initiations p d =
     (let ids = pi_id ` {r \<in> set (payment_initiations d). p r} in
      (remove_reversals (\<lambda>r. pir_payment_initiation_id r \<in> ids) d)
        \<lparr>payment_initiations := delete_where p (payment_initiations d),
         pi_related_payments := delete_where (\<lambda>r. pirp_payment_initiation_id r \<in> ids) (pi_related_payments d),
         pi_adjustments := delete_where (\<lambda>r. pia_payment_initiation_id r \<in> ids) (pi_adjustments d)\<rparr>)"

definition PaymentInitiationsDeleteFromConnectorID :: "faults \<Rightarrow> ConnectorID \<Rightarrow> (db, unit) tx" where
  "PaymentInitiationsDeleteFromConnectorID fl c =
     stmt fl ''failed to delete payment initiations''
       (tx_modify (remove_initiations (\<lambda>r. pi_connector_id r = c)))"

definition PaymentInitiationsDelete :: "faults \<Rightarrow> PaymentInitiationID \<Rightarrow> (db, unit) tx" where
  "PaymentInitiationsDelete fl piID =
     stmt fl ''failed to delete payment initiation''
       (tx_modify (remove_initiations (\<lambda>r. pi_id r = piID)))"

section \<open>Related payments\<close>

definition pirp_key :: "pi_related_payment_row \<Rightarrow> PaymentInitiationID \<times> PaymentID" where
  "pirp_key r = (pirp_payment_initiation_id r, pirp_payment_id r)"

text \<open>Asking the driver for the number of rows of the last statement.\<close>

definition rows_affected :: "faults \<Rightarrow> 'r list \<Rightarrow> ('s, nat) tx" where
  "rows_affected fl ins = stmt fl ''failed to get rows affected'' (tx_return (length ins))"

definition insert_related_payment_stmt ::
  "faults \<Rightarrow> pi_related_payment_row \<Rightarrow> (db, pi_related_payment_row list) tx" where
  "insert_related_payment_stmt fl row =
     stmt fl ''failed to insert payment initiation related payments''
       (\<lambda>d. let (ins, tbl) = insert_ignore pirp_key [row] (pi_related_payments d) in
            if list_all (\<lambda>r. has_key pi_id (pirp_payment_initiation_id r) (payment_initiations d)) ins
            then (Inr ins, d\<lparr>pi_related_payments := tbl\<rparr>)
            else refuse ''failed to insert payment initiation related payments''
                   (DbFKConstraintFailed ''payment_initiation_related_payments_payment_initiation_id_fk'') d)"

definition PaymentInitiationRelatedPaymentsUpsert ::
  "env \<Rightarrow> faults \<Rightarrow> PaymentInitiationID \<Rightarrow> PaymentID \<Rightarrow> time \<Rightarrow> (db, unit) tx" where
  "PaymentInitiationRelatedPaymentsUpsert env fl piID pID createdAt =
     in_tx fl ''failed to begin transaction'' ''failed to commit transaction''
       (tx_bind (insert_related_payment_stmt fl
           \<lparr>pirp_payment_initiation_id = piID, pirp_payment_id = pID,
            pirp_created_at = env_db_time env createdAt\<rparr>)
         (\<lambda>inserted. tx_bind (rows_affected fl inserted)
           (\<lambda>rowsAffected. if rowsAffected > 0
              then OutboxEventsInsert env fl [related_payment_event env piID pID]
              else tx_return ())))"

definition PaymentInitiationIDsListFromPaymentID ::
  "faults \<Rightarrow> PaymentID \<Rightarrow> (db, PaymentInitiationID list) tx" where
  "PaymentInitiationIDsListFromPaymentID fl i =
     stmt fl ''failed to get payment initiation related payments''
       (tx_get (\<lambda>d. map pirp_payment_initiation_id
          (filter (\<lambda>r. pirp_payment_id r = i) (pi_related_payments d))))"

section \<open>Adjustments\<close>

definition PaymentInitiationAdjustmentsUpsert ::
  "env \<Rightarrow> faults \<Rightarrow> PaymentInitiationAdjustment \<Rightarrow> (db, unit) tx" where
  "PaymentInitiationAdjustmentsUpsert env fl adj =
     in_tx fl ''failed to begin transaction'' ''failed to commit transaction''
       (tx_bind (insert_pi_adjustments_stmt fl [fromPaymentInitiationAdjustmentModels env adj])
         (\<lambda>inserted. tx_bind (rows_affected fl inserted)
           (\<lambda>rowsAffected. if rowsAffected > 0
              then OutboxEventsInsert env fl [pi_adjustment_event env adj]
              else tx_return ())))"

definition initiation_adjustments :: "PaymentInitiationID \<Rightarrow> db \<Rightarrow> pi_adjustment_row list" where
  "initiation_adjustments piID d = filter (\<lambda>r. pia_payment_initiation_id r = piID) (pi_adjustments d)"

text \<open>The last adjustment: ORDER BY created_at DESC, sort_id DESC LIMIT 1.\<close>

definition last_adjustment :: "PaymentInitiationID \<Rightarrow> db \<Rightarrow> pi_adjustment_row option" where
  "last_adjustment piID d = latest_by pia_created_at (initiation_adjustments piID d)"

definition select_previous_adjustment ::
  "faults \<Rightarrow> PaymentInitiationID \<Rightarrow> (db, PaymentInitiationAdjustment) tx" where
  "select_previous_adjustment fl piID =
     stmt fl ''failed to get previous payment initiation adjustment''
       (\<lambda>d. case last_adjustment piID d of
          None \<Rightarrow> refuse ''failed to get previous payment initiation adjustment'' DbNotFound d
        | Some r \<Rightarrow> (Inr (toPaymentInitiationAdjustmentModels r), d))"

text \<open>
  Whether the adjustment was inserted.  A predicate that refuses ends the
  transaction with an explicit rollback.
\<close>

definition PaymentInitiationAdjustmentsUpsertIfPredicate ::
  "env \<Rightarrow> faults \<Rightarrow> PaymentInitiationAdjustment \<Rightarrow> (PaymentInitiationAdjustment \<Rightarrow> bool) \<Rightarrow> (db, bool) tx" where
  "PaymentInitiationAdjustmentsUpsertIfPredicate env fl adj predicate =
     stmt fl ''upsert payment initiations''
       (tx_bind (select_previous_adjustment fl
           (PaymentInitiationAdjustmentID_PaymentInitiationID (PaymentInitiationAdjustment_ID adj)))
         (\<lambda>previousAdj. if \<not> predicate previousAdj
            then stmt fl ''failed to rollback transaction'' (tx_return False)
            else in_tx fl ''upsert payment initiations'' ''failed to commit transaction''
              (tx_bind (insert_pi_adjustments_stmt fl [fromPaymentInitiationAdjustmentModels env adj])
                (\<lambda>inserted. tx_bind (rows_affected fl inserted)
                  (\<lambda>rowsAffected. tx_seq
                    (if rowsAffected > 0
                     then OutboxEventsInsert env fl [pi_adjustment_event env adj]
                     else tx_return ())
                    (tx_return (rowsAffected > 0)))))))"

definition PaymentInitiationAdjustmentsGet ::
  "faults \<Rightarrow> PaymentInitiationAdjustmentID \<Rightarrow> (db, PaymentInitiationAdjustment) tx" where
  "PaymentInitiationAdjustmentsGet fl i =
     stmt fl ''failed to get payment initiation adjustment''
       (\<lambda>d. case lookup_row pia_id i (pi_adjustments d) of
          None \<Rightarrow> refuse ''failed to get payment initiation adjustment'' DbNotFound d
        | Some r \<Rightarrow> (Inr (toPaymentInitiationAdjustmentModels r), d))"

end
