(* ===== verification/Reversals_Store.thy ===== *)
theory Reversals_Store
  imports Initiations_Store
begin

text \<open>
  internal/storage/payment_initiation_reversals.go: reversals of payment
  initiations and their adjustments; they emit no events.
\<close>

definition fromPaymentInitiationReversalModels :: "env \<Rightarrow> PaymentInitiationReversal \<Rightarrow> pi_reversal_row" where
  "fromPaymentInitiationReversalModels env from =
     \<lparr>pir_id = PaymentInitiationReversal_ID from,
      pir_connector_id = PaymentInitiationReversal_ConnectorID from,
      pir_payment_initiation_id = PaymentInitiationReversal_PaymentInitiationID from,
      pir_reference = PaymentInitiationReversal_Reference from,
      pir_created_at = env_db_time env (PaymentInitiationReversal_CreatedAt from),
      pir_description = PaymentInitiationReversal_Description from,
      pir_amount = (case PaymentInitiationReversal_Amount from of None \<Rightarrow> 0 | Some x \<Rightarrow> x),
      pir_asset = PaymentInitiationReversal_Asset from,
      pir_metadata = PaymentInitiationReversal_Metadata from\<rparr>"

definition toPaymentInitiationReversalModels :: "pi_reversal_row \<Rightarrow> PaymentInitiationReversal" where
  "toPaymentInitiationReversalModels from =
     \<lparr>PaymentInitiationReversal_ID = pir_id from,
      PaymentInitiationReversal_ConnectorID = pir_connector_id from,
      PaymentInitiationReversal_PaymentInitiationID = pir_payment_initiation_id from,
      PaymentInitiationReversal_Reference = pir_reference from,
      PaymentInitiationReversal_CreatedAt = pir_created_at from,
      PaymentInitiationReversal_Description = pir_description from,
      PaymentInitiationReversal_Amount = Some (pir_amount from),
      PaymentInitiationReversal_Asset = pir_asset from,
      PaymentInitiationReversal_Metadata = pir_metadata from\<rparr>"

definition fromPaymentInitiationReversalAdjustmentModels ::
  "env \<Rightarrow> PaymentInitiationReversalAdjustment \<Rightarrow> pi_reversal_adjustment_row" where
  "fromPaymentInitiationReversalAdjustmentModels env from =
     \<lparr>pira_id = PaymentInitiationReversalAdjustment_ID from,
      pira_payment_initiation_reversal_id =
        PaymentInitiationReversalAdjustment_PaymentInitiationReversalID from,
      pira_created_at = env_db_time env (PaymentInitiationReversalAdjustment_CreatedAt from),
      pira_status = PaymentInitiationReversalAdjustment_Status from,
      pira_error = map_option error_text (PaymentInitiationReversalAdjustment_Error from),
      pira_metadata = PaymentInitiationReversalAdjustment_Metadata from\<rparr>"

definition toPaymentInitiationReversalAdjustmentModels ::
  "pi_reversal_adjustment_row \<Rightarrow> PaymentInitiationReversalAdjustment" where
  "toPaymentInitiationReversalAdjustmentModels from =
     \<lparr>PaymentInitiationReversalAdjustment_ID = pira_id from,
      PaymentInitiationReversalAdjustment_PaymentInitiationReversalID =
        pira_payment_initiation_reversal_id from,
      PaymentInitiationReversalAdjustment_CreatedAt = pira_created_at from,
      PaymentInitiationReversalAdjustment_Status = pira_status from,
      PaymentInitiationReversalAdjustment_Error = map_option Plain (pira_error from),
      PaymentInitiationReversalAdjustment_Metadata = pira_metadata from\<rparr>"

definition insert_reversal_stmt :: "faults \<Rightarrow> pi_reversal_row \<Rightarrow> bool \<Rightarrow> (db, unit) tx" where
  "insert_reversal_stmt fl row nil_amount =
     stmt fl ''upsert payment initiation reversal''
       (\<lambda>d. if nil_amount
            then refuse ''upsert payment initiation reversal'' not_null_violation d
            else let (ins, tbl) = insert_ignore pir_id [row] (pi_reversals d) in
              if \<not> list_all (\<lambda>r. connector_exists d (pir_connector_id r)) ins
              then refuse ''upsert payment initiation reversal''
                     (DbFKConstraintFailed ''payment_initiation_reversals_connector_id_fk'') d
              else if \<not> list_all (\<lambda>r. has_key pi_id (pir_payment_initiation_id r) (payment_initiations d)) ins
              then refuse ''upsert payment initiation reversal''
                     (DbFKConstraintFailed ''payment_initiation_reversals_payment_initiation_id_fk'') d
              else (Inr (), d\<lparr>pi_reversals := tbl\<rparr>))"

definition insert_reversal_adjustments_stmt ::
  "faults \<Rightarrow> string \<Rightarrow> pi_reversal_adjustment_row list \<Rightarrow> (db, unit) tx" where
  "insert_reversal_adjustments_stmt fl msg rows =
     stmt fl msg
       (\<lambda>d. let (ins, tbl) = insert_ignore pira_id rows (pi_reversal_adjustments d) in
            if list_all (\<lambda>r. has_key pir_id (pira_payment_initiation_reversal_id r) (pi_reversals d)) ins
            then (Inr (), d\<lparr>pi_reversal_adjustments := tbl\<rparr>)
            else refuse msg (DbFKConstraintFailed
                   ''payment_initiation_reversal_adjustments_payment_initiation_id_fk'') d)"

definition PaymentInitiationReversalsUpsert ::
  "env \<Rightarrow> faults \<Rightarrow> PaymentInitiationReversal \<Rightarrow> PaymentInitiationReversalAdjustment list \<Rightarrow> (db, unit) tx" where
  "PaymentInitiationReversalsUpsert env fl pir reversalAdjustments =
     in_tx fl ''upsert payment initiation reversal'' ''failed to commit transaction''
       (tx_seq
         (insert_reversal_stmt fl (fromPaymentInitiationReversalModels env pir)
            (PaymentInitiationReversal_Amount pir = None))
         (if reversalAdjustments = [] then tx_return ()
          else insert_reversal_adjustments_stmt fl ''upsert payment initiation reversal adjustments''
            (map (fromPaymentInitiationReversalAdjustmentModels env) reversalAdjustments)))"

definition PaymentInitiationReversalsGet ::
  "faults \<Rightarrow> PaymentInitiationReversalID \<Rightarrow> (db, PaymentInitiationReversal) tx" where
  "PaymentInitiationReversalsGet fl i =
     stmt fl ''get payment initiation reversal''
       (\<lambda>d. case lookup_row pir_id i (pi_reversals d) of
          None \<Rightarrow> refuse ''get payment initiation reversal'' DbNotFound d
        | Some r \<Rightarrow> (Inr (toPaymentInitiationReversalModels r), d))"

definition PaymentInitiationReversalsDeleteFromConnectorID :: "faults \<Rightarrow> ConnectorID \<Rightarrow> (db, unit) tx" where
  "PaymentInitiationReversalsDeleteFromConnectorID fl c =
     stmt fl ''delete payment initiation reversal''
       (tx_modify (remove_reversals (\<lambda>r. pir_connector_id r = c)))"

definition PaymentInitiationReversalAdjustmentsUpsert ::
  "env \<Rightarrow> faults \<Rightarrow> PaymentInitiationReversalAdjustment \<Rightarrow> (db, unit) tx" where
  "PaymentInitiationReversalAdjustmentsUpsert env fl adj =
     insert_reversal_adjustments_stmt fl ''upsert payment initiation reversal adjustment''
       [fromPaymentInitiationReversalAdjustmentModels env adj]"

definition PaymentInitiationReversalAdjustmentsGet ::
  "faults \<Rightarrow> PaymentInitiationReversalAdjustmentID \<Rightarrow> (db, PaymentInitiationReversalAdjustment) tx" where
  "PaymentInitiationReversalAdjustmentsGet fl i =
     stmt fl ''failed to get payment initiation reversal adjustment''
       (\<lambda>d. case lookup_row pira_id i (pi_reversal_adjustments d) of
          None \<Rightarrow> refuse ''failed to get payment initiation reversal adjustment'' DbNotFound d
        | Some r \<Rightarrow> (Inr (toPaymentInitiationReversalAdjustmentModels r), d))"

end
