(* ===== verification/Runtime_Store.thy ===== *)
theory Runtime_Store
  imports Accounts_Proofs
begin

text \<open>
  What the engine keeps of its own work: internal/storage/tasks.go,
  schedules.go, states.go and workflow_instances.go.
\<close>

section \<open>Tasks\<close>

definition fromTaskModel :: "env \<Rightarrow> Task \<Rightarrow> task_row" where
  "fromTaskModel env from =
     \<lparr>task_id = Task_ID from,
      task_status = Task_Status from,
      task_created_at = env_db_time env (Task_CreatedAt from),
      task_updated_at = env_db_time env (Task_UpdatedAt from),
      task_connector_id = Task_ConnectorID from,
      task_created_object_id = Task_CreatedObjectID from,
      task_error = map_option error_text (Task_Error from)\<rparr>"

definition toTaskModel :: "task_row \<Rightarrow> Task" where
  "toTaskModel from =
     \<lparr>Task_ID = task_id from,
      Task_ConnectorID = task_connector_id from,
      Task_Status = task_status from,
      Task_CreatedAt = task_created_at from,
      Task_UpdatedAt = task_updated_at from,
      Task_CreatedObjectID = task_created_object_id from,
      Task_Error = map_option Plain (task_error from)\<rparr>"

text \<open>
  ON CONFLICT (id) DO UPDATE: the created object is replaced only by another
  one, the error always; the creation date and the connector stay.
\<close>

definition merge_task :: "task_row \<Rightarrow> task_row \<Rightarrow> task_row" where
  "merge_task old new =
     old\<lparr>task_status := task_status new,
         task_updated_at := task_updated_at new,
         task_created_object_id := (case task_created_object_id new of
            None \<Rightarrow> task_created_object_id old | Some i \<Rightarrow> Some i),
         task_error := task_error new\<rparr>"

definition upsert_task_stmt :: "faults \<Rightarrow> task_row \<Rightarrow> (db, unit) tx" where
  "upsert_task_stmt fl t =
     stmt fl ''failed to insert task''
       (\<lambda>d. if \<not> has_key task_id (task_id t) (tasks d) \<and> \<not> connector_ref_ok d (task_connector_id t)
            then refuse ''failed to insert task'' (DbFKConstraintFailed ''tasks_connector_id_fk'') d
            else (Inr (), d\<lparr>tasks := upsert_row task_id merge_task t (tasks d)\<rparr>))"

definition task_payload :: "env \<Rightarrow> Task \<Rightarrow> TaskMessagePayload" where
  "task_payload env t =
     \<lparr>TaskMessage_ID = env_task_text env (Task_ID t),
      TaskMessage_ConnectorID = map_option (env_connector_text env) (Task_ConnectorID t),
      TaskMessage_Status = Task_Status t,
      TaskMessage_CreatedAt = Task_CreatedAt t,
      TaskMessage_UpdatedAt = Task_UpdatedAt t,
      TaskMessage_CreatedObjectID = Task_CreatedObjectID t,
      TaskMessage_Error = map_option error_text (Task_Error t)\<rparr>"

definition task_event :: "env \<Rightarrow> Task \<Rightarrow> OutboxEvent" where
  "task_event env t =
     \<lparr>OutboxEvent_ID =
        \<lparr>EventID_EventIdempotencyKey = env_task_key env t,
         EventID_ConnectorID = Task_ConnectorID t\<rparr>,
      OutboxEvent_EventType = ''UPDATED_TASK'',
      OutboxEvent_EntityID = env_task_text env (Task_ID t),
      OutboxEvent_Payload = UpdatedTask (task_payload env t),
      OutboxEvent_CreatedAt = env_now env,
      OutboxEvent_Status = OUTBOX_STATUS_PENDING,
      OutboxEvent_ConnectorID = Task_ConnectorID t,
      OutboxEvent_RetryCount = 0,
      OutboxEvent_LastRetryAt = None,
      OutboxEvent_Error = None\<rparr>"

definition TasksUpsert :: "env \<Rightarrow> faults \<Rightarrow> Task \<Rightarrow> (db, unit) tx" where
  "TasksUpsert env fl t =
     in_tx fl ''failed to begin transaction'' ''failed to commit transaction''
       (tx_seq (upsert_task_stmt fl (fromTaskModel env t))
         (OutboxEventsInsert env fl [task_event env t]))"

definition TasksGet :: "faults \<Rightarrow> TaskID \<Rightarrow> (db, Task) tx" where
  "TasksGet fl i =
     stmt fl ''failed to fetch task''
       (\<lambda>d. case lookup_row task_id i (tasks d) of
          None \<Rightarrow> refuse ''failed to fetch task'' DbNotFound d
        | Some r \<Rightarrow> (Inr (toTaskModel r), d))"

definition TasksDeleteFromConnectorID :: "faults \<Rightarrow> ConnectorID \<Rightarrow> (db, unit) tx" where
  "TasksDeleteFromConnectorID fl c =
     stmt fl ''failed to delete tasks''
       (tx_modify (\<lambda>d. d\<lparr>tasks := delete_where (\<lambda>r. task_connector_id r = Some c) (tasks d)\<rparr>))"

section \<open>Schedules\<close>

definition fromScheduleModel :: "env \<Rightarrow> Schedule \<Rightarrow> schedule_row" where
  "fromScheduleModel env s =
     \<lparr>schedule_id = Schedule_ID s,
      schedule_connector_id = Schedule_ConnectorID s,
      schedule_created_at = env_db_time env (Schedule_CreatedAt s),
      schedule_paused_at = map_option (env_db_time env) (Schedule_PausedAt s),
      schedule_paused_reason = Schedule_PausedReason s\<rparr>"

definition toScheduleModel :: "schedule_row \<Rightarrow> Schedule" where
  "toScheduleModel s =
     \<lparr>Schedule_ID = schedule_id s,
      Schedule_ConnectorID = schedule_connector_id s,
      Schedule_CreatedAt = schedule_created_at s,
      Schedule_PausedAt = schedule_paused_at s,
      Schedule_PausedReason = schedule_paused_reason s\<rparr>"

definition schedule_key :: "schedule_row \<Rightarrow> string \<times> ConnectorID" where
  "schedule_key r = (schedule_id r, schedule_connector_id r)"

definition SchedulesUpsert :: "env \<Rightarrow> faults \<Rightarrow> Schedule \<Rightarrow> (db, unit) tx" where
  "SchedulesUpsert env fl s =
     stmt fl ''failed to insert schedule''
       (\<lambda>d. let (ins, tbl) = insert_ignore schedule_key [fromScheduleModel env s] (schedules d) in
            if list_all (\<lambda>r. connector_exists d (schedule_connector_id r)) ins
            then (Inr (), d\<lparr>schedules := tbl\<rparr>)
            else refuse ''failed to insert schedule''
                   (DbFKConstraintFailed ''schedules_connector_id_fk'') d)"

text \<open>Removing schedules removes their workflow instances (ON DELETE CASCADE).\<close>

definition remove_schedules :: "(schedule_row \<Rightarrow> bool) \<Rightarrow> db \<Rightarrow> db" where
  "remove_schedules p d =
     (let gone = schedule_key ` {r \<in> set (schedules d). p r} in
      d\<lparr>schedules := delete_where p (schedules d),
        workflow_instances := delete_where
          (\<lambda>r. (instance_schedule_id r, instance_connector_id r) \<in> gone) (workflow_instances d)\<rparr>)"

definition SchedulesDeleteFromConnectorID :: "faults \<Rightarrow> ConnectorID \<Rightarrow> (db, unit) tx" where
  "SchedulesDeleteFromConnectorID fl c =
     stmt fl ''failed to delete schedule''
       (tx_modify (remove_schedules (\<lambda>r. schedule_connector_id r = c)))"

definition SchedulesDeleteFromConnectorIDBatch :: "faults \<Rightarrow> ConnectorID \<Rightarrow> int \<Rightarrow> (db, int) tx" where
  "SchedulesDeleteFromConnectorIDBatch fl c batchSize =
     (if batchSize \<le> 0 then tx_fail (Wrap ''invalid batchSize'' (Sentinel Storage_ErrValidation))
      else tx_bind
        (stmt fl ''failed to delete schedules batch''
          (\<lambda>d. let gone = map schedule_key
                     (take (nat batchSize) (filter (\<lambda>r. schedule_connector_id r = c) (schedules d)));
                   d' = remove_schedules (\<lambda>r. schedule_key r \<in> set gone) d in
               (Inr (int (length (schedules d)) - int (length (schedules d'))), d')))
        (\<lambda>n. stmt fl ''failed to get rows affected'' (tx_return n)))"

definition SchedulesPause :: "env \<Rightarrow> faults \<Rightarrow> string \<Rightarrow> ConnectorID \<Rightarrow> time \<Rightarrow> string \<Rightarrow> (db, unit) tx" where
  "SchedulesPause env fl i c pausedAt reason =
     stmt fl ''failed to pause schedule''
       (tx_modify (\<lambda>d. d\<lparr>schedules := update_where (\<lambda>r. schedule_key r = (i, c))
          (\<lambda>r. r\<lparr>schedule_paused_at := Some (env_db_time env pausedAt),
                 schedule_paused_reason := Some reason\<rparr>) (schedules d)\<rparr>))"

definition SchedulesUnpause :: "faults \<Rightarrow> string \<Rightarrow> ConnectorID \<Rightarrow> (db, unit) tx" where
  "SchedulesUnpause fl i c =
     stmt fl ''failed to unpause schedule''
       (tx_modify (\<lambda>d. d\<lparr>schedules := update_where (\<lambda>r. schedule_key r = (i, c))
          (\<lambda>r. r\<lparr>schedule_paused_at := None, schedule_paused_reason := None\<rparr>) (schedules d)\<rparr>))"

text \<open>By the identifier alone: it removes the schedules of that name of every connector.\<close>

definition SchedulesDelete :: "faults \<Rightarrow> string \<Rightarrow> (db, unit) tx" where
  "SchedulesDelete fl i =
     stmt fl ''failed to delete schedule'' (tx_modify (remove_schedules (\<lambda>r. schedule_id r = i)))"

definition SchedulesGet :: "faults \<Rightarrow> string \<Rightarrow> ConnectorID \<Rightarrow> (db, Schedule) tx" where
  "SchedulesGet fl i c =
     stmt fl ''failed to fetch schedule''
       (\<lambda>d. case lookup_row schedule_key (i, c) (schedules d) of
          None \<Rightarrow> refuse ''failed to fetch schedule'' DbNotFound d
        | Some r \<Rightarrow> (Inr (toScheduleModel r), d))"

section \<open>States of the pagination of a connector\<close>

definition fromStateModels :: "State \<Rightarrow> state_row" where
  "fromStateModels from =
     \<lparr>state_id = State_ID from, state_connector_id = State_ConnectorID from,
      state_state = State_State from\<rparr>"

definition toStateModels :: "state_row \<Rightarrow> State" where
  "toStateModels from =
     \<lparr>State_ID = state_id from, State_ConnectorID = state_connector_id from,
      State_State = state_state from\<rparr>"

text \<open>The column state is of type json, NOT NULL.\<close>

definition StatesUpsert :: "env \<Rightarrow> faults \<Rightarrow> State \<Rightarrow> (db, unit) tx" where
  "StatesUpsert env fl s =
     stmt fl ''failed to upsert state''
       (\<lambda>d. if State_State s = None then refuse ''failed to upsert state'' not_null_violation d
            else if \<not> raw_ok env (State_State s)
            then refuse ''failed to upsert state''
                   (DbOther (Plain ''invalid input syntax for type json'')) d
            else if \<not> has_key state_id (State_ID s) (states d) \<and> \<not> connector_exists d (State_ConnectorID s)
            then refuse ''failed to upsert state'' (DbFKConstraintFailed ''states_connector_id_fk'') d
            else (Inr (), d\<lparr>states := upsert_row state_id
                   (\<lambda>old new. old\<lparr>state_state := state_state new\<rparr>) (fromStateModels s) (states d)\<rparr>))"

definition StatesGet :: "faults \<Rightarrow> StateID \<Rightarrow> (db, State) tx" where
  "StatesGet fl i =
     stmt fl ''failed to get state''
       (\<lambda>d. case lookup_row state_id i (states d) of
          None \<Rightarrow> refuse ''failed to get state'' DbNotFound d
        | Some r \<Rightarrow> (Inr (toStateModels r), d))"

definition StatesDeleteFromConnectorID :: "faults \<Rightarrow> ConnectorID \<Rightarrow> (db, unit) tx" where
  "StatesDeleteFromConnectorID fl c =
     stmt fl ''failed to delete state''
       (tx_modify (\<lambda>d. d\<lparr>states := delete_where (\<lambda>r. state_connector_id r = c) (states d)\<rparr>))"

section \<open>Workflow instances\<close>

definition fromInstanceModel :: "env \<Rightarrow> Instance \<Rightarrow> instance_row" where
  "fromInstanceModel env from =
     \<lparr>instance_id = Instance_ID from,
      instance_schedule_id = Instance_ScheduleID from,
      instance_connector_id = Instance_ConnectorID from,
      instance_created_at = env_db_time env (Instance_CreatedAt from),
      instance_updated_at = env_db_time env (Instance_UpdatedAt from),
      instance_terminated = Instance_Terminated from,
      instance_terminated_at = map_option (env_db_time env) (Instance_TerminatedAt from),
      instance_error = Instance_Error from\<rparr>"

definition toInstanceModel :: "instance_row \<Rightarrow> Instance" where
  "toInstanceModel from =
     \<lparr>Instance_ID = instance_id from,
      Instance_ScheduleID = instance_schedule_id from,
      Instance_ConnectorID = instance_connector_id from,
      Instance_CreatedAt = instance_created_at from,
      Instance_UpdatedAt = instance_updated_at from,
      Instance_Terminated = instance_terminated from,
      Instance_TerminatedAt = instance_terminated_at from,
      Instance_Error = instance_error from\<rparr>"

definition instance_key :: "instance_row \<Rightarrow> string \<times> string \<times> ConnectorID" where
  "instance_key r = (instance_id r, instance_schedule_id r, instance_connector_id r)"

definition InstancesUpsert :: "env \<Rightarrow> faults \<Rightarrow> Instance \<Rightarrow> (db, unit) tx" where
  "InstancesUpsert env fl i =
     stmt fl ''failed to insert new instance''
       (\<lambda>d. let (ins, tbl) = insert_ignore instance_key [fromInstanceModel env i] (workflow_instances d) in
            if \<not> list_all (\<lambda>r. connector_exists d (instance_connector_id r)) ins
            then refuse ''failed to insert new instance''
                   (DbFKConstraintFailed ''workflows_instances_connector_id_fk'') d
            else if \<not> list_all (\<lambda>r. has_key schedule_key
                     (instance_schedule_id r, instance_connector_id r) (schedules d)) ins
            then refuse ''failed to insert new instance''
                   (DbFKConstraintFailed ''workflows_instances_schedule_id_fk'') d
            else (Inr (), d\<lparr>workflow_instances := tbl\<rparr>))"

definition InstancesUpdate :: "env \<Rightarrow> faults \<Rightarrow> Instance \<Rightarrow> (db, unit) tx" where
  "InstancesUpdate env fl i =
     stmt fl ''failed to update instance''
       (tx_modify (\<lambda>d. d\<lparr>workflow_instances := update_where
          (\<lambda>r. instance_key r = instance_key (fromInstanceModel env i))
          (\<lambda>r. r\<lparr>instance_updated_at := env_db_time env (Instance_UpdatedAt i),
                 instance_terminated := Instance_Terminated i,
                 instance_terminated_at := map_option (env_db_time env) (Instance_TerminatedAt i),
                 instance_error := Instance_Error i\<rparr>) (workflow_instances d)\<rparr>))"

definition InstancesDeleteFromConnectorID :: "faults \<Rightarrow> ConnectorID \<Rightarrow> (db, unit) tx" where
  "InstancesDeleteFromConnectorID fl c =
     stmt fl ''failed to delete instances''
       (tx_modify (\<lambda>d. d\<lparr>workflow_instances :=
          delete_where (\<lambda>r. instance_connector_id r = c) (workflow_instances d)\<rparr>))"

definition InstancesDeleteFromConnectorIDBatch :: "faults \<Rightarrow> ConnectorID \<Rightarrow> int \<Rightarrow> (db, int) tx" where
  "InstancesDeleteFromConnectorIDBatch fl c batchSize =
     (if batchSize \<le> 0 then tx_fail (Wrap ''invalid batchSize'' (Sentinel Storage_ErrValidation))
      else tx_bind
        (stmt fl ''failed to delete instances batch''
          (\<lambda>d. let gone = map instance_key
                     (take (nat batchSize) (filter (\<lambda>r. instance_connector_id r = c) (workflow_instances d)));
                   rest = delete_where (\<lambda>r. instance_key r \<in> set gone) (workflow_instances d) in
               (Inr (int (length (workflow_instances d)) - int (length rest)),
                d\<lparr>workflow_instances := rest\<rparr>)))
        (\<lambda>n. stmt fl ''failed to get rows affected'' (tx_return n)))"

definition InstancesGet :: "faults \<Rightarrow> string \<Rightarrow> string \<Rightarrow> ConnectorID \<Rightarrow> (db, Instance) tx" where
  "InstancesGet fl i scheduleID c =
     stmt fl ''failed to fetch instance''
       (\<lambda>d. case lookup_row instance_key (i, scheduleID, c) (workflow_instances d) of
          None \<Rightarrow> refuse ''failed to fetch instance'' DbNotFound d
        | Some r \<Rightarrow> (Inr (toInstanceModel r), d))"

text \<open>
  The schedules whose last threshold instances all ended with an error; the
  instances of one schedule, the most recent first.
\<close>

definition recent_runs :: "ConnectorID \<Rightarrow> string \<Rightarrow> instance_row list \<Rightarrow> instance_row list" where
  "recent_runs c s tbl = rev (sort_key instance_created_at
     (filter (\<lambda>r. instance_connector_id r = c \<and> instance_schedule_id r = s) tbl))"

definition above_error_threshold :: "ConnectorID \<Rightarrow> int \<Rightarrow> instance_row list \<Rightarrow> string \<Rightarrow> bool" where
  "above_error_threshold c threshold tbl s \<longleftrightarrow>
     (let ranked = take (nat threshold) (recent_runs c s tbl) in
      ranked \<noteq> [] \<and> int (length ranked) = threshold \<and> list_all (\<lambda>r. instance_error r \<noteq> None) ranked)"

text \<open>
  DISTINCT ON (schedule_id) .. ORDER BY schedule_id ASC, created_at DESC: per
  schedule its latest terminated instance; collate sorts the names of
  schedules the way the database does.
\<close>

definition InstancesListSchedulesAboveErrorThreshold ::
  "(string list \<Rightarrow> string list) \<Rightarrow> faults \<Rightarrow> ConnectorID \<Rightarrow> int \<Rightarrow> (db, Instance list) tx" where
  "InstancesListSchedulesAboveErrorThreshold collate fl c threshold =
     stmt fl ''failed to fetch instance errors''
       (tx_get (\<lambda>d. let tbl = workflow_instances d;
            names = collate (remdups (map instance_schedule_id
                      (filter (\<lambda>r. instance_connector_id r = c \<and> instance_terminated r) tbl))) in
          map toInstanceModel (List.map_filter
            (\<lambda>s. find instance_terminated (recent_runs c s tbl))
            (filter (above_error_threshold c threshold tbl) names))))"

end
