(* ===== verification/Pools_Store.thy ===== *)
theory Pools_Store
  imports Accounts_Proofs
begin

text \<open>
  internal/storage/pools.go: sets of accounts whose balances are read together.
\<close>

section \<open>Rows and models\<close>

definition fromPoolModel :: "env \<Rightarrow> Pool \<Rightarrow> pool_row \<times> pool_account_row list" where
  "fromPoolModel env from =
     (\<lparr>pool_id = Pool_ID from, pool_name = Pool_Name from,
       pool_created_at = env_db_time env (Pool_CreatedAt from),
       pool_type = Pool_Type from, pool_query = Pool_Query from\<rparr>,
      map (\<lambda>a. \<lparr>pac_pool_id = Pool_ID from, pac_account_id = a,
                pac_connector_id = AccountID_ConnectorID a\<rparr>) (Pool_PoolAccounts from))"

text \<open>The relation PoolAccounts of a pool is the second argument.\<close>

definition toPoolModel :: "pool_row \<Rightarrow> pool_account_row list \<Rightarrow> Pool" where
  "toPoolModel from poolAccounts =
     \<lparr>Pool_ID = pool_id from, Pool_Name = pool_name from, Pool_CreatedAt = pool_created_at from,
      Pool_Type = pool_type from, Pool_Query = pool_query from,
      Pool_PoolAccounts = map pac_account_id poolAccounts\<rparr>"

definition pool_account_key :: "pool_account_row \<Rightarrow> uuid \<times> AccountID" where
  "pool_account_key r = (pac_pool_id r, pac_account_id r)"

section \<open>Storage\<close>

definition check_account_exists :: "faults \<Rightarrow> AccountID \<Rightarrow> (db, unit) tx" where
  "check_account_exists fl a =
     tx_bind (stmt fl ''check account exists'' (tx_get (\<lambda>d. has_key account_id a (accounts d))))
       (\<lambda>exists. if exists then tx_return ()
          else refuse ''account does not exist'' (DbOther (Sentinel Storage_ErrNotFound)))"

definition pool_payload :: "env \<Rightarrow> Pool \<Rightarrow> PoolMessagePayload" where
  "pool_payload env p =
     \<lparr>PoolMessage_ID = env_uuid_text env (Pool_ID p),
      PoolMessage_Name = Pool_Name p,
      PoolMessage_CreatedAt = Pool_CreatedAt p,
      PoolMessage_Type = Pool_Type p,
      PoolMessage_Query = Pool_Query p,
      PoolMessage_AccountIDs = map (env_account_text env) (Pool_PoolAccounts p)\<rparr>"

definition pool_event :: "env \<Rightarrow> Pool \<Rightarrow> OutboxEvent" where
  "pool_event env p =
     \<lparr>OutboxEvent_ID =
        \<lparr>EventID_EventIdempotencyKey = env_pool_key env (Pool_ik p), EventID_ConnectorID = None\<rparr>,
      OutboxEvent_EventType = ''SAVED_POOL'',
      OutboxEvent_EntityID = env_uuid_text env (Pool_ID p),
      OutboxEvent_Payload = SavedPool (pool_payload env p),
      OutboxEvent_CreatedAt = env_now env,
      OutboxEvent_Status = OUTBOX_STATUS_PENDING,
      OutboxEvent_ConnectorID = None,
      OutboxEvent_RetryCount = 0,
      OutboxEvent_LastRetryAt = None,
      OutboxEvent_Error = None\<rparr>"

definition sendPoolEvent :: "env \<Rightarrow> faults \<Rightarrow> Pool \<Rightarrow> (db, unit) tx" where
  "sendPoolEvent env fl p = OutboxEventsInsert env fl [pool_event env p]"

text \<open>Its callers wrap its error.\<close>

definition with_message :: "string \<Rightarrow> ('s, 'a) tx \<Rightarrow> ('s, 'a) tx" where
  "with_message msg m = (\<lambda>s. case m s of
      (Inl err, s') \<Rightarrow> (Inl (storage_e msg (DbOther err)), s') | (Inr a, s') \<Rightarrow> (Inr a, s'))"

definition insert_pool_stmt :: "faults \<Rightarrow> pool_row \<Rightarrow> (db, pool_row list) tx" where
  "insert_pool_stmt fl p =
     stmt fl ''insert pool''
       (\<lambda>d. let (ins, tbl) = insert_ignore pool_id [p] (pools d) in
            if list_all (\<lambda>r. \<not> has_key pool_name (pool_name r) (pools d)) ins
            then (Inr ins, d\<lparr>pools := tbl\<rparr>)
            else refuse ''insert pool'' DbConstraintsFailed d)"

definition insert_pool_accounts_stmt ::
  "faults \<Rightarrow> string \<Rightarrow> pool_account_row list \<Rightarrow> (db, pool_account_row list) tx" where
  "insert_pool_accounts_stmt fl msg rows =
     stmt fl msg
       (\<lambda>d. let (ins, tbl) = insert_ignore pool_account_key rows (pool_accounts d) in
            if list_all (\<lambda>r. has_key pool_id (pac_pool_id r) (pools d)) ins
            then (Inr ins, d\<lparr>pool_accounts := tbl\<rparr>)
            else refuse msg (DbFKConstraintFailed ''pool_accounts_pool_id_fk'') d)"

definition PoolsUpsert :: "env \<Rightarrow> faults \<Rightarrow> Pool \<Rightarrow> (db, unit) tx" where
  "PoolsUpsert env fl p =
     in_tx fl ''begin transaction'' ''commit transaction''
       (let (poolToInsert, accountsToInsert) = fromPoolModel env p in
        tx_seq (tx_for accountsToInsert (\<lambda>r. check_account_exists fl (pac_account_id r)))
        (tx_bind (stmt fl ''check pool exists''
            (tx_get (\<lambda>d. has_key pool_id (pool_id poolToInsert) (pools d))))
          (\<lambda>poolExists. tx_bind (insert_pool_stmt fl poolToInsert)
            (\<lambda>inserted. tx_bind
              (stmt fl ''get pool insert rows affected'' (tx_return (length inserted)))
              (\<lambda>poolRowsAffected. tx_seq
                (if accountsToInsert \<noteq> [] \<and> Pool_Type p = POOL_TYPE_STATIC
                 then tx_bind (insert_pool_accounts_stmt fl ''insert pool accounts'' accountsToInsert)
                        (\<lambda>_. tx_return ())
                 else tx_return ())
                (if \<not> poolExists \<and> poolRowsAffected > 0
                 then with_message ''send pool event'' (sendPoolEvent env fl p)
                 else tx_return ()))))))"

definition PoolsUpdateQuery :: "env \<Rightarrow> faults \<Rightarrow> Pool \<Rightarrow> json \<Rightarrow> (db, unit) tx" where
  "PoolsUpdateQuery env fl p query =
     in_tx fl ''begin transaction'' ''commit transaction''
       (tx_seq
         (stmt fl ''update pool query''
           (tx_modify (\<lambda>d. d\<lparr>pools := update_where (\<lambda>r. pool_id r = Pool_ID p)
              (\<lambda>r. r\<lparr>pool_query := query\<rparr>) (pools d)\<rparr>)))
         (with_message ''send pool event'' (sendPoolEvent env fl (p\<lparr>Pool_Query := query\<rparr>))))"

definition PoolsGet :: "faults \<Rightarrow> uuid \<Rightarrow> (db, Pool) tx" where
  "PoolsGet fl i =
     stmt fl ''get pool''
       (\<lambda>d. case lookup_row pool_id i (pools d) of
          None \<Rightarrow> refuse ''get pool'' DbNotFound d
        | Some r \<Rightarrow> (Inr (toPoolModel r (filter (\<lambda>a. pac_pool_id a = i) (pool_accounts d))), d))"

definition pool_deleted_event :: "env \<Rightarrow> uuid \<Rightarrow> OutboxEvent" where
  "pool_deleted_event env i =
     \<lparr>OutboxEvent_ID =
        \<lparr>EventID_EventIdempotencyKey = env_uuid_text env i, EventID_ConnectorID = None\<rparr>,
      OutboxEvent_EventType = ''DELETED_POOL'',
      OutboxEvent_EntityID = env_uuid_text env i,
      OutboxEvent_Payload = DeletedPool (env_uuid_text env i) (env_now env),
      OutboxEvent_CreatedAt = env_now env,
      OutboxEvent_Status = OUTBOX_STATUS_PENDING,
      OutboxEvent_ConnectorID = None,
      OutboxEvent_RetryCount = 0,
      OutboxEvent_LastRetryAt = None,
      OutboxEvent_Error = None\<rparr>"

definition PoolsDelete :: "env \<Rightarrow> faults \<Rightarrow> uuid \<Rightarrow> (db, bool) tx" where
  "PoolsDelete env fl i =
     in_tx fl ''begin transaction'' ''commit transaction''
       (tx_bind
         (stmt fl ''delete pool''
           (\<lambda>d. (Inr (length (filter (\<lambda>r. pool_id r = i) (pools d))),
                 d\<lparr>pools := delete_where (\<lambda>r. pool_id r = i) (pools d),
                   pool_accounts := delete_where
                     (\<lambda>r. pac_pool_id r = i \<and> has_key pool_id i (pools d)) (pool_accounts d)\<rparr>)))
         (\<lambda>deleted. tx_seq
           (stmt fl ''delete pool accounts''
             (tx_modify (\<lambda>d. d\<lparr>pool_accounts := delete_where (\<lambda>r. pac_pool_id r = i) (pool_accounts d)\<rparr>)))
           (tx_bind (stmt fl ''get rows affected'' (tx_return deleted))
             (\<lambda>rowsAffected. tx_seq
               (if rowsAffected > 0 then OutboxEventsInsert env fl [pool_deleted_event env i]
                else tx_return ())
               (tx_return (rowsAffected > 0))))))"

definition PoolsAddAccount :: "env \<Rightarrow> faults \<Rightarrow> uuid \<Rightarrow> AccountID \<Rightarrow> (db, unit) tx" where
  "PoolsAddAccount env fl i accountID =
     in_tx fl ''begin transaction'' ''commit transaction''
       (tx_seq (check_account_exists fl accountID)
         (tx_bind (insert_pool_accounts_stmt fl ''insert pool account''
             [\<lparr>pac_pool_id = i, pac_account_id = accountID,
               pac_connector_id = AccountID_ConnectorID accountID\<rparr>])
           (\<lambda>inserted. tx_bind (stmt fl ''get rows affected'' (tx_return (length inserted)))
             (\<lambda>rowsAffected.
               if rowsAffected > 0
               then tx_bind (PoolsGet fl i)
                 (\<lambda>poolModel. with_message ''send pool event'' (sendPoolEvent env fl poolModel))
               else tx_return ()))))"

text \<open>A missing pool is not an error here.\<close>

definition pool_or_none :: "faults \<Rightarrow> uuid \<Rightarrow> (db, Pool option) tx" where
  "pool_or_none fl i = (\<lambda>d. case PoolsGet fl i d of
      (Inr p, d') \<Rightarrow> (Inr (Some p), d')
    | (Inl poolErr, d') \<Rightarrow>
        if errors_Is poolErr Storage_ErrNotFound then (Inr None, d') else (Inl poolErr, d'))"

definition PoolsRemoveAccount :: "env \<Rightarrow> faults \<Rightarrow> uuid \<Rightarrow> AccountID \<Rightarrow> (db, unit) tx" where
  "PoolsRemoveAccount env fl i accountID =
     in_tx fl ''begin transaction'' ''commit transaction''
       (tx_bind (pool_or_none fl i)
         (\<lambda>pool. tx_bind
           (stmt fl ''delete pool account''
             (\<lambda>d. (Inr (length (filter (\<lambda>r. pool_account_key r = (i, accountID)) (pool_accounts d))),
                   d\<lparr>pool_accounts :=
                       delete_where (\<lambda>r. pool_account_key r = (i, accountID)) (pool_accounts d)\<rparr>)))
           (\<lambda>deleted. tx_bind (stmt fl ''get rows affected'' (tx_return deleted))
             (\<lambda>rowsAffected. case pool of
                Some poolModel \<Rightarrow>
                  if rowsAffected > 0
                  then with_message ''send pool event'' (sendPoolEvent env fl
                    (poolModel\<lparr>Pool_PoolAccounts :=
                       filter (\<lambda>a. a \<noteq> accountID) (Pool_PoolAccounts poolModel)\<rparr>))
                  else tx_return ()
              | None \<Rightarrow> tx_return ()))))"

definition PoolsRemoveAccountsFromConnectorID :: "faults \<Rightarrow> ConnectorID \<Rightarrow> (db, unit) tx" where
  "PoolsRemoveAccountsFromConnectorID fl c =
     stmt fl ''delete pool accounts''
       (tx_modify (\<lambda>d. d\<lparr>pool_accounts := delete_where (\<lambda>r. pac_connector_id r = c) (pool_accounts d)\<rparr>))"

end
