(* ===== verification/Orders_Store.thy ===== *)
theory Orders_Store
  imports Accounts_Proofs Payments_Store
begin

text \<open>
  internal/storage/orders.go and conversions.go with the events of
  internal/events/order.go and conversion.go: orders with the log of their
  adjustments, and conversions.  Both are upserted: a later report overwrites
  the columns that may change and merges the metadata.
\<close>

section \<open>Rows and models of orders\<close>

definition fromOrderModels :: "env \<Rightarrow> Order \<Rightarrow> order_row" where
  "fromOrderModels env from =
     \<lparr>order_id = Order_ID from,
      order_connector_id = Order_ConnectorID from,
      order_reference = Order_Reference from,
      order_client_order_id = Order_ClientOrderID from,
      order_created_at = env_db_time env (Order_CreatedAt from),
      order_updated_at = env_db_time env (Order_UpdatedAt from),
      order_direction = Order_Direction from,
      order_source_asset = Order_SourceAsset from,
      order_destination_asset = Order_DestinationAsset from,
      order_type = Order_Type from,
      order_base_quantity_ordered = amount_or_zero (Order_BaseQuantityOrdered from),
      order_time_in_force = Order_TimeInForce from,
      order_status = Order_Status from,
      order_base_quantity_filled = Order_BaseQuantityFilled from,
      order_limit_price = Order_LimitPrice from,
      order_stop_price = Order_StopPrice from,
      order_expires_at = map_option (env_db_time env) (Order_ExpiresAt from),
      order_fee = Order_Fee from,
      order_quote_amount = Order_QuoteAmount from,
      order_quote_asset = Order_QuoteAsset from,
      order_fee_asset = Order_FeeAsset from,
      order_average_fill_price = Order_AverageFillPrice from,
      order_price_asset = Order_PriceAsset from,
      order_source_account_id = Order_SourceAccountID from,
      order_destination_account_id = Order_DestinationAccountID from,
      order_metadata = Order_Metadata from\<rparr>"

text \<open>status: the column, or what the query selects in its place.\<close>

definition toOrderModels :: "order_row \<Rightarrow> OrderStatus \<Rightarrow> Order" where
  "toOrderModels from status =
     \<lparr>Order_ID = order_id from,
      Order_ConnectorID = order_connector_id from,
      Order_Reference = order_reference from,
      Order_ClientOrderID = order_client_order_id from,
      Order_CreatedAt = order_created_at from,
      Order_UpdatedAt = order_updated_at from,
      Order_Direction = order_direction from,
      Order_SourceAsset = order_source_asset from,
      Order_DestinationAsset = order_destination_asset from,
      Order_Type = order_type from,
      Order_Status = status,
      Order_BaseQuantityOrdered = Some (order_base_quantity_ordered from),
      Order_BaseQuantityFilled = order_base_quantity_filled from,
      Order_LimitPrice = order_limit_price from,
      Order_StopPrice = order_stop_price from,
      Order_TimeInForce = order_time_in_force from,
      Order_ExpiresAt = order_expires_at from,
      Order_QuoteAmount = order_quote_amount from,
      Order_QuoteAsset = order_quote_asset from,
      Order_Fee = order_fee from,
      Order_FeeAsset = order_fee_asset from,
      Order_AverageFillPrice = order_average_fill_price from,
      Order_PriceAsset = order_price_asset from,
      Order_SourceAccountID = order_source_account_id from,
      Order_DestinationAccountID = order_destination_account_id from,
      Order_Metadata = order_metadata from,
      Order_Adjustments = []\<rparr>"

definition fromOrderAdjustmentModels :: "env \<Rightarrow> OrderAdjustment \<Rightarrow> order_adjustment_row" where
  "fromOrderAdjustmentModels env from =
     \<lparr>oa_id = OrderAdjustment_ID from,
      oa_order_id = OrderAdjustmentID_OrderID (OrderAdjustment_ID from),
      oa_reference = OrderAdjustment_Reference from,
      oa_created_at = env_db_time env (OrderAdjustment_CreatedAt from),
      oa_status = OrderAdjustment_Status from,
      oa_raw = OrderAdjustment_Raw from,
      oa_base_quantity_filled = OrderAdjustment_BaseQuantityFilled from,
      oa_fee = OrderAdjustment_Fee from,
      oa_fee_asset = OrderAdjustment_FeeAsset from,
      oa_metadata = OrderAdjustment_Metadata from\<rparr>"

definition toOrderAdjustmentModels :: "order_adjustment_row \<Rightarrow> OrderAdjustment" where
  "toOrderAdjustmentModels from =
     \<lparr>OrderAdjustment_ID = oa_id from,
      OrderAdjustment_Reference = oa_reference from,
      OrderAdjustment_CreatedAt = oa_created_at from,
      OrderAdjustment_Status = oa_status from,
      OrderAdjustment_BaseQuantityFilled = oa_base_quantity_filled from,
      OrderAdjustment_Fee = oa_fee from,
      OrderAdjustment_FeeAsset = oa_fee_asset from,
      OrderAdjustment_Metadata = oa_metadata from,
      OrderAdjustment_Raw = oa_raw from\<rparr>"

section \<open>Events of orders\<close>

definition order_adjustment_payload :: "env \<Rightarrow> OrderAdjustment \<Rightarrow> OrderAdjustmentPayload" where
  "order_adjustment_payload env a =
     \<lparr>OrderAdjustmentMessage_ID = env_order_adjustment_text env (OrderAdjustment_ID a),
      OrderAdjustmentMessage_Reference = OrderAdjustment_Reference a,
      OrderAdjustmentMessage_CreatedAt = OrderAdjustment_CreatedAt a,
      OrderAdjustmentMessage_Status = OrderStatus_String (OrderAdjustment_Status a),
      OrderAdjustmentMessage_BaseQuantityFilled = OrderAdjustment_BaseQuantityFilled a,
      OrderAdjustmentMessage_Fee = OrderAdjustment_Fee a,
      OrderAdjustmentMessage_FeeAsset = OrderAdjustment_FeeAsset a,
      OrderAdjustmentMessage_Metadata = OrderAdjustment_Metadata a,
      OrderAdjustmentMessage_Raw = OrderAdjustment_Raw a\<rparr>"

definition order_payload :: "env \<Rightarrow> Order \<Rightarrow> OrderAdjustment \<Rightarrow> OrderMessagePayload" where
  "order_payload env order adjustment =
     \<lparr>OrderMessage_ID = env_order_text env (Order_ID order),
      OrderMessage_ConnectorID = env_connector_text env (Order_ConnectorID order),
      OrderMessage_Provider = ToV3Provider (ConnectorID_Provider (Order_ConnectorID order)),
      OrderMessage_Reference = Order_Reference order,
      OrderMessage_ClientOrderID = Order_ClientOrderID order,
      OrderMessage_CreatedAt = Order_CreatedAt order,
      OrderMessage_UpdatedAt = Order_UpdatedAt order,
      OrderMessage_Direction = OrderDirection_String (Order_Direction order),
      OrderMessage_SourceAsset = Order_SourceAsset order,
      OrderMessage_DestinationAsset = Order_DestinationAsset order,
      OrderMessage_Type = OrderType_String (Order_Type order),
      OrderMessage_Status = OrderStatus_String (Order_Status order),
      OrderMessage_TimeInForce = TimeInForce_String (Order_TimeInForce order),
      OrderMessage_ExpiresAt = Order_ExpiresAt order,
      OrderMessage_BaseQuantityOrdered = Order_BaseQuantityOrdered order,
      OrderMessage_BaseQuantityFilled = Order_BaseQuantityFilled order,
      OrderMessage_LimitPrice = Order_LimitPrice order,
      OrderMessage_StopPrice = Order_StopPrice order,
      OrderMessage_QuoteAmount = Order_QuoteAmount order,
      OrderMessage_QuoteAsset = Order_QuoteAsset order,
      OrderMessage_Fee = Order_Fee order,
      OrderMessage_FeeAsset = Order_FeeAsset order,
      OrderMessage_AverageFillPrice = Order_AverageFillPrice order,
      OrderMessage_PriceAsset = Order_PriceAsset order,
      OrderMessage_SourceAccountID = 
        (case Order_SourceAccountID order of None \<Rightarrow> [] | Some a \<Rightarrow> env_account_text env a),
      OrderMessage_DestinationAccountID = 
        (case Order_DestinationAccountID order of None \<Rightarrow> [] | Some a \<Rightarrow> env_account_text env a),
      OrderMessage_RawData = OrderAdjustment_Raw adjustment,
      OrderMessage_Metadata = Order_Metadata order,
      OrderMessage_Adjustments = map (order_adjustment_payload env) (Order_Adjustments order)\<rparr>"

definition order_event :: "env \<Rightarrow> Order \<Rightarrow> OrderAdjustment \<Rightarrow> OutboxEvent" where
  "order_event env order adjustment =
     \<lparr>OutboxEvent_ID =
        \<lparr>EventID_EventIdempotencyKey = env_order_adjustment_key env (OrderAdjustment_ID adjustment),
         EventID_ConnectorID = Some (Order_ConnectorID order)\<rparr>,
      OutboxEvent_EventType = ''SAVED_ORDER'',
      OutboxEvent_EntityID = env_order_text env (Order_ID order),
      OutboxEvent_Payload = SavedOrder (order_payload env order adjustment),
      OutboxEvent_CreatedAt = env_now env,
      OutboxEvent_Status = OUTBOX_STATUS_PENDING,
      OutboxEvent_ConnectorID = Some (Order_ConnectorID order),
      OutboxEvent_RetryCount = 0,
      OutboxEvent_LastRetryAt = None,
      OutboxEvent_Error = None\<rparr>"

text \<open>Later orders of one identifier overwrite earlier ones in the map.\<close>

definition orderMap :: "Order list \<Rightarrow> OrderID \<Rightarrow> Order option" where
  "orderMap os i = find (\<lambda>o'. Order_ID o' = i) (rev os)"

text \<open>The raw messages the payload of an order embeds.\<close>

definition order_payload_ok :: "env \<Rightarrow> Order \<Rightarrow> OrderAdjustment \<Rightarrow> bool" where
  "order_payload_ok env order adjustment \<longleftrightarrow>
     raw_ok env (OrderAdjustment_Raw adjustment) \<and>
     list_all (\<lambda>a. raw_ok env (OrderAdjustment_Raw a)) (Order_Adjustments order)"

fun order_events :: "env \<Rightarrow> Order list \<Rightarrow> order_adjustment_row list \<Rightarrow> OutboxEvent list result" where
  "order_events env os [] = Inr []"
| "order_events env os (adj # adjs) =
     (case orderMap os (oa_order_id adj) of
        None \<Rightarrow> order_events env os adjs
      | Some order \<Rightarrow>
          let adjustment = toOrderAdjustmentModels adj in
          if \<not> order_payload_ok env order adjustment
          then Inl (marshal_error ''failed to marshal order event payload'')
          else result_bind (order_events env os adjs)
                 (\<lambda>es. Inr (order_event env order adjustment # es)))"

section \<open>Orders\<close>

definition merge_order_row :: "order_row \<Rightarrow> order_row \<Rightarrow> order_row" where
  "merge_order_row old new =
     old\<lparr>order_updated_at := order_updated_at new,
        order_status := order_status new,
        order_base_quantity_filled := order_base_quantity_filled new,
        order_stop_price := order_stop_price new,
        order_quote_amount := order_quote_amount new,
        order_quote_asset := order_quote_asset new,
        order_fee := order_fee new,
        order_fee_asset := order_fee_asset new,
        order_average_fill_price := order_average_fill_price new,
        order_price_asset := order_price_asset new,
        order_source_account_id := order_source_account_id new,
        order_destination_account_id := order_destination_account_id new,
        order_expires_at := order_expires_at new,
        order_metadata := order_metadata old ++ order_metadata new\<rparr>"

text \<open>A nil quantity is refused, a duplicate identifier in one batch too.\<close>

definition insert_orders_stmt :: "faults \<Rightarrow> order_row list \<Rightarrow> bool \<Rightarrow> (db, unit) tx" where
  "insert_orders_stmt fl rows quantities =
     stmt fl ''failed to insert orders''
       (\<lambda>d. if \<not> quantities then refuse ''failed to insert orders'' not_null_violation d
            else case insert_update order_id merge_order_row rows (orders d) of
              None \<Rightarrow> refuse ''failed to insert orders'' cardinality_violation d
            | Some tbl \<Rightarrow>
                if list_all (\<lambda>r. has_key order_id (order_id r) (orders d) \<or>
                     connector_exists d (order_connector_id r)) rows
                then (Inr (), d\<lparr>orders := tbl\<rparr>)
                else refuse ''failed to insert orders''
                       (DbFKConstraintFailed ''orders_connector_id_fk'') d)"

definition insert_order_adjustments_stmt ::
  "faults \<Rightarrow> order_adjustment_row list \<Rightarrow> (db, order_adjustment_row list) tx" where
  "insert_order_adjustments_stmt fl rows =
     stmt fl ''failed to insert order adjustments''
       (\<lambda>d. let (ins, tbl) = insert_ignore oa_id rows (order_adjustments d) in
            if list_all (\<lambda>r. has_key order_id (oa_order_id r) (orders d)) ins
            then (Inr ins, d\<lparr>order_adjustments := tbl\<rparr>)
            else refuse ''failed to insert order adjustments''
                   (DbFKConstraintFailed ''order_adjustments_order_id_fk'') d)"

definition OrdersUpsert :: "env \<Rightarrow> faults \<Rightarrow> Order list \<Rightarrow> (db, unit) tx" where
  "OrdersUpsert env fl os =
     (let ordersToInsert = map (fromOrderModels env) os;
          adjustmentsToInsert =
            map (fromOrderAdjustmentModels env) (concat (map Order_Adjustments os)) in
      in_tx fl ''failed to create transaction'' ''failed to commit transaction''
       (tx_seq
         (if ordersToInsert = [] then tx_return ()
          else insert_orders_stmt fl ordersToInsert
                 (list_all (\<lambda>o'. Order_BaseQuantityOrdered o' \<noteq> None) os))
         (tx_bind
           (if adjustmentsToInsert = [] then tx_return []
            else insert_order_adjustments_stmt fl adjustmentsToInsert)
           (\<lambda>insertedAdjustments. if insertedAdjustments = [] then tx_return ()
              else emit_events env fl (order_events env os insertedAdjustments)))))"

text \<open>ORDER BY created_at, sort_id: the order of insertion among equals.\<close>

definition adjustments_of_order :: "OrderID \<Rightarrow> db \<Rightarrow> order_adjustment_row list" where
  "adjustments_of_order i d =
     sort_key oa_created_at (filter (\<lambda>r. oa_order_id r = i) (order_adjustments d))"

definition getOrderAdjustments :: "faults \<Rightarrow> OrderID \<Rightarrow> (db, OrderAdjustment list) tx" where
  "getOrderAdjustments fl i =
     stmt fl ''failed to get order adjustments''
       (tx_get (\<lambda>d. map toOrderAdjustmentModels (adjustments_of_order i d)))"

text \<open>COALESCE(oad.status, o.status): the status of the last adjustment, if there is one.\<close>

definition current_order_status :: "db \<Rightarrow> order_row \<Rightarrow> OrderStatus" where
  "current_order_status d r =
     (case latest_by oa_created_at (filter (\<lambda>a. oa_order_id a = order_id r) (order_adjustments d)) of
        None \<Rightarrow> order_status r | Some a \<Rightarrow> oa_status a)"

definition OrdersGet :: "faults \<Rightarrow> OrderID \<Rightarrow> (db, Order) tx" where
  "OrdersGet fl i =
     tx_bind (stmt fl ''failed to get order''
       (\<lambda>d. case lookup_row order_id i (orders d) of
          None \<Rightarrow> refuse ''failed to get order'' DbNotFound d
        | Some r \<Rightarrow> (Inr (toOrderModels r (current_order_status d r)), d)))
     (\<lambda>order. tx_bind (getOrderAdjustments fl i)
       (\<lambda>adjustments. tx_return (order\<lparr>Order_Adjustments := adjustments\<rparr>)))"

definition remove_orders :: "(order_row \<Rightarrow> bool) \<Rightarrow> db \<Rightarrow> db" where
  "remove_orders p d =
     (let ids = order_id ` {r \<in> set (orders d). p r} in
      d\<lparr>orders := delete_where p (orders d),
        order_adjustments := delete_where (\<lambda>a. oa_order_id a \<in> ids) (order_adjustments d)\<rparr>)"

definition OrdersDeleteFromConnectorID :: "faults \<Rightarrow> ConnectorID \<Rightarrow> (db, unit) tx" where
  "OrdersDeleteFromConnectorID fl c =
     stmt fl ''failed to delete orders'' (tx_modify (remove_orders (\<lambda>r. order_connector_id r = c)))"

section \<open>Conversions\<close>

definition fromConversionModels :: "env \<Rightarrow> Conversion \<Rightarrow> conversion_row" where
  "fromConversionModels env from =
     \<lparr>conversion_id = Conversion_ID from,
      conversion_connector_id = Conversion_ConnectorID from,
      conversion_reference = Conversion_Reference from,
      conversion_created_at = env_db_time env (Conversion_CreatedAt from),
      conversion_updated_at = env_db_time env (Conversion_UpdatedAt from),
      conversion_source_asset = Conversion_SourceAsset from,
      conversion_destination_asset = Conversion_DestinationAsset from,
      conversion_source_amount = amount_or_zero (Conversion_SourceAmount from),
      conversion_status = Conversion_Status from,
      conversion_destination_amount = Conversion_DestinationAmount from,
      conversion_fee = Conversion_Fee from,
      conversion_fee_asset = Conversion_FeeAsset from,
      conversion_source_account_id = Conversion_SourceAccountID from,
      conversion_destination_account_id = Conversion_DestinationAccountID from,
      conversion_metadata = Conversion_Metadata from,
      conversion_raw = Conversion_Raw from\<rparr>"

definition toConversionModels :: "conversion_row \<Rightarrow> Conversion" where
  "toConversionModels from =
     \<lparr>Conversion_ID = conversion_id from,
      Conversion_ConnectorID = conversion_connector_id from,
      Conversion_Reference = conversion_reference from,
      Conversion_CreatedAt = conversion_created_at from,
      Conversion_UpdatedAt = conversion_updated_at from,
      Conversion_SourceAsset = conversion_source_asset from,
      Conversion_DestinationAsset = conversion_destination_asset from,
      Conversion_SourceAmount = Some (conversion_source_amount from),
      Conversion_DestinationAmount = conversion_destination_amount from,
      Conversion_Fee = conversion_fee from,
      Conversion_FeeAsset = conversion_fee_asset from,
      Conversion_Status = conversion_status from,
      Conversion_SourceAccountID = conversion_source_account_id from,
      Conversion_DestinationAccountID = conversion_destination_account_id from,
      Conversion_Metadata = conversion_metadata from,
      Conversion_Raw = conversion_raw from\<rparr>"

definition conversion_payload :: "env \<Rightarrow> Conversion \<Rightarrow> ConversionMessagePayload" where
  "conversion_payload env c =
     \<lparr>ConversionMessage_ID = env_conversion_text env (Conversion_ID c),
      ConversionMessage_ConnectorID = env_connector_text env (Conversion_ConnectorID c),
      ConversionMessage_Provider = ToV3Provider (ConnectorID_Provider (Conversion_ConnectorID c)),
      ConversionMessage_Reference = Conversion_Reference c,
      ConversionMessage_CreatedAt = Conversion_CreatedAt c,
      ConversionMessage_UpdatedAt = Conversion_UpdatedAt c,
      ConversionMessage_SourceAsset = Conversion_SourceAsset c,
      ConversionMessage_DestinationAsset = Conversion_DestinationAsset c,
      ConversionMessage_SourceAmount = Conversion_SourceAmount c,
      ConversionMessage_DestinationAmount = Conversion_DestinationAmount c,
      ConversionMessage_Fee = Conversion_Fee c,
      ConversionMessage_FeeAsset = Conversion_FeeAsset c,
      ConversionMessage_Status = ConversionStatus_String (Conversion_Status c),
      ConversionMessage_SourceAccountID = 
        (case Conversion_SourceAccountID c of None \<Rightarrow> [] | Some a \<Rightarrow> env_account_text env a),
      ConversionMessage_DestinationAccountID = 
        (case Conversion_DestinationAccountID c of None \<Rightarrow> [] | Some a \<Rightarrow> env_account_text env a),
      ConversionMessage_Metadata = Conversion_Metadata c,
      ConversionMessage_Raw = Conversion_Raw c\<rparr>"

definition conversion_event :: "env \<Rightarrow> Conversion \<Rightarrow> OutboxEvent" where
  "conversion_event env c =
     \<lparr>OutboxEvent_ID =
        \<lparr>EventID_EventIdempotencyKey = env_conversion_key env (Conversion_ik c),
         EventID_ConnectorID = Some (Conversion_ConnectorID c)\<rparr>,
      OutboxEvent_EventType = ''SAVED_CONVERSION'',
      OutboxEvent_EntityID = env_conversion_text env (Conversion_ID c),
      OutboxEvent_Payload = SavedConversion (conversion_payload env c),
      OutboxEvent_CreatedAt = env_now env,
      OutboxEvent_Status = OUTBOX_STATUS_PENDING,
      OutboxEvent_ConnectorID = Some (Conversion_ConnectorID c),
      OutboxEvent_RetryCount = 0,
      OutboxEvent_LastRetryAt = None,
      OutboxEvent_Error = None\<rparr>"

fun conversion_events :: "env \<Rightarrow> Conversion list \<Rightarrow> OutboxEvent list result" where
  "conversion_events env [] = Inr []"
| "conversion_events env (c # cs) =
     (if \<not> raw_ok env (Conversion_Raw c)
      then Inl (marshal_error ''failed to marshal conversion event payload'')
      else result_bind (conversion_events env cs) (\<lambda>es. Inr (conversion_event env c # es)))"

definition merge_conversion_row :: "conversion_row \<Rightarrow> conversion_row \<Rightarrow> conversion_row" where
  "merge_conversion_row old new =
     old\<lparr>conversion_updated_at := conversion_updated_at new,
        conversion_status := conversion_status new,
        conversion_destination_amount := conversion_destination_amount new,
        conversion_fee := conversion_fee new,
        conversion_fee_asset := conversion_fee_asset new,
        conversion_source_account_id := conversion_source_account_id new,
        conversion_destination_account_id := conversion_destination_account_id new,
        conversion_metadata := conversion_metadata old ++ conversion_metadata new\<rparr>"

definition insert_conversions_stmt :: "faults \<Rightarrow> conversion_row list \<Rightarrow> bool \<Rightarrow> (db, unit) tx" where
  "insert_conversions_stmt fl rows amounts =
     stmt fl ''failed to insert conversions''
       (\<lambda>d. if \<not> amounts then refuse ''failed to insert conversions'' not_null_violation d
            else case insert_update conversion_id merge_conversion_row rows (conversions d) of
              None \<Rightarrow> refuse ''failed to insert conversions'' cardinality_violation d
            | Some tbl \<Rightarrow>
                if list_all (\<lambda>r. has_key conversion_id (conversion_id r) (conversions d) \<or>
                     connector_exists d (conversion_connector_id r)) rows
                then (Inr (), d\<lparr>conversions := tbl\<rparr>)
                else refuse ''failed to insert conversions''
                       (DbFKConstraintFailed ''conversions_connector_id_fk'') d)"

definition ConversionsUpsert :: "env \<Rightarrow> faults \<Rightarrow> Conversion list \<Rightarrow> (db, unit) tx" where
  "ConversionsUpsert env fl cs =
     in_tx fl ''failed to create transaction'' ''failed to commit transaction''
       (tx_seq
         (if cs = [] then tx_return ()
          else insert_conversions_stmt fl (map (fromConversionModels env) cs)
                 (list_all (\<lambda>c. Conversion_SourceAmount c \<noteq> None) cs))
         (emit_events env fl (conversion_events env cs)))"

definition ConversionsGet :: "faults \<Rightarrow> ConversionID \<Rightarrow> (db, Conversion) tx" where
  "ConversionsGet fl i =
     stmt fl ''failed to get conversion''
       (\<lambda>d. case lookup_row conversion_id i (conversions d) of
          None \<Rightarrow> refuse ''failed to get conversion'' DbNotFound d
        | Some r \<Rightarrow> (Inr (toConversionModels r), d))"

definition ConversionsDeleteFromConnectorID :: "faults \<Rightarrow> ConnectorID \<Rightarrow> (db, unit) tx" where
  "ConversionsDeleteFromConnectorID fl c =
     stmt fl ''failed to delete conversions''
       (tx_modify (\<lambda>d. d\<lparr>conversions := delete_where (\<lambda>r. conversion_connector_id r = c) (conversions d)\<rparr>))"

end
