(* ===== verification/Users_Store.thy ===== *)
theory Users_Store
  imports Accounts_Store
begin

text \<open>
  internal/storage/bank_accounts.go and psu.go: bank accounts with the accounts
  they are known as at the providers, and the payment service users who own
  them.  Numbers and personal data are encrypted by the database; an event
  carries them masked.
\<close>

section \<open>Bank accounts: rows and models\<close>

text \<open>
  The bun structure: the columns of the table (the encrypted ones are not
  among those it inserts), the decrypted columns of a query, the related accounts.
\<close>

record bankAccount =
  bankAccount_row :: bank_account_row
  bankAccount_AccountNumber :: string
  bankAccount_IBAN :: string
  bankAccount_SwiftBicCode :: string
  bankAccount_RelatedAccounts :: "bank_account_related_row list"

definition or_empty :: "string option \<Rightarrow> string" where
  "or_empty v = (case v of None \<Rightarrow> [] | Some x \<Rightarrow> x)"

definition non_empty :: "string \<Rightarrow> string option" where
  "non_empty v = (if v = [] then None else Some v)"

definition fromBankAccountRelatedAccountModels ::
  "env \<Rightarrow> BankAccountRelatedAccount \<Rightarrow> uuid \<Rightarrow> bank_account_related_row" where
  "fromBankAccountRelatedAccountModels env from bID =
     \<lparr>bar_bank_account_id = bID,
      bar_account_id = BankAccountRelatedAccount_AccountID from,
      bar_connector_id = AccountID_ConnectorID (BankAccountRelatedAccount_AccountID from),
      bar_created_at = env_db_time env (BankAccountRelatedAccount_CreatedAt from)\<rparr>"

definition toBankAccountRelatedAccountModels ::
  "bank_account_related_row \<Rightarrow> BankAccountRelatedAccount" where
  "toBankAccountRelatedAccountModels from =
     \<lparr>BankAccountRelatedAccount_AccountID = bar_account_id from,
      BankAccountRelatedAccount_CreatedAt = bar_created_at from\<rparr>"

definition fromBankAccountModels :: "env \<Rightarrow> BankAccount \<Rightarrow> bankAccount" where
  "fromBankAccountModels env from =
     \<lparr>bankAccount_row =
        \<lparr>ba_id = BankAccount_ID from,
         ba_created_at = env_db_time env (BankAccount_CreatedAt from),
         ba_name = BankAccount_Name from,
         ba_account_number = None, ba_iban = None, ba_swift_bic_code = None,
         ba_country = BankAccount_Country from,
         ba_metadata = BankAccount_Metadata from,
         ba_psu_id = None\<rparr>,
      bankAccount_AccountNumber = or_empty (BankAccount_AccountNumber from),
      bankAccount_IBAN = or_empty (BankAccount_IBAN from),
      bankAccount_SwiftBicCode = or_empty (BankAccount_SwiftBicCode from),
      bankAccount_RelatedAccounts =
        map (\<lambda>ra. fromBankAccountRelatedAccountModels env ra (BankAccount_ID from))
          (BankAccount_RelatedAccounts from)\<rparr>"

definition toBankAccountModels :: "bankAccount \<Rightarrow> BankAccount" where
  "toBankAccountModels from =
     \<lparr>BankAccount_ID = ba_id (bankAccount_row from),
      BankAccount_CreatedAt = ba_created_at (bankAccount_row from),
      BankAccount_Name = ba_name (bankAccount_row from),
      BankAccount_AccountNumber = non_empty (bankAccount_AccountNumber from),
      BankAccount_IBAN = non_empty (bankAccount_IBAN from),
      BankAccount_SwiftBicCode = non_empty (bankAccount_SwiftBicCode from),
      BankAccount_Country = ba_country (bankAccount_row from),
      BankAccount_Metadata = ba_metadata (bankAccount_row from),
      BankAccount_RelatedAccounts =
        map toBankAccountRelatedAccountModels (bankAccount_RelatedAccounts from)\<rparr>"

section \<open>Bank accounts: events\<close>

definition prepareBankAccountEventPayload :: "env \<Rightarrow> BankAccount \<Rightarrow> BankAccountMessagePayload" where
  "prepareBankAccountEventPayload env b =
     \<lparr>BankAccountMessage_ID = env_uuid_text env (BankAccount_ID b),
      BankAccountMessage_CreatedAt = BankAccount_CreatedAt b,
      BankAccountMessage_Name = BankAccount_Name b,
      BankAccountMessage_AccountNumber = or_empty (BankAccount_AccountNumber b),
      BankAccountMessage_IBAN = or_empty (BankAccount_IBAN b),
      BankAccountMessage_SwiftBicCode = or_empty (BankAccount_SwiftBicCode b),
      BankAccountMessage_Country = or_empty (BankAccount_Country b),
      BankAccountMessage_Metadata = BankAccount_Metadata b,
      BankAccountMessage_RelatedAccounts =
        map (\<lambda>ra. let a = BankAccountRelatedAccount_AccountID ra in
               \<lparr>BankAccountRelatedMessage_CreatedAt = BankAccountRelatedAccount_CreatedAt ra,
                BankAccountRelatedMessage_AccountID = env_account_text env a,
                BankAccountRelatedMessage_ConnectorID = env_connector_text env (AccountID_ConnectorID a),
                BankAccountRelatedMessage_Provider =
                  ToV3Provider (ConnectorID_Provider (AccountID_ConnectorID a))\<rparr>)
          (BankAccount_RelatedAccounts b)\<rparr>"

text \<open>The event of a bank account read from its structure: masked first, then the payload.\<close>

definition bank_account_event :: "env \<Rightarrow> bankAccount \<Rightarrow> OutboxEvent" where
  "bank_account_event env ba =
     (let b = BankAccount_Obfuscate (toBankAccountModels ba) in
      \<lparr>OutboxEvent_ID =
         \<lparr>EventID_EventIdempotencyKey = env_bank_account_key env (BankAccount_ik b),
          EventID_ConnectorID = None\<rparr>,
       OutboxEvent_EventType = ''SAVED_BANK_ACCOUNT'',
       OutboxEvent_EntityID = env_uuid_text env (BankAccount_ID b),
       OutboxEvent_Payload = SavedBankAccount (prepareBankAccountEventPayload env b),
       OutboxEvent_CreatedAt = env_now env,
       OutboxEvent_Status = OUTBOX_STATUS_PENDING,
       OutboxEvent_ConnectorID = None,
       OutboxEvent_RetryCount = 0,
       OutboxEvent_LastRetryAt = None,
       OutboxEvent_Error = None\<rparr>)"

section \<open>Bank accounts: operations\<close>

definition related_key :: "bank_account_related_row \<Rightarrow> uuid \<times> AccountID" where
  "related_key r = (bar_bank_account_id r, bar_account_id r)"

definition insert_related_stmt ::
  "faults \<Rightarrow> string \<Rightarrow> bank_account_related_row list \<Rightarrow> (db, unit) tx" where
  "insert_related_stmt fl msg rows =
     stmt fl msg
       (\<lambda>d. let (ins, tbl) = insert_ignore related_key rows (bank_account_relations d) in
            if \<not> list_all (\<lambda>r. has_key ba_id (bar_bank_account_id r) (bank_accounts d)) ins
            then refuse msg
                   (DbFKConstraintFailed ''bank_accounts_related_accounts_bank_account_id_fk'') d
            else if \<not> list_all (\<lambda>r. connector_exists d (bar_connector_id r)) ins
            then refuse msg (DbFKConstraintFailed ''bank_accounts_related_accounts_connector_id_fk'') d
            else (Inr (), d\<lparr>bank_account_relations := tbl\<rparr>))"

definition insert_bank_account_stmt :: "faults \<Rightarrow> bank_account_row \<Rightarrow> (db, nat) tx" where
  "insert_bank_account_stmt fl row =
     stmt fl ''insert bank account''
       (\<lambda>d. let (ins, tbl) = insert_ignore ba_id [row] (bank_accounts d) in
            (Inr (length ins), d\<lparr>bank_accounts := tbl\<rparr>))"

definition encrypt_bank_account_stmt :: "env \<Rightarrow> faults \<Rightarrow> bankAccount \<Rightarrow> (db, unit) tx" where
  "encrypt_bank_account_stmt env fl ba =
     stmt fl ''update bank account''
       (tx_modify (\<lambda>d. d\<lparr>bank_accounts :=
          update_where (\<lambda>r. ba_id r = ba_id (bankAccount_row ba))
            (\<lambda>r. r\<lparr>ba_account_number := Some (env_encrypt env (bankAccount_AccountNumber ba)),
                   ba_iban := Some (env_encrypt env (bankAccount_IBAN ba)),
                   ba_swift_bic_code := Some (env_encrypt env (bankAccount_SwiftBicCode ba))\<rparr>)
            (bank_accounts d)\<rparr>))"

definition BankAccountsUpsert :: "env \<Rightarrow> faults \<Rightarrow> BankAccount \<Rightarrow> (db, unit) tx" where
  "BankAccountsUpsert env fl ba =
     (let toInsert = fromBankAccountModels env ba;
          related = tx_when (bankAccount_RelatedAccounts toInsert \<noteq> [])
            (insert_related_stmt fl ''insert related accounts'' (bankAccount_RelatedAccounts toInsert));
          event = OutboxEventsInsert env fl [bank_account_event env toInsert] in
      in_tx fl ''begin transaction'' ''commit transaction''
       (tx_bind (insert_bank_account_stmt fl (bankAccount_row toInsert))
         (\<lambda>rowsAffected.
            if rowsAffected > 0
            then tx_seq (encrypt_bank_account_stmt env fl toInsert) (tx_seq related event)
            else if bankAccount_RelatedAccounts toInsert \<noteq> []
            then tx_seq related event
            else tx_return ())))"

definition BankAccountsUpdateMetadata :: "faults \<Rightarrow> uuid \<Rightarrow> metadata \<Rightarrow> (db, unit) tx" where
  "BankAccountsUpdateMetadata fl i md =
     in_tx fl ''update bank account metadata'' ''failed to commit transaction''
       (stmt fl ''update bank account metadata''
         (\<lambda>d. case lookup_row ba_id i (bank_accounts d) of
            None \<Rightarrow> refuse ''update bank account metadata'' DbNotFound d
          | Some account \<Rightarrow> (Inr (), d\<lparr>bank_accounts :=
              update_where (\<lambda>r. ba_id r = i) (\<lambda>r. r\<lparr>ba_metadata := ba_metadata account ++ md\<rparr>)
                (bank_accounts d)\<rparr>)))"

text \<open>pgp_sym_decrypt of NULL is NULL, which scans into the empty string.\<close>

definition decrypted :: "env \<Rightarrow> string option \<Rightarrow> string" where
  "decrypted env v = (case v of None \<Rightarrow> [] | Some x \<Rightarrow> env_decrypt env x)"

definition load_bank_account :: "env \<Rightarrow> bool \<Rightarrow> db \<Rightarrow> bank_account_row \<Rightarrow> bankAccount" where
  "load_bank_account env expand d r =
     (let plain = (\<lambda>v. if expand then decrypted env v else []) in
      \<lparr>bankAccount_row = r,
       bankAccount_AccountNumber = plain (ba_account_number r),
       bankAccount_IBAN = plain (ba_iban r),
       bankAccount_SwiftBicCode = plain (ba_swift_bic_code r),
       bankAccount_RelatedAccounts =
         filter (\<lambda>x. bar_bank_account_id x = ba_id r) (bank_account_relations d)\<rparr>)"

definition select_bank_account :: "env \<Rightarrow> faults \<Rightarrow> string \<Rightarrow> uuid \<Rightarrow> bool \<Rightarrow> (db, bankAccount) tx" where
  "select_bank_account env fl msg i expand =
     stmt fl msg
       (\<lambda>d. case lookup_row ba_id i (bank_accounts d) of
          None \<Rightarrow> refuse msg DbNotFound d
        | Some r \<Rightarrow> (Inr (load_bank_account env expand d r), d))"

definition BankAccountsGet :: "env \<Rightarrow> faults \<Rightarrow> uuid \<Rightarrow> bool \<Rightarrow> (db, BankAccount) tx" where
  "BankAccountsGet env fl i expand =
     tx_bind (select_bank_account env fl ''get bank account'' i expand)
       (\<lambda>account. tx_return (toBankAccountModels account))"

definition BankAccountsAddRelatedAccount ::
  "env \<Rightarrow> faults \<Rightarrow> uuid \<Rightarrow> BankAccountRelatedAccount \<Rightarrow> (db, unit) tx" where
  "BankAccountsAddRelatedAccount env fl bID relatedAccount =
     in_tx fl ''begin transaction'' ''commit transaction''
       (tx_seq (insert_related_stmt fl ''add bank account related account''
                  [fromBankAccountRelatedAccountModels env relatedAccount bID])
         (tx_bind (select_bank_account env fl ''load bank account for outbox event'' bID True)
           (\<lambda>ba. OutboxEventsInsert env fl [bank_account_event env ba])))"

definition BankAccountsDeleteRelatedAccountFromConnectorID :: "faults \<Rightarrow> ConnectorID \<Rightarrow> (db, unit) tx" where
  "BankAccountsDeleteRelatedAccountFromConnectorID fl c =
     stmt fl ''delete bank account related account''
       (tx_modify (\<lambda>d. d\<lparr>bank_account_relations :=
          delete_where (\<lambda>r. bar_connector_id r = c) (bank_account_relations d)\<rparr>))"

end
