(* ===== verification/Psu_Store.thy ===== *)
theory Psu_Store
  imports Users_Store Payments_Store
begin

text \<open>
  internal/storage/psu.go: payment service users.  Deleting one deletes what
  refers to it, its open banking connections with their accounts, balances and
  payments among them; its bank accounts stay, without an owner.
\<close>

section \<open>Rows and models\<close>

text \<open>
  The bun structure: the columns that are not encrypted, the decrypted ones,
  and the bank accounts of the user.
\<close>

record paymentServiceUser =
  paymentServiceUser_ID :: uuid
  paymentServiceUser_CreatedAt :: time
  paymentServiceUser_Name :: string
  paymentServiceUser_StreetName :: "string option"
  paymentServiceUser_StreetNumber :: "string option"
  paymentServiceUser_City :: "string option"
  paymentServiceUser_PostalCode :: "string option"
  paymentServiceUser_Region :: "string option"
  paymentServiceUser_Country :: "string option"
  paymentServiceUser_Email :: "string option"
  paymentServiceUser_PhoneNumber :: "string option"
  paymentServiceUser_Locale :: "string option"
  paymentServiceUser_Metadata :: metadata
  paymentServiceUser_BankAccounts :: "bank_account_row list"

definition fromPaymentServiceUserModels :: "env \<Rightarrow> PaymentServiceUser \<Rightarrow> paymentServiceUser \<times> uuid list" where
  "fromPaymentServiceUserModels env from =
     (let address = (\<lambda>f. Option.bind (PaymentServiceUser_Address from) f);
          contact = (\<lambda>f. Option.bind (PaymentServiceUser_ContactDetails from) f) in
      (\<lparr>paymentServiceUser_ID = PaymentServiceUser_ID from,
        paymentServiceUser_CreatedAt = env_db_time env (PaymentServiceUser_CreatedAt from),
        paymentServiceUser_Name = PaymentServiceUser_Name from,
        paymentServiceUser_StreetName = address Address_StreetName,
        paymentServiceUser_StreetNumber = address Address_StreetNumber,
        paymentServiceUser_City = address Address_City,
        paymentServiceUser_PostalCode = address Address_PostalCode,
        paymentServiceUser_Region = address Address_Region,
        paymentServiceUser_Country = address Address_Country,
        paymentServiceUser_Email = contact ContactDetails_Email,
        paymentServiceUser_PhoneNumber = contact ContactDetails_PhoneNumber,
        paymentServiceUser_Locale = contact ContactDetails_Locale,
        paymentServiceUser_Metadata = PaymentServiceUser_Metadata from,
        paymentServiceUser_BankAccounts = []\<rparr>,
       PaymentServiceUser_BankAccountIDs from))"

definition fillAddress :: "paymentServiceUser \<Rightarrow> Address option" where
  "fillAddress from =
     (if paymentServiceUser_StreetName from = None \<and> paymentServiceUser_StreetNumber from = None \<and>
         paymentServiceUser_City from = None \<and> paymentServiceUser_PostalCode from = None \<and>
         paymentServiceUser_Region from = None \<and> paymentServiceUser_Country from = None
      then None
      else Some \<lparr>Address_StreetName = paymentServiceUser_StreetName from,
                 Address_StreetNumber = paymentServiceUser_StreetNumber from,
                 Address_City = paymentServiceUser_City from,
                 Address_Region = paymentServiceUser_Region from,
                 Address_PostalCode = paymentServiceUser_PostalCode from,
                 Address_Country = paymentServiceUser_Country from\<rparr>)"

definition fillContactDetails :: "paymentServiceUser \<Rightarrow> ContactDetails option" where
  "fillContactDetails from =
     (if paymentServiceUser_Email from = None \<and> paymentServiceUser_PhoneNumber from = None \<and>
         paymentServiceUser_Locale from = None
      then None
      else Some \<lparr>ContactDetails_Email = paymentServiceUser_Email from,
                 ContactDetails_PhoneNumber = paymentServiceUser_PhoneNumber from,
                 ContactDetails_Locale = paymentServiceUser_Locale from\<rparr>)"

definition toPaymentServiceUserModels :: "paymentServiceUser \<Rightarrow> PaymentServiceUser" where
  "toPaymentServiceUserModels from =
     \<lparr>PaymentServiceUser_ID = paymentServiceUser_ID from,
      PaymentServiceUser_Name = paymentServiceUser_Name from,
      PaymentServiceUser_CreatedAt = paymentServiceUser_CreatedAt from,
      PaymentServiceUser_ContactDetails = fillContactDetails from,
      PaymentServiceUser_Address = fillAddress from,
      PaymentServiceUser_Metadata = paymentServiceUser_Metadata from,
      PaymentServiceUser_BankAccountIDs = map ba_id (paymentServiceUser_BankAccounts from),
      PaymentServiceUser_OpenBankingConnections = []\<rparr>"

section \<open>Create and read\<close>

text \<open>The row the raw INSERT writes; pgp_sym_encrypt of NULL is NULL.\<close>

definition psu_row_of :: "env \<Rightarrow> paymentServiceUser \<Rightarrow> payment_service_user_row" where
  "psu_row_of env u =
     (let enc = map_option (env_encrypt env) in
      \<lparr>psu_id = paymentServiceUser_ID u,
       psu_created_at = paymentServiceUser_CreatedAt u,
       psu_name = enc (Some (paymentServiceUser_Name u)),
       psu_street_name = enc (paymentServiceUser_StreetName u),
       psu_street_number = enc (paymentServiceUser_StreetNumber u),
       psu_city = enc (paymentServiceUser_City u),
       psu_region = enc (paymentServiceUser_Region u),
       psu_postal_code = enc (paymentServiceUser_PostalCode u),
       psu_country = enc (paymentServiceUser_Country u),
       psu_email = enc (paymentServiceUser_Email u),
       psu_phone_number = enc (paymentServiceUser_PhoneNumber u),
       psu_locale = paymentServiceUser_Locale u,
       psu_metadata = paymentServiceUser_Metadata u\<rparr>)"

definition load_psu :: "env \<Rightarrow> db \<Rightarrow> payment_service_user_row \<Rightarrow> paymentServiceUser" where
  "load_psu env d r =
     (let dec = map_option (env_decrypt env) in
      \<lparr>paymentServiceUser_ID = psu_id r,
       paymentServiceUser_CreatedAt = psu_created_at r,
       paymentServiceUser_Name = decrypted env (psu_name r),
       paymentServiceUser_StreetName = dec (psu_street_name r),
       paymentServiceUser_StreetNumber = dec (psu_street_number r),
       paymentServiceUser_City = dec (psu_city r),
       paymentServiceUser_PostalCode = dec (psu_postal_code r),
       paymentServiceUser_Region = dec (psu_region r),
       paymentServiceUser_Country = dec (psu_country r),
       paymentServiceUser_Email = dec (psu_email r),
       paymentServiceUser_PhoneNumber = dec (psu_phone_number r),
       paymentServiceUser_Locale = psu_locale r,
       paymentServiceUser_Metadata = psu_metadata r,
       paymentServiceUser_BankAccounts =
         filter (\<lambda>b. ba_psu_id b = Some (psu_id r)) (bank_accounts d)\<rparr>)"

definition insert_psu_stmt :: "faults \<Rightarrow> payment_service_user_row \<Rightarrow> (db, unit) tx" where
  "insert_psu_stmt fl row =
     stmt fl ''insert psu''
       (tx_modify (\<lambda>d. d\<lparr>payment_service_users := snd (insert_ignore psu_id [row] (payment_service_users d))\<rparr>))"

text \<open>
  UPDATE bank_accounts SET psu_id = .. WHERE id = ..; no row is the error
  ErrNotFound of the storage, which e only wraps.
\<close>

definition set_bank_account_owner :: "faults \<Rightarrow> uuid \<Rightarrow> uuid \<Rightarrow> (db, unit) tx" where
  "set_bank_account_owner fl psuID bankAccountID =
     stmt fl ''update bank account to add psu id''
       (\<lambda>d. if \<not> has_key ba_id bankAccountID (bank_accounts d)
            then refuse ''bank account'' (DbOther (Sentinel Storage_ErrNotFound)) d
            else if \<not> has_key psu_id psuID (payment_service_users d)
            then refuse ''update bank account to add psu id'' (DbFKConstraintFailed ''fk_psu_id'') d
            else (Inr (), d\<lparr>bank_accounts := update_where (\<lambda>r. ba_id r = bankAccountID)
                   (\<lambda>r. r\<lparr>ba_psu_id := Some psuID\<rparr>) (bank_accounts d)\<rparr>))"

definition PaymentServiceUsersCreate :: "env \<Rightarrow> faults \<Rightarrow> PaymentServiceUser \<Rightarrow> (db, unit) tx" where
  "PaymentServiceUsersCreate env fl psu =
     (let (u, relatedBankAccounts) = fromPaymentServiceUserModels env psu in
      in_tx fl ''begin transaction'' ''commit transaction''
       (tx_seq (insert_psu_stmt fl (psu_row_of env u))
         (tx_for relatedBankAccounts (set_bank_account_owner fl (paymentServiceUser_ID u)))))"

definition PaymentServiceUsersGet :: "env \<Rightarrow> faults \<Rightarrow> uuid \<Rightarrow> (db, PaymentServiceUser) tx" where
  "PaymentServiceUsersGet env fl i =
     stmt fl ''select psu''
       (\<lambda>d. case lookup_row psu_id i (payment_service_users d) of
          None \<Rightarrow> refuse ''select psu'' DbNotFound d
        | Some r \<Rightarrow> (Inr (toPaymentServiceUserModels (load_psu env d r)), d))"

definition PaymentServiceUsersAddBankAccount :: "faults \<Rightarrow> uuid \<Rightarrow> uuid \<Rightarrow> (db, unit) tx" where
  "PaymentServiceUsersAddBankAccount fl psuID bankAccountID = set_bank_account_owner fl psuID bankAccountID"

section \<open>Deletion\<close>

text \<open>Deleting connections deletes their accounts, balances and payments (ON DELETE CASCADE).\<close>

definition refers_to_gone :: "(uuid \<times> ConnectorID \<times> string) set \<Rightarrow> uuid option \<Rightarrow> ConnectorID \<Rightarrow> string option \<Rightarrow> bool" where
  "refers_to_gone gone u c ob = (case connection_ref u c ob of None \<Rightarrow> False | Some k \<Rightarrow> k \<in> gone)"

definition remove_connections :: "(ob_connection_row \<Rightarrow> bool) \<Rightarrow> db \<Rightarrow> db" where
  "remove_connections p d =
     (let gone = ob_connection_key ` {r \<in> set (ob_connections d). p r};
          d1 = delete_payments (\<lambda>r. refers_to_gone gone (payment_psu_id r) (payment_connector_id r)
                                   (payment_open_banking_connection_id r)) d in
      d1\<lparr>ob_connections := delete_where p (ob_connections d),
         accounts := delete_where (\<lambda>r. refers_to_gone gone (account_psu_id r) (account_connector_id r)
                                     (account_open_banking_connection_id r)) (accounts d),
         balances := delete_where (\<lambda>r. refers_to_gone gone (balance_psu_id r) (balance_connector_id r)
                                     (balance_open_banking_connection_id r)) (balances d)\<rparr>)"

definition remove_psu :: "uuid \<Rightarrow> db \<Rightarrow> db" where
  "remove_psu i d =
     (let d1 = remove_connections (\<lambda>r. obc_psu_id r = i) d;
          d2 = delete_payments (\<lambda>r. payment_psu_id r = Some i) d1 in
      d2\<lparr>accounts := delete_where (\<lambda>r. account_psu_id r = Some i) (accounts d2),
         balances := delete_where (\<lambda>r. balance_psu_id r = Some i) (balances d2),
         ob_attempts := delete_where (\<lambda>r. oba_psu_id r = i) (ob_attempts d2),
         ob_forwarded_users := delete_where (\<lambda>r. obf_psu_id r = i) (ob_forwarded_users d2),
         ob_tokens := delete_where (\<lambda>r. obt_psu_id r = i) (ob_tokens d2),
         bank_accounts := update_where (\<lambda>r. ba_psu_id r = Some i) (\<lambda>r. r\<lparr>ba_psu_id := None\<rparr>) (bank_accounts d2),
         payment_service_users := delete_where (\<lambda>r. psu_id r = i) (payment_service_users d2)\<rparr>)"

text \<open>The identifier is given by its text; the column compares identifiers.\<close>

definition PaymentServiceUsersDelete :: "faults \<Rightarrow> uuid \<Rightarrow> (db, unit) tx" where
  "PaymentServiceUsersDelete fl i =
     stmt fl ''delete psu''
       (\<lambda>d. if has_key psu_id i (payment_service_users d) then (Inr (), remove_psu i d)
            else refuse ''psu'' (DbOther (Sentinel Storage_ErrNotFound)) d)"

end
