(* ===== verification/OpenBanking_Store.thy ===== *)
theory OpenBanking_Store
  imports Psu_Store
begin

text \<open>
  internal/storage/open_banking_connections.go: the attempts to connect a user to
  a bank, the users forwarded to the providers, their connections, and the
  access tokens of both, encrypted by the database.
\<close>

section \<open>Tokens\<close>

definition fromTokenModels :: "env \<Rightarrow> Token \<Rightarrow> string \<times> time" where
  "fromTokenModels env from = (Token_Token from, env_db_time env (Token_ExpiresAt from))"

definition toTokenModels :: "string option \<Rightarrow> time option \<Rightarrow> Token option" where
  "toTokenModels from expiresAt =
     map_option (\<lambda>t. \<lparr>Token_Token = t,
       Token_ExpiresAt = (case expiresAt of None \<Rightarrow> 0 | Some x \<Rightarrow> x)\<rparr>) from"

definition ob_token_key :: "ob_token_row \<Rightarrow> uuid \<times> ConnectorID \<times> string" where
  "ob_token_key r = (obt_psu_id r, obt_connector_id r, obt_connection_id r)"

text \<open>INSERT .. ON CONFLICT DO UPDATE; foreign keys are checked for a new row.\<close>

definition upsert_token_stmt :: "env \<Rightarrow> faults \<Rightarrow> string \<Rightarrow> ob_token_row option \<Rightarrow> (db, unit) tx" where
  "upsert_token_stmt env fl msg token =
     (case token of
        None \<Rightarrow> tx_return ()
      | Some t \<Rightarrow> stmt fl msg
          (\<lambda>d. let row = t\<lparr>obt_access_token := env_encrypt env (obt_access_token t)\<rparr>;
                   new = \<not> has_key ob_token_key (ob_token_key row) (ob_tokens d) in
               if new \<and> \<not> has_key psu_id (obt_psu_id row) (payment_service_users d)
               then refuse msg (DbFKConstraintFailed ''open_banking_access_tokens_psu_id_fk'') d
               else if new \<and> \<not> connector_exists d (obt_connector_id row)
               then refuse msg (DbFKConstraintFailed ''open_banking_access_tokens_connector_id_fk'') d
               else (Inr (), d\<lparr>ob_tokens := upsert_row ob_token_key
                      (\<lambda>old x. old\<lparr>obt_access_token := obt_access_token x, obt_expires_at := obt_expires_at x\<rparr>)
                      row (ob_tokens d)\<rparr>)))"

section \<open>Connection attempts\<close>

definition fromOpenBankingConnectionAttemptsModels ::
  "env \<Rightarrow> OpenBankingConnectionAttempt \<Rightarrow> ob_attempt_row" where
  "fromOpenBankingConnectionAttemptsModels env from =
     (let token = map_option (fromTokenModels env) (OpenBankingConnectionAttempt_TemporaryToken from) in
      \<lparr>oba_id = OpenBankingConnectionAttempt_ID from,
       oba_psu_id = OpenBankingConnectionAttempt_PsuID from,
       oba_connector_id = OpenBankingConnectionAttempt_ConnectorID from,
       oba_created_at = env_db_time env (OpenBankingConnectionAttempt_CreatedAt from),
       oba_status = OpenBankingConnectionAttempt_Status from,
       oba_state = OpenBankingConnectionAttempt_State from,
       oba_client_redirect_url = OpenBankingConnectionAttempt_ClientRedirectURL from,
       oba_expires_at = map_option snd token,
       oba_error = OpenBankingConnectionAttempt_Error from,
       oba_temporary_token = map_option fst token\<rparr>)"

text \<open>From the row and the decrypted token of the query.\<close>

definition toOpenBankingConnectionAttemptsModels ::
  "ob_attempt_row \<Rightarrow> string option \<Rightarrow> OpenBankingConnectionAttempt" where
  "toOpenBankingConnectionAttemptsModels from token =
     \<lparr>OpenBankingConnectionAttempt_ID = oba_id from,
      OpenBankingConnectionAttempt_PsuID = oba_psu_id from,
      OpenBankingConnectionAttempt_ConnectorID = oba_connector_id from,
      OpenBankingConnectionAttempt_CreatedAt = oba_created_at from,
      OpenBankingConnectionAttempt_Status = oba_status from,
      OpenBankingConnectionAttempt_State = oba_state from,
      OpenBankingConnectionAttempt_ClientRedirectURL = oba_client_redirect_url from,
      OpenBankingConnectionAttempt_TemporaryToken = toTokenModels token (oba_expires_at from),
      OpenBankingConnectionAttempt_Error = oba_error from\<rparr>"

definition merge_attempt :: "ob_attempt_row \<Rightarrow> ob_attempt_row \<Rightarrow> ob_attempt_row" where
  "merge_attempt old new =
     old\<lparr>oba_error := oba_error new, oba_status := oba_status new,
         oba_temporary_token := oba_temporary_token new, oba_expires_at := oba_expires_at new,
         oba_state := oba_state new\<rparr>"

definition OpenBankingConnectionAttemptsUpsert ::
  "env \<Rightarrow> faults \<Rightarrow> OpenBankingConnectionAttempt \<Rightarrow> (db, unit) tx" where
  "OpenBankingConnectionAttemptsUpsert env fl from =
     (let attempt = fromOpenBankingConnectionAttemptsModels env from;
          row = attempt\<lparr>oba_temporary_token := map_option (env_encrypt env) (oba_temporary_token attempt)\<rparr>;
          msg = ''upserting open banking connection attempt'' in
      stmt fl msg
       (\<lambda>d. let new = \<not> has_key oba_id (oba_id row) (ob_attempts d) in
            if new \<and> \<not> connector_exists d (oba_connector_id row)
            then refuse msg (DbFKConstraintFailed ''open_banking_connection_attempts_connector_id_fk'') d
            else if new \<and> \<not> has_key psu_id (oba_psu_id row) (payment_service_users d)
            then refuse msg (DbFKConstraintFailed ''open_banking_connection_attempts_psu_id_fk'') d
            else (Inr (), d\<lparr>ob_attempts := upsert_row oba_id merge_attempt row (ob_attempts d)\<rparr>)))"

text \<open>
  The event of an open banking change: its key is computed from the payload
  alone, so equal payloads are one event.
\<close>

definition ob_event :: "env \<Rightarrow> string \<Rightarrow> string \<Rightarrow> ConnectorID \<Rightarrow> payload \<Rightarrow> OutboxEvent" where
  "ob_event env event_type entity connectorID p =
     \<lparr>OutboxEvent_ID =
        \<lparr>EventID_EventIdempotencyKey = env_payload_key env p,
         EventID_ConnectorID = Some connectorID\<rparr>,
      OutboxEvent_EventType = event_type,
      OutboxEvent_EntityID = entity,
      OutboxEvent_Payload = p,
      OutboxEvent_CreatedAt = env_now env,
      OutboxEvent_Status = OUTBOX_STATUS_PENDING,
      OutboxEvent_ConnectorID = Some connectorID,
      OutboxEvent_RetryCount = 0,
      OutboxEvent_LastRetryAt = None,
      OutboxEvent_Error = None\<rparr>"

definition link_status_event ::
  "env \<Rightarrow> ob_attempt_row \<Rightarrow> OpenBankingConnectionAttemptStatus \<Rightarrow> string option \<Rightarrow> OutboxEvent" where
  "link_status_event env attempt status errMsg =
     ob_event env ''OPEN_BANKING_USER_LINK_STATUS'' (env_uuid_text env (oba_psu_id attempt))
       (oba_connector_id attempt)
       (UserLinkStatus
         \<lparr>UserLinkStatus_PsuID = oba_psu_id attempt,
          UserLinkStatus_ConnectorID = env_connector_text env (oba_connector_id attempt),
          UserLinkStatus_Status = status,
          UserLinkStatus_Error = errMsg\<rparr>)"

definition OpenBankingConnectionAttemptsUpdateStatus ::
  "env \<Rightarrow> faults \<Rightarrow> uuid \<Rightarrow> OpenBankingConnectionAttemptStatus \<Rightarrow> string option \<Rightarrow> (db, unit) tx" where
  "OpenBankingConnectionAttemptsUpdateStatus env fl i status errMsg =
     in_tx fl ''failed to begin transaction'' ''failed to commit transaction''
       (tx_seq (stmt fl ''updating open banking connection attempt status''
           (tx_modify (\<lambda>d. d\<lparr>ob_attempts := update_where (\<lambda>r. oba_id r = i)
              (\<lambda>r. r\<lparr>oba_status := status, oba_error := errMsg\<rparr>) (ob_attempts d)\<rparr>)))
         (tx_bind (stmt fl ''failed to get open banking connection attempt''
             (\<lambda>d. case lookup_row oba_id i (ob_attempts d) of
                None \<Rightarrow> refuse ''failed to get open banking connection attempt'' DbNotFound d
              | Some r \<Rightarrow> (Inr r, d)))
           (\<lambda>attempt. OutboxEventsInsert env fl [link_status_event env attempt status errMsg])))"

definition OpenBankingConnectionAttemptsGet ::
  "env \<Rightarrow> faults \<Rightarrow> uuid \<Rightarrow> (db, OpenBankingConnectionAttempt) tx" where
  "OpenBankingConnectionAttemptsGet env fl i =
     stmt fl ''getting open banking connection attempt''
       (\<lambda>d. case lookup_row oba_id i (ob_attempts d) of
          None \<Rightarrow> refuse ''getting open banking connection attempt'' DbNotFound d
        | Some r \<Rightarrow> (Inr (toOpenBankingConnectionAttemptsModels r
            (map_option (env_decrypt env) (oba_temporary_token r))), d))"

section \<open>Forwarded users\<close>

definition forwarded_key :: "ob_forwarded_user_row \<Rightarrow> uuid \<times> ConnectorID" where
  "forwarded_key r = (obf_psu_id r, obf_connector_id r)"

definition fromOpenBankingForwardedUserModels ::
  "env \<Rightarrow> OpenBankingForwardedUser \<Rightarrow> uuid \<Rightarrow> ob_forwarded_user_row \<times> ob_token_row option" where
  "fromOpenBankingForwardedUserModels env from psuID =
     (\<lparr>obf_psu_id = psuID,
       obf_connector_id = OpenBankingForwardedUser_ConnectorID from,
       obf_psp_user_id = OpenBankingForwardedUser_PSPUserID from,
       obf_metadata = OpenBankingForwardedUser_Metadata from\<rparr>,
      map_option (\<lambda>t. let (accessToken, expiresAt) = fromTokenModels env t in
        \<lparr>obt_psu_id = psuID,
         obt_connector_id = OpenBankingForwardedUser_ConnectorID from,
         obt_connection_id = [],
         obt_access_token = accessToken,
         obt_expires_at = expiresAt\<rparr>) (OpenBankingForwardedUser_AccessToken from))"

text \<open>From the row and the row of a token the query joined, its token decrypted.\<close>

definition toOpenBankingForwardedUserModels ::
  "env \<Rightarrow> ob_forwarded_user_row \<Rightarrow> ob_token_row option \<Rightarrow> OpenBankingForwardedUser" where
  "toOpenBankingForwardedUserModels env from token =
     \<lparr>OpenBankingForwardedUser_PsuID = obf_psu_id from,
      OpenBankingForwardedUser_ConnectorID = obf_connector_id from,
      OpenBankingForwardedUser_AccessToken =
        toTokenModels (map_option (\<lambda>t. env_decrypt env (obt_access_token t)) token)
          (map_option obt_expires_at token),
      OpenBankingForwardedUser_PSPUserID = obf_psp_user_id from,
      OpenBankingForwardedUser_Metadata = obf_metadata from\<rparr>"

definition OpenBankingForwardedUserUpsert ::
  "env \<Rightarrow> faults \<Rightarrow> uuid \<Rightarrow> OpenBankingForwardedUser \<Rightarrow> (db, unit) tx" where
  "OpenBankingForwardedUserUpsert env fl psuID from =
     (let (row, token) = fromOpenBankingForwardedUserModels env from psuID;
          msg = ''upserting open banking forwarded user'' in
      in_tx fl ''failed to create transaction'' ''failed to commit transaction''
       (tx_seq (upsert_token_stmt env fl ''upserting open banking forwarded user access token'' token)
         (stmt fl msg
           (\<lambda>d. let new = \<not> has_key forwarded_key (forwarded_key row) (ob_forwarded_users d) in
                if new \<and> \<not> connector_exists d (obf_connector_id row)
                then refuse msg (DbFKConstraintFailed ''open_banking_forwarded_users_connector_id_fk'') d
                else if new \<and> \<not> has_key psu_id (obf_psu_id row) (payment_service_users d)
                then refuse msg (DbFKConstraintFailed ''open_banking_forwarded_users_psu_id_fk'') d
                else (Inr (), d\<lparr>ob_forwarded_users := upsert_row forwarded_key
                       (\<lambda>old x. old\<lparr>obf_psp_user_id := obf_psp_user_id x, obf_metadata := obf_metadata x\<rparr>)
                       row (ob_forwarded_users d)\<rparr>)))))"

text \<open>
  The join with the tokens is on the user and the connector, not on the
  connection, and without order: it takes the first token of either kind.
\<close>

definition token_of_user :: "ob_forwarded_user_row \<Rightarrow> db \<Rightarrow> ob_token_row option" where
  "token_of_user r d =
     find (\<lambda>t. obt_psu_id t = obf_psu_id r \<and> obt_connector_id t = obf_connector_id r) (ob_tokens d)"

definition get_forwarded_user ::
  "env \<Rightarrow> faults \<Rightarrow> (ob_forwarded_user_row \<Rightarrow> bool) \<Rightarrow> (db, OpenBankingForwardedUser) tx" where
  "get_forwarded_user env fl p =
     stmt fl ''getting open banking forwarded user''
       (\<lambda>d. case find p (ob_forwarded_users d) of
          None \<Rightarrow> refuse ''getting open banking forwarded user'' DbNotFound d
        | Some r \<Rightarrow> (Inr (toOpenBankingForwardedUserModels env r (token_of_user r d)), d))"

definition OpenBankingForwardedUserGet ::
  "env \<Rightarrow> faults \<Rightarrow> uuid \<Rightarrow> ConnectorID \<Rightarrow> (db, OpenBankingForwardedUser) tx" where
  "OpenBankingForwardedUserGet env fl psuID connectorID =
     get_forwarded_user env fl (\<lambda>r. obf_psu_id r = psuID \<and> obf_connector_id r = connectorID)"

definition OpenBankingForwardedUserGetByPSPUserID ::
  "env \<Rightarrow> faults \<Rightarrow> string \<Rightarrow> ConnectorID \<Rightarrow> (db, OpenBankingForwardedUser) tx" where
  "OpenBankingForwardedUserGetByPSPUserID env fl pspUserID connectorID =
     get_forwarded_user env fl (\<lambda>r. obf_psp_user_id r = Some pspUserID \<and> obf_connector_id r = connectorID)"

definition OpenBankingForwardedUserDelete :: "faults \<Rightarrow> uuid \<Rightarrow> ConnectorID \<Rightarrow> (db, unit) tx" where
  "OpenBankingForwardedUserDelete fl psuID connectorID =
     stmt fl ''deleting open banking forwarded user''
       (tx_modify (\<lambda>d. d\<lparr>ob_forwarded_users :=
          delete_where (\<lambda>r. obf_psu_id r = psuID \<and> obf_connector_id r = connectorID)
            (ob_forwarded_users d)\<rparr>))"

section \<open>Connections\<close>

definition fromOpenBankingConnectionsModels ::
  "env \<Rightarrow> OpenBankingConnection \<Rightarrow> uuid \<Rightarrow> ob_connection_row \<times> ob_token_row option" where
  "fromOpenBankingConnectionsModels env from psuID =
     (\<lparr>obc_psu_id = psuID,
       obc_connector_id = OpenBankingConnection_ConnectorID from,
       obc_connection_id = OpenBankingConnection_ConnectionID from,
       obc_created_at = env_db_time env (OpenBankingConnection_CreatedAt from),
       obc_data_updated_at = env_db_time env (OpenBankingConnection_DataUpdatedAt from),
       obc_status = OpenBankingConnection_Status from,
       obc_updated_at = env_db_time env (OpenBankingConnection_UpdatedAt from),
       obc_error = OpenBankingConnection_Error from,
       obc_metadata = OpenBankingConnection_Metadata from\<rparr>,
      map_option (\<lambda>t. let (accessToken, expiresAt) = fromTokenModels env t in
        \<lparr>obt_psu_id = psuID,
         obt_connector_id = OpenBankingConnection_ConnectorID from,
         obt_connection_id = OpenBankingConnection_ConnectionID from,
         obt_access_token = accessToken,
         obt_expires_at = expiresAt\<rparr>) (OpenBankingConnection_AccessToken from))"

definition toOpenBankingConnectionsModels ::
  "env \<Rightarrow> ob_connection_row \<Rightarrow> ob_token_row option \<Rightarrow> OpenBankingConnection" where
  "toOpenBankingConnectionsModels env from token =
     \<lparr>OpenBankingConnection_ConnectionID = obc_connection_id from,
      OpenBankingConnection_ConnectorID = obc_connector_id from,
      OpenBankingConnection_CreatedAt = obc_created_at from,
      OpenBankingConnection_DataUpdatedAt = obc_data_updated_at from,
      OpenBankingConnection_Status = obc_status from,
      OpenBankingConnection_UpdatedAt = obc_updated_at from,
      OpenBankingConnection_AccessToken =
        toTokenModels (map_option (\<lambda>t. env_decrypt env (obt_access_token t)) token)
          (map_option obt_expires_at token),
      OpenBankingConnection_Error = obc_error from,
      OpenBankingConnection_Metadata = obc_metadata from\<rparr>"

definition merge_connection :: "ob_connection_row \<Rightarrow> ob_connection_row \<Rightarrow> ob_connection_row" where
  "merge_connection old new =
     old\<lparr>obc_metadata := obc_metadata new, obc_status := obc_status new,
         obc_error := obc_error new, obc_updated_at := obc_updated_at new\<rparr>"

definition upsert_connection_stmt :: "faults \<Rightarrow> ob_connection_row \<Rightarrow> (db, unit) tx" where
  "upsert_connection_stmt fl row =
     (let msg = ''upserting open banking connection'' in
      stmt fl msg
       (\<lambda>d. let new = \<not> has_key ob_connection_key (ob_connection_key row) (ob_connections d) in
            if new \<and> \<not> has_key psu_id (obc_psu_id row) (payment_service_users d)
            then refuse msg (DbFKConstraintFailed ''open_banking_connections_psu_id_fk'') d
            else if new \<and> \<not> connector_exists d (obc_connector_id row)
            then refuse msg (DbFKConstraintFailed ''open_banking_connections_connector_id_fk'') d
            else (Inr (), d\<lparr>ob_connections :=
                   upsert_row ob_connection_key merge_connection row (ob_connections d)\<rparr>)))"

definition disconnected_event :: "env \<Rightarrow> uuid \<Rightarrow> OpenBankingConnection \<Rightarrow> OutboxEvent" where
  "disconnected_event env psuID from =
     ob_event env ''OPEN_BANKING_USER_CONNECTION_DISCONNECTED'' (OpenBankingConnection_ConnectionID from)
       (OpenBankingConnection_ConnectorID from)
       (UserConnectionDisconnected
         \<lparr>Disconnected_PsuID = psuID,
          Disconnected_ConnectorID = env_connector_text env (OpenBankingConnection_ConnectorID from),
          Disconnected_ConnectionID = OpenBankingConnection_ConnectionID from,
          Disconnected_ErrorType = OpenBankingConnection_Status from,
          Disconnected_At = OpenBankingConnection_UpdatedAt from,
          Disconnected_Reason = OpenBankingConnection_Error from\<rparr>)"

definition reconnected_event :: "env \<Rightarrow> uuid \<Rightarrow> OpenBankingConnection \<Rightarrow> OutboxEvent" where
  "reconnected_event env psuID from =
     ob_event env ''OPEN_BANKING_USER_CONNECTION_RECONNECTED'' (OpenBankingConnection_ConnectionID from)
       (OpenBankingConnection_ConnectorID from)
       (UserConnectionReconnected
         \<lparr>Reconnected_PsuID = psuID,
          Reconnected_ConnectorID = env_connector_text env (OpenBankingConnection_ConnectorID from),
          Reconnected_ConnectionID = OpenBankingConnection_ConnectionID from,
          Reconnected_At = OpenBankingConnection_UpdatedAt from\<rparr>)"

text \<open>An error is a disconnection; a connection that was in error and is active, a reconnection.\<close>

definition connection_events ::
  "env \<Rightarrow> uuid \<Rightarrow> OpenBankingConnection \<Rightarrow> ob_connection_row option \<Rightarrow> OutboxEvent list" where
  "connection_events env psuID from existing =
     (if OpenBankingConnection_Status from = ConnectionStatusError
      then [disconnected_event env psuID from]
      else if OpenBankingConnection_Status from = ConnectionStatusActive \<and>
              map_option obc_status existing = Some ConnectionStatusError
      then [reconnected_event env psuID from]
      else [])"

definition OpenBankingConnectionsUpsert ::
  "env \<Rightarrow> faults \<Rightarrow> uuid \<Rightarrow> OpenBankingConnection \<Rightarrow> (db, unit) tx" where
  "OpenBankingConnectionsUpsert env fl psuID from =
     (let (connection, token) = fromOpenBankingConnectionsModels env from psuID in
      in_tx fl ''failed to create transaction'' ''failed to commit transaction''
       (tx_bind (stmt fl ''failed to check if connection exists''
           (tx_get (\<lambda>d. lookup_row ob_connection_key (ob_connection_key connection) (ob_connections d))))
         (\<lambda>existing.
            tx_seq (upsert_token_stmt env fl ''upserting open banking connection access token'' token)
            (tx_seq (upsert_connection_stmt fl connection)
            (OutboxEventsInsert env fl (connection_events env psuID from existing))))))"

definition data_synced_event :: "env \<Rightarrow> uuid \<Rightarrow> ConnectorID \<Rightarrow> string \<Rightarrow> time \<Rightarrow> OutboxEvent" where
  "data_synced_event env psuID connectorID connectionID updatedAt =
     ob_event env ''OPEN_BANKING_USER_CONNECTION_DATA_SYNCED'' connectionID connectorID
       (UserConnectionDataSynced
         \<lparr>DataSynced_PsuID = psuID,
          DataSynced_ConnectorID = env_connector_text env connectorID,
          DataSynced_ConnectionID = connectionID,
          DataSynced_At = updatedAt\<rparr>)"

definition OpenBankingConnectionsUpdateLastDataUpdate ::
  "env \<Rightarrow> faults \<Rightarrow> uuid \<Rightarrow> ConnectorID \<Rightarrow> string \<Rightarrow> time \<Rightarrow> (db, unit) tx" where
  "OpenBankingConnectionsUpdateLastDataUpdate env fl psuID connectorID connectionID updatedAt =
     in_tx fl ''failed to begin transaction'' ''failed to commit transaction''
       (tx_seq (stmt fl ''updating open banking connection last data update''
           (tx_modify (\<lambda>d. d\<lparr>ob_connections :=
              update_where (\<lambda>r. ob_connection_key r = (psuID, connectorID, connectionID))
                (\<lambda>r. r\<lparr>obc_data_updated_at := env_db_time env updatedAt\<rparr>) (ob_connections d)\<rparr>)))
         (OutboxEventsInsert env fl [data_synced_event env psuID connectorID connectionID updatedAt]))"

text \<open>Here the join is on the connection too.\<close>

definition get_connection ::
  "env \<Rightarrow> faults \<Rightarrow> (ob_connection_row \<Rightarrow> bool) \<Rightarrow> (db, OpenBankingConnection \<times> uuid) tx" where
  "get_connection env fl p =
     stmt fl ''getting open banking connection''
       (\<lambda>d. case find p (ob_connections d) of
          None \<Rightarrow> refuse ''getting open banking connection'' DbNotFound d
        | Some r \<Rightarrow> (Inr (toOpenBankingConnectionsModels env r
            (lookup_row ob_token_key (ob_connection_key r) (ob_tokens d)), obc_psu_id r), d))"

definition OpenBankingConnectionsGet ::
  "env \<Rightarrow> faults \<Rightarrow> uuid \<Rightarrow> ConnectorID \<Rightarrow> string \<Rightarrow> (db, OpenBankingConnection) tx" where
  "OpenBankingConnectionsGet env fl psuID connectorID connectionID =
     tx_bind (get_connection env fl (\<lambda>r. ob_connection_key r = (psuID, connectorID, connectionID)))
       (\<lambda>r. tx_return (fst r))"

definition OpenBankingConnectionsGetFromConnectionID ::
  "env \<Rightarrow> faults \<Rightarrow> ConnectorID \<Rightarrow> string \<Rightarrow> (db, OpenBankingConnection \<times> uuid) tx" where
  "OpenBankingConnectionsGetFromConnectionID env fl connectorID connectionID =
     get_connection env fl (\<lambda>r. obc_connector_id r = connectorID \<and> obc_connection_id r = connectionID)"

definition OpenBankingConnectionsDelete ::
  "faults \<Rightarrow> uuid \<Rightarrow> ConnectorID \<Rightarrow> string \<Rightarrow> (db, unit) tx" where
  "OpenBankingConnectionsDelete fl psuID connectorID connectionID =
     stmt fl ''deleting open banking connection''
       (tx_modify (remove_connections (\<lambda>r. ob_connection_key r = (psuID, connectorID, connectionID))))"

end
