(* ===== verification/Webhooks_Store.thy ===== *)
theory Webhooks_Store
  imports Schema
begin

text \<open>
  internal/storage/webhooks.go, webhooks_configs.go and connector_tasks_tree.go:
  the webhooks received, their configuration, and the tree of tasks of each
  connector.
\<close>

section \<open>Webhooks\<close>

definition fromWebhookModels :: "Webhook \<Rightarrow> webhook_row" where
  "fromWebhookModels from =
     \<lparr>wh_id = Webhook_ID from, wh_connector_id = Webhook_ConnectorID from,
      wh_idempotency_key = Webhook_IdempotencyKey from, wh_headers = Webhook_Headers from,
      wh_query_values = Webhook_QueryValues from, wh_body = Webhook_Body from\<rparr>"

text \<open>The basic authentication is not stored.\<close>

definition toWebhookModels :: "webhook_row \<Rightarrow> Webhook" where
  "toWebhookModels from =
     \<lparr>Webhook_ID = wh_id from, Webhook_ConnectorID = wh_connector_id from,
      Webhook_IdempotencyKey = wh_idempotency_key from, Webhook_BasicAuth = None,
      Webhook_QueryValues = wh_query_values from, Webhook_Headers = wh_headers from,
      Webhook_Body = wh_body from\<rparr>"

text \<open>
  A conflict on the identifier inserts nothing; one on the connector and the
  idempotency key is an error (two rows without key never conflict).
\<close>

definition same_webhook_key :: "webhook_row \<Rightarrow> webhook_row \<Rightarrow> bool" where
  "same_webhook_key r s \<longleftrightarrow> wh_connector_id r = wh_connector_id s \<and>
     wh_idempotency_key r \<noteq> None \<and> wh_idempotency_key r = wh_idempotency_key s"

definition WebhooksInsert :: "faults \<Rightarrow> Webhook \<Rightarrow> (db, unit) tx" where
  "WebhooksInsert fl webhook =
     (let row = fromWebhookModels webhook in
      stmt fl ''insert webhook''
       (\<lambda>d. if has_key wh_id (wh_id row) (webhooks d) then (Inr (), d)
            else if list_ex (same_webhook_key row) (webhooks d)
            then refuse ''insert webhook'' DbConstraintsFailed d
            else if \<not> connector_exists d (wh_connector_id row)
            then refuse ''insert webhook'' (DbFKConstraintFailed ''webhooks_connector_id_fk'') d
            else (Inr (), d\<lparr>webhooks := webhooks d @ [row]\<rparr>)))"

definition WebhooksGet :: "faults \<Rightarrow> string \<Rightarrow> (db, Webhook) tx" where
  "WebhooksGet fl i =
     stmt fl ''get webhook''
       (\<lambda>d. case lookup_row wh_id i (webhooks d) of
          None \<Rightarrow> refuse ''get webhook'' DbNotFound d
        | Some r \<Rightarrow> (Inr (toWebhookModels r), d))"

definition WebhooksDeleteFromConnectorID :: "faults \<Rightarrow> ConnectorID \<Rightarrow> (db, unit) tx" where
  "WebhooksDeleteFromConnectorID fl c =
     stmt fl ''delete webhook''
       (tx_modify (\<lambda>d. d\<lparr>webhooks := delete_where (\<lambda>r. wh_connector_id r = c) (webhooks d)\<rparr>))"

section \<open>Configurations\<close>

definition webhook_config_key :: "webhook_config_row \<Rightarrow> string \<times> ConnectorID" where
  "webhook_config_key r = (wc_name r, wc_connector_id r)"

definition fromWebhookConfigModels :: "WebhookConfig \<Rightarrow> webhook_config_row" where
  "fromWebhookConfigModels from =
     \<lparr>wc_name = WebhookConfig_Name from, wc_connector_id = WebhookConfig_ConnectorID from,
      wc_url_path = WebhookConfig_URLPath from, wc_metadata = WebhookConfig_Metadata from\<rparr>"

definition fromWebhooksConfigsModels :: "WebhookConfig list \<Rightarrow> webhook_config_row list" where
  "fromWebhooksConfigsModels from = map fromWebhookConfigModels from"

definition toWebhookConfigModel :: "webhook_config_row \<Rightarrow> WebhookConfig" where
  "toWebhookConfigModel from =
     \<lparr>WebhookConfig_Name = wc_name from, WebhookConfig_ConnectorID = wc_connector_id from,
      WebhookConfig_URLPath = wc_url_path from, WebhookConfig_FullURL = [],
      WebhookConfig_Metadata = wc_metadata from\<rparr>"

definition WebhooksConfigsUpsert :: "faults \<Rightarrow> WebhookConfig list \<Rightarrow> (db, unit) tx" where
  "WebhooksConfigsUpsert fl webhooksConfigs =
     stmt fl ''upsert webhook config''
       (\<lambda>d. let (ins, tbl) = insert_ignore webhook_config_key
                  (fromWebhooksConfigsModels webhooksConfigs) (webhooks_configs d) in
            if list_all (\<lambda>r. connector_exists d (wc_connector_id r)) ins
            then (Inr (), d\<lparr>webhooks_configs := tbl\<rparr>)
            else refuse ''upsert webhook config''
                   (DbFKConstraintFailed ''webhooks_configs_connector_id_fk'') d)"

definition WebhooksConfigsGet :: "faults \<Rightarrow> string \<Rightarrow> ConnectorID \<Rightarrow> (db, WebhookConfig) tx" where
  "WebhooksConfigsGet fl name connectorID =
     stmt fl ''get webhook config''
       (\<lambda>d. case lookup_row webhook_config_key (name, connectorID) (webhooks_configs d) of
          None \<Rightarrow> refuse ''get webhook config'' DbNotFound d
        | Some r \<Rightarrow> (Inr (toWebhookConfigModel r), d))"

definition WebhooksConfigsGetFromConnectorID :: "faults \<Rightarrow> ConnectorID \<Rightarrow> (db, WebhookConfig list) tx" where
  "WebhooksConfigsGetFromConnectorID fl connectorID =
     stmt fl ''get webhook configs''
       (tx_get (\<lambda>d. map toWebhookConfigModel
          (filter (\<lambda>r. wc_connector_id r = connectorID) (webhooks_configs d))))"

definition WebhooksConfigsDeleteFromConnectorID :: "faults \<Rightarrow> ConnectorID \<Rightarrow> (db, unit) tx" where
  "WebhooksConfigsDeleteFromConnectorID fl c =
     stmt fl ''delete webhook config''
       (tx_modify (\<lambda>d. d\<lparr>webhooks_configs := delete_where (\<lambda>r. wc_connector_id r = c) (webhooks_configs d)\<rparr>))"

section \<open>Trees of tasks\<close>

text \<open>The column holds the JSON of the tree; encoding/json reads back what it wrote.\<close>

definition ConnectorTasksTreeUpsert :: "faults \<Rightarrow> ConnectorID \<Rightarrow> ConnectorTasksTree \<Rightarrow> (db, unit) tx" where
  "ConnectorTasksTreeUpsert fl connectorID ts =
     (let row = \<lparr>tt_connector_id = connectorID, tt_tasks = ts\<rparr> in
      stmt fl ''failed to insert tasks''
       (\<lambda>d. if \<not> has_key tt_connector_id connectorID (connector_tasks_tree d) \<and>
               \<not> connector_exists d connectorID
            then refuse ''failed to insert tasks''
                   (DbFKConstraintFailed ''connector_tasks_tree_connector_id_fk'') d
            else (Inr (), d\<lparr>connector_tasks_tree := upsert_row tt_connector_id
                   (\<lambda>old new. old\<lparr>tt_tasks := tt_tasks new\<rparr>) row (connector_tasks_tree d)\<rparr>)))"

definition ConnectorTasksTreeGet :: "faults \<Rightarrow> ConnectorID \<Rightarrow> (db, ConnectorTasksTree) tx" where
  "ConnectorTasksTreeGet fl connectorID =
     stmt fl ''failed to fetch tasks''
       (\<lambda>d. case lookup_row tt_connector_id connectorID (connector_tasks_tree d) of
          None \<Rightarrow> refuse ''failed to fetch tasks'' DbNotFound d
        | Some r \<Rightarrow> (Inr (tt_tasks r), d))"

definition ConnectorTasksTreeDeleteFromConnectorID :: "faults \<Rightarrow> ConnectorID \<Rightarrow> (db, unit) tx" where
  "ConnectorTasksTreeDeleteFromConnectorID fl c =
     stmt fl ''failed to delete tasks''
       (tx_modify (\<lambda>d. d\<lparr>connector_tasks_tree :=
          delete_where (\<lambda>r. tt_connector_id r = c) (connector_tasks_tree d)\<rparr>))"

end
