(* ===== verification/Connectors_Store.thy ===== *)
theory Connectors_Store
  imports Reversals_Store Runtime_Store Pools_Store Orders_Store OpenBanking_Store Webhooks_Store
begin

text \<open>
  internal/storage/connectors.go: installing a connector, updating its
  configuration, scheduling it for deletion and deleting it.  Deleting the row
  of a connector deletes what refers to it (the ON DELETE CASCADE of the
  migrations): every entity, the pending events and the record of sent events.
\<close>

section \<open>Rows and models\<close>

text \<open>decrypted_config is a column the query computes.\<close>

definition toConnectorModels :: "env \<Rightarrow> connector_row \<Rightarrow> Connector" where
  "toConnectorModels env from =
     \<lparr>Connector_Base = toConnectorBaseModels from,
      Connector_ScheduledForDeletion = connector_scheduled_for_deletion from,
      Connector_Config = env_decrypt env (connector_config from),
      Connector_UpdatedAt = connector_updated_at from\<rparr>"

definition new_connector_row :: "env \<Rightarrow> Connector \<Rightarrow> connector_row" where
  "new_connector_row env c =
     \<lparr>connector_id = ConnectorBase_ID (Connector_Base c),
      connector_name = ConnectorBase_Name (Connector_Base c),
      connector_created_at = env_db_time env (ConnectorBase_CreatedAt (Connector_Base c)),
      connector_provider = ConnectorBase_Provider (Connector_Base c),
      connector_scheduled_for_deletion = False,
      connector_config = [],
      connector_updated_at = None\<rparr>"

section \<open>Install\<close>

text \<open>A conflict on the identifier inserts nothing, a conflict on the name is an error.\<close>

definition insert_connector_stmt :: "faults \<Rightarrow> connector_row \<Rightarrow> (db, unit) tx" where
  "insert_connector_stmt fl row =
     stmt fl ''failed to insert connector''
       (\<lambda>d. let (ins, tbl) = insert_ignore connector_id [row] (connectors d) in
            if list_all (\<lambda>r. \<not> has_key connector_name (connector_name r) (connectors d)) ins
            then (Inr (), d\<lparr>connectors := tbl\<rparr>)
            else refuse ''failed to insert connector'' DbConstraintsFailed d)"

text \<open>UPDATE connectors SET .. WHERE id = ..; the trigger sets updated_at.\<close>

definition update_connector :: "env \<Rightarrow> ConnectorID \<Rightarrow> (connector_row \<Rightarrow> connector_row) \<Rightarrow> db \<Rightarrow> db" where
  "update_connector env i f d = d\<lparr>connectors :=
     update_where (\<lambda>r. connector_id r = i) (\<lambda>r. (f r)\<lparr>connector_updated_at := Some (env_now env)\<rparr>)
       (connectors d)\<rparr>"

definition connector_reset_event :: "env \<Rightarrow> ConnectorID \<Rightarrow> connector_row \<Rightarrow> OutboxEvent" where
  "connector_reset_event env oldConnectorID toInsert =
     (let now = connector_created_at toInsert in
      \<lparr>OutboxEvent_ID =
         \<lparr>EventID_EventIdempotencyKey =
            env_connector_text env oldConnectorID @ ''-'' @ env_time_text env now,
          EventID_ConnectorID = Some (connector_id toInsert)\<rparr>,
       OutboxEvent_EventType = ''CONNECTOR_RESET'',
       OutboxEvent_EntityID = env_connector_text env oldConnectorID,
       OutboxEvent_Payload = ConnectorReset
         \<lparr>ConnectorMessage_CreatedAt = now,
          ConnectorMessage_ConnectorID = env_connector_text env oldConnectorID\<rparr>,
       OutboxEvent_CreatedAt = now,
       OutboxEvent_Status = OUTBOX_STATUS_PENDING,
       OutboxEvent_ConnectorID = Some (connector_id toInsert),
       OutboxEvent_RetryCount = 0,
       OutboxEvent_LastRetryAt = None,
       OutboxEvent_Error = None\<rparr>)"

text \<open>BeginTx with the message of this file, which is not classified.\<close>

definition begin_unclassified :: "faults \<Rightarrow> string \<Rightarrow> ('s, 'a) tx \<Rightarrow> ('s, 'a) tx" where
  "begin_unclassified fl commit_msg body =
     (case fl ''cannot begin transaction'' of
        Some d \<Rightarrow> tx_fail (Wrap ''cannot begin transaction''
          (case d of DbOther err \<Rightarrow> err | _ \<Rightarrow> Plain ''driver error''))
      | None \<Rightarrow> in_tx fl ''cannot begin transaction'' commit_msg body)"

definition ConnectorsInstall ::
  "env \<Rightarrow> faults \<Rightarrow> Connector \<Rightarrow> ConnectorID option \<Rightarrow> (db, unit) tx" where
  "ConnectorsInstall env fl c oldConnectorID =
     (let toInsert = new_connector_row env c in
      begin_unclassified fl ''failed to commit transaction''
       (tx_seq (insert_connector_stmt fl toInsert)
         (tx_seq
           (stmt fl ''failed to encrypt config''
             (tx_modify (update_connector env (connector_id toInsert)
               (\<lambda>r. r\<lparr>connector_config := env_encrypt env (Connector_Config c)\<rparr>))))
           (case oldConnectorID of
              None \<Rightarrow> tx_return ()
            | Some old \<Rightarrow> OutboxEventsInsert env fl [connector_reset_event env old toInsert]))))"

section \<open>Update, deletion, reading\<close>

definition ConnectorsGet :: "env \<Rightarrow> faults \<Rightarrow> ConnectorID \<Rightarrow> (db, Connector) tx" where
  "ConnectorsGet env fl i =
     stmt fl ''failed to fetch connector''
       (\<lambda>d. case lookup_row connector_id i (connectors d) of
          None \<Rightarrow> refuse ''failed to fetch connector'' DbNotFound d
        | Some r \<Rightarrow> (Inr (toConnectorModels env r), d))"

text \<open>The name is unique, among the other connectors.\<close>

definition update_connector_stmt :: "env \<Rightarrow> faults \<Rightarrow> Connector \<Rightarrow> (db, unit) tx" where
  "update_connector_stmt env fl c =
     (let i = ConnectorBase_ID (Connector_Base c); n = ConnectorBase_Name (Connector_Base c) in
      stmt fl ''failed to encrypt config''
       (\<lambda>d. if list_ex (\<lambda>r. connector_id r \<noteq> i \<and> connector_name r = n) (connectors d)
            then refuse ''failed to encrypt config'' DbConstraintsFailed d
            else (Inr (), update_connector env i
              (\<lambda>r. r\<lparr>connector_name := n, connector_config := env_encrypt env (Connector_Config c)\<rparr>) d)))"

definition ConnectorsConfigUpdate :: "env \<Rightarrow> faults \<Rightarrow> Connector \<Rightarrow> (db, unit) tx" where
  "ConnectorsConfigUpdate env fl c =
     begin_unclassified fl ''failed to commit transaction''
       (tx_bind (with_message ''connector not found''
           (ConnectorsGet env fl (ConnectorBase_ID (Connector_Base c))))
         (\<lambda>_. update_connector_stmt env fl c))"

definition ConnectorsScheduleForDeletion :: "env \<Rightarrow> faults \<Rightarrow> ConnectorID \<Rightarrow> (db, unit) tx" where
  "ConnectorsScheduleForDeletion env fl i =
     stmt fl ''failed to schedule connector for deletion''
       (tx_modify (update_connector env i (\<lambda>r. r\<lparr>connector_scheduled_for_deletion := True\<rparr>)))"

text \<open>
  ON DELETE CASCADE.  The accounts, balances and payments of the connections
  deleted are those of the connector.  The accounts of pools refer to no connector: they are
  removed by PoolsRemoveAccountsFromConnectorID.
\<close>

definition cascade_connector :: "ConnectorID \<Rightarrow> db \<Rightarrow> db" where
  "cascade_connector i d =
     (let d1 = delete_payments (\<lambda>r. payment_connector_id r = i) d;
          d2 = remove_initiations (\<lambda>r. pi_connector_id r = i) d1;
          d3 = remove_reversals (\<lambda>r. pir_connector_id r = i) d2;
          d4 = remove_schedules (\<lambda>r. schedule_connector_id r = i) d3;
          d5 = remove_orders (\<lambda>r. order_connector_id r = i) d4 in
      d5\<lparr>accounts := delete_where (\<lambda>r. account_connector_id r = i) (accounts d5),
         balances := delete_where (\<lambda>r. balance_connector_id r = i) (balances d5),
         tasks := delete_where (\<lambda>r. task_connector_id r = Some i) (tasks d5),
         states := delete_where (\<lambda>r. state_connector_id r = i) (states d5),
         workflow_instances := delete_where (\<lambda>r. instance_connector_id r = i) (workflow_instances d5),
         conversions := delete_where (\<lambda>r. conversion_connector_id r = i) (conversions d5),
         outbox_events := delete_where (\<lambda>r. outbox_connector_id r = Some i) (outbox_events d5),
         events_sent := delete_where (\<lambda>r. sent_connector_id r = Some i) (events_sent d5),
         bank_account_relations := delete_where (\<lambda>r. bar_connector_id r = i) (bank_account_relations d5),
         ob_attempts := delete_where (\<lambda>r. oba_connector_id r = i) (ob_attempts d5),
         ob_forwarded_users := delete_where (\<lambda>r. obf_connector_id r = i) (ob_forwarded_users d5),
         ob_connections := delete_where (\<lambda>r. obc_connector_id r = i) (ob_connections d5),
         ob_tokens := delete_where (\<lambda>r. obt_connector_id r = i) (ob_tokens d5),
         webhooks_configs := delete_where (\<lambda>r. wc_connector_id r = i) (webhooks_configs d5),
         webhooks := delete_where (\<lambda>r. wh_connector_id r = i) (webhooks d5),
         connector_tasks_tree := delete_where (\<lambda>r. tt_connector_id r = i) (connector_tasks_tree d5)\<rparr>)"

definition ConnectorsUninstall :: "faults \<Rightarrow> ConnectorID \<Rightarrow> (db, unit) tx" where
  "ConnectorsUninstall fl i =
     stmt fl ''failed to delete connector''
       (tx_modify (\<lambda>d. (cascade_connector i d)
          \<lparr>connectors := delete_where (\<lambda>r. connector_id r = i) (connectors d)\<rparr>))"

end
