(* ===== verification/Consistency.thy ===== *)
theory Consistency
  imports Connectors_Store Payments_Ledger
begin

text \<open>
  The type invariant of the database: keys are unique and every reference has
  its target.  PostgreSQL checks it statement by statement; here every
  statement of internal/storage is proved to keep it, so a cascade or a
  conflict clause that would break it is an error of the model.
\<close>

section \<open>Computations that keep a predicate\<close>

definition keeps :: "('s \<Rightarrow> bool) \<Rightarrow> ('s, 'a) tx \<Rightarrow> bool" where
  "keeps P m \<longleftrightarrow> (\<forall>s r s'. P s \<longrightarrow> m s = (r, s') \<longrightarrow> P s')"

named_theorems keeps_intros \<open>computations that keep a predicate, by their shape\<close>

lemma keepsI: "(\<And>s r s'. P s \<Longrightarrow> m s = (r, s') \<Longrightarrow> P s') \<Longrightarrow> keeps P m"
  by (simp add: keeps_def)

lemma keepsD: "keeps P m \<Longrightarrow> P s \<Longrightarrow> m s = (r, s') \<Longrightarrow> P s'"
  by (simp add: keeps_def)

lemma keeps_snd: "keeps P m \<Longrightarrow> P s \<Longrightarrow> P (snd (m s))"
  by (cases "m s") (simp add: keeps_def)

lemma keeps_return [keeps_intros]: "keeps P (tx_return a)"
  by (simp add: keeps_def)

lemma keeps_fail [keeps_intros]: "keeps P (tx_fail e)"
  by (simp add: keeps_def)

lemma keeps_refuse [keeps_intros]: "keeps P (refuse msg e)"
  by (simp add: keeps_def refuse_def)

lemma keeps_lift [keeps_intros]: "keeps P (tx_lift r)"
  by (simp add: keeps_def)

lemma keeps_get [keeps_intros]: "keeps P (tx_get f)"
  by (simp add: keeps_def)

lemma keeps_modify [keeps_intros]: "(\<And>s. P s \<Longrightarrow> P (f s)) \<Longrightarrow> keeps P (tx_modify f)"
  by (simp add: keeps_def)

lemma keeps_bind [keeps_intros]: "keeps P m \<Longrightarrow> (\<And>a. keeps P (f a)) \<Longrightarrow> keeps P (tx_bind m f)"
  by (rule keepsI) (auto simp: tx_bind_def dest: keepsD split: prod.splits sum.splits)

lemma keeps_seq [keeps_intros]: "keeps P m \<Longrightarrow> keeps P n \<Longrightarrow> keeps P (tx_seq m n)"
  by (simp add: tx_seq_def keeps_bind)

lemma keeps_when [keeps_intros]: "keeps P m \<Longrightarrow> keeps P (tx_when b m)"
  by (simp add: tx_when_def keeps_return)

lemma keeps_stmt [keeps_intros]: "keeps P m \<Longrightarrow> keeps P (stmt fl msg m)"
  by (simp add: stmt_def keeps_fail split: option.splits)

lemma keeps_in_tx [keeps_intros]: "keeps P m \<Longrightarrow> keeps P (in_tx fl b c m)"
  by (rule keepsI) (auto simp: in_tx_def dest: keepsD split: prod.splits sum.splits option.splits)

lemma keeps_if [keeps_intros]: "(b \<Longrightarrow> keeps P m) \<Longrightarrow> (\<not> b \<Longrightarrow> keeps P n) \<Longrightarrow> keeps P (if b then m else n)"
  by simp

lemma keeps_case_option [keeps_intros]:
  "keeps P m \<Longrightarrow> (\<And>x. keeps P (f x)) \<Longrightarrow> keeps P (case v of None \<Rightarrow> m | Some x \<Rightarrow> f x)"
  by (cases v) auto

lemma keeps_for [keeps_intros]: "(\<And>x. keeps P (f x)) \<Longrightarrow> keeps P (tx_for xs f)"
  by (induction xs) (simp_all add: keeps_return keeps_seq)

lemma keeps_let [keeps_intros]: "(\<And>x. keeps P (f x)) \<Longrightarrow> keeps P (let x = v in f x)"
  by simp

lemma keeps_case_prod [keeps_intros]:
  "(\<And>x y. keeps P (f x y)) \<Longrightarrow> keeps P (case v of (x, y) \<Rightarrow> f x y)"
  by (cases v) auto

lemma keeps_wrap [keeps_intros]: "keeps P m \<Longrightarrow> keeps P (tx_wrap msg m)"
  by (rule keepsI) (auto simp: tx_wrap_def dest: keepsD split: prod.splits sum.splits)

lemma keeps_with_message [keeps_intros]: "keeps P m \<Longrightarrow> keeps P (with_message msg m)"
  by (rule keepsI) (auto simp: with_message_def dest: keepsD split: prod.splits sum.splits)

lemma keeps_raw_begin [keeps_intros]: "keeps P m \<Longrightarrow> keeps P (raw_begin fl m)"
  by (simp add: raw_begin_def keeps_fail split: option.splits db_error.splits)

lemma keeps_begin_unclassified [keeps_intros]:
  "keeps P m \<Longrightarrow> keeps P (begin_unclassified fl c m)"
  by (simp add: begin_unclassified_def keeps_fail keeps_in_tx split: option.splits)

lemma keeps_rows_affected [keeps_intros]: "keeps P (rows_affected fl rs)"
  by (simp add: rows_affected_def keeps_stmt keeps_return)

text \<open>At each state the computation is one that keeps the predicate.\<close>

lemma keeps_pointwise: "(\<And>s. \<exists>m. keeps P m \<and> f s = m s) \<Longrightarrow> keeps P f"
  by (metis keeps_def)

lemma keeps_conj: "keeps P m \<Longrightarrow> keeps Q m \<Longrightarrow> keeps (\<lambda>s. P s \<and> Q s) m"
  by (auto simp: keeps_def)

text \<open>A transaction rolls back, so only its success matters.\<close>

lemma keeps_in_txI:
  assumes "\<And>s a s'. P s \<Longrightarrow> m s = (Inr a, s') \<Longrightarrow> P s'"
  shows "keeps P (in_tx fl b c m)"
  by (rule keepsI) (auto simp: in_tx_def dest: assms split: prod.splits sum.splits option.splits)

section \<open>Unique keys and references\<close>

definition unique_key :: "('r \<Rightarrow> 'k) \<Rightarrow> 'r list \<Rightarrow> bool" where
  "unique_key key tbl \<longleftrightarrow> distinct (map key tbl)"

text \<open>Every row of the child table refers by f to a row of the parent table.\<close>

definition refers :: "('r \<Rightarrow> 'k) \<Rightarrow> 'r list \<Rightarrow> ('p \<Rightarrow> 'k) \<Rightarrow> 'p list \<Rightarrow> bool" where
  "refers f child key parent \<longleftrightarrow> (\<forall>r\<in>set child. has_key key (f r) parent)"

definition refers_opt :: "('r \<Rightarrow> 'k option) \<Rightarrow> 'r list \<Rightarrow> ('p \<Rightarrow> 'k) \<Rightarrow> 'p list \<Rightarrow> bool" where
  "refers_opt f child key parent \<longleftrightarrow>
     (\<forall>r\<in>set child. case f r of None \<Rightarrow> True | Some k \<Rightarrow> has_key key k parent)"

named_theorems table_rules \<open>how statements keep keys and references\<close>

lemma unique_empty [simp]: "unique_key key []"
  by (simp add: unique_key_def)

lemma refers_empty [simp]: "refers f [] key parent" "refers_opt g [] key parent"
  by (simp_all add: refers_def refers_opt_def)

lemma has_key_grows: "has_key key k tbl \<Longrightarrow> has_key key k (tbl @ rows)"
  by simp

lemma unique_delete_where [table_rules]:
  "unique_key key tbl \<Longrightarrow> unique_key key (delete_where p tbl)"
  by (simp add: unique_key_def distinct_map_delete_where)

lemma unique_update_where [table_rules]:
  "unique_key key tbl \<Longrightarrow> (\<And>r. key (f r) = key r) \<Longrightarrow> unique_key key (update_where p f tbl)"
  by (simp add: unique_key_def)

lemma unique_upsert_row [table_rules]:
  "unique_key key tbl \<Longrightarrow> (\<And>x y. key x = key y \<Longrightarrow> key (g x y) = key x) \<Longrightarrow>
     unique_key key (upsert_row key g r tbl)"
  by (simp add: unique_key_def upsert_row_keys)

lemma unique_insert_update:
  assumes "unique_key key tbl" "insert_update key g rs tbl = Some tbl'"
    and g: "\<And>x y. key x = key y \<Longrightarrow> key (g x y) = key x"
  shows "unique_key key tbl'"
proof -
  have "unique_key key (fold (upsert_row key g) rs tbl)"
    using assms(1) by (induction rs arbitrary: tbl) (simp_all add: unique_upsert_row g)
  with assms(2) show ?thesis by (simp add: insert_update_def split: if_splits)
qed

text \<open>An optional reference is a reference to a table that also has the key NULL.\<close>

lemma refers_opt_iff:
  "refers_opt f child key parent \<longleftrightarrow> refers f child (\<lambda>k. k) (None # map (Some \<circ> key) parent)"
proof -
  have "(case f r of None \<Rightarrow> True | Some k \<Rightarrow> has_key key k parent) \<longleftrightarrow>
      has_key (\<lambda>k. k) (f r) (None # map (Some \<circ> key) parent)" for r
    by (cases "f r") (auto simp: has_key_iff)
  then show ?thesis by (simp only: refers_opt_def refers_def)
qed

text \<open>The child table changes.\<close>

lemma refers_delete_where [table_rules]:
  "refers f child key parent \<Longrightarrow> refers f (delete_where p child) key parent"
  by (simp add: refers_def)

lemma refers_update_where [table_rules]:
  "refers f child key parent \<Longrightarrow> (\<And>r. f (g r) = f r) \<Longrightarrow> refers f (update_where p g child) key parent"
  by (auto simp: refers_def update_where_def)

lemma refers_append [table_rules]:
  "refers f child key parent \<Longrightarrow> list_all (\<lambda>r. has_key key (f r) parent) rows \<Longrightarrow>
     refers f (child @ rows) key parent"
  by (auto simp: refers_def list_all_iff)

lemma refers_upsert_row [table_rules]:
  assumes "refers f child key parent" "\<And>x y. f (g x y) = f x"
    "\<not> has_key ck (ck r) child \<Longrightarrow> has_key key (f r) parent"
  shows "refers f (upsert_row ck g r child) key parent"
  using assms unfolding upsert_row_def
  by (cases "has_key ck (ck r) child") (auto intro: refers_update_where refers_append)

lemma has_key_upsert_row:
  assumes "\<And>x y. key x = key y \<Longrightarrow> key (g x y) = key x"
  shows "has_key key k (upsert_row key g r tbl) \<longleftrightarrow> k = key r \<or> has_key key k tbl"
  proof -
  have "key ` set (upsert_row key g r tbl) = insert (key r) (key ` set tbl)"
    by (rule upsert_row_keys) (rule assms)
  then show ?thesis by (auto simp: has_key_iff)
qed

lemma refers_fold_upsert:
  assumes "refers f child key parent" and f: "\<And>x y. f (g x y) = f x"
    and k: "\<And>x y. ck x = ck y \<Longrightarrow> ck (g x y) = ck x"
    and "list_all (\<lambda>r. has_key ck (ck r) child \<or> has_key key (f r) parent) rs"
  shows "refers f (fold (upsert_row ck g) rs child) key parent"
  using assms(1,4)
proof (induction rs arbitrary: child)
  case (Cons r rs)
  have "refers f (upsert_row ck g r child) key parent"
    using Cons.prems by (intro refers_upsert_row) (auto simp: f)
  moreover have "list_all (\<lambda>x. has_key ck (ck x) (upsert_row ck g r child) \<or>
      has_key key (f x) parent) rs"
    using Cons.prems(2) by (auto simp: list_all_iff has_key_upsert_row k)
  ultimately show ?case using Cons.IH by simp
qed simp

lemma refers_insert_update:
  assumes "refers f child key parent" "insert_update ck g rs child = Some tbl"
    "list_all (\<lambda>r. has_key ck (ck r) child \<or> has_key key (f r) parent) rs"
    "\<And>x y. f (g x y) = f x" "\<And>x y. ck x = ck y \<Longrightarrow> ck (g x y) = ck x"
  shows "refers f tbl key parent"
proof -
  have "refers f (fold (upsert_row ck g) rs child) key parent"
    by (rule refers_fold_upsert[OF assms(1)]) (use assms in auto)
  with assms(2) show ?thesis by (simp add: insert_update_def split: if_splits)
qed

lemma refers_opt_insert_update:
  assumes "refers_opt f child key parent" "insert_update ck g rs child = Some tbl"
    "list_all (\<lambda>r. has_key ck (ck r) child) rs"
    "\<And>x y. f (g x y) = f x" "\<And>x y. ck x = ck y \<Longrightarrow> ck (g x y) = ck x"
  shows "refers_opt f tbl key parent"
  unfolding refers_opt_iff
  by (rule refers_insert_update[OF _ assms(2)]) (use assms in \<open>auto simp: refers_opt_iff[symmetric] list_all_iff\<close>)

lemma refers_opt_delete_where [table_rules]:
  "refers_opt f child key parent \<Longrightarrow> refers_opt f (delete_where p child) key parent"
  by (simp add: refers_opt_def)

lemma refers_opt_update_where [table_rules]:
  "refers_opt f child key parent \<Longrightarrow> (\<And>r. f (g r) = f r) \<Longrightarrow>
     refers_opt f (update_where p g child) key parent"
  by (auto simp: refers_opt_def update_where_def)

text \<open>The parent table changes.\<close>

lemma refers_parent_grows:
  "refers f child key parent \<Longrightarrow> (\<And>k. has_key key k parent \<Longrightarrow> has_key key k parent') \<Longrightarrow>
     refers f child key parent'"
  by (auto simp: refers_def)

lemma refers_opt_parent_grows:
  "refers_opt f child key parent \<Longrightarrow> (\<And>k. has_key key k parent \<Longrightarrow> has_key key k parent') \<Longrightarrow>
     refers_opt f child key parent'"
  by (force simp: refers_opt_def split: option.splits)

lemma update_where_same_keys:
  assumes "\<And>r. key (f r) = key r"
  shows "has_key key k (update_where p f tbl) = has_key key k tbl"
  using assms by (induction tbl) (auto simp: update_where_def)

lemma insert_update_grows:
  assumes "insert_update key g rs tbl = Some tbl'" "has_key key k tbl"
    and g: "\<And>x y. key x = key y \<Longrightarrow> key (g x y) = key x"
  shows "has_key key k tbl'"
proof -
  have "has_key key k (fold (upsert_row key g) rs tbl)"
    using assms(2) by (induction rs arbitrary: tbl) (auto simp: has_key_upsert_row g)
  with assms(1) show ?thesis by (simp add: insert_update_def split: if_splits)
qed

lemma refers_to_upserted:
  assumes "insert_update key g rs parent = Some t" "\<And>x y. key x = key y \<Longrightarrow> key (g x y) = key x"
    "refers f child key parent"
  shows "refers f child key t"
proof (rule refers_parent_grows[OF assms(3)])
  fix k assume k: "has_key key k parent"
  show "has_key key k t"
    by (rule insert_update_grows[where g = g, OF assms(1) k]) (simp add: assms(2))
qed

lemma refers_to_updated [table_rules]:
  "refers f child key parent \<Longrightarrow> (\<And>r. key (g r) = key r) \<Longrightarrow>
     refers f child key (update_where p g parent)"
  "refers_opt h child key parent \<Longrightarrow> (\<And>r. key (g r) = key r) \<Longrightarrow>
     refers_opt h child key (update_where p g parent)"
  by (auto intro: refers_parent_grows refers_opt_parent_grows simp: update_where_same_keys)

text \<open>Parents are deleted and their children with them.\<close>

lemma refers_cascade:
  assumes "refers f child key parent"
    and "\<And>r x. r \<in> set child \<Longrightarrow> \<not> q r \<Longrightarrow> x \<in> set parent \<Longrightarrow> p x \<Longrightarrow> key x \<noteq> f r"
  shows "refers f (delete_where q child) key (delete_where p parent)"
  using assms by (fastforce simp: refers_def has_key_iff)

lemma refers_opt_cascade:
  assumes "refers_opt f child key parent"
    and "\<And>r x. r \<in> set child \<Longrightarrow> \<not> q r \<Longrightarrow> x \<in> set parent \<Longrightarrow> p x \<Longrightarrow> f r \<noteq> Some (key x)"
  shows "refers_opt f (delete_where q child) key (delete_where p parent)"
  using assms by (fastforce simp: refers_opt_def has_key_iff split: option.splits)

lemma refers_opt_drop:
  assumes "refers_opt f child key parent"
    and "\<And>r x. r \<in> set child \<Longrightarrow> x \<in> set parent \<Longrightarrow> p x \<Longrightarrow> f r \<noteq> Some (key x)"
  shows "refers_opt f child key (delete_where p parent)"
  using refers_opt_cascade[OF assms(1), of "\<lambda>_. False" p] assms(2) by (simp add: delete_where_def)

lemma refers_cascade_ids:
  assumes "refers f child key parent"
  shows "refers f (delete_where (\<lambda>r. f r \<in> key ` {x \<in> set parent. p x}) child) key
    (delete_where p parent)"
  by (rule refers_cascade[OF assms]) (auto simp: image_iff)

text \<open>What an insert returned.\<close>

lemma inserted_rows:
  assumes "insert_ignore key rs tbl = (ins, t)"
  shows "t = tbl @ ins \<and> distinct (map key ins) \<and> key ` set ins \<inter> key ` set tbl = {}"
  using insert_ignore_append[OF assms] insert_ignore_sound[OF assms] by simp

lemma unique_append [table_rules]:
  "unique_key key tbl \<Longrightarrow> distinct (map key ins) \<Longrightarrow> key ` set ins \<inter> key ` set tbl = {} \<Longrightarrow>
     unique_key key (tbl @ ins)"
  by (auto simp: unique_key_def)

lemma unique_append_new:
  "unique_key key tbl \<Longrightarrow> \<not> has_key key (key r) tbl \<Longrightarrow> unique_key key (tbl @ [r])"
  by (simp add: unique_key_def has_key_iff)

lemma refers_to_appended [table_rules]:
  "refers f child key parent \<Longrightarrow> refers f child key (parent @ rows)"
  "refers_opt g child key parent \<Longrightarrow> refers_opt g child key (parent @ rows)"
  by (erule refers_parent_grows refers_opt_parent_grows, simp)+

end
