(* ===== verification/Consistency_Store.thy ===== *)
theory Consistency_Store
  imports Consistency
begin

text \<open>
  Every operation of internal/storage keeps db_ok: unique keys, and references
  with targets (the primary keys, unique indexes and foreign keys of the
  migrations over the modelled tables).
\<close>

section \<open>The invariant\<close>

definition instance_schedule :: "instance_row \<Rightarrow> string \<times> ConnectorID" where
  "instance_schedule r = (instance_schedule_id r, instance_connector_id r)"

abbreviation account_connection :: "account_row \<Rightarrow> (uuid \<times> ConnectorID \<times> string) option" where
  "account_connection \<equiv> (\<lambda>r. connection_ref (account_psu_id r) (account_connector_id r)
     (account_open_banking_connection_id r))"

abbreviation payment_connection :: "payment_row \<Rightarrow> (uuid \<times> ConnectorID \<times> string) option" where
  "payment_connection \<equiv> (\<lambda>r. connection_ref (payment_psu_id r) (payment_connector_id r)
     (payment_open_banking_connection_id r))"

abbreviation balance_connection :: "balance_row \<Rightarrow> (uuid \<times> ConnectorID \<times> string) option" where
  "balance_connection \<equiv> (\<lambda>r. connection_ref (balance_psu_id r) (balance_connector_id r)
     (balance_open_banking_connection_id r))"

text \<open>The unique index of webhooks on connector and idempotency key.\<close>

definition webhook_keys_apart :: "webhook_row list \<Rightarrow> bool" where
  "webhook_keys_apart tbl = sorted_wrt (\<lambda>r s. \<not> same_webhook_key r s) tbl"

definition db_ok :: "db \<Rightarrow> bool" where
  "db_ok d \<longleftrightarrow>
     unique_key connector_id (connectors d) \<and> unique_key connector_name (connectors d) \<and>
     unique_key account_id (accounts d) \<and> unique_key balance_key (balances d) \<and>
     unique_key payment_id (payments d) \<and> unique_key pa_id (payment_adjustments d) \<and>
     unique_key pi_id (payment_initiations d) \<and>
     unique_key pirp_key (pi_related_payments d) \<and> unique_key pia_id (pi_adjustments d) \<and>
     unique_key pir_id (pi_reversals d) \<and>
     unique_key pira_id (pi_reversal_adjustments d) \<and> unique_key pool_id (pools d) \<and>
     unique_key pool_name (pools d) \<and> unique_key pool_account_key (pool_accounts d) \<and>
     unique_key task_id (tasks d) \<and> unique_key schedule_key (schedules d) \<and>
     unique_key state_id (states d) \<and> unique_key instance_key (workflow_instances d) \<and>
     unique_key order_id (orders d) \<and> unique_key oa_id (order_adjustments d) \<and>
     unique_key conversion_id (conversions d) \<and> unique_key outbox_id (outbox_events d) \<and>
     unique_key sent_id (events_sent d) \<and>
     refers account_connector_id (accounts d) connector_id (connectors d) \<and>
     refers balance_connector_id (balances d) connector_id (connectors d) \<and>
     refers payment_connector_id (payments d) connector_id (connectors d) \<and>
     refers pa_payment_id (payment_adjustments d) payment_id (payments d) \<and>
     refers pi_connector_id (payment_initiations d) connector_id (connectors d) \<and>
     refers pirp_payment_initiation_id (pi_related_payments d) pi_id (payment_initiations d) \<and>
     refers pia_payment_initiation_id (pi_adjustments d) pi_id (payment_initiations d) \<and>
     refers pir_connector_id (pi_reversals d) connector_id (connectors d) \<and>
     refers pir_payment_initiation_id (pi_reversals d) pi_id (payment_initiations d) \<and>
     refers pira_payment_initiation_reversal_id (pi_reversal_adjustments d) pir_id (pi_reversals d) \<and>
     refers pac_pool_id (pool_accounts d) pool_id (pools d) \<and>
     refers_opt task_connector_id (tasks d) connector_id (connectors d) \<and>
     refers schedule_connector_id (schedules d) connector_id (connectors d) \<and>
     refers state_connector_id (states d) connector_id (connectors d) \<and>
     refers instance_connector_id (workflow_instances d) connector_id (connectors d) \<and>
     refers instance_schedule (workflow_instances d) schedule_key (schedules d) \<and>
     refers order_connector_id (orders d) connector_id (connectors d) \<and>
     refers oa_order_id (order_adjustments d) order_id (orders d) \<and>
     refers conversion_connector_id (conversions d) connector_id (connectors d) \<and>
     refers_opt outbox_connector_id (outbox_events d) connector_id (connectors d) \<and>
     refers_opt sent_connector_id (events_sent d) connector_id (connectors d) \<and>
     unique_key psu_id (payment_service_users d) \<and>
     unique_key ba_id (bank_accounts d) \<and>
     unique_key related_key (bank_account_relations d) \<and>
     unique_key oba_id (ob_attempts d) \<and>
     unique_key forwarded_key (ob_forwarded_users d) \<and>
     unique_key ob_connection_key (ob_connections d) \<and>
     unique_key ob_token_key (ob_tokens d) \<and>
     unique_key webhook_config_key (webhooks_configs d) \<and>
     unique_key wh_id (webhooks d) \<and>
     unique_key tt_connector_id (connector_tasks_tree d) \<and>
     webhook_keys_apart (webhooks d) \<and>
     refers bar_bank_account_id (bank_account_relations d) ba_id (bank_accounts d) \<and>
     refers bar_connector_id (bank_account_relations d) connector_id (connectors d) \<and>
     refers_opt ba_psu_id (bank_accounts d) psu_id (payment_service_users d) \<and>
     refers oba_psu_id (ob_attempts d) psu_id (payment_service_users d) \<and>
     refers oba_connector_id (ob_attempts d) connector_id (connectors d) \<and>
     refers obf_psu_id (ob_forwarded_users d) psu_id (payment_service_users d) \<and>
     refers obf_connector_id (ob_forwarded_users d) connector_id (connectors d) \<and>
     refers obc_psu_id (ob_connections d) psu_id (payment_service_users d) \<and>
     refers obc_connector_id (ob_connections d) connector_id (connectors d) \<and>
     refers obt_psu_id (ob_tokens d) psu_id (payment_service_users d) \<and>
     refers obt_connector_id (ob_tokens d) connector_id (connectors d) \<and>
     refers wc_connector_id (webhooks_configs d) connector_id (connectors d) \<and>
     refers wh_connector_id (webhooks d) connector_id (connectors d) \<and>
     refers tt_connector_id (connector_tasks_tree d) connector_id (connectors d) \<and>
     refers_opt account_psu_id (accounts d) psu_id (payment_service_users d) \<and>
     refers_opt account_connection (accounts d) ob_connection_key (ob_connections d) \<and>
     refers_opt payment_psu_id (payments d) psu_id (payment_service_users d) \<and>
     refers_opt payment_connection (payments d) ob_connection_key (ob_connections d) \<and>
     refers_opt balance_psu_id (balances d) psu_id (payment_service_users d) \<and>
     refers_opt balance_connection (balances d) ob_connection_key (ob_connections d)"

lemma db_ok_empty: "db_ok empty_db"
  by (simp add: db_ok_def empty_db_def webhook_keys_apart_def)

lemma db_okD:
  assumes "db_ok d"
  shows "unique_key connector_id (connectors d)"
    "unique_key connector_name (connectors d)"
    "unique_key account_id (accounts d)"
    "unique_key balance_key (balances d)"
    "unique_key payment_id (payments d)"
    "unique_key pa_id (payment_adjustments d)"
    "unique_key pi_id (payment_initiations d)"
    "unique_key pirp_key (pi_related_payments d)"
    "unique_key pia_id (pi_adjustments d)"
    "unique_key pir_id (pi_reversals d)"
    "unique_key pira_id (pi_reversal_adjustments d)"
    "unique_key pool_id (pools d)"
    "unique_key pool_name (pools d)"
    "unique_key pool_account_key (pool_accounts d)"
    "unique_key task_id (tasks d)"
    "unique_key schedule_key (schedules d)"
    "unique_key state_id (states d)"
    "unique_key instance_key (workflow_instances d)"
    "unique_key order_id (orders d)"
    "unique_key oa_id (order_adjustments d)"
    "unique_key conversion_id (conversions d)"
    "unique_key outbox_id (outbox_events d)"
    "unique_key sent_id (events_sent d)"
    "refers account_connector_id (accounts d) connector_id (connectors d)"
    "refers balance_connector_id (balances d) connector_id (connectors d)"
    "refers payment_connector_id (payments d) connector_id (connectors d)"
    "refers pa_payment_id (payment_adjustments d) payment_id (payments d)"
    "refers pi_connector_id (payment_initiations d) connector_id (connectors d)"
    "refers pirp_payment_initiation_id (pi_related_payments d) pi_id (payment_initiations d)"
    "refers pia_payment_initiation_id (pi_adjustments d) pi_id (payment_initiations d)"
    "refers pir_connector_id (pi_reversals d) connector_id (connectors d)"
    "refers pir_payment_initiation_id (pi_reversals d) pi_id (payment_initiations d)"
    "refers pira_payment_initiation_reversal_id (pi_reversal_adjustments d) pir_id (pi_reversals d)"
    "refers pac_pool_id (pool_accounts d) pool_id (pools d)"
    "refers_opt task_connector_id (tasks d) connector_id (connectors d)"
    "refers schedule_connector_id (schedules d) connector_id (connectors d)"
    "refers state_connector_id (states d) connector_id (connectors d)"
    "refers instance_connector_id (workflow_instances d) connector_id (connectors d)"
    "refers instance_schedule (workflow_instances d) schedule_key (schedules d)"
    "refers order_connector_id (orders d) connector_id (connectors d)"
    "refers oa_order_id (order_adjustments d) order_id (orders d)"
    "refers conversion_connector_id (conversions d) connector_id (connectors d)"
    "refers_opt outbox_connector_id (outbox_events d) connector_id (connectors d)"
    "refers_opt sent_connector_id (events_sent d) connector_id (connectors d)"
    "unique_key psu_id (payment_service_users d)"
    "unique_key ba_id (bank_accounts d)"
    "unique_key related_key (bank_account_relations d)"
    "unique_key oba_id (ob_attempts d)"
    "unique_key forwarded_key (ob_forwarded_users d)"
    "unique_key ob_connection_key (ob_connections d)"
    "unique_key ob_token_key (ob_tokens d)"
    "unique_key webhook_config_key (webhooks_configs d)"
    "unique_key wh_id (webhooks d)"
    "unique_key tt_connector_id (connector_tasks_tree d)"
    "webhook_keys_apart (webhooks d)"
    "refers bar_bank_account_id (bank_account_relations d) ba_id (bank_accounts d)"
    "refers bar_connector_id (bank_account_relations d) connector_id (connectors d)"
    "refers_opt ba_psu_id (bank_accounts d) psu_id (payment_service_users d)"
    "refers oba_psu_id (ob_attempts d) psu_id (payment_service_users d)"
    "refers oba_connector_id (ob_attempts d) connector_id (connectors d)"
    "refers obf_psu_id (ob_forwarded_users d) psu_id (payment_service_users d)"
    "refers obf_connector_id (ob_forwarded_users d) connector_id (connectors d)"
    "refers obc_psu_id (ob_connections d) psu_id (payment_service_users d)"
    "refers obc_connector_id (ob_connections d) connector_id (connectors d)"
    "refers obt_psu_id (ob_tokens d) psu_id (payment_service_users d)"
    "refers obt_connector_id (ob_tokens d) connector_id (connectors d)"
    "refers wc_connector_id (webhooks_configs d) connector_id (connectors d)"
    "refers wh_connector_id (webhooks d) connector_id (connectors d)"
    "refers tt_connector_id (connector_tasks_tree d) connector_id (connectors d)"
    "refers_opt account_psu_id (accounts d) psu_id (payment_service_users d)"
    "refers_opt account_connection (accounts d) ob_connection_key (ob_connections d)"
    "refers_opt payment_psu_id (payments d) psu_id (payment_service_users d)"
    "refers_opt payment_connection (payments d) ob_connection_key (ob_connections d)"
    "refers_opt balance_psu_id (balances d) psu_id (payment_service_users d)"
    "refers_opt balance_connection (balances d) ob_connection_key (ob_connections d)"
  using assms by (simp_all add: db_ok_def)

text \<open>What a new table must satisfy, table by table.\<close>

named_theorems db_ok_intros \<open>replacing one table\<close>

lemma db_ok_connectors [db_ok_intros]:
  "db_ok d \<Longrightarrow> unique_key connector_id t \<Longrightarrow>
   unique_key connector_name t \<Longrightarrow>
   refers account_connector_id (accounts d) connector_id t \<Longrightarrow>
   refers balance_connector_id (balances d) connector_id t \<Longrightarrow>
   refers payment_connector_id (payments d) connector_id t \<Longrightarrow>
   refers pi_connector_id (payment_initiations d) connector_id t \<Longrightarrow>
   refers pir_connector_id (pi_reversals d) connector_id t \<Longrightarrow>
   refers_opt task_connector_id (tasks d) connector_id t \<Longrightarrow>
   refers schedule_connector_id (schedules d) connector_id t \<Longrightarrow>
   refers state_connector_id (states d) connector_id t \<Longrightarrow>
   refers instance_connector_id (workflow_instances d) connector_id t \<Longrightarrow>
   refers order_connector_id (orders d) connector_id t \<Longrightarrow>
   refers conversion_connector_id (conversions d) connector_id t \<Longrightarrow>
   refers_opt outbox_connector_id (outbox_events d) connector_id t \<Longrightarrow>
   refers_opt sent_connector_id (events_sent d) connector_id t \<Longrightarrow>
   refers bar_connector_id (bank_account_relations d) connector_id t \<Longrightarrow>
   refers oba_connector_id (ob_attempts d) connector_id t \<Longrightarrow>
   refers obf_connector_id (ob_forwarded_users d) connector_id t \<Longrightarrow>
   refers obc_connector_id (ob_connections d) connector_id t \<Longrightarrow>
   refers obt_connector_id (ob_tokens d) connector_id t \<Longrightarrow>
   refers wc_connector_id (webhooks_configs d) connector_id t \<Longrightarrow>
   refers wh_connector_id (webhooks d) connector_id t \<Longrightarrow>
   refers tt_connector_id (connector_tasks_tree d) connector_id t \<Longrightarrow>
     db_ok (d\<lparr>connectors := t\<rparr>)"
  by (simp add: db_ok_def)

lemma db_ok_accounts [db_ok_intros]:
  "db_ok d \<Longrightarrow> unique_key account_id t \<Longrightarrow>
   refers account_connector_id t connector_id (connectors d) \<Longrightarrow>
   refers_opt account_psu_id t psu_id (payment_service_users d) \<Longrightarrow>
   refers_opt account_connection t ob_connection_key (ob_connections d) \<Longrightarrow>
     db_ok (d\<lparr>accounts := t\<rparr>)"
  by (simp add: db_ok_def)

lemma db_ok_balances [db_ok_intros]:
  "db_ok d \<Longrightarrow> unique_key balance_key t \<Longrightarrow>
   refers balance_connector_id t connector_id (connectors d) \<Longrightarrow>
   refers_opt balance_psu_id t psu_id (payment_service_users d) \<Longrightarrow>
   refers_opt balance_connection t ob_connection_key (ob_connections d) \<Longrightarrow>
     db_ok (d\<lparr>balances := t\<rparr>)"
  by (simp add: db_ok_def)

lemma db_ok_payments [db_ok_intros]:
  "db_ok d \<Longrightarrow> unique_key payment_id t \<Longrightarrow>
   refers payment_connector_id t connector_id (connectors d) \<Longrightarrow>
   refers_opt payment_psu_id t psu_id (payment_service_users d) \<Longrightarrow>
   refers_opt payment_connection t ob_connection_key (ob_connections d) \<Longrightarrow>
   refers pa_payment_id (payment_adjustments d) payment_id t \<Longrightarrow>
     db_ok (d\<lparr>payments := t\<rparr>)"
  by (simp add: db_ok_def)

lemma db_ok_payment_adjustments [db_ok_intros]:
  "db_ok d \<Longrightarrow> unique_key pa_id t \<Longrightarrow>
   refers pa_payment_id t payment_id (payments d) \<Longrightarrow>
     db_ok (d\<lparr>payment_adjustments := t\<rparr>)"
  by (simp add: db_ok_def)

lemma db_ok_payment_initiations [db_ok_intros]:
  "db_ok d \<Longrightarrow> unique_key pi_id t \<Longrightarrow>
   refers pi_connector_id t connector_id (connectors d) \<Longrightarrow>
   refers pirp_payment_initiation_id (pi_related_payments d) pi_id t \<Longrightarrow>
   refers pia_payment_initiation_id (pi_adjustments d) pi_id t \<Longrightarrow>
   refers pir_payment_initiation_id (pi_reversals d) pi_id t \<Longrightarrow>
     db_ok (d\<lparr>payment_initiations := t\<rparr>)"
  by (simp add: db_ok_def)

lemma db_ok_pi_related_payments [db_ok_intros]:
  "db_ok d \<Longrightarrow> unique_key pirp_key t \<Longrightarrow>
   refers pirp_payment_initiation_id t pi_id (payment_initiations d) \<Longrightarrow>
     db_ok (d\<lparr>pi_related_payments := t\<rparr>)"
  by (simp add: db_ok_def)

lemma db_ok_pi_adjustments [db_ok_intros]:
  "db_ok d \<Longrightarrow> unique_key pia_id t \<Longrightarrow>
   refers pia_payment_initiation_id t pi_id (payment_initiations d) \<Longrightarrow>
     db_ok (d\<lparr>pi_adjustments := t\<rparr>)"
  by (simp add: db_ok_def)

lemma db_ok_pi_reversals [db_ok_intros]:
  "db_ok d \<Longrightarrow> unique_key pir_id t \<Longrightarrow>
   refers pir_connector_id t connector_id (connectors d) \<Longrightarrow>
   refers pir_payment_initiation_id t pi_id (payment_initiations d) \<Longrightarrow>
   refers pira_payment_initiation_reversal_id (pi_reversal_adjustments d) pir_id t \<Longrightarrow>
     db_ok (d\<lparr>pi_reversals := t\<rparr>)"
  by (simp add: db_ok_def)

lemma db_ok_pi_reversal_adjustments [db_ok_intros]:
  "db_ok d \<Longrightarrow> unique_key pira_id t \<Longrightarrow>
   refers pira_payment_initiation_reversal_id t pir_id (pi_reversals d) \<Longrightarrow>
     db_ok (d\<lparr>pi_reversal_adjustments := t\<rparr>)"
  by (simp add: db_ok_def)

lemma db_ok_pools [db_ok_intros]:
  "db_ok d \<Longrightarrow> unique_key pool_id t \<Longrightarrow> unique_key pool_name t \<Longrightarrow>
   refers pac_pool_id (pool_accounts d) pool_id t \<Longrightarrow>
     db_ok (d\<lparr>pools := t\<rparr>)"
  by (simp add: db_ok_def)

lemma db_ok_pool_accounts [db_ok_intros]:
  "db_ok d \<Longrightarrow> unique_key pool_account_key t \<Longrightarrow>
   refers pac_pool_id t pool_id (pools d) \<Longrightarrow>
     db_ok (d\<lparr>pool_accounts := t\<rparr>)"
  by (simp add: db_ok_def)

lemma db_ok_tasks [db_ok_intros]:
  "db_ok d \<Longrightarrow> unique_key task_id t \<Longrightarrow>
   refers_opt task_connector_id t connector_id (connectors d) \<Longrightarrow>
     db_ok (d\<lparr>tasks := t\<rparr>)"
  by (simp add: db_ok_def)

lemma db_ok_schedules [db_ok_intros]:
  "db_ok d \<Longrightarrow> unique_key schedule_key t \<Longrightarrow>
   refers schedule_connector_id t connector_id (connectors d) \<Longrightarrow>
   refers instance_schedule (workflow_instances d) schedule_key t \<Longrightarrow>
     db_ok (d\<lparr>schedules := t\<rparr>)"
  by (simp add: db_ok_def)

lemma db_ok_states [db_ok_intros]:
  "db_ok d \<Longrightarrow> unique_key state_id t \<Longrightarrow>
   refers state_connector_id t connector_id (connectors d) \<Longrightarrow>
     db_ok (d\<lparr>states := t\<rparr>)"
  by (simp add: db_ok_def)

lemma db_ok_workflow_instances [db_ok_intros]:
  "db_ok d \<Longrightarrow> unique_key instance_key t \<Longrightarrow>
   refers instance_connector_id t connector_id (connectors d) \<Longrightarrow>
   refers instance_schedule t schedule_key (schedules d) \<Longrightarrow>
     db_ok (d\<lparr>workflow_instances := t\<rparr>)"
  by (simp add: db_ok_def)

lemma db_ok_orders [db_ok_intros]:
  "db_ok d \<Longrightarrow> unique_key order_id t \<Longrightarrow>
   refers order_connector_id t connector_id (connectors d) \<Longrightarrow>
   refers oa_order_id (order_adjustments d) order_id t \<Longrightarrow>
     db_ok (d\<lparr>orders := t\<rparr>)"
  by (simp add: db_ok_def)

lemma db_ok_order_adjustments [db_ok_intros]:
  "db_ok d \<Longrightarrow> unique_key oa_id t \<Longrightarrow>
   refers oa_order_id t order_id (orders d) \<Longrightarrow>
     db_ok (d\<lparr>order_adjustments := t\<rparr>)"
  by (simp add: db_ok_def)

lemma db_ok_conversions [db_ok_intros]:
  "db_ok d \<Longrightarrow> unique_key conversion_id t \<Longrightarrow>
   refers conversion_connector_id t connector_id (connectors d) \<Longrightarrow>
     db_ok (d\<lparr>conversions := t\<rparr>)"
  by (simp add: db_ok_def)

lemma db_ok_outbox_events [db_ok_intros]:
  "db_ok d \<Longrightarrow> unique_key outbox_id t \<Longrightarrow>
   refers_opt outbox_connector_id t connector_id (connectors d) \<Longrightarrow>
     db_ok (d\<lparr>outbox_events := t\<rparr>)"
  by (simp add: db_ok_def)

lemma db_ok_events_sent [db_ok_intros]:
  "db_ok d \<Longrightarrow> unique_key sent_id t \<Longrightarrow>
   refers_opt sent_connector_id t connector_id (connectors d) \<Longrightarrow>
     db_ok (d\<lparr>events_sent := t\<rparr>)"
  by (simp add: db_ok_def)

lemma db_ok_payment_service_users [db_ok_intros]:
  "db_ok d \<Longrightarrow> unique_key psu_id t \<Longrightarrow>
   refers_opt ba_psu_id (bank_accounts d) psu_id t \<Longrightarrow>
   refers oba_psu_id (ob_attempts d) psu_id t \<Longrightarrow>
   refers obf_psu_id (ob_forwarded_users d) psu_id t \<Longrightarrow>
   refers obc_psu_id (ob_connections d) psu_id t \<Longrightarrow>
   refers obt_psu_id (ob_tokens d) psu_id t \<Longrightarrow>
   refers_opt account_psu_id (accounts d) psu_id t \<Longrightarrow>
   refers_opt payment_psu_id (payments d) psu_id t \<Longrightarrow>
   refers_opt balance_psu_id (balances d) psu_id t \<Longrightarrow>
     db_ok (d\<lparr>payment_service_users := t\<rparr>)"
  by (simp add: db_ok_def)

lemma db_ok_bank_accounts [db_ok_intros]:
  "db_ok d \<Longrightarrow> unique_key ba_id t \<Longrightarrow>
   refers bar_bank_account_id (bank_account_relations d) ba_id t \<Longrightarrow>
   refers_opt ba_psu_id t psu_id (payment_service_users d) \<Longrightarrow>
     db_ok (d\<lparr>bank_accounts := t\<rparr>)"
  by (simp add: db_ok_def)

lemma db_ok_bank_account_relations [db_ok_intros]:
  "db_ok d \<Longrightarrow> unique_key related_key t \<Longrightarrow>
   refers bar_bank_account_id t ba_id (bank_accounts d) \<Longrightarrow>
   refers bar_connector_id t connector_id (connectors d) \<Longrightarrow>
     db_ok (d\<lparr>bank_account_relations := t\<rparr>)"
  by (simp add: db_ok_def)

lemma db_ok_ob_attempts [db_ok_intros]:
  "db_ok d \<Longrightarrow> unique_key oba_id t \<Longrightarrow>
   refers oba_psu_id t psu_id (payment_service_users d) \<Longrightarrow>
   refers oba_connector_id t connector_id (connectors d) \<Longrightarrow>
     db_ok (d\<lparr>ob_attempts := t\<rparr>)"
  by (simp add: db_ok_def)

lemma db_ok_ob_forwarded_users [db_ok_intros]:
  "db_ok d \<Longrightarrow> unique_key forwarded_key t \<Longrightarrow>
   refers obf_psu_id t psu_id (payment_service_users d) \<Longrightarrow>
   refers obf_connector_id t connector_id (connectors d) \<Longrightarrow>
     db_ok (d\<lparr>ob_forwarded_users := t\<rparr>)"
  by (simp add: db_ok_def)

lemma db_ok_ob_connections [db_ok_intros]:
  "db_ok d \<Longrightarrow> unique_key ob_connection_key t \<Longrightarrow>
   refers obc_psu_id t psu_id (payment_service_users d) \<Longrightarrow>
   refers obc_connector_id t connector_id (connectors d) \<Longrightarrow>
   refers_opt account_connection (accounts d) ob_connection_key t \<Longrightarrow>
   refers_opt payment_connection (payments d) ob_connection_key t \<Longrightarrow>
   refers_opt balance_connection (balances d) ob_connection_key t \<Longrightarrow>
     db_ok (d\<lparr>ob_connections := t\<rparr>)"
  by (simp add: db_ok_def)

lemma db_ok_ob_tokens [db_ok_intros]:
  "db_ok d \<Longrightarrow> unique_key ob_token_key t \<Longrightarrow>
   refers obt_psu_id t psu_id (payment_service_users d) \<Longrightarrow>
   refers obt_connector_id t connector_id (connectors d) \<Longrightarrow>
     db_ok (d\<lparr>ob_tokens := t\<rparr>)"
  by (simp add: db_ok_def)

lemma db_ok_webhooks_configs [db_ok_intros]:
  "db_ok d \<Longrightarrow> unique_key webhook_config_key t \<Longrightarrow>
   refers wc_connector_id t connector_id (connectors d) \<Longrightarrow>
     db_ok (d\<lparr>webhooks_configs := t\<rparr>)"
  by (simp add: db_ok_def)

lemma db_ok_webhooks [db_ok_intros]:
  "db_ok d \<Longrightarrow> unique_key wh_id t \<Longrightarrow>
   webhook_keys_apart t \<Longrightarrow>
   refers wh_connector_id t connector_id (connectors d) \<Longrightarrow>
     db_ok (d\<lparr>webhooks := t\<rparr>)"
  by (simp add: db_ok_def)

lemma db_ok_connector_tasks_tree [db_ok_intros]:
  "db_ok d \<Longrightarrow> unique_key tt_connector_id t \<Longrightarrow>
   refers tt_connector_id t connector_id (connectors d) \<Longrightarrow>
     db_ok (d\<lparr>connector_tasks_tree := t\<rparr>)"
  by (simp add: db_ok_def)

lemma refers_opt_append [table_rules]:
  "refers_opt f child connector_id (connectors d) \<Longrightarrow>
     list_all (\<lambda>r. connector_ref_ok d (f r)) ins \<Longrightarrow>
     refers_opt f (child @ ins) connector_id (connectors d)"
  by (auto simp: refers_opt_def list_all_iff connector_ref_ok_def connector_exists_def
      split: option.splits)

lemma refers_psu_append [table_rules]:
  "refers_opt f child psu_id (payment_service_users d) \<Longrightarrow>
     list_all (\<lambda>r. psu_ref_ok d (f r)) ins \<Longrightarrow>
     refers_opt f (child @ ins) psu_id (payment_service_users d)"
  by (auto simp: refers_opt_def list_all_iff psu_ref_ok_def split: option.splits)

lemma refers_connections_append [table_rules]:
  "refers_opt (\<lambda>r. connection_ref (u r) (c r) (n r)) child ob_connection_key (ob_connections d) \<Longrightarrow>
     list_all (\<lambda>r. connection_ref_ok d (u r) (c r) (n r)) ins \<Longrightarrow>
     refers_opt (\<lambda>r. connection_ref (u r) (c r) (n r)) (child @ ins) ob_connection_key (ob_connections d)"
  by (auto simp: refers_opt_def list_all_iff connection_ref_ok_def split: option.splits)

lemma refers_connectors_append [table_rules]:
  "refers f child connector_id (connectors d) \<Longrightarrow>
     list_all (\<lambda>r. connector_exists d (f r)) ins \<Longrightarrow>
     refers f (child @ ins) connector_id (connectors d)"
  by (auto simp: refers_def list_all_iff connector_exists_def)

lemma refers_opt_upsert_row [table_rules]:
  assumes "refers_opt f child connector_id (connectors d)" "\<And>x y. f (g x y) = f x"
    "\<not> has_key ck (ck r) child \<Longrightarrow> connector_ref_ok d (f r)"
  shows "refers_opt f (upsert_row ck g r child) connector_id (connectors d)"
proof (cases "has_key ck (ck r) child")
  case True
  with assms(1,2) show ?thesis
    by (simp add: upsert_row_def refers_opt_update_where)
next
  case False
  with assms show ?thesis
    by (auto simp: upsert_row_def refers_opt_def connector_ref_ok_def connector_exists_def
        split: option.splits)
qed

section \<open>The outbox\<close>

lemma keeps_filter_unsent: "keeps P (filter_unsent env fl evs)"
proof (induction evs)
  case Nil
  show ?case unfolding filter_unsent.simps by (rule keeps_return)
next
  case (Cons e evs)
  then show ?case unfolding filter_unsent.simps by (intro keeps_intros)
qed

lemma keeps_OutboxEventsInsert [keeps_intros]: "keeps db_ok (OutboxEventsInsert env fl evs)"
  unfolding OutboxEventsInsert_def
  by (intro keeps_intros keeps_filter_unsent keepsI)
    (auto simp: insert_outbox_rows_def refuse_def split: prod.splits if_splits
      intro!: db_ok_outbox_events table_rules db_okD dest!: inserted_rows)

lemma keeps_OutboxEventsInsertWithTx: "keeps db_ok (OutboxEventsInsertWithTx env fl evs)"
  unfolding OutboxEventsInsertWithTx_def by (intro keeps_intros)

lemma keeps_emit_events [keeps_intros]: "keeps db_ok (emit_events env fl evs)"
  unfolding emit_events_def by (intro keeps_intros)

lemma MarkFailed_row_same [simp]:
  "outbox_id (MarkFailed_row env n err b r) = outbox_id r"
  "outbox_connector_id (MarkFailed_row env n err b r) = outbox_connector_id r"
  by (simp_all add: MarkFailed_row_def)

lemma keeps_OutboxEventsMarkFailed [keeps_intros]:
  "keeps db_ok (OutboxEventsMarkFailed env fl i n err b)"
  unfolding OutboxEventsMarkFailed_def
  by (intro keeps_intros) (auto intro!: db_ok_outbox_events table_rules db_okD)

lemma keeps_insert_sent_stmt [keeps_intros]: "keeps db_ok (insert_sent_stmt fl msg rows)"
  unfolding insert_sent_stmt_def
  by (intro keeps_intros keepsI)
    (auto simp: insert_sent_rows_def refuse_def split: prod.splits if_splits
      intro!: db_ok_events_sent table_rules db_okD dest!: inserted_rows)

lemma keeps_MarkProcessed [keeps_intros]:
  "keeps db_ok (OutboxEventsMarkProcessedAndRecordSent env fl is evs)"
  unfolding OutboxEventsMarkProcessedAndRecordSent_def mark_processed_def Let_def
  by (intro keeps_intros) (auto intro!: db_ok_outbox_events table_rules db_okD)

lemma keeps_OutboxEventsDeleteOldProcessed [keeps_intros]:
  "keeps db_ok (OutboxEventsDeleteOldProcessed fl t)"
  unfolding OutboxEventsDeleteOldProcessed_def
  by (intro keeps_intros) (auto intro!: db_ok_outbox_events table_rules db_okD)

lemma keeps_EventsSentUpsert: "keeps db_ok (EventsSentUpsert env fl e)"
  unfolding EventsSentUpsert_def by (rule keeps_insert_sent_stmt)

lemma keeps_EventsSentDelete:
  "keeps db_ok (EventsSentDeleteFromConnectorID fl c)"
  "keeps db_ok (EventsSentDeleteFromConnectorIDBatch fl c n)"
  unfolding EventsSentDeleteFromConnectorID_def EventsSentDeleteFromConnectorIDBatch_def Let_def
  by (intro keeps_intros keepsI; auto intro!: db_ok_events_sent table_rules db_okD)+

lemma keeps_publish_loop [keeps_intros]: "keeps db_ok (publish_loop env fl publish evs acc)"
proof (induction evs arbitrary: acc)
  case (Cons e evs)
  show ?case
  proof (cases "publish e")
    case (PublishError err b)
    show ?thesis
      by (rule keepsI) (auto simp: PublishError split: prod.splits sum.splits
          dest: keepsD[OF keeps_OutboxEventsMarkFailed] keepsD[OF Cons.IH])
  qed (simp add: Cons.IH)
qed (simp add: keeps_return)

lemma keeps_OutboxPublishPendingEvents: "keeps db_ok (OutboxPublishPendingEvents env fl publish n)"
  unfolding OutboxPublishPendingEvents_def OutboxEventsPollPending_def by (intro keeps_intros)

lemma keeps_OutboxDeleteOldProcessedEvents: "keeps db_ok (OutboxDeleteOldProcessedEvents fl t)"
  unfolding OutboxDeleteOldProcessedEvents_def by (intro keeps_intros)

section \<open>Accounts and balances\<close>

lemma keeps_insert_accounts [keeps_intros]:
  "keeps db_ok (insert_accounts_stmt fl rows)"
  unfolding insert_accounts_stmt_def
  by (intro keeps_intros keepsI)
    (auto simp: refuse_def split: prod.splits if_splits option.splits
      intro!: db_ok_accounts table_rules db_okD dest!: inserted_rows)

lemma keeps_AccountsUpsert: "keeps db_ok (AccountsUpsert env fl as)"
  unfolding AccountsUpsert_def by (intro keeps_intros)

lemma keeps_delete_accounts [keeps_intros]:
  "keeps db_ok (delete_accounts fl p)"
  unfolding delete_accounts_def
  by (intro keeps_intros keepsI)
    (auto simp: refuse_def split: prod.splits if_splits option.splits
      intro!: db_ok_accounts table_rules db_okD dest!: inserted_rows)

lemma keeps_AccountsDelete:
  "keeps db_ok (AccountsDeleteFromConnectorID fl c)"
  "keeps db_ok (AccountsDeleteFromPSUID fl u)"
  "keeps db_ok (AccountsDeleteFromConnectorIDAndPSUID fl c u)"
  "keeps db_ok (AccountsDeleteFromOpenBankingConnectionID fl u c ob)"
  "keeps db_ok (AccountsDelete fl a)"
  by (simp_all add: AccountsDeleteFromConnectorID_def AccountsDeleteFromPSUID_def
      AccountsDeleteFromConnectorIDAndPSUID_def AccountsDeleteFromOpenBankingConnectionID_def
      AccountsDelete_def keeps_delete_accounts)

lemma keeps_AccountsDeleteBatch:
  "keeps db_ok (AccountsDeleteFromConnectorIDBatch fl c n)"
  unfolding AccountsDeleteFromConnectorIDBatch_def Let_def
  by (intro keeps_intros keepsI)
    (auto simp: refuse_def split: prod.splits if_splits option.splits
      intro!: db_ok_accounts table_rules db_okD dest!: inserted_rows)

lemma keeps_insert_balance_row [keeps_intros]: "keeps db_ok (insert_balance_row fl b)"
  unfolding insert_balance_row_def
  by (intro keeps_stmt keepsI)
    (auto simp: refuse_def split: if_splits
      intro!: db_ok_balances unique_append_new refers_connectors_append refers_psu_append
        refers_connections_append db_okD)

lemma keeps_set_last_updated [keeps_intros]:
  "keeps db_ok (set_last_updated fl b t)"
  unfolding set_last_updated_def
  by (intro keeps_intros keepsI)
    (auto simp: refuse_def balance_key_def split: prod.splits if_splits option.splits
      intro!: db_ok_balances table_rules db_okD dest!: inserted_rows)

lemma keeps_insertBalances [keeps_intros]: "keeps db_ok (insertBalances fl b nil_amount)"
  unfolding insertBalances_def
proof (rule keeps_stmt, rule keeps_pointwise)
  fix s :: db
  let ?ins = "insert_balance_row fl b" and ?upd = "set_last_updated fl" and ?t = "tx_return True"
  have k: "keeps db_ok (stmt fl ''failed to insert balance'' (refuse ''failed to insert balance'' e))"
    "keeps db_ok (tx_seq ?ins ?t)" "keeps db_ok (tx_return False)" "keeps db_ok (tx_fail e')"
    "keeps db_ok (tx_seq (?upd l t) ?t)" "keeps db_ok (tx_seq ?ins (tx_seq (?upd l t) ?t))" for e e' l t
    by (intro keeps_intros)+
  show "\<exists>m. keeps db_ok m \<and>
    (case last_balance (balance_pair b) (balances s) of
        None \<Rightarrow>
          if nil_amount
          then stmt fl ''failed to insert balance''
                 (refuse ''failed to insert balance'' not_null_violation) s
          else tx_seq ?ins ?t s
      | Some lastBalance \<Rightarrow>
          if balance_created_at lastBalance > balance_created_at b then (Inr False, s)
          else if nil_amount
          then (Inl (Panic ''runtime error: invalid memory address or nil pointer dereference''), s)
          else if balance_balance lastBalance = balance_balance b
          then tx_seq (?upd lastBalance (balance_last_updated_at b)) ?t s
          else tx_seq ?ins (tx_seq (?upd lastBalance (balance_created_at b)) ?t) s) = m s"
    unfolding tx_return_apply[symmetric] tx_fail_apply[symmetric]
    by (auto split: option.split simp del: tx_return_apply tx_fail_apply intro: k)
qed

lemma keeps_insert_balances_loop [keeps_intros]: "keeps db_ok (insert_balances_loop env fl bs)"
proof (induction bs)
  case Nil
  show ?case unfolding insert_balances_loop.simps by (rule keeps_return)
next
  case (Cons b bs)
  then show ?case unfolding insert_balances_loop.simps by (intro keeps_intros)
qed

lemma keeps_BalancesUpsert: "keeps db_ok (BalancesUpsert env fl bs)"
  unfolding BalancesUpsert_def by (intro keeps_intros)

lemma keeps_BalancesDelete:
  "keeps db_ok (BalancesDeleteFromConnectorID fl c)"
  unfolding BalancesDeleteFromConnectorID_def
  by (intro keeps_intros keepsI)
    (auto simp: refuse_def split: prod.splits if_splits option.splits
      intro!: db_ok_balances table_rules db_okD dest!: inserted_rows)

section \<open>Payments\<close>

lemma keeps_insert_payments [keeps_intros]:
  "keeps db_ok (insert_payments_stmt fl rows b)"
  unfolding insert_payments_stmt_def
  by (intro keeps_intros keepsI)
    (auto simp: refuse_def split: prod.splits if_splits option.splits
      intro!: db_ok_payments table_rules db_okD dest!: inserted_rows)

lemma keeps_insert_adjustments [keeps_intros]:
  "keeps db_ok (insert_adjustments_stmt fl rows)"
  unfolding insert_adjustments_stmt_def
  by (intro keeps_intros keepsI)
    (auto simp: refuse_def split: prod.splits if_splits option.splits
      intro!: db_ok_payment_adjustments table_rules db_okD dest!: inserted_rows)

text \<open>
  The statements that change amounts are upserts whose rows all exist: the
  payments of the batch are in the table.
\<close>

definition holds_batch :: "Payment list \<Rightarrow> db \<Rightarrow> bool" where
  "holds_batch ps d \<longleftrightarrow> db_ok d \<and> Payment_ID ` set ps \<subseteq> payment_id ` set (payments d)"

lemma keeps_update_payments:
  assumes "payment_id ` set rows \<subseteq> Payment_ID ` set ps"
    "\<And>x y. payment_id (g x y) = payment_id x"
    "\<And>x y. payment_connector_id (g x y) = payment_connector_id x"
    "\<And>x y. payment_psu_id (g x y) = payment_psu_id x"
    "\<And>x y. payment_open_banking_connection_id (g x y) = payment_open_banking_connection_id x"
  shows "keeps (holds_batch ps) (update_payments_stmt fl g rows)"
proof (rule keepsI)
  fix s r s'
  assume s: "holds_batch ps s" and run: "update_payments_stmt fl g rows s = (r, s')"
  show "holds_batch ps s'"
  proof (cases r)
    case (Inl e)
    with run s show ?thesis
      by (auto simp: update_payments_stmt_def stmt_def refuse_def split: if_splits option.splits)
  next
    case (Inr u)
    with run have s': "s' = s\<lparr>payments := upd g rows (payments s)\<rparr>" and dist: "distinct (map payment_id rows)"
      by (simp_all add: update_payments_stmt_Inr)
    have iu: "insert_update payment_id g rows (payments s) = Some (upd g rows (payments s))"
      by (simp add: insert_update_def dist)
    have ok: "db_ok s" and sub: "payment_id ` set rows \<subseteq> payment_id ` set (payments s)"
      using s assms(1) by (auto simp: holds_batch_def)
    have keys: "map payment_id (upd g rows (payments s)) = map payment_id (payments s)"
      by (rule upd_keys) (use assms(2) sub in auto)
    have "unique_key payment_id (upd g rows (payments s))"
      using db_okD(5)[OF ok] by (simp add: unique_key_def keys)
    moreover have "refers payment_connector_id (upd g rows (payments s)) connector_id (connectors s)"
      by (rule refers_insert_update[OF _ iu])
        (use sub in \<open>auto intro: db_okD ok simp: assms list_all_iff has_key_iff\<close>)
    moreover have "refers_opt payment_psu_id (upd g rows (payments s)) psu_id (payment_service_users s)"
      "refers_opt payment_connection (upd g rows (payments s)) ob_connection_key (ob_connections s)"
      by (rule refers_opt_insert_update[OF _ iu];
          use sub in \<open>auto intro: db_okD ok simp: assms list_all_iff has_key_iff\<close>)+
    moreover have "refers pa_payment_id (payment_adjustments s) payment_id (upd g rows (payments s))"
      by (rule refers_to_upserted[OF iu]) (auto intro: db_okD ok simp: assms)
    moreover have "payment_id ` set (upd g rows (payments s)) = payment_id ` set (payments s)"
      using keys by (metis list.set_map)
    ultimately show ?thesis
      using s ok unfolding holds_batch_def s' by (auto intro: db_ok_payments)
  qed
qed

lemma keeps_batch_emit: "keeps (holds_batch ps) (OutboxEventsInsert env fl evs)"
  unfolding holds_batch_def[abs_def]
proof (rule keeps_conj[OF keeps_OutboxEventsInsert keepsI])
  fix s r s'
  assume "Payment_ID ` set ps \<subseteq> payment_id ` set (payments s)"
    "OutboxEventsInsert env fl evs s = (r, s')"
  then show "Payment_ID ` set ps \<subseteq> payment_id ` set (payments s')"
    by (cases r) (auto dest!: outbox.only_outbox outbox.emit_error)
qed

lemma keeps_apply_inserted: "keeps (holds_batch ps) (apply_inserted env fl ps new)"
proof -
  obtain R C where rc: "amount_deltas env ps new = (R, C)" by fastforce
  from amount_deltas_ok(1)[OF rc] initial_amounts_ok[of ps env]
  have "payment_id ` set R \<subseteq> Payment_ID ` set ps" "payment_id ` set C \<subseteq> Payment_ID ` set ps"
    "payment_id ` set (initial_amounts env ps) \<subseteq> Payment_ID ` set ps"
    by (simp_all add: rc_ok_def init_ok_def)
  then show ?thesis
    unfolding apply_inserted_def rc Let_def prod.case
    by (intro keeps_intros keeps_update_payments keeps_batch_emit)
      (auto simp: payment_key_laws set_initial_def add_amount_def sub_amount_def)
qed

lemma keeps_PaymentsUpsert: "keeps db_ok (PaymentsUpsert env fl ps)"
  unfolding PaymentsUpsert_def Let_def
proof (rule keeps_in_txI)
  let ?rows = "map (fromPaymentModels env) ps"
  let ?adjs = "map (fromPaymentAdjustmentModels env) (concat (map Payment_Adjustments ps))"
  fix s a s'
  assume ok: "db_ok s" and run: "tx_seq
    (if ?rows = [] then tx_return () else insert_payments_stmt fl ?rows (list_all payment_not_null ps))
    (tx_bind (if ?adjs = [] then tx_return [] else insert_adjustments_stmt fl ?adjs)
      (apply_inserted env fl ps)) s = (Inr a, s')"
  then obtain s1 new s2 where
    s1: "(if ?rows = [] then tx_return ()
          else insert_payments_stmt fl ?rows (list_all payment_not_null ps)) s = (Inr (), s1)" and
    s2: "(if ?adjs = [] then tx_return [] else insert_adjustments_stmt fl ?adjs) s1 = (Inr new, s2)" and
    fin: "apply_inserted env fl ps new s2 = (Inr a, s')"
    by (auto simp: tx_inr)
  have k: "keeps db_ok (if ?rows = [] then tx_return ()
      else insert_payments_stmt fl ?rows (list_all payment_not_null ps))"
    "keeps db_ok (if ?adjs = [] then tx_return [] else insert_adjustments_stmt fl ?adjs)"
    by (intro keeps_intros)+
  from keepsD[OF k(2) keepsD[OF k(1) ok s1] s2] have ok2: "db_ok s2" .
  have "payments s1 = inserted_payments env ps s"
    using s1 by (auto simp: inserted_payments_def snd_insert_ignore dest: insert_payments_stmt_Inr
        split: if_splits)
  moreover have "payments s2 = payments s1"
    using s2 by (auto split: if_split_asm dest: insert_adjustments_stmt_Inr)
  ultimately have "holds_batch ps s2"
    using ok2 by (simp add: holds_batch_def inserted_payments_keys)
  from keepsD[OF keeps_apply_inserted this fin] show "db_ok s'" by (simp add: holds_batch_def)
qed

lemma keeps_PaymentsUpdateMetadata: "keeps db_ok (PaymentsUpdateMetadata fl i md)"
  unfolding PaymentsUpdateMetadata_def
  by (intro keeps_intros keepsI)
    (auto simp: refuse_def split: option.splits intro!: db_ok_payments table_rules db_okD)

lemma db_ok_delete_payments: "db_ok d \<Longrightarrow> db_ok (delete_payments p d)"
proof -
  assume ok: "db_ok d"
  have "refers pa_payment_id
      (delete_where (\<lambda>a. has_key payment_id (pa_payment_id a) (filter p (payments d)))
        (payment_adjustments d)) payment_id (delete_where p (payments d))"
    by (rule refers_cascade[OF db_okD(27)[OF ok]]) (auto simp: has_key_iff image_iff)
  with ok show ?thesis
    by (simp add: delete_payments_def db_ok_def unique_delete_where refers_delete_where
        refers_opt_delete_where)
qed

lemma keeps_delete_payments [keeps_intros]: "keeps db_ok (tx_modify (delete_payments p))"
  by (intro keeps_modify db_ok_delete_payments)

lemma keeps_PaymentsDelete:
  "keeps db_ok (PaymentsDeleteFromConnectorID fl c)"
  "keeps db_ok (PaymentsDelete fl i)"
  "keeps db_ok (PaymentsDeleteFromAccountID fl a)"
  "keeps db_ok (PaymentsDeleteFromPSUID fl u)"
  "keeps db_ok (PaymentsDeleteFromConnectorIDAndPSUID fl c u)"
  "keeps db_ok (PaymentsDeleteFromOpenBankingConnectionID fl u c ob)"
  unfolding PaymentsDeleteFromConnectorID_def PaymentsDelete_def PaymentsDeleteFromAccountID_def
    PaymentsDeleteFromPSUID_def PaymentsDeleteFromConnectorIDAndPSUID_def
    PaymentsDeleteFromOpenBankingConnectionID_def
  by (intro keeps_stmt keeps_delete_payments)+

lemma keeps_PaymentsDeleteBatch: "keeps db_ok (PaymentsDeleteFromConnectorIDBatch fl c n)"
  unfolding PaymentsDeleteFromConnectorIDBatch_def Let_def
  by (intro keeps_intros keepsI) (auto intro: db_ok_delete_payments)

lemma keeps_PaymentsDeleteFromReference:
  "keeps db_ok (PaymentsDeleteFromReference env fl reference c)"
  unfolding PaymentsDeleteFromReference_def
proof (rule keeps_in_tx, rule keeps_pointwise)
  fix s :: db
  let ?m = "\<lambda>p. tx_seq (stmt fl ''failed to delete payment'' (tx_modify (delete_payments
      (\<lambda>r. payment_reference r = reference \<and> payment_connector_id r = c))))
    (OutboxEventsInsert env fl [payment_deleted_event env (payment_id p) c])"
  have k: "keeps db_ok (?m p)" "keeps db_ok (tx_return ())" "keeps db_ok (tx_fail e)" for p e
    by (intro keeps_intros)+
  obtain r s' where sel: "select_payment_by_reference fl reference c s = (r, s')" by fastforce
  then have "s' = s"
    by (auto simp: select_payment_by_reference_def stmt_def refuse_def split: option.splits)
  with sel k show "\<exists>m. keeps db_ok m \<and> (case select_payment_by_reference fl reference c s of
      (Inl pErr, d') \<Rightarrow> if errors_Is pErr Storage_ErrNotFound then (Inr (), d') else (Inl pErr, d')
    | (Inr p, d') \<Rightarrow> ?m p d') = m s"
    unfolding tx_return_apply[symmetric] tx_fail_apply[symmetric]
    by (auto split: sum.split simp del: tx_return_apply tx_fail_apply)
qed

section \<open>Payment initiations and reversals\<close>

lemma keeps_insert_payment_initiation [keeps_intros]:
  "keeps db_ok (insert_payment_initiation_stmt fl row b)"
  unfolding insert_payment_initiation_stmt_def
  by (intro keeps_intros keepsI)
    (auto simp: refuse_def split: prod.splits if_splits option.splits
      intro!: db_ok_payment_initiations table_rules db_okD unique_append_new refers_connectors_append dest!: inserted_rows)

lemma keeps_insert_pi_adjustments [keeps_intros]:
  "keeps db_ok (insert_pi_adjustments_stmt fl rows)"
  unfolding insert_pi_adjustments_stmt_def
  by (intro keeps_intros keepsI)
    (auto simp: refuse_def split: prod.splits if_splits option.splits
      intro!: db_ok_pi_adjustments table_rules db_okD dest!: inserted_rows)

lemma keeps_PaymentInitiationsInsert: "keeps db_ok (PaymentInitiationsInsert env fl p as)"
  unfolding PaymentInitiationsInsert_def by (intro keeps_intros)

lemma keeps_PaymentInitiationsUpdateMetadata:
  "keeps db_ok (PaymentInitiationsUpdateMetadata fl i md)"
  unfolding PaymentInitiationsUpdateMetadata_def
  by (intro keeps_intros keepsI)
    (auto simp: refuse_def split: prod.splits if_splits option.splits
      intro!: db_ok_payment_initiations table_rules db_okD dest!: inserted_rows)

lemma db_ok_remove_reversals: "db_ok d \<Longrightarrow> db_ok (remove_reversals p d)"
proof -
  assume ok: "db_ok d"
  have "refers pira_payment_initiation_reversal_id
      (delete_where (\<lambda>r. pira_payment_initiation_reversal_id r \<in> pir_id ` {r \<in> set (pi_reversals d). p r})
        (pi_reversal_adjustments d)) pir_id (delete_where p (pi_reversals d))"
    by (intro refers_cascade_ids db_okD ok)
  with ok show ?thesis
    by (simp add: remove_reversals_def cascade_reversals_def db_ok_def unique_delete_where
        refers_delete_where)
qed

lemma db_ok_remove_initiations: "db_ok d \<Longrightarrow> db_ok (remove_initiations p d)"
proof -
  assume ok: "db_ok d"
  let ?ids = "pi_id ` {r \<in> set (payment_initiations d). p r}"
  define d1 where "d1 = remove_reversals (\<lambda>r. pir_payment_initiation_id r \<in> ?ids) d"
  have ok1: "db_ok d1" unfolding d1_def by (rule db_ok_remove_reversals[OF ok])
  have same: "payment_initiations d1 = payment_initiations d" "connectors d1 = connectors d"
    "pi_related_payments d1 = pi_related_payments d" "pi_adjustments d1 = pi_adjustments d"
    "pi_reversals d1 = delete_where (\<lambda>r. pir_payment_initiation_id r \<in> ?ids) (pi_reversals d)"
    by (simp_all add: d1_def remove_reversals_def cascade_reversals_def)
  have "refers pir_payment_initiation_id (pi_reversals d1) pi_id
      (delete_where p (payment_initiations d))"
    unfolding same by (intro refers_cascade_ids db_okD ok)
  moreover have "refers pirp_payment_initiation_id
      (delete_where (\<lambda>r. pirp_payment_initiation_id r \<in> ?ids) (pi_related_payments d)) pi_id
      (delete_where p (payment_initiations d))"
    by (intro refers_cascade_ids db_okD ok)
  moreover have "refers pia_payment_initiation_id
      (delete_where (\<lambda>r. pia_payment_initiation_id r \<in> ?ids) (pi_adjustments d)) pi_id
      (delete_where p (payment_initiations d))"
    by (intro refers_cascade_ids db_okD ok)
  ultimately show ?thesis
    using ok1 db_okD(7,8,9,28)[OF ok] unfolding remove_initiations_def Let_def d1_def[symmetric]
    by (simp add: db_ok_def same unique_delete_where refers_delete_where)
qed

lemma keeps_removals [keeps_intros]:
  "keeps db_ok (tx_modify (remove_reversals p))"
  "keeps db_ok (tx_modify (remove_initiations q))"
  by (simp_all add: keeps_modify db_ok_remove_reversals db_ok_remove_initiations)

lemma keeps_PaymentInitiationsDelete:
  "keeps db_ok (PaymentInitiationsDeleteFromConnectorID fl c)"
  "keeps db_ok (PaymentInitiationsDelete fl i)"
  unfolding PaymentInitiationsDeleteFromConnectorID_def PaymentInitiationsDelete_def
  by (intro keeps_intros)+

lemma keeps_insert_related_payment [keeps_intros]:
  "keeps db_ok (insert_related_payment_stmt fl row)"
  unfolding insert_related_payment_stmt_def
  by (intro keeps_intros keepsI)
    (auto simp: refuse_def split: if_splits
      intro!: db_ok_pi_related_payments unique_append_new refers_append db_okD)

lemma keeps_PaymentInitiationRelatedPaymentsUpsert:
  "keeps db_ok (PaymentInitiationRelatedPaymentsUpsert env fl i p t)"
  unfolding PaymentInitiationRelatedPaymentsUpsert_def by (intro keeps_intros keeps_rows_affected)

lemma keeps_PaymentInitiationAdjustmentsUpsert:
  "keeps db_ok (PaymentInitiationAdjustmentsUpsert env fl a)"
  unfolding PaymentInitiationAdjustmentsUpsert_def by (intro keeps_intros keeps_rows_affected)

lemma keeps_select_previous [keeps_intros]: "keeps P (select_previous_adjustment fl i)"
  unfolding select_previous_adjustment_def
  by (intro keeps_stmt keepsI) (auto simp: refuse_def split: option.splits)

lemma keeps_PaymentInitiationAdjustmentsUpsertIfPredicate:
  "keeps db_ok (PaymentInitiationAdjustmentsUpsertIfPredicate env fl a q)"
  unfolding PaymentInitiationAdjustmentsUpsertIfPredicate_def
  by (intro keeps_intros keeps_rows_affected)

lemma keeps_insert_reversal [keeps_intros]: "keeps db_ok (insert_reversal_stmt fl row b)"
  unfolding insert_reversal_stmt_def Let_def
  by (intro keeps_intros keepsI)
    (auto simp: refuse_def split: if_splits intro!: db_ok_pi_reversals unique_append_new
      refers_append refers_connectors_append refers_to_appended db_okD)

lemma keeps_insert_reversal_adjustments [keeps_intros]:
  "keeps db_ok (insert_reversal_adjustments_stmt fl msg rows)"
  unfolding insert_reversal_adjustments_stmt_def
  by (intro keeps_intros keepsI)
    (auto simp: refuse_def split: prod.splits if_splits option.splits
      intro!: db_ok_pi_reversal_adjustments table_rules db_okD dest!: inserted_rows)

lemma keeps_reversals:
  "keeps db_ok (PaymentInitiationReversalsUpsert env fl r as)"
  "keeps db_ok (PaymentInitiationReversalsDeleteFromConnectorID fl c)"
  "keeps db_ok (PaymentInitiationReversalAdjustmentsUpsert env fl a)"
  unfolding PaymentInitiationReversalsUpsert_def PaymentInitiationReversalsDeleteFromConnectorID_def
    PaymentInitiationReversalAdjustmentsUpsert_def
  by (intro keeps_intros)+

section \<open>Tasks, schedules, states, instances\<close>

lemma merge_task_same [simp]:
  "task_id (merge_task x y) = task_id x" "task_connector_id (merge_task x y) = task_connector_id x"
  by (simp_all add: merge_task_def)

lemma keeps_upsert_task [keeps_intros]:
  "keeps db_ok (upsert_task_stmt fl t)"
  unfolding upsert_task_stmt_def
  by (intro keeps_intros keepsI)
    (auto simp: refuse_def split: prod.splits if_splits option.splits
      intro!: db_ok_tasks table_rules db_okD dest!: inserted_rows)

lemma keeps_TasksUpsert: "keeps db_ok (TasksUpsert env fl t)"
  unfolding TasksUpsert_def by (intro keeps_intros)

lemma keeps_TasksDelete:
  "keeps db_ok (TasksDeleteFromConnectorID fl c)"
  unfolding TasksDeleteFromConnectorID_def
  by (intro keeps_intros keepsI)
    (auto simp: refuse_def split: prod.splits if_splits option.splits
      intro!: db_ok_tasks table_rules db_okD dest!: inserted_rows)

lemma keeps_SchedulesUpsert:
  "keeps db_ok (SchedulesUpsert env fl s)"
  unfolding SchedulesUpsert_def
  by (intro keeps_intros keepsI)
    (auto simp: refuse_def split: if_splits
      intro!: db_ok_schedules unique_append_new refers_connectors_append refers_to_appended db_okD)

lemma db_ok_remove_schedules: "db_ok d \<Longrightarrow> db_ok (remove_schedules p d)"
proof -
  assume ok: "db_ok d"
  let ?q = "\<lambda>r. (instance_schedule_id r, instance_connector_id r) \<in> schedule_key ` {r \<in> set (schedules d). p r}"
  have "refers instance_schedule (delete_where ?q (workflow_instances d)) schedule_key
      (delete_where p (schedules d))"
    using refers_cascade_ids[OF db_okD(39)[OF ok], of p] by (simp add: instance_schedule_def)
  with ok show ?thesis
    by (simp add: remove_schedules_def db_ok_def unique_delete_where refers_delete_where)
qed

lemma keeps_SchedulesDelete:
  "keeps db_ok (SchedulesDeleteFromConnectorID fl c)"
  "keeps db_ok (SchedulesDelete fl i)"
  "keeps db_ok (SchedulesDeleteFromConnectorIDBatch fl c n)"
  unfolding SchedulesDeleteFromConnectorID_def SchedulesDelete_def
    SchedulesDeleteFromConnectorIDBatch_def Let_def
  by (intro keeps_intros keepsI; auto intro: db_ok_remove_schedules)+

lemma schedule_key_paused [simp]:
  "schedule_key (r\<lparr>schedule_paused_at := t, schedule_paused_reason := m\<rparr>) = schedule_key r"
  by (simp add: schedule_key_def)

lemma keeps_SchedulesPause:
  "keeps db_ok (SchedulesPause env fl i c t m)"
  unfolding SchedulesPause_def
  by (intro keeps_intros keepsI)
    (auto simp: refuse_def split: prod.splits if_splits option.splits
      intro!: db_ok_schedules table_rules db_okD dest!: inserted_rows)

lemma keeps_SchedulesUnpause:
  "keeps db_ok (SchedulesUnpause fl i c)"
  unfolding SchedulesUnpause_def
  by (intro keeps_intros keepsI)
    (auto simp: refuse_def split: prod.splits if_splits option.splits
      intro!: db_ok_schedules table_rules db_okD dest!: inserted_rows)

lemma keeps_StatesUpsert: "keeps db_ok (StatesUpsert env fl s)"
  unfolding StatesUpsert_def
  by (intro keeps_intros keepsI)
    (auto simp: refuse_def fromStateModels_def connector_exists_def split: if_splits
      intro!: db_ok_states table_rules db_okD)

lemma keeps_StatesDelete:
  "keeps db_ok (StatesDeleteFromConnectorID fl c)"
  unfolding StatesDeleteFromConnectorID_def
  by (intro keeps_intros keepsI)
    (auto simp: refuse_def split: prod.splits if_splits option.splits
      intro!: db_ok_states table_rules db_okD dest!: inserted_rows)

lemma keeps_InstancesUpsert: "keeps db_ok (InstancesUpsert env fl i)"
  unfolding InstancesUpsert_def
  by (intro keeps_intros keepsI)
    (auto simp: refuse_def instance_schedule_def split: if_splits
      intro!: db_ok_workflow_instances unique_append_new refers_append refers_connectors_append db_okD)

lemma keeps_InstancesUpdate: "keeps db_ok (InstancesUpdate env fl i)"
  unfolding InstancesUpdate_def
  by (intro keeps_intros db_ok_workflow_instances table_rules)
    (auto simp: instance_key_def instance_schedule_def intro: db_okD)

lemma keeps_InstancesDelete:
  "keeps db_ok (InstancesDeleteFromConnectorID fl c)"
  unfolding InstancesDeleteFromConnectorID_def
  by (intro keeps_intros keepsI)
    (auto simp: refuse_def split: prod.splits if_splits option.splits
      intro!: db_ok_workflow_instances table_rules db_okD dest!: inserted_rows)

lemma keeps_InstancesDeleteBatch:
  "keeps db_ok (InstancesDeleteFromConnectorIDBatch fl c n)"
  unfolding InstancesDeleteFromConnectorIDBatch_def Let_def
  by (intro keeps_intros keepsI)
    (auto simp: refuse_def split: prod.splits if_splits option.splits
      intro!: db_ok_workflow_instances table_rules db_okD dest!: inserted_rows)

section \<open>Pools\<close>

lemma keeps_check_account_exists [keeps_intros]: "keeps P (check_account_exists fl a)"
  unfolding check_account_exists_def by (intro keeps_intros keepsI) (auto simp: refuse_def split: if_splits)

lemma keeps_PoolsGet [keeps_intros]: "keeps P (PoolsGet fl i)"
  unfolding PoolsGet_def by (intro keeps_intros keepsI) (auto simp: refuse_def split: option.splits)

lemma keeps_sendPoolEvent [keeps_intros]: "keeps db_ok (sendPoolEvent env fl p)"
  unfolding sendPoolEvent_def by (intro keeps_intros)

lemma keeps_insert_pool [keeps_intros]: "keeps db_ok (insert_pool_stmt fl p)"
  unfolding insert_pool_stmt_def
  by (intro keeps_intros keepsI)
    (auto simp: refuse_def split: if_splits
      intro!: db_ok_pools unique_append_new refers_to_appended db_okD)

lemma keeps_insert_pool_accounts [keeps_intros]:
  "keeps db_ok (insert_pool_accounts_stmt fl msg rows)"
  unfolding insert_pool_accounts_stmt_def
  by (intro keeps_intros keepsI)
    (auto simp: refuse_def split: prod.splits if_splits option.splits
      intro!: db_ok_pool_accounts table_rules db_okD dest!: inserted_rows)

lemma keeps_PoolsUpsert: "keeps db_ok (PoolsUpsert env fl p)"
  unfolding PoolsUpsert_def by (intro keeps_intros)

lemma keeps_PoolsUpdateQuery: "keeps db_ok (PoolsUpdateQuery env fl p q)"
  unfolding PoolsUpdateQuery_def
  by (intro keeps_intros db_ok_pools table_rules) (auto intro: db_okD)

lemma keeps_PoolsDelete: "keeps db_ok (PoolsDelete env fl i)"
  unfolding PoolsDelete_def
proof (intro keeps_intros)
  show "keeps db_ok (\<lambda>d. (Inr (length (filter (\<lambda>r. pool_id r = i) (pools d))),
      d\<lparr>pools := delete_where (\<lambda>r. pool_id r = i) (pools d),
        pool_accounts := delete_where
          (\<lambda>r. pac_pool_id r = i \<and> has_key pool_id i (pools d)) (pool_accounts d)\<rparr>))"
  proof (rule keepsI)
    fix d r d'
    assume ok: "db_ok d" and "(Inr (length (filter (\<lambda>r. pool_id r = i) (pools d))) :: nat result,
      d\<lparr>pools := delete_where (\<lambda>r. pool_id r = i) (pools d),
        pool_accounts := delete_where
          (\<lambda>r. pac_pool_id r = i \<and> has_key pool_id i (pools d)) (pool_accounts d)\<rparr>) = (r, d')"
    then have d': "d' = d\<lparr>pools := delete_where (\<lambda>r. pool_id r = i) (pools d),
        pool_accounts := delete_where
          (\<lambda>r. pac_pool_id r = i \<and> has_key pool_id i (pools d)) (pool_accounts d)\<rparr>" by simp
    have "refers pac_pool_id (delete_where
        (\<lambda>r. pac_pool_id r = i \<and> has_key pool_id i (pools d)) (pool_accounts d)) pool_id
        (delete_where (\<lambda>r. pool_id r = i) (pools d))"
      by (rule refers_cascade[OF db_okD(34)[OF ok]]) (auto simp: has_key_iff)
    with ok show "db_ok d'"
      by (simp add: d' db_ok_def unique_delete_where refers_delete_where)
  qed
  show "db_ok s \<Longrightarrow> db_ok (s\<lparr>pool_accounts := delete_where (\<lambda>r. pac_pool_id r = i) (pool_accounts s)\<rparr>)" for s
    by (auto intro!: db_ok_pool_accounts table_rules db_okD)
qed

lemma keeps_PoolsAddAccount: "keeps db_ok (PoolsAddAccount env fl i a)"
  unfolding PoolsAddAccount_def by (intro keeps_intros)

lemma keeps_pool_or_none [keeps_intros]: "keeps P (pool_or_none fl i)"
  unfolding pool_or_none_def
  by (rule keepsI) (auto dest: keepsD[OF keeps_PoolsGet] split: prod.splits sum.splits if_splits)

lemma keeps_PoolsRemoveAccount: "keeps db_ok (PoolsRemoveAccount env fl i a)"
  unfolding PoolsRemoveAccount_def
  by (intro keeps_intros keepsI) (auto intro!: db_ok_pool_accounts table_rules db_okD)

lemma keeps_PoolsRemoveAccounts:
  "keeps db_ok (PoolsRemoveAccountsFromConnectorID fl c)"
  unfolding PoolsRemoveAccountsFromConnectorID_def
  by (intro keeps_intros keepsI)
    (auto simp: refuse_def split: prod.splits if_splits option.splits
      intro!: db_ok_pool_accounts table_rules db_okD dest!: inserted_rows)

section \<open>Orders and conversions\<close>

lemma merge_order_row_same [simp]:
  "order_id (merge_order_row x y) = order_id x"
  "order_connector_id (merge_order_row x y) = order_connector_id x"
  by (simp_all add: merge_order_row_def)

lemma merge_conversion_row_same [simp]:
  "conversion_id (merge_conversion_row x y) = conversion_id x"
  "conversion_connector_id (merge_conversion_row x y) = conversion_connector_id x"
  by (simp_all add: merge_conversion_row_def)

lemma keeps_insert_orders [keeps_intros]: "keeps db_ok (insert_orders_stmt fl rows b)"
  unfolding insert_orders_stmt_def
proof (intro keeps_intros keepsI)
  fix s r s'
  assume ok: "db_ok s" and run: "(if \<not> b then refuse ''failed to insert orders'' not_null_violation s
    else case insert_update order_id merge_order_row rows (orders s) of
      None \<Rightarrow> refuse ''failed to insert orders'' cardinality_violation s
    | Some tbl \<Rightarrow>
        if list_all (\<lambda>r. has_key order_id (order_id r) (orders s) \<or>
             connector_exists s (order_connector_id r)) rows
        then (Inr (), s\<lparr>orders := tbl\<rparr>)
        else refuse ''failed to insert orders'' (DbFKConstraintFailed ''orders_connector_id_fk'') s) = (r, s')"
  show "db_ok s'"
  proof (cases "s' = s")
    case False
    with run obtain tbl where iu: "insert_update order_id merge_order_row rows (orders s) = Some tbl"
      and s': "s' = s\<lparr>orders := tbl\<rparr>"
      and fk: "list_all (\<lambda>r. has_key order_id (order_id r) (orders s) \<or>
             has_key connector_id (order_connector_id r) (connectors s)) rows"
      by (auto simp: refuse_def connector_exists_def split: if_splits option.splits)
    have "unique_key order_id tbl"
      by (rule unique_insert_update[OF db_okD(19)[OF ok] iu]) simp
    moreover have "refers order_connector_id tbl connector_id (connectors s)"
      by (rule refers_insert_update[OF db_okD(40)[OF ok] iu fk]) simp_all
    moreover have "refers oa_order_id (order_adjustments s) order_id tbl"
      by (rule refers_to_upserted[OF iu]) (simp_all add: db_okD[OF ok])
    ultimately show ?thesis unfolding s' by (intro db_ok_orders ok)
  qed (simp add: ok)
qed

lemma keeps_insert_conversions [keeps_intros]: "keeps db_ok (insert_conversions_stmt fl rows b)"
  unfolding insert_conversions_stmt_def
proof (intro keeps_intros keepsI)
  fix s r s'
  assume ok: "db_ok s" and run: "(if \<not> b then refuse ''failed to insert conversions'' not_null_violation s
    else case insert_update conversion_id merge_conversion_row rows (conversions s) of
      None \<Rightarrow> refuse ''failed to insert conversions'' cardinality_violation s
    | Some tbl \<Rightarrow>
        if list_all (\<lambda>r. has_key conversion_id (conversion_id r) (conversions s) \<or>
             connector_exists s (conversion_connector_id r)) rows
        then (Inr (), s\<lparr>conversions := tbl\<rparr>)
        else refuse ''failed to insert conversions''
               (DbFKConstraintFailed ''conversions_connector_id_fk'') s) = (r, s')"
  show "db_ok s'"
  proof (cases "s' = s")
    case False
    with run obtain tbl where
      iu: "insert_update conversion_id merge_conversion_row rows (conversions s) = Some tbl"
      and s': "s' = s\<lparr>conversions := tbl\<rparr>"
      and fk: "list_all (\<lambda>r. has_key conversion_id (conversion_id r) (conversions s) \<or>
             has_key connector_id (conversion_connector_id r) (connectors s)) rows"
      by (auto simp: refuse_def connector_exists_def split: if_splits option.splits)
    have "unique_key conversion_id tbl"
      by (rule unique_insert_update[OF db_okD(21)[OF ok] iu]) simp
    moreover have "refers conversion_connector_id tbl connector_id (connectors s)"
      by (rule refers_insert_update[OF db_okD(42)[OF ok] iu fk]) simp_all
    ultimately show ?thesis unfolding s' by (intro db_ok_conversions ok)
  qed (simp add: ok)
qed

lemma keeps_insert_order_adjustments [keeps_intros]:
  "keeps db_ok (insert_order_adjustments_stmt fl rows)"
  unfolding insert_order_adjustments_stmt_def
  by (intro keeps_intros keepsI)
    (auto simp: refuse_def split: prod.splits if_splits
      intro!: db_ok_order_adjustments table_rules db_okD dest!: inserted_rows)

lemma keeps_OrdersUpsert: "keeps db_ok (OrdersUpsert env fl os)"
  unfolding OrdersUpsert_def Let_def by (intro keeps_intros)

lemma db_ok_remove_orders: "db_ok d \<Longrightarrow> db_ok (remove_orders p d)"
proof -
  assume ok: "db_ok d"
  have "refers oa_order_id
      (delete_where (\<lambda>a. oa_order_id a \<in> order_id ` {r \<in> set (orders d). p r}) (order_adjustments d))
      order_id (delete_where p (orders d))"
    by (intro refers_cascade_ids db_okD ok)
  with ok show ?thesis
    by (simp add: remove_orders_def db_ok_def unique_delete_where refers_delete_where)
qed

lemma keeps_OrdersDelete: "keeps db_ok (OrdersDeleteFromConnectorID fl c)"
  unfolding OrdersDeleteFromConnectorID_def by (intro keeps_intros db_ok_remove_orders)

lemma keeps_ConversionsUpsert: "keeps db_ok (ConversionsUpsert env fl cs)"
  unfolding ConversionsUpsert_def by (intro keeps_intros)

lemma keeps_ConversionsDelete: "keeps db_ok (ConversionsDeleteFromConnectorID fl c)"
  unfolding ConversionsDeleteFromConnectorID_def
  by (intro keeps_intros) (auto intro!: db_ok_conversions table_rules db_okD)

section \<open>Connectors\<close>

lemma keeps_insert_connector [keeps_intros]: "keeps db_ok (insert_connector_stmt fl row)"
  unfolding insert_connector_stmt_def
  by (intro keeps_intros keepsI)
    (auto simp: refuse_def split: if_splits
      intro!: db_ok_connectors unique_append_new refers_to_appended db_okD)

lemma db_ok_update_connector:
  assumes ok: "db_ok d" and id: "\<And>r. connector_id (f r) = connector_id r"
    and names: "unique_key connector_name (connectors (update_connector env i f d))"
  shows "db_ok (update_connector env i f d)"
proof -
  let ?g = "\<lambda>r. (f r)\<lparr>connector_updated_at := Some (env_now env)\<rparr>"
  have g: "connector_id (?g r) = connector_id r" for r by (simp add: id)
  show ?thesis
    using names unfolding update_connector_def
    by (intro db_ok_connectors ok) (auto intro!: table_rules db_okD ok simp: g)
qed

lemma unique_names_kept:
  "unique_key connector_name (connectors d) \<Longrightarrow> (\<And>r. connector_name (f r) = connector_name r) \<Longrightarrow>
     unique_key connector_name (connectors (update_connector env i f d))"
  by (simp add: update_connector_def unique_update_where)

lemma keeps_update_connector [keeps_intros]:
  assumes "\<And>r. connector_id (f r) = connector_id r" "\<And>r. connector_name (f r) = connector_name r"
  shows "keeps db_ok (tx_modify (update_connector env i f))"
  by (intro keeps_modify db_ok_update_connector unique_names_kept db_okD) (simp_all add: assms)

lemma keeps_ConnectorsInstall: "keeps db_ok (ConnectorsInstall env fl c old)"
  unfolding ConnectorsInstall_def Let_def by (intro keeps_intros) simp_all

lemma keeps_ConnectorsGet [keeps_intros]: "keeps P (ConnectorsGet env fl i)"
  unfolding ConnectorsGet_def by (intro keeps_intros keepsI) (auto simp: refuse_def split: option.splits)

text \<open>A new name keeps the names apart: no other connector has it, and no other has the identifier.\<close>

lemma unique_renamed:
  assumes "distinct (map connector_id cs)" "distinct (map connector_name cs)"
    "\<not> list_ex (\<lambda>r. connector_id r \<noteq> i \<and> connector_name r = n) cs"
    "\<And>r. connector_name (f r) = n"
  shows "distinct (map connector_name (update_where (\<lambda>r. connector_id r = i) f cs))"
  using assms(1-3)
proof (induction cs)
  case (Cons c cs)
  have other: "update_where (\<lambda>r. connector_id r = i) f cs = cs" if "connector_id c = i"
    using Cons.prems(1) that by (force simp: update_where_def image_iff intro: map_idI)
  have "connector_name c \<notin> connector_name ` set (update_where (\<lambda>r. connector_id r = i) f cs)"
    if "connector_id c \<noteq> i"
    using Cons.prems that by (auto simp: update_where_def assms(4))
  moreover have "n \<notin> connector_name ` set cs" if "connector_id c = i"
    using Cons.prems(1,3) that by (fastforce simp: list_ex_iff image_iff)
  moreover have "distinct (map connector_name (update_where (\<lambda>r. connector_id r = i) f cs))"
    by (rule Cons.IH) (use Cons.prems in auto)
  moreover have "update_where (\<lambda>r. connector_id r = i) f (c # cs) =
      (if connector_id c = i then f c else c) # update_where (\<lambda>r. connector_id r = i) f cs"
    by (simp add: update_where_def)
  ultimately show ?case
    using other assms(4) by (cases "connector_id c = i") simp_all
qed (simp add: update_where_def)

lemma keeps_update_connector_stmt [keeps_intros]: "keeps db_ok (update_connector_stmt env fl c)"
  unfolding update_connector_stmt_def Let_def
proof (intro keeps_intros keepsI)
  let ?i = "ConnectorBase_ID (Connector_Base c)" and ?n = "ConnectorBase_Name (Connector_Base c)"
  let ?f = "\<lambda>r. r\<lparr>connector_name := ?n, connector_config := env_encrypt env (Connector_Config c)\<rparr>"
  fix s r s'
  assume ok: "db_ok s" and run: "(if list_ex (\<lambda>r. connector_id r \<noteq> ?i \<and> connector_name r = ?n) (connectors s)
    then refuse ''failed to encrypt config'' DbConstraintsFailed s
    else (Inr (), update_connector env ?i ?f s)) = (r, s')"
  show "db_ok s'"
  proof (cases "s' = s")
    case False
    with run have free: "\<not> list_ex (\<lambda>r. connector_id r \<noteq> ?i \<and> connector_name r = ?n) (connectors s)"
      and s': "s' = update_connector env ?i ?f s"
      by (auto simp: refuse_def split: if_splits)
    have "unique_key connector_name (connectors (update_connector env ?i ?f s))"
      unfolding update_connector_def unique_key_def
      using unique_renamed[OF _ _ free] db_okD(1,2)[OF ok] by (simp add: unique_key_def)
    then show ?thesis unfolding s' by (intro db_ok_update_connector ok) simp_all
  qed (simp add: ok)
qed

lemma keeps_ConnectorsConfigUpdate: "keeps db_ok (ConnectorsConfigUpdate env fl c)"
  unfolding ConnectorsConfigUpdate_def by (intro keeps_intros)

lemma keeps_ConnectorsScheduleForDeletion: "keeps db_ok (ConnectorsScheduleForDeletion env fl i)"
  unfolding ConnectorsScheduleForDeletion_def by (intro keeps_intros) simp_all

text \<open>The cascade leaves no row of the connector.\<close>

lemma refers_without:
  assumes "refers f child key parent" "\<forall>r\<in>set child. f r \<noteq> i"
  shows "refers f child key (delete_where (\<lambda>r. key r = i) parent)"
  using assms by (auto simp: refers_def has_key_iff image_iff)

lemma refers_opt_without:
  assumes "refers_opt f child key parent" "\<forall>r\<in>set child. f r \<noteq> Some i"
  shows "refers_opt f child key (delete_where (\<lambda>r. key r = i) parent)"
  using assms by (fastforce simp: refers_opt_def has_key_iff image_iff split: option.splits)

definition connector_gone :: "ConnectorID \<Rightarrow> db \<Rightarrow> bool" where
  "connector_gone i d \<longleftrightarrow>
     (\<forall>r\<in>set (accounts d). account_connector_id r \<noteq> i) \<and>
     (\<forall>r\<in>set (balances d). balance_connector_id r \<noteq> i) \<and>
     (\<forall>r\<in>set (payments d). payment_connector_id r \<noteq> i) \<and>
     (\<forall>r\<in>set (payment_initiations d). pi_connector_id r \<noteq> i) \<and>
     (\<forall>r\<in>set (pi_reversals d). pir_connector_id r \<noteq> i) \<and>
     (\<forall>r\<in>set (tasks d). task_connector_id r \<noteq> Some i) \<and>
     (\<forall>r\<in>set (schedules d). schedule_connector_id r \<noteq> i) \<and>
     (\<forall>r\<in>set (states d). state_connector_id r \<noteq> i) \<and>
     (\<forall>r\<in>set (workflow_instances d). instance_connector_id r \<noteq> i) \<and>
     (\<forall>r\<in>set (orders d). order_connector_id r \<noteq> i) \<and>
     (\<forall>r\<in>set (conversions d). conversion_connector_id r \<noteq> i) \<and>
     (\<forall>r\<in>set (outbox_events d). outbox_connector_id r \<noteq> Some i) \<and>
     (\<forall>r\<in>set (events_sent d). sent_connector_id r \<noteq> Some i) \<and>
     (\<forall>r\<in>set (bank_account_relations d). bar_connector_id r \<noteq> i) \<and>
     (\<forall>r\<in>set (ob_attempts d). oba_connector_id r \<noteq> i) \<and>
     (\<forall>r\<in>set (ob_forwarded_users d). obf_connector_id r \<noteq> i) \<and>
     (\<forall>r\<in>set (ob_connections d). obc_connector_id r \<noteq> i) \<and>
     (\<forall>r\<in>set (ob_tokens d). obt_connector_id r \<noteq> i) \<and>
     (\<forall>r\<in>set (webhooks_configs d). wc_connector_id r \<noteq> i) \<and>
     (\<forall>r\<in>set (webhooks d). wh_connector_id r \<noteq> i) \<and>
     (\<forall>r\<in>set (connector_tasks_tree d). tt_connector_id r \<noteq> i)"

lemmas removals = delete_payments_def remove_initiations_def remove_reversals_def
  cascade_reversals_def remove_schedules_def remove_orders_def

lemma cascade_connector_gone: "connector_gone i (cascade_connector i d)"
  by (simp add: connector_gone_def cascade_connector_def removals Let_def)

lemma cascade_connector_connectors [simp]: "connectors (cascade_connector i d) = connectors d"
  by (simp add: cascade_connector_def removals Let_def)

lemma connection_ref_Some: "connection_ref u c n = Some k \<longleftrightarrow> (\<exists>i m. u = Some i \<and> n = Some m \<and> k = (i, c, m))"
  by (auto simp: connection_ref_def split: option.splits)

lemma webhook_keys_apart_delete: "webhook_keys_apart tbl \<Longrightarrow> webhook_keys_apart (delete_where p tbl)"
  by (simp add: webhook_keys_apart_def delete_where_def sorted_wrt_filter)

lemma db_ok_cascade_connector: "db_ok d \<Longrightarrow> db_ok (cascade_connector i d)"
proof -
  assume ok: "db_ok d"
  define d5 where "d5 = remove_orders (\<lambda>r. order_connector_id r = i)
    (remove_schedules (\<lambda>r. schedule_connector_id r = i)
      (remove_reversals (\<lambda>r. pir_connector_id r = i)
        (remove_initiations (\<lambda>r. pi_connector_id r = i)
          (delete_payments (\<lambda>r. payment_connector_id r = i) d))))"
  have ok5: "db_ok d5"
    unfolding d5_def by (intro db_ok_remove_orders db_ok_remove_schedules db_ok_remove_reversals
        db_ok_remove_initiations db_ok_delete_payments ok)
  have "\<forall>r\<in>set (payments d5). payment_connector_id r \<noteq> i"
    by (simp add: d5_def removals Let_def)
  then have "refers_opt payment_connection (payments d5) ob_connection_key
      (delete_where (\<lambda>r. obc_connector_id r = i) (ob_connections d5))"
    by (intro refers_opt_drop db_okD ok5) (auto simp: connection_ref_Some ob_connection_key_def)
  moreover have "refers_opt account_connection (delete_where (\<lambda>r. account_connector_id r = i) (accounts d5))
      ob_connection_key (delete_where (\<lambda>r. obc_connector_id r = i) (ob_connections d5))"
    by (intro refers_opt_cascade db_okD ok5) (auto simp: connection_ref_Some ob_connection_key_def)
  moreover have "refers_opt balance_connection (delete_where (\<lambda>r. balance_connector_id r = i) (balances d5))
      ob_connection_key (delete_where (\<lambda>r. obc_connector_id r = i) (ob_connections d5))"
    by (intro refers_opt_cascade db_okD ok5) (auto simp: connection_ref_Some ob_connection_key_def)
  ultimately show ?thesis
    using ok5 unfolding cascade_connector_def Let_def d5_def[symmetric]
    by (simp add: db_ok_def unique_delete_where refers_delete_where refers_opt_delete_where
        webhook_keys_apart_delete)
qed

lemma keeps_ConnectorsUninstall: "keeps db_ok (ConnectorsUninstall fl i)"
  unfolding ConnectorsUninstall_def
proof (intro keeps_intros)
  fix s assume "db_ok s"
  then have ok: "db_ok (cascade_connector i s)" by (rule db_ok_cascade_connector)
  note gone = cascade_connector_gone[of i s, unfolded connector_gone_def]
  show "db_ok ((cascade_connector i s)
      \<lparr>connectors := delete_where (\<lambda>r. connector_id r = i) (connectors s)\<rparr>)"
    unfolding cascade_connector_connectors[of i s, symmetric]
    by (intro db_ok_connectors ok unique_delete_where refers_without refers_opt_without db_okD)
      (simp_all add: gone)
qed

end
