(* ===== verification/Consistency_Users.thy ===== *)
theory Consistency_Users
  imports Consistency_Store OpenBanking_Store Webhooks_Store
begin

text \<open>
  The operations on users, bank accounts, open banking and webhooks keep
  db_ok too.  Deleting a connection or a user deletes rows of several tables
  whose references cross; the cascades are shown to leave no reference
  without a target.
\<close>

section \<open>Upserts of rows with references\<close>

lemma refers_upsert_key [table_rules]:
  assumes "refers f child key parent" "\<And>x y. f (g x y) = f x"
    "has_key ck (ck r) child \<or> has_key key (f r) parent"
  shows "refers f (upsert_row ck g r child) key parent"
  by (rule refers_upsert_row) (use assms in auto)

lemma refers_opt_rows_append:
  "refers_opt f child key parent \<Longrightarrow> \<forall>r\<in>set rows. f r = None \<Longrightarrow> refers_opt f (child @ rows) key parent"
  by (auto simp: refers_opt_def)

section \<open>Bank accounts\<close>

lemma keeps_insert_related [keeps_intros]: "keeps db_ok (insert_related_stmt fl msg rows)"
  unfolding insert_related_stmt_def
  by (intro keeps_intros keepsI)
    (auto simp: refuse_def split: prod.splits if_splits
      intro!: db_ok_bank_account_relations table_rules db_okD dest!: inserted_rows)

lemma keeps_insert_bank_account [keeps_intros]:
  assumes "ba_psu_id row = None"
  shows "keeps db_ok (insert_bank_account_stmt fl row)"
  unfolding insert_bank_account_stmt_def
proof (intro keeps_stmt keepsI)
  fix s r s'
  assume ok: "db_ok s" and run: "(let (ins, tbl) = insert_ignore ba_id [row] (bank_accounts s)
    in (Inr (length ins), s\<lparr>bank_accounts := tbl\<rparr>)) = (r :: error + nat, s')"
  obtain ins t where i: "insert_ignore ba_id [row] (bank_accounts s) = (ins, t)" by fastforce
  with run have s': "s' = s\<lparr>bank_accounts := t\<rparr>" by simp
  note t = inserted_rows[OF i]
  have "\<forall>x\<in>set ins. ba_psu_id x = None"
    using insert_ignore_sound[OF i] assms by auto
  with ok t show "db_ok s'" unfolding s'
    by (auto intro!: db_ok_bank_accounts unique_append refers_to_appended refers_opt_rows_append db_okD)
qed

lemma keeps_encrypt_bank_account [keeps_intros]: "keeps db_ok (encrypt_bank_account_stmt env fl ba)"
  unfolding encrypt_bank_account_stmt_def
  by (intro keeps_intros) (auto intro!: db_ok_bank_accounts table_rules db_okD)

lemma keeps_BankAccountsUpsert: "keeps db_ok (BankAccountsUpsert env fl ba)"
  unfolding BankAccountsUpsert_def Let_def
  by (intro keeps_intros) (simp_all add: fromBankAccountModels_def)

lemma keeps_BankAccountsUpdateMetadata: "keeps db_ok (BankAccountsUpdateMetadata fl i md)"
  unfolding BankAccountsUpdateMetadata_def
  by (intro keeps_intros keepsI)
    (auto simp: refuse_def split: option.splits intro!: db_ok_bank_accounts table_rules db_okD)

lemma keeps_select_bank_account [keeps_intros]: "keeps db_ok (select_bank_account env fl msg i b)"
  unfolding select_bank_account_def
  by (intro keeps_intros keepsI) (auto simp: refuse_def split: option.splits)

lemma keeps_BankAccountsAddRelatedAccount: "keeps db_ok (BankAccountsAddRelatedAccount env fl i ra)"
  unfolding BankAccountsAddRelatedAccount_def by (intro keeps_intros)

lemma keeps_BankAccountsDeleteRelatedAccount:
  "keeps db_ok (BankAccountsDeleteRelatedAccountFromConnectorID fl c)"
  unfolding BankAccountsDeleteRelatedAccountFromConnectorID_def
  by (intro keeps_intros) (auto intro!: db_ok_bank_account_relations table_rules db_okD)

section \<open>Payment service users\<close>

lemma keeps_insert_psu [keeps_intros]: "keeps db_ok (insert_psu_stmt fl row)"
  unfolding insert_psu_stmt_def
proof (intro keeps_stmt keeps_modify)
  fix s assume ok: "db_ok s"
  obtain ins t where i: "insert_ignore psu_id [row] (payment_service_users s) = (ins, t)" by fastforce
  with ok inserted_rows[OF i]
  show "db_ok (s\<lparr>payment_service_users := snd (insert_ignore psu_id [row] (payment_service_users s))\<rparr>)"
    by (auto intro!: db_ok_payment_service_users unique_append refers_to_appended db_okD)
qed

lemma keeps_set_bank_account_owner [keeps_intros]: "keeps db_ok (set_bank_account_owner fl u b)"
  unfolding set_bank_account_owner_def
proof (intro keeps_stmt keepsI)
  fix s r s'
  assume ok: "db_ok s" and run: "(if \<not> has_key ba_id b (bank_accounts s)
      then refuse ''bank account'' (DbOther (Sentinel Storage_ErrNotFound)) s
      else if \<not> has_key psu_id u (payment_service_users s)
      then refuse ''update bank account to add psu id'' (DbFKConstraintFailed ''fk_psu_id'') s
      else (Inr (), s\<lparr>bank_accounts := update_where (\<lambda>r. ba_id r = b)
             (\<lambda>r. r\<lparr>ba_psu_id := Some u\<rparr>) (bank_accounts s)\<rparr>)) = (r, s')"
  have "refers_opt ba_psu_id (update_where (\<lambda>r. ba_id r = b) (\<lambda>r. r\<lparr>ba_psu_id := Some u\<rparr>)
      (bank_accounts s)) psu_id (payment_service_users s)"
    if "has_key psu_id u (payment_service_users s)"
    using db_okD(58)[OF ok] that by (auto simp: refers_opt_def update_where_def)
  with ok run show "db_ok s'"
    by (auto simp: refuse_def split: if_splits intro!: db_ok_bank_accounts table_rules db_okD)
qed

lemma keeps_PaymentServiceUsersCreate: "keeps db_ok (PaymentServiceUsersCreate env fl psu)"
  unfolding PaymentServiceUsersCreate_def by (intro keeps_intros)

lemma keeps_PaymentServiceUsersAddBankAccount: "keeps db_ok (PaymentServiceUsersAddBankAccount fl u b)"
  unfolding PaymentServiceUsersAddBankAccount_def by (rule keeps_set_bank_account_owner)

text \<open>Deleting connections.\<close>

lemma refers_to_gone_iff:
  "refers_to_gone gone u c ob \<longleftrightarrow> (\<exists>k\<in>gone. connection_ref u c ob = Some k)"
  by (auto simp: refers_to_gone_def split: option.splits)

lemma delete_payments_other [simp]:
  "ob_connections (delete_payments p d) = ob_connections d"
  "accounts (delete_payments p d) = accounts d"
  "balances (delete_payments p d) = balances d"
  "payment_service_users (delete_payments p d) = payment_service_users d"
  "bank_accounts (delete_payments p d) = bank_accounts d"
  "payments (delete_payments p d) = delete_where p (payments d)"
  by (simp_all add: delete_payments_def Let_def)

lemma db_ok_remove_connections:
  assumes ok: "db_ok d"
  shows "db_ok (remove_connections p d)"
proof -
  let ?gone = "ob_connection_key ` {r \<in> set (ob_connections d). p r}"
  define d1 where "d1 = delete_payments (\<lambda>r. refers_to_gone ?gone (payment_psu_id r)
    (payment_connector_id r) (payment_open_banking_connection_id r)) d"
  have ok1: "db_ok d1" unfolding d1_def by (rule db_ok_delete_payments[OF ok])
  have "refers_opt payment_connection (payments d1) ob_connection_key (delete_where p (ob_connections d1))"
    by (intro refers_opt_drop db_okD ok1) (auto simp: d1_def refers_to_gone_iff)
  moreover have "refers_opt account_connection (delete_where (\<lambda>r. refers_to_gone ?gone (account_psu_id r)
      (account_connector_id r) (account_open_banking_connection_id r)) (accounts d1))
      ob_connection_key (delete_where p (ob_connections d1))"
    by (intro refers_opt_cascade db_okD ok1) (auto simp: d1_def refers_to_gone_iff)
  moreover have "refers_opt balance_connection (delete_where (\<lambda>r. refers_to_gone ?gone (balance_psu_id r)
      (balance_connector_id r) (balance_open_banking_connection_id r)) (balances d1))
      ob_connection_key (delete_where p (ob_connections d1))"
    by (intro refers_opt_cascade db_okD ok1) (auto simp: d1_def refers_to_gone_iff)
  moreover have "ob_connections d1 = ob_connections d" "accounts d1 = accounts d" "balances d1 = balances d"
    by (simp_all add: d1_def)
  ultimately show ?thesis
    using ok1 unfolding remove_connections_def Let_def d1_def[symmetric]
    by (simp add: db_ok_def unique_delete_where refers_delete_where refers_opt_delete_where)
qed

lemma remove_connections_psu [simp]:
  "payment_service_users (remove_connections p d) = payment_service_users d"
  "ob_connections (remove_connections p d) = delete_where p (ob_connections d)"
  "bank_accounts (remove_connections p d) = bank_accounts d"
  by (simp_all add: remove_connections_def Let_def)

lemma refers_opt_disowned:
  assumes "refers_opt ba_psu_id tbl psu_id users"
  shows "refers_opt ba_psu_id (update_where (\<lambda>r. ba_psu_id r = Some i) (\<lambda>r. r\<lparr>ba_psu_id := None\<rparr>) tbl)
    psu_id (delete_where (\<lambda>r. psu_id r = i) users)"
  using assms by (fastforce simp: refers_opt_def update_where_def has_key_iff image_iff split: option.splits)

lemma db_ok_remove_psu:
  assumes ok: "db_ok d"
  shows "db_ok (remove_psu i d)"
proof -
  define d1 where "d1 = remove_connections (\<lambda>r. obc_psu_id r = i) d"
  define d2 where "d2 = delete_payments (\<lambda>r. payment_psu_id r = Some i) d1"
  have ok2: "db_ok d2" unfolding d2_def d1_def
    by (intro db_ok_delete_payments db_ok_remove_connections ok)
  have gone: "\<forall>r\<in>set (payments d2). payment_psu_id r \<noteq> Some i"
    "\<forall>r\<in>set (ob_connections d2). obc_psu_id r \<noteq> i"
    by (auto simp: d1_def d2_def)
  show ?thesis
    using ok2 gone unfolding remove_psu_def Let_def d1_def[symmetric] d2_def[symmetric]
    by (simp add: db_ok_def unique_delete_where unique_update_where refers_delete_where
        refers_opt_delete_where refers_opt_disowned refers_to_updated refers_without
        refers_opt_without)
qed

lemma keeps_PaymentServiceUsersDelete: "keeps db_ok (PaymentServiceUsersDelete fl i)"
  unfolding PaymentServiceUsersDelete_def
  by (intro keeps_intros keepsI) (auto simp: refuse_def split: if_splits intro: db_ok_remove_psu)

section \<open>Open banking\<close>

lemma keeps_upsert_token [keeps_intros]: "keeps db_ok (upsert_token_stmt env fl msg t)"
  unfolding upsert_token_stmt_def
  by (intro keeps_intros keepsI)
    (auto simp: Let_def refuse_def ob_token_key_def connector_exists_def split: if_splits
      intro!: db_ok_ob_tokens table_rules db_okD)

lemma merge_attempt_same [simp]:
  "oba_id (merge_attempt x y) = oba_id x"
  "oba_psu_id (merge_attempt x y) = oba_psu_id x"
  "oba_connector_id (merge_attempt x y) = oba_connector_id x"
  by (simp_all add: merge_attempt_def)

lemma keeps_OpenBankingConnectionAttemptsUpsert:
  "keeps db_ok (OpenBankingConnectionAttemptsUpsert env fl a)"
  unfolding OpenBankingConnectionAttemptsUpsert_def Let_def
  by (intro keeps_intros keepsI)
    (auto simp: refuse_def connector_exists_def split: if_splits intro!: db_ok_ob_attempts table_rules db_okD)

lemma keeps_lookup [keeps_intros]:
  "keeps P (\<lambda>d. case f d of None \<Rightarrow> refuse msg e d | Some r \<Rightarrow> (Inr (g d r), d))"
  by (rule keepsI) (auto simp: refuse_def split: option.splits)

lemma keeps_OpenBankingConnectionAttemptsUpdateStatus:
  "keeps db_ok (OpenBankingConnectionAttemptsUpdateStatus env fl i st e)"
  unfolding OpenBankingConnectionAttemptsUpdateStatus_def
  by (intro keeps_intros) (auto intro!: db_ok_ob_attempts table_rules db_okD)

lemma keeps_OpenBankingForwardedUserUpsert: "keeps db_ok (OpenBankingForwardedUserUpsert env fl u f)"
  unfolding OpenBankingForwardedUserUpsert_def Let_def
  by (intro keeps_intros keepsI)
    (auto simp: refuse_def forwarded_key_def connector_exists_def split: if_splits
      intro!: db_ok_ob_forwarded_users table_rules db_okD)

lemma keeps_OpenBankingForwardedUserDelete: "keeps db_ok (OpenBankingForwardedUserDelete fl u c)"
  unfolding OpenBankingForwardedUserDelete_def
  by (intro keeps_intros) (auto intro!: db_ok_ob_forwarded_users table_rules db_okD)

lemma merge_connection_same [simp]:
  "obc_psu_id (merge_connection x y) = obc_psu_id x"
  "obc_connector_id (merge_connection x y) = obc_connector_id x"
  "ob_connection_key (merge_connection x y) = ob_connection_key x"
  by (simp_all add: merge_connection_def ob_connection_key_def)

lemma refers_to_upserted_connections:
  assumes "refers_opt f child ob_connection_key tbl"
  shows "refers_opt f child ob_connection_key (upsert_row ob_connection_key merge_connection r tbl)"
proof (rule refers_opt_parent_grows[OF assms])
  fix k assume "has_key ob_connection_key k tbl"
  then show "has_key ob_connection_key k (upsert_row ob_connection_key merge_connection r tbl)"
    by (subst has_key_upsert_row) simp_all
qed

lemma keeps_upsert_connection [keeps_intros]: "keeps db_ok (upsert_connection_stmt fl row)"
  unfolding upsert_connection_stmt_def Let_def
  by (intro keeps_intros keepsI)
    (auto simp: refuse_def connector_exists_def split: if_splits
      intro!: db_ok_ob_connections refers_to_upserted_connections table_rules db_okD)

lemma keeps_OpenBankingConnectionsUpsert: "keeps db_ok (OpenBankingConnectionsUpsert env fl u c)"
  unfolding OpenBankingConnectionsUpsert_def by (intro keeps_intros)

lemma keeps_OpenBankingConnectionsUpdateLastDataUpdate:
  "keeps db_ok (OpenBankingConnectionsUpdateLastDataUpdate env fl u c n t)"
  unfolding OpenBankingConnectionsUpdateLastDataUpdate_def
  by (intro keeps_intros)
    (auto simp: ob_connection_key_def intro!: db_ok_ob_connections table_rules db_okD)

lemma keeps_OpenBankingConnectionsDelete: "keeps db_ok (OpenBankingConnectionsDelete fl u c n)"
  unfolding OpenBankingConnectionsDelete_def
  by (intro keeps_intros) (rule db_ok_remove_connections)

section \<open>Webhooks and trees of tasks\<close>

lemma webhook_keys_apart_append:
  "webhook_keys_apart tbl \<Longrightarrow> \<not> list_ex (same_webhook_key r) tbl \<Longrightarrow> webhook_keys_apart (tbl @ [r])"
  by (auto simp: webhook_keys_apart_def sorted_wrt_append list_ex_iff same_webhook_key_def)

lemma keeps_WebhooksInsert: "keeps db_ok (WebhooksInsert fl w)"
  unfolding WebhooksInsert_def Let_def
  by (intro keeps_intros keepsI)
    (auto simp: refuse_def split: if_splits
      intro!: db_ok_webhooks unique_append_new webhook_keys_apart_append refers_connectors_append db_okD)

lemma keeps_WebhooksDelete: "keeps db_ok (WebhooksDeleteFromConnectorID fl c)"
  unfolding WebhooksDeleteFromConnectorID_def
  by (intro keeps_intros) (auto intro!: db_ok_webhooks webhook_keys_apart_delete table_rules db_okD)

lemma keeps_WebhooksConfigsUpsert: "keeps db_ok (WebhooksConfigsUpsert fl cs)"
  unfolding WebhooksConfigsUpsert_def
  by (intro keeps_intros keepsI)
    (auto simp: refuse_def split: prod.splits if_splits
      intro!: db_ok_webhooks_configs table_rules db_okD dest!: inserted_rows)

lemma keeps_WebhooksConfigsDelete: "keeps db_ok (WebhooksConfigsDeleteFromConnectorID fl c)"
  unfolding WebhooksConfigsDeleteFromConnectorID_def
  by (intro keeps_intros) (auto intro!: db_ok_webhooks_configs table_rules db_okD)

lemma keeps_ConnectorTasksTreeUpsert: "keeps db_ok (ConnectorTasksTreeUpsert fl c ts)"
  unfolding ConnectorTasksTreeUpsert_def Let_def
  by (intro keeps_intros keepsI)
    (auto simp: refuse_def connector_exists_def split: if_splits intro!: db_ok_connector_tasks_tree table_rules db_okD)

lemma keeps_ConnectorTasksTreeDelete: "keeps db_ok (ConnectorTasksTreeDeleteFromConnectorID fl c)"
  unfolding ConnectorTasksTreeDeleteFromConnectorID_def
  by (intro keeps_intros) (auto intro!: db_ok_connector_tasks_tree table_rules db_okD)

lemmas keeps_user_operations =
  keeps_BankAccountsUpsert keeps_BankAccountsUpdateMetadata keeps_BankAccountsAddRelatedAccount
  keeps_BankAccountsDeleteRelatedAccount keeps_PaymentServiceUsersCreate
  keeps_PaymentServiceUsersAddBankAccount keeps_PaymentServiceUsersDelete
  keeps_OpenBankingConnectionAttemptsUpsert keeps_OpenBankingConnectionAttemptsUpdateStatus
  keeps_OpenBankingForwardedUserUpsert keeps_OpenBankingForwardedUserDelete
  keeps_OpenBankingConnectionsUpsert keeps_OpenBankingConnectionsUpdateLastDataUpdate
  keeps_OpenBankingConnectionsDelete keeps_WebhooksInsert keeps_WebhooksDelete
  keeps_WebhooksConfigsUpsert keeps_WebhooksConfigsDelete keeps_ConnectorTasksTreeUpsert
  keeps_ConnectorTasksTreeDelete

end
