(* ===== verification/Storage_Machine.thy ===== *)
theory Storage_Machine
  imports Consistency_Users
begin

text \<open>
  The storage as a state machine: one step per operation of internal/storage
  that writes, with any arguments, clock and faults, whether it succeeds or
  fails.
\<close>

inductive storage_step :: "db \<Rightarrow> db \<Rightarrow> bool" where
  OutboxEventsInsertWithTx_step:
   "OutboxEventsInsertWithTx env fl evs d = (res, d') \<Longrightarrow>
    storage_step d d'"
| OutboxEventsMarkFailed_step:
   "OutboxEventsMarkFailed env fl i n err b d = (res, d') \<Longrightarrow>
    storage_step d d'"
| OutboxEventsMarkProcessedAndRecordSent_step:
   "OutboxEventsMarkProcessedAndRecordSent env fl is evs d = (res, d') \<Longrightarrow>
    storage_step d d'"
| OutboxEventsDeleteOldProcessed_step:
   "OutboxEventsDeleteOldProcessed fl t d = (res, d') \<Longrightarrow>
    storage_step d d'"
| EventsSentUpsert_step: "EventsSentUpsert env fl e d = (res, d') \<Longrightarrow>
    storage_step d d'"
| EventsSentDeleteFromConnectorID_step:
   "EventsSentDeleteFromConnectorID fl c d = (res, d') \<Longrightarrow>
    storage_step d d'"
| EventsSentDeleteFromConnectorIDBatch_step:
   "EventsSentDeleteFromConnectorIDBatch fl c n d = (res, d') \<Longrightarrow>
    storage_step d d'"
| OutboxPublishPendingEvents_step:
   "OutboxPublishPendingEvents env fl publish n d = (res, d') \<Longrightarrow>
    storage_step d d'"
| OutboxDeleteOldProcessedEvents_step:
   "OutboxDeleteOldProcessedEvents fl t d = (res, d') \<Longrightarrow>
    storage_step d d'"
| AccountsUpsert_step: "AccountsUpsert env fl as d = (res, d') \<Longrightarrow>
    storage_step d d'"
| AccountsDeleteFromConnectorID_step:
   "AccountsDeleteFromConnectorID fl c d = (res, d') \<Longrightarrow>
    storage_step d d'"
| AccountsDeleteFromPSUID_step: "AccountsDeleteFromPSUID fl u d = (res, d') \<Longrightarrow>
    storage_step d d'"
| AccountsDeleteFromConnectorIDAndPSUID_step:
   "AccountsDeleteFromConnectorIDAndPSUID fl c u d = (res, d') \<Longrightarrow>
    storage_step d d'"
| AccountsDeleteFromOpenBankingConnectionID_step:
   "AccountsDeleteFromOpenBankingConnectionID fl u c ob d = (res, d') \<Longrightarrow>
    storage_step d d'"
| AccountsDelete_step: "AccountsDelete fl a d = (res, d') \<Longrightarrow> storage_step d d'"
| AccountsDeleteFromConnectorIDBatch_step:
   "AccountsDeleteFromConnectorIDBatch fl c n d = (res, d') \<Longrightarrow>
    storage_step d d'"
| BalancesUpsert_step: "BalancesUpsert env fl bs d = (res, d') \<Longrightarrow>
    storage_step d d'"
| BalancesDeleteFromConnectorID_step:
   "BalancesDeleteFromConnectorID fl c d = (res, d') \<Longrightarrow>
    storage_step d d'"
| PaymentsUpsert_step: "PaymentsUpsert env fl ps d = (res, d') \<Longrightarrow>
    storage_step d d'"
| PaymentsUpdateMetadata_step: "PaymentsUpdateMetadata fl i md d = (res, d') \<Longrightarrow>
    storage_step d d'"
| PaymentsDeleteFromConnectorID_step:
   "PaymentsDeleteFromConnectorID fl c d = (res, d') \<Longrightarrow>
    storage_step d d'"
| PaymentsDelete_step: "PaymentsDelete fl i d = (res, d') \<Longrightarrow> storage_step d d'"
| PaymentsDeleteFromAccountID_step:
   "PaymentsDeleteFromAccountID fl a d = (res, d') \<Longrightarrow>
    storage_step d d'"
| PaymentsDeleteFromPSUID_step: "PaymentsDeleteFromPSUID fl u d = (res, d') \<Longrightarrow>
    storage_step d d'"
| PaymentsDeleteFromConnectorIDAndPSUID_step:
   "PaymentsDeleteFromConnectorIDAndPSUID fl c u d = (res, d') \<Longrightarrow>
    storage_step d d'"
| PaymentsDeleteFromOpenBankingConnectionID_step:
   "PaymentsDeleteFromOpenBankingConnectionID fl u c ob d = (res, d') \<Longrightarrow>
    storage_step d d'"
| PaymentsDeleteFromConnectorIDBatch_step:
   "PaymentsDeleteFromConnectorIDBatch fl c n d = (res, d') \<Longrightarrow>
    storage_step d d'"
| PaymentsDeleteFromReference_step:
   "PaymentsDeleteFromReference env fl reference c d = (res, d') \<Longrightarrow>
    storage_step d d'"
| PaymentInitiationsInsert_step:
   "PaymentInitiationsInsert env fl p as d = (res, d') \<Longrightarrow>
    storage_step d d'"
| PaymentInitiationsUpdateMetadata_step:
   "PaymentInitiationsUpdateMetadata fl i md d = (res, d') \<Longrightarrow>
    storage_step d d'"
| PaymentInitiationsDeleteFromConnectorID_step:
   "PaymentInitiationsDeleteFromConnectorID fl c d = (res, d') \<Longrightarrow>
    storage_step d d'"
| PaymentInitiationsDelete_step: "PaymentInitiationsDelete fl i d = (res, d') \<Longrightarrow>
    storage_step d d'"
| PaymentInitiationRelatedPaymentsUpsert_step:
   "PaymentInitiationRelatedPaymentsUpsert env fl i p t d = (res, d') \<Longrightarrow>
    storage_step d d'"
| PaymentInitiationAdjustmentsUpsert_step:
   "PaymentInitiationAdjustmentsUpsert env fl a d = (res, d') \<Longrightarrow>
    storage_step d d'"
| PaymentInitiationAdjustmentsUpsertIfPredicate_step:
   "PaymentInitiationAdjustmentsUpsertIfPredicate env fl a q d = (res, d') \<Longrightarrow>
    storage_step d d'"
| PaymentInitiationReversalsUpsert_step:
   "PaymentInitiationReversalsUpsert env fl r as d = (res, d') \<Longrightarrow>
    storage_step d d'"
| PaymentInitiationReversalsDeleteFromConnectorID_step:
   "PaymentInitiationReversalsDeleteFromConnectorID fl c d = (res, d') \<Longrightarrow>
    storage_step d d'"
| PaymentInitiationReversalAdjustmentsUpsert_step:
   "PaymentInitiationReversalAdjustmentsUpsert env fl a d = (res, d') \<Longrightarrow>
    storage_step d d'"
| TasksUpsert_step: "TasksUpsert env fl t d = (res, d') \<Longrightarrow> storage_step d d'"
| TasksDeleteFromConnectorID_step:
   "TasksDeleteFromConnectorID fl c d = (res, d') \<Longrightarrow>
    storage_step d d'"
| SchedulesUpsert_step: "SchedulesUpsert env fl s d = (res, d') \<Longrightarrow>
    storage_step d d'"
| SchedulesDeleteFromConnectorID_step:
   "SchedulesDeleteFromConnectorID fl c d = (res, d') \<Longrightarrow>
    storage_step d d'"
| SchedulesDelete_step: "SchedulesDelete fl i d = (res, d') \<Longrightarrow> storage_step d d'"
| SchedulesDeleteFromConnectorIDBatch_step:
   "SchedulesDeleteFromConnectorIDBatch fl c n d = (res, d') \<Longrightarrow>
    storage_step d d'"
| SchedulesPause_step: "SchedulesPause env fl i c t m d = (res, d') \<Longrightarrow>
    storage_step d d'"
| SchedulesUnpause_step: "SchedulesUnpause fl i c d = (res, d') \<Longrightarrow>
    storage_step d d'"
| StatesUpsert_step: "StatesUpsert env fl s d = (res, d') \<Longrightarrow> storage_step d d'"
| StatesDeleteFromConnectorID_step:
   "StatesDeleteFromConnectorID fl c d = (res, d') \<Longrightarrow>
    storage_step d d'"
| InstancesUpsert_step: "InstancesUpsert env fl i d = (res, d') \<Longrightarrow>
    storage_step d d'"
| InstancesUpdate_step: "InstancesUpdate env fl i d = (res, d') \<Longrightarrow>
    storage_step d d'"
| InstancesDeleteFromConnectorID_step:
   "InstancesDeleteFromConnectorID fl c d = (res, d') \<Longrightarrow>
    storage_step d d'"
| InstancesDeleteFromConnectorIDBatch_step:
   "InstancesDeleteFromConnectorIDBatch fl c n d = (res, d') \<Longrightarrow>
    storage_step d d'"
| PoolsUpsert_step: "PoolsUpsert env fl p d = (res, d') \<Longrightarrow> storage_step d d'"
| PoolsUpdateQuery_step: "PoolsUpdateQuery env fl p q d = (res, d') \<Longrightarrow>
    storage_step d d'"
| PoolsDelete_step: "PoolsDelete env fl i d = (res, d') \<Longrightarrow> storage_step d d'"
| PoolsAddAccount_step: "PoolsAddAccount env fl i a d = (res, d') \<Longrightarrow>
    storage_step d d'"
| PoolsRemoveAccount_step: "PoolsRemoveAccount env fl i a d = (res, d') \<Longrightarrow>
    storage_step d d'"
| PoolsRemoveAccountsFromConnectorID_step:
   "PoolsRemoveAccountsFromConnectorID fl c d = (res, d') \<Longrightarrow>
    storage_step d d'"
| OrdersUpsert_step: "OrdersUpsert env fl os d = (res, d') \<Longrightarrow> storage_step d d'"
| OrdersDeleteFromConnectorID_step:
   "OrdersDeleteFromConnectorID fl c d = (res, d') \<Longrightarrow>
    storage_step d d'"
| ConversionsUpsert_step: "ConversionsUpsert env fl cs d = (res, d') \<Longrightarrow>
    storage_step d d'"
| ConversionsDeleteFromConnectorID_step:
   "ConversionsDeleteFromConnectorID fl c d = (res, d') \<Longrightarrow>
    storage_step d d'"
| ConnectorsInstall_step: "ConnectorsInstall env fl c old d = (res, d') \<Longrightarrow>
    storage_step d d'"
| ConnectorsConfigUpdate_step: "ConnectorsConfigUpdate env fl c d = (res, d') \<Longrightarrow>
    storage_step d d'"
| ConnectorsScheduleForDeletion_step:
   "ConnectorsScheduleForDeletion env fl i d = (res, d') \<Longrightarrow>
    storage_step d d'"
| ConnectorsUninstall_step: "ConnectorsUninstall fl i d = (res, d') \<Longrightarrow>
    storage_step d d'"
| BankAccountsUpsert_step:
   "BankAccountsUpsert env fl b d = (res, d') \<Longrightarrow>
    storage_step d d'"
| BankAccountsUpdateMetadata_step:
   "BankAccountsUpdateMetadata fl i md d = (res, d') \<Longrightarrow>
    storage_step d d'"
| BankAccountsAddRelatedAccount_step:
   "BankAccountsAddRelatedAccount env fl i ra d = (res, d') \<Longrightarrow>
    storage_step d d'"
| BankAccountsDeleteRelatedAccountFromConnectorID_step:
   "BankAccountsDeleteRelatedAccountFromConnectorID fl c d = (res, d') \<Longrightarrow>
    storage_step d d'"
| PaymentServiceUsersCreate_step:
   "PaymentServiceUsersCreate env fl u d = (res, d') \<Longrightarrow>
    storage_step d d'"
| PaymentServiceUsersAddBankAccount_step:
   "PaymentServiceUsersAddBankAccount fl u b d = (res, d') \<Longrightarrow>
    storage_step d d'"
| PaymentServiceUsersDelete_step:
   "PaymentServiceUsersDelete fl i d = (res, d') \<Longrightarrow>
    storage_step d d'"
| OpenBankingConnectionAttemptsUpsert_step:
   "OpenBankingConnectionAttemptsUpsert env fl a d = (res, d') \<Longrightarrow>
    storage_step d d'"
| OpenBankingConnectionAttemptsUpdateStatus_step:
   "OpenBankingConnectionAttemptsUpdateStatus env fl i st e d = (res, d') \<Longrightarrow>
    storage_step d d'"
| OpenBankingForwardedUserUpsert_step:
   "OpenBankingForwardedUserUpsert env fl u f d = (res, d') \<Longrightarrow>
    storage_step d d'"
| OpenBankingForwardedUserDelete_step:
   "OpenBankingForwardedUserDelete fl u c d = (res, d') \<Longrightarrow>
    storage_step d d'"
| OpenBankingConnectionsUpsert_step:
   "OpenBankingConnectionsUpsert env fl u oc d = (res, d') \<Longrightarrow>
    storage_step d d'"
| OpenBankingConnectionsUpdateLastDataUpdate_step:
   "OpenBankingConnectionsUpdateLastDataUpdate env fl u c n t d = (res, d') \<Longrightarrow>
    storage_step d d'"
| OpenBankingConnectionsDelete_step:
   "OpenBankingConnectionsDelete fl u c n d = (res, d') \<Longrightarrow>
    storage_step d d'"
| WebhooksInsert_step:
   "WebhooksInsert fl w d = (res, d') \<Longrightarrow>
    storage_step d d'"
| WebhooksDeleteFromConnectorID_step:
   "WebhooksDeleteFromConnectorID fl c d = (res, d') \<Longrightarrow>
    storage_step d d'"
| WebhooksConfigsUpsert_step:
   "WebhooksConfigsUpsert fl cs d = (res, d') \<Longrightarrow>
    storage_step d d'"
| WebhooksConfigsDeleteFromConnectorID_step:
   "WebhooksConfigsDeleteFromConnectorID fl c d = (res, d') \<Longrightarrow>
    storage_step d d'"
| ConnectorTasksTreeUpsert_step:
   "ConnectorTasksTreeUpsert fl c ts d = (res, d') \<Longrightarrow>
    storage_step d d'"
| ConnectorTasksTreeDeleteFromConnectorID_step:
   "ConnectorTasksTreeDeleteFromConnectorID fl c d = (res, d') \<Longrightarrow>
    storage_step d d'"

inductive storage_reachable :: "db \<Rightarrow> bool" where
  empty: "storage_reachable empty_db"
| step: "storage_reachable d \<Longrightarrow> storage_step d d' \<Longrightarrow> storage_reachable d'"

inductive_cases storage_reachableE: "storage_reachable d"

lemmas keeps_operations =
  keeps_OutboxEventsInsertWithTx keeps_OutboxEventsMarkFailed keeps_MarkProcessed
  keeps_OutboxEventsDeleteOldProcessed keeps_EventsSentUpsert keeps_EventsSentDelete
  keeps_OutboxPublishPendingEvents keeps_OutboxDeleteOldProcessedEvents keeps_AccountsUpsert
  keeps_AccountsDelete keeps_AccountsDeleteBatch keeps_BalancesUpsert keeps_BalancesDelete
  keeps_PaymentsUpsert keeps_PaymentsUpdateMetadata keeps_PaymentsDelete keeps_PaymentsDeleteBatch
  keeps_PaymentsDeleteFromReference keeps_PaymentInitiationsInsert
  keeps_PaymentInitiationsUpdateMetadata keeps_PaymentInitiationsDelete
  keeps_PaymentInitiationRelatedPaymentsUpsert keeps_PaymentInitiationAdjustmentsUpsert
  keeps_PaymentInitiationAdjustmentsUpsertIfPredicate keeps_TasksUpsert keeps_TasksDelete
  keeps_SchedulesUpsert keeps_SchedulesDelete keeps_SchedulesPause keeps_SchedulesUnpause
  keeps_StatesUpsert keeps_StatesDelete keeps_InstancesUpsert keeps_InstancesUpdate
  keeps_InstancesDelete keeps_InstancesDeleteBatch keeps_PoolsUpsert keeps_PoolsUpdateQuery
  keeps_PoolsDelete keeps_PoolsAddAccount keeps_PoolsRemoveAccount keeps_PoolsRemoveAccounts
  keeps_OrdersUpsert keeps_OrdersDelete keeps_ConversionsUpsert keeps_ConversionsDelete
  keeps_ConnectorsInstall keeps_ConnectorsConfigUpdate keeps_ConnectorsScheduleForDeletion
  keeps_ConnectorsUninstall keeps_reversals keeps_user_operations

lemma storage_step_ok: "storage_step d d' \<Longrightarrow> db_ok d \<Longrightarrow> db_ok d'"
  by (induction rule: storage_step.induct) (erule keepsD[rotated 2], rule keeps_operations, assumption)+

lemma storage_reachable_ok: "storage_reachable d \<Longrightarrow> db_ok d"
  by (induction rule: storage_reachable.induct) (simp_all add: db_ok_empty storage_step_ok)

end
