(* ===== verification/Storage_Properties.thy ===== *)
theory Storage_Properties
  imports Storage_Machine Examples
begin

text \<open>
  The type of the database: every reachable state has unique keys and no
  dangling reference; what uninstalling a connector removes and what it leaves.
\<close>


definition ex_connector_model :: "string \<Rightarrow> Connector" where
  "ex_connector_model n =
     \<lparr>Connector_Base = \<lparr>ConnectorBase_ID = ex_connector, ConnectorBase_Name = n, ConnectorBase_CreatedAt = 1,
        ConnectorBase_Provider = ''stripe''\<rparr>,
      Connector_ScheduledForDeletion = False, Connector_Config = ''{}'', Connector_UpdatedAt = None\<rparr>"

definition ex_installed :: db where
  "ex_installed = snd (ConnectorsInstall ex_env no_faults (ex_connector_model ''stripe-1'') None empty_db)"

lemma ex_installed_reachable: "storage_reachable ex_installed"
proof -
  obtain res where "ConnectorsInstall ex_env no_faults (ex_connector_model ''stripe-1'') None empty_db =
      (res, ex_installed)" by (metis ex_installed_def prod.collapse)
  then show ?thesis by (intro storage_reachable.step[OF storage_reachable.empty] ConnectorsInstall_step)
qed


section \<open>Uninstalling a connector\<close>

text \<open>The rows of other connectors, table by table.\<close>

definition others_kept :: "ConnectorID \<Rightarrow> db \<Rightarrow> db \<Rightarrow> bool" where
  "others_kept i d d' \<longleftrightarrow>
     connectors d' = filter (\<lambda>r. connector_id r \<noteq> i) (connectors d) \<and>
     accounts d' = filter (\<lambda>r. account_connector_id r \<noteq> i) (accounts d) \<and>
     balances d' = filter (\<lambda>r. balance_connector_id r \<noteq> i) (balances d) \<and>
     payments d' = filter (\<lambda>r. payment_connector_id r \<noteq> i) (payments d) \<and>
     payment_initiations d' = filter (\<lambda>r. pi_connector_id r \<noteq> i) (payment_initiations d) \<and>
     tasks d' = filter (\<lambda>r. task_connector_id r \<noteq> Some i) (tasks d) \<and>
     schedules d' = filter (\<lambda>r. schedule_connector_id r \<noteq> i) (schedules d) \<and>
     states d' = filter (\<lambda>r. state_connector_id r \<noteq> i) (states d) \<and>
     orders d' = filter (\<lambda>r. order_connector_id r \<noteq> i) (orders d) \<and>
     conversions d' = filter (\<lambda>r. conversion_connector_id r \<noteq> i) (conversions d) \<and>
     outbox_events d' = filter (\<lambda>r. outbox_connector_id r \<noteq> Some i) (outbox_events d) \<and>
     events_sent d' = filter (\<lambda>r. sent_connector_id r \<noteq> Some i) (events_sent d) \<and>
     bank_account_relations d' = filter (\<lambda>r. bar_connector_id r \<noteq> i) (bank_account_relations d) \<and>
     ob_attempts d' = filter (\<lambda>r. oba_connector_id r \<noteq> i) (ob_attempts d) \<and>
     ob_forwarded_users d' = filter (\<lambda>r. obf_connector_id r \<noteq> i) (ob_forwarded_users d) \<and>
     ob_connections d' = filter (\<lambda>r. obc_connector_id r \<noteq> i) (ob_connections d) \<and>
     ob_tokens d' = filter (\<lambda>r. obt_connector_id r \<noteq> i) (ob_tokens d) \<and>
     webhooks_configs d' = filter (\<lambda>r. wc_connector_id r \<noteq> i) (webhooks_configs d) \<and>
     webhooks d' = filter (\<lambda>r. wh_connector_id r \<noteq> i) (webhooks d) \<and>
     connector_tasks_tree d' = filter (\<lambda>r. tt_connector_id r \<noteq> i) (connector_tasks_tree d) \<and>
     bank_accounts d' = bank_accounts d \<and> payment_service_users d' = payment_service_users d \<and>
     pools d' = pools d \<and> pool_accounts d' = pool_accounts d"

lemma adjustments_split:
  assumes "unique_key payment_id (payments d)" "refers pa_payment_id (payment_adjustments d) payment_id (payments d)"
    "a \<in> set (payment_adjustments d)"
  shows "\<not> has_key payment_id (pa_payment_id a) (filter p (payments d)) \<longleftrightarrow>
    has_key payment_id (pa_payment_id a) (filter (\<lambda>r. \<not> p r) (payments d))"
proof -
  from assms(2,3) obtain r where r: "r \<in> set (payments d)" "payment_id r = pa_payment_id a"
    by (auto simp: refers_def has_key_iff)
  have "r' = r" if "r' \<in> set (payments d)" "payment_id r' = pa_payment_id a" for r'
    using assms(1) r that unfolding unique_key_def distinct_map inj_on_def by metis
  then have "(\<exists>x\<in>set (payments d). q x \<and> payment_id x = pa_payment_id a) \<longleftrightarrow> q r" for q
    using r by blast
  moreover have "has_key payment_id (pa_payment_id a) (filter q (payments d)) \<longleftrightarrow>
      (\<exists>x\<in>set (payments d). q x \<and> payment_id x = pa_payment_id a)" for q
    by (auto simp: has_key_iff intro: rev_image_eqI)
  ultimately show ?thesis by simp
qed



end
