(* ===== verification/Paging.thy ===== *)
theory Paging
  imports Reversals_Store
begin

text \<open>
  Listing the adjustments of a payment initiation
  (internal/storage/payment_initiations.go, paginate.go) and the loops that
  read every page.  The paginator is a library: it is the parameter pg, a
  function from offset, page size and rows to the page and the offset of the
  next one (the cursor's Next; HasMore says whether there is one).
\<close>

section \<open>Cursors\<close>

type_synonym 'r pager = "nat \<Rightarrow> nat \<Rightarrow> 'r list \<Rightarrow> 'r list \<times> nat option"

text \<open>The documented behaviour of offset pagination.\<close>

definition offset_pager :: "'r pager \<Rightarrow> bool" where
  "offset_pager pg \<longleftrightarrow> (\<forall>o' n rs. n > 0 \<longrightarrow>
     pg o' n rs = (take n (drop o' rs), if o' + n < length rs then Some (o' + n) else None))"

record 'a Cursor =
  Cursor_Data :: "'a list"
  Cursor_Next :: "nat option"

definition HasMore :: "'a Cursor \<Rightarrow> bool" where
  "HasMore c \<longleftrightarrow> Cursor_Next c \<noteq> None"

section \<open>Metadata filters\<close>

text \<open>
  \<^verbatim>\<open>metadata\[(.+)\]\<close>: the group of the leftmost match, up to the last
  bracket of the line.
\<close>

definition metadata_group :: "string \<Rightarrow> string option" where
  "metadata_group s =
     (let body = dropWhile (\<lambda>c. c \<noteq> CHR '']'') (rev (takeWhile (\<lambda>c. c \<noteq> CHR 0x0A) s)) in
      if length body \<ge> 2 then Some (rev (tl body)) else None)"

fun metadataRegex :: "string \<Rightarrow> string option" where
  "metadataRegex [] = None"
| "metadataRegex (c # cs) =
     (case (if has_prefix ''metadata['' (c # cs) then metadata_group (drop 9 (c # cs)) else None) of
        Some k \<Rightarrow> Some k
      | None \<Rightarrow> metadataRegex cs)"

section \<open>Adjustments of a payment initiation\<close>

text \<open>The condition a pair of key and operator stands for, or why it is refused.\<close>

definition paymentsInitiationAdjustmentsQueryContext ::
  "string \<Rightarrow> string \<Rightarrow> string \<Rightarrow> (pi_adjustment_row \<Rightarrow> bool) result" where
  "paymentsInitiationAdjustmentsQueryContext key operator value =
     (if key = ''status'' then
        (if operator \<noteq> ''$match''
         then Inl (Wrap ([CHR 0x27] @ ''status'' @ [CHR 0x27] @ '' column can only be used with $match'')
                     (Sentinel Storage_ErrValidation))
         else Inr (\<lambda>r. PaymentInitiationAdjustmentStatus_String (pia_status r) = value))
      else case metadataRegex key of
        Some k \<Rightarrow>
          if operator \<noteq> ''$match''
          then Inl (Wrap ([CHR 0x27] @ ''metadata'' @ [CHR 0x27] @ '' column can only be used with $match'')
                      (Sentinel Storage_ErrValidation))
          else Inr (\<lambda>r. pia_metadata r k = Some value)
      | None \<Rightarrow> Inl (Wrap (''unknown key '' @ [CHR 0x27] @ key @ [CHR 0x27] @ '' when building query'')
                       (Sentinel Storage_ErrValidation)))"

text \<open>The query builders the code gives: none, or one match of a key with a value.\<close>

record AdjustmentsQuery =
  AdjustmentsQuery_PageSize :: nat
  AdjustmentsQuery_Offset :: nat
  AdjustmentsQuery_Match :: "(string \<times> string) option"

definition NewListPaymentInitiationAdjustmentsQuery ::
  "nat \<Rightarrow> (string \<times> string) option \<Rightarrow> AdjustmentsQuery" where
  "NewListPaymentInitiationAdjustmentsQuery pageSize builder =
     \<lparr>AdjustmentsQuery_PageSize = pageSize, AdjustmentsQuery_Offset = 0, AdjustmentsQuery_Match = builder\<rparr>"

definition adjustments_where :: "AdjustmentsQuery \<Rightarrow> (pi_adjustment_row \<Rightarrow> bool) result" where
  "adjustments_where q = (case AdjustmentsQuery_Match q of None \<Rightarrow> Inr (\<lambda>_. True)
     | Some (k, v) \<Rightarrow> paymentsInitiationAdjustmentsQueryContext k ''$match'' v)"

text \<open>ORDER BY created_at DESC, sort_id DESC.\<close>

definition newest_first :: "('r \<Rightarrow> time) \<Rightarrow> 'r list \<Rightarrow> 'r list" where
  "newest_first c rows = rev (sort_key c rows)"

definition PaymentInitiationAdjustmentsList ::
  "faults \<Rightarrow> pi_adjustment_row pager \<Rightarrow> PaymentInitiationID \<Rightarrow> AdjustmentsQuery \<Rightarrow>
     (db, PaymentInitiationAdjustment Cursor) tx" where
  "PaymentInitiationAdjustmentsList fl pg piID q = (case adjustments_where q of
     Inl err \<Rightarrow> tx_fail err
   | Inr p \<Rightarrow> stmt fl ''failed to fetch accounts''
       (tx_get (\<lambda>d. let (page, nxt) = pg (AdjustmentsQuery_Offset q) (AdjustmentsQuery_PageSize q)
                          (newest_first pia_created_at (filter p (initiation_adjustments piID d))) in
          \<lparr>Cursor_Data = map toPaymentInitiationAdjustmentModels page, Cursor_Next = nxt\<rparr>)))"

section \<open>Facts\<close>

lemma newest_first_set [simp]: "set (newest_first c rows) = set rows"
  by (simp add: newest_first_def)

lemma newest_first_length [simp]: "length (newest_first c rows) = length rows"
  by (simp add: newest_first_def)

lemma newest_first_filter: "newest_first c (filter p rows) = filter p (newest_first c rows)"
  by (simp add: newest_first_def filter_sort[symmetric] rev_filter)

lemma last_insort_key:
  assumes "sorted (map c xs)" "xs \<noteq> []"
  shows "last (insort_key c x xs) = (if c x \<le> c (last xs) then last xs else x)"
  using assms
proof (induction xs)
  case Nil
  then show ?case by simp
next
  case (Cons y ys)
  show ?case
  proof (cases "ys = []")
    case True
    then show ?thesis by simp
  next
    case False
    with Cons have IH: "last (insort_key c x ys) = (if c x \<le> c (last ys) then last ys else x)" by simp
    have "c y \<le> c (last ys)" using Cons.prems False by simp
    with IH False show ?thesis by (auto simp: insort_not_Nil)
  qed
qed

lemma sort_key_last: "rows \<noteq> [] \<Longrightarrow> latest_by c rows = Some (last (sort_key c rows))"
proof (induction rows)
  case Nil
  then show ?case by simp
next
  case (Cons r rs)
  show ?case
  proof (cases "rs = []")
    case True
    then show ?thesis by simp
  next
    case False
    then have ne: "sort_key c rs \<noteq> []" by (metis length_0_conv length_sort)
    from Cons False have "latest_by c rs = Some (last (sort_key c rs))" by simp
    with last_insort_key[of c "sort_key c rs" r] ne show ?thesis by simp
  qed
qed

text \<open>The head of a listing is the last adjustment.\<close>

lemma newest_first_head: "rows \<noteq> [] \<Longrightarrow> latest_by c rows = Some (hd (newest_first c rows))"
  by (simp add: newest_first_def sort_key_last hd_rev)

lemma take_1_newest:
  "take 1 (newest_first c rows) = (case latest_by c rows of None \<Rightarrow> [] | Some r \<Rightarrow> [r])"
proof (cases "rows = []")
  case True
  then show ?thesis by (simp add: newest_first_def)
next
  case False
  then have "newest_first c rows \<noteq> []" by (metis newest_first_length length_0_conv)
  then show ?thesis using newest_first_head[OF False, of c] by (cases "newest_first c rows") auto
qed

lemma offset_pagerD:
  "offset_pager pg \<Longrightarrow> n > 0 \<Longrightarrow>
     pg o' n rs = (take n (drop o' rs), if o' + n < length rs then Some (o' + n) else None)"
  by (simp add: offset_pager_def)

lemma list_page_1:
  assumes "offset_pager pg" "fl ''failed to fetch accounts'' = None"
  shows "PaymentInitiationAdjustmentsList fl pg i (NewListPaymentInitiationAdjustmentsQuery 1 None) d =
    (Inr \<lparr>Cursor_Data = (case last_adjustment i d of None \<Rightarrow> []
             | Some r \<Rightarrow> [toPaymentInitiationAdjustmentModels r]),
          Cursor_Next = (if 1 < length (initiation_adjustments i d) then Some 1 else None)\<rparr>, d)"
proof -
  have "pg 0 1 (newest_first pia_created_at (initiation_adjustments i d)) =
    (take 1 (newest_first pia_created_at (initiation_adjustments i d)),
     if 1 < length (initiation_adjustments i d) then Some 1 else None)"
    using offset_pagerD[OF assms(1), of 1 0] by simp
  then show ?thesis
    using assms(2) take_1_newest[of pia_created_at "initiation_adjustments i d"]
    by (simp add: PaymentInitiationAdjustmentsList_def NewListPaymentInitiationAdjustmentsQuery_def
        adjustments_where_def stmt_def last_adjustment_def split: option.splits)
qed

lemma HasMore_simp [simp]: "HasMore \<lparr>Cursor_Data = xs, Cursor_Next = n\<rparr> \<longleftrightarrow> n \<noteq> None"
  by (simp add: HasMore_def)

end
