(* ===== verification/Initiations_Services.thy ===== *)
theory Initiations_Services
  imports Paging Runtime_Store
begin

text \<open>
  internal/api/services/payment_initiations_*.go and the operations of
  internal/connectors/engine/engine.go they call: creating, approving,
  rejecting, retrying, deleting and reversing a payment initiation.  An
  operation checks the last adjustment, records a task and starts a workflow.
\<close>

section \<open>The system\<close>

text \<open>
  A workflow the engine starts, with its arguments; the state is the database,
  the workflows started so far by their Temporal identifier, the schedules
  registered in Temporal and the requests sent to payment providers.
\<close>

datatype workflow_call =
    RunCreateTransfer TaskID ConnectorID PaymentInitiationID
  | RunCreatePayout TaskID ConnectorID PaymentInitiationID
  | RunReverseTransfer TaskID ConnectorID PaymentInitiationReversalID
  | RunReversePayout TaskID ConnectorID PaymentInitiationReversalID

datatype psp_request =
    CreateTransferRequest ConnectorID PSPPaymentInitiation
  | CreatePayoutRequest ConnectorID PSPPaymentInitiation
  | ReverseTransferRequest ConnectorID PSPPaymentInitiationReversal
  | ReversePayoutRequest ConnectorID PSPPaymentInitiationReversal
  | PollTransferStatusRequest ConnectorID string
  | PollPayoutStatusRequest ConnectorID string

type_synonym runs = "(string \<times> workflow_call) list"

record sys =
  sys_db :: db
  sys_runs :: runs
  sys_schedules :: "string list"
  sys_requests :: "psp_request list"

definition on_db :: "(db, 'a) tx \<Rightarrow> (sys, 'a) tx" where
  "on_db m = (\<lambda>s. let (r, d) = m (sys_db s) in (r, s\<lparr>sys_db := d\<rparr>))"

text \<open>
  What the services take from outside: the environment of the storage, the
  name of the stack, Temporal's ExecuteWorkflow and the outcome of waiting for
  a run, the paginator.
\<close>

record svc =
  svc_env :: env
  svc_stack :: string
  svc_start :: "string \<Rightarrow> workflow_call \<Rightarrow> runs \<Rightarrow> unit result \<times> runs"
  svc_wait :: "string \<Rightarrow> unit result"
  svc_pager :: "pi_adjustment_row pager"

text \<open>
  The policy the engine asks for, WORKFLOW_ID_REUSE_POLICY_REJECT_DUPLICATE
  without an error when already started: an identifier that was used starts
  nothing and answers with the run it has.
\<close>

definition rejects_duplicates :: "(string \<Rightarrow> workflow_call \<Rightarrow> runs \<Rightarrow> unit result \<times> runs) \<Rightarrow> bool" where
  "rejects_duplicates start \<longleftrightarrow> (\<forall>i call rs.
     start i call rs = (Inr (), if i \<in> fst ` set rs then rs else rs @ [(i, call)]))"

definition svc_storage :: "string \<Rightarrow> ('s, 'a) tx \<Rightarrow> ('s, 'a) tx" where
  "svc_storage msg m = (\<lambda>s. case m s of (Inl err, s') \<Rightarrow> (Inl (StorageErr msg err), s') | ok \<Rightarrow> ok)"

definition svc_engine :: "('s, 'a) tx \<Rightarrow> ('s, 'a) tx" where
  "svc_engine m = (\<lambda>s. case m s of
      (Inl err, s') \<Rightarrow> (Inl (the (handleEngineErrors (Some err))), s') | ok \<Rightarrow> ok)"

section \<open>The engine\<close>

definition processing_task :: "svc \<Rightarrow> string \<Rightarrow> ConnectorID \<Rightarrow> Task" where
  "processing_task v i c =
     \<lparr>Task_ID = \<lparr>TaskID_Reference = i, TaskID_ConnectorID = c\<rparr>,
      Task_ConnectorID = Some c, Task_Status = TASK_STATUS_PROCESSING,
      Task_CreatedAt = env_now (svc_env v), Task_UpdatedAt = env_now (svc_env v),
      Task_CreatedObjectID = None, Task_Error = None\<rparr>"

text \<open>Record the task, start the workflow, wait for it if asked.\<close>

definition run_task ::
  "svc \<Rightarrow> faults \<Rightarrow> string \<Rightarrow> ConnectorID \<Rightarrow> (TaskID \<Rightarrow> workflow_call) \<Rightarrow> bool \<Rightarrow> (error \<Rightarrow> error) \<Rightarrow> (sys, Task) tx" where
  "run_task v fl i c call waitResult convert =
     (let t = processing_task v i c in
      tx_seq (on_db (TasksUpsert (svc_env v) fl t))
      (tx_seq (\<lambda>s. let (r, rs) = svc_start v i (call (Task_ID t)) (sys_runs s) in (r, s\<lparr>sys_runs := rs\<rparr>))
        (if waitResult
         then (case svc_wait v i of Inl err \<Rightarrow> tx_fail (convert err) | Inr _ \<Rightarrow> tx_return t)
         else tx_return t)))"

definition engine_CreateFormancePaymentInitiation ::
  "svc \<Rightarrow> faults \<Rightarrow> PaymentInitiation \<Rightarrow> PaymentInitiationAdjustment \<Rightarrow> (sys, unit) tx" where
  "engine_CreateFormancePaymentInitiation v fl p adj =
     on_db (PaymentInitiationsInsert (svc_env v) fl p [adj])"

definition create_reference :: "svc \<Rightarrow> string \<Rightarrow> PaymentInitiationID \<Rightarrow> int \<Rightarrow> string" where
  "create_reference v what piID attempt =
     TaskIDReference (env_uuid_text (svc_env v))
       (what @ ''-'' @ svc_stack v @ ''-'' @ int_digits attempt)
       (PaymentInitiationID_ConnectorID piID) (env_pi_text (svc_env v) piID)"

definition engine_CreateTransfer ::
  "svc \<Rightarrow> faults \<Rightarrow> PaymentInitiationID \<Rightarrow> int \<Rightarrow> bool \<Rightarrow> (sys, Task) tx" where
  "engine_CreateTransfer v fl piID attempt waitResult =
     run_task v fl (create_reference v ''create-transfer'' piID attempt)
       (PaymentInitiationID_ConnectorID piID)
       (\<lambda>t. RunCreateTransfer t (PaymentInitiationID_ConnectorID piID) piID) waitResult handleWorkflowError"

definition engine_CreatePayout ::
  "svc \<Rightarrow> faults \<Rightarrow> PaymentInitiationID \<Rightarrow> int \<Rightarrow> bool \<Rightarrow> (sys, Task) tx" where
  "engine_CreatePayout v fl piID attempt waitResult =
     run_task v fl (create_reference v ''create-payout'' piID attempt)
       (PaymentInitiationID_ConnectorID piID)
       (\<lambda>t. RunCreatePayout t (PaymentInitiationID_ConnectorID piID) piID) waitResult handleWorkflowError"

text \<open>The text of a reversal identifier is a parameter of the two operations on reversals.\<close>

definition reverse_reference ::
  "svc \<Rightarrow> (PaymentInitiationReversalID \<Rightarrow> string) \<Rightarrow> string \<Rightarrow> PaymentInitiationReversal \<Rightarrow> string" where
  "reverse_reference v pir_text what reversal =
     TaskIDReference (env_uuid_text (svc_env v)) (what @ ''-'' @ svc_stack v)
       (PaymentInitiationReversal_ConnectorID reversal) (pir_text (PaymentInitiationReversal_ID reversal))"

definition engine_ReverseTransfer ::
  "svc \<Rightarrow> faults \<Rightarrow> (PaymentInitiationReversalID \<Rightarrow> string) \<Rightarrow> PaymentInitiationReversal \<Rightarrow> bool \<Rightarrow> (sys, Task) tx" where
  "engine_ReverseTransfer v fl pir_text reversal waitResult =
     run_task v fl (reverse_reference v pir_text ''reverse-transfer'' reversal)
       (PaymentInitiationReversal_ConnectorID reversal)
       (\<lambda>t. RunReverseTransfer t (PaymentInitiationReversal_ConnectorID reversal)
              (PaymentInitiationReversal_ID reversal)) waitResult (\<lambda>err. err)"

definition engine_ReversePayout ::
  "svc \<Rightarrow> faults \<Rightarrow> (PaymentInitiationReversalID \<Rightarrow> string) \<Rightarrow> PaymentInitiationReversal \<Rightarrow> bool \<Rightarrow> (sys, Task) tx" where
  "engine_ReversePayout v fl pir_text reversal waitResult =
     run_task v fl (reverse_reference v pir_text ''reverse-payout'' reversal)
       (PaymentInitiationReversal_ConnectorID reversal)
       (\<lambda>t. RunReversePayout t (PaymentInitiationReversal_ConnectorID reversal)
              (PaymentInitiationReversal_ID reversal)) waitResult (\<lambda>err. err)"

section \<open>The services\<close>

definition empty_task :: Task where
  "empty_task = \<lparr>Task_ID = \<lparr>TaskID_Reference = [],
       TaskID_ConnectorID = \<lparr>ConnectorID_Reference = 0, ConnectorID_Provider = []\<rparr>\<rparr>,
     Task_ConnectorID = None, Task_Status = [], Task_CreatedAt = 0, Task_UpdatedAt = 0,
     Task_CreatedObjectID = None, Task_Error = None\<rparr>"

definition waiting_adjustment :: "PaymentInitiation \<Rightarrow> PaymentInitiationAdjustment" where
  "waiting_adjustment p =
     \<lparr>PaymentInitiationAdjustment_ID =
        \<lparr>PaymentInitiationAdjustmentID_PaymentInitiationID = PaymentInitiation_ID p,
         PaymentInitiationAdjustmentID_CreatedAt = PaymentInitiation_CreatedAt p,
         PaymentInitiationAdjustmentID_Status = PAYMENT_INITIATION_ADJUSTMENT_STATUS_WAITING_FOR_VALIDATION\<rparr>,
      PaymentInitiationAdjustment_CreatedAt = PaymentInitiation_CreatedAt p,
      PaymentInitiationAdjustment_Status = PAYMENT_INITIATION_ADJUSTMENT_STATUS_WAITING_FOR_VALIDATION,
      PaymentInitiationAdjustment_Amount = PaymentInitiation_Amount p,
      PaymentInitiationAdjustment_Asset = Some (PaymentInitiation_Asset p),
      PaymentInitiationAdjustment_Error = None,
      PaymentInitiationAdjustment_Metadata = Map.empty\<rparr>"

definition launch :: "svc \<Rightarrow> faults \<Rightarrow> PaymentInitiationType \<Rightarrow> PaymentInitiationID \<Rightarrow> int \<Rightarrow> bool \<Rightarrow> (sys, Task) tx" where
  "launch v fl ty piID attempt waitResult = (case ty of
     PAYMENT_INITIATION_TYPE_TRANSFER \<Rightarrow> svc_engine (engine_CreateTransfer v fl piID attempt waitResult)
   | PAYMENT_INITIATION_TYPE_PAYOUT \<Rightarrow> svc_engine (engine_CreatePayout v fl piID attempt waitResult)
   | _ \<Rightarrow> tx_return empty_task)"

definition PaymentInitiationsCreate ::
  "svc \<Rightarrow> faults \<Rightarrow> PaymentInitiation \<Rightarrow> bool \<Rightarrow> bool \<Rightarrow> (sys, Task) tx" where
  "PaymentInitiationsCreate v fl p sendToPSP waitResult =
     tx_seq (svc_engine (engine_CreateFormancePaymentInitiation v fl p (waiting_adjustment p)))
       (if \<not> sendToPSP then tx_return empty_task
        else launch v fl (PaymentInitiation_Type p) (PaymentInitiation_ID p) 1 waitResult)"

text \<open>The last adjustment of a payment initiation, or why there is none.\<close>

definition service_last_adjustment ::
  "svc \<Rightarrow> faults \<Rightarrow> PaymentInitiationID \<Rightarrow> string \<Rightarrow> string \<Rightarrow> (sys, PaymentInitiationAdjustment) tx" where
  "service_last_adjustment v fl i list_msg missing_msg =
     tx_bind (svc_storage list_msg (on_db (PaymentInitiationAdjustmentsList fl (svc_pager v) i
         (NewListPaymentInitiationAdjustmentsQuery 1 None))))
       (\<lambda>cursor. case Cursor_Data cursor of
          [] \<Rightarrow> tx_fail (Plain missing_msg)
        | adj # _ \<Rightarrow> tx_return adj)"

definition PaymentInitiationAdjustmentsGetLast ::
  "svc \<Rightarrow> faults \<Rightarrow> PaymentInitiationID \<Rightarrow> (sys, PaymentInitiationAdjustment) tx" where
  "PaymentInitiationAdjustmentsGetLast v fl i =
     service_last_adjustment v fl i
       (''cannot list payment initiation'' @ [CHR 0x27] @ ''s adjustments'')
       (''payment initiation'' @ [CHR 0x27] @ ''s adjustments not found'')"

text \<open>The guard of approval, rejection and deletion.\<close>

definition require_waiting :: "svc \<Rightarrow> faults \<Rightarrow> PaymentInitiationID \<Rightarrow> string \<Rightarrow> (sys, unit) tx" where
  "require_waiting v fl i refusal =
     tx_bind (service_last_adjustment v fl i ''cannot list payment initiation adjustments''
         ''payment initiation adjustments not found'')
       (\<lambda>lastAdjustment.
          if PaymentInitiationAdjustment_Status lastAdjustment
             \<noteq> PAYMENT_INITIATION_ADJUSTMENT_STATUS_WAITING_FOR_VALIDATION
          then tx_fail (Wrap refusal (Sentinel Services_ErrValidation))
          else tx_return ())"

definition PaymentInitiationsApprove ::
  "svc \<Rightarrow> faults \<Rightarrow> PaymentInitiationID \<Rightarrow> bool \<Rightarrow> (sys, Task) tx" where
  "PaymentInitiationsApprove v fl i waitResult =
     tx_seq (require_waiting v fl i ''cannot approve an already approved payment initiation'')
       (tx_bind (svc_storage ''cannot get payment initiation'' (on_db (PaymentInitiationsGet fl i)))
         (\<lambda>p. launch v fl (PaymentInitiation_Type p) (PaymentInitiation_ID p) 1
            (if \<not> time_IsZero (PaymentInitiation_ScheduledAt p) \<and>
                PaymentInitiation_ScheduledAt p > env_now (svc_env v)
             then False else waitResult)))"

definition rejected_adjustment :: "PaymentInitiationID \<Rightarrow> time \<Rightarrow> PaymentInitiationAdjustment" where
  "rejected_adjustment i now =
     \<lparr>PaymentInitiationAdjustment_ID =
        \<lparr>PaymentInitiationAdjustmentID_PaymentInitiationID = i,
         PaymentInitiationAdjustmentID_CreatedAt = now,
         PaymentInitiationAdjustmentID_Status = PAYMENT_INITIATION_ADJUSTMENT_STATUS_REJECTED\<rparr>,
      PaymentInitiationAdjustment_CreatedAt = now,
      PaymentInitiationAdjustment_Status = PAYMENT_INITIATION_ADJUSTMENT_STATUS_REJECTED,
      PaymentInitiationAdjustment_Amount = None,
      PaymentInitiationAdjustment_Asset = None,
      PaymentInitiationAdjustment_Error = None,
      PaymentInitiationAdjustment_Metadata = Map.empty\<rparr>"

definition PaymentInitiationsReject :: "svc \<Rightarrow> faults \<Rightarrow> PaymentInitiationID \<Rightarrow> (sys, unit) tx" where
  "PaymentInitiationsReject v fl i =
     tx_seq (require_waiting v fl i ''cannot reject an already approved payment initiation'')
       (svc_storage ''cannot reject payment initiation''
         (on_db (PaymentInitiationAdjustmentsUpsert (svc_env v) fl
            (rejected_adjustment i (env_now (svc_env v))))))"

definition service_PaymentInitiationsDelete :: "svc \<Rightarrow> faults \<Rightarrow> PaymentInitiationID \<Rightarrow> (sys, unit) tx" where
  "service_PaymentInitiationsDelete v fl i =
     tx_seq (require_waiting v fl i ''cannot delete an already approved payment initiation'')
       (svc_storage ''cannot delete payment initiation'' (on_db (PaymentInitiationsDelete fl i)))"

section \<open>Retrying\<close>

definition getAttemps :: "PaymentInitiationAdjustment list \<Rightarrow> int" where
  "getAttemps adjustments = int (length (filter
     (\<lambda>a. PaymentInitiationAdjustment_Status a = PAYMENT_INITIATION_ADJUSTMENT_STATUS_FAILED) adjustments))"

text \<open>
  The loop of getAllPaymentInitiationAdjustments.  It may not end, so its value
  is an option.  The variable next is the source's: it is declared before the
  loop, read at its head and never assigned.
\<close>

partial_function (option) all_adjustments_loop ::
  "faults \<Rightarrow> pi_adjustment_row pager \<Rightarrow> PaymentInitiationID \<Rightarrow> nat option \<Rightarrow> AdjustmentsQuery \<Rightarrow>
     PaymentInitiationAdjustment list \<Rightarrow> db \<Rightarrow> (PaymentInitiationAdjustment list result \<times> db) option" where
  "all_adjustments_loop fl pg i nxt q adjustments d =
     (let q' = (case nxt of None \<Rightarrow> q | Some o' \<Rightarrow> q\<lparr>AdjustmentsQuery_Offset := o'\<rparr>) in
      case PaymentInitiationAdjustmentsList fl pg i q' d of
        (Inl err, d') \<Rightarrow> Some (Inl (StorageErr ''cannot list payment initiation adjustments'' err), d')
      | (Inr cursor, d') \<Rightarrow>
          (let adjustments' = adjustments @ Cursor_Data cursor in
           if Cursor_Next cursor = None then Some (Inr adjustments', d')
           else all_adjustments_loop fl pg i nxt q' adjustments' d'))"

definition getAllPaymentInitiationAdjustments ::
  "faults \<Rightarrow> pi_adjustment_row pager \<Rightarrow> PaymentInitiationID \<Rightarrow> db \<Rightarrow>
     (PaymentInitiationAdjustment list result \<times> db) option" where
  "getAllPaymentInitiationAdjustments fl pg i d =
     all_adjustments_loop fl pg i None (NewListPaymentInitiationAdjustmentsQuery 50 None) [] d"

definition retry_with ::
  "svc \<Rightarrow> faults \<Rightarrow> PaymentInitiationID \<Rightarrow> bool \<Rightarrow> PaymentInitiationAdjustment list \<Rightarrow> (sys, Task) tx" where
  "retry_with v fl i waitResult adjustments = (case adjustments of
     [] \<Rightarrow> tx_fail (Plain ''payment initiation adjustments not found'')
   | lastAdjustment # _ \<Rightarrow>
       if PaymentInitiationAdjustment_Status lastAdjustment \<noteq> PAYMENT_INITIATION_ADJUSTMENT_STATUS_FAILED
       then tx_fail (Wrap ''cannot retry an already processed payment initiation''
                      (Sentinel Services_ErrValidation))
       else tx_bind (svc_storage ''cannot get payment initiation'' (on_db (PaymentInitiationsGet fl i)))
         (\<lambda>p. launch v fl (PaymentInitiation_Type p) (PaymentInitiation_ID p)
            (getAttemps adjustments + 1) waitResult))"

definition PaymentInitiationsRetry ::
  "svc \<Rightarrow> faults \<Rightarrow> PaymentInitiationID \<Rightarrow> bool \<Rightarrow> sys \<Rightarrow> (Task result \<times> sys) option" where
  "PaymentInitiationsRetry v fl i waitResult s =
     (case getAllPaymentInitiationAdjustments fl (svc_pager v) i (sys_db s) of
        None \<Rightarrow> None
      | Some (Inl err, d) \<Rightarrow> Some (Inl err, s\<lparr>sys_db := d\<rparr>)
      | Some (Inr adjustments, d) \<Rightarrow> Some (retry_with v fl i waitResult adjustments (s\<lparr>sys_db := d\<rparr>)))"

section \<open>Reversals\<close>

definition first_reversal_adjustment :: "PaymentInitiationReversal \<Rightarrow> PaymentInitiationReversalAdjustment" where
  "first_reversal_adjustment reversal =
     \<lparr>PaymentInitiationReversalAdjustment_ID =
        \<lparr>PaymentInitiationReversalAdjustmentID_PaymentInitiationReversalID =
           PaymentInitiationReversal_ID reversal,
         PaymentInitiationReversalAdjustmentID_CreatedAt = PaymentInitiationReversal_CreatedAt reversal,
         PaymentInitiationReversalAdjustmentID_Status = PAYMENT_INITIATION_REVERSAL_STATUS_PROCESSING\<rparr>,
      PaymentInitiationReversalAdjustment_PaymentInitiationReversalID = PaymentInitiationReversal_ID reversal,
      PaymentInitiationReversalAdjustment_CreatedAt = PaymentInitiationReversal_CreatedAt reversal,
      PaymentInitiationReversalAdjustment_Status = PAYMENT_INITIATION_REVERSAL_STATUS_PROCESSED,
      PaymentInitiationReversalAdjustment_Error = None,
      PaymentInitiationReversalAdjustment_Metadata = Map.empty\<rparr>"

definition PaymentInitiationReversalsCreate ::
  "svc \<Rightarrow> faults \<Rightarrow> (PaymentInitiationReversalID \<Rightarrow> string) \<Rightarrow> PaymentInitiationReversal \<Rightarrow> bool \<Rightarrow> (sys, Task) tx" where
  "PaymentInitiationReversalsCreate v fl pir_text reversal waitResult =
     tx_bind (svc_storage ''cannot get payment initiation''
         (on_db (PaymentInitiationsGet fl (PaymentInitiationReversal_PaymentInitiationID reversal))))
       (\<lambda>p. if PaymentInitiation_Asset p \<noteq> PaymentInitiationReversal_Asset reversal
          then tx_fail (Wrap ''invalid asset for payment initiation reversal'' (Sentinel Services_ErrValidation))
          else tx_seq (svc_storage ''cannot create payment initiation reversal''
              (on_db (PaymentInitiationReversalsUpsert (svc_env v) fl reversal
                 [first_reversal_adjustment reversal])))
            (case PaymentInitiation_Type p of
               PAYMENT_INITIATION_TYPE_TRANSFER \<Rightarrow>
                 svc_engine (engine_ReverseTransfer v fl pir_text reversal waitResult)
             | PAYMENT_INITIATION_TYPE_PAYOUT \<Rightarrow>
                 svc_engine (engine_ReversePayout v fl pir_text reversal waitResult)
             | _ \<Rightarrow> tx_return empty_task))"

end
