(* ===== verification/Initiations_Workflows.thy ===== *)
theory Initiations_Workflows
  imports Initiations_Services
begin

text \<open>
  internal/connectors/engine/workflow: create_transfer.go, create_payout.go,
  poll_transfer.go, poll_payout.go, reverse.go, reverse_transfer.go,
  reverse_payout.go, update_tasks.go, update_payment_initiation_from_payment.go
  and the helpers of utils.go.  A workflow is a sequence of activities; each
  activity is its last attempt (the earlier ones are the subject of theory
  Retries).  Transfers and payouts are the same code over different plugin
  calls, and so are their definitions.
\<close>

section \<open>What the workflows take from outside\<close>

text \<open>Answers of a plugin: a payment, or an identifier to poll, or neither.\<close>

record create_response =
  create_response_Payment :: "PSPPayment option"
  create_response_Polling :: "string option"

record poll_response =
  poll_response_Payment :: "PSPPayment option"
  poll_response_Error :: "string option"

text \<open>
  wfl_now is workflow.Now at the named points of a workflow (it moves only when
  an activity returns); wfl_fill adds the details of a bank account to an
  external account (fillFormanceBankAccount); wfl_sleep is the outcome of
  workflow.Sleep; wfl_schedule and wfl_unschedule are the errors of Temporal's
  schedule client.
\<close>

record wfl =
  wfl_env :: env
  wfl_stack :: string
  wfl_now :: "string \<Rightarrow> time"
  wfl_time_text :: "time \<Rightarrow> string"
  wfl_sleep :: "error option"
  wfl_fill :: "Account \<Rightarrow> Account result"
  wfl_create_transfer :: "ConnectorID \<Rightarrow> PSPPaymentInitiation \<Rightarrow> create_response result"
  wfl_create_payout :: "ConnectorID \<Rightarrow> PSPPaymentInitiation \<Rightarrow> create_response result"
  wfl_poll_transfer :: "ConnectorID \<Rightarrow> string \<Rightarrow> poll_response result"
  wfl_poll_payout :: "ConnectorID \<Rightarrow> string \<Rightarrow> poll_response result"
  wfl_reverse_transfer :: "ConnectorID \<Rightarrow> PSPPaymentInitiationReversal \<Rightarrow> PSPPayment result"
  wfl_reverse_payout :: "ConnectorID \<Rightarrow> PSPPaymentInitiationReversal \<Rightarrow> PSPPayment result"
  wfl_polling_period :: "ConnectorID \<Rightarrow> int result"
  wfl_schedule :: "string \<Rightarrow> error option"
  wfl_unschedule :: "string \<Rightarrow> error option"
  wfl_pager :: "pi_adjustment_row pager"

section \<open>Activities\<close>

text \<open>A storage activity: its error crosses to the workflow as a Temporal application error.\<close>

definition activity :: "(db, 'a) tx \<Rightarrow> (sys, 'a) tx" where
  "activity m = (\<lambda>s. case on_db m s of
      (Inl err, s') \<Rightarrow> (Inl (the (temporalStorageError (Some err))), s') | ok \<Rightarrow> ok)"

definition plugin_call :: "psp_request \<Rightarrow> 'a result \<Rightarrow> (sys, 'a) tx" where
  "plugin_call request answer = (\<lambda>s. (answer, s\<lparr>sys_requests := sys_requests s @ [request]\<rparr>))"

definition TemporalScheduleCreate :: "wfl \<Rightarrow> string \<Rightarrow> (sys, unit) tx" where
  "TemporalScheduleCreate w i = (case wfl_schedule w i of
     Some err \<Rightarrow> tx_fail err
   | None \<Rightarrow> tx_modify (\<lambda>s. s\<lparr>sys_schedules :=
       (if i \<in> set (sys_schedules s) then sys_schedules s else sys_schedules s @ [i])\<rparr>))"

definition TemporalScheduleDelete :: "wfl \<Rightarrow> string \<Rightarrow> (sys, unit) tx" where
  "TemporalScheduleDelete w i = (case wfl_unschedule w i of
     Some err \<Rightarrow> tx_fail err
   | None \<Rightarrow> tx_modify (\<lambda>s. s\<lparr>sys_schedules := removeAll i (sys_schedules s)\<rparr>))"

text \<open>The predicate of StoragePaymentInitiationsAdjustmentsIfPredicateStore.\<close>

definition StoragePaymentInitiationsAdjustmentsIfPredicateStore ::
  "wfl \<Rightarrow> faults \<Rightarrow> PaymentInitiationAdjustment \<Rightarrow> PaymentInitiationAdjustmentStatus list \<Rightarrow> (sys, bool) tx" where
  "StoragePaymentInitiationsAdjustmentsIfPredicateStore w fl adj unAcceptablePreviousStatus =
     activity (PaymentInitiationAdjustmentsUpsertIfPredicate (wfl_env w) fl adj
       (\<lambda>pia. PaymentInitiationAdjustment_Status pia \<notin> set unAcceptablePreviousStatus))"

section \<open>Tasks\<close>

definition updateTask :: "wfl \<Rightarrow> faults \<Rightarrow> Task \<Rightarrow> (sys, unit) tx" where
  "updateTask w fl t = activity (TasksUpsert (wfl_env w) fl t)"

definition updateTasksError ::
  "wfl \<Rightarrow> faults \<Rightarrow> TaskID \<Rightarrow> ConnectorID option \<Rightarrow> error \<Rightarrow> (sys, unit) tx" where
  "updateTasksError w fl taskID connectorID cause =
     updateTask w fl
       \<lparr>Task_ID = taskID, Task_ConnectorID = connectorID, Task_Status = TASK_STATUS_FAILED,
        Task_CreatedAt = 0, Task_UpdatedAt = wfl_now w ''task'', Task_CreatedObjectID = None,
        Task_Error = Some (Cause cause)\<rparr>"

definition updateTaskSuccess ::
  "wfl \<Rightarrow> faults \<Rightarrow> TaskID \<Rightarrow> ConnectorID option \<Rightarrow> string \<Rightarrow> (sys, unit) tx" where
  "updateTaskSuccess w fl taskID connectorID relatedObjectID =
     updateTask w fl
       \<lparr>Task_ID = taskID, Task_ConnectorID = connectorID, Task_Status = TASK_STATUS_SUCCEEDED,
        Task_CreatedAt = 0, Task_UpdatedAt = wfl_now w ''task'',
        Task_CreatedObjectID = Some relatedObjectID, Task_Error = None\<rparr>"

text \<open>A panic is not an error: it fails the workflow task without passing through the handler.\<close>

fun is_panic :: "error \<Rightarrow> bool" where
  "is_panic (Panic m) = True"
| "is_panic _ = False"

definition report_failure :: "wfl \<Rightarrow> faults \<Rightarrow> TaskID \<Rightarrow> ConnectorID \<Rightarrow> error \<Rightarrow> (sys, 'a) tx" where
  "report_failure w fl taskID connectorID err =
     (if is_panic err then tx_fail err
      else tx_bind (updateTasksError w fl taskID (Some connectorID) err) (\<lambda>_. tx_fail err))"

section \<open>Adjustments and payments\<close>

definition addPIAdjustment ::
  "wfl \<Rightarrow> faults \<Rightarrow> string \<Rightarrow> PaymentInitiationID \<Rightarrow> PaymentInitiationAdjustmentStatus \<Rightarrow>
     int option \<Rightarrow> string option \<Rightarrow> error option \<Rightarrow> metadata \<Rightarrow> (sys, unit) tx" where
  "addPIAdjustment w fl point piID status amount asset err md =
     activity (PaymentInitiationAdjustmentsUpsert (wfl_env w) fl
       \<lparr>PaymentInitiationAdjustment_ID =
          \<lparr>PaymentInitiationAdjustmentID_PaymentInitiationID = piID,
           PaymentInitiationAdjustmentID_CreatedAt = wfl_now w point,
           PaymentInitiationAdjustmentID_Status = status\<rparr>,
        PaymentInitiationAdjustment_CreatedAt = wfl_now w point,
        PaymentInitiationAdjustment_Status = status,
        PaymentInitiationAdjustment_Amount = amount,
        PaymentInitiationAdjustment_Asset = asset,
        PaymentInitiationAdjustment_Error = err,
        PaymentInitiationAdjustment_Metadata = md\<rparr>)"

fun getPIStatusFromPayment :: "PaymentStatus \<Rightarrow> PaymentInitiationAdjustmentStatus" where
  "getPIStatusFromPayment PAYMENT_STATUS_SUCCEEDED = PAYMENT_INITIATION_ADJUSTMENT_STATUS_PROCESSED"
| "getPIStatusFromPayment PAYMENT_STATUS_CAPTURE = PAYMENT_INITIATION_ADJUSTMENT_STATUS_PROCESSED"
| "getPIStatusFromPayment PAYMENT_STATUS_REFUND_REVERSED = PAYMENT_INITIATION_ADJUSTMENT_STATUS_PROCESSED"
| "getPIStatusFromPayment PAYMENT_STATUS_CANCELLED = PAYMENT_INITIATION_ADJUSTMENT_STATUS_FAILED"
| "getPIStatusFromPayment PAYMENT_STATUS_CAPTURE_FAILED = PAYMENT_INITIATION_ADJUSTMENT_STATUS_FAILED"
| "getPIStatusFromPayment PAYMENT_STATUS_FAILED = PAYMENT_INITIATION_ADJUSTMENT_STATUS_FAILED"
| "getPIStatusFromPayment PAYMENT_STATUS_EXPIRED = PAYMENT_INITIATION_ADJUSTMENT_STATUS_FAILED"
| "getPIStatusFromPayment PAYMENT_STATUS_PENDING = PAYMENT_INITIATION_ADJUSTMENT_STATUS_PROCESSING"
| "getPIStatusFromPayment PAYMENT_STATUS_AUTHORISATION = PAYMENT_INITIATION_ADJUSTMENT_STATUS_PROCESSING"
| "getPIStatusFromPayment PAYMENT_STATUS_REFUNDED = PAYMENT_INITIATION_ADJUSTMENT_STATUS_REVERSED"
| "getPIStatusFromPayment PAYMENT_STATUS_REFUNDED_FAILURE =
     PAYMENT_INITIATION_ADJUSTMENT_STATUS_REVERSE_FAILED"
| "getPIStatusFromPayment _ = PAYMENT_INITIATION_ADJUSTMENT_STATUS_UNKNOWN"

definition storePIPaymentWithStatus ::
  "wfl \<Rightarrow> faults \<Rightarrow> Payment \<Rightarrow> PaymentInitiationID \<Rightarrow> PaymentInitiationAdjustmentStatus \<Rightarrow> (sys, unit) tx" where
  "storePIPaymentWithStatus w fl payment piID status =
     tx_seq (activity (PaymentsUpsert (wfl_env w) fl [payment]))
     (tx_seq (activity (PaymentInitiationRelatedPaymentsUpsert (wfl_env w) fl piID (Payment_ID payment)
                (Payment_CreatedAt payment)))
       (addPIAdjustment w fl ''stored'' piID status (Payment_Amount payment) (Some (Payment_Asset payment))
          None Map.empty))"

definition account_of :: "faults \<Rightarrow> AccountID option \<Rightarrow> (sys, Account option) tx" where
  "account_of fl i = (case i of None \<Rightarrow> tx_return None
     | Some a \<Rightarrow> tx_bind (activity (AccountsGet fl a)) (\<lambda>x. tx_return (Some x)))"

definition getPSPPI :: "wfl \<Rightarrow> faults \<Rightarrow> PaymentInitiation \<Rightarrow> (sys, PSPPaymentInitiation) tx" where
  "getPSPPI w fl p =
     tx_bind (account_of fl (PaymentInitiation_SourceAccountID p)) (\<lambda>sourceAccount.
     tx_bind (account_of fl (PaymentInitiation_DestinationAccountID p)) (\<lambda>destination.
     tx_bind (case destination of
         None \<Rightarrow> tx_return None
       | Some a \<Rightarrow> if Account_Type a = ACCOUNT_TYPE_EXTERNAL
                   then tx_bind (tx_lift (wfl_fill w a)) (\<lambda>x. tx_return (Some x))
                   else tx_return (Some a)) (\<lambda>destinationAccount.
       tx_return (FromPaymentInitiationToPSPPaymentInitiation p
         (ToPSPAccount sourceAccount) (ToPSPAccount destinationAccount)))))"

text \<open>The payment a provider answered with, stored and linked; its identifier.\<close>

definition payment_of_psp :: "string \<Rightarrow> PSPPayment \<Rightarrow> ConnectorID \<Rightarrow> Payment result" where
  "payment_of_psp msg p c = (case FromPSPPaymentToPayment p c of
     Inl err \<Rightarrow> Inl (ApplicationError workflow_ErrValidation msg True None (Some err))
   | Inr payment \<Rightarrow> Inr payment)"

definition store_psp_payment ::
  "wfl \<Rightarrow> faults \<Rightarrow> string \<Rightarrow> PSPPayment \<Rightarrow> ConnectorID \<Rightarrow> PaymentInitiationID \<Rightarrow> (sys, string) tx" where
  "store_psp_payment w fl msg p c piID =
     tx_bind (tx_lift (payment_of_psp msg p c)) (\<lambda>payment.
     tx_seq (storePIPaymentWithStatus w fl payment piID (getPIStatusFromPayment (Payment_Status payment)))
       (tx_return (env_payment_text (wfl_env w) (Payment_ID payment))))"

section \<open>Creating at the provider\<close>

text \<open>A future date adds an adjustment and sleeps until then.\<close>

definition wait_schedule :: "wfl \<Rightarrow> faults \<Rightarrow> PaymentInitiation \<Rightarrow> (sys, unit) tx" where
  "wait_schedule w fl p =
     (if \<not> time_IsZero (PaymentInitiation_ScheduledAt p) \<and>
         PaymentInitiation_ScheduledAt p > wfl_now w ''start''
      then tx_seq (addPIAdjustment w fl ''start'' (PaymentInitiation_ID p)
             PAYMENT_INITIATION_ADJUSTMENT_STATUS_SCHEDULED_FOR_PROCESSING
             (PaymentInitiation_Amount p) (Some (PaymentInitiation_Asset p)) None
             [''scheduledAt'' \<mapsto> wfl_time_text w (PaymentInitiation_ScheduledAt p)])
           (case wfl_sleep w of Some err \<Rightarrow> tx_fail err | None \<Rightarrow> tx_return ())
      else tx_return ())"

text \<open>Recording a schedule that polls the provider.\<close>

definition start_polling :: "wfl \<Rightarrow> faults \<Rightarrow> string \<Rightarrow> ConnectorID \<Rightarrow> string \<Rightarrow> (sys, unit) tx" where
  "start_polling w fl what c pollingID =
     (let scheduleID = ''polling-'' @ what @ ''-'' @ wfl_stack w @ ''-'' @
            env_connector_text (wfl_env w) c @ ''-'' @ pollingID in
      tx_bind (tx_lift (wfl_polling_period w c)) (\<lambda>_.
      tx_seq (activity (SchedulesUpsert (wfl_env w) fl
          \<lparr>Schedule_ID = scheduleID, Schedule_ConnectorID = c, Schedule_CreatedAt = wfl_now w ''polling'',
           Schedule_PausedAt = None, Schedule_PausedReason = None\<rparr>))
        (TemporalScheduleCreate w scheduleID)))"

text \<open>
  The body both workflows share: what names the kind in the identifier of the
  schedule, request and call are the plugin's.
\<close>

definition create_at_psp ::
  "wfl \<Rightarrow> faults \<Rightarrow> string \<Rightarrow> (PSPPaymentInitiation \<Rightarrow> psp_request) \<Rightarrow>
     (PSPPaymentInitiation \<Rightarrow> create_response result) \<Rightarrow> TaskID \<Rightarrow> ConnectorID \<Rightarrow> PaymentInitiationID \<Rightarrow>
     (sys, unit) tx" where
  "create_at_psp w fl what request call taskID c piID =
     tx_bind (activity (PaymentInitiationsGet fl piID)) (\<lambda>p.
     tx_seq (wait_schedule w fl p)
     (tx_bind (getPSPPI w fl p) (\<lambda>pspPI.
     tx_seq (addPIAdjustment w fl ''processing'' piID PAYMENT_INITIATION_ADJUSTMENT_STATUS_PROCESSING
               (PaymentInitiation_Amount p) (Some (PaymentInitiation_Asset p)) None Map.empty)
       (\<lambda>s. case plugin_call (request pspPI) (call pspPI) s of
          (Inr response, s') \<Rightarrow>
            (case create_response_Payment response of
               Some payment \<Rightarrow>
                 tx_bind (store_psp_payment w fl ''failed to translate psp payment'' payment c piID)
                   (\<lambda>paymentID. updateTaskSuccess w fl taskID (Some c) paymentID) s'
             | None \<Rightarrow>
                 (case create_response_Polling response of
                    Some pollingID \<Rightarrow> start_polling w fl what c pollingID s'
                  | None \<Rightarrow> (Inr (), s')))
        | (Inl errPlugin, s') \<Rightarrow>
            tx_seq (addPIAdjustment w fl ''failed'' piID PAYMENT_INITIATION_ADJUSTMENT_STATUS_FAILED
                (PaymentInitiation_Amount p) (Some (PaymentInitiation_Asset p)) (Some (Cause errPlugin)) Map.empty)
              (tx_fail errPlugin) s'))))"

definition createTransfer :: "wfl \<Rightarrow> faults \<Rightarrow> TaskID \<Rightarrow> ConnectorID \<Rightarrow> PaymentInitiationID \<Rightarrow> (sys, unit) tx" where
  "createTransfer w fl taskID c piID =
     create_at_psp w fl ''transfer'' (CreateTransferRequest c) (wfl_create_transfer w c) taskID c piID"

definition createPayout :: "wfl \<Rightarrow> faults \<Rightarrow> TaskID \<Rightarrow> ConnectorID \<Rightarrow> PaymentInitiationID \<Rightarrow> (sys, unit) tx" where
  "createPayout w fl taskID c piID =
     create_at_psp w fl ''payout'' (CreatePayoutRequest c) (wfl_create_payout w c) taskID c piID"

definition or_report :: "wfl \<Rightarrow> faults \<Rightarrow> TaskID \<Rightarrow> ConnectorID \<Rightarrow> (sys, 'a) tx \<Rightarrow> (sys, 'a) tx" where
  "or_report w fl taskID c m = (\<lambda>s. case m s of
      (Inl err, s') \<Rightarrow> report_failure w fl taskID c err s' | ok \<Rightarrow> ok)"

definition runCreateTransfer :: "wfl \<Rightarrow> faults \<Rightarrow> TaskID \<Rightarrow> ConnectorID \<Rightarrow> PaymentInitiationID \<Rightarrow> (sys, unit) tx" where
  "runCreateTransfer w fl taskID c piID = or_report w fl taskID c (createTransfer w fl taskID c piID)"

definition runCreatePayout :: "wfl \<Rightarrow> faults \<Rightarrow> TaskID \<Rightarrow> ConnectorID \<Rightarrow> PaymentInitiationID \<Rightarrow> (sys, unit) tx" where
  "runCreatePayout w fl taskID c piID = or_report w fl taskID c (createPayout w fl taskID c piID)"

section \<open>Polling the provider\<close>

definition poll_psp ::
  "wfl \<Rightarrow> faults \<Rightarrow> psp_request \<Rightarrow> poll_response result \<Rightarrow> ConnectorID \<Rightarrow> PaymentInitiationID \<Rightarrow> string \<Rightarrow>
     (sys, string) tx" where
  "poll_psp w fl request answer c piID scheduleID =
     tx_bind (plugin_call request answer) (\<lambda>response.
       case (poll_response_Payment response, poll_response_Error response) of
         (None, None) \<Rightarrow> tx_return []
       | (Some payment, _) \<Rightarrow>
           tx_bind (store_psp_payment w fl ''failed to translate psp payment'' payment c piID) (\<lambda>paymentID.
           tx_seq (TemporalScheduleDelete w scheduleID)
           (tx_seq (activity (SchedulesDelete fl scheduleID)) (tx_return paymentID)))
       | (None, Some err) \<Rightarrow>
           tx_seq (TemporalScheduleDelete w scheduleID)
           (tx_seq (activity (SchedulesDelete fl scheduleID)) (tx_fail (Plain err))))"

definition pollTransfer ::
  "wfl \<Rightarrow> faults \<Rightarrow> ConnectorID \<Rightarrow> PaymentInitiationID \<Rightarrow> string \<Rightarrow> string \<Rightarrow> (sys, string) tx" where
  "pollTransfer w fl c piID transferID scheduleID =
     poll_psp w fl (PollTransferStatusRequest c transferID) (wfl_poll_transfer w c transferID) c piID scheduleID"

definition pollPayout ::
  "wfl \<Rightarrow> faults \<Rightarrow> ConnectorID \<Rightarrow> PaymentInitiationID \<Rightarrow> string \<Rightarrow> string \<Rightarrow> (sys, string) tx" where
  "pollPayout w fl c piID payoutID scheduleID =
     poll_psp w fl (PollPayoutStatusRequest c payoutID) (wfl_poll_payout w c payoutID) c piID scheduleID"

text \<open>An error of the poll is recorded in the task and is not the workflow's.\<close>

definition run_poll :: "wfl \<Rightarrow> faults \<Rightarrow> TaskID \<Rightarrow> ConnectorID \<Rightarrow> (sys, string) tx \<Rightarrow> (sys, unit) tx" where
  "run_poll w fl taskID c m = (\<lambda>s. case m s of
      (Inl err, s') \<Rightarrow> updateTasksError w fl taskID (Some c) err s'
    | (Inr paymentID, s') \<Rightarrow>
        if paymentID \<noteq> [] then updateTaskSuccess w fl taskID (Some c) paymentID s' else (Inr (), s'))"

definition runPollTransfer ::
  "wfl \<Rightarrow> faults \<Rightarrow> TaskID \<Rightarrow> ConnectorID \<Rightarrow> PaymentInitiationID \<Rightarrow> string \<Rightarrow> string \<Rightarrow> (sys, unit) tx" where
  "runPollTransfer w fl taskID c piID transferID scheduleID =
     run_poll w fl taskID c (pollTransfer w fl c piID transferID scheduleID)"

definition runPollPayout ::
  "wfl \<Rightarrow> faults \<Rightarrow> TaskID \<Rightarrow> ConnectorID \<Rightarrow> PaymentInitiationID \<Rightarrow> string \<Rightarrow> string \<Rightarrow> (sys, unit) tx" where
  "runPollPayout w fl taskID c piID payoutID scheduleID =
     run_poll w fl taskID c (pollPayout w fl c piID payoutID scheduleID)"

section \<open>Following a payment\<close>

definition runUpdatePaymentInitiationFromPayment :: "wfl \<Rightarrow> faults \<Rightarrow> Payment \<Rightarrow> (sys, unit) tx" where
  "runUpdatePaymentInitiationFromPayment w fl payment =
     tx_bind (activity (PaymentInitiationIDsListFromPaymentID fl (Payment_ID payment)))
       (\<lambda>piIDs. tx_for piIDs (\<lambda>piID.
          case FromPaymentDataToPaymentInitiationAdjustment (Payment_Status payment)
                 (Payment_CreatedAt payment) piID of
            None \<Rightarrow> tx_return ()
          | Some adjustment \<Rightarrow> activity (PaymentInitiationAdjustmentsUpsert (wfl_env w) fl adjustment)))"

end
