(* ===== verification/Reversal_Workflows.thy ===== *)
theory Reversal_Workflows
  imports Initiations_Workflows
begin

text \<open>
  internal/connectors/engine/workflow/reverse.go, reverse_transfer.go and
  reverse_payout.go: a reversal is checked against the adjustments of its
  payment initiation, sent to the provider and recorded.  The check reads every
  page of a listing, so a workflow is a computation that may not end.
\<close>

section \<open>Computations that may not end\<close>

type_synonym 'a wf = "sys \<Rightarrow> ('a result \<times> sys) option"

definition wf_of :: "(sys, 'a) tx \<Rightarrow> 'a wf" where
  "wf_of m = (\<lambda>s. Some (m s))"

definition wf_bind :: "'a wf \<Rightarrow> ('a \<Rightarrow> 'b wf) \<Rightarrow> 'b wf" where
  "wf_bind m f = (\<lambda>s. case m s of
      None \<Rightarrow> None
    | Some (Inl err, s') \<Rightarrow> Some (Inl err, s')
    | Some (Inr a, s') \<Rightarrow> f a s')"

section \<open>Validation\<close>

definition validatePaymentInitiationProcessed ::
  "wfl \<Rightarrow> faults \<Rightarrow> PaymentInitiationReversal \<Rightarrow> (sys, unit) tx" where
  "validatePaymentInitiationProcessed w fl piReversal =
     tx_bind (activity (PaymentInitiationAdjustmentsList fl (wfl_pager w)
         (PaymentInitiationReversal_PaymentInitiationID piReversal)
         (NewListPaymentInitiationAdjustmentsQuery 1 (Some (''status'',
            PaymentInitiationAdjustmentStatus_String PAYMENT_INITIATION_ADJUSTMENT_STATUS_PROCESSED)))))
       (\<lambda>adjustments. if length (Cursor_Data adjustments) > 0 then tx_return ()
          else tx_fail (ApplicationError ''PAYMENT_INITIATION_NOT_PROCESSED'' ''no adjustments found'' True None
                 (Some (Plain ''payment initiation not processed''))))"

text \<open>Adding a nil *big.Int dereferences it.\<close>

fun add_amounts :: "int \<Rightarrow> PaymentInitiationAdjustment list \<Rightarrow> int result" where
  "add_amounts amountReversed [] = Inr amountReversed"
| "add_amounts amountReversed (adj # adjs) = (case PaymentInitiationAdjustment_Amount adj of
     None \<Rightarrow> Inl (Panic ''runtime error: invalid memory address or nil pointer dereference'')
   | Some a \<Rightarrow> add_amounts (amountReversed + a) adjs)"

partial_function (option) reversed_amount_loop ::
  "faults \<Rightarrow> pi_adjustment_row pager \<Rightarrow> PaymentInitiationID \<Rightarrow> AdjustmentsQuery \<Rightarrow> int \<Rightarrow> sys \<Rightarrow>
     (int result \<times> sys) option" where
  "reversed_amount_loop fl pg i q amountReversed s =
     (case activity (PaymentInitiationAdjustmentsList fl pg i q) s of
        (Inl err, s') \<Rightarrow> Some (Inl err, s')
      | (Inr adjs, s') \<Rightarrow>
          (case add_amounts amountReversed (Cursor_Data adjs) of
             Inl err \<Rightarrow> Some (Inl err, s')
           | Inr amountReversed' \<Rightarrow>
               (case Cursor_Next adjs of
                  None \<Rightarrow> Some (Inr amountReversed', s')
                | Some nxt \<Rightarrow> reversed_amount_loop fl pg i (q\<lparr>AdjustmentsQuery_Offset := nxt\<rparr>)
                                amountReversed' s')))"

text \<open>The amounts of the initiation and of the reversal come from columns that are NOT NULL.\<close>

definition validateReverseAmount ::
  "wfl \<Rightarrow> faults \<Rightarrow> PaymentInitiation \<Rightarrow> PaymentInitiationReversal \<Rightarrow> unit wf" where
  "validateReverseAmount w fl p piReversal =
     wf_bind (reversed_amount_loop fl (wfl_pager w) (PaymentInitiation_ID p)
         (NewListPaymentInitiationAdjustmentsQuery 100 (Some (''status'',
            PaymentInitiationAdjustmentStatus_String PAYMENT_INITIATION_ADJUSTMENT_STATUS_REVERSED))) 0)
       (\<lambda>amountReversed. wf_of
          (let currentAmount = amount_or_zero (PaymentInitiation_Amount p) - amountReversed;
               nextAmount = currentAmount - amount_or_zero (PaymentInitiationReversal_Amount piReversal) in
           if nextAmount < 0
           then tx_fail (ApplicationError ''CANNOT_REVERSE_MORE_THAN_AMOUNT''
                  ''cannot reverse more than the amount'' True None
                  (Some (Plain ''cannot reverse more than the amount'')))
           else tx_return ()))"

definition reverse_processing_adjustment ::
  "wfl \<Rightarrow> PaymentInitiation \<Rightarrow> PaymentInitiationReversal \<Rightarrow> PaymentInitiationAdjustment" where
  "reverse_processing_adjustment w p piReversal =
     \<lparr>PaymentInitiationAdjustment_ID =
        \<lparr>PaymentInitiationAdjustmentID_PaymentInitiationID =
           PaymentInitiationReversal_PaymentInitiationID piReversal,
         PaymentInitiationAdjustmentID_CreatedAt = wfl_now w ''reverse'',
         PaymentInitiationAdjustmentID_Status = PAYMENT_INITIATION_ADJUSTMENT_STATUS_REVERSE_PROCESSING\<rparr>,
      PaymentInitiationAdjustment_CreatedAt = wfl_now w ''reverse'',
      PaymentInitiationAdjustment_Status = PAYMENT_INITIATION_ADJUSTMENT_STATUS_REVERSE_PROCESSING,
      PaymentInitiationAdjustment_Amount = PaymentInitiationReversal_Amount piReversal,
      PaymentInitiationAdjustment_Asset = Some (PaymentInitiation_Asset p),
      PaymentInitiationAdjustment_Error = None,
      PaymentInitiationAdjustment_Metadata = PaymentInitiationReversal_Metadata piReversal\<rparr>"

definition validateOnlyReverse ::
  "wfl \<Rightarrow> faults \<Rightarrow> PaymentInitiation \<Rightarrow> PaymentInitiationReversal \<Rightarrow> (sys, unit) tx" where
  "validateOnlyReverse w fl p piReversal =
     tx_bind (StoragePaymentInitiationsAdjustmentsIfPredicateStore w fl
         (reverse_processing_adjustment w p piReversal)
         [PAYMENT_INITIATION_ADJUSTMENT_STATUS_REVERSE_PROCESSING])
       (\<lambda>inserted. if inserted then tx_return ()
          else tx_fail (ApplicationError ''ANOTHER_REVERSE_IN_PROGRESS''
                 ''another reverse is already in progress'' True None
                 (Some (Plain ''another reverse is already in progress''))))"

definition validateReverse ::
  "wfl \<Rightarrow> faults \<Rightarrow> PaymentInitiation \<Rightarrow> PaymentInitiationReversal \<Rightarrow> unit wf" where
  "validateReverse w fl p piReversal =
     wf_bind (wf_of (validatePaymentInitiationProcessed w fl piReversal))
       (\<lambda>_. wf_bind (validateReverseAmount w fl p piReversal)
         (\<lambda>_. wf_of (validateOnlyReverse w fl p piReversal)))"

section \<open>The reversal\<close>

definition addPIReversalAdjustment ::
  "wfl \<Rightarrow> faults \<Rightarrow> string \<Rightarrow> PaymentInitiationReversalID \<Rightarrow> PaymentInitiationReversalAdjustmentStatus \<Rightarrow>
     error option \<Rightarrow> (sys, unit) tx" where
  "addPIReversalAdjustment w fl point i status err =
     activity (PaymentInitiationReversalAdjustmentsUpsert (wfl_env w) fl
       \<lparr>PaymentInitiationReversalAdjustment_ID =
          \<lparr>PaymentInitiationReversalAdjustmentID_PaymentInitiationReversalID = i,
           PaymentInitiationReversalAdjustmentID_CreatedAt = wfl_now w point,
           PaymentInitiationReversalAdjustmentID_Status = status\<rparr>,
        PaymentInitiationReversalAdjustment_PaymentInitiationReversalID = i,
        PaymentInitiationReversalAdjustment_CreatedAt = wfl_now w point,
        PaymentInitiationReversalAdjustment_Status = status,
        PaymentInitiationReversalAdjustment_Error = err,
        PaymentInitiationReversalAdjustment_Metadata = Map.empty\<rparr>)"

text \<open>Asking the provider and recording its answer.\<close>

definition send_reversal ::
  "wfl \<Rightarrow> faults \<Rightarrow> psp_request \<Rightarrow> PSPPayment result \<Rightarrow> ConnectorID \<Rightarrow> PaymentInitiation \<Rightarrow>
     PaymentInitiationReversalID \<Rightarrow> (sys, string) tx" where
  "send_reversal w fl request answer c p reversalID =
     (\<lambda>s. case plugin_call request answer s of
        (Inr payment, s') \<Rightarrow>
          tx_bind (store_psp_payment w fl ''failed to convert payment'' payment c (PaymentInitiation_ID p))
            (\<lambda>paymentID. tx_seq
               (addPIReversalAdjustment w fl ''reversed'' reversalID PAYMENT_INITIATION_REVERSAL_STATUS_PROCESSED None)
               (tx_return paymentID)) s'
      | (Inl errPlugin, s') \<Rightarrow>
          tx_seq (addPIReversalAdjustment w fl ''reversed'' reversalID PAYMENT_INITIATION_REVERSAL_STATUS_FAILED
              (Some errPlugin))
          (tx_seq (addPIAdjustment w fl ''failed'' (PaymentInitiation_ID p)
              PAYMENT_INITIATION_ADJUSTMENT_STATUS_REVERSE_FAILED
              (PaymentInitiation_Amount p) (Some (PaymentInitiation_Asset p)) None Map.empty)
            (tx_fail errPlugin)) s')"

definition reverse_at_psp ::
  "wfl \<Rightarrow> faults \<Rightarrow> (PSPPaymentInitiationReversal \<Rightarrow> psp_request) \<Rightarrow>
     (PSPPaymentInitiationReversal \<Rightarrow> PSPPayment result) \<Rightarrow> ConnectorID \<Rightarrow> PaymentInitiationReversalID \<Rightarrow> string wf" where
  "reverse_at_psp w fl request call c reversalID =
     wf_bind (wf_of (activity (PaymentInitiationReversalsGet fl reversalID))) (\<lambda>piReversal.
     wf_bind (wf_of (activity (PaymentInitiationsGet fl
         (PaymentInitiationReversal_PaymentInitiationID piReversal)))) (\<lambda>p.
     wf_bind (validateReverse w fl p piReversal) (\<lambda>_.
     wf_bind (wf_of (getPSPPI w fl p)) (\<lambda>pspPI.
       let pspReversal = FromPaymentInitiationReversalToPSPPaymentInitiationReversal piReversal pspPI in
       wf_of (send_reversal w fl (request pspReversal) (call pspReversal) c p reversalID)))))"

definition reverseTransfer ::
  "wfl \<Rightarrow> faults \<Rightarrow> ConnectorID \<Rightarrow> PaymentInitiationReversalID \<Rightarrow> string wf" where
  "reverseTransfer w fl c reversalID =
     reverse_at_psp w fl (ReverseTransferRequest c) (wfl_reverse_transfer w c) c reversalID"

definition reversePayout ::
  "wfl \<Rightarrow> faults \<Rightarrow> ConnectorID \<Rightarrow> PaymentInitiationReversalID \<Rightarrow> string wf" where
  "reversePayout w fl c reversalID =
     reverse_at_psp w fl (ReversePayoutRequest c) (wfl_reverse_payout w c) c reversalID"

definition run_reverse :: "wfl \<Rightarrow> faults \<Rightarrow> TaskID \<Rightarrow> ConnectorID \<Rightarrow> string wf \<Rightarrow> unit wf" where
  "run_reverse w fl taskID c m = (\<lambda>s. case m s of
      None \<Rightarrow> None
    | Some (Inl err, s') \<Rightarrow> Some (report_failure w fl taskID c err s')
    | Some (Inr paymentID, s') \<Rightarrow> Some (updateTaskSuccess w fl taskID (Some c) paymentID s'))"

definition runReverseTransfer ::
  "wfl \<Rightarrow> faults \<Rightarrow> TaskID \<Rightarrow> ConnectorID \<Rightarrow> PaymentInitiationReversalID \<Rightarrow> unit wf" where
  "runReverseTransfer w fl taskID c reversalID =
     run_reverse w fl taskID c (reverseTransfer w fl c reversalID)"

definition runReversePayout ::
  "wfl \<Rightarrow> faults \<Rightarrow> TaskID \<Rightarrow> ConnectorID \<Rightarrow> PaymentInitiationReversalID \<Rightarrow> unit wf" where
  "runReversePayout w fl taskID c reversalID =
     run_reverse w fl taskID c (reversePayout w fl c reversalID)"

end
