(* ===== verification/Initiations_Proofs.thy ===== *)
theory Initiations_Proofs
  imports Reversal_Workflows "HOL-Library.Multiset"
begin

text \<open>
  The services and workflows of payment initiations: what a listing returns,
  the loops that read every page, the guards on the last adjustment.
\<close>

section \<open>Reading the database from a service or a workflow\<close>

lemma on_db_same: "m (sys_db s) = (r, sys_db s) \<Longrightarrow> on_db m s = (r, s)"
  by (simp add: on_db_def)

lemma activity_same: "m (sys_db s) = (Inr a, sys_db s) \<Longrightarrow> activity m s = (Inr a, s)"
  by (simp add: activity_def on_db_same)

lemma PaymentInitiationAdjustmentStatus_String_inject [simp]:
  "PaymentInitiationAdjustmentStatus_String a = PaymentInitiationAdjustmentStatus_String b \<longleftrightarrow> a = b"
  by (cases a; cases b) simp_all

text \<open>The rows a query selects, the newest first.\<close>

definition selected_adjustments ::
  "PaymentInitiationID \<Rightarrow> PaymentInitiationAdjustmentStatus option \<Rightarrow> db \<Rightarrow> pi_adjustment_row list" where
  "selected_adjustments i st d = newest_first pia_created_at
     (filter (\<lambda>r. case st of None \<Rightarrow> True | Some x \<Rightarrow> pia_status r = x) (initiation_adjustments i d))"

definition status_query :: "nat \<Rightarrow> nat \<Rightarrow> PaymentInitiationAdjustmentStatus option \<Rightarrow> AdjustmentsQuery" where
  "status_query n o' st =
     \<lparr>AdjustmentsQuery_PageSize = n, AdjustmentsQuery_Offset = o',
      AdjustmentsQuery_Match = map_option (\<lambda>x. (''status'', PaymentInitiationAdjustmentStatus_String x)) st\<rparr>"

lemma new_query [simp]:
  "NewListPaymentInitiationAdjustmentsQuery n None = status_query n 0 None"
  "NewListPaymentInitiationAdjustmentsQuery n
     (Some (''status'', PaymentInitiationAdjustmentStatus_String x)) = status_query n 0 (Some x)"
  "status_query n o' st\<lparr>AdjustmentsQuery_Offset := o''\<rparr> = status_query n o'' st"
  by (simp_all add: NewListPaymentInitiationAdjustmentsQuery_def status_query_def)

lemma list_adjustments:
  assumes "offset_pager pg" "fl ''failed to fetch accounts'' = None" "n > 0"
  shows "PaymentInitiationAdjustmentsList fl pg i (status_query n o' st) d =
    (Inr \<lparr>Cursor_Data = map toPaymentInitiationAdjustmentModels (take n (drop o' (selected_adjustments i st d))),
          Cursor_Next = (if o' + n < length (selected_adjustments i st d) then Some (o' + n) else None)\<rparr>, d)"
proof -
  have "adjustments_where (status_query n o' st) =
      Inr (\<lambda>r. case st of None \<Rightarrow> True | Some x \<Rightarrow> pia_status r = x)"
    by (cases st) (simp_all add: adjustments_where_def status_query_def
        paymentsInitiationAdjustmentsQueryContext_def)
  then show ?thesis
    using assms(2) offset_pagerD[OF assms(1,3), of o' "selected_adjustments i st d"]
    by (simp add: PaymentInitiationAdjustmentsList_def stmt_def selected_adjustments_def status_query_def)
qed

section \<open>Reading every adjustment to retry\<close>

text \<open>
  More than one page: the loop asks for the first page again and again, so it
  has no value.
\<close>

lemma all_adjustments_loop_diverges:
  assumes "offset_pager pg" "fl ''failed to fetch accounts'' = None"
    "50 < length (initiation_adjustments i d)"
  shows "all_adjustments_loop fl pg i None (status_query 50 0 None) acc d = None"
proof -
  have more: "50 < length (selected_adjustments i None d)"
    using assms(3) by (simp add: selected_adjustments_def)
  note page = list_adjustments[where fl = fl, OF assms(1,2), of 50 i 0 None d]
  have never: "fl' = fl \<longrightarrow> pg' = pg \<longrightarrow> i' = i \<longrightarrow> nxt = None \<longrightarrow> q = status_query 50 0 None \<longrightarrow> d' = d \<longrightarrow> False"
    if "all_adjustments_loop fl' pg' i' nxt q acc d' = Some r" for fl' pg' i' nxt q acc d' r
  proof (rule all_adjustments_loop.raw_induct[OF _ that], intro impI)
    fix loop fl' pg' i' nxt q acc d' r
    assume hyp: "\<And>fl' pg' i' nxt q acc d' r. loop fl' pg' i' nxt q acc d' = Some r \<Longrightarrow>
        fl' = fl \<longrightarrow> pg' = pg \<longrightarrow> i' = i \<longrightarrow> nxt = None \<longrightarrow> q = status_query 50 0 None \<longrightarrow> d' = d \<longrightarrow> False"
      and body: "(let q' = (case nxt of None \<Rightarrow> q | Some o' \<Rightarrow> q\<lparr>AdjustmentsQuery_Offset := o'\<rparr>) in
        case PaymentInitiationAdjustmentsList fl' pg' i' q' d' of
          (Inl err, d') \<Rightarrow> Some (Inl (StorageErr ''cannot list payment initiation adjustments'' err), d')
        | (Inr cursor, d') \<Rightarrow>
            (let adjustments' = acc @ Cursor_Data cursor in
             if Cursor_Next cursor = None then Some (Inr adjustments', d')
             else loop fl' pg' i' nxt q' adjustments' d')) = Some r"
      and eqs: "fl' = fl" "pg' = pg" "i' = i" "nxt = None" "q = status_query 50 0 None" "d' = d"
    from body page more
    have "loop fl pg i None (status_query 50 0 None)
        (acc @ map toPaymentInitiationAdjustmentModels (take 50 (selected_adjustments i None d))) d = Some r"
      by (simp add: eqs)
    from hyp[OF this] show False by simp
  qed
  show ?thesis
    using never[of fl pg i None "status_query 50 0 None" acc d]
    by (cases "all_adjustments_loop fl pg i None (status_query 50 0 None) acc d") simp_all
qed

lemma all_adjustments_loop_one_page:
  assumes "offset_pager pg" "fl ''failed to fetch accounts'' = None"
    "length (initiation_adjustments i d) \<le> 50"
  shows "all_adjustments_loop fl pg i None (status_query 50 0 None) acc d =
    Some (Inr (acc @ map toPaymentInitiationAdjustmentModels (selected_adjustments i None d)), d)"
proof -
  have "length (selected_adjustments i None d) \<le> 50"
    using assms(3) by (simp add: selected_adjustments_def)
  with list_adjustments[where fl = fl, OF assms(1,2), of 50 i 0 None d] show ?thesis
    by (subst all_adjustments_loop.simps) simp
qed

section \<open>Summing what was reversed\<close>

lemma add_amounts_append:
  "add_amounts x (as @ bs) = result_bind (add_amounts x as) (\<lambda>y. add_amounts y bs)"
  by (induction as arbitrary: x) (auto split: option.splits)

lemma add_amounts_total:
  "\<forall>a\<in>set as. PaymentInitiationAdjustment_Amount a \<noteq> None \<Longrightarrow>
     add_amounts x as = Inr (x + sum_list (map (\<lambda>a. the (PaymentInitiationAdjustment_Amount a)) as))"
  by (induction as arbitrary: x) auto

lemma add_amounts_panics:
  "\<exists>a\<in>set as. PaymentInitiationAdjustment_Amount a = None \<Longrightarrow>
     add_amounts x as = Inl (Panic ''runtime error: invalid memory address or nil pointer dereference'')"
  by (induction as arbitrary: x) (auto split: option.splits)

text \<open>The loop reads every page: it ends because the offset grows by a page each time.\<close>

lemma reversed_amount_loop_value:
  assumes "offset_pager pg" "fl ''failed to fetch accounts'' = None" "n > 0"
  shows "reversed_amount_loop fl pg i (status_query n o' st) x s =
    Some (add_amounts x (map toPaymentInitiationAdjustmentModels
            (drop o' (selected_adjustments i st (sys_db s)))), s)"
proof (induction "length (selected_adjustments i st (sys_db s)) - o'" arbitrary: o' x rule: less_induct)
  case less
  let ?rows = "selected_adjustments i st (sys_db s)"
  let ?page = "map toPaymentInitiationAdjustmentModels (take n (drop o' ?rows))"
  let ?rest = "map toPaymentInitiationAdjustmentModels (drop (o' + n) ?rows)"
  have split: "map toPaymentInitiationAdjustmentModels (drop o' ?rows) = ?page @ ?rest"
    by (simp add: map_append[symmetric] drop_drop[symmetric] add.commute del: map_append drop_drop)
  note list = list_adjustments[where fl = fl, OF assms, of i o' st "sys_db s"]
  have step: "reversed_amount_loop fl pg i (status_query n o' st) x s =
    (case add_amounts x ?page of
       Inl err \<Rightarrow> Some (Inl err, s)
     | Inr x' \<Rightarrow> if o' + n < length ?rows
         then reversed_amount_loop fl pg i (status_query n (o' + n) st) x' s else Some (Inr x', s))"
    by (subst reversed_amount_loop.simps) (simp add: activity_same[where m = "PaymentInitiationAdjustmentsList fl pg i (status_query n o' st)", OF list] split: sum.split)
  show ?case
  proof (cases "add_amounts x ?page")
    case (Inl err)
    then show ?thesis by (simp add: step split add_amounts_append)
  next
    case (Inr x')
    show ?thesis
    proof (cases "o' + n < length ?rows")
      case True
      then have "length ?rows - (o' + n) < length ?rows - o'" using assms(3) by simp
      from less.hyps[OF this, of x'] Inr True show ?thesis
        by (simp add: step split add_amounts_append)
    next
      case False
      then have "take n (drop o' ?rows) = drop o' ?rows" by simp
      with Inr False show ?thesis by (simp add: step)
    qed
  qed
qed

definition reversed_rows :: "PaymentInitiationID \<Rightarrow> db \<Rightarrow> pi_adjustment_row list" where
  "reversed_rows i d =
     filter (\<lambda>r. pia_status r = PAYMENT_INITIATION_ADJUSTMENT_STATUS_REVERSED) (initiation_adjustments i d)"

definition reversed_total :: "PaymentInitiationID \<Rightarrow> db \<Rightarrow> int" where
  "reversed_total i d = sum_list (map (\<lambda>r. the (pia_amount r)) (reversed_rows i d))"

lemma newest_first_sum: "sum_list (map f (newest_first c rows)) = sum_list (map f rows)"
  for f :: "'r \<Rightarrow> int"
proof -
  have "mset (map f (newest_first c rows)) = mset (map f rows)" by (simp add: newest_first_def)
  from arg_cong[OF this, of sum_mset] show ?thesis by (simp only: sum_mset_sum_list)
qed

lemma selected_reversed:
  "set (selected_adjustments i (Some PAYMENT_INITIATION_ADJUSTMENT_STATUS_REVERSED) d) = set (reversed_rows i d)"
  "sum_list (map f (selected_adjustments i (Some PAYMENT_INITIATION_ADJUSTMENT_STATUS_REVERSED) d)) =
     sum_list (map f (reversed_rows i d))" for f :: "pi_adjustment_row \<Rightarrow> int"
proof -
  show "sum_list (map f (selected_adjustments i (Some PAYMENT_INITIATION_ADJUSTMENT_STATUS_REVERSED) d)) =
     sum_list (map f (reversed_rows i d))"
    by (simp add: selected_adjustments_def reversed_rows_def newest_first_sum)
  show "set (selected_adjustments i (Some PAYMENT_INITIATION_ADJUSTMENT_STATUS_REVERSED) d) = set (reversed_rows i d)"
    by (simp add: selected_adjustments_def reversed_rows_def)
qed

lemma toPaymentInitiationAdjustmentModels_simps [simp]:
  "PaymentInitiationAdjustment_Status (toPaymentInitiationAdjustmentModels r) = pia_status r"
  "PaymentInitiationAdjustment_Amount (toPaymentInitiationAdjustmentModels r) = pia_amount r"
  "PaymentInitiationAdjustment_ID (toPaymentInitiationAdjustmentModels r) = pia_id r"
  by (simp_all add: toPaymentInitiationAdjustmentModels_def)

lemma reversed_amount:
  assumes "offset_pager pg" "fl ''failed to fetch accounts'' = None" "n > 0"
  shows "reversed_amount_loop fl pg i
      (status_query n 0 (Some PAYMENT_INITIATION_ADJUSTMENT_STATUS_REVERSED)) 0 s =
    Some (if \<forall>r\<in>set (reversed_rows i (sys_db s)). pia_amount r \<noteq> None
          then Inr (reversed_total i (sys_db s))
          else Inl (Panic ''runtime error: invalid memory address or nil pointer dereference''), s)"
  using reversed_amount_loop_value[where fl = fl, OF assms, of i 0 "Some PAYMENT_INITIATION_ADJUSTMENT_STATUS_REVERSED" 0 s]
    add_amounts_total[of "map toPaymentInitiationAdjustmentModels
      (selected_adjustments i (Some PAYMENT_INITIATION_ADJUSTMENT_STATUS_REVERSED) (sys_db s))" 0]
    add_amounts_panics[of "map toPaymentInitiationAdjustmentModels
      (selected_adjustments i (Some PAYMENT_INITIATION_ADJUSTMENT_STATUS_REVERSED) (sys_db s))" 0]
  by (auto simp: reversed_total_def selected_reversed comp_def)

end
