(* ===== verification/Initiations_Laws.thy ===== *)
theory Initiations_Laws
  imports Initiations_Proofs
begin

text \<open>
  The log of a payment initiation: inserting an adjustment or a related payment
  once, what the last adjustment is afterwards, the guards of the services, and
  the tasks that record the outcome of a workflow.
\<close>

section \<open>A row inserted once, with its event\<close>

text \<open>
  The contract of a statement that inserts rows unless they are there, and what
  follows for the operation that runs it and emits an event for what it inserted.
\<close>

locale logged_insert =
  fixes ins :: "faults \<Rightarrow> (db, 'r list) tx" and env :: env and ev :: OutboxEvent
  assumes once: "ins fl d = (Inr rows, d1) \<Longrightarrow> ins fl' (d1\<lparr>outbox_events := t\<rparr>) = (Inr rows', d2) \<Longrightarrow>
      rows' = []"
    and unchanged: "ins fl d = (Inr [], d1) \<Longrightarrow> d1 = d"
begin

definition logged :: "faults \<Rightarrow> (db, unit) tx" where
  "logged fl = in_tx fl ''failed to begin transaction'' ''failed to commit transaction''
     (tx_bind (ins fl) (\<lambda>inserted. tx_bind (rows_affected fl inserted)
        (\<lambda>rowsAffected. if rowsAffected > 0 then OutboxEventsInsert env fl [ev] else tx_return ())))"

lemma logged_result:
  assumes "logged fl d = (Inr u, d')"
  obtains rows d1 where "ins fl d = (Inr rows, d1)"
    "rows = [] \<Longrightarrow> d' = d" "rows \<noteq> [] \<Longrightarrow> OutboxEventsInsert env fl [ev] d1 = (Inr u, d')"
    "\<exists>t. d' = d1\<lparr>outbox_events := t\<rparr>"
proof -
  from assms obtain rows d1 where i: "ins fl d = (Inr rows, d1)"
    and e: "(if length rows > 0 then OutboxEventsInsert env fl [ev] else tx_return ()) d1 = (Inr u, d')"
    by (auto simp: logged_def tx_inr rows_affected_def)
  show thesis
  proof (cases "rows = []")
    case True
    have "d1 = d" using unchanged i True by blast
    moreover have "d' = d1" using e True by simp
    moreover have "d1 = d1\<lparr>outbox_events := outbox_events d1\<rparr>" by simp
    ultimately show thesis using that[OF i] True by metis
  next
    case False
    with e have o: "OutboxEventsInsert env fl [ev] d1 = (Inr u, d')" by simp
    from that[OF i _ _ outbox.only_outbox[OF o]] o False show thesis by blast
  qed
qed

lemma logged_again:
  assumes "logged fl d = (Inr u, d')" "logged fl' d' = (Inr u', d'')"
  shows "d'' = d'"
proof -
  from logged_result[OF assms(1)] obtain rows d1 t where
    i: "ins fl d = (Inr rows, d1)" and d': "d' = d1\<lparr>outbox_events := t\<rparr>" by metis
  from logged_result[OF assms(2)] obtain rows' d2 where
    i': "ins fl' d' = (Inr rows', d2)" and same: "rows' = [] \<Longrightarrow> d'' = d'" by metis
  from once[OF i i'[unfolded d']] same show ?thesis by simp
qed

text \<open>What is inserted has its event, in the outbox or already sent.\<close>

lemma logged_emits:
  assumes "logged fl d = (Inr u, d')" "ins fl d = (Inr rows, d1)" "rows \<noteq> []"
  shows "OutboxEvent_ID ev \<in> outbox_id ` set (outbox_events d') \<union> sent_id ` set (events_sent d')"
proof -
  from logged_result[OF assms(1)] assms(2,3)
  have "OutboxEventsInsert env fl [ev] d1 = (Inr u, d')" by (metis Inr_inject Pair_inject)
  then show ?thesis by (rule outbox.all_recorded) simp
qed

end

sublocale logged_insert \<subseteq> retried logged "\<lambda>_. True"
proof unfold_locales
  fix fl d e d'
  assume "logged fl d = (Inl e, d')"
  then show "d' = d" unfolding logged_def by (rule in_tx_rollback)
next
  fix d fl a d' fl' a' d''
  assume "logged fl d = (Inr a, d')" "logged fl' d' = (Inr a', d'')"
  then show "d'' = d'" by (rule logged_again)
qed

lemma insert_pi_adjustments_once:
  assumes "insert_pi_adjustments_stmt fl rs d = (Inr rows, d1)"
    "insert_pi_adjustments_stmt fl' rs (d1\<lparr>outbox_events := t\<rparr>) = (Inr rows', d2)"
  shows "rows' = []"
proof -
  from assms(1) have "insert_ignore pia_id rs (pi_adjustments d) = (rows, pi_adjustments d1)"
    by (auto simp: insert_pi_adjustments_stmt_def split: prod.splits if_splits)
  from insert_ignore_replay[OF this] assms(2) show ?thesis
    by (auto simp: insert_pi_adjustments_stmt_def split: prod.splits if_splits)
qed

interpretation adjustments_log: logged_insert
  "\<lambda>fl. insert_pi_adjustments_stmt fl [fromPaymentInitiationAdjustmentModels env adj]"
  env "pi_adjustment_event env adj" for env adj
proof unfold_locales
  fix fl d rows d1 fl' t rows' d2
  assume "insert_pi_adjustments_stmt fl [fromPaymentInitiationAdjustmentModels env adj] d = (Inr rows, d1)"
    "insert_pi_adjustments_stmt fl' [fromPaymentInitiationAdjustmentModels env adj]
       (d1\<lparr>outbox_events := t\<rparr>) = (Inr rows', d2)"
  then show "rows' = []" by (rule insert_pi_adjustments_once)
next
  fix fl d d1
  assume "insert_pi_adjustments_stmt fl [fromPaymentInitiationAdjustmentModels env adj] d = (Inr [], d1)"
  then show "d1 = d"
    by (auto simp: insert_pi_adjustments_stmt_def split: prod.splits if_splits)
qed

interpretation related_log: logged_insert
  "\<lambda>fl. insert_related_payment_stmt fl \<lparr>pirp_payment_initiation_id = piID, pirp_payment_id = pID,
     pirp_created_at = env_db_time env t\<rparr>"
  env "related_payment_event env piID pID" for env piID pID t
proof unfold_locales
  let ?row = "\<lparr>pirp_payment_initiation_id = piID, pirp_payment_id = pID,
     pirp_created_at = env_db_time env t\<rparr>"
  fix fl d rows d1 fl' out rows' d2
  assume 1: "insert_related_payment_stmt fl ?row d = (Inr rows, d1)"
    and 2: "insert_related_payment_stmt fl' ?row (d1\<lparr>outbox_events := out\<rparr>) = (Inr rows', d2)"
  from 1 have "insert_ignore pirp_key [?row] (pi_related_payments d) = (rows, pi_related_payments d1)"
    by (auto simp: insert_related_payment_stmt_def split: prod.splits if_splits)
  from insert_ignore_replay[OF this] 2 show "rows' = []"
    by (auto simp: insert_related_payment_stmt_def split: prod.splits if_splits)
next
  let ?row = "\<lparr>pirp_payment_initiation_id = piID, pirp_payment_id = pID,
     pirp_created_at = env_db_time env t\<rparr>"
  fix fl d d1
  assume "insert_related_payment_stmt fl ?row d = (Inr [], d1)"
  then show "d1 = d"
    by (auto simp: insert_related_payment_stmt_def split: prod.splits if_splits)
qed

lemma PaymentInitiationAdjustmentsUpsert_logged:
  "PaymentInitiationAdjustmentsUpsert env fl adj = adjustments_log.logged env adj fl"
  by (simp add: PaymentInitiationAdjustmentsUpsert_def adjustments_log.logged_def)

lemma PaymentInitiationRelatedPaymentsUpsert_logged:
  "PaymentInitiationRelatedPaymentsUpsert env fl piID pID t = related_log.logged piID pID env t fl"
  by (simp add: PaymentInitiationRelatedPaymentsUpsert_def related_log.logged_def)

section \<open>The last adjustment\<close>

text \<open>An adjustment dated no earlier than the others becomes the last one.\<close>

lemma last_adjustment_appended:
  assumes "pi_adjustments d' = pi_adjustments d @ [r]" "pia_payment_initiation_id r = i"
    "\<forall>x\<in>set (initiation_adjustments i d). pia_created_at x \<le> pia_created_at r"
  shows "last_adjustment i d' = Some r"
proof -
  have "initiation_adjustments i d' = initiation_adjustments i d @ [r]"
    using assms(1,2) by (simp add: initiation_adjustments_def)
  moreover have "pia_created_at m \<le> pia_created_at r"
    if "latest_by pia_created_at (initiation_adjustments i d) = Some m" for m
    using latest_by_SomeD[OF that] assms(3) by blast
  ultimately show ?thesis
    by (auto simp: last_adjustment_def latest_by_snoc split: option.splits)
qed

lemma fromPaymentInitiationAdjustmentModels_simps [simp]:
  "pia_id (fromPaymentInitiationAdjustmentModels env adj) = PaymentInitiationAdjustment_ID adj"
  "pia_payment_initiation_id (fromPaymentInitiationAdjustmentModels env adj) =
     PaymentInitiationAdjustmentID_PaymentInitiationID (PaymentInitiationAdjustment_ID adj)"
  "pia_created_at (fromPaymentInitiationAdjustmentModels env adj) =
     env_db_time env (PaymentInitiationAdjustment_CreatedAt adj)"
  "pia_status (fromPaymentInitiationAdjustmentModels env adj) = PaymentInitiationAdjustment_Status adj"
  by (simp_all add: fromPaymentInitiationAdjustmentModels_def)

lemma UpsertIfPredicate_True:
  assumes "PaymentInitiationAdjustmentsUpsertIfPredicate env fl adj predicate d = (Inr True, d')"
  shows "pi_adjustments d' = pi_adjustments d @ [fromPaymentInitiationAdjustmentModels env adj]"
    and "\<exists>prev. last_adjustment (PaymentInitiationAdjustmentID_PaymentInitiationID
            (PaymentInitiationAdjustment_ID adj)) d = Some prev \<and>
           predicate (toPaymentInitiationAdjustmentModels prev)"
proof -
  let ?i = "PaymentInitiationAdjustmentID_PaymentInitiationID (PaymentInitiationAdjustment_ID adj)"
  from assms obtain prev d1 inserted where
    prev: "last_adjustment ?i d = Some prev" "predicate (toPaymentInitiationAdjustmentModels prev)" and
    ins: "insert_pi_adjustments_stmt fl [fromPaymentInitiationAdjustmentModels env adj] d = (Inr inserted, d1)"
      "inserted \<noteq> []" and
    ev: "OutboxEventsInsert env fl [pi_adjustment_event env adj] d1 = (Inr (), d')"
    by (auto simp: PaymentInitiationAdjustmentsUpsertIfPredicate_def tx_inr rows_affected_def
        select_previous_adjustment_def split: option.splits if_splits)
  from ins have "pi_adjustments d1 = pi_adjustments d @ [fromPaymentInitiationAdjustmentModels env adj]"
    by (auto simp: insert_pi_adjustments_stmt_def split: if_splits)
  with outbox.only_outbox[OF ev]
  show "pi_adjustments d' = pi_adjustments d @ [fromPaymentInitiationAdjustmentModels env adj]"
    by auto
  from prev show "\<exists>prev. last_adjustment ?i d = Some prev \<and>
      predicate (toPaymentInitiationAdjustmentModels prev)" by blast
qed

lemma UpsertIfPredicate_refused:
  assumes "last_adjustment (PaymentInitiationAdjustmentID_PaymentInitiationID
      (PaymentInitiationAdjustment_ID adj)) d = Some prev"
    "\<not> predicate (toPaymentInitiationAdjustmentModels prev)"
  shows "PaymentInitiationAdjustmentsUpsertIfPredicate env no_faults adj predicate d = (Inr False, d)"
  using assms by (simp add: PaymentInitiationAdjustmentsUpsertIfPredicate_def
      select_previous_adjustment_def tx_bind_def)

lemma adjustment_upserted:
  assumes "PaymentInitiationAdjustmentsUpsert env fl adj d = (Inr u, d')"
    "\<not> has_key pia_id (PaymentInitiationAdjustment_ID adj) (pi_adjustments d)"
  shows "pi_adjustments d' = pi_adjustments d @ [fromPaymentInitiationAdjustmentModels env adj]"
proof -
  from adjustments_log.logged_result[OF assms(1)[unfolded PaymentInitiationAdjustmentsUpsert_logged]]
  obtain rows d1 t where
    "insert_pi_adjustments_stmt fl [fromPaymentInitiationAdjustmentModels env adj] d = (Inr rows, d1)"
    "d' = d1\<lparr>outbox_events := t\<rparr>" by metis
  with assms(2) show ?thesis
    by (auto simp: insert_pi_adjustments_stmt_def split: if_splits)
qed

section \<open>The guards of the services\<close>

lemma service_last_adjustment_value:
  assumes "offset_pager (svc_pager v)" "fl ''failed to fetch accounts'' = None"
  shows "service_last_adjustment v fl i m1 m2 s =
    ((case last_adjustment i (sys_db s) of None \<Rightarrow> Inl (Plain m2)
      | Some r \<Rightarrow> Inr (toPaymentInitiationAdjustmentModels r)), s)"
proof -
  note page = list_page_1[where fl = fl, OF assms, of i "sys_db s"]
  have "on_db (PaymentInitiationAdjustmentsList fl (svc_pager v) i
      (NewListPaymentInitiationAdjustmentsQuery 1 None)) s =
    (fst (PaymentInitiationAdjustmentsList fl (svc_pager v) i
      (NewListPaymentInitiationAdjustmentsQuery 1 None) (sys_db s)), s)"
    by (rule on_db_same) (simp only: page fst_conv)
  then show ?thesis
    by (simp add: service_last_adjustment_def svc_storage_def tx_bind_def page del: new_query One_nat_def
        split: option.splits)
qed

lemma service_last_adjustment_faulty:
  assumes "fl ''failed to fetch accounts'' = Some e"
  shows "\<exists>err. service_last_adjustment v fl i m1 m2 s = (Inl err, s)"
  using assms
  by (simp add: service_last_adjustment_def svc_storage_def tx_bind_def on_db_def stmt_def
      PaymentInitiationAdjustmentsList_def adjustments_where_def status_query_def)

definition is_waiting :: "PaymentInitiationID \<Rightarrow> db \<Rightarrow> bool" where
  "is_waiting i d \<longleftrightarrow> (case last_adjustment i d of None \<Rightarrow> False
     | Some r \<Rightarrow> pia_status r = PAYMENT_INITIATION_ADJUSTMENT_STATUS_WAITING_FOR_VALIDATION)"

lemma require_waiting_refuses:
  assumes "offset_pager (svc_pager v)" "\<not> is_waiting i (sys_db s)"
  shows "\<exists>e. require_waiting v fl i refusal s = (Inl e, s) \<and>
    (fl = no_faults \<and> last_adjustment i (sys_db s) \<noteq> None \<longrightarrow>
      e = Wrap refusal (Sentinel Services_ErrValidation))"
proof (cases "fl ''failed to fetch accounts''")
  case None
  then show ?thesis
    using service_last_adjustment_value[where fl = fl, OF assms(1) None] assms(2)
    by (auto simp: require_waiting_def tx_bind_def is_waiting_def split: option.splits)
next
  case (Some e)
  then obtain err where "service_last_adjustment v fl i ''cannot list payment initiation adjustments''
      ''payment initiation adjustments not found'' s = (Inl err, s)"
    using service_last_adjustment_faulty[where fl = fl, OF Some] by blast
  moreover have "fl \<noteq> no_faults" using Some by (auto simp: no_faults_def)
  ultimately show ?thesis by (simp add: require_waiting_def tx_bind_def)
qed


end
