(* ===== verification/Initiations_Tasks.thy ===== *)
theory Initiations_Tasks
  imports Initiations_Laws Consistency
begin

text \<open>
  Tasks and workflows started by the services; what a workflow leaves in the
  task when it fails; what a poll changes.
\<close>

section \<open>Recording a task\<close>

text \<open>The database except its tasks and its outbox.\<close>

definition same_entities :: "db \<Rightarrow> db \<Rightarrow> bool" where
  "same_entities d d' \<longleftrightarrow> (\<exists>t o'. d' = d\<lparr>tasks := t, outbox_events := o'\<rparr>)"

lemma same_entities_refl [simp]: "same_entities d d"
  unfolding same_entities_def by (rule exI[of _ "tasks d"], rule exI[of _ "outbox_events d"]) simp

lemma same_entitiesD:
  assumes "same_entities d d'"
  shows "pi_adjustments d' = pi_adjustments d" "payment_initiations d' = payment_initiations d"
    "connectors d' = connectors d" "initiation_adjustments i d' = initiation_adjustments i d"
    "last_adjustment i d' = last_adjustment i d" "payments d' = payments d"
  using assms by (auto simp: same_entities_def initiation_adjustments_def last_adjustment_def)

lemma TasksUpsert_runs:
  assumes "TasksUpsert env fl t d = (r, d')"
  shows "same_entities d d'"
proof (cases r)
  case (Inl e)
  with assms have "d' = d" by (auto simp: TasksUpsert_def dest: in_tx_rollback)
  then show ?thesis by simp
next
  case (Inr u)
  with assms obtain d1 where u: "upsert_task_stmt fl (fromTaskModel env t) d = (Inr (), d1)"
    and o: "OutboxEventsInsert env fl [task_event env t] d1 = (Inr u, d')"
    by (auto simp: TasksUpsert_def tx_inr)
  from u have "\<exists>x. d1 = d\<lparr>tasks := x\<rparr>"
    by (auto simp: upsert_task_stmt_def split: if_splits)
  with outbox.only_outbox[OF o] show ?thesis by (auto simp: same_entities_def)
qed

lemma TasksUpsert_succeeds:
  assumes "Task_ConnectorID t = Some c" "connector_exists d c" "env_task_key env t \<noteq> []"
  shows "\<exists>d'. TasksUpsert env no_faults t d = (Inr (), d') \<and>
    tasks d' = upsert_row task_id merge_task (fromTaskModel env t) (tasks d)"
proof -
  let ?d1 = "d\<lparr>tasks := upsert_row task_id merge_task (fromTaskModel env t) (tasks d)\<rparr>"
  have u: "upsert_task_stmt no_faults (fromTaskModel env t) d = (Inr (), ?d1)"
    using assms(1,2) by (simp add: upsert_task_stmt_def fromTaskModel_def connector_ref_ok_def)
  have "\<exists>d'. OutboxEventsInsert env no_faults [task_event env t] ?d1 = (Inr (), d')"
    by (rule OutboxEventsInsert_succeeds)
      (use assms in \<open>simp add: task_event_def connector_ref_ok_def connector_exists_def\<close>)
  then obtain d' where o: "OutboxEventsInsert env no_faults [task_event env t] ?d1 = (Inr (), d')"
    by blast
  from outbox.only_outbox[OF o] have "tasks d' = tasks ?d1" by auto
  with u o show ?thesis
    by (auto simp: TasksUpsert_def in_tx_no_faults tx_seq_def tx_bind_def)
qed

section \<open>Starting a workflow\<close>

definition started :: "string \<Rightarrow> workflow_call \<Rightarrow> runs \<Rightarrow> runs" where
  "started i call rs = (if i \<in> fst ` set rs then rs else rs @ [(i, call)])"

lemma started_again [simp]: "started i call' (started i call rs) = started i call rs"
  by (auto simp: started_def)

lemma run_task_starts:
  assumes "rejects_duplicates (svc_start v)" "connector_exists (sys_db s) c"
    "env_task_key (svc_env v) (processing_task v i c) \<noteq> []"
  shows "\<exists>s'. run_task v no_faults i c call False conv s = (Inr (processing_task v i c), s') \<and>
    sys_runs s' = started i (call \<lparr>TaskID_Reference = i, TaskID_ConnectorID = c\<rparr>) (sys_runs s) \<and>
    same_entities (sys_db s) (sys_db s') \<and>
    has_key task_id \<lparr>TaskID_Reference = i, TaskID_ConnectorID = c\<rparr> (tasks (sys_db s'))"
proof -
  let ?t = "processing_task v i c"
  have "\<exists>d'. TasksUpsert (svc_env v) no_faults ?t (sys_db s) = (Inr (), d') \<and>
      tasks d' = upsert_row task_id merge_task (fromTaskModel (svc_env v) ?t) (tasks (sys_db s))"
    by (rule TasksUpsert_succeeds[where c = c]) (use assms in \<open>simp_all add: processing_task_def\<close>)
  then obtain d' where t: "TasksUpsert (svc_env v) no_faults ?t (sys_db s) = (Inr (), d')"
    and tbl: "tasks d' = upsert_row task_id merge_task (fromTaskModel (svc_env v) ?t) (tasks (sys_db s))"
    by blast
  have "has_key task_id (Task_ID ?t) (tasks d')"
    unfolding tbl by (subst has_key_upsert_row) (simp_all add: merge_task_def fromTaskModel_def)
  then have k: "has_key task_id \<lparr>TaskID_Reference = i, TaskID_ConnectorID = c\<rparr> (tasks d')"
    by (simp add: processing_task_def)
  have st: "svc_start v i x rs = (Inr (), started i x rs)" for x rs
    using assms(1) by (simp add: rejects_duplicates_def started_def)
  show ?thesis
    using t k TasksUpsert_runs[OF t]
    by (simp add: run_task_def tx_seq_def tx_bind_def on_db_def Let_def st)
      (simp add: processing_task_def)
qed

section \<open>Retrying\<close>

lemma getAll_value:
  assumes "offset_pager pg" "fl ''failed to fetch accounts'' = None"
  shows "getAllPaymentInitiationAdjustments fl pg i d =
    (if length (initiation_adjustments i d) \<le> 50
     then Some (Inr (map toPaymentInitiationAdjustmentModels
            (newest_first pia_created_at (initiation_adjustments i d))), d)
     else None)"
  using all_adjustments_loop_one_page[where fl = fl, OF assms, of i d "[]"]
    all_adjustments_loop_diverges[where fl = fl, OF assms, of i d "[]"]
  by (simp add: getAllPaymentInitiationAdjustments_def selected_adjustments_def)

lemma retry_needs_failed:
  assumes "offset_pager (svc_pager v)"
    "\<And>r. last_adjustment i (sys_db s) = Some r \<Longrightarrow> pia_status r \<noteq> PAYMENT_INITIATION_ADJUSTMENT_STATUS_FAILED"
  shows "PaymentInitiationsRetry v fl i wait s = None \<or>
    (\<exists>e. PaymentInitiationsRetry v fl i wait s = Some (Inl e, s))"
proof (cases "fl ''failed to fetch accounts''")
  case None
  let ?rows = "newest_first pia_created_at (initiation_adjustments i (sys_db s))"
  note all = getAll_value[where fl = fl, OF assms(1) None, of i "sys_db s"]
  show ?thesis
  proof (cases ?rows)
    case Nil
    with all show ?thesis by (auto simp: PaymentInitiationsRetry_def retry_with_def split: if_splits)
  next
    case (Cons r rs)
    then have "initiation_adjustments i (sys_db s) \<noteq> []"
      by (metis list.simps(3) newest_first_length length_0_conv)
    from newest_first_head[OF this, of pia_created_at] Cons
    have "last_adjustment i (sys_db s) = Some r" by (simp add: last_adjustment_def)
    with assms(2) have "pia_status r \<noteq> PAYMENT_INITIATION_ADJUSTMENT_STATUS_FAILED" by blast
    with all Cons show ?thesis
      by (auto simp: PaymentInitiationsRetry_def retry_with_def split: if_splits)
  qed
next
  case (Some e)
  have "getAllPaymentInitiationAdjustments fl (svc_pager v) i (sys_db s) =
      Some (Inl (StorageErr ''cannot list payment initiation adjustments''
        (storage_e ''failed to fetch accounts'' e)), sys_db s)"
    by (simp add: getAllPaymentInitiationAdjustments_def all_adjustments_loop.simps[of fl] Some
        PaymentInitiationAdjustmentsList_def adjustments_where_def status_query_def stmt_def)
  then show ?thesis by (simp add: PaymentInitiationsRetry_def)
qed

lemma count_failed_newest:
  "getAttemps (map toPaymentInitiationAdjustmentModels (newest_first c rows)) =
     int (length (filter (\<lambda>r. pia_status r = PAYMENT_INITIATION_ADJUSTMENT_STATUS_FAILED) rows))"
proof -
  have "getAttemps (map toPaymentInitiationAdjustmentModels xs) =
      int (length (filter (\<lambda>r. pia_status r = PAYMENT_INITIATION_ADJUSTMENT_STATUS_FAILED) xs))" for xs
    by (simp add: getAttemps_def filter_map comp_def)
  then show ?thesis by (simp add: newest_first_filter[symmetric])
qed

section \<open>What a workflow leaves in its task\<close>

lemma updateTasksError_succeeds:
  assumes "connector_exists (sys_db s) c"
    "\<And>t. env_task_key (wfl_env w) t \<noteq> []"
  shows "\<exists>s'. updateTasksError w no_faults taskID (Some c) err s = (Inr (), s') \<and>
    (\<exists>r. lookup_row task_id taskID (tasks (sys_db s')) = Some r \<and>
       task_status r = TASK_STATUS_FAILED \<and> task_error r = Some (error_text (Cause err))) \<and>
    same_entities (sys_db s) (sys_db s')"
proof -
  define t where "t = \<lparr>Task_ID = taskID, Task_ConnectorID = Some c, Task_Status = TASK_STATUS_FAILED,
      Task_CreatedAt = 0, Task_UpdatedAt = wfl_now w ''task'', Task_CreatedObjectID = None,
      Task_Error = Some (Cause err)\<rparr>"
  have "\<exists>d'. TasksUpsert (wfl_env w) no_faults t (sys_db s) = (Inr (), d') \<and>
      tasks d' = upsert_row task_id merge_task (fromTaskModel (wfl_env w) t) (tasks (sys_db s))"
    by (rule TasksUpsert_succeeds[where c = c]) (use assms in \<open>simp_all add: t_def\<close>)
  then obtain d' where u: "TasksUpsert (wfl_env w) no_faults t (sys_db s) = (Inr (), d')"
    and tbl: "tasks d' = upsert_row task_id merge_task (fromTaskModel (wfl_env w) t) (tasks (sys_db s))"
    by blast
  have "\<exists>r. lookup_row task_id taskID (tasks d') = Some r \<and>
      task_status r = TASK_STATUS_FAILED \<and> task_error r = Some (error_text (Cause err))"
    unfolding tbl by (subst lookup_upsert_row)
      (auto simp: merge_task_def fromTaskModel_def t_def split: option.splits)
  with u TasksUpsert_runs[OF u] show ?thesis
    by (simp add: updateTasksError_def updateTask_def activity_def on_db_def t_def)
qed

lemma activity_on_db:
  assumes "activity m s = (r, s')"
  shows "\<exists>r' d'. m (sys_db s) = (r', d') \<and> s' = s\<lparr>sys_db := d'\<rparr>"
  using assms by (auto simp: activity_def on_db_def Let_def split: prod.splits sum.splits)

lemma updateTasksError_entities:
  "updateTasksError w fl taskID c err s = (r, s') \<Longrightarrow> same_entities (sys_db s) (sys_db s')"
  unfolding updateTasksError_def updateTask_def
  by (drule activity_on_db) (auto dest: TasksUpsert_runs)

section \<open>A poll the provider answers with an error\<close>

text \<open>Only schedules, tasks and the outbox can change.\<close>

lemma remove_schedules_adjustments [simp]:
  "pi_adjustments (remove_schedules p d) = pi_adjustments d"
  by (simp add: remove_schedules_def Let_def)

lemma activity_SchedulesDelete_adjustments:
  "activity (SchedulesDelete fl i) s = (r, s') \<Longrightarrow> pi_adjustments (sys_db s') = pi_adjustments (sys_db s)"
  by (drule activity_on_db) (auto simp: SchedulesDelete_def stmt_def split: option.splits)

lemma TemporalScheduleDelete_db:
  "TemporalScheduleDelete w i s = (r, s') \<Longrightarrow> sys_db s' = sys_db s"
  by (auto simp: TemporalScheduleDelete_def split: option.splits)

lemma poll_error_adjustments:
  assumes "poll_psp w fl request (Inr \<lparr>poll_response_Payment = None, poll_response_Error = Some err\<rparr>)
      c piID scheduleID s = (r, s')"
  shows "pi_adjustments (sys_db s') = pi_adjustments (sys_db s) \<and> (\<exists>e. r = Inl e)"
proof -
  let ?s0 = "s\<lparr>sys_requests := sys_requests s @ [request]\<rparr>"
  obtain r1 s1 where 1: "TemporalScheduleDelete w scheduleID ?s0 = (r1, s1)" by fastforce
  obtain r2 s2 where 2: "activity (SchedulesDelete fl scheduleID) s1 = (r2, s2)" by fastforce
  from assms 1 2 have "(s' = s1 \<or> s' = s2) \<and> (\<exists>e. r = Inl e)"
    by (auto simp: poll_psp_def plugin_call_def tx_bind_def tx_seq_def split: sum.splits)
  with TemporalScheduleDelete_db[OF 1] activity_SchedulesDelete_adjustments[OF 2]
  show ?thesis by auto
qed

end
