(* ===== verification/Initiations_Examples.thy ===== *)
theory Initiations_Examples
  imports Initiations_Tasks Examples
begin

text \<open>
  A concrete system the witnesses on payment initiations share: a paginator, an
  environment of the services and of the workflows, a payment initiation, its
  reversal and databases holding a given log of adjustments.
\<close>

section \<open>A system\<close>

definition ex_pager :: "'r pager" where
  "ex_pager o' n rs = (take n (drop o' rs), if o' + n < length rs then Some (o' + n) else None)"

lemma ex_pager_ok: "offset_pager ex_pager"
  by (simp add: offset_pager_def ex_pager_def)

definition ex_svc :: svc where
  "ex_svc = \<lparr>svc_env = ex_env, svc_stack = ''stack'',
     svc_start = (\<lambda>i call rs. (Inr (), if i \<in> fst ` set rs then rs else rs @ [(i, call)])),
     svc_wait = (\<lambda>_. Inr ()), svc_pager = ex_pager\<rparr>"

lemma ex_svc_simps [simp]:
  "svc_pager ex_svc = ex_pager" "svc_env ex_svc = ex_env" "rejects_duplicates (svc_start ex_svc)"
  by (simp_all add: ex_svc_def rejects_duplicates_def)

definition ex_pi_id :: PaymentInitiationID where
  "ex_pi_id = \<lparr>PaymentInitiationID_Reference = ''pi'', PaymentInitiationID_ConnectorID = ex_connector\<rparr>"

definition ex_pi :: PaymentInitiation where
  "ex_pi = \<lparr>PaymentInitiation_ID = ex_pi_id, PaymentInitiation_ConnectorID = ex_connector,
     PaymentInitiation_Reference = ''pi'', PaymentInitiation_CreatedAt = 5,
     PaymentInitiation_ScheduledAt = 0, PaymentInitiation_Description = ''transfer'',
     PaymentInitiation_Type = PAYMENT_INITIATION_TYPE_TRANSFER,
     PaymentInitiation_SourceAccountID = None, PaymentInitiation_DestinationAccountID = None,
     PaymentInitiation_Amount = Some 100, PaymentInitiation_Asset = ''USD/2'',
     PaymentInitiation_Metadata = Map.empty\<rparr>"

definition ex_adjustment_row ::
  "time \<Rightarrow> PaymentInitiationAdjustmentStatus \<Rightarrow> int option \<Rightarrow> pi_adjustment_row" where
  "ex_adjustment_row t st x =
     \<lparr>pia_id = \<lparr>PaymentInitiationAdjustmentID_PaymentInitiationID = ex_pi_id,
        PaymentInitiationAdjustmentID_CreatedAt = t, PaymentInitiationAdjustmentID_Status = st\<rparr>,
      pia_payment_initiation_id = ex_pi_id, pia_created_at = t, pia_status = st, pia_error = None,
      pia_amount = x, pia_asset = Some ''USD/2'', pia_metadata = Map.empty\<rparr>"

text \<open>A database with the initiation and the given log.\<close>

definition ex_pi_db :: "(time \<times> PaymentInitiationAdjustmentStatus \<times> int option) list \<Rightarrow> db" where
  "ex_pi_db log = ex_db\<lparr>payment_initiations := [fromPaymentInitiationModels ex_env ex_pi],
     pi_adjustments := map (\<lambda>(t, st, x). ex_adjustment_row t st x) log\<rparr>"

definition ex_sys :: "db \<Rightarrow> sys" where
  "ex_sys d = \<lparr>sys_db = d, sys_runs = [], sys_schedules = [], sys_requests = []\<rparr>"

lemma ex_sys_simps [simp]: "sys_db (ex_sys d) = d" "sys_runs (ex_sys d) = []"
  by (simp_all add: ex_sys_def)

lemma ex_log [simp]:
  "initiation_adjustments ex_pi_id (ex_pi_db log) = map (\<lambda>(t, st, x). ex_adjustment_row t st x) log"
  by (induction log) (auto simp: initiation_adjustments_def ex_pi_db_def ex_adjustment_row_def)

lemma ex_rows [simp]:
  "pia_status (ex_adjustment_row t st x) = st" "pia_created_at (ex_adjustment_row t st x) = t"
  "pia_amount (ex_adjustment_row t st x) = x"
  by (simp_all add: ex_adjustment_row_def)

definition ex_wfl :: "poll_response result \<Rightarrow> wfl" where
  "ex_wfl answer = \<lparr>wfl_env = ex_env, wfl_stack = ''stack'', wfl_now = (\<lambda>_. 200),
     wfl_time_text = int_digits, wfl_sleep = None, wfl_fill = (\<lambda>a. Inr a),
     wfl_create_transfer = (\<lambda>_ _. Inl (Plain ''refused'')),
     wfl_create_payout = (\<lambda>_ _. Inl (Plain ''refused'')),
     wfl_poll_transfer = (\<lambda>_ _. answer), wfl_poll_payout = (\<lambda>_ _. answer),
     wfl_reverse_transfer = (\<lambda>_ _. Inl (Plain ''refused'')),
     wfl_reverse_payout = (\<lambda>_ _. Inl (Plain ''refused'')),
     wfl_polling_period = (\<lambda>_. Inr 1), wfl_schedule = (\<lambda>_. None), wfl_unschedule = (\<lambda>_. None),
     wfl_pager = ex_pager\<rparr>"

lemma ex_wfl_simps [simp]:
  "wfl_pager (ex_wfl a) = ex_pager" "wfl_env (ex_wfl a) = ex_env" "wfl_now (ex_wfl a) x = 200"
  by (simp_all add: ex_wfl_def)

definition ex_reversal :: "int \<Rightarrow> PaymentInitiationReversal" where
  "ex_reversal x = \<lparr>PaymentInitiationReversal_ID =
       \<lparr>PaymentInitiationReversalID_Reference = ''r'', PaymentInitiationReversalID_ConnectorID = ex_connector\<rparr>,
     PaymentInitiationReversal_ConnectorID = ex_connector,
     PaymentInitiationReversal_PaymentInitiationID = ex_pi_id,
     PaymentInitiationReversal_Reference = ''r'', PaymentInitiationReversal_CreatedAt = 9,
     PaymentInitiationReversal_Description = [], PaymentInitiationReversal_Amount = Some x,
     PaymentInitiationReversal_Asset = ''USD/2'', PaymentInitiationReversal_Metadata = Map.empty\<rparr>"

definition ex_waiting :: sys where
  "ex_waiting = ex_sys (ex_pi_db [(5, PAYMENT_INITIATION_ADJUSTMENT_STATUS_WAITING_FOR_VALIDATION, Some 100)])"

definition ex_many :: sys where
  "ex_many = ex_sys (ex_pi_db (map (\<lambda>n. (int n, PAYMENT_INITIATION_ADJUSTMENT_STATUS_FAILED, Some 1)) [0..<51]))"

end
