(* ===== verification/Initiations_Properties.thy ===== *)
theory Initiations_Properties
  imports Initiations_Examples
begin

text \<open>
  What the services and workflows of payment initiations promise: the guards on
  the last adjustment, the loops over listings, attempts and failures.
\<close>

section \<open>Reading every adjustment\<close>

text \<open>C39: over a paginator that keeps its contract, reading the adjustments of a payment
  initiation in order to retry it returns all of them, the newest first, when
  there are at most 50; with more it never returns, and neither does the retry:
  the loop tests the cursor of the page but never moves to it.\<close>

theorem all_adjustments_returns_iff:
  assumes "offset_pager (svc_pager v)" "fl ''failed to fetch accounts'' = None"
  shows "getAllPaymentInitiationAdjustments fl (svc_pager v) i (sys_db s) =
      (if length (initiation_adjustments i (sys_db s)) \<le> 50
       then Some (Inr (map toPaymentInitiationAdjustmentModels
              (newest_first pia_created_at (initiation_adjustments i (sys_db s)))), sys_db s)
       else None) \<and>
    (PaymentInitiationsRetry v fl i waitResult s \<noteq> None \<longleftrightarrow>
       length (initiation_adjustments i (sys_db s)) \<le> 50)"
  using getAll_value[where fl = fl, OF assms, of i "sys_db s"] by (simp add: PaymentInitiationsRetry_def)

lemma all_adjustments_returns_iff_witness:
  "PaymentInitiationsRetry ex_svc no_faults ex_pi_id False ex_many = None"
proof -
  have "offset_pager (svc_pager ex_svc)" "no_faults ''failed to fetch accounts'' = None"
    by (simp_all add: ex_pager_ok no_faults_def)
  from all_adjustments_returns_iff[where fl = no_faults, OF this, of ex_pi_id ex_many False]
  have "PaymentInitiationsRetry ex_svc no_faults ex_pi_id False ex_many \<noteq> None \<longleftrightarrow>
      length (initiation_adjustments ex_pi_id (sys_db ex_many)) \<le> 50" by blast
  moreover have "length (initiation_adjustments ex_pi_id (sys_db ex_many)) = 51"
    by (simp add: ex_many_def)
  ultimately show ?thesis
    by (cases "PaymentInitiationsRetry ex_svc no_faults ex_pi_id False ex_many") auto
qed

text \<open>C10: the check of the amount of a reversal always ends, whatever the number of
  pages: it sums the amounts of every REVERSED adjustment and accepts exactly the
  reversals that keep the total within the amount of the payment initiation; an
  adjustment without amount makes it panic.  It changes nothing.\<close>

theorem validateReverseAmount_total:
  assumes "offset_pager (wfl_pager w)" "fl ''failed to fetch accounts'' = None"
  shows "\<exists>e. validateReverseAmount w fl p r s =
    Some (if \<exists>x\<in>set (reversed_rows (PaymentInitiation_ID p) (sys_db s)). pia_amount x = None
          then Inl (Panic ''runtime error: invalid memory address or nil pointer dereference'')
          else if reversed_total (PaymentInitiation_ID p) (sys_db s)
                 + amount_or_zero (PaymentInitiationReversal_Amount r)
               \<le> amount_or_zero (PaymentInitiation_Amount p)
          then Inr ()
          else Inl (ApplicationError ''CANNOT_REVERSE_MORE_THAN_AMOUNT''
                 ''cannot reverse more than the amount'' True None e), s)"
  using reversed_amount[where fl = fl, OF assms, of 100 "PaymentInitiation_ID p" s]
  unfolding validateReverseAmount_def new_query
  by (auto simp: wf_bind_def wf_of_def Let_def)

lemma validateReverseAmount_total_witness:
  "(let s = ex_sys (ex_pi_db [(1, PAYMENT_INITIATION_ADJUSTMENT_STATUS_PROCESSED, Some 100),
       (2, PAYMENT_INITIATION_ADJUSTMENT_STATUS_REVERSED, Some 60)]); w = ex_wfl (Inl (Plain []))
    in validateReverseAmount w no_faults ex_pi (ex_reversal 40) s = Some (Inr (), s) \<and>
       (\<exists>e. validateReverseAmount w no_faults ex_pi (ex_reversal 41) s = Some (Inl e, s)))"
proof -
  let ?s = "ex_sys (ex_pi_db [(1, PAYMENT_INITIATION_ADJUSTMENT_STATUS_PROCESSED, Some 100),
       (2, PAYMENT_INITIATION_ADJUSTMENT_STATUS_REVERSED, Some 60)])"
  let ?w = "ex_wfl (Inl (Plain []))"
  have "PaymentInitiation_ID ex_pi = ex_pi_id" "PaymentInitiation_Amount ex_pi = Some 100"
    by (simp_all add: ex_pi_def)
  with validateReverseAmount_total[of ?w no_faults ex_pi "ex_reversal 40" ?s]
    validateReverseAmount_total[of ?w no_faults ex_pi "ex_reversal 41" ?s]
  show ?thesis
    by (auto simp: ex_pager_ok no_faults_def reversed_total_def reversed_rows_def ex_reversal_def
        amount_or_zero_def Let_def)
qed

section \<open>Decisions on an initiation\<close>

lemma require_waiting_same:
  assumes "offset_pager (svc_pager v)" "require_waiting v fl i m s = (r, s')"
  shows "s' = s"
proof (cases "fl ''failed to fetch accounts''")
  case None
  have "service_last_adjustment v fl i ''cannot list payment initiation adjustments''
      ''payment initiation adjustments not found'' s =
    ((case last_adjustment i (sys_db s) of
        None \<Rightarrow> Inl (Plain ''payment initiation adjustments not found'')
      | Some r \<Rightarrow> Inr (toPaymentInitiationAdjustmentModels r)), s)"
    by (rule service_last_adjustment_value[where fl = fl, OF assms(1) None])
  with assms(2) show ?thesis
    by (cases "last_adjustment i (sys_db s)") (auto simp: require_waiting_def tx_bind_def split: if_splits)
next
  case (Some e)
  then obtain err where "service_last_adjustment v fl i ''cannot list payment initiation adjustments''
      ''payment initiation adjustments not found'' s = (Inl err, s)"
    using service_last_adjustment_faulty[where fl = fl, OF Some] by blast
  with assms(2) show ?thesis by (simp add: require_waiting_def tx_bind_def)
qed

lemma seq_stops: "m s = (Inl e, s') \<Longrightarrow> tx_seq m n s = (Inl e, s')"
  by (simp add: tx_seq_def tx_bind_def)

text \<open>C8: a payment initiation that is not waiting for validation (or has no adjustment)
  can be neither approved nor rejected nor deleted, whatever the database refuses:
  each request is answered with an error and changes nothing, no workflow is
  started; without faults the error is the validation error of the services.\<close>

theorem decisions_need_waiting:
  assumes "offset_pager (svc_pager v)" "\<not> is_waiting i (sys_db s)"
  shows "(\<exists>e. PaymentInitiationsApprove v fl i waitResult s = (Inl e, s) \<and>
      (fl = no_faults \<and> last_adjustment i (sys_db s) \<noteq> None \<longrightarrow> errors_Is e Services_ErrValidation)) \<and>
    (\<exists>e. PaymentInitiationsReject v fl i s = (Inl e, s) \<and>
      (fl = no_faults \<and> last_adjustment i (sys_db s) \<noteq> None \<longrightarrow> errors_Is e Services_ErrValidation)) \<and>
    (\<exists>e. service_PaymentInitiationsDelete v fl i s = (Inl e, s) \<and>
      (fl = no_faults \<and> last_adjustment i (sys_db s) \<noteq> None \<longrightarrow> errors_Is e Services_ErrValidation))"
proof -
  have *: "\<exists>e. tx_seq (require_waiting v fl i refusal) n s = (Inl e, s) \<and>
      (fl = no_faults \<and> last_adjustment i (sys_db s) \<noteq> None \<longrightarrow> errors_Is e Services_ErrValidation)"
    for refusal and n :: "(sys, 'b) tx"
    using require_waiting_refuses[OF assms, of fl refusal] by (auto dest: seq_stops)
  show ?thesis
    unfolding PaymentInitiationsApprove_def PaymentInitiationsReject_def service_PaymentInitiationsDelete_def
    by (intro conjI *)
qed

lemma decisions_need_waiting_witness:
  "(let s = ex_sys (ex_pi_db [(1, PAYMENT_INITIATION_ADJUSTMENT_STATUS_WAITING_FOR_VALIDATION, Some 100),
       (2, PAYMENT_INITIATION_ADJUSTMENT_STATUS_PROCESSING, Some 100)])
    in \<exists>e. PaymentInitiationsApprove ex_svc no_faults ex_pi_id False s = (Inl e, s) \<and>
         errors_Is e Services_ErrValidation)"
proof -
  let ?s = "ex_sys (ex_pi_db [(1, PAYMENT_INITIATION_ADJUSTMENT_STATUS_WAITING_FOR_VALIDATION, Some 100),
       (2, PAYMENT_INITIATION_ADJUSTMENT_STATUS_PROCESSING, Some 100)])"
  have not_waiting: "\<not> is_waiting ex_pi_id (sys_db ?s)" and some: "last_adjustment ex_pi_id (sys_db ?s) \<noteq> None"
    by (simp_all add: is_waiting_def last_adjustment_def)
  have "offset_pager (svc_pager ex_svc)" by (simp add: ex_pager_ok)
  from decisions_need_waiting[where fl = no_faults and waitResult = False, OF this not_waiting] some
  show ?thesis unfolding Let_def by blast
qed



end
