(* ===== verification/Initiations_Runs.thy ===== *)
theory Initiations_Runs
  imports Initiations_Tasks
begin

text \<open>
  A workflow that creates a transfer or a payout, up to the answer of the
  provider and after a refusal; a reversal that is alone in progress.
\<close>

section \<open>An adjustment added\<close>

lemma adjustment_upsert_succeeds:
  assumes "\<not> has_key pia_id (PaymentInitiationAdjustment_ID adj) (pi_adjustments d)"
    "has_key pi_id (PaymentInitiationAdjustmentID_PaymentInitiationID (PaymentInitiationAdjustment_ID adj))
       (payment_initiations d)"
    "connector_exists d (PaymentInitiationID_ConnectorID
       (PaymentInitiationAdjustmentID_PaymentInitiationID (PaymentInitiationAdjustment_ID adj)))"
    "env_pia_key env (PaymentInitiationAdjustment_ID adj) \<noteq> []"
  shows "\<exists>t. PaymentInitiationAdjustmentsUpsert env no_faults adj d =
    (Inr (), d\<lparr>pi_adjustments := pi_adjustments d @ [fromPaymentInitiationAdjustmentModels env adj],
              outbox_events := t\<rparr>)"
proof -
  let ?r = "fromPaymentInitiationAdjustmentModels env adj"
  let ?d1 = "d\<lparr>pi_adjustments := pi_adjustments d @ [?r]\<rparr>"
  have i: "insert_pi_adjustments_stmt no_faults [?r] d = (Inr [?r], ?d1)"
    using assms(1,2) by (simp add: insert_pi_adjustments_stmt_def)
  have "\<exists>d'. OutboxEventsInsert env no_faults [pi_adjustment_event env adj] ?d1 = (Inr (), d')"
    by (rule OutboxEventsInsert_succeeds)
      (use assms in \<open>simp add: pi_adjustment_event_def Let_def connector_ref_ok_def connector_exists_def\<close>)
  then obtain d' where o: "OutboxEventsInsert env no_faults [pi_adjustment_event env adj] ?d1 = (Inr (), d')"
    by blast
  from outbox.only_outbox[OF o] obtain t where "d' = ?d1\<lparr>outbox_events := t\<rparr>" by blast
  with i o have "PaymentInitiationAdjustmentsUpsert env no_faults adj d = (Inr (), ?d1\<lparr>outbox_events := t\<rparr>)"
    by (simp add: PaymentInitiationAdjustmentsUpsert_def in_tx_no_faults tx_bind_def rows_affected_def)
  then show ?thesis by auto
qed

text \<open>The adjustment a workflow adds, and the state it leaves.\<close>

definition pi_adjustment ::
  "PaymentInitiationID \<Rightarrow> PaymentInitiationAdjustmentStatus \<Rightarrow> time \<Rightarrow> int option \<Rightarrow> string option \<Rightarrow>
     error option \<Rightarrow> metadata \<Rightarrow> PaymentInitiationAdjustment" where
  "pi_adjustment i st t x a e md =
     \<lparr>PaymentInitiationAdjustment_ID =
        \<lparr>PaymentInitiationAdjustmentID_PaymentInitiationID = i,
         PaymentInitiationAdjustmentID_CreatedAt = t, PaymentInitiationAdjustmentID_Status = st\<rparr>,
      PaymentInitiationAdjustment_CreatedAt = t, PaymentInitiationAdjustment_Status = st,
      PaymentInitiationAdjustment_Amount = x, PaymentInitiationAdjustment_Asset = a,
      PaymentInitiationAdjustment_Error = e, PaymentInitiationAdjustment_Metadata = md\<rparr>"

lemma pi_adjustment_simps [simp]:
  "PaymentInitiationAdjustment_ID (pi_adjustment i st t x a e md) =
     \<lparr>PaymentInitiationAdjustmentID_PaymentInitiationID = i,
      PaymentInitiationAdjustmentID_CreatedAt = t, PaymentInitiationAdjustmentID_Status = st\<rparr>"
  "PaymentInitiationAdjustment_CreatedAt (pi_adjustment i st t x a e md) = t"
  "PaymentInitiationAdjustment_Status (pi_adjustment i st t x a e md) = st"
  by (simp_all add: pi_adjustment_def)

text \<open>Everything but the log of adjustments and the outbox.\<close>

definition log_grew :: "pi_adjustment_row list \<Rightarrow> db \<Rightarrow> db \<Rightarrow> bool" where
  "log_grew rows d d' \<longleftrightarrow>
     (\<exists>t. d' = d\<lparr>pi_adjustments := pi_adjustments d @ rows, outbox_events := t\<rparr>)"

lemma log_grewD:
  assumes "log_grew rows d d'"
  shows "pi_adjustments d' = pi_adjustments d @ rows" "payment_initiations d' = payment_initiations d"
    "connector_exists d' c = connector_exists d c" "tasks d' = tasks d" "accounts d' = accounts d"
  using assms by (auto simp: log_grew_def connector_exists_def)

lemma log_grew_trans: "log_grew rs d d' \<Longrightarrow> log_grew rs' d' d'' \<Longrightarrow> log_grew (rs @ rs') d d''"
  by (auto simp: log_grew_def)

lemma addPIAdjustment_succeeds:
  assumes "\<not> has_key pia_id \<lparr>PaymentInitiationAdjustmentID_PaymentInitiationID = i,
       PaymentInitiationAdjustmentID_CreatedAt = wfl_now w point,
       PaymentInitiationAdjustmentID_Status = st\<rparr> (pi_adjustments (sys_db s))"
    "has_key pi_id i (payment_initiations (sys_db s))"
    "connector_exists (sys_db s) (PaymentInitiationID_ConnectorID i)"
    "\<And>a. env_pia_key (wfl_env w) a \<noteq> []"
  shows "\<exists>d'. addPIAdjustment w no_faults point i st x a e md s = (Inr (), s\<lparr>sys_db := d'\<rparr>) \<and>
    log_grew [fromPaymentInitiationAdjustmentModels (wfl_env w) (pi_adjustment i st (wfl_now w point) x a e md)]
      (sys_db s) d'"
proof -
  let ?adj = "pi_adjustment i st (wfl_now w point) x a e md"
  have "\<exists>t. PaymentInitiationAdjustmentsUpsert (wfl_env w) no_faults ?adj (sys_db s) =
    (Inr (), (sys_db s)\<lparr>pi_adjustments := pi_adjustments (sys_db s) @
        [fromPaymentInitiationAdjustmentModels (wfl_env w) ?adj], outbox_events := t\<rparr>)"
    by (rule adjustment_upsert_succeeds) (use assms in simp_all)
  then show ?thesis
    by (auto simp: addPIAdjustment_def activity_def on_db_def log_grew_def pi_adjustment_def[symmetric])
qed

section \<open>Computations that ask nothing of a provider\<close>

definition silent :: "(sys, 'a) tx \<Rightarrow> bool" where
  "silent m \<longleftrightarrow> (\<forall>s. sys_requests (snd (m s)) = sys_requests s)"

lemma silentD: "silent m \<Longrightarrow> m s = (r, s') \<Longrightarrow> sys_requests s' = sys_requests s"
  unfolding silent_def by (metis snd_conv)

lemma silent_basic: "silent (tx_return a)" "silent (tx_fail e)" "silent (tx_lift x)"
  by (simp_all add: silent_def tx_lift_def)

lemma silent_bind: "silent m \<Longrightarrow> (\<And>a. silent (f a)) \<Longrightarrow> silent (tx_bind m f)"
  by (auto simp: silent_def tx_bind_def split: prod.splits sum.splits) (metis snd_conv)+

lemma silent_seq: "silent m \<Longrightarrow> silent n \<Longrightarrow> silent (tx_seq m n)"
  by (simp add: tx_seq_def silent_bind)

lemma silent_activity: "silent (activity m)"
  by (auto simp: silent_def activity_def on_db_def Let_def split: prod.splits sum.splits)

lemma silent_schedule: "silent (TemporalScheduleCreate w i)"
  by (auto simp: silent_def TemporalScheduleCreate_def tx_modify_def split: option.splits)

lemmas silent_intros = silent_basic silent_bind silent_seq silent_activity silent_schedule

lemma silent_addPIAdjustment: "silent (addPIAdjustment w fl point i st x a e md)"
  by (simp add: addPIAdjustment_def silent_activity)

lemma silent_updateTask: "silent (updateTask w fl t)"
  by (simp add: updateTask_def silent_activity)

lemma silent_store_psp_payment: "silent (store_psp_payment w fl msg p c i)"
  unfolding store_psp_payment_def storePIPaymentWithStatus_def
  by (intro silent_intros silent_addPIAdjustment)

lemma silent_start_polling: "silent (start_polling w fl what c pollingID)"
  unfolding start_polling_def Let_def by (intro silent_intros)

lemma silent_report_failure: "silent (report_failure w fl taskID c err)"
  unfolding report_failure_def updateTasksError_def
  by (auto intro!: silent_intros silent_updateTask)

section \<open>Reaching the provider\<close>

definition due :: "wfl \<Rightarrow> PaymentInitiation \<Rightarrow> bool" where
  "due w p \<longleftrightarrow> time_IsZero (PaymentInitiation_ScheduledAt p) \<or>
     PaymentInitiation_ScheduledAt p \<le> wfl_now w ''start''"

text \<open>What the workflow needs to find to get as far as the provider.\<close>

definition ready ::
  "wfl \<Rightarrow> PaymentInitiationID \<Rightarrow> PaymentInitiation \<Rightarrow> PSPPaymentInitiation \<Rightarrow> sys \<Rightarrow> bool" where
  "ready w i p psp s \<longleftrightarrow>
     PaymentInitiationsGet no_faults i (sys_db s) = (Inr p, sys_db s) \<and> due w p \<and>
     getPSPPI w no_faults p s = (Inr psp, s) \<and>
     connector_exists (sys_db s) (PaymentInitiationID_ConnectorID i) \<and>
     (\<forall>a. env_pia_key (wfl_env w) a \<noteq> []) \<and> (\<forall>t. env_task_key (wfl_env w) t \<noteq> []) \<and>
     \<not> has_key pia_id \<lparr>PaymentInitiationAdjustmentID_PaymentInitiationID = i,
          PaymentInitiationAdjustmentID_CreatedAt = wfl_now w ''processing'',
          PaymentInitiationAdjustmentID_Status = PAYMENT_INITIATION_ADJUSTMENT_STATUS_PROCESSING\<rparr>
        (pi_adjustments (sys_db s)) \<and>
     \<not> has_key pia_id \<lparr>PaymentInitiationAdjustmentID_PaymentInitiationID = i,
          PaymentInitiationAdjustmentID_CreatedAt = wfl_now w ''failed'',
          PaymentInitiationAdjustmentID_Status = PAYMENT_INITIATION_ADJUSTMENT_STATUS_FAILED\<rparr>
        (pi_adjustments (sys_db s))"

definition processing_row :: "wfl \<Rightarrow> PaymentInitiationID \<Rightarrow> PaymentInitiation \<Rightarrow> pi_adjustment_row" where
  "processing_row w i p = fromPaymentInitiationAdjustmentModels (wfl_env w)
     (pi_adjustment i PAYMENT_INITIATION_ADJUSTMENT_STATUS_PROCESSING (wfl_now w ''processing'')
        (PaymentInitiation_Amount p) (Some (PaymentInitiation_Asset p)) None Map.empty)"

definition failed_row :: "wfl \<Rightarrow> PaymentInitiationID \<Rightarrow> PaymentInitiation \<Rightarrow> error \<Rightarrow> pi_adjustment_row" where
  "failed_row w i p err = fromPaymentInitiationAdjustmentModels (wfl_env w)
     (pi_adjustment i PAYMENT_INITIATION_ADJUSTMENT_STATUS_FAILED (wfl_now w ''failed'')
        (PaymentInitiation_Amount p) (Some (PaymentInitiation_Asset p)) (Some (Cause err)) Map.empty)"

lemma ready_stored: "ready w i p psp s \<Longrightarrow> has_key pi_id i (payment_initiations (sys_db s))"
  using lookup_row_absent[of pi_id i "payment_initiations (sys_db s)"]
  by (cases "has_key pi_id i (payment_initiations (sys_db s))")
    (simp_all add: ready_def PaymentInitiationsGet_def stmt_def no_faults_def refuse_def tx_fail_def)

text \<open>What follows the request.\<close>

definition after_request ::
  "wfl \<Rightarrow> string \<Rightarrow> create_response result \<Rightarrow> TaskID \<Rightarrow> ConnectorID \<Rightarrow> PaymentInitiationID \<Rightarrow>
     PaymentInitiation \<Rightarrow> (sys, unit) tx" where
  "after_request w what answer taskID c i p = (case answer of
     Inr response \<Rightarrow>
       (case create_response_Payment response of
          Some payment \<Rightarrow> tx_bind (store_psp_payment w no_faults ''failed to translate psp payment'' payment c i)
            (\<lambda>paymentID. updateTaskSuccess w no_faults taskID (Some c) paymentID)
        | None \<Rightarrow> (case create_response_Polling response of
            Some pollingID \<Rightarrow> start_polling w no_faults what c pollingID
          | None \<Rightarrow> tx_return ()))
   | Inl err \<Rightarrow> tx_seq (addPIAdjustment w no_faults ''failed'' i PAYMENT_INITIATION_ADJUSTMENT_STATUS_FAILED
         (PaymentInitiation_Amount p) (Some (PaymentInitiation_Asset p)) (Some (Cause err)) Map.empty)
       (tx_fail err))"

lemma silent_after_request: "silent (after_request w what answer taskID c i p)"
  unfolding after_request_def updateTaskSuccess_def
  by (auto split: sum.splits option.splits intro!: silent_intros silent_addPIAdjustment
      silent_store_psp_payment silent_start_polling silent_updateTask)

lemma create_reaches_provider:
  assumes "ready w i p psp s"
  obtains d1 where "log_grew [processing_row w i p] (sys_db s) d1"
    "create_at_psp w no_faults what request call taskID c i s =
       after_request w what (call psp) taskID c i p
         (s\<lparr>sys_db := d1, sys_requests := sys_requests s @ [request psp]\<rparr>)"
proof -
  have get: "activity (PaymentInitiationsGet no_faults i) s = (Inr p, s)"
    using assms by (simp add: ready_def activity_same)
  have nowait: "wait_schedule w no_faults p s = (Inr (), s)"
    using assms by (auto simp: ready_def due_def wait_schedule_def)
  have psp: "getPSPPI w no_faults p s = (Inr psp, s)" using assms by (simp add: ready_def)
  have "\<exists>d'. addPIAdjustment w no_faults ''processing'' i PAYMENT_INITIATION_ADJUSTMENT_STATUS_PROCESSING
      (PaymentInitiation_Amount p) (Some (PaymentInitiation_Asset p)) None Map.empty s =
        (Inr (), s\<lparr>sys_db := d'\<rparr>) \<and> log_grew [processing_row w i p] (sys_db s) d'"
    unfolding processing_row_def
    by (rule addPIAdjustment_succeeds) (use assms ready_stored[OF assms] in \<open>simp_all add: ready_def\<close>)
  then obtain d1 where add: "addPIAdjustment w no_faults ''processing'' i
      PAYMENT_INITIATION_ADJUSTMENT_STATUS_PROCESSING (PaymentInitiation_Amount p)
      (Some (PaymentInitiation_Asset p)) None Map.empty s = (Inr (), s\<lparr>sys_db := d1\<rparr>)"
    and grew: "log_grew [processing_row w i p] (sys_db s) d1" by blast
  have "create_at_psp w no_faults what request call taskID c i s =
       after_request w what (call psp) taskID c i p
         (s\<lparr>sys_db := d1, sys_requests := sys_requests s @ [request psp]\<rparr>)"
    by (simp add: create_at_psp_def tx_bind_def[of "activity (PaymentInitiationsGet no_faults i)"] get
        tx_seq_def[of "wait_schedule w no_faults p"] tx_bind_def[of "wait_schedule w no_faults p"] nowait
        tx_bind_def[of "getPSPPI w no_faults p"] psp tx_seq_def tx_bind_def add plugin_call_def
        after_request_def split: sum.split option.split)
  from that[OF grew this] show thesis .
qed

lemma create_requests:
  assumes "ready w i p psp s"
  shows "sys_requests (snd (create_at_psp w no_faults what request call taskID c i s)) =
    sys_requests s @ [request psp]"
proof -
  from create_reaches_provider[OF assms, where what = what and request = request and call = call
      and taskID = taskID and c = c] obtain d1 where
    "create_at_psp w no_faults what request call taskID c i s =
       after_request w what (call psp) taskID c i p
         (s\<lparr>sys_db := d1, sys_requests := sys_requests s @ [request psp]\<rparr>)" by blast
  with silent_after_request[of w what "call psp" taskID c i p] show ?thesis
    by (simp add: silent_def)
qed

lemma or_report_requests:
  "sys_requests (snd (or_report w fl taskID c m s)) = sys_requests (snd (m s))"
  using silent_report_failure[of w fl taskID c]
  by (auto simp: or_report_def silent_def split: prod.splits sum.splits)

text \<open>A refusal of the provider, as the workflow and its task end.\<close>

lemma create_refused:
  assumes "ready w i p psp s" "call psp = Inl err" "\<not> is_panic err" "c = PaymentInitiationID_ConnectorID i"
  shows "\<exists>s'. or_report w no_faults taskID c
      (create_at_psp w no_faults what request call taskID c i) s = (Inl err, s') \<and>
    pi_adjustments (sys_db s') =
      pi_adjustments (sys_db s) @ [processing_row w i p, failed_row w i p err] \<and>
    payment_initiations (sys_db s') = payment_initiations (sys_db s) \<and>
    connectors (sys_db s') = connectors (sys_db s) \<and> sys_runs s' = sys_runs s \<and>
    (\<exists>r. lookup_row task_id taskID (tasks (sys_db s')) = Some r \<and>
       task_status r = TASK_STATUS_FAILED \<and> task_error r = Some (error_text (Cause err)))"
proof -
  from create_reaches_provider[OF assms(1), where what = what and request = request and call = call
      and taskID = taskID and c = c] obtain d1 where
    grew: "log_grew [processing_row w i p] (sys_db s) d1" and
    run: "create_at_psp w no_faults what request call taskID c i s =
       after_request w what (call psp) taskID c i p
         (s\<lparr>sys_db := d1, sys_requests := sys_requests s @ [request psp]\<rparr>)" by blast
  let ?s1 = "s\<lparr>sys_db := d1, sys_requests := sys_requests s @ [request psp]\<rparr>"
  have "\<exists>d'. addPIAdjustment w no_faults ''failed'' i PAYMENT_INITIATION_ADJUSTMENT_STATUS_FAILED
      (PaymentInitiation_Amount p) (Some (PaymentInitiation_Asset p)) (Some (Cause err)) Map.empty ?s1 =
        (Inr (), ?s1\<lparr>sys_db := d'\<rparr>) \<and> log_grew [failed_row w i p err] (sys_db ?s1) d'"
    unfolding failed_row_def
    by (rule addPIAdjustment_succeeds)
      (use assms(1) ready_stored[OF assms(1)] log_grewD[OF grew] in
        \<open>simp_all add: ready_def processing_row_def\<close>)
  then obtain d2 where failed: "addPIAdjustment w no_faults ''failed'' i PAYMENT_INITIATION_ADJUSTMENT_STATUS_FAILED
      (PaymentInitiation_Amount p) (Some (PaymentInitiation_Asset p)) (Some (Cause err)) Map.empty ?s1 =
        (Inr (), ?s1\<lparr>sys_db := d2\<rparr>)" and grew2: "log_grew [failed_row w i p err] d1 d2" by auto
  let ?s2 = "?s1\<lparr>sys_db := d2\<rparr>"
  have both: "log_grew [processing_row w i p, failed_row w i p err] (sys_db s) d2"
    using log_grew_trans[OF grew grew2] by simp
  have conn: "connector_exists (sys_db ?s2) c"
    using assms(1,4) log_grewD(3)[OF both] by (simp add: ready_def)
  have keys: "\<And>t. env_task_key (wfl_env w) t \<noteq> []" using assms(1) by (simp add: ready_def)
  from updateTasksError_succeeds[of ?s2 c w taskID err, OF conn keys] obtain s' where
    u: "updateTasksError w no_faults taskID (Some c) err ?s2 = (Inr (), s')" and
    task: "\<exists>r. lookup_row task_id taskID (tasks (sys_db s')) = Some r \<and>
       task_status r = TASK_STATUS_FAILED \<and> task_error r = Some (error_text (Cause err))" and
    same: "same_entities (sys_db ?s2) (sys_db s')" by blast
  have "or_report w no_faults taskID c (create_at_psp w no_faults what request call taskID c i) s = (Inl err, s')"
    using assms(2,3) failed u
    by (simp add: or_report_def run after_request_def tx_seq_def tx_bind_def report_failure_def)
  moreover have "sys_runs s' = sys_runs s"
    using u by (auto simp: updateTasksError_def updateTask_def dest!: activity_on_db)
  ultimately show ?thesis
    using task same_entitiesD[OF same] log_grewD[OF both] both by (auto simp: log_grew_def)
qed

section \<open>Retrying a transfer\<close>

lemma transfer_retry:
  assumes "offset_pager (svc_pager v)" "rejects_duplicates (svc_start v)"
    "\<And>t. env_task_key (svc_env v) t \<noteq> []"
    "lookup_row pi_id i (payment_initiations (sys_db s)) = Some r"
    "pi_type r = PAYMENT_INITIATION_TYPE_TRANSFER"
    "connector_exists (sys_db s) (PaymentInitiationID_ConnectorID i)"
    "map_option pia_status (last_adjustment i (sys_db s)) = Some PAYMENT_INITIATION_ADJUSTMENT_STATUS_FAILED"
    "length (initiation_adjustments i (sys_db s)) \<le> 50"
  defines "run \<equiv> create_reference v ''create-transfer'' i
     (int (length (filter (\<lambda>a. pia_status a = PAYMENT_INITIATION_ADJUSTMENT_STATUS_FAILED)
        (initiation_adjustments i (sys_db s)))) + 1)"
  shows "\<exists>s'. PaymentInitiationsRetry v no_faults i False s =
      Some (Inr (processing_task v run (PaymentInitiationID_ConnectorID i)), s') \<and>
    sys_runs s' = started run (RunCreateTransfer
      \<lparr>TaskID_Reference = run, TaskID_ConnectorID = PaymentInitiationID_ConnectorID i\<rparr>
      (PaymentInitiationID_ConnectorID i) i) (sys_runs s) \<and>
    same_entities (sys_db s) (sys_db s') \<and>
    has_key task_id \<lparr>TaskID_Reference = run, TaskID_ConnectorID = PaymentInitiationID_ConnectorID i\<rparr>
      (tasks (sys_db s'))"
proof -
  let ?c = "PaymentInitiationID_ConnectorID i"
  let ?rows = "newest_first pia_created_at (initiation_adjustments i (sys_db s))"
  let ?adjs = "map toPaymentInitiationAdjustmentModels ?rows"
  have quiet: "no_faults ''failed to fetch accounts'' = None" by (simp add: no_faults_def)
  have all: "getAllPaymentInitiationAdjustments no_faults (svc_pager v) i (sys_db s) = Some (Inr ?adjs, sys_db s)"
    using getAll_value[where fl = no_faults, OF assms(1) quiet, of i "sys_db s"] assms(8) by simp
  from assms(7) obtain l where l: "last_adjustment i (sys_db s) = Some l"
    "pia_status l = PAYMENT_INITIATION_ADJUSTMENT_STATUS_FAILED" by auto
  have some: "initiation_adjustments i (sys_db s) \<noteq> []" using l(1) by (auto simp: last_adjustment_def)
  then have "?rows \<noteq> []" by (metis newest_first_length length_0_conv)
  with newest_first_head[OF some, of pia_created_at] l(1)
  obtain rest where rows: "?rows = l # rest" by (cases ?rows) (auto simp: last_adjustment_def)
  have attempt: "getAttemps ?adjs + 1 = int (length (filter
      (\<lambda>a. pia_status a = PAYMENT_INITIATION_ADJUSTMENT_STATUS_FAILED) (initiation_adjustments i (sys_db s)))) + 1"
    by (simp only: count_failed_newest)
  have get: "on_db (PaymentInitiationsGet no_faults i) s = (Inr (toPaymentInitiationModels r), s)"
    by (rule on_db_same) (simp add: PaymentInitiationsGet_def stmt_def no_faults_def assms(4))
  have "pi_id r = i" using lookup_row_SomeD[OF assms(4)] by blast
  then have "PaymentInitiationsRetry v no_faults i False s =
      Some (svc_engine (engine_CreateTransfer v no_faults i (getAttemps ?adjs + 1) False) s)"
    using l(2) rows get assms(5)
    by (simp add: PaymentInitiationsRetry_def all retry_with_def tx_bind_def svc_storage_def launch_def
        toPaymentInitiationModels_def)
  then have retry: "PaymentInitiationsRetry v no_faults i False s =
      Some (svc_engine (run_task v no_faults run ?c (\<lambda>t. RunCreateTransfer t ?c i) False handleWorkflowError) s)"
    by (simp only: attempt engine_CreateTransfer_def run_def)
  from run_task_starts[OF assms(2,6,3), of run "\<lambda>t. RunCreateTransfer t ?c i" handleWorkflowError]
  show ?thesis by (auto simp: retry svc_engine_def)
qed

section \<open>A poll answered with an error\<close>

lemma run_poll_error_adjustments:
  "pi_adjustments (sys_db (snd (run_poll w fl taskID c (poll_psp w fl request
     (Inr \<lparr>poll_response_Payment = None, poll_response_Error = Some err\<rparr>) c i scheduleID) s))) =
   pi_adjustments (sys_db s)"
proof -
  let ?answer = "Inr \<lparr>poll_response_Payment = None, poll_response_Error = Some err\<rparr> :: poll_response result"
  obtain r s1 where 1: "poll_psp w fl request ?answer c i scheduleID s = (r, s1)" by fastforce
  from poll_error_adjustments[OF 1] obtain e where
    same: "pi_adjustments (sys_db s1) = pi_adjustments (sys_db s)" and r: "r = Inl e" by blast
  obtain r2 s2 where 2: "updateTasksError w fl taskID (Some c) e s1 = (r2, s2)" by fastforce
  from same_entitiesD(1)[OF updateTasksError_entities[OF 2]] show ?thesis
    by (simp add: run_poll_def 1 r 2 same)
qed

section \<open>The check that a reversal is alone\<close>

lemma reverse_recorded:
  assumes "validateOnlyReverse w fl p r s = (Inr (), s')"
  shows "pi_adjustments (sys_db s') = pi_adjustments (sys_db s) @
     [fromPaymentInitiationAdjustmentModels (wfl_env w) (reverse_processing_adjustment w p r)]"
proof -
  from assms have "StoragePaymentInitiationsAdjustmentsIfPredicateStore w fl
      (reverse_processing_adjustment w p r) [PAYMENT_INITIATION_ADJUSTMENT_STATUS_REVERSE_PROCESSING] s =
        (Inr True, s')"
    by (auto simp: validateOnlyReverse_def tx_inr split: if_splits)
  then have "PaymentInitiationAdjustmentsUpsertIfPredicate (wfl_env w) fl (reverse_processing_adjustment w p r)
      (\<lambda>pia. PaymentInitiationAdjustment_Status pia \<notin>
         set [PAYMENT_INITIATION_ADJUSTMENT_STATUS_REVERSE_PROCESSING]) (sys_db s) = (Inr True, sys_db s')"
    by (auto simp: StoragePaymentInitiationsAdjustmentsIfPredicateStore_def activity_def on_db_def Let_def
        split: prod.splits sum.splits)
  then show ?thesis by (rule UpsertIfPredicate_True)
qed

lemma reverse_refused:
  assumes "map_option pia_status (last_adjustment (PaymentInitiationReversal_PaymentInitiationID r) (sys_db s)) =
      Some PAYMENT_INITIATION_ADJUSTMENT_STATUS_REVERSE_PROCESSING"
  shows "\<exists>e. validateOnlyReverse w fl p r s = (Inl e, s)"
    "validateOnlyReverse w no_faults p r s =
      (Inl (ApplicationError ''ANOTHER_REVERSE_IN_PROGRESS'' ''another reverse is already in progress'' True None
         (Some (Plain ''another reverse is already in progress''))), s)"
proof -
  let ?adj = "reverse_processing_adjustment w p r"
  let ?pred = "\<lambda>pia. PaymentInitiationAdjustment_Status pia \<notin>
     set [PAYMENT_INITIATION_ADJUSTMENT_STATUS_REVERSE_PROCESSING]"
  have i: "PaymentInitiationAdjustmentID_PaymentInitiationID (PaymentInitiationAdjustment_ID ?adj) =
      PaymentInitiationReversal_PaymentInitiationID r" by (simp add: reverse_processing_adjustment_def)
  from assms obtain prev where prev: "last_adjustment (PaymentInitiationReversal_PaymentInitiationID r) (sys_db s) =
      Some prev" "pia_status prev = PAYMENT_INITIATION_ADJUSTMENT_STATUS_REVERSE_PROCESSING" by auto
  have u: "PaymentInitiationAdjustmentsUpsertIfPredicate (wfl_env w) no_faults ?adj ?pred (sys_db s) =
      (Inr False, sys_db s)"
    by (rule UpsertIfPredicate_refused) (use prev i in simp_all)
  have any: "(\<exists>e. PaymentInitiationAdjustmentsUpsertIfPredicate (wfl_env w) fl ?adj ?pred (sys_db s) = (Inl e, sys_db s)) \<or>
      PaymentInitiationAdjustmentsUpsertIfPredicate (wfl_env w) fl ?adj ?pred (sys_db s) = (Inr False, sys_db s)"
    using prev i by (auto simp: PaymentInitiationAdjustmentsUpsertIfPredicate_def select_previous_adjustment_def
        stmt_def tx_bind_def tx_fail_def split: option.splits)
  show "validateOnlyReverse w no_faults p r s =
      (Inl (ApplicationError ''ANOTHER_REVERSE_IN_PROGRESS'' ''another reverse is already in progress'' True None
         (Some (Plain ''another reverse is already in progress''))), s)"
    using u by (simp add: validateOnlyReverse_def StoragePaymentInitiationsAdjustmentsIfPredicateStore_def
        activity_def on_db_def tx_bind_def)
  show "\<exists>e. validateOnlyReverse w fl p r s = (Inl e, s)"
    using any by (auto simp: validateOnlyReverse_def StoragePaymentInitiationsAdjustmentsIfPredicateStore_def
        activity_def on_db_def tx_bind_def)
qed

end
