(* ===== verification/Runs_Properties.thy ===== *)
theory Runs_Properties
  imports Initiations_Runs Initiations_Examples
begin

text \<open>
  What the workflows of payment initiations do: the request to the provider,
  the record of its refusal, the next attempt, polls, reversals, and the
  repetition of the activities that write the log.
\<close>

section \<open>The request\<close>


definition ex_rejected :: sys where
  "ex_rejected = snd (PaymentInitiationsReject ex_svc no_faults ex_pi_id
     (snd (PaymentInitiationsApprove ex_svc no_faults ex_pi_id False ex_waiting)))"

definition ex_task :: TaskID where
  "ex_task = \<lparr>TaskID_Reference = create_reference ex_svc ''create-transfer'' ex_pi_id 1, TaskID_ConnectorID = ex_connector\<rparr>"

lemma ex_rejected_log:
  "sys_runs ex_rejected = [(TaskID_Reference ex_task, RunCreateTransfer ex_task ex_connector ex_pi_id)] \<and>
   map_option pia_status (last_adjustment ex_pi_id (sys_db ex_rejected)) =
     Some PAYMENT_INITIATION_ADJUSTMENT_STATUS_REJECTED \<and> sys_requests ex_rejected = []"
  by code_simp

lemma ex_ready:
  assumes "connector_exists (sys_db s) ex_connector"
    "\<not> has_key pia_id \<lparr>PaymentInitiationAdjustmentID_PaymentInitiationID = ex_pi_id,
          PaymentInitiationAdjustmentID_CreatedAt = 200,
          PaymentInitiationAdjustmentID_Status = PAYMENT_INITIATION_ADJUSTMENT_STATUS_PROCESSING\<rparr>
        (pi_adjustments (sys_db s))"
    "\<not> has_key pia_id \<lparr>PaymentInitiationAdjustmentID_PaymentInitiationID = ex_pi_id,
          PaymentInitiationAdjustmentID_CreatedAt = 200,
          PaymentInitiationAdjustmentID_Status = PAYMENT_INITIATION_ADJUSTMENT_STATUS_FAILED\<rparr>
        (pi_adjustments (sys_db s))"
    "case lookup_row pi_id ex_pi_id (payment_initiations (sys_db s)) of None \<Rightarrow> False
     | Some r \<Rightarrow> pi_scheduled_at r = 0 \<and> pi_source_account_id r = None \<and> pi_destination_account_id r = None"
  shows "\<exists>p psp. ready (ex_wfl a) ex_pi_id p psp s"
proof -
  from assms(4) obtain r where r: "lookup_row pi_id ex_pi_id (payment_initiations (sys_db s)) = Some r"
    "pi_scheduled_at r = 0" "pi_source_account_id r = None" "pi_destination_account_id r = None"
    by (auto split: option.splits)
  have "PaymentInitiationsGet no_faults ex_pi_id (sys_db s) = (Inr (toPaymentInitiationModels r), sys_db s)"
    using r by (simp add: PaymentInitiationsGet_def stmt_def no_faults_def)
  moreover have "getPSPPI (ex_wfl a) no_faults (toPaymentInitiationModels r) s =
      (Inr (FromPaymentInitiationToPSPPaymentInitiation (toPaymentInitiationModels r)
        (ToPSPAccount None) (ToPSPAccount None)), s)"
    using r by (simp add: getPSPPI_def account_of_def tx_bind_def toPaymentInitiationModels_def)
  moreover have "due (ex_wfl a) (toPaymentInitiationModels r)"
    using r by (simp add: due_def time_IsZero_def toPaymentInitiationModels_def)
  moreover have "PaymentInitiationID_ConnectorID ex_pi_id = ex_connector" by (simp add: ex_pi_id_def)
  moreover have "env_pia_key ex_env x \<noteq> []" "env_task_key ex_env t \<noteq> []" for x t by (simp_all add: ex_env_def)
  ultimately show ?thesis using assms(1-3) by (auto simp: ready_def)
qed


section \<open>A refusal\<close>

text \<open>C31: when the provider refuses a transfer or a payout, the workflow ends with that
  error, the log gains a PROCESSING and a FAILED adjustment (the last with the
  error), the initiation and its connector stay as they were, no workflow is started,
  and the task is FAILED with the text of the error.\<close>

theorem refusal_recorded:
  assumes "ready w i p psp s" "\<not> is_panic err" "c = PaymentInitiationID_ConnectorID i"
  shows "(wfl_create_transfer w c psp = Inl err \<longrightarrow> (\<exists>s'.
      runCreateTransfer w no_faults taskID c i s = (Inl err, s') \<and>
      pi_adjustments (sys_db s') =
        pi_adjustments (sys_db s) @ [processing_row w i p, failed_row w i p err] \<and>
      payment_initiations (sys_db s') = payment_initiations (sys_db s) \<and>
      connectors (sys_db s') = connectors (sys_db s) \<and> sys_runs s' = sys_runs s \<and>
      (\<exists>r. lookup_row task_id taskID (tasks (sys_db s')) = Some r \<and>
         task_status r = TASK_STATUS_FAILED \<and> task_error r = Some (error_text (Cause err))))) \<and>
    (wfl_create_payout w c psp = Inl err \<longrightarrow> (\<exists>s'.
      runCreatePayout w no_faults taskID c i s = (Inl err, s') \<and>
      pi_adjustments (sys_db s') =
        pi_adjustments (sys_db s) @ [processing_row w i p, failed_row w i p err] \<and>
      payment_initiations (sys_db s') = payment_initiations (sys_db s) \<and>
      connectors (sys_db s') = connectors (sys_db s) \<and> sys_runs s' = sys_runs s \<and>
      (\<exists>r. lookup_row task_id taskID (tasks (sys_db s')) = Some r \<and>
         task_status r = TASK_STATUS_FAILED \<and> task_error r = Some (error_text (Cause err)))))"
  unfolding runCreateTransfer_def runCreatePayout_def createTransfer_def createPayout_def
  by (intro conjI impI; rule create_refused[OF assms(1) _ assms(2,3)])

lemma refusal_recorded_witness:
  "\<exists>s'. runCreateTransfer (ex_wfl (Inl (Plain []))) no_faults ex_task ex_connector ex_pi_id ex_waiting =
     (Inl (Plain ''refused''), s') \<and> length (pi_adjustments (sys_db s')) = 3"
proof -
  let ?w = "ex_wfl (Inl (Plain []))"
  have "\<exists>p psp. ready ?w ex_pi_id p psp ex_waiting" by (rule ex_ready) code_simp+
  then obtain p psp where r: "ready ?w ex_pi_id p psp ex_waiting" by blast
  have refused: "\<not> is_panic (Plain ''refused'')" and c: "ex_connector = PaymentInitiationID_ConnectorID ex_pi_id"
    and answer: "wfl_create_transfer ?w ex_connector psp = Inl (Plain ''refused'')"
    by (simp_all add: ex_pi_id_def ex_wfl_def)
  from refusal_recorded[OF r refused c, of ex_task] answer
  have "\<exists>s'. runCreateTransfer ?w no_faults ex_task ex_connector ex_pi_id ex_waiting =
      (Inl (Plain ''refused''), s') \<and>
      pi_adjustments (sys_db s') = pi_adjustments (sys_db ex_waiting) @
        [processing_row ?w ex_pi_id p, failed_row ?w ex_pi_id p (Plain ''refused'')]" by blast
  moreover have "length (pi_adjustments (sys_db ex_waiting)) = 1" by code_simp
  ultimately show ?thesis by auto
qed

section \<open>The next attempt\<close>


definition ex_failed :: sys where
  "ex_failed = ex_sys (ex_pi_db [(5, PAYMENT_INITIATION_ADJUSTMENT_STATUS_FAILED, Some 100),
     (7, PAYMENT_INITIATION_ADJUSTMENT_STATUS_PROCESSING, Some 100),
     (8, PAYMENT_INITIATION_ADJUSTMENT_STATUS_FAILED, Some 100)])"


section \<open>Polls\<close>

text \<open>When the provider answers a poll of a transfer or of a payout with an error, no
  adjustment is written, with or without database faults: a payment initiation
  whose last status is PROCESSING keeps it, and a retry is refused (or does
  not return) although its task may say FAILED.\<close>

theorem poll_error_leaves_processing:
  assumes "wfl_poll_transfer w c remote = Inr \<lparr>poll_response_Payment = None, poll_response_Error = Some err\<rparr>"
    "wfl_poll_payout w c remote = Inr \<lparr>poll_response_Payment = None, poll_response_Error = Some err\<rparr>"
    "map_option pia_status (last_adjustment i (sys_db s)) =
       Some PAYMENT_INITIATION_ADJUSTMENT_STATUS_PROCESSING"
    "offset_pager (svc_pager v)"
    "s' = snd (runPollTransfer w fl taskID c i remote scheduleID s) \<or>
     s' = snd (runPollPayout w fl taskID c i remote scheduleID s)"
  shows "pi_adjustments (sys_db s') = pi_adjustments (sys_db s) \<and>
    (PaymentInitiationsRetry v fl' i waitResult s' = None \<or>
     (\<exists>e. PaymentInitiationsRetry v fl' i waitResult s' = Some (Inl e, s')))"
proof -
  have "pi_adjustments (sys_db (snd (runPollTransfer w fl taskID c i remote scheduleID s))) =
      pi_adjustments (sys_db s)"
    unfolding runPollTransfer_def pollTransfer_def assms(1) by (rule run_poll_error_adjustments)
  moreover have "pi_adjustments (sys_db (snd (runPollPayout w fl taskID c i remote scheduleID s))) =
      pi_adjustments (sys_db s)"
    unfolding runPollPayout_def pollPayout_def assms(2) by (rule run_poll_error_adjustments)
  ultimately have same: "pi_adjustments (sys_db s') = pi_adjustments (sys_db s)" using assms(5) by auto
  then have "last_adjustment i (sys_db s') = last_adjustment i (sys_db s)"
    by (simp add: last_adjustment_def initiation_adjustments_def)
  with assms(3) have "PaymentInitiationsRetry v fl' i waitResult s' = None \<or>
     (\<exists>e. PaymentInitiationsRetry v fl' i waitResult s' = Some (Inl e, s'))"
    by (intro retry_needs_failed[OF assms(4)]) auto
  with same show ?thesis by blast
qed

definition ex_processing :: sys where
  "ex_processing = ex_sys (ex_pi_db [(5, PAYMENT_INITIATION_ADJUSTMENT_STATUS_PROCESSING, Some 100)])"

definition ex_refused :: "poll_response result" where
  "ex_refused = Inr \<lparr>poll_response_Payment = None, poll_response_Error = Some ''declined''\<rparr>"

lemma poll_error_leaves_processing_witness:
  "let s' = snd (runPollTransfer (ex_wfl ex_refused) no_faults ex_task ex_connector ex_pi_id ''t1'' ''sched'' ex_processing)
   in map_option task_status (lookup_row task_id ex_task (tasks (sys_db s'))) = Some TASK_STATUS_FAILED \<and>
      (PaymentInitiationsRetry ex_svc no_faults ex_pi_id False s' = None \<or>
       (\<exists>e. PaymentInitiationsRetry ex_svc no_faults ex_pi_id False s' = Some (Inl e, s')))"
proof -
  let ?s' = "snd (runPollTransfer (ex_wfl ex_refused) no_faults ex_task ex_connector ex_pi_id ''t1'' ''sched'' ex_processing)"
  have answers: "wfl_poll_transfer (ex_wfl ex_refused) ex_connector ''t1'' =
      Inr \<lparr>poll_response_Payment = None, poll_response_Error = Some ''declined''\<rparr>"
    "wfl_poll_payout (ex_wfl ex_refused) ex_connector ''t1'' =
      Inr \<lparr>poll_response_Payment = None, poll_response_Error = Some ''declined''\<rparr>"
    by (simp_all add: ex_wfl_def ex_refused_def)
  have last: "map_option pia_status (last_adjustment ex_pi_id (sys_db ex_processing)) =
      Some PAYMENT_INITIATION_ADJUSTMENT_STATUS_PROCESSING" by code_simp
  have pager: "offset_pager (svc_pager ex_svc)" by (simp add: ex_pager_ok)
  have "map_option task_status (lookup_row task_id ex_task (tasks (sys_db ?s'))) = Some TASK_STATUS_FAILED"
    by code_simp
  with poll_error_leaves_processing[OF answers last pager, where fl = no_faults and fl' = no_faults
      and waitResult = False and s' = ?s'] show ?thesis unfolding Let_def by blast
qed

section \<open>Reversals\<close>


definition ex_reversing :: "sys" where
  "ex_reversing = ex_sys (ex_pi_db [(5, PAYMENT_INITIATION_ADJUSTMENT_STATUS_PROCESSED, Some 100)])"


section \<open>Repeated activities\<close>

text \<open>Writing an adjustment of a payment initiation, or relating a payment to it, may
  be attempted any number of times with any faults: the database is left as it
  was or as the first attempt that succeeded left it.\<close>

theorem initiation_writes_any_attempts:
  "(attempts (\<lambda>fl. PaymentInitiationAdjustmentsUpsert env fl adj) fls d = d \<or>
     (\<exists>fl\<in>set fls. succeeds (\<lambda>fl. PaymentInitiationAdjustmentsUpsert env fl adj) fl d \<and>
        attempts (\<lambda>fl. PaymentInitiationAdjustmentsUpsert env fl adj) fls d =
          snd (PaymentInitiationAdjustmentsUpsert env fl adj d))) \<and>
   (attempts (\<lambda>fl. PaymentInitiationRelatedPaymentsUpsert env fl i p t) fls d = d \<or>
     (\<exists>fl\<in>set fls. succeeds (\<lambda>fl. PaymentInitiationRelatedPaymentsUpsert env fl i p t) fl d \<and>
        attempts (\<lambda>fl. PaymentInitiationRelatedPaymentsUpsert env fl i p t) fls d =
          snd (PaymentInitiationRelatedPaymentsUpsert env fl i p t d)))"
  unfolding PaymentInitiationAdjustmentsUpsert_logged PaymentInitiationRelatedPaymentsUpsert_logged
  using adjustments_log.any_attempts[OF TrueI] related_log.any_attempts[OF TrueI] by blast

end
