(* ===== verification/Orders_Proofs.thy ===== *)
theory Orders_Proofs
  imports Consistency_Store Retries "HOL-Library.Multiset"
begin

text \<open>
  Orders and conversions: the batch of orders a connector reports merged by
  identifier, and the tables they are stored in.
\<close>

section \<open>Orders of a batch\<close>

text \<open>The elements of a list, each where it is seen first.\<close>

definition first_seen :: "'a list \<Rightarrow> 'a list" where
  "first_seen xs = rev (remdups (rev xs))"

lemma first_seen_simps [simp]:
  "first_seen [] = []"
  "first_seen (xs @ [x]) = (if x \<in> set xs then first_seen xs else first_seen xs @ [x])"
  "set (first_seen xs) = set xs" "distinct (first_seen xs)"
  by (simp_all add: first_seen_def)

text \<open>The reports of one order.\<close>

definition reports_of :: "OrderID \<Rightarrow> ConnectorID \<Rightarrow> PSPOrder list \<Rightarrow> PSPOrder list" where
  "reports_of i c xs = filter (\<lambda>x. OrderID_Reference i = PSPOrder_Reference x \<and> OrderID_ConnectorID i = c) xs"

lemma reports_of_snoc [simp]:
  "reports_of i c (xs @ [x]) = reports_of i c xs @
     (if i = \<lparr>OrderID_Reference = PSPOrder_Reference x, OrderID_ConnectorID = c\<rparr> then [x] else [])"
  by (cases i) (auto simp: reports_of_def)

text \<open>An order collected from its reports: all their adjustments, the data of the latest.\<close>

definition order_of_reports :: "ConnectorID \<Rightarrow> time \<Rightarrow> PSPOrder list \<Rightarrow> Order \<Rightarrow> bool" where
  "order_of_reports c t ys o' \<longleftrightarrow>
     mset (Order_Adjustments o') = mset (map (\<lambda>x. FromPSPOrderToOrderAdjustment x c t) ys) \<and>
     (\<exists>x\<in>set ys. FromPSPOrderToOrder x c t =
          Inr (o'\<lparr>Order_Adjustments := [FromPSPOrderToOrderAdjustment x c t]\<rparr>) \<and>
        (\<forall>y\<in>set ys. PSPOrder_CreatedAt y \<le> PSPOrder_CreatedAt x))"

lemma FromPSPOrderToOrder_simps:
  assumes "FromPSPOrderToOrder x c t = Inr o'"
  shows "Order_ID o' = \<lparr>OrderID_Reference = PSPOrder_Reference x, OrderID_ConnectorID = c\<rparr>"
    "Order_CreatedAt o' = PSPOrder_CreatedAt x"
    "Order_Adjustments o' = [FromPSPOrderToOrderAdjustment x c t]"
  using assms by (auto simp: FromPSPOrderToOrder_def split: option.splits)

lemma merge_order_cases:
  "merge_order a b =
     (if Order_CreatedAt b < Order_CreatedAt a
      then a\<lparr>Order_Adjustments := Order_Adjustments b @ Order_Adjustments a\<rparr>
      else b\<lparr>Order_Adjustments := Order_Adjustments a @ Order_Adjustments b\<rparr>)"
  by (simp add: merge_order_def)

lemma merge_order_id: "Order_ID a = Order_ID b \<Longrightarrow> Order_ID (merge_order a b) = Order_ID b"
  by (simp add: merge_order_cases)

lemma order_of_reports_single:
  "FromPSPOrderToOrder x c t = Inr o' \<Longrightarrow> order_of_reports c t [x] o'"
  using FromPSPOrderToOrder_simps(3)[of x c t o'] by (simp add: order_of_reports_def)

lemma order_of_reports_merge:
  assumes "order_of_reports c t ys f" "FromPSPOrderToOrder x c t = Inr o'"
  shows "order_of_reports c t (ys @ [x]) (merge_order f o')"
proof -
  note o' = FromPSPOrderToOrder_simps[OF assms(2)]
  from assms(1) obtain z where
    m: "mset (Order_Adjustments f) = mset (map (\<lambda>x. FromPSPOrderToOrderAdjustment x c t) ys)" and
    z: "z \<in> set ys"
      "FromPSPOrderToOrder z c t = Inr (f\<lparr>Order_Adjustments := [FromPSPOrderToOrderAdjustment z c t]\<rparr>)"
      "\<forall>y\<in>set ys. PSPOrder_CreatedAt y \<le> PSPOrder_CreatedAt z"
    unfolding order_of_reports_def by blast
  from FromPSPOrderToOrder_simps(2)[OF z(2)] have created: "Order_CreatedAt f = PSPOrder_CreatedAt z" by simp
  show ?thesis
  proof (cases "PSPOrder_CreatedAt x < PSPOrder_CreatedAt z")
    case True
    then have "merge_order f o' = f\<lparr>Order_Adjustments := Order_Adjustments o' @ Order_Adjustments f\<rparr>"
      by (simp add: merge_order_cases created o'(2))
    with True z m o'(3) show ?thesis
      unfolding order_of_reports_def by (intro conjI bexI[of _ z]) auto
  next
    case False
    then have e: "merge_order f o' = o'\<lparr>Order_Adjustments := Order_Adjustments f @ Order_Adjustments o'\<rparr>"
      by (simp add: merge_order_cases created o'(2))
    have "o'\<lparr>Order_Adjustments := [FromPSPOrderToOrderAdjustment x c t]\<rparr> = o'"
      by (rule Order.equality) (simp_all add: o'(3))
    moreover have "PSPOrder_CreatedAt y \<le> PSPOrder_CreatedAt x" if "y \<in> set ys" for y
      using z(3) that False by (meson not_less order_trans)
    ultimately show ?thesis
      using assms(2) m o'(3) unfolding order_of_reports_def e by (intro conjI bexI[of _ x]) auto
  qed
qed

text \<open>What the loop has collected after some reports.\<close>

definition collected :: "ConnectorID \<Rightarrow> time \<Rightarrow> PSPOrder list \<Rightarrow> Order list \<Rightarrow> bool" where
  "collected c t xs os \<longleftrightarrow>
     map Order_ID os = map (\<lambda>r. \<lparr>OrderID_Reference = r, OrderID_ConnectorID = c\<rparr>)
       (first_seen (map PSPOrder_Reference xs)) \<and>
     (\<forall>o'\<in>set os. order_of_reports c t (reports_of (Order_ID o') c xs) o')"

lemma collected_nil: "collected c t [] []"
  by (simp add: collected_def)

lemma add_order_known:
  assumes "list_ex (\<lambda>e. Order_ID e = Order_ID o') os"
  shows "map Order_ID (add_order os o') = map Order_ID os"
    "e \<in> set (add_order os o') \<Longrightarrow>
       \<exists>f\<in>set os. e = (if Order_ID f = Order_ID o' then merge_order f o' else f)"
proof -
  have add: "add_order os o' = map (\<lambda>f. if Order_ID f = Order_ID o' then merge_order f o' else f) os"
    using assms by (simp only: add_order_def if_True)
  have "Order_ID (if Order_ID f = Order_ID o' then merge_order f o' else f) = Order_ID f" for f
    by (cases "Order_ID f = Order_ID o'") (simp_all only: merge_order_id simp_thms if_True if_False)
  then show "map Order_ID (add_order os o') = map Order_ID os"
    unfolding add map_map comp_def by (simp only: map_eq_conv simp_thms ball_triv)
  show "e \<in> set (add_order os o') \<Longrightarrow>
       \<exists>f\<in>set os. e = (if Order_ID f = Order_ID o' then merge_order f o' else f)"
    unfolding add set_map by blast
qed

lemma collected_step:
  assumes "collected c t xs os" "FromPSPOrderToOrder x c t = Inr o'"
  shows "collected c t (xs @ [x]) (add_order os o')"
proof -
  note o' = FromPSPOrderToOrder_simps[OF assms(2)]
  have ids: "map Order_ID os = map (\<lambda>r. \<lparr>OrderID_Reference = r, OrderID_ConnectorID = c\<rparr>)
      (first_seen (map PSPOrder_Reference xs))" using assms(1) by (simp add: collected_def)
  let ?id = "\<lambda>r. \<lparr>OrderID_Reference = r, OrderID_ConnectorID = c\<rparr>"
  have "list_ex (\<lambda>e. Order_ID e = Order_ID o') os \<longleftrightarrow> Order_ID o' \<in> set (map Order_ID os)"
    by (induction os) auto
  also have "\<dots> \<longleftrightarrow> ?id (PSPOrder_Reference x) \<in> ?id ` set (map PSPOrder_Reference xs)"
    unfolding ids o'(1) set_map first_seen_simps(3) ..
  also have "\<dots> \<longleftrightarrow> PSPOrder_Reference x \<in> set (map PSPOrder_Reference xs)"
    by (rule inj_image_mem_iff) (simp add: inj_on_def)
  finally have known: "list_ex (\<lambda>e. Order_ID e = Order_ID o') os \<longleftrightarrow>
      PSPOrder_Reference x \<in> set (map PSPOrder_Reference xs)" .
  show ?thesis
  proof (cases "list_ex (\<lambda>e. Order_ID e = Order_ID o') os")
    case True
    note add = add_order_known[OF True]
    have "order_of_reports c t (reports_of (Order_ID e) c (xs @ [x])) e" if e: "e \<in> set (add_order os o')" for e
    proof -
      from add(2)[OF e] obtain f where f: "f \<in> set os"
        "e = (if Order_ID f = Order_ID o' then merge_order f o' else f)" by blast
      have "order_of_reports c t (reports_of (Order_ID f) c xs) f" using assms(1) f(1) by (simp add: collected_def)
      with order_of_reports_merge[OF this assms(2)] f(2) o'(1) merge_order_id[of f o']
      show ?thesis by (cases "Order_ID f = Order_ID o'") simp_all
    qed
    with True known ids add(1) show ?thesis unfolding collected_def by simp
  next
    case False
    then have none: "reports_of (Order_ID o') c xs = []"
      using known by (auto simp: reports_of_def o'(1) filter_empty_conv)
    have "add_order os o' = os @ [o']" using False by (simp add: add_order_def)
    moreover have "order_of_reports c t (reports_of (Order_ID e) c (xs @ [x])) e" if "e \<in> set os" for e
    proof -
      have "Order_ID e \<noteq> Order_ID o'" using False that by (auto simp: list_ex_iff)
      with assms(1) that o'(1) show ?thesis by (simp add: collected_def)
    qed
    moreover have "order_of_reports c t (reports_of (Order_ID o') c (xs @ [x])) o'"
      using order_of_reports_single[OF assms(2)] none o'(1) by simp
    ultimately show ?thesis using False known ids o'(1) unfolding collected_def by simp
  qed
qed

lemma psp_orders_loop_collects:
  assumes "collected c t xs os" "psp_orders_loop c t ys os = Inr res"
  shows "collected c t (xs @ ys) res"
  using assms
proof (induction ys arbitrary: xs os)
  case Nil
  then show ?case by simp
next
  case (Cons y ys)
  from Cons.prems(2) obtain o' where "FromPSPOrderToOrder y c t = Inr o'"
    and rest: "psp_orders_loop c t ys (add_order os o') = Inr res"
    by (cases "FromPSPOrderToOrder y c t") auto
  from Cons.IH[OF collected_step[OF Cons.prems(1) this(1)] rest] show ?case by simp
qed

lemma psp_orders_loop_error:
  "psp_orders_loop c t ys os = Inl e \<longleftrightarrow>
     (\<exists>y. find (\<lambda>y. PSPOrder_Validate y \<noteq> None) ys = Some y \<and> PSPOrder_Validate y = Some e)"
proof (induction ys arbitrary: os)
  case Nil
  then show ?case by simp
next
  case (Cons y ys)
  show ?case
  proof (cases "PSPOrder_Validate y")
    case None
    then obtain o' where "FromPSPOrderToOrder y c t = Inr o'" by (auto simp: FromPSPOrderToOrder_def)
    with None Cons show ?thesis by simp
  next
    case (Some e')
    then have "FromPSPOrderToOrder y c t = Inl e'" by (simp add: FromPSPOrderToOrder_def)
    with Some show ?thesis by simp
  qed
qed

section \<open>An upsert repeated\<close>

text \<open>A row has settled when upserting it again changes nothing.\<close>

definition row_settled :: "('r \<Rightarrow> 'k) \<Rightarrow> ('r \<Rightarrow> 'r \<Rightarrow> 'r) \<Rightarrow> 'r \<Rightarrow> 'r list \<Rightarrow> bool" where
  "row_settled key g r tbl \<longleftrightarrow> has_key key (key r) tbl \<and> (\<forall>x\<in>set tbl. key x = key r \<longrightarrow> g x r = x)"

lemma map_add_same [simp]: "m ++ m = m" "x ++ m ++ m = x ++ m" for m :: "'k \<rightharpoonup> 'v"
  by (auto simp: map_add_def split: option.splits)

lemma has_key_member: "\<not> has_key key k tbl \<Longrightarrow> x \<in> set tbl \<Longrightarrow> key x \<noteq> k"
  by (auto simp: has_key_iff)

lemma upsert_row_settled: "row_settled key g r tbl \<Longrightarrow> upsert_row key g r tbl = tbl"
  by (auto simp: row_settled_def upsert_row_def update_where_def intro: map_idI)

text \<open>The contract of a conflict clause that can be repeated.\<close>

locale row_merge =
  fixes key :: "'r \<Rightarrow> 'k" and g :: "'r \<Rightarrow> 'r \<Rightarrow> 'r"
  assumes keeps_key: "key x = key r \<Longrightarrow> key (g x r) = key r"
    and twice: "g (g x r) r = g x r"
    and self: "g r r = r"
begin

lemma upsert_row_settles: "row_settled key g r (upsert_row key g r tbl)"
  using has_key_upsert_row[where key = key and k = "key r" and g = g and r = r and tbl = tbl] keeps_key
  by (auto simp: row_settled_def upsert_row_def update_where_def twice self dest: has_key_member)

lemma upsert_row_keeps_settled:
  assumes "row_settled key g r tbl" "key r' \<noteq> key r"
  shows "row_settled key g r (upsert_row key g r' tbl)"
  using has_key_upsert_row[where key = key and k = "key r" and g = g and r = r' and tbl = tbl] assms keeps_key
  by (auto simp: row_settled_def upsert_row_def update_where_def split: if_splits)

lemma fold_keeps_settled:
  "row_settled key g r tbl \<Longrightarrow> key r \<notin> key ` set rs \<Longrightarrow> row_settled key g r (fold (upsert_row key g) rs tbl)"
proof (induction rs arbitrary: tbl)
  case Nil
  then show ?case by simp
next
  case (Cons a rs)
  then have "key a \<noteq> key r" "key r \<notin> key ` set rs" by auto
  from Cons.IH[OF upsert_row_keeps_settled[OF Cons.prems(1) this(1)] this(2)] show ?case by simp
qed

lemma fold_settles:
  "distinct (map key rs) \<Longrightarrow> r \<in> set rs \<Longrightarrow> row_settled key g r (fold (upsert_row key g) rs tbl)"
  by (induction rs arbitrary: tbl) (auto intro: fold_keeps_settled upsert_row_settles)

lemma fold_settled:
  "(\<And>r. r \<in> set rs \<Longrightarrow> row_settled key g r tbl) \<Longrightarrow> fold (upsert_row key g) rs tbl = tbl"
  by (induction rs) (simp_all add: upsert_row_settled)

lemma insert_update_again:
  assumes "insert_update key g rs tbl = Some tbl'"
  shows "insert_update key g rs tbl' = Some tbl'"
proof -
  from assms have d: "distinct (map key rs)" and t: "tbl' = fold (upsert_row key g) rs tbl"
    by (auto simp: insert_update_def split: if_splits)
  from fold_settled[of rs tbl', OF fold_settles[OF d, of _ tbl, folded t]] d show ?thesis
    by (simp add: insert_update_def)
qed

end

interpretation order_rows: row_merge order_id merge_order_row
proof unfold_locales
  fix x r :: order_row
  show "order_id x = order_id r \<Longrightarrow> order_id (merge_order_row x r) = order_id r"
    by (simp add: merge_order_row_def)
  show "merge_order_row (merge_order_row x r) r = merge_order_row x r"
    by (simp add: merge_order_row_def)
  show "merge_order_row r r = r"
    by (rule order_row.equality) (simp_all add: merge_order_row_def)
qed

interpretation conversion_rows: row_merge conversion_id merge_conversion_row
proof unfold_locales
  fix x r :: conversion_row
  show "conversion_id x = conversion_id r \<Longrightarrow> conversion_id (merge_conversion_row x r) = conversion_id r"
    by (simp add: merge_conversion_row_def)
  show "merge_conversion_row (merge_conversion_row x r) r = merge_conversion_row x r"
    by (simp add: merge_conversion_row_def)
  show "merge_conversion_row r r = r"
    by (rule conversion_row.equality) (simp_all add: merge_conversion_row_def)
qed

text \<open>What a successful OrdersUpsert does.\<close>

lemma OrdersUpsert_result:
  assumes "OrdersUpsert env fl os d = (Inr (), d')"
  obtains tbl new es where
    "insert_update order_id merge_order_row (map (fromOrderModels env) os) (orders d) = Some tbl"
    "insert_ignore oa_id (map (fromOrderAdjustmentModels env) (concat (map Order_Adjustments os)))
       (order_adjustments d) = (new, order_adjustments d @ new)"
    "order_events env os new = Inr es"
    "OutboxEventsInsert env fl es (d\<lparr>orders := tbl, order_adjustments := order_adjustments d @ new\<rparr>) = (Inr (), d')"
proof -
  let ?rows = "map (fromOrderModels env) os"
  let ?adjs = "map (fromOrderAdjustmentModels env) (concat (map Order_Adjustments os))"
  from assms obtain d1 new d2 where
    o: "(if ?rows = [] then tx_return ()
         else insert_orders_stmt fl ?rows (list_all (\<lambda>o'. Order_BaseQuantityOrdered o' \<noteq> None) os)) d = (Inr (), d1)" and
    a: "(if ?adjs = [] then tx_return [] else insert_order_adjustments_stmt fl ?adjs) d1 = (Inr new, d2)" and
    e: "(if new = [] then tx_return () else emit_events env fl (order_events env os new)) d2 = (Inr (), d')"
    by (auto simp: OrdersUpsert_def Let_def tx_inr simp del: map_is_Nil_conv)
  have "\<exists>tbl. insert_update order_id merge_order_row ?rows (orders d) = Some tbl \<and> d1 = d\<lparr>orders := tbl\<rparr>"
    using o by (cases os) (auto simp: insert_orders_stmt_def insert_update_def split: if_splits)
  then obtain tbl where tbl: "insert_update order_id merge_order_row ?rows (orders d) = Some tbl"
    and d1: "d1 = d\<lparr>orders := tbl\<rparr>" by blast
  have ins: "insert_ignore oa_id ?adjs (order_adjustments d) = (new, order_adjustments d2) \<and>
      d2 = d1\<lparr>order_adjustments := order_adjustments d2\<rparr>"
  proof (cases "?adjs = []")
    case True
    then have "d2 = d1 \<and> new = []" using a by (simp only: if_True tx_return_def) simp
    then show ?thesis unfolding True by (simp add: d1)
  next
    case False
    then have "insert_order_adjustments_stmt fl ?adjs d1 = (Inr new, d2)" using a by (simp only: if_False)
    then show ?thesis
      by (auto simp: d1 insert_order_adjustments_stmt_def simp del: map_map split: prod.splits if_splits)
  qed
  then have app: "order_adjustments d2 = order_adjustments d @ new" by (metis insert_ignore_append)
  have "\<exists>es. order_events env os new = Inr es \<and> OutboxEventsInsert env fl es d2 = (Inr (), d')"
    using e by (cases "new = []") (auto simp: emit_events_def tx_inr OutboxEventsInsert_def split: if_splits)
  then obtain es where "order_events env os new = Inr es" "OutboxEventsInsert env fl es d2 = (Inr (), d')"
    by blast
  moreover have "d2 = d\<lparr>orders := tbl, order_adjustments := order_adjustments d @ new\<rparr>"
    using ins app d1 by simp
  ultimately show thesis using that tbl ins app by metis
qed

lemma ConversionsUpsert_result:
  assumes "ConversionsUpsert env fl cs d = (Inr (), d')"
  obtains tbl es where
    "insert_update conversion_id merge_conversion_row (map (fromConversionModels env) cs) (conversions d) = Some tbl"
    "conversion_events env cs = Inr es"
    "OutboxEventsInsert env fl es (d\<lparr>conversions := tbl\<rparr>) = (Inr (), d')"
proof -
  let ?rows = "map (fromConversionModels env) cs"
  from assms obtain d1 where
    o: "(if cs = [] then tx_return () else insert_conversions_stmt fl ?rows
           (list_all (\<lambda>c. Conversion_SourceAmount c \<noteq> None) cs)) d = (Inr (), d1)" and
    e: "emit_events env fl (conversion_events env cs) d1 = (Inr (), d')"
    by (auto simp: ConversionsUpsert_def tx_inr)
  have "\<exists>tbl. insert_update conversion_id merge_conversion_row ?rows (conversions d) = Some tbl \<and>
      d1 = d\<lparr>conversions := tbl\<rparr>"
    using o by (cases cs) (auto simp: insert_conversions_stmt_def insert_update_def split: if_splits)
  moreover have "\<exists>es. conversion_events env cs = Inr es \<and> OutboxEventsInsert env fl es d1 = (Inr (), d')"
    using e by (auto simp: emit_events_def tx_inr OutboxEventsInsert_def split: if_splits)
  ultimately show thesis using that by blast
qed

interpretation orders_retried: retried "\<lambda>fl. OrdersUpsert env fl os" "\<lambda>_. True" for env os
proof unfold_locales
  fix fl d e d'
  assume "OrdersUpsert env fl os d = (Inl e, d')"
  then show "d' = d" unfolding OrdersUpsert_def Let_def by (rule in_tx_rollback)
next
  fix d fl a d' fl' a' d''
  assume ok: "OrdersUpsert env fl os d = (Inr a, d')" and again: "OrdersUpsert env fl' os d' = (Inr a', d'')"
  let ?adjs = "map (fromOrderAdjustmentModels env) (concat (map Order_Adjustments os))"
  from ok obtain tbl new es where
    o: "insert_update order_id merge_order_row (map (fromOrderModels env) os) (orders d) = Some tbl" and
    a: "insert_ignore oa_id ?adjs (order_adjustments d) = (new, order_adjustments d @ new)" and
    e: "OutboxEventsInsert env fl es (d\<lparr>orders := tbl, order_adjustments := order_adjustments d @ new\<rparr>) = (Inr (), d')"
    using OrdersUpsert_result[of env fl os d d'] by (metis (full_types) old.unit.exhaust)
  from outbox.only_outbox[OF e] obtain t where
    d': "d' = d\<lparr>orders := tbl, order_adjustments := order_adjustments d @ new, outbox_events := t\<rparr>" by auto
  from again obtain tbl' new' es' where
    o': "insert_update order_id merge_order_row (map (fromOrderModels env) os) (orders d') = Some tbl'" and
    a': "insert_ignore oa_id ?adjs (order_adjustments d') = (new', order_adjustments d' @ new')" and
    es': "order_events env os new' = Inr es'" and
    e': "OutboxEventsInsert env fl' es' (d'\<lparr>orders := tbl', order_adjustments := order_adjustments d' @ new'\<rparr>) = (Inr (), d'')"
    using OrdersUpsert_result[of env fl' os d' d''] by (metis (full_types) old.unit.exhaust)
  have "tbl' = tbl"
    using order_rows.insert_update_again[OF o] o' by (simp add: d')
  moreover have "new' = []" using insert_ignore_replay[OF a] a' by (simp add: d')
  ultimately have "d'\<lparr>orders := tbl', order_adjustments := order_adjustments d' @ new'\<rparr> = d'" "es' = []"
    using es' by (simp_all add: d')
  with e' show "d'' = d'" by (simp add: OutboxEventsInsert_def)
qed

interpretation conversions_retried: retried "\<lambda>fl. ConversionsUpsert env fl cs" "\<lambda>_. True" for env cs
proof unfold_locales
  fix fl d e d'
  assume "ConversionsUpsert env fl cs d = (Inl e, d')"
  then show "d' = d" unfolding ConversionsUpsert_def by (rule in_tx_rollback)
next
  fix d fl a d' fl' a' d''
  assume ok: "ConversionsUpsert env fl cs d = (Inr a, d')" and again: "ConversionsUpsert env fl' cs d' = (Inr a', d'')"
  from ok obtain tbl es where
    o: "insert_update conversion_id merge_conversion_row (map (fromConversionModels env) cs) (conversions d) = Some tbl" and
    es: "conversion_events env cs = Inr es" and
    e: "OutboxEventsInsert env fl es (d\<lparr>conversions := tbl\<rparr>) = (Inr (), d')"
    using ConversionsUpsert_result[of env fl cs d d'] by (metis (full_types) old.unit.exhaust)
  from outbox.only_outbox[OF e] obtain t where d': "d' = d\<lparr>conversions := tbl, outbox_events := t\<rparr>" by auto
  from again obtain tbl' where
    o': "insert_update conversion_id merge_conversion_row (map (fromConversionModels env) cs) (conversions d') = Some tbl'" and
    e': "OutboxEventsInsert env fl' es (d'\<lparr>conversions := tbl'\<rparr>) = (Inr (), d'')"
    using ConversionsUpsert_result[of env fl' cs d' d''] es by (metis (full_types) Inr_inject old.unit.exhaust)
  have same: "d'\<lparr>conversions := tbl'\<rparr> = d'"
    using conversion_rows.insert_update_again[OF o] o' by (simp add: d')
  show "d'' = d'"
    by (rule outbox.nothing_to_emit[OF e'[unfolded same]]) (use outbox.all_recorded[OF e] in blast)
qed

section \<open>The status of an order\<close>

text \<open>The adjustments of an order, in the order of insertion.\<close>

definition order_log :: "OrderID \<Rightarrow> db \<Rightarrow> order_adjustment_row list" where
  "order_log i d = filter (\<lambda>a. oa_order_id a = i) (order_adjustments d)"

lemma order_row_stored:
  assumes "insert_update order_id merge_order_row [r] tbl = Some tbl'"
  shows "\<exists>r'. lookup_row order_id (order_id r) tbl' = Some r' \<and> order_status r' = order_status r"
proof -
  have "tbl' = upsert_row order_id merge_order_row r tbl" using assms by (simp add: insert_update_def)
  then show ?thesis
    by (cases "lookup_row order_id (order_id r) tbl")
      (auto simp: lookup_upsert_row[where key = order_id and g = merge_order_row] merge_order_row_def)
qed

lemma fromOrderModels_simps [simp]:
  "order_id (fromOrderModels env o') = Order_ID o'" "order_status (fromOrderModels env o') = Order_Status o'"
  by (simp_all add: fromOrderModels_def)

lemma fromOrderAdjustmentModels_simps [simp]:
  "oa_id (fromOrderAdjustmentModels env a) = OrderAdjustment_ID a"
  "oa_order_id (fromOrderAdjustmentModels env a) = OrderAdjustmentID_OrderID (OrderAdjustment_ID a)"
  "oa_created_at (fromOrderAdjustmentModels env a) = env_db_time env (OrderAdjustment_CreatedAt a)"
  "oa_status (fromOrderAdjustmentModels env a) = OrderAdjustment_Status a"
  by (simp_all add: fromOrderAdjustmentModels_def)

lemma FromPSPOrder_status:
  assumes "FromPSPOrderToOrder x c t = Inr o'"
  shows "Order_Status o' = PSPOrder_Status x"
    "OrderAdjustmentID_OrderID (OrderAdjustment_ID (FromPSPOrderToOrderAdjustment x c t)) = Order_ID o'"
    "OrderAdjustment_Status (FromPSPOrderToOrderAdjustment x c t) = PSPOrder_Status x"
    "OrderAdjustment_CreatedAt (FromPSPOrderToOrderAdjustment x c t) = t"
  using assms by (auto simp: FromPSPOrderToOrder_def FromPSPOrderToOrderAdjustment_def split: option.splits)

text \<open>Storing one report, and the status read afterwards.\<close>

lemma report_stored:
  assumes "FromPSPOrderToOrder x c t = Inr o'" "OrdersUpsert env fl [o'] d = (Inr (), d')"
  defines "adj \<equiv> FromPSPOrderToOrderAdjustment x c t"
  shows "\<exists>r. lookup_row order_id (Order_ID o') (orders d') = Some r \<and> order_status r = PSPOrder_Status x"
    "order_log (Order_ID o') d' = order_log (Order_ID o') d @
       (if has_key oa_id (OrderAdjustment_ID adj) (order_adjustments d) then []
        else [fromOrderAdjustmentModels env adj])"
proof -
  note o' = FromPSPOrderToOrder_simps[OF assms(1)] FromPSPOrder_status[OF assms(1)]
  have lists: "map (fromOrderModels env) [o'] = [fromOrderModels env o']"
    "map (fromOrderAdjustmentModels env) (concat (map Order_Adjustments [o'])) = [fromOrderAdjustmentModels env adj]"
    by (simp_all add: o'(3) adj_def)
  obtain tbl new es where
    u: "insert_update order_id merge_order_row [fromOrderModels env o'] (orders d) = Some tbl" and
    a: "insert_ignore oa_id [fromOrderAdjustmentModels env adj] (order_adjustments d) =
       (new, order_adjustments d @ new)" and
    e: "OutboxEventsInsert env fl es (d\<lparr>orders := tbl, order_adjustments := order_adjustments d @ new\<rparr>) = (Inr (), d')"
    by (rule OrdersUpsert_result[OF assms(2), unfolded lists])
  from outbox.only_outbox[OF e] obtain s where
    d': "d' = d\<lparr>orders := tbl, order_adjustments := order_adjustments d @ new, outbox_events := s\<rparr>" by auto
  from order_row_stored[OF u] show "\<exists>r. lookup_row order_id (Order_ID o') (orders d') = Some r \<and>
      order_status r = PSPOrder_Status x" by (auto simp: d' o'(4))
  have "new = (if has_key oa_id (OrderAdjustment_ID adj) (order_adjustments d) then []
      else [fromOrderAdjustmentModels env adj])" using a by (auto split: if_splits)
  then show "order_log (Order_ID o') d' = order_log (Order_ID o') d @
       (if has_key oa_id (OrderAdjustment_ID adj) (order_adjustments d) then []
        else [fromOrderAdjustmentModels env adj])"
    by (simp add: order_log_def d' o'(5) adj_def)
qed

lemma OrdersGet_status:
  assumes "lookup_row order_id i (orders d) = Some r"
  shows "\<exists>o'. OrdersGet no_faults i d = (Inr o', d) \<and>
    Order_Status o' = (case latest_by oa_created_at (order_log i d) of None \<Rightarrow> order_status r | Some a \<Rightarrow> oa_status a) \<and>
    map OrderAdjustment_ID (Order_Adjustments o') = map oa_id (sort_key oa_created_at (order_log i d))"
proof -
  have "order_id r = i" using lookup_row_SomeD[OF assms] by blast
  then show ?thesis
    using assms by (simp add: OrdersGet_def tx_bind_def stmt_def no_faults_def getOrderAdjustments_def tx_get_def
        adjustments_of_order_def order_log_def current_order_status_def toOrderModels_def
        toOrderAdjustmentModels_def comp_def)
qed

end
