(* ===== verification/Orders_Properties.thy ===== *)
theory Orders_Properties
  imports Orders_Proofs Examples Initiations_Laws
begin

text \<open>
  What the conversion of reported orders and their storage promise.
\<close>

section \<open>A batch of reports\<close>


definition ex_psp_order :: "string \<Rightarrow> time \<Rightarrow> OrderStatus \<Rightarrow> PSPOrder" where
  "ex_psp_order reference t status =
     \<lparr>PSPOrder_Reference = reference, PSPOrder_ClientOrderID = [], PSPOrder_CreatedAt = t,
      PSPOrder_Direction = ORDER_DIRECTION_BUY, PSPOrder_SourceAsset = ''USD/2'',
      PSPOrder_DestinationAsset = ''EUR/2'', PSPOrder_Type = ORDER_TYPE_MARKET, PSPOrder_Status = status,
      PSPOrder_BaseQuantityOrdered = Some 100, PSPOrder_BaseQuantityFilled = Some 0,
      PSPOrder_LimitPrice = None, PSPOrder_StopPrice = None,
      PSPOrder_TimeInForce = TIME_IN_FORCE_GOOD_UNTIL_CANCELLED, PSPOrder_ExpiresAt = None,
      PSPOrder_QuoteAmount = None, PSPOrder_QuoteAsset = [], PSPOrder_Fee = None, PSPOrder_FeeAsset = None,
      PSPOrder_AverageFillPrice = None, PSPOrder_PriceAsset = None, PSPOrder_SourceAccountReference = None,
      PSPOrder_DestinationAccountReference = None, PSPOrder_Metadata = Map.empty, PSPOrder_Raw = Some ''{}''\<rparr>"


section \<open>Storing orders and conversions\<close>

text \<open>Storing a batch of orders or of conversions may be attempted any number of times,
  with any faults in any attempt: the database is left as it was or as the
  first attempt that succeeded left it.\<close>

theorem orders_any_attempts:
  "(attempts (\<lambda>fl. OrdersUpsert env fl os) fls d = d \<or>
      (\<exists>fl\<in>set fls. succeeds (\<lambda>fl. OrdersUpsert env fl os) fl d \<and>
         attempts (\<lambda>fl. OrdersUpsert env fl os) fls d = snd (OrdersUpsert env fl os d))) \<and>
   (attempts (\<lambda>fl. ConversionsUpsert env fl cs) fls d = d \<or>
      (\<exists>fl\<in>set fls. succeeds (\<lambda>fl. ConversionsUpsert env fl cs) fl d \<and>
         attempts (\<lambda>fl. ConversionsUpsert env fl cs) fls d = snd (ConversionsUpsert env fl cs d)))"
  using orders_retried.any_attempts[OF TrueI, of env os fls d]
    conversions_retried.any_attempts[OF TrueI, of env cs fls d] by blast

text \<open>The status read after storing a report, dated no earlier than the adjustments of
  the order, is the reported one, unless the same adjustment (status, filled
  quantity and fee) was stored before and others follow: then the order keeps the status of
  its last adjustment although its row has the new one.\<close>

theorem order_status_of_report:
  assumes "FromPSPOrderToOrder x c t = Inr o'" "OrdersUpsert env fl [o'] d = (Inr (), d')"
    "\<forall>a\<in>set (order_log (Order_ID o') d). oa_created_at a \<le> env_db_time env t"
  defines "adj \<equiv> FromPSPOrderToOrderAdjustment x c t"
  shows "\<exists>r. OrdersGet no_faults (Order_ID o') d' = (Inr r, d') \<and>
    Order_Status r =
      (if has_key oa_id (OrderAdjustment_ID adj) (order_adjustments d)
       then case latest_by oa_created_at (order_log (Order_ID o') d) of
              None \<Rightarrow> PSPOrder_Status x | Some a \<Rightarrow> oa_status a
       else PSPOrder_Status x)"
proof -
  note stored = report_stored[OF assms(1,2), folded adj_def]
  from stored(1) obtain row where row: "lookup_row order_id (Order_ID o') (orders d') = Some row"
    "order_status row = PSPOrder_Status x" by blast
  from OrdersGet_status[OF row(1)] obtain r where
    get: "OrdersGet no_faults (Order_ID o') d' = (Inr r, d')" and
    status: "Order_Status r = (case latest_by oa_created_at (order_log (Order_ID o') d') of
       None \<Rightarrow> order_status row | Some a \<Rightarrow> oa_status a)" by blast
  have new: "oa_created_at (fromOrderAdjustmentModels env adj) = env_db_time env t"
    "oa_status (fromOrderAdjustmentModels env adj) = PSPOrder_Status x"
    by (simp_all add: adj_def FromPSPOrder_status[OF assms(1)])
  have "oa_created_at m \<le> env_db_time env t"
    if "latest_by oa_created_at (order_log (Order_ID o') d) = Some m" for m
    using latest_by_SomeD[OF that] assms(3) by blast
  then show ?thesis
    using get status stored(2) new row(2) by (auto simp: latest_by_snoc split: option.splits)
qed

definition ex_stored_order :: "OrderStatus \<Rightarrow> time \<Rightarrow> db \<Rightarrow> db" where
  "ex_stored_order st t d = (case FromPSPOrderToOrder (ex_psp_order ''a'' 3 st) ex_connector t of
     Inl e \<Rightarrow> d | Inr o' \<Rightarrow> snd (OrdersUpsert ex_env no_faults [o'] d))"

lemma order_status_of_report_witness:
  "let d = ex_stored_order ORDER_STATUS_OPEN 11 (ex_stored_order ORDER_STATUS_PENDING 10 ex_db);
       d' = ex_stored_order ORDER_STATUS_PENDING 12 d
   in \<exists>r. OrdersGet no_faults \<lparr>OrderID_Reference = ''a'', OrderID_ConnectorID = ex_connector\<rparr> d' = (Inr r, d') \<and>
        Order_Status r = ORDER_STATUS_OPEN"
proof -
  let ?x = "ex_psp_order ''a'' 3 ORDER_STATUS_PENDING"
  let ?d = "ex_stored_order ORDER_STATUS_OPEN 11 (ex_stored_order ORDER_STATUS_PENDING 10 ex_db)"
  let ?d' = "ex_stored_order ORDER_STATUS_PENDING 12 ?d"
  have "PSPOrder_Validate ?x = None" by code_simp
  then obtain o' where o': "FromPSPOrderToOrder ?x ex_connector 12 = Inr o'" by (simp add: FromPSPOrderToOrder_def)
  have "is_ok (case FromPSPOrderToOrder ?x ex_connector 12 of Inl e \<Rightarrow> Inl e
      | Inr o' \<Rightarrow> fst (OrdersUpsert ex_env no_faults [o'] ?d))" by code_simp
  then have "OrdersUpsert ex_env no_faults [o'] ?d = (Inr (), ?d')"
    by (cases "OrdersUpsert ex_env no_faults [o'] ?d"; cases "fst (OrdersUpsert ex_env no_faults [o'] ?d)")
      (simp_all add: o' ex_stored_order_def[of ORDER_STATUS_PENDING 12])
  moreover have id: "Order_ID o' = \<lparr>OrderID_Reference = ''a'', OrderID_ConnectorID = ex_connector\<rparr>"
    using FromPSPOrderToOrder_simps(1)[OF o'] by (simp add: ex_psp_order_def)
  moreover have "\<forall>a\<in>set (order_log (Order_ID o') ?d). oa_created_at a \<le> env_db_time ex_env 12"
    unfolding id by code_simp
  moreover have "has_key oa_id (OrderAdjustment_ID (FromPSPOrderToOrderAdjustment ?x ex_connector 12)) (order_adjustments ?d)"
    by code_simp
  moreover have "map_option oa_status (latest_by oa_created_at (order_log (Order_ID o') ?d)) = Some ORDER_STATUS_OPEN"
    unfolding id by code_simp
  ultimately show ?thesis
    using order_status_of_report[OF o', of ex_env no_faults ?d ?d'] by (auto simp: Let_def)
qed

end
