(* ===== verification/Pools_Properties.thy ===== *)
theory Pools_Properties
  imports Consistency_Store
begin

text \<open>
  Pools as an abstract set of memberships: what each operation on pools does to
  it, and every sequence of operations.
\<close>

section \<open>Memberships\<close>

definition members :: "db \<Rightarrow> (uuid \<times> AccountID) set" where
  "members d = pool_account_key ` set (pool_accounts d)"

text \<open>
  The contract of an operation over the abstract set: a success applies the
  abstract operation, an error changes nothing at all.
\<close>

locale refines_members =
  fixes operation :: "faults \<Rightarrow> (db, 'a) tx" and abstract :: "(uuid \<times> AccountID) set \<Rightarrow> (uuid \<times> AccountID) set"
  assumes refused: "operation fl d = (Inl e, d') \<Longrightarrow> d' = d"
    and performed: "operation fl d = (Inr a, d') \<Longrightarrow> members d' = abstract (members d)"
begin

lemma attempt: "members (snd (operation fl d)) =
    (if is_ok (fst (operation fl d)) then abstract (members d) else members d)"
  using refused[of fl d] performed[of fl d] by (cases "operation fl d"; cases "fst (operation fl d)") auto

end

text \<open>The steps that leave the memberships alone.\<close>

lemma keeps_members_emit: "keeps (\<lambda>d. members d = m) (OutboxEventsInsert env fl es)"
proof (rule keepsI)
  fix d r d'
  assume m: "members d = m" and run: "OutboxEventsInsert env fl es d = (r, d')"
  show "members d' = m"
  proof (cases r)
    case (Inl e)
    with run have "d' = d" by (auto dest: OutboxEventsInsert_error)
    with m show ?thesis by simp
  next
    case (Inr u)
    from outbox.only_outbox[OF run[unfolded Inr]] m show ?thesis by (auto simp: members_def)
  qed
qed

lemma keeps_members_event: "keeps (\<lambda>d. members d = m) (with_message msg (sendPoolEvent env fl p))"
  unfolding sendPoolEvent_def by (intro keeps_with_message keeps_members_emit)

lemma keeps_check_account: "keeps P (check_account_exists fl a)"
  unfolding check_account_exists_def by (intro keeps_intros; simp add: keeps_return keeps_refuse)

lemma insert_pool_accounts_members:
  assumes "insert_pool_accounts_stmt fl msg rows d = (Inr ins, d')"
  shows "members d' = members d \<union> pool_account_key ` set rows"
    "ins = [] \<Longrightarrow> d' = d"
proof -
  from assms obtain tbl where t: "insert_ignore pool_account_key rows (pool_accounts d) = (ins, tbl)"
    and d': "d' = d\<lparr>pool_accounts := tbl\<rparr>"
    by (auto simp: insert_pool_accounts_stmt_def split: prod.splits if_splits)
  show "members d' = members d \<union> pool_account_key ` set rows"
    using insert_ignore_keys(3)[OF t] by (simp add: members_def d')
  show "ins = [] \<Longrightarrow> d' = d" using insert_ignore_append[OF t] by (simp add: d')
qed

lemma members_step:
  assumes "keeps (\<lambda>d. members d = members s) m" "m s = (r, s')"
  shows "members s' = members s"
  using keepsD[OF assms(1) refl assms(2)] .

lemma members_key: "members d = (\<lambda>r. (pac_pool_id r, pac_account_id r)) ` set (pool_accounts d)"
  by (simp add: members_def pool_account_key_def)

section \<open>The operations\<close>

interpretation add_account: refines_members "\<lambda>fl. PoolsAddAccount env fl i a" "insert (i, a)" for env i a
proof unfold_locales
  fix fl d e d'
  assume "PoolsAddAccount env fl i a d = (Inl e, d')"
  then show "d' = d" unfolding PoolsAddAccount_def by (rule in_tx_rollback)
next
  fix fl d u d'
  let ?emit = "\<lambda>ins :: pool_account_row list. if length ins > 0 then tx_bind (PoolsGet fl i)
           (\<lambda>poolModel. with_message ''send pool event'' (sendPoolEvent env fl poolModel))
         else tx_return ()"
  assume "PoolsAddAccount env fl i a d = (Inr u, d')"
  then obtain d1 ins d2 where
    c: "check_account_exists fl a d = (Inr (), d1)" and
    i: "insert_pool_accounts_stmt fl ''insert pool account'' [\<lparr>pac_pool_id = i, pac_account_id = a,
          pac_connector_id = AccountID_ConnectorID a\<rparr>] d1 = (Inr ins, d2)" and
    e: "?emit ins d2 = (Inr u, d')"
    by (auto simp: PoolsAddAccount_def tx_inr simp del: length_greater_0_conv)
  have k: "keeps (\<lambda>d. members d = members d2) (?emit ins)"
    by (auto intro!: keeps_intros keeps_members_event keeps_PoolsGet)
  have "members d1 = members d" by (rule members_step[OF keeps_check_account c])
  moreover have "members d2 = members d1 \<union> {(i, a)}"
    using insert_pool_accounts_members(1)[OF i] by (simp add: pool_account_key_def)
  moreover have "members d' = members d2" by (rule members_step[OF k e])
  ultimately show "members d' = insert (i, a) (members d)" by simp
qed

interpretation remove_account: refines_members "\<lambda>fl. PoolsRemoveAccount env fl i a" "\<lambda>m. m - {(i, a)}" for env i a
proof unfold_locales
  fix fl d e d'
  assume "PoolsRemoveAccount env fl i a d = (Inl e, d')"
  then show "d' = d" unfolding PoolsRemoveAccount_def by (rule in_tx_rollback)
next
  fix fl d u d'
  let ?gone = "\<lambda>d. d\<lparr>pool_accounts := delete_where (\<lambda>r. pool_account_key r = (i, a)) (pool_accounts d)\<rparr>"
  let ?emit = "\<lambda>p n. case p of Some poolModel \<Rightarrow>
           if n > (0::nat) then with_message ''send pool event'' (sendPoolEvent env fl
             (poolModel\<lparr>Pool_PoolAccounts := filter (\<lambda>x. x \<noteq> a) (Pool_PoolAccounts poolModel)\<rparr>))
           else tx_return ()
         | None \<Rightarrow> tx_return ()"
  assume "PoolsRemoveAccount env fl i a d = (Inr u, d')"
  then obtain p d1 where
    g: "pool_or_none fl i d = (Inr p, d1)" and
    e: "?emit p (length (filter (\<lambda>r. pool_account_key r = (i, a)) (pool_accounts d1))) (?gone d1) = (Inr u, d')"
    by (auto simp: PoolsRemoveAccount_def tx_inr simp del: length_greater_0_conv)
  have k: "keeps (\<lambda>d. members d = members (?gone d1)) (?emit p n)" for n
    by (auto intro!: keeps_intros keeps_members_event split: option.split)
  have "members d1 = members d" by (rule members_step[OF keeps_pool_or_none g])
  moreover have "members (?gone d1) = members d1 - {(i, a)}"
    by (auto simp: members_def delete_where_def)
  moreover have "members d' = members (?gone d1)" by (rule members_step[OF k e])
  ultimately show "members d' = members d - {(i, a)}" by simp
qed

interpretation delete_pool: refines_members "\<lambda>fl. PoolsDelete env fl i" "\<lambda>m. {x \<in> m. fst x \<noteq> i}" for env i
proof unfold_locales
  fix fl d e d'
  assume "PoolsDelete env fl i d = (Inl e, d')"
  then show "d' = d" unfolding PoolsDelete_def by (rule in_tx_rollback)
next
  fix fl and d :: db and b d'
  let ?emit = "\<lambda>n. if n > (0::nat) then OutboxEventsInsert env fl [pool_deleted_event env i] else tx_return ()"
  let ?d1 = "d\<lparr>pools := delete_where (\<lambda>r. pool_id r = i) (pools d),
       pool_accounts := delete_where (\<lambda>r. pac_pool_id r = i)
         (delete_where (\<lambda>r. pac_pool_id r = i \<and> has_key pool_id i (pools d)) (pool_accounts d))\<rparr>"
  assume "PoolsDelete env fl i d = (Inr b, d')"
  then have e: "?emit (length (filter (\<lambda>r. pool_id r = i) (pools d))) ?d1 = (Inr (), d')"
    by (auto simp: PoolsDelete_def tx_inr simp del: length_greater_0_conv split: if_splits)
  have k: "keeps (\<lambda>d. members d = members ?d1) (?emit n)" for n
    by (auto intro!: keeps_intros keeps_members_emit)
  have "members ?d1 = {x \<in> members d. fst x \<noteq> i}"
    by (auto simp: members_key delete_where_def)
  moreover have "members d' = members ?d1" by (rule members_step[OF k e])
  ultimately show "members d' = {x \<in> members d. fst x \<noteq> i}" by simp
qed

interpretation update_query: refines_members "\<lambda>fl. PoolsUpdateQuery env fl p q" "\<lambda>m. m" for env p q
proof unfold_locales
  fix fl d e d'
  assume "PoolsUpdateQuery env fl p q d = (Inl e, d')"
  then show "d' = d" unfolding PoolsUpdateQuery_def by (rule in_tx_rollback)
next
  fix fl d u d'
  assume "PoolsUpdateQuery env fl p q d = (Inr u, d')"
  then have "with_message ''send pool event'' (sendPoolEvent env fl (p\<lparr>Pool_Query := q\<rparr>))
      (d\<lparr>pools := update_where (\<lambda>r. pool_id r = Pool_ID p) (\<lambda>r. r\<lparr>pool_query := q\<rparr>) (pools d)\<rparr>) = (Inr u, d')"
    by (auto simp: PoolsUpdateQuery_def tx_inr)
  from members_step[OF keeps_members_event this] show "members d' = members d" by (simp add: members_def)
qed

text \<open>Creating a pool adds its accounts when it is static; a pool that exists gets them too.\<close>

definition static_members :: "Pool \<Rightarrow> (uuid \<times> AccountID) set" where
  "static_members p = (if Pool_Type p = POOL_TYPE_STATIC then {Pool_ID p} \<times> set (Pool_PoolAccounts p) else {})"

lemma static_rows:
  "Pool_Type p = POOL_TYPE_STATIC \<Longrightarrow>
     pool_account_key ` set (snd (fromPoolModel env p)) = static_members p"
  by (auto simp: static_members_def fromPoolModel_def pool_account_key_def image_image)

interpretation create_pool: refines_members "\<lambda>fl. PoolsUpsert env fl p" "\<lambda>m. m \<union> static_members p" for env p
proof unfold_locales
  fix fl d e d'
  assume "PoolsUpsert env fl p d = (Inl e, d')"
  then show "d' = d" unfolding PoolsUpsert_def by (rule in_tx_rollback)
next
  fix fl d u d'
  let ?pool = "fst (fromPoolModel env p)" and ?accounts = "snd (fromPoolModel env p)"
  let ?check = "tx_for ?accounts (\<lambda>r. check_account_exists fl (pac_account_id r))"
  let ?insert = "if ?accounts \<noteq> [] \<and> Pool_Type p = POOL_TYPE_STATIC
     then tx_bind (insert_pool_accounts_stmt fl ''insert pool accounts'' ?accounts) (\<lambda>_. tx_return ())
     else tx_return ()"
  let ?emit = "\<lambda>b. if b then with_message ''send pool event'' (sendPoolEvent env fl p) else tx_return ()"
  assume run: "PoolsUpsert env fl p d = (Inr u, d')"
  have body: "PoolsUpsert env fl p = in_tx fl ''begin transaction'' ''commit transaction''
      (tx_seq ?check (tx_bind (stmt fl ''check pool exists'' (tx_get (\<lambda>d. has_key pool_id (pool_id ?pool) (pools d))))
        (\<lambda>poolExists. tx_bind (insert_pool_stmt fl ?pool) (\<lambda>inserted.
          tx_bind (stmt fl ''get pool insert rows affected'' (tx_return (length inserted)))
            (\<lambda>n. tx_seq ?insert (?emit (\<not> poolExists \<and> n > 0)))))))"
    by (simp add: PoolsUpsert_def case_prod_unfold Let_def)
  obtain u1 d1 known d1' ins d2 n d2' u3 d3 where
    c: "?check d = (Inr u1, d1)" and
    g: "stmt fl ''check pool exists'' (tx_get (\<lambda>d. has_key pool_id (pool_id ?pool) (pools d))) d1 = (Inr known, d1')" and
    i: "insert_pool_stmt fl ?pool d1' = (Inr ins, d2)" and
    n: "stmt fl ''get pool insert rows affected'' (tx_return (length ins)) d2 = (Inr n, d2')" and
    a: "?insert d2' = (Inr u3, d3)" and e: "?emit (\<not> known \<and> n > 0) d3 = (Inr u, d')"
    using run unfolding body in_tx_Inr_iff tx_bind_Inr_iff tx_seq_Inr_iff by (elim exE conjE) (rule that)
  have same: "d1' = d1" "d2' = d2" using g n by (auto simp: stmt_def split: option.splits)
  have "members d1 = members d" by (rule members_step[OF keeps_for c]) (rule keeps_check_account)
  moreover have "members d2 = members d1"
    using i by (auto simp: same insert_pool_stmt_def members_def split: prod.splits if_splits)
  moreover have "members d3 = members d2 \<union> static_members p"
  proof (cases "?accounts \<noteq> [] \<and> Pool_Type p = POOL_TYPE_STATIC")
    case True
    then obtain new where "insert_pool_accounts_stmt fl ''insert pool accounts'' ?accounts d2 = (Inr new, d3)"
      using a by (auto simp: same tx_inr)
    from insert_pool_accounts_members(1)[OF this] static_rows[of p env] True show ?thesis by simp
  next
    case False
    then have "d3 = d2" using a by (auto simp: same)
    moreover have "static_members p = {}"
      using False by (auto simp: static_members_def fromPoolModel_def)
    ultimately show ?thesis by simp
  qed
  moreover have k: "keeps (\<lambda>d. members d = members d3) (?emit b)" for b
    by (auto intro!: keeps_intros keeps_members_event)
  have "members d' = members d3" by (rule members_step[OF k e])
  ultimately show "members d' = members d \<union> static_members p" by simp
qed

section \<open>Any sequence\<close>

datatype pool_request =
    CreatePool Pool
  | AddToPool uuid AccountID
  | RemoveFromPool uuid AccountID
  | DeletePool uuid
  | QueryPool Pool json

text \<open>One request, whether it succeeds, and what it means for the memberships.\<close>

fun pool_run :: "env \<Rightarrow> pool_request \<Rightarrow> faults \<Rightarrow> db \<Rightarrow> bool \<times> db" where
  "pool_run env (CreatePool p) fl d = map_prod is_ok id (PoolsUpsert env fl p d)"
| "pool_run env (AddToPool i a) fl d = map_prod is_ok id (PoolsAddAccount env fl i a d)"
| "pool_run env (RemoveFromPool i a) fl d = map_prod is_ok id (PoolsRemoveAccount env fl i a d)"
| "pool_run env (DeletePool i) fl d = map_prod is_ok id (PoolsDelete env fl i d)"
| "pool_run env (QueryPool p q) fl d = map_prod is_ok id (PoolsUpdateQuery env fl p q d)"

fun pool_spec :: "pool_request \<Rightarrow> (uuid \<times> AccountID) set \<Rightarrow> (uuid \<times> AccountID) set" where
  "pool_spec (CreatePool p) m = m \<union> static_members p"
| "pool_spec (AddToPool i a) m = insert (i, a) m"
| "pool_spec (RemoveFromPool i a) m = m - {(i, a)}"
| "pool_spec (DeletePool i) m = {x \<in> m. fst x \<noteq> i}"
| "pool_spec (QueryPool p q) m = m"

fun pool_runs :: "env \<Rightarrow> (pool_request \<times> faults) list \<Rightarrow> db \<Rightarrow> bool list \<times> db" where
  "pool_runs env [] d = ([], d)"
| "pool_runs env ((r, fl) # rs) d =
     (let (b, d') = pool_run env r fl d; (bs, d'') = pool_runs env rs d' in (b # bs, d''))"

lemma pool_run_refines:
  "members (snd (pool_run env r fl d)) =
     (if fst (pool_run env r fl d) then pool_spec r (members d) else members d)"
  by (cases r) (simp_all add: create_pool.attempt add_account.attempt remove_account.attempt
      delete_pool.attempt update_query.attempt)

text \<open>C7: for any sequence of requests on pools (creation, account added or removed,
  deletion, new query), each with any database faults, the memberships stored
  at the end are those of the abstract set after the requests that succeeded, in
  their order; a request that fails leaves no trace in them.\<close>

theorem pools_refine_sets:
  "members (snd (pool_runs env rs d)) =
     fold (\<lambda>(r, ok) m. if ok then pool_spec r m else m)
       (zip (map fst rs) (fst (pool_runs env rs d))) (members d)"
proof (induction rs arbitrary: d)
  case Nil
  then show ?case by simp
next
  case (Cons r rs)
  obtain q fl where r: "r = (q, fl)" by fastforce
  obtain b d1 where run: "pool_run env q fl d = (b, d1)" by fastforce
  with pool_run_refines[of env q fl d] have "members d1 = (if b then pool_spec q (members d) else members d)"
    by simp
  moreover obtain bs d2 where "pool_runs env rs d1 = (bs, d2)" by fastforce
  ultimately show ?case using Cons.IH[of d1] run r by simp
qed

end
