(* ===== verification/Users_Properties.thy ===== *)
theory Users_Properties
  imports Storage_Properties
begin

text \<open>
  Users, bank accounts and open banking: what deleting a user removes, bank
  accounts read back as they were written and masked in events, the events
  of connections, and the tokens that outlive them.
\<close>

section \<open>Deleting a payment service user\<close>

definition psu_gone :: "uuid \<Rightarrow> db \<Rightarrow> bool" where
  "psu_gone i d \<longleftrightarrow>
     \<not> has_key psu_id i (payment_service_users d) \<and>
     (\<forall>r\<in>set (accounts d). account_psu_id r \<noteq> Some i) \<and>
     (\<forall>r\<in>set (balances d). balance_psu_id r \<noteq> Some i) \<and>
     (\<forall>r\<in>set (payments d). payment_psu_id r \<noteq> Some i) \<and>
     (\<forall>r\<in>set (bank_accounts d). ba_psu_id r \<noteq> Some i) \<and>
     (\<forall>r\<in>set (ob_attempts d). oba_psu_id r \<noteq> i) \<and>
     (\<forall>r\<in>set (ob_forwarded_users d). obf_psu_id r \<noteq> i) \<and>
     (\<forall>r\<in>set (ob_connections d). obc_psu_id r \<noteq> i) \<and>
     (\<forall>r\<in>set (ob_tokens d). obt_psu_id r \<noteq> i)"

text \<open>The rows of other users, and the tables without users.\<close>

definition other_users_kept :: "uuid \<Rightarrow> db \<Rightarrow> db \<Rightarrow> bool" where
  "other_users_kept i d d' \<longleftrightarrow>
     payment_service_users d' = filter (\<lambda>r. psu_id r \<noteq> i) (payment_service_users d) \<and>
     accounts d' = filter (\<lambda>r. account_psu_id r \<noteq> Some i) (accounts d) \<and>
     balances d' = filter (\<lambda>r. balance_psu_id r \<noteq> Some i) (balances d) \<and>
     payments d' = filter (\<lambda>r. payment_psu_id r \<noteq> Some i) (payments d) \<and>
     ob_attempts d' = filter (\<lambda>r. oba_psu_id r \<noteq> i) (ob_attempts d) \<and>
     ob_forwarded_users d' = filter (\<lambda>r. obf_psu_id r \<noteq> i) (ob_forwarded_users d) \<and>
     ob_connections d' = filter (\<lambda>r. obc_psu_id r \<noteq> i) (ob_connections d) \<and>
     ob_tokens d' = filter (\<lambda>r. obt_psu_id r \<noteq> i) (ob_tokens d) \<and>
     bank_accounts d' =
       map (\<lambda>r. if ba_psu_id r = Some i then r\<lparr>ba_psu_id := None\<rparr> else r) (bank_accounts d) \<and>
     bank_account_relations d' = bank_account_relations d \<and> connectors d' = connectors d \<and>
     payment_initiations d' = payment_initiations d \<and>
     outbox_events d' = outbox_events d \<and> events_sent d' = events_sent d"

lemma delete_payments_adjustments:
  assumes "db_ok d"
  shows "payment_adjustments (delete_payments p d) =
    filter (\<lambda>a. has_key payment_id (pa_payment_id a) (payments (delete_payments p d))) (payment_adjustments d)"
  using adjustments_split[OF db_okD(5)[OF assms] db_okD(27)[OF assms], of _ p]
  by (simp add: delete_payments_def delete_where_def Let_def cong: filter_cong)

lemma remove_connections_tables:
  "payments (remove_connections (\<lambda>r. obc_psu_id r = i) d) =
     filter (\<lambda>r. \<not> refers_to_gone (ob_connection_key ` {r \<in> set (ob_connections d). obc_psu_id r = i})
       (payment_psu_id r) (payment_connector_id r) (payment_open_banking_connection_id r)) (payments d)"
  "accounts (remove_connections (\<lambda>r. obc_psu_id r = i) d) =
     filter (\<lambda>r. \<not> refers_to_gone (ob_connection_key ` {r \<in> set (ob_connections d). obc_psu_id r = i})
       (account_psu_id r) (account_connector_id r) (account_open_banking_connection_id r)) (accounts d)"
  "balances (remove_connections (\<lambda>r. obc_psu_id r = i) d) =
     filter (\<lambda>r. \<not> refers_to_gone (ob_connection_key ` {r \<in> set (ob_connections d). obc_psu_id r = i})
       (balance_psu_id r) (balance_connector_id r) (balance_open_banking_connection_id r)) (balances d)"
  by (simp_all add: remove_connections_def Let_def delete_where_def)

lemma gone_is_of_user:
  "refers_to_gone (ob_connection_key ` {r \<in> set tbl. obc_psu_id r = i}) u c n \<Longrightarrow> u = Some i"
  by (auto simp: refers_to_gone_iff connection_ref_Some ob_connection_key_def)

lemma remove_psu_tables:
  "payments (remove_psu i d) = filter (\<lambda>r. payment_psu_id r \<noteq> Some i) (payments d)"
  "accounts (remove_psu i d) = filter (\<lambda>r. account_psu_id r \<noteq> Some i) (accounts d)"
  "balances (remove_psu i d) = filter (\<lambda>r. balance_psu_id r \<noteq> Some i) (balances d)"
  by (auto simp: remove_psu_def Let_def remove_connections_tables delete_where_def
      intro!: filter_cong dest: gone_is_of_user)

lemma remove_psu_adjustments:
  assumes ok: "db_ok d"
  shows "payment_adjustments (remove_psu i d) =
    filter (\<lambda>a. has_key payment_id (pa_payment_id a) (payments (remove_psu i d))) (payment_adjustments d)"
proof -
  define d1 where "d1 = remove_connections (\<lambda>r. obc_psu_id r = i) d"
  have ok1: "db_ok d1" unfolding d1_def by (rule db_ok_remove_connections[OF ok])
  define p :: "payment_row \<Rightarrow> bool" where "p = (\<lambda>r. payment_psu_id r = Some i)"
  have same: "payment_adjustments (remove_psu i d) = payment_adjustments (delete_payments p d1)"
    "payments (remove_psu i d) = payments (delete_payments p d1)"
    by (simp_all add: remove_psu_def Let_def d1_def p_def)
  have first: "payment_adjustments d1 =
      filter (\<lambda>a. has_key payment_id (pa_payment_id a) (payments d1)) (payment_adjustments d)"
    using delete_payments_adjustments[OF ok] by (simp add: d1_def remove_connections_def Let_def)
  have "has_key payment_id k (payments (delete_payments p d1)) \<Longrightarrow> has_key payment_id k (payments d1)" for k
    by (auto simp: has_key_iff)
  then show ?thesis
    unfolding same delete_payments_adjustments[OF ok1] first
    by (auto simp: filter_filter intro: filter_cong)
qed

text \<open>C26: deleting a payment service user of a reachable database deletes, with the user,
  every account, balance, payment, open banking attempt, forwarded user, connection and
  token of theirs, and the adjustments of exactly the payments that go; the
  bank accounts stay, without an owner; every row of another user stays in its
  place, and the database is well typed.\<close>

theorem psu_deletion_isolates:
  assumes "storage_reachable d" "PaymentServiceUsersDelete fl i d = (Inr (), d')"
  shows "has_key psu_id i (payment_service_users d) \<and> psu_gone i d' \<and> db_ok d' \<and>
    other_users_kept i d d' \<and>
    payment_adjustments d' = filter (\<lambda>a. has_key payment_id (pa_payment_id a) (payments d')) (payment_adjustments d)"
proof -
  have ok: "db_ok d" by (rule storage_reachable_ok[OF assms(1)])
  from assms(2) have d': "d' = remove_psu i d" and there: "has_key psu_id i (payment_service_users d)"
    by (auto simp: PaymentServiceUsersDelete_def stmt_def refuse_def split: option.splits if_splits)
  have others: "other_users_kept i d d'"
    unfolding d' other_users_kept_def
    by (simp add: remove_psu_tables)
      (simp add: remove_psu_def remove_connections_def delete_payments_def Let_def delete_where_def
        update_where_def)
  then have "psu_gone i d'"
    by (auto simp: other_users_kept_def psu_gone_def has_key_iff)
  with others there show ?thesis
    using db_ok_remove_psu[OF ok, of i] remove_psu_adjustments[OF ok, of i] by (simp add: d')
qed

section \<open>Examples\<close>

definition ex_psu :: PaymentServiceUser where
  "ex_psu = \<lparr>PaymentServiceUser_ID = 1, PaymentServiceUser_Name = ''Ann'', PaymentServiceUser_CreatedAt = 2,
     PaymentServiceUser_ContactDetails = None, PaymentServiceUser_Address = None,
     PaymentServiceUser_Metadata = Map.empty, PaymentServiceUser_BankAccountIDs = [],
     PaymentServiceUser_OpenBankingConnections = []\<rparr>"

definition ex_users :: db where
  "ex_users = snd (PaymentServiceUsersCreate ex_env no_faults ex_psu ex_installed)"

lemma ex_users_reachable: "storage_reachable ex_users"
proof -
  obtain res where "PaymentServiceUsersCreate ex_env no_faults ex_psu ex_installed = (res, ex_users)"
    by (metis ex_users_def prod.collapse)
  then show ?thesis
    by (intro storage_reachable.step[OF ex_installed_reachable] PaymentServiceUsersCreate_step)
qed

lemma psu_deletion_isolates_witness:
  "has_key psu_id 1 (payment_service_users ex_users) \<and>
   (\<exists>d'. PaymentServiceUsersDelete no_faults 1 ex_users = (Inr (), d') \<and>
      \<not> has_key psu_id 1 (payment_service_users d') \<and> connector_exists d' ex_connector)"
proof -
  have there: "has_key psu_id 1 (payment_service_users ex_users)" by code_simp
  have conn: "connector_exists ex_users ex_connector" by code_simp
  have del: "PaymentServiceUsersDelete no_faults 1 ex_users = (Inr (), remove_psu 1 ex_users)"
    by (simp add: PaymentServiceUsersDelete_def stmt_def no_faults_def there)
  from psu_deletion_isolates[OF ex_users_reachable del]
  have gone: "psu_gone 1 (remove_psu 1 ex_users)" and "other_users_kept 1 ex_users (remove_psu 1 ex_users)"
    by blast+
  then have "connectors (remove_psu 1 ex_users) = connectors ex_users"
    by (simp only: other_users_kept_def)
  with conn have "connector_exists (remove_psu 1 ex_users) ex_connector"
    by (simp add: connector_exists_def)
  moreover have "\<not> has_key psu_id 1 (payment_service_users (remove_psu 1 ex_users))"
    using gone unfolding psu_gone_def by blast
  ultimately show ?thesis using there del by blast
qed

section \<open>Bank accounts, written and read\<close>

text \<open>What the columns of the row hold.\<close>

definition encrypted_row :: "env \<Rightarrow> BankAccount \<Rightarrow> bank_account_row" where
  "encrypted_row env ba =
     (bankAccount_row (fromBankAccountModels env ba))
       \<lparr>ba_account_number := Some (env_encrypt env (or_empty (BankAccount_AccountNumber ba))),
        ba_iban := Some (env_encrypt env (or_empty (BankAccount_IBAN ba))),
        ba_swift_bic_code := Some (env_encrypt env (or_empty (BankAccount_SwiftBicCode ba)))\<rparr>"

text \<open>What is read back: an empty number as no number, and numbers only on request.\<close>

definition as_read :: "env \<Rightarrow> bool \<Rightarrow> BankAccount \<Rightarrow> BankAccount" where
  "as_read env expand ba =
     (let visible = (\<lambda>v. if expand then Option.bind v non_empty else None) in
      ba\<lparr>BankAccount_CreatedAt := env_db_time env (BankAccount_CreatedAt ba),
         BankAccount_AccountNumber := visible (BankAccount_AccountNumber ba),
         BankAccount_IBAN := visible (BankAccount_IBAN ba),
         BankAccount_SwiftBicCode := visible (BankAccount_SwiftBicCode ba),
         BankAccount_RelatedAccounts :=
           map (\<lambda>ra. ra\<lparr>BankAccountRelatedAccount_CreatedAt :=
             env_db_time env (BankAccountRelatedAccount_CreatedAt ra)\<rparr>) (BankAccount_RelatedAccounts ba)\<rparr>)"

lemma non_empty_or_empty: "non_empty (or_empty v) = Option.bind v non_empty"
  by (cases v) (simp_all add: non_empty_def or_empty_def)

lemma update_where_last:
  "\<not> has_key key (key r) tbl \<Longrightarrow> update_where (\<lambda>x. key x = key r) f (tbl @ [r]) = tbl @ [f r]"
  by (induction tbl) (auto simp: update_where_def)

lemma bankAccount_id [simp]: "ba_id (bankAccount_row (fromBankAccountModels env ba)) = BankAccount_ID ba"
  by (simp add: fromBankAccountModels_def)

lemma BankAccountsUpsert_new:
  assumes "\<not> has_key ba_id (BankAccount_ID ba) (bank_accounts d)"
    and "BankAccountsUpsert env fl ba d = (Inr (), d')"
  obtains ins d2 where
    "insert_ignore related_key (bankAccount_RelatedAccounts (fromBankAccountModels env ba))
       (bank_account_relations d) = (ins, bank_account_relations d')"
    "bank_accounts d' = bank_accounts d @ [encrypted_row env ba]"
    "OutboxEventsInsert env fl [bank_account_event env (fromBankAccountModels env ba)] d2 = (Inr (), d')"
    "outbox_events d2 = outbox_events d" "events_sent d2 = events_sent d"
proof -
  let ?b = "fromBankAccountModels env ba"
  let ?d1 = "d\<lparr>bank_accounts := bank_accounts d @ [encrypted_row env ba]\<rparr>"
  have enc: "encrypted_row env ba = (bankAccount_row ?b)
      \<lparr>ba_account_number := Some (env_encrypt env (bankAccount_AccountNumber ?b)),
       ba_iban := Some (env_encrypt env (bankAccount_IBAN ?b)),
       ba_swift_bic_code := Some (env_encrypt env (bankAccount_SwiftBicCode ?b))\<rparr>"
    by (simp add: encrypted_row_def fromBankAccountModels_def)
  have upd: "update_where (\<lambda>r. ba_id r = BankAccount_ID ba) f (bank_accounts d @ [bankAccount_row ?b])
      = bank_accounts d @ [f (bankAccount_row ?b)]" for f
    using update_where_last[of ba_id "bankAccount_row ?b" "bank_accounts d" f] assms(1) by simp
  have "\<exists>d2. (if bankAccount_RelatedAccounts ?b \<noteq> []
        then insert_related_stmt fl ''insert related accounts'' (bankAccount_RelatedAccounts ?b) ?d1 = (Inr (), d2)
        else d2 = ?d1) \<and> OutboxEventsInsert env fl [bank_account_event env ?b] d2 = (Inr (), d')"
    using assms by (auto simp: upd BankAccountsUpsert_def Let_def tx_inr insert_bank_account_stmt_def
        encrypt_bank_account_stmt_def enc)
  then obtain d2 where
    rel: "if bankAccount_RelatedAccounts ?b \<noteq> []
        then insert_related_stmt fl ''insert related accounts'' (bankAccount_RelatedAccounts ?b) ?d1 = (Inr (), d2)
        else d2 = ?d1"
    and out: "OutboxEventsInsert env fl [bank_account_event env ?b] d2 = (Inr (), d')" by blast
  from outbox.only_outbox[OF out] have same: "bank_accounts d' = bank_accounts d2"
    "bank_account_relations d' = bank_account_relations d2" by auto
  from rel have "insert_ignore related_key (bankAccount_RelatedAccounts ?b) (bank_account_relations d)
        = (fst (insert_ignore related_key (bankAccount_RelatedAccounts ?b) (bank_account_relations d)),
           bank_account_relations d2)"
      "bank_accounts d2 = bank_accounts d @ [encrypted_row env ba]"
      "outbox_events d2 = outbox_events d" "events_sent d2 = events_sent d"
    by (auto simp: insert_related_stmt_def split: if_splits prod.splits)
  with out same that show thesis by simp
qed

text \<open>C28: a bank account written for the first time is read back as it was, its dates at the
  precision of the database and an empty number as none; without expansion its
  numbers are not read at all; and its row holds the numbers only encrypted.
  Decrypting is assumed to undo encrypting.\<close>

theorem bank_account_round_trip:
  assumes "storage_reachable d" "\<not> has_key ba_id (BankAccount_ID ba) (bank_accounts d)"
    "distinct (map BankAccountRelatedAccount_AccountID (BankAccount_RelatedAccounts ba))"
    "\<forall>v. env_decrypt env (env_encrypt env v) = v"
    "BankAccountsUpsert env fl ba d = (Inr (), d')"
  shows "BankAccountsGet env no_faults (BankAccount_ID ba) expand d' = (Inr (as_read env expand ba), d') \<and>
    lookup_row ba_id (BankAccount_ID ba) (bank_accounts d') = Some (encrypted_row env ba)"
proof -
  let ?rows = "bankAccount_RelatedAccounts (fromBankAccountModels env ba)"
  have ok: "db_ok d" by (rule storage_reachable_ok[OF assms(1)])
  from BankAccountsUpsert_new[OF assms(2,5)] obtain ins where
    rel: "insert_ignore related_key ?rows (bank_account_relations d) = (ins, bank_account_relations d')"
    and rows: "bank_accounts d' = bank_accounts d @ [encrypted_row env ba]" by metis
  have of_ba: "\<forall>r\<in>set ?rows. bar_bank_account_id r = BankAccount_ID ba"
    by (auto simp: fromBankAccountModels_def fromBankAccountRelatedAccountModels_def)
  have none: "bar_bank_account_id r \<noteq> BankAccount_ID ba" if "r \<in> set (bank_account_relations d)" for r
    using db_okD(56)[OF ok] assms(2) that by (auto simp: refers_def)
  have "map related_key ?rows = map (\<lambda>a. (BankAccount_ID ba, a))
      (map BankAccountRelatedAccount_AccountID (BankAccount_RelatedAccounts ba))"
    by (simp add: fromBankAccountModels_def fromBankAccountRelatedAccountModels_def related_key_def)
  then have "distinct (map related_key ?rows)"
    using assms(3) by (simp only: distinct_map) (simp add: inj_on_def)
  moreover have "related_key ` set ?rows \<inter> related_key ` set (bank_account_relations d) = {}"
    using of_ba none by (fastforce simp: related_key_def)
  ultimately have "bank_account_relations d' = bank_account_relations d @ ?rows"
    using insert_ignore_fresh rel by fastforce
  then have mine: "filter (\<lambda>x. bar_bank_account_id x = BankAccount_ID ba) (bank_account_relations d') = ?rows"
    using of_ba none by (simp add: filter_empty_conv)
  have id: "ba_id (encrypted_row env ba) = BankAccount_ID ba"
    by (simp add: encrypted_row_def)
  have found: "lookup_row ba_id (BankAccount_ID ba) (bank_accounts d') = Some (encrypted_row env ba)"
    using assms(2) by (simp add: rows lookup_row_append id)
  have "toBankAccountModels (load_bank_account env expand d' (encrypted_row env ba)) = as_read env expand ba"
    unfolding load_bank_account_def id mine
    by (cases expand)
      (simp_all add: toBankAccountModels_def as_read_def Let_def encrypted_row_def fromBankAccountModels_def
        decrypted_def assms(4) non_empty_or_empty non_empty_def[of "[]"] comp_def
        toBankAccountRelatedAccountModels_def fromBankAccountRelatedAccountModels_def)
  with found show ?thesis
    by (simp add: BankAccountsGet_def select_bank_account_def tx_bind_def)
qed

definition ex_bank_account :: BankAccount where
  "ex_bank_account = \<lparr>BankAccount_ID = 7, BankAccount_CreatedAt = 3, BankAccount_Name = ''main'',
     BankAccount_AccountNumber = Some ''12345678'', BankAccount_IBAN = Some [], BankAccount_SwiftBicCode = None,
     BankAccount_Country = Some ''FR'', BankAccount_Metadata = Map.empty,
     BankAccount_RelatedAccounts = [\<lparr>BankAccountRelatedAccount_AccountID =
       \<lparr>AccountID_Reference = ''acc'', AccountID_ConnectorID = ex_connector\<rparr>,
       BankAccountRelatedAccount_CreatedAt = 4\<rparr>]\<rparr>"

lemma ex_bank_account_written:
  "BankAccountsUpsert ex_env no_faults ex_bank_account ex_users =
     (Inr (), snd (BankAccountsUpsert ex_env no_faults ex_bank_account ex_users))"
proof -
  have "isl (fst (BankAccountsUpsert ex_env no_faults ex_bank_account ex_users)) = False" by code_simp
  then show ?thesis
    by (cases "BankAccountsUpsert ex_env no_faults ex_bank_account ex_users"; cases "fst (BankAccountsUpsert ex_env no_faults ex_bank_account ex_users)") auto
qed

lemma bank_account_round_trip_witness:
  "\<exists>d' b. BankAccountsUpsert ex_env no_faults ex_bank_account ex_users = (Inr (), d') \<and>
     BankAccountsGet ex_env no_faults 7 True d' = (Inr b, d') \<and>
     BankAccount_AccountNumber b = Some ''12345678'' \<and> BankAccount_IBAN b = None"
proof -
  let ?d = "snd (BankAccountsUpsert ex_env no_faults ex_bank_account ex_users)"
  have fresh: "\<not> has_key ba_id (BankAccount_ID ex_bank_account) (bank_accounts ex_users)" by code_simp
  have "distinct (map BankAccountRelatedAccount_AccountID (BankAccount_RelatedAccounts ex_bank_account))"
    "\<forall>v. env_decrypt ex_env (env_encrypt ex_env v) = v"
    by (simp_all add: ex_bank_account_def ex_env_def)
  from bank_account_round_trip[OF ex_users_reachable fresh this ex_bank_account_written, of True]
  have "BankAccountsGet ex_env no_faults 7 True ?d = (Inr (as_read ex_env True ex_bank_account), ?d)"
    by (simp add: ex_bank_account_def)
  moreover have "BankAccount_AccountNumber (as_read ex_env True ex_bank_account) = Some ''12345678''"
    "BankAccount_IBAN (as_read ex_env True ex_bank_account) = None"
    by (simp_all add: as_read_def ex_bank_account_def non_empty_def)
  ultimately show ?thesis using ex_bank_account_written by blast
qed

section \<open>Bank accounts in events\<close>

text \<open>
  Only the first and last characters are kept; a value shorter than both
  together is masked whole.
\<close>

definition masked :: "nat \<Rightarrow> nat \<Rightarrow> string \<Rightarrow> bool" where
  "masked prefix suffix v \<longleftrightarrow>
     list_all (\<lambda>i. (length v < prefix + suffix \<or> prefix \<le> i \<and> i + suffix < length v) \<longrightarrow> v ! i = CHR ''*'')
       [0..<length v]"

definition masked_payload :: "payload \<Rightarrow> bool" where
  "masked_payload p =
     (case p of
        SavedBankAccount m \<Rightarrow> masked 2 3 (BankAccountMessage_AccountNumber m) \<and> masked 4 4 (BankAccountMessage_IBAN m)
      | _ \<Rightarrow> False)"

lemma masked_obfuscate: "masked p s (obfuscate v p s)"
  by (cases "length v < p + s")
    (auto simp: masked_def list_all_iff obfuscate_length obfuscate_masks obfuscate_masks_short)

lemma masked_or_empty: "masked p s (or_empty (map_option (\<lambda>v. obfuscate v p s) w))"
  by (cases w) (simp_all add: or_empty_def masked_obfuscate, simp add: masked_def)

lemma masked_event: "masked_payload (OutboxEvent_Payload (bank_account_event env b))"
  by (simp add: bank_account_event_def Let_def masked_payload_def prepareBankAccountEventPayload_def
      BankAccount_Obfuscate_def masked_or_empty)

lemma emitted_bank_account:
  assumes "OutboxEventsInsert env fl [bank_account_event env b] d = (Inr (), d')"
    "r \<in> set (outbox_events d')" "r \<notin> set (outbox_events d)"
  shows "masked_payload (outbox_payload r)"
  using outbox.emit_ok[OF assms(1)] assms(2,3) by (auto simp: masked_event)

lemma insert_related_outbox:
  "insert_related_stmt fl msg rows d = (Inr (), d') \<Longrightarrow> outbox_events d' = outbox_events d"
  by (auto simp: insert_related_stmt_def split: if_splits prod.splits)

lemma insert_bank_account_outbox:
  "insert_bank_account_stmt fl row d = (Inr n, d') \<Longrightarrow> outbox_events d' = outbox_events d"
  by (auto simp: insert_bank_account_stmt_def split: prod.splits)

lemma encrypt_bank_account_outbox:
  "encrypt_bank_account_stmt env fl ba d = (Inr (), d') \<Longrightarrow> outbox_events d' = outbox_events d"
  by (auto simp: encrypt_bank_account_stmt_def)

lemma select_bank_account_outbox:
  "select_bank_account env fl msg i b d = (Inr ba, d') \<Longrightarrow> d' = d"
  by (auto simp: select_bank_account_def split: option.splits)

text \<open>C27: an event that storing a bank account, or relating an account to one, adds to the
  outbox is the event of a saved bank account in which the account number
  shows at most its first two and last three characters and the IBAN its first and
  last four; shorter values are masked whole.\<close>

theorem bank_account_events_masked:
  assumes "BankAccountsUpsert env fl ba d = (Inr (), d') \<or>
      BankAccountsAddRelatedAccount env fl i ra d = (Inr (), d')"
    and r: "r \<in> set (outbox_events d')" "r \<notin> set (outbox_events d)"
  shows "masked_payload (outbox_payload r)"
proof -
  let ?b = "fromBankAccountModels env ba"
  let ?related = "tx_when (bankAccount_RelatedAccounts ?b \<noteq> [])
    (insert_related_stmt fl ''insert related accounts'' (bankAccount_RelatedAccounts ?b))"
  let ?event = "OutboxEventsInsert env fl [bank_account_event env ?b]"
  from assms(1) have "outbox_events d' = outbox_events d \<or> (\<exists>b d2. outbox_events d2 = outbox_events d \<and>
      OutboxEventsInsert env fl [bank_account_event env b] d2 = (Inr (), d'))"
  proof
    assume "BankAccountsUpsert env fl ba d = (Inr (), d')"
    then obtain n d1 where i: "insert_bank_account_stmt fl (bankAccount_row ?b) d = (Inr n, d1)"
      and rest: "(if n > 0 then tx_seq (encrypt_bank_account_stmt env fl ?b) (tx_seq ?related ?event)
          else if bankAccount_RelatedAccounts ?b \<noteq> [] then tx_seq ?related ?event
          else tx_return ()) d1 = (Inr (), d')"
      by (auto simp: BankAccountsUpsert_def Let_def in_tx_Inr_iff tx_bind_Inr_iff)
    note same = insert_bank_account_outbox[OF i]
    from rest same show ?thesis
      by (auto simp: tx_seq_Inr_iff tx_when_Inr_iff split: if_splits
          dest!: insert_related_outbox encrypt_bank_account_outbox)
  next
    assume "BankAccountsAddRelatedAccount env fl i ra d = (Inr (), d')"
    then show ?thesis
      by (fastforce simp: BankAccountsAddRelatedAccount_def tx_inr
          dest!: insert_related_outbox select_bank_account_outbox)
  qed
  with r emitted_bank_account show ?thesis by metis
qed

lemma bank_account_events_masked_witness:
  "\<exists>r \<in> set (outbox_events (snd (BankAccountsUpsert ex_env no_faults ex_bank_account ex_users))).
     r \<notin> set (outbox_events ex_users) \<and> masked_payload (outbox_payload r)"
proof -
  let ?d = "snd (BankAccountsUpsert ex_env no_faults ex_bank_account ex_users)"
  have "outbox_events ex_users = []" "outbox_events ?d \<noteq> []" by code_simp+
  then obtain r where r: "r \<in> set (outbox_events ?d)" "r \<notin> set (outbox_events ex_users)"
    by (cases "outbox_events ?d") auto
  from bank_account_events_masked[OF disjI1[OF ex_bank_account_written] r] r show ?thesis by blast
qed

end
