(* ===== verification/OpenBanking_Properties.thy ===== *)
theory OpenBanking_Properties
  imports Users_Properties
begin

text \<open>
  Open banking connections: the events of a change of status, and two things
  that outlive what they belong to: the access token of a deleted connection,
  and the idempotency key of the status of an attempt.
\<close>

section \<open>Statements\<close>

lemma upsert_token_effect:
  assumes "upsert_token_stmt env fl msg t d = (Inr (), d')"
  shows "\<exists>tbl. d' = d\<lparr>ob_tokens := tbl\<rparr> \<and> (t = None \<longrightarrow> tbl = ob_tokens d)"
proof (cases t)
  case None
  then have "d' = d\<lparr>ob_tokens := ob_tokens d\<rparr>" using assms by (simp add: upsert_token_stmt_def)
  then show ?thesis by blast
next
  case (Some x)
  with assms show ?thesis by (auto simp: upsert_token_stmt_def Let_def split: if_splits)
qed

lemma upsert_connection_effect:
  "upsert_connection_stmt fl row d = (Inr (), d') \<Longrightarrow>
     d' = d\<lparr>ob_connections := upsert_row ob_connection_key merge_connection row (ob_connections d)\<rparr>"
  by (auto simp: upsert_connection_stmt_def Let_def split: if_splits)

definition connection_of :: "env \<Rightarrow> uuid \<Rightarrow> OpenBankingConnection \<Rightarrow> ob_connection_row" where
  "connection_of env u c = fst (fromOpenBankingConnectionsModels env c u)"

lemma connection_of_key [simp]:
  "ob_connection_key (connection_of env u c) = (u, OpenBankingConnection_ConnectorID c, OpenBankingConnection_ConnectionID c)"
  "obc_status (connection_of env u c) = OpenBankingConnection_Status c"
  "obc_error (connection_of env u c) = OpenBankingConnection_Error c"
  by (simp_all add: connection_of_def fromOpenBankingConnectionsModels_def ob_connection_key_def)

lemma OpenBankingConnectionsUpsert_effect:
  assumes "OpenBankingConnectionsUpsert env fl u c d = (Inr (), d')"
  obtains d2 where
    "OutboxEventsInsert env fl (connection_events env u c
       (lookup_row ob_connection_key (ob_connection_key (connection_of env u c)) (ob_connections d))) d2 = (Inr (), d')"
    "ob_connections d2 = upsert_row ob_connection_key merge_connection (connection_of env u c) (ob_connections d)"
    "OpenBankingConnection_AccessToken c = None \<longrightarrow> ob_tokens d2 = ob_tokens d"
    "outbox_events d2 = outbox_events d" "events_sent d2 = events_sent d"
    "accounts d2 = accounts d" "payments d2 = payments d"
proof -
  obtain row token where f: "fromOpenBankingConnectionsModels env c u = (row, token)" by fastforce
  then have row: "row = connection_of env u c" by (simp add: connection_of_def)
  have none: "OpenBankingConnection_AccessToken c = None \<Longrightarrow> token = None"
    using f by (auto simp: fromOpenBankingConnectionsModels_def)
  from assms obtain d1 d2 where
    t: "upsert_token_stmt env fl ''upserting open banking connection access token'' token d = (Inr (), d1)" and
    c: "upsert_connection_stmt fl row d1 = (Inr (), d2)" and
    o: "OutboxEventsInsert env fl (connection_events env u c
       (lookup_row ob_connection_key (ob_connection_key row) (ob_connections d))) d2 = (Inr (), d')"
    by (auto simp: OpenBankingConnectionsUpsert_def f tx_inr)
  from upsert_token_effect[OF t] upsert_connection_effect[OF c] none o show thesis
    unfolding row by (intro that[of d2]) auto
qed

section \<open>Status of connections\<close>

definition recorded :: "OutboxEvent \<Rightarrow> db \<Rightarrow> bool" where
  "recorded e d \<longleftrightarrow> OutboxEvent_ID e \<in> outbox_id ` set (outbox_events d) \<union> sent_id ` set (events_sent d)"


definition ex_ob_connection :: "ConnectionStatus \<Rightarrow> Token option \<Rightarrow> OpenBankingConnection" where
  "ex_ob_connection s t = \<lparr>OpenBankingConnection_ConnectionID = ''conn'', OpenBankingConnection_ConnectorID = ex_connector,
     OpenBankingConnection_CreatedAt = 1, OpenBankingConnection_DataUpdatedAt = 1, OpenBankingConnection_Status = s,
     OpenBankingConnection_UpdatedAt = 2, OpenBankingConnection_AccessToken = t,
     OpenBankingConnection_Error = None, OpenBankingConnection_Metadata = Map.empty\<rparr>"

definition ex_token :: Token where
  "ex_token = \<lparr>Token_Token = ''secret'', Token_ExpiresAt = 50\<rparr>"

definition ex_connected :: db where
  "ex_connected = snd (OpenBankingConnectionsUpsert ex_env no_faults 1
     (ex_ob_connection ConnectionStatusError (Some ex_token)) ex_users)"

lemma run_is:
  assumes "isl (fst r) = False" shows "r = (Inr (), snd r)"
  using assms by (cases r; cases "fst r") auto

lemma ex_reconnects:
  "OpenBankingConnectionsUpsert ex_env no_faults 1 (ex_ob_connection ConnectionStatusActive None) ex_connected =
    (Inr (), snd (OpenBankingConnectionsUpsert ex_env no_faults 1 (ex_ob_connection ConnectionStatusActive None) ex_connected))"
  by (rule run_is) code_simp


section \<open>Tokens\<close>

text \<open>The code as it is: deleting a connection leaves its access token, so a connection
  made again under the same identifiers without a token is read with the old
  one.\<close>

theorem token_outlives_connection:
  assumes "lookup_row ob_token_key (u, c, n) (ob_tokens d) = Some t"
    and "OpenBankingConnectionsDelete fl u c n d = (Inr (), d1)"
    and "OpenBankingConnection_ConnectorID conn = c" "OpenBankingConnection_ConnectionID conn = n"
      "OpenBankingConnection_AccessToken conn = None"
    and "OpenBankingConnectionsUpsert env fl' u conn d1 = (Inr (), d2)"
  shows "\<exists>r. OpenBankingConnectionsGet env no_faults u c n d2 = (Inr r, d2) \<and>
    OpenBankingConnection_AccessToken r =
      Some \<lparr>Token_Token = env_decrypt env (obt_access_token t), Token_ExpiresAt = obt_expires_at t\<rparr>"
proof -
  from assms(2) have d1: "ob_tokens d1 = ob_tokens d"
    by (auto simp: OpenBankingConnectionsDelete_def remove_connections_def delete_payments_def Let_def)
  from OpenBankingConnectionsUpsert_effect[OF assms(6)] assms(3-5) obtain d' where
    o: "OutboxEventsInsert env fl' (connection_events env u conn
       (lookup_row ob_connection_key (u, c, n) (ob_connections d1))) d' = (Inr (), d2)" and
    conns: "ob_connections d' = upsert_row ob_connection_key merge_connection (connection_of env u conn) (ob_connections d1)" and
    tokens: "ob_tokens d' = ob_tokens d"
    by (metis connection_of_key(1) d1)
  from outbox.only_outbox[OF o] have d2: "ob_connections d2 = ob_connections d'" "ob_tokens d2 = ob_tokens d'"
    by auto
  have "has_key ob_connection_key (u, c, n) (ob_connections d2)"
    unfolding d2 conns by (subst has_key_upsert_row) (simp_all add: assms(3,4))
  then obtain r where r: "lookup_row ob_connection_key (u, c, n) (ob_connections d2) = Some r"
    using lookup_row_present by metis
  moreover have "ob_connection_key r = (u, c, n)" using lookup_row_SomeD[OF r] by simp
  ultimately show ?thesis
    using assms(1) by (auto simp: OpenBankingConnectionsGet_def get_connection_def tx_bind_def d2 tokens
        lookup_row_def[symmetric]
        toOpenBankingConnectionsModels_def toTokenModels_def)
qed

lemma token_outlives_connection_witness:
  "\<exists>d1 d2 r. OpenBankingConnectionsDelete no_faults 1 ex_connector ''conn'' ex_connected = (Inr (), d1) \<and>
     OpenBankingConnectionsUpsert ex_env no_faults 1 (ex_ob_connection ConnectionStatusActive None) d1 = (Inr (), d2) \<and>
     OpenBankingConnectionsGet ex_env no_faults 1 ex_connector ''conn'' d2 = (Inr r, d2) \<and>
     map_option Token_Token (OpenBankingConnection_AccessToken r) = Some ''secret''"
proof -
  let ?del = "OpenBankingConnectionsDelete no_faults 1 ex_connector ''conn'' ex_connected"
  let ?up = "OpenBankingConnectionsUpsert ex_env no_faults 1 (ex_ob_connection ConnectionStatusActive None) (snd ?del)"
  have del: "?del = (Inr (), snd ?del)" by (rule run_is) code_simp
  have up: "?up = (Inr (), snd ?up)" by (rule run_is) code_simp
  obtain t where t: "lookup_row ob_token_key (1, ex_connector, ''conn'') (ob_tokens ex_connected) = Some t"
    and secret: "env_decrypt ex_env (obt_access_token t) = ''secret''"
  proof -
    have "map_option (env_decrypt ex_env \<circ> obt_access_token)
      (lookup_row ob_token_key (1, ex_connector, ''conn'') (ob_tokens ex_connected)) = Some ''secret''" by code_simp
    with that show thesis by auto
  qed
  have "OpenBankingConnection_ConnectorID (ex_ob_connection ConnectionStatusActive None) = ex_connector"
    "OpenBankingConnection_ConnectionID (ex_ob_connection ConnectionStatusActive None) = ''conn''"
    "OpenBankingConnection_AccessToken (ex_ob_connection ConnectionStatusActive None) = None"
    by (simp_all add: ex_ob_connection_def)
  from token_outlives_connection[OF t del this up] secret del up show ?thesis by fastforce
qed

section \<open>Attempts\<close>

text \<open>
  The event of the status of an attempt is identified by the user, the
  connector, the status and the error: when an earlier attempt of the user at
  the connector has recorded the same outcome, the update adds no event.
\<close>

lemma link_status_event_once:
  assumes "OpenBankingConnectionAttemptsUpdateStatus env fl i st err d = (Inr (), d')"
    and "lookup_row oba_id i (ob_attempts d) = Some a"
    and "recorded (link_status_event env b st err) d"
    and "oba_psu_id b = oba_psu_id a" "oba_connector_id b = oba_connector_id a"
  shows "outbox_events d' = outbox_events d"
proof -
  let ?d1 = "d\<lparr>ob_attempts := update_where (\<lambda>r. oba_id r = i) (\<lambda>r. r\<lparr>oba_status := st, oba_error := err\<rparr>) (ob_attempts d)\<rparr>"
  have found: "lookup_row oba_id i (ob_attempts ?d1) = Some (a\<lparr>oba_status := st, oba_error := err\<rparr>)"
    using assms(2) lookup_row_SomeD[OF assms(2)] by (simp add: lookup_row_update_where)
  with assms(1) have o: "OutboxEventsInsert env fl
      [link_status_event env (a\<lparr>oba_status := st, oba_error := err\<rparr>) st err] ?d1 = (Inr (), d')"
    by (auto simp: OpenBankingConnectionAttemptsUpdateStatus_def tx_inr)
  have "OutboxEvent_ID (link_status_event env (a\<lparr>oba_status := st, oba_error := err\<rparr>) st err)
      = OutboxEvent_ID (link_status_event env b st err)"
    using assms(4,5) by (simp add: link_status_event_def ob_event_def)
  with assms(3) have "OutboxEvent_ID ` set [link_status_event env (a\<lparr>oba_status := st, oba_error := err\<rparr>) st err]
      \<subseteq> sent_id ` set (events_sent ?d1) \<union> outbox_id ` set (outbox_events ?d1)"
    by (auto simp: recorded_def)
  from outbox.nothing_to_emit[OF o this] show ?thesis by simp
qed

end
