(* ===== verification/Batch_Delete.thy ===== *)
theory Batch_Delete
  imports Storage_Machine
begin

text \<open>
  internal/connectors/engine/activities: the activities that delete the rows of
  a connector, by batches where a table may be large.  A batched deletion is
  shown to end, and to have when it succeeds the effect of deleting the rows at
  once, whatever failed before.
\<close>

section \<open>The loop\<close>

text \<open>storage_batch_delete.go.\<close>

definition batchSize :: int where
  "batchSize = 1000"

text \<open>The k-th call of the storage; heartbeats report only.\<close>

partial_function (option) batchDeleteWithHeartbeat ::
  "(nat \<Rightarrow> (db, int) tx) \<Rightarrow> nat \<Rightarrow> db \<Rightarrow> (unit result \<times> db) option" where
  "batchDeleteWithHeartbeat deleteFunc k d =
     (case deleteFunc k d of
        (res, d') \<Rightarrow> (case res of
          Inl err \<Rightarrow> Some (Inl (the (temporalStorageError (Some err))), d')
        | Inr rowsAffected \<Rightarrow>
            if rowsAffected = 0 then Some (Inr (), d')
            else batchDeleteWithHeartbeat deleteFunc (Suc k) d'))"

text \<open>An activity that is one operation of the storage.\<close>

definition storage_activity :: "(db, 'a) tx \<Rightarrow> db \<Rightarrow> ('a result \<times> db) option" where
  "storage_activity m d =
     (case m d of
        (Inl err, d') \<Rightarrow> Some (Inl (the (temporalStorageError (Some err))), d')
      | (Inr a, d') \<Rightarrow> Some (Inr a, d'))"

section \<open>What a deletion by batches promises\<close>

text \<open>
  Deleting a batch never changes what deleting everything would leave; it
  reports 0 only when nothing is left, and otherwise something less is left.
\<close>

locale batched_deletion =
  fixes batch :: "faults \<Rightarrow> (db, int) tx" and whole :: "db \<Rightarrow> db" and left :: "db \<Rightarrow> nat"
  assumes batch_ok: "db_ok d \<Longrightarrow> batch fl d = (r, d') \<Longrightarrow> db_ok d'"
    and batch_same: "db_ok d \<Longrightarrow> batch fl d = (r, d') \<Longrightarrow> whole d' = whole d"
    and batch_less: "db_ok d \<Longrightarrow> batch fl d = (Inr n, d') \<Longrightarrow> n \<noteq> 0 \<Longrightarrow> left d' < left d"
    and batch_done: "db_ok d \<Longrightarrow> batch fl d = (Inr 0, d') \<Longrightarrow> whole d' = d'"
    and batch_runs: "\<exists>n d'. batch no_faults d = (Inr n, d')"
begin

lemma loop_ends:
  "db_ok d \<Longrightarrow> \<exists>r d'. batchDeleteWithHeartbeat (\<lambda>k. batch (fl k)) k d = Some (r, d') \<and> db_ok d' \<and>
     whole d' = whole d \<and> (r = Inr () \<longrightarrow> d' = whole d)"
proof (induction "left d" arbitrary: d k rule: less_induct)
  case less
  obtain res d1 where b: "batch (fl k) d = (res, d1)" by fastforce
  note ok = batch_ok[OF less.prems b] and same = batch_same[OF less.prems b]
  show ?case
  proof (cases res)
    case (Inl err)
    with b ok same show ?thesis by (simp add: batchDeleteWithHeartbeat.simps)
  next
    case (Inr n)
    show ?thesis
    proof (cases "n = 0")
      case True
      with b Inr have "batch (fl k) d = (Inr 0, d1)" by simp
      from batch_done[OF less.prems this] same have "d1 = whole d" by simp
      with b Inr True ok same show ?thesis by (simp add: batchDeleteWithHeartbeat.simps)
    next
      case False
      with b Inr have "left d1 < left d" using batch_less[OF less.prems] by blast
      from less.hyps[OF this ok, of "Suc k"] b Inr False same show ?thesis
        by (simp add: batchDeleteWithHeartbeat.simps[of _ k])
    qed
  qed
qed

lemma loop_succeeds:
  "db_ok d \<Longrightarrow> batchDeleteWithHeartbeat (\<lambda>k. batch no_faults) k d = Some (Inr (), whole d)"
proof (induction "left d" arbitrary: d k rule: less_induct)
  case less
  obtain n d1 where b: "batch no_faults d = (Inr n, d1)" using batch_runs by blast
  show ?case
  proof (cases "n = 0")
    case True
    with b have "batch no_faults d = (Inr 0, d1)" by simp
    from batch_done[OF less.prems this] batch_same[OF less.prems b] have "d1 = whole d" by simp
    with b True show ?thesis by (simp add: batchDeleteWithHeartbeat.simps)
  next
    case False
    have "left d1 < left d" by (rule batch_less[OF less.prems b False])
    from less.hyps[OF this batch_ok[OF less.prems b], of "Suc k"] b False batch_same[OF less.prems b]
    show ?thesis by (simp add: batchDeleteWithHeartbeat.simps[of _ k])
  qed
qed

end

section \<open>A batch of a table\<close>

text \<open>The rows with the keys of the first n rows selected.\<close>

definition chunk_keys :: "('r \<Rightarrow> 'k) \<Rightarrow> ('r \<Rightarrow> bool) \<Rightarrow> nat \<Rightarrow> 'r list \<Rightarrow> 'k list" where
  "chunk_keys key p n tbl = map key (take n (filter p tbl))"

lemma chunk_selected:
  assumes "unique_key key tbl"
  shows "filter p (delete_where (\<lambda>r. key r \<in> set (chunk_keys key p n tbl)) tbl) = drop n (filter p tbl)"
proof -
  let ?xs = "filter p tbl"
  have d: "distinct (map key ?xs)" using assms by (simp add: unique_key_def distinct_map_filter)
  have "filter p (delete_where (\<lambda>r. key r \<in> set (chunk_keys key p n tbl)) tbl)
      = filter (\<lambda>r. key r \<notin> key ` set (take n ?xs)) ?xs"
    by (simp add: delete_where_def chunk_keys_def conj_commute)
  also have "\<dots> = filter (\<lambda>r. key r \<notin> key ` set (take n ?xs)) (take n ?xs)
      @ filter (\<lambda>r. key r \<notin> key ` set (take n ?xs)) (drop n ?xs)"
    by (metis append_take_drop_id filter_append)
  also have "filter (\<lambda>r. key r \<notin> key ` set (take n ?xs)) (take n ?xs) = []"
    by (simp add: filter_empty_conv)
  also have "filter (\<lambda>r. key r \<notin> key ` set (take n ?xs)) (drop n ?xs) = drop n ?xs"
  proof -
    have "distinct (map key (take n ?xs) @ map key (drop n ?xs))"
      using d by (metis append_take_drop_id map_append)
    then have "key ` set (take n ?xs) \<inter> key ` set (drop n ?xs) = {}" by simp
    then show ?thesis by (auto simp: filter_id_conv)
  qed
  finally show ?thesis by simp
qed

lemma chunk_rest:
  assumes "unique_key key tbl"
  shows "delete_where p (delete_where (\<lambda>r. key r \<in> set (chunk_keys key p n tbl)) tbl) = delete_where p tbl"
proof -
  have "key r \<notin> set (chunk_keys key p n tbl)" if "r \<in> set tbl" "\<not> p r" for r
  proof
    assume "key r \<in> set (chunk_keys key p n tbl)"
    then obtain s where s: "s \<in> set (take n (filter p tbl))" "key s = key r" by (auto simp: chunk_keys_def)
    from in_set_takeD[OF s(1)] have "s \<in> set tbl" "p s" by auto
    with s(2) that show False using assms unfolding unique_key_def distinct_map inj_on_def by metis
  qed
  then show ?thesis by (auto simp: delete_where_def intro: filter_cong)
qed

lemma chunk_length:
  assumes "unique_key key tbl"
  shows "length (delete_where (\<lambda>r. key r \<in> set (chunk_keys key p n tbl)) tbl)
    = length tbl - min n (length (filter p tbl))"
proof -
  have split: "length t = length (filter p t) + length (delete_where p t)" for t
    using sum_length_filter_compl[of p t] by (simp add: delete_where_def)
  show ?thesis
    using split[of tbl] split[of "delete_where (\<lambda>r. key r \<in> set (chunk_keys key p n tbl)) tbl"]
    unfolding chunk_selected[OF assms] chunk_rest[OF assms] by simp
qed

lemma chunk_counts:
  fixes p :: "'r \<Rightarrow> bool"
  assumes "unique_key key tbl" "0 < n"
  defines "rest \<equiv> delete_where (\<lambda>r. key r \<in> set (chunk_keys key p n tbl)) tbl"
  shows "int (length tbl) - int (length rest) = 0 \<Longrightarrow> filter p rest = []"
    and "int (length tbl) - int (length rest) \<noteq> 0 \<Longrightarrow> length (filter p rest) < length (filter p tbl)"
  using assms(2) length_filter_le[of p tbl]
  unfolding rest_def chunk_length[OF assms(1)] chunk_selected[OF assms(1)] by auto

lemma nothing_selected: "filter p tbl = [] \<Longrightarrow> delete_where p tbl = tbl"
  by (simp add: delete_where_def filter_empty_conv filter_id_conv)

text \<open>The keys of a batch and of what is left of the selected rows are those selected.\<close>

lemma chunk_keys_rest:
  assumes "unique_key key tbl"
  shows "set (chunk_keys key p n tbl)
    \<union> key ` {r \<in> set (delete_where (\<lambda>r. key r \<in> set (chunk_keys key p n tbl)) tbl). p r} = key ` {r \<in> set tbl. p r}"
proof -
  have "{r \<in> set (delete_where (\<lambda>r. key r \<in> set (chunk_keys key p n tbl)) tbl). p r}
      = set (drop n (filter p tbl))"
    using chunk_selected[OF assms, of p n] by (metis set_filter)
  moreover have "set (take n (filter p tbl)) \<union> set (drop n (filter p tbl)) = {r \<in> set tbl. p r}"
    by (metis append_take_drop_id set_append set_filter)
  ultimately show ?thesis by (simp add: chunk_keys_def image_Un[symmetric])
qed

lemma delete_where_or: "delete_where p (delete_where q tbl) = delete_where (\<lambda>r. q r \<or> p r) tbl"
  by (simp add: delete_where_def conj_commute)

section \<open>The five batched deletions\<close>

definition events_batch :: "ConnectorID \<Rightarrow> faults \<Rightarrow> (db, int) tx" where
  "events_batch c fl = EventsSentDeleteFromConnectorIDBatch fl c batchSize"

definition schedules_batch :: "ConnectorID \<Rightarrow> faults \<Rightarrow> (db, int) tx" where
  "schedules_batch c fl = SchedulesDeleteFromConnectorIDBatch fl c batchSize"

definition instances_batch :: "ConnectorID \<Rightarrow> faults \<Rightarrow> (db, int) tx" where
  "instances_batch c fl = InstancesDeleteFromConnectorIDBatch fl c batchSize"

definition accounts_batch :: "ConnectorID \<Rightarrow> faults \<Rightarrow> (db, int) tx" where
  "accounts_batch c fl = AccountsDeleteFromConnectorIDBatch fl c batchSize"

definition payments_batch :: "ConnectorID \<Rightarrow> faults \<Rightarrow> (db, int) tx" where
  "payments_batch c fl = PaymentsDeleteFromConnectorIDBatch fl c batchSize"

lemma batch_sizes: "\<not> batchSize \<le> 0" "nat batchSize = 1000"
  by (simp_all add: batchSize_def)

text \<open>
  A batch that deletes the first selected rows of a table, by key, and reports how
  many rows went, is a deletion by batches.
\<close>

locale table_batch =
  fixes batch :: "faults \<Rightarrow> (db, int) tx" and whole :: "db \<Rightarrow> db"
    and tbl :: "db \<Rightarrow> 'r list" and key :: "'r \<Rightarrow> 'k" and sel :: "'r \<Rightarrow> bool"
  assumes table_keys: "db_ok d \<Longrightarrow> unique_key key (tbl d)"
    and table_ok: "db_ok d \<Longrightarrow> batch fl d = (r, d') \<Longrightarrow> db_ok d'"
    and table_same: "db_ok d \<Longrightarrow> batch fl d = (r, d') \<Longrightarrow> whole d' = whole d"
    and table_rows: "db_ok d \<Longrightarrow> batch fl d = (Inr n, d') \<Longrightarrow>
      tbl d' = delete_where (\<lambda>r. key r \<in> set (chunk_keys key sel 1000 (tbl d))) (tbl d) \<and>
      n = int (length (tbl d)) - int (length (tbl d'))"
    and table_done: "db_ok d \<Longrightarrow> filter sel (tbl d) = [] \<Longrightarrow> whole d = d"
    and table_runs: "\<exists>n d'. batch no_faults d = (Inr n, d')"
begin

lemma rows_left:
  assumes "db_ok d" "batch fl d = (Inr n, d')"
  shows "n = 0 \<Longrightarrow> filter sel (tbl d') = []"
    and "n \<noteq> 0 \<Longrightarrow> length (filter sel (tbl d')) < length (filter sel (tbl d))"
  using chunk_counts[OF table_keys[OF assms(1)], of 1000 sel] table_rows[OF assms] by auto

end

sublocale table_batch \<subseteq> batched_deletion batch whole "\<lambda>d. length (filter sel (tbl d))"
proof unfold_locales
  show "db_ok d'" if "db_ok d" "batch fl d = (r, d')" for d fl r d' by (rule table_ok[OF that])
  show "whole d' = whole d" if "db_ok d" "batch fl d = (r, d')" for d fl r d' by (rule table_same[OF that])
  show "length (filter sel (tbl d')) < length (filter sel (tbl d))"
    if "db_ok d" "batch fl d = (Inr n, d')" "n \<noteq> 0" for d fl n d'
    using rows_left(2)[OF that(1,2)] that(3) by blast
  show "whole d' = d'" if "db_ok d" "batch fl d = (Inr 0, d')" for d fl d'
    using table_done[OF table_ok[OF that]] rows_left(1)[OF that] by blast
  show "\<exists>n d'. batch no_faults d = (Inr n, d')" for d by (rule table_runs)
qed

text \<open>Events, accounts and instances: no other table is concerned.\<close>

definition without_events :: "ConnectorID \<Rightarrow> db \<Rightarrow> db" where
  "without_events c d = d\<lparr>events_sent := delete_where (\<lambda>r. sent_connector_id r = Some c) (events_sent d)\<rparr>"

interpretation events_deletion: table_batch "events_batch c" "without_events c" events_sent sent_id
  "\<lambda>r. sent_connector_id r = Some c" for c
proof unfold_locales
  fix d assume ok: "db_ok d"
  show "unique_key sent_id (events_sent d)" by (intro db_okD ok)
  fix fl r d' assume b: "events_batch c fl d = (r, d')"
  show "db_ok d'" using keepsD[OF keeps_EventsSentDelete(2) ok] b unfolding events_batch_def by blast
  show "without_events c d' = without_events c d"
    using b by (auto simp: events_batch_def EventsSentDeleteFromConnectorIDBatch_def batch_sizes stmt_def Let_def
        without_events_def chunk_keys_def[symmetric] chunk_rest[OF db_okD(23)[OF ok]] split: option.splits)
qed (auto simp: events_batch_def EventsSentDeleteFromConnectorIDBatch_def batch_sizes chunk_keys_def Let_def
      without_events_def nothing_selected)

definition without_accounts :: "ConnectorID \<Rightarrow> db \<Rightarrow> db" where
  "without_accounts c d = d\<lparr>accounts := delete_where (\<lambda>r. account_connector_id r = c) (accounts d)\<rparr>"

interpretation accounts_deletion: table_batch "accounts_batch c" "without_accounts c" accounts account_id
  "\<lambda>r. account_connector_id r = c" for c
proof unfold_locales
  fix d assume ok: "db_ok d"
  show "unique_key account_id (accounts d)" by (intro db_okD ok)
  fix fl r d' assume b: "accounts_batch c fl d = (r, d')"
  show "db_ok d'" using keepsD[OF keeps_AccountsDeleteBatch ok] b unfolding accounts_batch_def by blast
  show "without_accounts c d' = without_accounts c d"
    using b by (auto simp: accounts_batch_def AccountsDeleteFromConnectorIDBatch_def batch_sizes stmt_def Let_def
        without_accounts_def chunk_keys_def[symmetric] chunk_rest[OF db_okD(3)[OF ok]] split: option.splits)
qed (auto simp: accounts_batch_def AccountsDeleteFromConnectorIDBatch_def batch_sizes chunk_keys_def Let_def
      without_accounts_def nothing_selected)

definition without_instances :: "ConnectorID \<Rightarrow> db \<Rightarrow> db" where
  "without_instances c d =
     d\<lparr>workflow_instances := delete_where (\<lambda>r. instance_connector_id r = c) (workflow_instances d)\<rparr>"

interpretation instances_deletion: table_batch "instances_batch c" "without_instances c" workflow_instances
  instance_key "\<lambda>r. instance_connector_id r = c" for c
proof unfold_locales
  fix d assume ok: "db_ok d"
  show "unique_key instance_key (workflow_instances d)" by (intro db_okD ok)
  fix fl r d' assume b: "instances_batch c fl d = (r, d')"
  show "db_ok d'" using keepsD[OF keeps_InstancesDeleteBatch ok] b unfolding instances_batch_def by blast
  show "without_instances c d' = without_instances c d"
    using b by (auto simp: instances_batch_def InstancesDeleteFromConnectorIDBatch_def batch_sizes stmt_def Let_def
        tx_bind_def without_instances_def chunk_keys_def[symmetric] chunk_rest[OF db_okD(18)[OF ok]]
        split: option.splits if_splits)
qed (auto simp: instances_batch_def InstancesDeleteFromConnectorIDBatch_def batch_sizes chunk_keys_def Let_def
      tx_bind_def stmt_def no_faults_def without_instances_def nothing_selected split: option.splits)

text \<open>Payments with their adjustments, schedules with their instances.\<close>

definition without_payments :: "ConnectorID \<Rightarrow> db \<Rightarrow> db" where
  "without_payments c d = delete_payments (\<lambda>r. payment_connector_id r = c) d"

lemma delete_payments_by_key:
  "delete_payments p d = d\<lparr>payments := delete_where p (payments d),
     payment_adjustments := delete_where (\<lambda>a. pa_payment_id a \<in> payment_id ` {r \<in> set (payments d). p r})
       (payment_adjustments d)\<rparr>"
  by (simp add: delete_payments_def Let_def has_key_iff)

lemma chunk_rows:
  "key ` {r \<in> set tbl. key r \<in> set (chunk_keys key p n tbl)} = set (chunk_keys key p n tbl)"
proof -
  have "k \<in> key ` set tbl" if "k \<in> set (chunk_keys key p n tbl)" for k
    using that set_take_subset[of n "filter p tbl"] by (auto simp: chunk_keys_def)
  then show ?thesis by force
qed

lemma delete_where_keys:
  "delete_where (\<lambda>a. f a \<in> A) (delete_where (\<lambda>a. f a \<in> B) tbl) = delete_where (\<lambda>a. f a \<in> B \<union> A) tbl"
  by (simp add: delete_where_or)

lemma delete_payments_chunk:
  assumes "unique_key payment_id (payments d)"
  shows "delete_payments p (delete_payments (\<lambda>r. payment_id r \<in> set (chunk_keys payment_id p n (payments d))) d)
    = delete_payments p d"
proof -
  let ?K = "set (chunk_keys payment_id p n (payments d))"
  let ?T = "delete_where (\<lambda>r. payment_id r \<in> ?K) (payments d)"
  have one: "delete_payments (\<lambda>r. payment_id r \<in> ?K) d = d\<lparr>payments := ?T,
      payment_adjustments := delete_where (\<lambda>a. pa_payment_id a \<in> ?K) (payment_adjustments d)\<rparr>"
    unfolding delete_payments_by_key by (simp only: chunk_rows)
  have "delete_where (\<lambda>a. pa_payment_id a \<in> payment_id ` {r \<in> set ?T. p r})
      (delete_where (\<lambda>a. pa_payment_id a \<in> ?K) (payment_adjustments d))
    = delete_where (\<lambda>a. pa_payment_id a \<in> payment_id ` {r \<in> set (payments d). p r}) (payment_adjustments d)"
    unfolding delete_where_keys by (simp only: chunk_keys_rest[OF assms])
  then show ?thesis
    unfolding one unfolding delete_payments_by_key using chunk_rest[OF assms, of p n] by simp
qed

lemma payments_left: "payments (delete_payments p d) = delete_where p (payments d)"
  by (simp add: delete_payments_def Let_def)

lemma delete_no_payments: "filter p (payments d) = [] \<Longrightarrow> delete_payments p d = d"
  by (simp add: delete_payments_def nothing_selected)

interpretation payments_deletion: table_batch "payments_batch c" "without_payments c" payments payment_id
  "\<lambda>r. payment_connector_id r = c" for c
proof unfold_locales
  fix d assume ok: "db_ok d"
  show "unique_key payment_id (payments d)" by (intro db_okD ok)
  fix fl r d' assume b: "payments_batch c fl d = (r, d')"
  show "db_ok d'" using keepsD[OF keeps_PaymentsDeleteBatch ok] b unfolding payments_batch_def by blast
  show "without_payments c d' = without_payments c d"
    using b by (auto simp: payments_batch_def PaymentsDeleteFromConnectorIDBatch_def batch_sizes stmt_def Let_def
        without_payments_def chunk_keys_def[symmetric] delete_payments_chunk[OF db_okD(5)[OF ok]]
        split: option.splits)
qed (auto simp: payments_batch_def PaymentsDeleteFromConnectorIDBatch_def batch_sizes chunk_keys_def Let_def
      without_payments_def delete_no_payments payments_left)


definition without_schedules :: "ConnectorID \<Rightarrow> db \<Rightarrow> db" where
  "without_schedules c d = remove_schedules (\<lambda>r. schedule_connector_id r = c) d"

lemma remove_schedules_chunk:
  assumes "unique_key schedule_key (schedules d)"
  shows "remove_schedules p (remove_schedules (\<lambda>r. schedule_key r \<in> set (chunk_keys schedule_key p n (schedules d))) d)
    = remove_schedules p d"
proof -
  let ?K = "set (chunk_keys schedule_key p n (schedules d))"
  let ?T = "delete_where (\<lambda>r. schedule_key r \<in> ?K) (schedules d)"
  have one: "remove_schedules (\<lambda>r. schedule_key r \<in> ?K) d = d\<lparr>schedules := ?T,
      workflow_instances := delete_where (\<lambda>r. (instance_schedule_id r, instance_connector_id r) \<in> ?K)
        (workflow_instances d)\<rparr>"
    unfolding remove_schedules_def Let_def by (simp only: chunk_rows)
  have "delete_where (\<lambda>r. (instance_schedule_id r, instance_connector_id r) \<in> schedule_key ` {r \<in> set ?T. p r})
      (delete_where (\<lambda>r. (instance_schedule_id r, instance_connector_id r) \<in> ?K) (workflow_instances d))
    = delete_where (\<lambda>r. (instance_schedule_id r, instance_connector_id r)
        \<in> schedule_key ` {r \<in> set (schedules d). p r}) (workflow_instances d)"
    unfolding delete_where_keys by (simp only: chunk_keys_rest[OF assms])
  then show ?thesis
    unfolding one unfolding remove_schedules_def Let_def using chunk_rest[OF assms, of p n] by simp
qed

lemma schedules_left: "schedules (remove_schedules p d) = delete_where p (schedules d)"
  by (simp add: remove_schedules_def Let_def)

lemma remove_no_schedules:
  assumes "filter p (schedules d) = []"
  shows "remove_schedules p d = d"
proof -
  have none: "{r \<in> set (schedules d). p r} = {}" using assms unfolding filter_empty_conv by blast
  show ?thesis
    unfolding remove_schedules_def Let_def none nothing_selected[OF assms] by (simp add: delete_where_def)
qed

interpretation schedules_deletion: table_batch "schedules_batch c" "without_schedules c" schedules schedule_key
  "\<lambda>r. schedule_connector_id r = c" for c
proof unfold_locales
  fix d assume ok: "db_ok d"
  show "unique_key schedule_key (schedules d)" by (intro db_okD ok)
  fix fl r d' assume b: "schedules_batch c fl d = (r, d')"
  show "db_ok d'" using keepsD[OF keeps_SchedulesDelete(3) ok] b unfolding schedules_batch_def by blast
  show "without_schedules c d' = without_schedules c d"
    using b by (auto simp: schedules_batch_def SchedulesDeleteFromConnectorIDBatch_def batch_sizes stmt_def Let_def
        tx_bind_def without_schedules_def chunk_keys_def[symmetric] remove_schedules_chunk[OF db_okD(16)[OF ok]]
        split: option.splits if_splits)
qed (auto simp: schedules_batch_def SchedulesDeleteFromConnectorIDBatch_def batch_sizes chunk_keys_def Let_def
      tx_bind_def stmt_def no_faults_def without_schedules_def remove_no_schedules schedules_left split: option.splits)

end
