(* ===== verification/Uninstall_Workflow.thy ===== *)
theory Uninstall_Workflow
  imports Batch_Delete
begin

text \<open>
  internal/connectors/engine/workflow/uninstall_connector.go: the goroutines that
  delete the rows of a connector, each an activity that Temporal repeats, run in
  any order and any number of times; then the connector itself is deleted.
\<close>

section \<open>Activities\<close>

definition StorageEventsSentDelete :: "(nat \<Rightarrow> faults) \<Rightarrow> ConnectorID \<Rightarrow> db \<Rightarrow> (unit result \<times> db) option" where
  "StorageEventsSentDelete fl connectorID =
     batchDeleteWithHeartbeat (\<lambda>k. events_batch connectorID (fl k)) 0"

definition StorageSchedulesDeleteFromConnectorID ::
  "(nat \<Rightarrow> faults) \<Rightarrow> ConnectorID \<Rightarrow> db \<Rightarrow> (unit result \<times> db) option" where
  "StorageSchedulesDeleteFromConnectorID fl connectorID =
     batchDeleteWithHeartbeat (\<lambda>k. schedules_batch connectorID (fl k)) 0"

definition StorageInstancesDelete :: "(nat \<Rightarrow> faults) \<Rightarrow> ConnectorID \<Rightarrow> db \<Rightarrow> (unit result \<times> db) option" where
  "StorageInstancesDelete fl connectorID =
     batchDeleteWithHeartbeat (\<lambda>k. instances_batch connectorID (fl k)) 0"

definition StorageAccountsDeleteFromConnectorID ::
  "(nat \<Rightarrow> faults) \<Rightarrow> ConnectorID \<Rightarrow> db \<Rightarrow> (unit result \<times> db) option" where
  "StorageAccountsDeleteFromConnectorID fl connectorID =
     batchDeleteWithHeartbeat (\<lambda>k. accounts_batch connectorID (fl k)) 0"

definition StoragePaymentsDeleteFromConnectorID ::
  "(nat \<Rightarrow> faults) \<Rightarrow> ConnectorID \<Rightarrow> db \<Rightarrow> (unit result \<times> db) option" where
  "StoragePaymentsDeleteFromConnectorID fl connectorID =
     batchDeleteWithHeartbeat (\<lambda>k. payments_batch connectorID (fl k)) 0"

definition StorageConnectortTasksTreeDelete :: "faults \<Rightarrow> ConnectorID \<Rightarrow> db \<Rightarrow> (unit result \<times> db) option" where
  "StorageConnectortTasksTreeDelete fl connectorID =
     storage_activity (ConnectorTasksTreeDeleteFromConnectorID fl connectorID)"

definition StorageTasksDeleteFromConnectorID :: "faults \<Rightarrow> ConnectorID \<Rightarrow> db \<Rightarrow> (unit result \<times> db) option" where
  "StorageTasksDeleteFromConnectorID fl connectorID =
     storage_activity (TasksDeleteFromConnectorID fl connectorID)"

definition StorageBankAccountsDeleteRelatedAccounts ::
  "faults \<Rightarrow> ConnectorID \<Rightarrow> db \<Rightarrow> (unit result \<times> db) option" where
  "StorageBankAccountsDeleteRelatedAccounts fl connectorID =
     storage_activity (BankAccountsDeleteRelatedAccountFromConnectorID fl connectorID)"

definition StorageStatesDelete :: "faults \<Rightarrow> ConnectorID \<Rightarrow> db \<Rightarrow> (unit result \<times> db) option" where
  "StorageStatesDelete fl connectorID = storage_activity (StatesDeleteFromConnectorID fl connectorID)"

definition StorageWebhooksConfigsDelete :: "faults \<Rightarrow> ConnectorID \<Rightarrow> db \<Rightarrow> (unit result \<times> db) option" where
  "StorageWebhooksConfigsDelete fl connectorID =
     storage_activity (WebhooksConfigsDeleteFromConnectorID fl connectorID)"

definition StorageWebhooksDelete :: "faults \<Rightarrow> ConnectorID \<Rightarrow> db \<Rightarrow> (unit result \<times> db) option" where
  "StorageWebhooksDelete fl connectorID = storage_activity (WebhooksDeleteFromConnectorID fl connectorID)"

definition StoragePoolsRemoveAccountsFromConnectorID ::
  "faults \<Rightarrow> ConnectorID \<Rightarrow> db \<Rightarrow> (unit result \<times> db) option" where
  "StoragePoolsRemoveAccountsFromConnectorID fl connectorID =
     storage_activity (PoolsRemoveAccountsFromConnectorID fl connectorID)"

definition StorageConnectorsDelete :: "faults \<Rightarrow> ConnectorID \<Rightarrow> db \<Rightarrow> (unit result \<times> db) option" where
  "StorageConnectorsDelete fl connectorID = storage_activity (ConnectorsUninstall fl connectorID)"

section \<open>The workflow\<close>

text \<open>The goroutines of uninstallConnector; the first calls the plugin.\<close>

datatype goroutine =
    UninstallPlugin | DeleteEventsSent | DeleteSchedules | DeleteInstances | DeleteTasksTree | DeleteTasks
  | DeleteRelatedAccounts | DeleteAccounts | DeletePayments | DeleteStates | DeleteWebhooksConfigs
  | DeleteWebhooks | RemovePoolAccounts

text \<open>One attempt at its activity: the faults of its statements, the answer of the plugin.\<close>

fun attempt ::
  "goroutine \<Rightarrow> (nat \<Rightarrow> faults) \<Rightarrow> unit result \<Rightarrow> ConnectorID \<Rightarrow> db \<Rightarrow> (unit result \<times> db) option" where
  "attempt UninstallPlugin fl answer c d = Some (answer, d)"
| "attempt DeleteEventsSent fl answer c d = StorageEventsSentDelete fl c d"
| "attempt DeleteSchedules fl answer c d = StorageSchedulesDeleteFromConnectorID fl c d"
| "attempt DeleteInstances fl answer c d = StorageInstancesDelete fl c d"
| "attempt DeleteTasksTree fl answer c d = StorageConnectortTasksTreeDelete (fl 0) c d"
| "attempt DeleteTasks fl answer c d = StorageTasksDeleteFromConnectorID (fl 0) c d"
| "attempt DeleteRelatedAccounts fl answer c d = StorageBankAccountsDeleteRelatedAccounts (fl 0) c d"
| "attempt DeleteAccounts fl answer c d = StorageAccountsDeleteFromConnectorID fl c d"
| "attempt DeletePayments fl answer c d = StoragePaymentsDeleteFromConnectorID fl c d"
| "attempt DeleteStates fl answer c d = StorageStatesDelete (fl 0) c d"
| "attempt DeleteWebhooksConfigs fl answer c d = StorageWebhooksConfigsDelete (fl 0) c d"
| "attempt DeleteWebhooks fl answer c d = StorageWebhooksDelete (fl 0) c d"
| "attempt RemovePoolAccounts fl answer c d = StoragePoolsRemoveAccountsFromConnectorID (fl 0) c d"

text \<open>
  The goroutines that have not answered, the errors on the channel, the
  database.  An attempt that fails is repeated unless its error is not retryable.
\<close>

type_synonym uninstalling = "goroutine set \<times> error list \<times> db"

inductive uninstall_step :: "ConnectorID \<Rightarrow> uninstalling \<Rightarrow> uninstalling \<Rightarrow> bool" where
  answered: "x \<in> P \<Longrightarrow> attempt x fl answer c d = Some (Inr (), d') \<Longrightarrow>
    uninstall_step c (P, es, d) (P - {x}, es, d')"
| repeated: "x \<in> P \<Longrightarrow> attempt x fl answer c d = Some (Inl err, d') \<Longrightarrow> \<not> non_retryable err \<Longrightarrow>
    uninstall_step c (P, es, d) (P, es, d')"
| refused: "x \<in> P \<Longrightarrow> attempt x fl answer c d = Some (Inl err, d') \<Longrightarrow> non_retryable err \<Longrightarrow>
    uninstall_step c (P, es, d) (P - {x}, es @ [err], d')"

text \<open>
  The run from the start of the goroutines to the end of uninstallConnector:
  the first error of the channel, or the outcome of deleting the connector, once
  it is not repeated.
\<close>

inductive uninstall_run :: "ConnectorID \<Rightarrow> db \<Rightarrow> unit result \<Rightarrow> db \<Rightarrow> bool" where
  failed: "(uninstall_step c)\<^sup>*\<^sup>* (UNIV, [], d) ({}, err # es, d') \<Longrightarrow> uninstall_run c d (Inl err) d'"
| last: "(uninstall_step c)\<^sup>*\<^sup>* (UNIV, [], d) ({}, [], d1) \<Longrightarrow>
    StorageConnectorsDelete fl c d1 = Some (res, d') \<Longrightarrow> \<forall>err. res = Inl err \<longrightarrow> non_retryable err \<Longrightarrow>
    uninstall_run c d res d'"

section \<open>What an attempt does\<close>

text \<open>The rows a goroutine deletes, all at once.\<close>

fun effect :: "goroutine \<Rightarrow> ConnectorID \<Rightarrow> db \<Rightarrow> db" where
  "effect UninstallPlugin c d = d"
| "effect DeleteEventsSent c d = without_events c d"
| "effect DeleteSchedules c d = without_schedules c d"
| "effect DeleteInstances c d = without_instances c d"
| "effect DeleteTasksTree c d =
     d\<lparr>connector_tasks_tree := delete_where (\<lambda>r. tt_connector_id r = c) (connector_tasks_tree d)\<rparr>"
| "effect DeleteTasks c d = d\<lparr>tasks := delete_where (\<lambda>r. task_connector_id r = Some c) (tasks d)\<rparr>"
| "effect DeleteRelatedAccounts c d =
     d\<lparr>bank_account_relations := delete_where (\<lambda>r. bar_connector_id r = c) (bank_account_relations d)\<rparr>"
| "effect DeleteAccounts c d = without_accounts c d"
| "effect DeletePayments c d = without_payments c d"
| "effect DeleteStates c d = d\<lparr>states := delete_where (\<lambda>r. state_connector_id r = c) (states d)\<rparr>"
| "effect DeleteWebhooksConfigs c d =
     d\<lparr>webhooks_configs := delete_where (\<lambda>r. wc_connector_id r = c) (webhooks_configs d)\<rparr>"
| "effect DeleteWebhooks c d = d\<lparr>webhooks := delete_where (\<lambda>r. wh_connector_id r = c) (webhooks d)\<rparr>"
| "effect RemovePoolAccounts c d =
     d\<lparr>pool_accounts := delete_where (\<lambda>r. pac_connector_id r = c) (pool_accounts d)\<rparr>"

lemma storage_activity_modify:
  "storage_activity (stmt fl msg (tx_modify f)) d = Some (r, d') \<Longrightarrow>
   r = Inr () \<and> d' = f d \<or> (\<exists>e. r = Inl e) \<and> d' = d"
  by (cases "fl msg") (auto simp: storage_activity_def stmt_def)

lemma attempt_batched:
  assumes ok: "db_ok d" and a: "attempt x fl answer c d = Some (r, d')"
    and x: "x \<in> {DeleteEventsSent, DeleteSchedules, DeleteInstances, DeleteAccounts, DeletePayments}"
  shows "db_ok d' \<and> effect x c d' = effect x c d \<and> (r = Inr () \<longrightarrow> d' = effect x c d)"
proof -
  consider "x = DeleteEventsSent" | "x = DeleteSchedules" | "x = DeleteInstances" | "x = DeleteAccounts"
    | "x = DeletePayments" using x by blast
  then show ?thesis
  proof cases
    case 1
    with a events_deletion.loop_ends[OF ok, of c fl 0] show ?thesis by (simp add: StorageEventsSentDelete_def)
  next
    case 2
    with a schedules_deletion.loop_ends[OF ok, of c fl 0] show ?thesis
      by (simp add: StorageSchedulesDeleteFromConnectorID_def)
  next
    case 3
    with a instances_deletion.loop_ends[OF ok, of c fl 0] show ?thesis by (simp add: StorageInstancesDelete_def)
  next
    case 4
    with a accounts_deletion.loop_ends[OF ok, of c fl 0] show ?thesis
      by (simp add: StorageAccountsDeleteFromConnectorID_def)
  next
    case 5
    with a payments_deletion.loop_ends[OF ok, of c fl 0] show ?thesis
      by (simp add: StoragePaymentsDeleteFromConnectorID_def)
  qed
qed

lemmas single_deletions =
  StorageConnectortTasksTreeDelete_def StorageTasksDeleteFromConnectorID_def
  StorageBankAccountsDeleteRelatedAccounts_def StorageStatesDelete_def StorageWebhooksConfigsDelete_def
  StorageWebhooksDelete_def StoragePoolsRemoveAccountsFromConnectorID_def
  ConnectorTasksTreeDeleteFromConnectorID_def TasksDeleteFromConnectorID_def
  BankAccountsDeleteRelatedAccountFromConnectorID_def StatesDeleteFromConnectorID_def
  WebhooksConfigsDeleteFromConnectorID_def WebhooksDeleteFromConnectorID_def
  PoolsRemoveAccountsFromConnectorID_def

lemma attempt_single:
  assumes "attempt x fl answer c d = Some (r, d')"
    "x \<notin> {DeleteEventsSent, DeleteSchedules, DeleteInstances, DeleteAccounts, DeletePayments}"
  shows "r = Inr () \<and> d' = effect x c d \<or> (\<exists>e. r = Inl e) \<and> d' = d"
proof (cases "x = UninstallPlugin")
  case True
  with assms(1) show ?thesis by (cases r) auto
next
  case False
  show ?thesis
    using False assms
    by (cases x) (simp_all only: attempt.simps effect.simps single_deletions,
        (drule storage_activity_modify | blast)+)
qed

lemma delete_where_twice [simp]: "delete_where p (delete_where p tbl) = delete_where p tbl"
  by (simp add: delete_where_def)

lemma effect_twice: "x \<notin> {DeleteSchedules, DeletePayments} \<Longrightarrow> effect x c (effect x c d) = effect x c d"
  by (cases x) (simp_all add: without_events_def without_instances_def without_accounts_def)

lemma db_ok_effect:
  assumes "db_ok d" "x \<notin> {DeleteEventsSent, DeleteSchedules, DeleteInstances, DeleteAccounts, DeletePayments}"
  shows "db_ok (effect x c d)"
  using assms by (cases x) (auto intro!: db_ok_connector_tasks_tree db_ok_tasks db_ok_bank_account_relations
      db_ok_states db_ok_webhooks_configs db_ok_webhooks db_ok_pool_accounts webhook_keys_apart_delete
      table_rules db_okD)

lemma attempt_effect:
  assumes "db_ok d" "attempt x fl answer c d = Some (r, d')"
  shows "db_ok d' \<and> effect x c d' = effect x c d \<and> (r = Inr () \<longrightarrow> d' = effect x c d)"
proof (cases "x \<in> {DeleteEventsSent, DeleteSchedules, DeleteInstances, DeleteAccounts, DeletePayments}")
  case True
  then show ?thesis by (rule attempt_batched[OF assms])
next
  case False
  then have "effect x c (effect x c d) = effect x c d" by (intro effect_twice) auto
  with attempt_single[OF assms(2) False] db_ok_effect[OF assms(1) False, of c] assms(1)
  show ?thesis by auto
qed

section \<open>What a run leaves\<close>

text \<open>The rows of the pools deleted, then the connector with all that refers to it.\<close>

definition uninstalled :: "ConnectorID \<Rightarrow> db \<Rightarrow> db" where
  "uninstalled c d = snd (ConnectorsUninstall no_faults c (effect RemovePoolAccounts c d))"

lemma uninstalled_eq: "uninstalled c d =
  (cascade_connector c (d\<lparr>pool_accounts := delete_where (\<lambda>r. pac_connector_id r = c) (pool_accounts d)\<rparr>))
     \<lparr>connectors := delete_where (\<lambda>r. connector_id r = c) (connectors d)\<rparr>"
  by (simp add: uninstalled_def ConnectorsUninstall_def stmt_def no_faults_def)

lemma delete_where_around [simp]:
  "delete_where p (delete_where q (delete_where p tbl)) = delete_where p (delete_where q tbl)"
  by (simp add: delete_where_def) (rule filter_cong, auto)

lemma filter_deleted [simp]: "filter p (delete_where p tbl) = []" "{r \<in> set (delete_where p tbl). p r} = {}"
  by (auto simp: delete_where_def filter_empty_conv)

lemma delete_nothing [simp]: "delete_where (\<lambda>_. False) tbl = tbl"
  by (simp add: delete_where_def)

text \<open>Each table of what is left, from the tables of the start.\<close>

lemma uninstalled_tables:
  "uninstalled c d =
     d\<lparr>pool_accounts := delete_where (\<lambda>r. pac_connector_id r = c) (pool_accounts d),
     payments := delete_where (\<lambda>r. payment_connector_id r = c) (payments d),
     payment_adjustments := delete_where (\<lambda>a. has_key payment_id (pa_payment_id a) (filter (\<lambda>r.
       payment_connector_id r = c) (payments d))) (payment_adjustments d),
     payment_initiations := delete_where (\<lambda>r. pi_connector_id r = c) (payment_initiations d),
     pi_related_payments := delete_where (\<lambda>r. pirp_payment_initiation_id r \<in> pi_id ` {r \<in> set
       (payment_initiations d). pi_connector_id r = c}) (pi_related_payments d),
     pi_adjustments := delete_where (\<lambda>r. pia_payment_initiation_id r \<in> pi_id ` {r \<in> set
       (payment_initiations d). pi_connector_id r = c}) (pi_adjustments d),
     pi_reversal_adjustments := delete_where (\<lambda>r. pira_payment_initiation_reversal_id r \<in> pir_id `
       {r \<in> set (pi_reversals d). pir_payment_initiation_id r \<notin> pi_id ` {r \<in> set
       (payment_initiations d). pi_connector_id r = c} \<and> pir_connector_id r = c}) (delete_where
       (\<lambda>r. pira_payment_initiation_reversal_id r \<in> pir_id ` {r \<in> set (pi_reversals d).
       pir_payment_initiation_id r \<in> pi_id ` {r \<in> set (payment_initiations d). pi_connector_id r = c}})
       (pi_reversal_adjustments d)),
     pi_reversals := delete_where (\<lambda>r. pir_connector_id r = c) (delete_where (\<lambda>r.
       pir_payment_initiation_id r \<in> pi_id ` {r \<in> set (payment_initiations d). pi_connector_id r = c})
       (pi_reversals d)),
     schedules := delete_where (\<lambda>r. schedule_connector_id r = c) (schedules d),
     orders := delete_where (\<lambda>r. order_connector_id r = c) (orders d),
     order_adjustments := delete_where (\<lambda>a. oa_order_id a \<in> order_id ` {r \<in> set (orders d).
       order_connector_id r = c}) (order_adjustments d),
     accounts := delete_where (\<lambda>r. account_connector_id r = c) (accounts d),
     balances := delete_where (\<lambda>r. balance_connector_id r = c) (balances d),
     tasks := delete_where (\<lambda>r. task_connector_id r = Some c) (tasks d),
     states := delete_where (\<lambda>r. state_connector_id r = c) (states d),
     workflow_instances := delete_where (\<lambda>r. instance_connector_id r = c) (delete_where (\<lambda>r.
       (instance_schedule_id r, instance_connector_id r) \<in> schedule_key ` {r \<in> set (schedules d).
       schedule_connector_id r = c}) (workflow_instances d)),
     conversions := delete_where (\<lambda>r. conversion_connector_id r = c) (conversions d),
     outbox_events := delete_where (\<lambda>r. outbox_connector_id r = Some c) (outbox_events d),
     events_sent := delete_where (\<lambda>r. sent_connector_id r = Some c) (events_sent d),
     bank_account_relations := delete_where (\<lambda>r. bar_connector_id r = c) (bank_account_relations d),
     ob_attempts := delete_where (\<lambda>r. oba_connector_id r = c) (ob_attempts d),
     ob_forwarded_users := delete_where (\<lambda>r. obf_connector_id r = c) (ob_forwarded_users d),
     ob_connections := delete_where (\<lambda>r. obc_connector_id r = c) (ob_connections d),
     ob_tokens := delete_where (\<lambda>r. obt_connector_id r = c) (ob_tokens d),
     webhooks_configs := delete_where (\<lambda>r. wc_connector_id r = c) (webhooks_configs d),
     webhooks := delete_where (\<lambda>r. wh_connector_id r = c) (webhooks d),
     connector_tasks_tree := delete_where (\<lambda>r. tt_connector_id r = c) (connector_tasks_tree d),
     connectors := delete_where (\<lambda>r. connector_id r = c) (connectors d)\<rparr>"
  by (simp only: uninstalled_eq) (simp add: cascade_connector_def removals Let_def)

lemma effect_uninstalled: "uninstalled c (effect x c d) = uninstalled c d"
  by (cases x) (simp_all add: uninstalled_tables without_events_def without_accounts_def without_instances_def
      without_schedules_def without_payments_def delete_payments_def remove_schedules_def Let_def)

lemma attempt_uninstalled:
  assumes "db_ok d" "attempt x fl answer c d = Some (r, d')"
  shows "db_ok d' \<and> uninstalled c d' = uninstalled c d"
  using attempt_effect[OF assms] effect_uninstalled by metis

text \<open>The accounts of the pools are touched by their own goroutine only.\<close>

definition no_pool_accounts :: "ConnectorID \<Rightarrow> db \<Rightarrow> bool" where
  "no_pool_accounts c d \<longleftrightarrow> (\<forall>r\<in>set (pool_accounts d). pac_connector_id r \<noteq> c)"

lemma effect_pool_accounts: "x \<noteq> RemovePoolAccounts \<Longrightarrow> pool_accounts (effect x c d) = pool_accounts d"
  by (cases x) (simp_all add: without_events_def without_accounts_def without_instances_def without_schedules_def
      without_payments_def removals Let_def)

lemma attempt_pool_accounts:
  assumes "db_ok d" "attempt x fl answer c d = Some (r, d')"
  shows "no_pool_accounts c d \<Longrightarrow> no_pool_accounts c d'"
    and "x = RemovePoolAccounts \<Longrightarrow> r = Inr () \<Longrightarrow> no_pool_accounts c d'"
proof -
  note e = attempt_effect[OF assms]
  have removed: "no_pool_accounts c (effect RemovePoolAccounts c d0)" for d0
    by (simp add: no_pool_accounts_def delete_where_def)
  show "no_pool_accounts c d'" if "no_pool_accounts c d"
  proof (cases "x = RemovePoolAccounts")
    case True
    with attempt_single[OF assms(2)] that removed show ?thesis by auto
  next
    case False
    with e effect_pool_accounts[OF False] have "pool_accounts d' = pool_accounts d" by metis
    with that show ?thesis by (simp add: no_pool_accounts_def)
  qed
  show "no_pool_accounts c d'" if "x = RemovePoolAccounts" "r = Inr ()" using that e removed by auto
qed

text \<open>
  The invariant of the goroutines from d: what uninstalling leaves is what it
  leaves from d, and the pools are free of the connector once their goroutine
  has answered without error.
\<close>

definition uninstalling_ok :: "ConnectorID \<Rightarrow> db \<Rightarrow> uninstalling \<Rightarrow> bool" where
  "uninstalling_ok c d s = (case s of (P, es, d') \<Rightarrow>
     db_ok d' \<and> uninstalled c d' = uninstalled c d \<and>
     (es = [] \<longrightarrow> RemovePoolAccounts \<notin> P \<longrightarrow> no_pool_accounts c d'))"

lemma uninstalling_step:
  assumes "uninstall_step c s s'" "uninstalling_ok c d s"
  shows "uninstalling_ok c d s'"
  using assms
proof cases
  case (answered x P fl answer d1 d2 es)
  with assms(2) have ok: "db_ok d1" by (simp add: uninstalling_ok_def)
  from answered assms(2) attempt_uninstalled[OF ok answered(4)] attempt_pool_accounts[OF ok answered(4)]
  show ?thesis by (cases "x = RemovePoolAccounts") (auto simp: uninstalling_ok_def)
next
  case (repeated x P fl answer d1 err d2 es)
  with assms(2) have ok: "db_ok d1" by (simp add: uninstalling_ok_def)
  from repeated assms(2) attempt_uninstalled[OF ok repeated(4)] attempt_pool_accounts(1)[OF ok repeated(4)]
  show ?thesis by (auto simp: uninstalling_ok_def)
next
  case (refused x P fl answer d1 err d2 es)
  with assms(2) have ok: "db_ok d1" by (simp add: uninstalling_ok_def)
  from refused assms(2) attempt_uninstalled[OF ok refused(4)]
  show ?thesis by (auto simp: uninstalling_ok_def)
qed

lemma uninstalling_steps:
  "(uninstall_step c)\<^sup>*\<^sup>* s s' \<Longrightarrow> uninstalling_ok c d s \<Longrightarrow> uninstalling_ok c d s'"
  by (induction rule: rtranclp_induct) (auto intro: uninstalling_step)

lemma uninstalling_start: "db_ok d \<Longrightarrow> uninstalling_ok c d (UNIV, [], d)"
  by (simp add: uninstalling_ok_def)

text \<open>The last activity.\<close>

lemma connectors_delete_outcome:
  assumes "StorageConnectorsDelete fl c d = Some (r, d')"
  shows "r = Inr () \<and> d' = snd (ConnectorsUninstall no_faults c d) \<or> (\<exists>e. r = Inl e) \<and> d' = d"
  using storage_activity_modify[OF assms[unfolded StorageConnectorsDelete_def ConnectorsUninstall_def]]
  by (simp add: ConnectorsUninstall_def stmt_def no_faults_def)

lemma connectors_delete_uninstalled:
  assumes "no_pool_accounts c d"
  shows "snd (ConnectorsUninstall no_faults c d) = uninstalled c d"
proof -
  have "delete_where (\<lambda>r. pac_connector_id r = c) (pool_accounts d) = pool_accounts d"
    using assms by (auto simp: no_pool_accounts_def delete_where_def intro: filter_True)
  then show ?thesis unfolding uninstalled_def effect.simps by simp
qed

lemma cascade_connector_pool_accounts [simp]: "pool_accounts (cascade_connector c d) = pool_accounts d"
  by (simp add: cascade_connector_def removals Let_def)

lemma uninstalled_clean:
  "connector_gone c (uninstalled c d)" "no_pool_accounts c (uninstalled c d)" "\<not> connector_exists (uninstalled c d) c"
  using cascade_connector_gone[of c
      "d\<lparr>pool_accounts := delete_where (\<lambda>r. pac_connector_id r = c) (pool_accounts d)\<rparr>"]
  by (auto simp: uninstalled_eq connector_gone_def no_pool_accounts_def connector_exists_def has_key_iff)

lemma uninstalled_twice: "uninstalled c (uninstalled c d) = uninstalled c d"
  by (simp add: uninstalled_tables)

text \<open>Without faults each attempt answers.\<close>

lemma attempt_answers:
  assumes "db_ok d"
  shows "attempt x (\<lambda>k. no_faults) (Inr ()) c d = Some (Inr (), effect x c d)"
  using events_deletion.loop_succeeds[OF assms, of c 0] schedules_deletion.loop_succeeds[OF assms, of c 0]
    instances_deletion.loop_succeeds[OF assms, of c 0] accounts_deletion.loop_succeeds[OF assms, of c 0]
    payments_deletion.loop_succeeds[OF assms, of c 0]
  by (cases x) (simp_all add: single_deletions storage_activity_def stmt_def no_faults_def
      StorageEventsSentDelete_def StorageSchedulesDeleteFromConnectorID_def StorageInstancesDelete_def
      StorageAccountsDeleteFromConnectorID_def StoragePaymentsDeleteFromConnectorID_def)

lemma goroutines_answer:
  assumes "finite P" "db_ok d"
  shows "\<exists>d'. (uninstall_step c)\<^sup>*\<^sup>* (P, es, d) ({}, es, d')"
  using assms
proof (induction P arbitrary: d)
  case (insert x P)
  note a = attempt_answers[OF insert.prems, of x c]
  have "uninstall_step c (insert x P, es, d) (insert x P - {x}, es, effect x c d)"
    by (rule answered[OF _ a]) simp
  with insert have "uninstall_step c (insert x P, es, d) (P, es, effect x c d)" by simp
  moreover obtain d' where "(uninstall_step c)\<^sup>*\<^sup>* (P, es, effect x c d) ({}, es, d')"
    using insert.IH attempt_uninstalled[OF insert.prems a] by blast
  ultimately show ?case by (meson converse_rtranclp_into_rtranclp)
qed blast

instance goroutine :: finite
proof
  have "x \<in> {UninstallPlugin, DeleteEventsSent, DeleteSchedules, DeleteInstances,
      DeleteTasksTree, DeleteTasks, DeleteRelatedAccounts, DeleteAccounts, DeletePayments, DeleteStates,
      DeleteWebhooksConfigs, DeleteWebhooks, RemovePoolAccounts}" (is "_ \<in> ?all") for x
    by (cases x) simp_all
  then have "(UNIV :: goroutine set) \<subseteq> ?all" by blast
  then show "finite (UNIV :: goroutine set)" by (rule finite_subset) simp
qed

end
