(* ===== verification/Uninstall_Properties.thy ===== *)
theory Uninstall_Properties
  imports Uninstall_Workflow Storage_Properties
begin

text \<open>
  The properties of uninstalling a connector: internal/connectors/engine/workflow
  and activities, over the storage.
\<close>

section \<open>Batched deletions\<close>

text \<open>C35: batchDeleteWithHeartbeat returns, whatever fails, when it deletes the
  payments of a connector from a reachable database; the payments and
  adjustments it leaves on an error are such that deleting all of the
  connector's payments at once would leave the same, and on success nothing
  else is left: the database is the one PaymentsDeleteFromConnectorID leaves.  When
  nothing fails it succeeds.\<close>

theorem batched_payments_deletion_ends:
  assumes "storage_reachable d"
  shows "\<exists>r d'. StoragePaymentsDeleteFromConnectorID fl c d = Some (r, d') \<and> db_ok d' \<and>
    snd (PaymentsDeleteFromConnectorID no_faults c d') = snd (PaymentsDeleteFromConnectorID no_faults c d) \<and>
    (r = Inr () \<longrightarrow> d' = snd (PaymentsDeleteFromConnectorID no_faults c d)) \<and>
    ((\<forall>k. fl k = no_faults) \<longrightarrow> r = Inr ())"
proof -
  have ok: "db_ok d" by (rule storage_reachable_ok[OF assms])
  have one: "snd (PaymentsDeleteFromConnectorID no_faults c d0) = without_payments c d0" for d0
    by (simp add: PaymentsDeleteFromConnectorID_def stmt_def no_faults_def without_payments_def)
  have "r = Inr ()" if "\<forall>k. fl k = no_faults" "StoragePaymentsDeleteFromConnectorID fl c d = Some (r, d')" for r d'
    using payments_deletion.loop_succeeds[OF ok, of c 0] that by (simp add: StoragePaymentsDeleteFromConnectorID_def)
  with payments_deletion.loop_ends[OF ok, of c fl 0] show ?thesis
    unfolding one StoragePaymentsDeleteFromConnectorID_def by blast
qed

lemma batched_payments_deletion_ends_witness:
  "\<exists>r d'. StoragePaymentsDeleteFromConnectorID (\<lambda>k. no_faults) ex_connector ex_installed = Some (r, d') \<and> r = Inr ()"
  using batched_payments_deletion_ends[OF ex_installed_reachable, of "\<lambda>k. no_faults" ex_connector] by blast

section \<open>The workflow\<close>

text \<open>C25: the goroutines of uninstallConnector run in any order, each repeated any
  number of times, with any faults of the storage and any answers of the
  plugin.  From a reachable database, when the workflow succeeds, it leaves
  exactly what removing the connector's accounts from the pools and then
  deleting the connector in one statement leaves; when it fails, running it
  again can still lead there, since that outcome is unchanged.  (No other
  operation of the storage runs meanwhile.)\<close>

theorem uninstall_any_order:
  assumes "storage_reachable d" "uninstall_run c d r d'"
  shows "db_ok d' \<and> uninstalled c d' = uninstalled c d \<and>
    (r = Inr () \<longrightarrow> d' = uninstalled c d \<and> connector_gone c d' \<and> no_pool_accounts c d' \<and> \<not> connector_exists d' c)"
proof -
  have ok: "uninstalling_ok c d (UNIV, [], d)" by (intro uninstalling_start storage_reachable_ok assms(1))
  from assms(2) show ?thesis
  proof cases
    case (failed err es)
    from uninstalling_steps[OF failed(2) ok] failed(1) show ?thesis by (simp add: uninstalling_ok_def)
  next
    case (last d1 fl)
    from uninstalling_steps[OF last(1) ok] have d1: "db_ok d1" "uninstalled c d1 = uninstalled c d"
      "no_pool_accounts c d1" by (simp_all add: uninstalling_ok_def)
    from connectors_delete_outcome[OF last(2)] show ?thesis
    proof
      assume r: "r = Inr () \<and> d' = snd (ConnectorsUninstall no_faults c d1)"
      then have d': "d' = uninstalled c d" using connectors_delete_uninstalled[OF d1(3)] d1(2) by simp
      have "ConnectorsUninstall no_faults c d1 = (Inr (), d')"
        using r by (simp add: ConnectorsUninstall_def stmt_def no_faults_def)
      from keepsD[OF keeps_ConnectorsUninstall d1(1) this] have "db_ok d'" .
      with d' uninstalled_clean[of c d] r uninstalled_twice[of c d] show ?thesis by simp
    next
      assume "(\<exists>e. r = Inl e) \<and> d' = d1"
      with d1 show ?thesis by auto
    qed
  qed
qed

lemma uninstall_any_order_witness:
  "connector_exists ex_installed ex_connector \<and>
   (\<exists>d'. uninstall_run ex_connector ex_installed (Inr ()) d' \<and> d' = uninstalled ex_connector ex_installed \<and>
      \<not> connector_exists d' ex_connector)"
proof -
  have "db_ok ex_installed" by (rule storage_reachable_ok[OF ex_installed_reachable])
  then obtain d1 where "(uninstall_step ex_connector)\<^sup>*\<^sup>* (UNIV, [], ex_installed) ({}, [], d1)"
    using goroutines_answer[OF finite] by blast
  moreover obtain d' where "StorageConnectorsDelete no_faults ex_connector d1 = Some (Inr (), d')"
    by (simp add: StorageConnectorsDelete_def storage_activity_def ConnectorsUninstall_def stmt_def no_faults_def)
  ultimately have run: "uninstall_run ex_connector ex_installed (Inr ()) d'" by (rule uninstall_run.last) simp
  moreover have "connector_exists ex_installed ex_connector" by code_simp
  ultimately show ?thesis using uninstall_any_order[OF ex_installed_reachable run] by blast
qed

text \<open>UninstallConnector can always finish: from any state its goroutines reach
  without an error that is not retryable, whatever failed before, when nothing fails any more the
  remaining ones answer and the connector is deleted, with the outcome of
  uninstalling at once.\<close>

theorem uninstall_completes:
  assumes "storage_reachable d" "(uninstall_step c)\<^sup>*\<^sup>* (UNIV, [], d) (P, [], d1)"
  shows "\<exists>d2. (uninstall_step c)\<^sup>*\<^sup>* (P, [], d1) ({}, [], d2) \<and>
    StorageConnectorsDelete no_faults c d2 = Some (Inr (), uninstalled c d)"
proof -
  have ok: "uninstalling_ok c d (UNIV, [], d)" by (intro uninstalling_start storage_reachable_ok assms(1))
  note ok1 = uninstalling_steps[OF assms(2) ok]
  then have "db_ok d1" by (simp add: uninstalling_ok_def)
  from goroutines_answer[OF finite this, of c P "[]"]
  obtain d2 where run: "(uninstall_step c)\<^sup>*\<^sup>* (P, [], d1) ({}, [], d2)" ..
  from uninstalling_steps[OF run ok1] have "no_pool_accounts c d2" "uninstalled c d2 = uninstalled c d"
    by (simp_all add: uninstalling_ok_def)
  then have "snd (ConnectorsUninstall no_faults c d2) = uninstalled c d" by (simp add: connectors_delete_uninstalled)
  then have "StorageConnectorsDelete no_faults c d2 = Some (Inr (), uninstalled c d)"
    by (auto simp: StorageConnectorsDelete_def storage_activity_def ConnectorsUninstall_def stmt_def no_faults_def)
  with run show ?thesis by blast
qed

lemma uninstall_completes_witness:
  "\<exists>d1 d2. (uninstall_step ex_connector)\<^sup>*\<^sup>* (UNIV, [], ex_installed) (UNIV - {DeletePayments}, [], d1) \<and>
     (uninstall_step ex_connector)\<^sup>*\<^sup>* (UNIV - {DeletePayments}, [], d1) ({}, [], d2)"
proof -
  have "db_ok ex_installed" by (rule storage_reachable_ok[OF ex_installed_reachable])
  from answered[OF UNIV_I attempt_answers[OF this]]
  have first: "(uninstall_step ex_connector)\<^sup>*\<^sup>* (UNIV, [], ex_installed)
      (UNIV - {DeletePayments}, [], effect DeletePayments ex_connector ex_installed)" by (rule r_into_rtranclp)
  from uninstall_completes[OF ex_installed_reachable first] first show ?thesis by blast
qed

end
