(* ===== verification/Pools_Engine.thy ===== *)
theory Pools_Engine
  imports Initiations_Services Pools_Store
begin

text \<open>
  The operations of internal/connectors/engine/engine.go on pools, the services
  of internal/api/services/pools_*.go that call them or read the balances of a
  pool, and the listing of accounts (internal/storage/accounts.go) by which a
  dynamic pool finds its accounts.
\<close>

section \<open>Outside\<close>

text \<open>
  A query builder of the library, as what its Build makes of the storage's
  condition for a key, an operator and a value.
\<close>

type_synonym 'r query_builder = "(string \<Rightarrow> string \<Rightarrow> json \<Rightarrow> ('r \<Rightarrow> bool) result) \<Rightarrow> ('r \<Rightarrow> bool) result"

text \<open>
  What the operations take from outside: the environment of the storage,
  json.Marshal and query.ParseJSON (which may give no builder), the comparison
  of a column with a value by an operator, the paginator, and the order in
  which the goroutines of an errgroup finish.
\<close>

record pools_svc =
  ps_env :: env
  ps_marshal :: "json \<Rightarrow> string result"
  ps_parse :: "string \<Rightarrow> account_row query_builder option result"
  ps_compare :: "string \<Rightarrow> string \<Rightarrow> json \<Rightarrow> account_row \<Rightarrow> bool"
  ps_pager :: "account_row pager"
  ps_order :: "AccountID list \<Rightarrow> AccountID list"

section \<open>Listing accounts\<close>

definition account_columns :: "string list" where
  "account_columns = [''id'', ''reference'', ''connector_id'', ''type'', ''default_asset'', ''name'', ''psu_id'',
     ''open_banking_connection_id'']"

text \<open>The column of metadata contains the value under the key: it must be a text.\<close>

definition metadata_contains :: "string \<Rightarrow> json \<Rightarrow> account_row \<Rightarrow> bool" where
  "metadata_contains k value r = (case value of JString v \<Rightarrow> account_metadata r k = Some v | _ \<Rightarrow> False)"

definition accountsQueryContext ::
  "pools_svc \<Rightarrow> string \<Rightarrow> string \<Rightarrow> json \<Rightarrow> (account_row \<Rightarrow> bool) result" where
  "accountsQueryContext v key operator value =
     (if key \<in> set account_columns then Inr (ps_compare v key operator value)
      else case metadataRegex key of
        Some k \<Rightarrow>
          if operator \<noteq> ''$match''
          then Inl (Wrap ([CHR 0x27] @ key @ [CHR 0x27] @ '' column can only be used with $match'')
                      (Sentinel Storage_ErrValidation))
          else Inr (metadata_contains k value)
      | None \<Rightarrow> Inl (Wrap (''unknown key '' @ [CHR 0x27] @ key @ [CHR 0x27] @ '' when building query'')
                       (Sentinel Storage_ErrValidation)))"

record ListAccountsQuery =
  ListAccountsQuery_PageSize :: nat
  ListAccountsQuery_Offset :: nat
  ListAccountsQuery_QueryBuilder :: "account_row query_builder option"

definition NewListAccountsQuery :: "nat \<Rightarrow> account_row query_builder option \<Rightarrow> ListAccountsQuery" where
  "NewListAccountsQuery pageSize qb =
     \<lparr>ListAccountsQuery_PageSize = pageSize, ListAccountsQuery_Offset = 0, ListAccountsQuery_QueryBuilder = qb\<rparr>"

definition accounts_where ::
  "pools_svc \<Rightarrow> account_row query_builder option \<Rightarrow> (account_row \<Rightarrow> bool) result" where
  "accounts_where v builder = (case builder of
     None \<Rightarrow> Inr (\<lambda>_. True)
   | Some qb \<Rightarrow> qb (accountsQueryContext v))"

definition AccountsList :: "faults \<Rightarrow> pools_svc \<Rightarrow> ListAccountsQuery \<Rightarrow> (db, Account Cursor) tx" where
  "AccountsList fl v q = (case accounts_where v (ListAccountsQuery_QueryBuilder q) of
     Inl err \<Rightarrow> tx_fail err
   | Inr p \<Rightarrow> stmt fl ''failed to fetch accounts''
       (tx_get (\<lambda>d. let (page, nxt) = ps_pager v (ListAccountsQuery_Offset q) (ListAccountsQuery_PageSize q)
                          (newest_first account_created_at (filter p (accounts d))) in
          \<lparr>Cursor_Data = map (\<lambda>a. toAccountModels a
             (lookup_row connector_id (account_connector_id a) (connectors d))) page,
           Cursor_Next = nxt\<rparr>)))"

section \<open>The accounts of a dynamic pool\<close>

text \<open>
  populatePoolAccounts of the engine wraps its errors with fmt.Errorf, that of the
  services with newStorageError; otherwise they are the same.  The cursor of the
  paginator gives the query of the next page.
\<close>

type_synonym 'a looping = "db \<Rightarrow> ('a result \<times> db) option"

definition loop_bind :: "'a looping \<Rightarrow> ('a \<Rightarrow> 'b looping) \<Rightarrow> 'b looping" where
  "loop_bind m f = (\<lambda>d. case m d of
     None \<Rightarrow> None
   | Some (Inl err, d') \<Rightarrow> Some (Inl err, d')
   | Some (Inr a, d') \<Rightarrow> f a d')"

definition loop_of :: "(db, 'a) tx \<Rightarrow> 'a looping" where
  "loop_of m = (\<lambda>d. Some (m d))"

partial_function (option) accounts_loop ::
  "(string \<Rightarrow> error \<Rightarrow> error) \<Rightarrow> faults \<Rightarrow> pools_svc \<Rightarrow> ListAccountsQuery \<Rightarrow> AccountID list \<Rightarrow> db \<Rightarrow>
     (AccountID list result \<times> db) option" where
  "accounts_loop wrap fl v q res d =
     (case AccountsList fl v q d of
        (Inl err, d') \<Rightarrow> Some (Inl (wrap ''cannot list accounts'' err), d')
      | (Inr cursor, d') \<Rightarrow>
          (let res' = res @ map Account_ID (Cursor_Data cursor) in
           case Cursor_Next cursor of
             None \<Rightarrow> Some (Inr res', d')
           | Some nxt \<Rightarrow> accounts_loop wrap fl v (q\<lparr>ListAccountsQuery_Offset := nxt\<rparr>) res' d'))"

definition populatePoolAccounts ::
  "(string \<Rightarrow> error \<Rightarrow> error) \<Rightarrow> faults \<Rightarrow> pools_svc \<Rightarrow> Pool \<Rightarrow> AccountID list looping" where
  "populatePoolAccounts wrap fl v pool = (case ps_marshal v (Pool_Query pool) of
     Inl err \<Rightarrow> loop_of (tx_fail (wrap ''cannot marshal pool query'' err))
   | Inr queryJSON \<Rightarrow> (case ps_parse v queryJSON of
       Inl err \<Rightarrow> loop_of (tx_fail (wrap ''cannot parse pool query'' err))
     | Inr qb \<Rightarrow> accounts_loop wrap fl v (NewListAccountsQuery 100 qb) []))"

definition engine_populatePoolAccounts :: "faults \<Rightarrow> pools_svc \<Rightarrow> Pool \<Rightarrow> AccountID list looping" where
  "engine_populatePoolAccounts = populatePoolAccounts Wrap"

definition service_populatePoolAccounts :: "faults \<Rightarrow> pools_svc \<Rightarrow> Pool \<Rightarrow> AccountID list looping" where
  "service_populatePoolAccounts = populatePoolAccounts StorageErr"

section \<open>The engine\<close>

definition require_internal :: "faults \<Rightarrow> pools_svc \<Rightarrow> AccountID \<Rightarrow> (db, unit) tx" where
  "require_internal fl v a =
     tx_bind (AccountsGet fl a)
       (\<lambda>account. if Account_Type account \<noteq> ACCOUNT_TYPE_INTERNAL
          then tx_fail (Wrap (''account '' @ env_account_text (ps_env v) a @ '' is not an internal account'')
                          (Sentinel Engine_ErrValidation))
          else tx_return ())"

text \<open>
  What CreatePool checks and gathers before it writes.  The goroutines of the
  errgroup only read; Wait returns the first error.
\<close>

definition pool_to_create :: "faults \<Rightarrow> pools_svc \<Rightarrow> Pool \<Rightarrow> Pool looping" where
  "pool_to_create fl v pool =
     (if Pool_Type pool = POOL_TYPE_STATIC
      then loop_of (tx_seq (tx_for (ps_order v (Pool_PoolAccounts pool)) (require_internal fl v)) (tx_return pool))
      else if Pool_Type pool = POOL_TYPE_DYNAMIC
      then loop_bind (engine_populatePoolAccounts fl v pool)
             (\<lambda>accs. loop_of (tx_return (pool\<lparr>Pool_PoolAccounts := accs\<rparr>)))
      else loop_of (tx_return pool))"

definition engine_CreatePool :: "faults \<Rightarrow> pools_svc \<Rightarrow> Pool \<Rightarrow> unit looping" where
  "engine_CreatePool fl v pool =
     loop_bind (pool_to_create fl v pool) (\<lambda>pool'. loop_of (PoolsUpsert (ps_env v) fl pool'))"

definition require_pool_type :: "faults \<Rightarrow> pools_svc \<Rightarrow> uuid \<Rightarrow> PoolType \<Rightarrow> string \<Rightarrow> (db, Pool) tx" where
  "require_pool_type fl v i refused msg =
     tx_bind (PoolsGet fl i)
       (\<lambda>pool. if Pool_Type pool = refused
          then tx_fail (Wrap (''pool '' @ env_uuid_text (ps_env v) i @ msg) (Sentinel Engine_ErrValidation))
          else tx_return pool)"

definition UpdatePoolQuery :: "faults \<Rightarrow> pools_svc \<Rightarrow> uuid \<Rightarrow> json \<Rightarrow> unit looping" where
  "UpdatePoolQuery fl v i query =
     loop_bind (loop_of (require_pool_type fl v i POOL_TYPE_STATIC
         '' is a static pool, use the pool account addition or deletion endpoints''))
       (\<lambda>pool. let pool = pool\<lparr>Pool_Query := query\<rparr> in
          loop_bind (engine_populatePoolAccounts fl v pool)
            (\<lambda>accs. loop_of (PoolsUpdateQuery (ps_env v) fl (pool\<lparr>Pool_PoolAccounts := accs\<rparr>) query)))"

definition account_may_join :: "faults \<Rightarrow> pools_svc \<Rightarrow> uuid \<Rightarrow> AccountID \<Rightarrow> (db, unit) tx" where
  "account_may_join fl v i accountID =
     tx_seq (require_internal fl v accountID)
       (tx_bind (require_pool_type fl v i POOL_TYPE_DYNAMIC
           '' is a dynamic pool, use the pool query update endpoint to add an account'') (\<lambda>_. tx_return ()))"

definition AddAccountToPool :: "faults \<Rightarrow> pools_svc \<Rightarrow> uuid \<Rightarrow> AccountID \<Rightarrow> (db, unit) tx" where
  "AddAccountToPool fl v i accountID =
     tx_seq (account_may_join fl v i accountID) (PoolsAddAccount (ps_env v) fl i accountID)"

definition RemoveAccountFromPool :: "faults \<Rightarrow> pools_svc \<Rightarrow> uuid \<Rightarrow> AccountID \<Rightarrow> (db, unit) tx" where
  "RemoveAccountFromPool fl v i accountID =
     tx_bind (require_pool_type fl v i POOL_TYPE_DYNAMIC
         '' is a dynamic pool, use the pool query update endpoint to remove an account'')
       (\<lambda>_. PoolsRemoveAccount (ps_env v) fl i accountID)"

definition engine_DeletePool :: "faults \<Rightarrow> pools_svc \<Rightarrow> uuid \<Rightarrow> (db, unit) tx" where
  "engine_DeletePool fl v i = tx_bind (PoolsDelete (ps_env v) fl i) (\<lambda>_. tx_return ())"

section \<open>The services\<close>

definition loop_error :: "(error \<Rightarrow> error) \<Rightarrow> 'a looping \<Rightarrow> 'a looping" where
  "loop_error f m = (\<lambda>d. case m d of Some (Inl err, d') \<Rightarrow> Some (Inl (f err), d') | other \<Rightarrow> other)"

definition engine_error :: "error \<Rightarrow> error" where
  "engine_error err = the (handleEngineErrors (Some err))"

definition service_PoolsCreate :: "faults \<Rightarrow> pools_svc \<Rightarrow> Pool \<Rightarrow> unit looping" where
  "service_PoolsCreate fl v pool = loop_error engine_error (engine_CreatePool fl v pool)"

definition service_PoolsUpdateQuery :: "faults \<Rightarrow> pools_svc \<Rightarrow> uuid \<Rightarrow> json \<Rightarrow> unit looping" where
  "service_PoolsUpdateQuery fl v i query = loop_error engine_error (UpdatePoolQuery fl v i query)"

definition service_PoolsAddAccount :: "faults \<Rightarrow> pools_svc \<Rightarrow> uuid \<Rightarrow> AccountID \<Rightarrow> (db, unit) tx" where
  "service_PoolsAddAccount fl v i a = svc_engine (AddAccountToPool fl v i a)"

definition service_PoolsRemoveAccount :: "faults \<Rightarrow> pools_svc \<Rightarrow> uuid \<Rightarrow> AccountID \<Rightarrow> (db, unit) tx" where
  "service_PoolsRemoveAccount fl v i a = svc_engine (RemoveAccountFromPool fl v i a)"

definition service_PoolsDelete :: "faults \<Rightarrow> pools_svc \<Rightarrow> uuid \<Rightarrow> (db, unit) tx" where
  "service_PoolsDelete fl v i = svc_engine (engine_DeletePool fl v i)"

text \<open>The pool with the accounts its query selects now, when it is dynamic.\<close>

definition service_PoolsGet :: "faults \<Rightarrow> pools_svc \<Rightarrow> uuid \<Rightarrow> Pool looping" where
  "service_PoolsGet fl v i =
     loop_bind (loop_of (svc_storage ''cannot get pool'' (PoolsGet fl i)))
       (\<lambda>p. if Pool_Type p = POOL_TYPE_DYNAMIC
          then loop_bind (loop_error (StorageErr ''cannot populate pool accounts'')
                   (service_populatePoolAccounts fl v p))
                 (\<lambda>accs. loop_of (tx_return (p\<lparr>Pool_PoolAccounts := accs\<rparr>)))
          else loop_of (tx_return p))"

definition service_PoolsBalances :: "faults \<Rightarrow> pools_svc \<Rightarrow> uuid \<Rightarrow> AggregatedBalance list looping" where
  "service_PoolsBalances fl v i =
     loop_bind (service_PoolsGet fl v i)
       (\<lambda>pool. loop_of (svc_storage ''cannot get latest balances''
          (BalancesGetFromAccountIDs fl (Pool_PoolAccounts pool) None)))"

definition service_PoolsBalancesAt ::
  "faults \<Rightarrow> pools_svc \<Rightarrow> uuid \<Rightarrow> time \<Rightarrow> AggregatedBalance list looping" where
  "service_PoolsBalancesAt fl v i at =
     loop_bind (service_PoolsGet fl v i)
       (\<lambda>pool. loop_of (svc_storage ''cannot get balances''
          (BalancesGetFromAccountIDs fl (Pool_PoolAccounts pool) (Some at))))"

end
