(* ===== verification/Pools_Proofs.thy ===== *)
theory Pools_Proofs
  imports Pools_Engine Consistency_Store
begin

text \<open>
  What the properties of the operations on pools rest on: the listing of the
  accounts of a dynamic pool, the balances of a set of accounts as sums, and
  accounts that stay what they are while pools change.
\<close>

section \<open>Loops over pages\<close>

lemma loop_simps [simp]:
  "loop_of m d = Some (m d)"
  "loop_bind (loop_of m) f d = (case m d of (Inl err, d') \<Rightarrow> Some (Inl err, d') | (Inr a, d') \<Rightarrow> f a d')"
  by (auto simp: loop_of_def loop_bind_def split: prod.splits sum.splits)

lemma loop_bind_returns:
  "m d \<noteq> None \<Longrightarrow> (\<And>a d'. m d = Some (Inr a, d') \<Longrightarrow> f a d' \<noteq> None) \<Longrightarrow> loop_bind m f d \<noteq> None"
  by (auto simp: loop_bind_def split: option.splits prod.splits sum.splits)

lemma loop_of_returns: "loop_of m d \<noteq> None"
  by simp

lemma loop_error_returns: "m d \<noteq> None \<Longrightarrow> loop_error f m d \<noteq> None"
  by (auto simp: loop_error_def split: option.splits prod.splits sum.splits)

definition selected_accounts :: "(account_row \<Rightarrow> bool) \<Rightarrow> db \<Rightarrow> account_row list" where
  "selected_accounts p d = newest_first account_created_at (filter p (accounts d))"

definition accounts_query :: "nat \<Rightarrow> nat \<Rightarrow> account_row query_builder option \<Rightarrow> ListAccountsQuery" where
  "accounts_query n o' qb =
     \<lparr>ListAccountsQuery_PageSize = n, ListAccountsQuery_Offset = o', ListAccountsQuery_QueryBuilder = qb\<rparr>"

lemma accounts_query_offset [simp]:
  "accounts_query n o' qb\<lparr>ListAccountsQuery_Offset := o''\<rparr> = accounts_query n o'' qb"
  by (simp add: accounts_query_def)

lemma list_accounts:
  assumes "offset_pager (ps_pager v)" "fl ''failed to fetch accounts'' = None" "n > 0" "accounts_where v qb = Inr p"
  shows "\<exists>cursor. AccountsList fl v (accounts_query n o' qb) d = (Inr cursor, d) \<and>
    map Account_ID (Cursor_Data cursor) = map account_id (take n (drop o' (selected_accounts p d))) \<and>
    Cursor_Next cursor = (if o' + n < length (selected_accounts p d) then Some (o' + n) else None)"
  using assms(2,4) offset_pagerD[OF assms(1,3)]
  by (simp add: AccountsList_def accounts_query_def stmt_def selected_accounts_def toAccountModels_def)

text \<open>The loop reads every page: the offset grows by a page each time.\<close>

lemma accounts_loop_value:
  assumes "offset_pager (ps_pager v)" "fl ''failed to fetch accounts'' = None" "n > 0" "accounts_where v qb = Inr p"
  shows "accounts_loop wrap fl v (accounts_query n o' qb) res d =
    Some (Inr (res @ map account_id (drop o' (selected_accounts p d))), d)"
proof (induction "length (selected_accounts p d) - o'" arbitrary: o' res rule: less_induct)
  case less
  let ?rows = "selected_accounts p d"
  obtain cursor where c: "AccountsList fl v (accounts_query n o' qb) d = (Inr cursor, d)"
    "map Account_ID (Cursor_Data cursor) = map account_id (take n (drop o' ?rows))"
    "Cursor_Next cursor = (if o' + n < length ?rows then Some (o' + n) else None)"
    using list_accounts[where fl = fl, OF assms] by blast
  have split: "map account_id (drop o' ?rows) =
      map account_id (take n (drop o' ?rows)) @ map account_id (drop (o' + n) ?rows)"
    by (metis append_take_drop_id drop_drop add.commute map_append)
  show ?case
  proof (cases "o' + n < length ?rows")
    case True
    then have "length ?rows - (o' + n) < length ?rows - o'" using assms(3) by simp
    from less.hyps[OF this, of "res @ map Account_ID (Cursor_Data cursor)"] c True split show ?thesis
      by (subst accounts_loop.simps) simp
  next
    case False
    then have "take n (drop o' ?rows) = drop o' ?rows" by simp
    with c False show ?thesis by (subst accounts_loop.simps) simp
  qed
qed

lemma accounts_loop_returns:
  assumes "offset_pager (ps_pager v)" "n > 0"
  shows "accounts_loop wrap fl v (accounts_query n 0 qb) [] d \<noteq> None"
proof (cases "accounts_where v qb")
  case (Inl err)
  then show ?thesis by (subst accounts_loop.simps) (simp add: AccountsList_def accounts_query_def)
next
  case (Inr p)
  show ?thesis
  proof (cases "fl ''failed to fetch accounts''")
    case None
    from accounts_loop_value[where fl = fl, OF assms(1) None assms(2) Inr] show ?thesis by simp
  next
    case (Some e)
    with Inr show ?thesis by (subst accounts_loop.simps) (simp add: AccountsList_def accounts_query_def stmt_def)
  qed
qed

lemma populate_returns:
  "offset_pager (ps_pager v) \<Longrightarrow> populatePoolAccounts wrap fl v pool d \<noteq> None"
  using accounts_loop_returns[of v 100 wrap fl _ d]
  by (auto simp: populatePoolAccounts_def NewListAccountsQuery_def accounts_query_def split: sum.split)

text \<open>The condition a query stands for, or why it is refused.\<close>

definition pool_condition :: "pools_svc \<Rightarrow> json \<Rightarrow> (account_row \<Rightarrow> bool) result" where
  "pool_condition v query = (case ps_marshal v query of
     Inl err \<Rightarrow> Inl err
   | Inr queryJSON \<Rightarrow> (case ps_parse v queryJSON of Inl err \<Rightarrow> Inl err | Inr qb \<Rightarrow> accounts_where v qb))"

lemma populate_value:
  assumes "offset_pager (ps_pager v)" "fl ''failed to fetch accounts'' = None" "pool_condition v (Pool_Query pool) = Inr p"
  shows "populatePoolAccounts wrap fl v pool d = Some (Inr (map account_id (selected_accounts p d)), d)"
  using assms(3) accounts_loop_value[where fl = fl and n = 100 and wrap = wrap and o' = 0 and res = "[]" and p = p and d = d,
      OF assms(1,2)]
  by (auto simp: populatePoolAccounts_def pool_condition_def NewListAccountsQuery_def accounts_query_def
      split: sum.splits)

section \<open>Balances as sums\<close>

definition latest_amount :: "db \<Rightarrow> AccountID \<Rightarrow> string \<Rightarrow> int" where
  "latest_amount d a asset = (case last_balance (a, asset) (balances d) of None \<Rightarrow> 0 | Some r \<Rightarrow> balance_balance r)"

lemma last_balance_iff:
  "last_balance k tbl \<noteq> None \<longleftrightarrow> k \<in> balance_pair ` set tbl"
  by (auto simp: last_balance_def filter_empty_conv)

lemma sum_list_filtered:
  fixes f :: "'k \<Rightarrow> int"
  assumes "distinct ks"
  shows "sum_list (map f (filter p ks)) = (\<Sum>k\<in>{k \<in> set ks. p k}. f k)"
  using assms by (simp add: sum_list_distinct_conv_sum_set)

lemma latest_balances:
  "selected_balances accs None tbl = map (\<lambda>k. the (last_balance k tbl))
     (remdups (map balance_pair (filter (\<lambda>r. balance_account_id r \<in> set accs) tbl)))"
proof -
  have "List.map_filter (\<lambda>k. balance_at None k tbl) ks = map (\<lambda>k. the (last_balance k tbl)) ks"
    if "set ks \<subseteq> balance_pair ` set tbl" for ks
    using that
  proof (induction ks)
    case (Cons k ks)
    then obtain r where "last_balance k tbl = Some r" using last_balance_iff[of k tbl] by auto
    with Cons show ?case by (simp add: map_filter_simps balance_at_def)
  qed (simp add: map_filter_simps)
  from this[of "remdups (map balance_pair (filter (\<lambda>r. balance_account_id r \<in> set accs) tbl))"]
  show ?thesis unfolding selected_balances_def by fastforce
qed

text \<open>The balance of some accounts in an asset is the sum of their latest balances.\<close>

lemma aggregated_amount:
  assumes "res = map (\<lambda>asset. let rows = filter (\<lambda>r. balance_asset r = asset) sel in
      \<lparr>AggregatedBalance_Asset = asset, AggregatedBalance_Amount = sum_list (map balance_balance rows),
       AggregatedBalance_RelatedAccounts = map balance_account_id rows\<rparr>) (remdups (map balance_asset sel))"
    "sel = selected_balances accs None (balances d)"
  shows "distinct (map AggregatedBalance_Asset res)"
    and "AggregatedBalance_Asset ` set res = {x. \<exists>a\<in>set accs. last_balance (a, x) (balances d) \<noteq> None}"
    and "b \<in> set res \<Longrightarrow>
      AggregatedBalance_Amount b = (\<Sum>a\<in>set accs. latest_amount d a (AggregatedBalance_Asset b))"
proof -
  let ?last = "\<lambda>k. the (last_balance k (balances d))"
  define ks where "ks = remdups (map balance_pair (filter (\<lambda>r. balance_account_id r \<in> set accs) (balances d)))"
  have sel: "sel = map ?last ks" unfolding assms(2) latest_balances ks_def ..
  have ks: "set ks = {k. fst k \<in> set accs \<and> last_balance k (balances d) \<noteq> None}"
    unfolding last_balance_iff by (auto simp: ks_def balance_pair_def)
  have pair: "balance_pair (?last k) = k" if "k \<in> set ks" for k
    using that unfolding ks by (auto dest: last_balance_SomeD)
  then have asset: "balance_asset (?last k) = snd k" if "k \<in> set ks" for k
    using that by (metis balance_pair_def snd_conv)
  have assets: "map balance_asset sel = map snd ks" unfolding sel using asset by simp
  show "distinct (map AggregatedBalance_Asset res)"
    unfolding assms(1) by (simp add: comp_def Let_def)
  have "AggregatedBalance_Asset ` set res = balance_asset ` set sel"
    unfolding assms(1) by (simp add: image_image Let_def)
  also have "\<dots> = snd ` set ks" using arg_cong[OF assets, of set] by simp
  finally have "AggregatedBalance_Asset ` set res = snd ` set ks" .
  then show "AggregatedBalance_Asset ` set res = {x. \<exists>a\<in>set accs. last_balance (a, x) (balances d) \<noteq> None}"
    unfolding ks image_Collect by (simp add: Bex_def)
  assume "b \<in> set res"
  then obtain x where x: "AggregatedBalance_Asset b = x"
    "AggregatedBalance_Amount b = sum_list (map balance_balance (filter (\<lambda>r. balance_asset r = x) sel))"
    unfolding assms(1) by (auto simp: Let_def)
  have "filter (\<lambda>r. balance_asset r = x) sel = map ?last (filter (\<lambda>k. snd k = x) ks)"
    unfolding sel filter_map comp_def by (rule arg_cong[where f = "map ?last"], rule filter_cong) (simp_all add: asset)
  then have "AggregatedBalance_Amount b = sum_list (map (\<lambda>k. balance_balance (?last k)) (filter (\<lambda>k. snd k = x) ks))"
    unfolding x(2) by (simp add: comp_def)
  also have "\<dots> = (\<Sum>k\<in>{k \<in> set ks. snd k = x}. balance_balance (?last k))"
    by (rule sum_list_filtered) (simp add: ks_def)
  also have "\<dots> = (\<Sum>a\<in>{a \<in> set accs. last_balance (a, x) (balances d) \<noteq> None}. balance_balance (?last (a, x)))"
    unfolding ks by (rule sum.reindex_bij_witness[of _ "\<lambda>a. (a, x)" fst]) auto
  also have "\<dots> = (\<Sum>a\<in>set accs. latest_amount d a x)"
    by (rule sum.mono_neutral_cong_left) (auto simp: latest_amount_def)
  finally show "AggregatedBalance_Amount b = (\<Sum>a\<in>set accs. latest_amount d a (AggregatedBalance_Asset b))"
    by (simp add: x(1))
qed

lemma BalancesGet_sums:
  "\<exists>res. BalancesGetFromAccountIDs no_faults accs None d = (Inr res, d) \<and>
     distinct (map AggregatedBalance_Asset res) \<and>
     AggregatedBalance_Asset ` set res = {x. \<exists>a\<in>set accs. last_balance (a, x) (balances d) \<noteq> None} \<and>
     (\<forall>b\<in>set res. AggregatedBalance_Amount b = (\<Sum>a\<in>set accs. latest_amount d a (AggregatedBalance_Asset b)))"
proof (cases "accs = []")
  case True
  then show ?thesis by (simp add: BalancesGetFromAccountIDs_def)
next
  case False
  then show ?thesis
    using aggregated_amount[OF refl refl, where accs = accs and d = d]
    by (simp add: BalancesGetFromAccountIDs_def stmt_def no_faults_def Let_def)
qed

end
