(* ===== verification/Pools_Service_Properties.thy ===== *)
theory Pools_Service_Properties
  imports Pools_Proofs Pools_Properties Accounts_Properties
begin

text \<open>
  The properties of the operations on pools, of the engine and the services: who
  may be in a pool, and what the balance of a pool is.
\<close>

section \<open>Accounts stay while pools change\<close>

lemma keeps_accounts_emit [keeps_intros]: "keeps (\<lambda>d. accounts d = A) (OutboxEventsInsert env fl es)"
proof (rule keepsI)
  fix d r d'
  assume A: "accounts d = A" and run: "OutboxEventsInsert env fl es d = (r, d')"
  show "accounts d' = A"
  proof (cases r)
    case (Inl e)
    with run have "d' = d" by (auto dest: OutboxEventsInsert_error)
    with A show ?thesis by simp
  next
    case (Inr u)
    from outbox.only_outbox[OF run[unfolded Inr]] A show ?thesis by auto
  qed
qed

lemma keeps_accounts_pools [keeps_intros]:
  "keeps (\<lambda>d. accounts d = A) (insert_pool_stmt fl p)"
  "keeps (\<lambda>d. accounts d = A) (insert_pool_accounts_stmt fl msg rows)"
  unfolding insert_pool_stmt_def insert_pool_accounts_stmt_def
  by (intro keeps_stmt keepsI; auto simp: refuse_def split: prod.splits if_splits)+

lemma keeps_accounts_operations:
  "keeps (\<lambda>d. accounts d = A) (PoolsUpsert env fl p)"
  "keeps (\<lambda>d. accounts d = A) (PoolsAddAccount env fl i a)"
  "keeps (\<lambda>d. accounts d = A) (PoolsRemoveAccount env fl i a)"
  "keeps (\<lambda>d. accounts d = A) (PoolsDelete env fl i)"
  "keeps (\<lambda>d. accounts d = A) (PoolsUpdateQuery env fl p q)"
  "keeps (\<lambda>d. accounts d = A) (PoolsRemoveAccountsFromConnectorID fl c)"
  unfolding PoolsUpsert_def PoolsAddAccount_def PoolsRemoveAccount_def PoolsDelete_def PoolsUpdateQuery_def
    PoolsRemoveAccountsFromConnectorID_def sendPoolEvent_def
  by (intro keeps_intros; auto intro!: keepsI)+

section \<open>Who is in a pool\<close>

definition internal :: "db \<Rightarrow> AccountID \<Rightarrow> bool" where
  "internal d a \<longleftrightarrow> (\<exists>r. lookup_row account_id a (accounts d) = Some r \<and> account_type r = ACCOUNT_TYPE_INTERNAL)"

definition members_internal :: "db \<Rightarrow> bool" where
  "members_internal d \<longleftrightarrow> (\<forall>m\<in>members d. internal d (snd m))"

text \<open>
  Reports of accounts and requests on pools, interleaved: what CreatePool and
  AddAccountToPool check, they check in an earlier state than the one they write.
\<close>

inductive pools_run :: "pools_svc \<Rightarrow> db \<Rightarrow> db \<Rightarrow> bool" for v where
  start: "pools_run v d d"
| report: "pools_run v d d1 \<Longrightarrow> AccountsUpsert (ps_env v) fl as d1 = (r, d2) \<Longrightarrow> pools_run v d d2"
| create: "pools_run v d d1 \<Longrightarrow> pool_to_create fl v pool d1 = Some (Inr pool', d1') \<Longrightarrow> pools_run v d1 d2 \<Longrightarrow>
    PoolsUpsert (ps_env v) fl' pool' d2 = (r, d3) \<Longrightarrow> pools_run v d d3"
| add: "pools_run v d d1 \<Longrightarrow> account_may_join fl v i a d1 = (Inr (), d1') \<Longrightarrow> pools_run v d1 d2 \<Longrightarrow>
    PoolsAddAccount (ps_env v) fl' i a d2 = (r, d3) \<Longrightarrow> pools_run v d d3"
| remove: "pools_run v d d1 \<Longrightarrow> PoolsRemoveAccount (ps_env v) fl i a d1 = (r, d2) \<Longrightarrow> pools_run v d d2"
| delete: "pools_run v d d1 \<Longrightarrow> PoolsDelete (ps_env v) fl i d1 = (rb, d2) \<Longrightarrow> pools_run v d d2"
| query: "pools_run v d d1 \<Longrightarrow> PoolsUpdateQuery (ps_env v) fl p q d1 = (r, d2) \<Longrightarrow> pools_run v d d2"
| connector: "pools_run v d d1 \<Longrightarrow> PoolsRemoveAccountsFromConnectorID fl c d1 = (r, d2) \<Longrightarrow> pools_run v d d2"

lemma same_accounts: "keeps (\<lambda>d. accounts d = accounts s) m \<Longrightarrow> m s = (r, s') \<Longrightarrow> accounts s' = accounts s"
  using keepsD[where P = "\<lambda>d. accounts d = accounts s"] by blast

lemma lookup_row_extended: "lookup_row key k xs = Some r \<Longrightarrow> lookup_row key k (xs @ ys) = Some r"
  by (metis lookup_row_None_iff lookup_row_append option.distinct(1))

lemma report_accounts:
  assumes "AccountsUpsert env fl as d = (r, d')"
  shows "\<exists>new. accounts d' = accounts d @ new" "members d' = members d"
proof -
  show "\<exists>new. accounts d' = accounts d @ new"
  proof (cases r)
    case (Inl e)
    with assms have "d' = d" by (auto simp: AccountsUpsert_def dest: in_tx_rollback split: if_splits)
    then show ?thesis by simp
  next
    case (Inr u)
    from AccountsUpsert_result[OF assms[unfolded Inr]] show ?thesis by metis
  qed
  show "members d' = members d"
  proof (cases r)
    case (Inl e)
    with assms have "d' = d" by (auto simp: AccountsUpsert_def dest: in_tx_rollback split: if_splits)
    then show ?thesis by simp
  next
    case (Inr u)
    from AccountsUpsert_result[OF assms[unfolded Inr]] obtain new es where
      "OutboxEventsInsert env fl es (d\<lparr>accounts := accounts d @ new\<rparr>) = (Inr u, d')" by metis
    from members_step[OF keeps_members_emit this] show ?thesis by (simp add: members_def)
  qed
qed

lemma internal_kept: "pools_run v d d' \<Longrightarrow> internal d a \<Longrightarrow> internal d' a"
proof (induction arbitrary: rule: pools_run.induct)
  case (report d d1 fl as r d2)
  obtain new where "accounts d2 = accounts d1 @ new" using report_accounts(1)[OF report.hyps(2)] by blast
  with report.IH[OF report.prems] show ?case unfolding internal_def by (metis lookup_row_extended)
next
  case (create d d1 fl pool pool' d1' d2 fl' r d3)
  then show ?case using same_accounts[OF keeps_accounts_operations(1) create.hyps(4)] by (simp add: internal_def)
next
  case (add d d1 fl i a' d1' d2 fl' r d3)
  then show ?case using same_accounts[OF keeps_accounts_operations(2) add.hyps(4)] by (simp add: internal_def)
next
  case (remove d d1 fl i a' r d2)
  then show ?case using same_accounts[OF keeps_accounts_operations(3) remove.hyps(2)] by (simp add: internal_def)
next
  case (delete d d1 fl i rb d2)
  then show ?case using same_accounts[OF keeps_accounts_operations(4) delete.hyps(2)] by (simp add: internal_def)
next
  case (query d d1 fl p q r d2)
  then show ?case using same_accounts[OF keeps_accounts_operations(5) query.hyps(2)] by (simp add: internal_def)
next
  case (connector d d1 fl c r d2)
  then show ?case using same_accounts[OF keeps_accounts_operations(6) connector.hyps(2)] by (simp add: internal_def)
qed

text \<open>What the checks establish.\<close>

lemma checked_internal:
  assumes "require_internal fl v a d = (Inr (), d')"
  shows "internal d a" "d' = d"
  using assms by (auto simp: require_internal_def tx_inr AccountsGet_def stmt_def refuse_def internal_def
      toAccountModels_def split: option.splits if_splits)

lemma checked_all_internal:
  "tx_for as (require_internal fl v) d = (Inr (), d') \<Longrightarrow> \<forall>a\<in>set as. internal d a"
proof (induction as arbitrary: d)
  case (Cons a as)
  then obtain d1 where a: "require_internal fl v a d = (Inr (), d1)"
    and as: "tx_for as (require_internal fl v) d1 = (Inr (), d')" by (auto simp: tx_inr)
  from checked_internal[OF a] Cons.IH[OF as] show ?case by simp
qed simp

lemma pool_checked:
  assumes "pool_to_create fl v pool d = Some (Inr pool', d')" "\<forall>xs. set xs \<subseteq> set (ps_order v xs)"
  shows "\<forall>m\<in>static_members pool'. internal d (snd m)"
proof (cases "Pool_Type pool = POOL_TYPE_STATIC")
  case True
  with assms(1) have "tx_seq (tx_for (ps_order v (Pool_PoolAccounts pool)) (require_internal fl v)) (tx_return pool) d =
      (Inr pool', d')" by (simp add: pool_to_create_def)
  then obtain u d1 where c: "tx_for (ps_order v (Pool_PoolAccounts pool)) (require_internal fl v) d = (Inr u, d1)"
    and "tx_return pool d1 = (Inr pool', d')" unfolding tx_seq_Inr_iff by blast
  then have p: "pool' = pool" by simp
  have "set (Pool_PoolAccounts pool) \<subseteq> set (ps_order v (Pool_PoolAccounts pool))" using assms(2) by blast
  then have "\<forall>a\<in>set (Pool_PoolAccounts pool). internal d a" using checked_all_internal[of _ fl v d d1] c by auto
  with True show ?thesis by (simp add: p static_members_def)
next
  case False
  with assms(1) have "Pool_Type pool' \<noteq> POOL_TYPE_STATIC"
    by (auto simp: pool_to_create_def loop_bind_def split: if_splits option.splits prod.splits sum.splits)
  then show ?thesis by (simp add: static_members_def)
qed

lemma may_join_internal: "account_may_join fl v i a d = (Inr (), d') \<Longrightarrow> internal d a"
  by (auto simp: account_may_join_def tx_inr dest: checked_internal)

text \<open>Checks only read; so a request the engine performs in one go is such a run.\<close>

lemma accounts_loop_reads: "accounts_loop wrap fl v q res d = Some y \<Longrightarrow> snd y = d"
proof (induction rule: accounts_loop.raw_induct[rotated, consumes 1, case_names step])
  case (step f wrap fl v q res d y)
  have "d' = d" if "AccountsList fl v q d = (r, d')" for r d'
    using that by (auto simp: AccountsList_def stmt_def split: sum.splits option.splits)
  with step show ?case
    by (auto simp: Let_def split: prod.splits sum.splits option.splits)
qed

lemma populate_reads: "populatePoolAccounts wrap fl v pool d = Some (r, d') \<Longrightarrow> d' = d"
  by (auto simp: populatePoolAccounts_def split: sum.splits dest: accounts_loop_reads)

lemma require_internal_reads: "keeps P (require_internal fl v a)"
  unfolding require_internal_def AccountsGet_def
  by (intro keeps_intros keepsI) (auto simp: refuse_def split: option.splits)

lemma account_may_join_reads: "keeps P (account_may_join fl v i a)"
  unfolding account_may_join_def require_pool_type_def by (intro keeps_intros require_internal_reads)

lemma pool_to_create_reads:
  assumes "pool_to_create fl v pool d = Some (r, d')"
  shows "d' = d"
proof -
  have "keeps (\<lambda>s. s = d) (tx_seq (tx_for (ps_order v (Pool_PoolAccounts pool)) (require_internal fl v)) (tx_return pool))"
    by (intro keeps_intros require_internal_reads)
  from keepsD[OF this refl] assms show ?thesis
    by (auto simp: pool_to_create_def engine_populatePoolAccounts_def loop_bind_def
        split: if_splits option.splits prod.splits sum.splits dest: populate_reads)
qed

lemma engine_requests_are_runs:
  "engine_CreatePool fl v pool d = Some (r, d') \<Longrightarrow> pools_run v d d'"
  "AddAccountToPool fl v i a d = (r, d') \<Longrightarrow> pools_run v d d'"
proof -
  assume "engine_CreatePool fl v pool d = Some (r, d')"
  then show "pools_run v d d'"
    using pool_to_create_reads[of fl v pool d]
    by (auto simp: engine_CreatePool_def loop_bind_def split: option.splits prod.splits sum.splits
        intro: start create[OF start _ start])
next
  assume run: "AddAccountToPool fl v i a d = (r, d')"
  obtain r1 d1 where join: "account_may_join fl v i a d = (r1, d1)" by fastforce
  have "d1 = d" using keepsD[OF account_may_join_reads[where P = "\<lambda>s. s = d"] refl join] .
  with run join show "pools_run v d d'"
    by (cases r1) (auto simp: AddAccountToPool_def tx_seq_def tx_bind_def intro: start add[OF start _ start])
qed

lemma members_internal_same:
  "members_internal d \<Longrightarrow> members d' \<subseteq> members d \<Longrightarrow> (\<And>a. internal d a \<Longrightarrow> internal d' a) \<Longrightarrow> members_internal d'"
  by (auto simp: members_internal_def)

lemma members_connector: "PoolsRemoveAccountsFromConnectorID fl c d = (r, d') \<Longrightarrow> members d' \<subseteq> members d"
  by (auto simp: PoolsRemoveAccountsFromConnectorID_def stmt_def members_def delete_where_def split: option.splits)

lemma refined_members:
  assumes "refines_members operation abstract" "operation fl d = (r, d')"
  shows "members d' = members d \<or> members d' = abstract (members d)"
  using refines_members.refused[OF assms(1)] refines_members.performed[OF assms(1)] assms(2) by (cases r) blast+

lemma members_internal_fewer:
  assumes "members_internal d" "members d' \<subseteq> members d" "accounts d' = accounts d"
  shows "members_internal d'"
  using assms(1,2) unfolding members_internal_def internal_def assms(3) by blast

text \<open>C18: reports of accounts and requests on pools in any interleaving, with any faults, the
  checks of a request done in an earlier state than its writing: when every member of a pool was
  a stored internal account, every member still is one at the end.  A request to
  add an account that is not stored as internal fails and changes nothing.\<close>

theorem pool_members_stay_internal:
  assumes "pools_run v d d'" "members_internal d" "\<forall>xs. set xs \<subseteq> set (ps_order v xs)"
  shows "members_internal d' \<and> (\<forall>fl i a. \<not> internal d' a \<longrightarrow> (\<exists>e. AddAccountToPool fl v i a d' = (Inl e, d')))"
proof
  show "members_internal d'"
    using assms(1,2)
  proof induction
    case (report d d1 fl as r d2)
    have kept: "internal d1 a \<Longrightarrow> internal d2 a" for a
      by (rule internal_kept[OF pools_run.report[OF pools_run.start report.hyps(2)]])
    show ?case
      by (rule members_internal_same[OF report.IH[OF report.prems] _ kept]) (simp_all add: report_accounts(2)[OF report.hyps(2)])
  next
    case (create d d1 fl pool pool' d1' d2 fl' r d3)
    have "internal d3 a" if "internal d2 a" for a
      using same_accounts[OF keeps_accounts_operations(1) create.hyps(4)] that by (simp add: internal_def)
    moreover have "\<forall>m\<in>static_members pool'. internal d2 (snd m)"
      using pool_checked[OF create.hyps(2) assms(3)] internal_kept[OF create.hyps(3)] by blast
    moreover have "members d3 \<subseteq> members d2 \<union> static_members pool'"
      using refined_members[OF create_pool.refines_members_axioms create.hyps(4)] by blast
    ultimately show ?case using create.IH create.prems unfolding members_internal_def by blast
  next
    case (add d d1 fl i a d1' d2 fl' r d3)
    have "internal d3 a" if "internal d2 a" for a
      using same_accounts[OF keeps_accounts_operations(2) add.hyps(4)] that by (simp add: internal_def)
    moreover have a: "internal d2 a" using may_join_internal[OF add.hyps(2)] internal_kept[OF add.hyps(3)] by blast
    moreover have "members d3 \<subseteq> insert (i, a) (members d2)"
      using refined_members[OF add_account.refines_members_axioms add.hyps(4)] by blast
    moreover have "internal d2 (snd m)" if "m \<in> insert (i, a) (members d2)" for m
      using that a add.IH add.prems by (auto simp: members_internal_def)
    ultimately show ?case unfolding members_internal_def by blast
  next
    case (remove d d1 fl i a r d2)
    have "members d2 \<subseteq> members d1"
      using refined_members[OF remove_account.refines_members_axioms remove.hyps(2)] by blast
    then show ?case
      by (rule members_internal_fewer[OF remove.IH[OF remove.prems] _ same_accounts[OF keeps_accounts_operations(3) remove.hyps(2)]])
  next
    case (delete d d1 fl i rb d2)
    have "members d2 \<subseteq> members d1"
      using refined_members[OF delete_pool.refines_members_axioms delete.hyps(2)] by blast
    then show ?case
      by (rule members_internal_fewer[OF delete.IH[OF delete.prems] _ same_accounts[OF keeps_accounts_operations(4) delete.hyps(2)]])
  next
    case (query d d1 fl p q r d2)
    have "members d2 \<subseteq> members d1"
      using refined_members[OF update_query.refines_members_axioms query.hyps(2)] by blast
    then show ?case
      by (rule members_internal_fewer[OF query.IH[OF query.prems] _ same_accounts[OF keeps_accounts_operations(5) query.hyps(2)]])
  next
    case (connector d d1 fl c r d2)
    show ?case
      by (rule members_internal_fewer[OF connector.IH[OF connector.prems] members_connector[OF connector.hyps(2)]
            same_accounts[OF keeps_accounts_operations(6) connector.hyps(2)]])
  qed
  have "\<exists>e. AddAccountToPool fl v i a d' = (Inl e, d')" if "\<not> internal d' a" for fl i a
    using that by (auto simp: AddAccountToPool_def account_may_join_def require_internal_def AccountsGet_def
        stmt_def refuse_def internal_def toAccountModels_def tx_bind_def tx_seq_def split: option.splits)
  then show "\<forall>fl i a. \<not> internal d' a \<longrightarrow> (\<exists>e. AddAccountToPool fl v i a d' = (Inl e, d'))" by blast
qed

definition ex_pools :: pools_svc where
  "ex_pools = \<lparr>ps_env = ex_env, ps_marshal = (\<lambda>_. Inr ''type is internal''),
     ps_parse = (\<lambda>_. Inr (Some (\<lambda>context. context ''type'' ''$match'' (JString ''INTERNAL'')))),
     ps_compare = (\<lambda>key operator value r. key = ''type'' \<and> operator = ''$match'' \<and> value = JString (account_type r)),
     ps_pager = (\<lambda>o' n rs. (take n (drop o' rs), if o' + n < length rs then Some (o' + n) else None)),
     ps_order = rev\<rparr>"

definition ex_with_account :: db where
  "ex_with_account = snd (AccountsUpsert ex_env no_faults [ex_account] ex_db)"

definition ex_pool :: "PoolType \<Rightarrow> Pool" where
  "ex_pool t = \<lparr>Pool_ID = 7, Pool_Name = ''treasury'', Pool_CreatedAt = 1, Pool_Type = t, Pool_Query = JNull,
     Pool_PoolAccounts = [Account_ID ex_account]\<rparr>"

definition ex_with_pool :: "PoolType \<Rightarrow> db" where
  "ex_with_pool t = snd (PoolsUpsert ex_env no_faults (ex_pool t) ex_with_account)"

lemma ex_pool_run: "pools_run ex_pools ex_db (ex_with_pool POOL_TYPE_STATIC)"
proof -
  have "AccountsUpsert (ps_env ex_pools) no_faults [ex_account] ex_db =
      (fst (AccountsUpsert ex_env no_faults [ex_account] ex_db), ex_with_account)"
    by (simp add: ex_with_account_def ex_pools_def)
  note account = pools_run.report[OF pools_run.start this]
  have ok: "is_ok (fst (tx_for [Account_ID ex_account] (require_internal no_faults ex_pools) ex_with_account))"
    by code_simp
  obtain u d1 where run: "tx_for [Account_ID ex_account] (require_internal no_faults ex_pools) ex_with_account =
      (u, d1)" by fastforce
  from ok have "is_ok u" unfolding run fst_conv .
  then have "u = Inr ()" by (cases u) simp_all
  with run have "pool_to_create no_faults ex_pools (ex_pool POOL_TYPE_STATIC) ex_with_account =
      Some (Inr (ex_pool POOL_TYPE_STATIC), d1)"
    by (simp add: pool_to_create_def ex_pool_def ex_pools_def tx_seq_def tx_bind_def)
  moreover have "PoolsUpsert (ps_env ex_pools) no_faults (ex_pool POOL_TYPE_STATIC) ex_with_account =
      (fst (PoolsUpsert ex_env no_faults (ex_pool POOL_TYPE_STATIC) ex_with_account), ex_with_pool POOL_TYPE_STATIC)"
    by (simp add: ex_with_pool_def ex_pools_def)
  ultimately show ?thesis by (rule pools_run.create[OF account _ pools_run.start])
qed

lemma pool_members_stay_internal_witness:
  "(7, Account_ID ex_account) \<in> members (ex_with_pool POOL_TYPE_STATIC) \<and>
   internal (ex_with_pool POOL_TYPE_STATIC) (Account_ID ex_account)"
proof -
  have "members_internal ex_db" by (simp add: members_internal_def members_def ex_db_def empty_db_def)
  moreover have "\<forall>xs. set xs \<subseteq> set (ps_order ex_pools xs)" by (simp add: ex_pools_def)
  ultimately have "members_internal (ex_with_pool POOL_TYPE_STATIC)"
    using pool_members_stay_internal[OF ex_pool_run] by blast
  moreover have "(7, Account_ID ex_account) \<in> members (ex_with_pool POOL_TYPE_STATIC)" by code_simp
  ultimately show ?thesis unfolding members_internal_def by fastforce
qed

section \<open>The balance of a pool\<close>

text \<open>Its accounts: those of a static pool are its members, those of a dynamic one satisfy its condition.\<close>

definition current_accounts :: "(account_row \<Rightarrow> bool) \<Rightarrow> db \<Rightarrow> pool_row \<Rightarrow> AccountID set" where
  "current_accounts p d r =
     (if pool_type r = POOL_TYPE_DYNAMIC then account_id ` {a \<in> set (accounts d). p a}
      else {a. (pool_id r, a) \<in> members d})"

lemma if_returns: "f d \<noteq> None \<Longrightarrow> g d \<noteq> None \<Longrightarrow> (if b then f else g) d \<noteq> None"
  by simp

lemma service_PoolsGet_returns:
  "offset_pager (ps_pager v) \<Longrightarrow> service_PoolsGet fl v i d \<noteq> None"
  unfolding service_PoolsGet_def service_populatePoolAccounts_def
  by (intro loop_bind_returns loop_of_returns if_returns loop_error_returns populate_returns)

lemma service_PoolsGet_value:
  assumes "offset_pager (ps_pager v)" "lookup_row pool_id i (pools d) = Some r"
    "pool_type r = POOL_TYPE_DYNAMIC \<longrightarrow> pool_condition v (pool_query r) = Inr p"
  shows "\<exists>pool. service_PoolsGet no_faults v i d = Some (Inr pool, d) \<and>
    set (Pool_PoolAccounts pool) = current_accounts p d r"
proof -
  let ?pool = "toPoolModel r (filter (\<lambda>a. pac_pool_id a = i) (pool_accounts d))"
  have get: "svc_storage ''cannot get pool'' (PoolsGet no_faults i) d = (Inr ?pool, d)"
    using assms(2) by (simp add: svc_storage_def PoolsGet_def stmt_def no_faults_def)
  have i: "pool_id r = i" using assms(2) by (auto dest: lookup_row_SomeD)
  show ?thesis
  proof (cases "pool_type r = POOL_TYPE_DYNAMIC")
    case True
    have "service_populatePoolAccounts no_faults v ?pool d = Some (Inr (map account_id (selected_accounts p d)), d)"
      unfolding service_populatePoolAccounts_def
      by (rule populate_value[OF assms(1)]) (use assms(3) True in \<open>simp_all add: no_faults_def toPoolModel_def\<close>)
    with True get show ?thesis
      by (simp add: service_PoolsGet_def toPoolModel_def loop_bind_def loop_error_def current_accounts_def
          selected_accounts_def)
  next
    case False
    with get i show ?thesis
      by (auto simp: service_PoolsGet_def toPoolModel_def current_accounts_def members_key intro!: rev_image_eqI)
  qed
qed

text \<open>C17: reading the balances of a pool always returns, whatever fails.  When nothing
  fails, each asset held by one of its accounts appears once, with the sum of the latest
  balances of its accounts in this asset: the members of a static pool, the
  accounts that satisfy the query now, on however many pages, of a dynamic one.  Nothing is changed.\<close>

theorem pool_balance_is_sum:
  assumes "offset_pager (ps_pager v)" "lookup_row pool_id i (pools d) = Some r"
    "pool_type r = POOL_TYPE_DYNAMIC \<longrightarrow> pool_condition v (pool_query r) = Inr p"
  shows "(\<forall>fl. service_PoolsBalances fl v i d \<noteq> None) \<and>
    (\<exists>res. service_PoolsBalances no_faults v i d = Some (Inr res, d) \<and>
      distinct (map AggregatedBalance_Asset res) \<and>
      AggregatedBalance_Asset ` set res =
        {x. \<exists>a\<in>current_accounts p d r. last_balance (a, x) (balances d) \<noteq> None} \<and>
      (\<forall>b\<in>set res. AggregatedBalance_Amount b =
        (\<Sum>a\<in>current_accounts p d r. latest_amount d a (AggregatedBalance_Asset b))))"
proof -
  obtain pool where pool: "service_PoolsGet no_faults v i d = Some (Inr pool, d)"
    "set (Pool_PoolAccounts pool) = current_accounts p d r"
    using service_PoolsGet_value[OF assms] by blast
  have "service_PoolsBalances fl v i d \<noteq> None" for fl
    unfolding service_PoolsBalances_def
    by (intro loop_bind_returns loop_of_returns service_PoolsGet_returns assms(1))
  moreover obtain res where res: "BalancesGetFromAccountIDs no_faults (Pool_PoolAccounts pool) None d = (Inr res, d)"
    "distinct (map AggregatedBalance_Asset res)"
    "AggregatedBalance_Asset ` set res = {x. \<exists>a\<in>current_accounts p d r. last_balance (a, x) (balances d) \<noteq> None}"
    "\<forall>b\<in>set res. AggregatedBalance_Amount b =
      (\<Sum>a\<in>current_accounts p d r. latest_amount d a (AggregatedBalance_Asset b))"
    using BalancesGet_sums[of "Pool_PoolAccounts pool" d] unfolding pool(2) by blast
  moreover from res(1) pool(1) have "service_PoolsBalances no_faults v i d = Some (Inr res, d)"
    by (simp add: service_PoolsBalances_def loop_bind_def svc_storage_def)
  ultimately show ?thesis by blast
qed

lemma pool_balance_is_sum_witness:
  "\<exists>res. service_PoolsBalances no_faults ex_pools 7 (ex_with_pool POOL_TYPE_DYNAMIC) =
     Some (Inr res, ex_with_pool POOL_TYPE_DYNAMIC)"
proof -
  have "offset_pager (ps_pager ex_pools)" by (simp add: offset_pager_def ex_pools_def)
  moreover have "has_key pool_id 7 (pools (ex_with_pool POOL_TYPE_DYNAMIC))" by code_simp
  then obtain r where "lookup_row pool_id 7 (pools (ex_with_pool POOL_TYPE_DYNAMIC)) = Some r"
    using lookup_row_present[of pool_id 7 "pools (ex_with_pool POOL_TYPE_DYNAMIC)"] by blast
  moreover have "pool_condition ex_pools q = Inr (ps_compare ex_pools ''type'' ''$match'' (JString ''INTERNAL''))" for q
    by (simp add: pool_condition_def accounts_where_def ex_pools_def accountsQueryContext_def account_columns_def)
  ultimately show ?thesis using pool_balance_is_sum[of ex_pools 7 "ex_with_pool POOL_TYPE_DYNAMIC"] by blast
qed

end
