(* ===== verification/Polling.thy ===== *)
theory Polling
  imports Initiations_Workflows Orders_Proofs Retries
begin

text \<open>
  internal/connectors/engine/workflow: what the workflows that fetch from a
  provider share.  Their parameters and state; activities that Temporal repeats;
  goroutines of a workflow, whose activities interleave; the tasks that follow an
  item (plugin_workflow.go, connector_state.go); instances (instances.go); the
  loop over pages.  Of the branches on workflow.GetVersion the newest version is
  modelled, the one every new execution takes.
\<close>

section \<open>Requests\<close>

record FromPayload =
  FromPayload_ID :: string
  FromPayload_Payload :: "string option"

definition GetPayload :: "FromPayload option \<Rightarrow> string option" where
  "GetPayload f = (case f of None \<Rightarrow> None | Some g \<Rightarrow> FromPayload_Payload g)"

text \<open>
  FetchNextAccounts, FetchNextExternalAccounts, FetchNextPayments,
  FetchNextBalances, FetchNextOrders and FetchNextConversions have the same fields.
\<close>

record FetchNext =
  FetchNext_ConnectorID :: ConnectorID
  FetchNext_FromPayload :: "FromPayload option"
  FetchNext_Periodically :: bool

record FetchNextOthers = FetchNext +
  FetchNextOthers_Name :: string

record CreateWebhooks =
  CreateWebhooks_ConnectorID :: ConnectorID
  CreateWebhooks_FromPayload :: "FromPayload option"

text \<open>A workflow with its request, as Temporal is asked to run it.\<close>

datatype next_workflow =
    RunFetchNextAccounts FetchNext
  | RunFetchNextExternalAccounts FetchNext
  | RunFetchNextOthers FetchNextOthers
  | RunFetchNextPayments FetchNext
  | RunFetchNextBalances FetchNext
  | RunFetchNextOrders FetchNext
  | RunFetchNextConversions FetchNext
  | RunCreateWebhooks CreateWebhooks

section \<open>Capabilities\<close>

datatype Capability =
    CAPABILITY_FETCH_UNKNOWN | CAPABILITY_FETCH_ACCOUNTS | CAPABILITY_FETCH_BALANCES
  | CAPABILITY_FETCH_EXTERNAL_ACCOUNTS | CAPABILITY_FETCH_PAYMENTS | CAPABILITY_FETCH_OTHERS
  | CAPABILITY_FETCH_ORDERS | CAPABILITY_FETCH_CONVERSIONS | CAPABILITY_CREATE_WEBHOOKS
  | CAPABILITY_TRANSLATE_WEBHOOKS | CAPABILITY_CREATE_BANK_ACCOUNT | CAPABILITY_CREATE_TRANSFER
  | CAPABILITY_CREATE_PAYOUT | CAPABILITY_ALLOW_FORMANCE_ACCOUNT_CREATION
  | CAPABILITY_ALLOW_FORMANCE_PAYMENT_CREATION

fun Capability_String :: "Capability \<Rightarrow> string" where
  "Capability_String CAPABILITY_FETCH_ACCOUNTS = ''FETCH_ACCOUNTS''"
| "Capability_String CAPABILITY_FETCH_BALANCES = ''FETCH_BALANCES''"
| "Capability_String CAPABILITY_FETCH_EXTERNAL_ACCOUNTS = ''FETCH_EXTERNAL_ACCOUNTS''"
| "Capability_String CAPABILITY_FETCH_PAYMENTS = ''FETCH_PAYMENTS''"
| "Capability_String CAPABILITY_FETCH_OTHERS = ''FETCH_OTHERS''"
| "Capability_String CAPABILITY_FETCH_ORDERS = ''FETCH_ORDERS''"
| "Capability_String CAPABILITY_FETCH_CONVERSIONS = ''FETCH_CONVERSIONS''"
| "Capability_String CAPABILITY_CREATE_WEBHOOKS = ''CREATE_WEBHOOKS''"
| "Capability_String CAPABILITY_TRANSLATE_WEBHOOKS = ''TRANSLATE_WEBHOOKS''"
| "Capability_String CAPABILITY_CREATE_BANK_ACCOUNT = ''CREATE_BANK_ACCOUNT''"
| "Capability_String CAPABILITY_CREATE_TRANSFER = ''CREATE_TRANSFER''"
| "Capability_String CAPABILITY_CREATE_PAYOUT = ''CREATE_PAYOUT''"
| "Capability_String CAPABILITY_ALLOW_FORMANCE_ACCOUNT_CREATION = ''ALLOW_FORMANCE_ACCOUNT_CREATION''"
| "Capability_String CAPABILITY_ALLOW_FORMANCE_PAYMENT_CREATION = ''ALLOW_FORMANCE_PAYMENT_CREATION''"
| "Capability_String CAPABILITY_FETCH_UNKNOWN = ''UNKNOWN''"

section \<open>Parameters and state\<close>

text \<open>What a plugin is asked and what it answers; the others of a plugin carry an identifier.\<close>

record fetch_request =
  fetch_Name :: string
  fetch_FromPayload :: "string option"
  fetch_State :: "string option"
  fetch_PageSize :: int

record 'a page_response =
  response_Items :: "'a list"
  response_NewState :: "string option"
  response_HasMore :: bool

record payments_response = "PSPPayment page_response" +
  response_PaymentsToDelete :: "string list"

record PSPOther =
  PSPOther_ID :: string
  PSPOther_Other :: "string option"

record webhooks_response =
  webhooks_Configs :: "PSPWebhookConfig list"
  webhooks_Others :: "PSPOther list"

text \<open>
  What a run takes from outside.  A position (nat list) names a point of the run:
  the page, then the goroutine, then the task.  pol_tries are the faults of the
  earlier attempts of an activity and of its last one; pol_connector is
  connectors.Get with IsScheduledForDeletion; pol_config_period is json.Unmarshal
  of a configuration over the default one; pol_attributes are the search
  attributes of the run; pol_order is the order in which Temporal lets the
  goroutines of a page take their next activity; pol_continue says whether
  Temporal suggests to continue as new after a page.  The plugin's answers
  include connectors.Get in the activity.
\<close>

record polling =
  pol_env :: env
  pol_stack :: string
  pol_now :: "nat list \<Rightarrow> string \<Rightarrow> time"
  pol_tries :: "nat list \<Rightarrow> string \<Rightarrow> faults list \<times> faults"
  pol_state_text :: "StateID \<Rightarrow> string"
  pol_page_size :: "string \<Rightarrow> int result"
  pol_retry_delay :: int
  pol_connector :: "nat \<Rightarrow> ConnectorID \<Rightarrow> bool result"
  pol_default_period :: int
  pol_config_period :: "string \<Rightarrow> int result"
  pol_attributes :: "(string \<Rightarrow> json result option) option"
  pol_execution :: string
  pol_schedule :: "nat list \<Rightarrow> string \<Rightarrow> error option"
  pol_start :: "nat list \<Rightarrow> next_workflow \<Rightarrow> error option"
  pol_continue :: "nat \<Rightarrow> bool"
  pol_order :: "nat \<Rightarrow> nat list"
  pol_marshal_account :: "PSPAccount \<Rightarrow> string result"
  pol_marshal_payment :: "PSPPayment \<Rightarrow> string result"
  pol_marshal_balance :: "PSPBalance \<Rightarrow> string result"
  pol_accounts :: "nat \<Rightarrow> ConnectorID \<Rightarrow> fetch_request \<Rightarrow> PSPAccount page_response result"
  pol_external_accounts :: "nat \<Rightarrow> ConnectorID \<Rightarrow> fetch_request \<Rightarrow> PSPAccount page_response result"
  pol_payments :: "nat \<Rightarrow> ConnectorID \<Rightarrow> fetch_request \<Rightarrow> payments_response result"
  pol_balances :: "nat \<Rightarrow> ConnectorID \<Rightarrow> fetch_request \<Rightarrow> PSPBalance page_response result"
  pol_orders :: "nat \<Rightarrow> ConnectorID \<Rightarrow> fetch_request \<Rightarrow> PSPOrder page_response result"
  pol_conversions :: "nat \<Rightarrow> ConnectorID \<Rightarrow> fetch_request \<Rightarrow> PSPConversion page_response result"
  pol_others :: "nat \<Rightarrow> ConnectorID \<Rightarrow> fetch_request \<Rightarrow> PSPOther page_response result"
  pol_webhooks :: "ConnectorID \<Rightarrow> string \<Rightarrow> string option \<Rightarrow> webhooks_response result"
  pol_webhook_url :: "ConnectorID \<Rightarrow> string result"

text \<open>A schedule of Temporal: what it starts, how often.\<close>

record temporal_schedule =
  ts_ID :: string
  ts_Jitter :: int
  ts_Every :: int
  ts_Workflow :: next_workflow
  ts_NextTasks :: "ConnectorTaskTree list"

record psys =
  ps_db :: db
  ps_schedules :: "temporal_schedule list"
  ps_children :: "(next_workflow \<times> ConnectorTaskTree list) list"

section \<open>Activities\<close>

text \<open>
  A storage activity with unlimited retries: the attempts before the last one
  leave what they leave; the last answers.
\<close>

definition durable :: "polling \<Rightarrow> nat list \<Rightarrow> string \<Rightarrow> (faults \<Rightarrow> (db, 'a) tx) \<Rightarrow> (psys, 'a) tx" where
  "durable p at name op = (\<lambda>s. let (fls, fl) = pol_tries p at name in
     case op fl (attempts op fls (ps_db s)) of
       (Inl err, d) \<Rightarrow> (Inl (the (temporalStorageError (Some err))), s\<lparr>ps_db := d\<rparr>)
     | (Inr a, d) \<Rightarrow> (Inr a, s\<lparr>ps_db := d\<rparr>))"

text \<open>An activity that calls the plugin leaves the state of the system alone.\<close>

definition plugin_activity :: "polling \<Rightarrow> bool \<Rightarrow> 'a result \<Rightarrow> (psys, 'a) tx" where
  "plugin_activity p periodic answer = (case answer of
     Inl err \<Rightarrow> tx_fail (temporalPluginErrorCheck (pol_retry_delay p) err periodic)
   | Inr a \<Rightarrow> tx_return a)"

definition StorageStatesGet :: "faults \<Rightarrow> StateID \<Rightarrow> (db, State) tx" where
  "StorageStatesGet fl i = (\<lambda>d. case StatesGet fl i d of
     (Inl err, d') \<Rightarrow>
       (if errors_Is err Storage_ErrNotFound
        then (Inr \<lparr>State_ID = i, State_ConnectorID = StateID_ConnectorID i, State_State = None\<rparr>, d')
        else (Inl err, d'))
   | ok \<Rightarrow> ok)"

definition StoragePaymentInitiationUpdateFromPayment ::
  "env \<Rightarrow> faults \<Rightarrow> PaymentStatus \<Rightarrow> time \<Rightarrow> PaymentID \<Rightarrow> (db, unit) tx" where
  "StoragePaymentInitiationUpdateFromPayment env fl status createdAt paymentID =
     tx_bind (PaymentInitiationIDsListFromPaymentID fl paymentID)
       (\<lambda>piIDs. tx_for piIDs (\<lambda>piID.
          case FromPaymentDataToPaymentInitiationAdjustment status createdAt piID of
            None \<Rightarrow> tx_return ()
          | Some adjustment \<Rightarrow> PaymentInitiationAdjustmentsUpsert env fl adjustment))"

text \<open>The polling period of the configuration in the database, over the default one.\<close>

definition StorageConnectorsGetPollingPeriod :: "polling \<Rightarrow> faults \<Rightarrow> ConnectorID \<Rightarrow> (db, int result) tx" where
  "StorageConnectorsGetPollingPeriod p fl c =
     tx_bind (ConnectorsGet (pol_env p) fl c) (\<lambda>connector.
       tx_return (if Connector_Config connector = [] then Inr (pol_default_period p)
         else case pol_config_period p (Connector_Config connector) of
           Inl err \<Rightarrow> Inl (ApplicationError ErrTypeInvalidArgument ''invalid connector config'' True None (Some err))
         | Inr cfg \<Rightarrow> Inr cfg))"

definition connectorPollingPeriod :: "polling \<Rightarrow> nat list \<Rightarrow> ConnectorID \<Rightarrow> (psys, int) tx" where
  "connectorPollingPeriod p at c = tx_wrap ''getting connector polling period''
     (tx_bind (durable p at ''StorageConnectorsGetPollingPeriod''
         (\<lambda>fl. StorageConnectorsGetPollingPeriod p fl c)) tx_lift)"

text \<open>A schedule of that name that exists already is a success.\<close>

definition create_schedule :: "polling \<Rightarrow> nat list \<Rightarrow> temporal_schedule \<Rightarrow> (psys, unit) tx" where
  "create_schedule p at sch = (\<lambda>s.
     if ts_ID sch \<in> ts_ID ` set (ps_schedules s) then (Inr (), s)
     else case pol_schedule p at (ts_ID sch) of
       Some err \<Rightarrow> (Inl err, s)
     | None \<Rightarrow> (Inr (), s\<lparr>ps_schedules := ps_schedules s @ [sch]\<rparr>))"

text \<open>ExecuteChildWorkflow(..).GetChildWorkflowExecution(): it waits for the start only.\<close>

definition start_child ::
  "polling \<Rightarrow> nat list \<Rightarrow> next_workflow \<Rightarrow> ConnectorTaskTree list \<Rightarrow> (psys, unit) tx" where
  "start_child p at nextWorkflow nextTasks = (\<lambda>s. case pol_start p at nextWorkflow of
     Some err \<Rightarrow> (Inl err, s)
   | None \<Rightarrow> (Inr (), s\<lparr>ps_children := ps_children s @ [(nextWorkflow, nextTasks)]\<rparr>))"

section \<open>Goroutines\<close>

text \<open>
  A goroutine of a workflow runs until its next activity: it has ended, or its
  next activity leaves an error or the rest of the goroutine.
\<close>

datatype (dead 's) job = Finished | Activity "'s \<Rightarrow> (error + 's job) \<times> 's"

definition next_activity :: "('s, 'a) tx \<Rightarrow> ('a \<Rightarrow> 's job) \<Rightarrow> 's job" where
  "next_activity m k = Activity (\<lambda>s. case m s of
     (Inl err, s') \<Rightarrow> (Inl err, s') | (Inr a, s') \<Rightarrow> (Inr (k a), s'))"

primrec wrap_job :: "string \<Rightarrow> 's job \<Rightarrow> 's job" where
  "wrap_job msg Finished = Finished"
| "wrap_job msg (Activity f) = Activity (map_prod (map_sum (Wrap msg) (wrap_job msg)) id \<circ> f)"

text \<open>A goroutine that runs alone to its end.\<close>

primrec run_job :: "'s job \<Rightarrow> 's \<Rightarrow> unit result \<times> 's" where
  "run_job Finished = (\<lambda>s. (Inr (), s))"
| "run_job (Activity f) = (\<lambda>s. case (map_prod (map_sum id run_job) id \<circ> f) s of
     (Inl err, s') \<Rightarrow> (Inl err, s') | (Inr rest, s') \<Rightarrow> rest s')"

text \<open>
  The errors sent on the channel, in the order in which they are sent: first as
  Temporal chooses the goroutines, then whatever is left, one after the other.
\<close>

definition step_job :: "nat \<Rightarrow> 's job list \<Rightarrow> 's \<Rightarrow> error list \<times> 's job list \<times> 's" where
  "step_job i js s =
     (if i < length js then
        (case js ! i of
           Finished \<Rightarrow> ([], js, s)
         | Activity f \<Rightarrow>
             (case f s of
                (Inl err, s') \<Rightarrow> ([err], js[i := Finished], s')
              | (Inr j, s') \<Rightarrow> ([], js[i := j], s')))
      else ([], js, s))"

fun interleave :: "nat list \<Rightarrow> 's job list \<Rightarrow> 's \<Rightarrow> error list \<times> 's job list \<times> 's" where
  "interleave [] js s = ([], js, s)"
| "interleave (i # is) js s =
     (let (es, js', s') = step_job i js s; (es', js'', s'') = interleave is js' s' in (es @ es', js'', s''))"

fun run_jobs :: "'s job list \<Rightarrow> 's \<Rightarrow> error list \<times> 's" where
  "run_jobs [] s = ([], s)"
| "run_jobs (j # js) s =
     (let (r, s') = run_job j s; (es, s'') = run_jobs js s' in
      ((case r of Inl err \<Rightarrow> [err] | Inr u \<Rightarrow> []) @ es, s''))"

definition wait_all :: "nat list \<Rightarrow> 's job list \<Rightarrow> 's \<Rightarrow> error list \<times> 's" where
  "wait_all order js s =
     (let (es, js', s') = interleave order js s; (es', s'') = run_jobs js' s' in (es @ es', s''))"

section \<open>The tasks that follow\<close>

text \<open>time.Duration counts nanoseconds; its division truncates towards zero.\<close>

definition time_Minute :: int where "time_Minute = 60 * 1000000000"

definition calculateJitter :: "int \<Rightarrow> int" where
  "calculateJitter pollingPeriod =
     (let maxJitter = time_Minute * 5; jitter = sgn pollingPeriod * (\<bar>pollingPeriod\<bar> div 2) in
      if jitter \<le> maxJitter then jitter else maxJitter)"

definition fetchNextWorkflowScheduleID ::
  "string \<Rightarrow> string \<Rightarrow> string \<Rightarrow> FromPayload option \<Rightarrow> string" where
  "fetchNextWorkflowScheduleID stack connectorID capability fromPayload =
     (case fromPayload of
        None \<Rightarrow> stack @ ''-'' @ connectorID @ ''-'' @ capability
      | Some f \<Rightarrow> stack @ ''-'' @ connectorID @ ''-'' @ capability @ ''-'' @ FromPayload_ID f)"

text \<open>The switch over the type of a task: its workflow with its request, its capability.\<close>

definition next_of_task ::
  "ConnectorID \<Rightarrow> FromPayload option \<Rightarrow> ConnectorTaskTree \<Rightarrow> next_workflow \<times> Capability" where
  "next_of_task c fromPayload task =
     (let req = \<lparr>FetchNext_ConnectorID = c, FetchNext_FromPayload = fromPayload,
                 FetchNext_Periodically = TaskTree_Periodically task\<rparr> in
      case TaskTree_TaskType task of
        TASK_FETCH_ACCOUNTS \<Rightarrow> (RunFetchNextAccounts req, CAPABILITY_FETCH_ACCOUNTS)
      | TASK_FETCH_EXTERNAL_ACCOUNTS \<Rightarrow>
          (RunFetchNextExternalAccounts req, CAPABILITY_FETCH_EXTERNAL_ACCOUNTS)
      | TASK_FETCH_OTHERS \<Rightarrow>
          (RunFetchNextOthers
             \<lparr>FetchNext_ConnectorID = c, FetchNext_FromPayload = fromPayload,
              FetchNext_Periodically = TaskTree_Periodically task,
              FetchNextOthers_Name = TaskTree_Name task\<rparr>, CAPABILITY_FETCH_OTHERS)
      | TASK_FETCH_PAYMENTS \<Rightarrow> (RunFetchNextPayments req, CAPABILITY_FETCH_PAYMENTS)
      | TASK_FETCH_BALANCES \<Rightarrow> (RunFetchNextBalances req, CAPABILITY_FETCH_BALANCES)
      | TASK_FETCH_ORDERS \<Rightarrow> (RunFetchNextOrders req, CAPABILITY_FETCH_ORDERS)
      | TASK_FETCH_CONVERSIONS \<Rightarrow> (RunFetchNextConversions req, CAPABILITY_FETCH_CONVERSIONS)
      | TASK_CREATE_WEBHOOKS \<Rightarrow>
          (RunCreateWebhooks \<lparr>CreateWebhooks_ConnectorID = c, CreateWebhooks_FromPayload = fromPayload\<rparr>,
           CAPABILITY_CREATE_WEBHOOKS))"

definition task_schedule_id :: "polling \<Rightarrow> ConnectorID \<Rightarrow> FromPayload option \<Rightarrow> Capability \<Rightarrow> string" where
  "task_schedule_id p c fromPayload capability =
     fetchNextWorkflowScheduleID (pol_stack p) (env_connector_text (pol_env p) c)
       (Capability_String capability) fromPayload"

text \<open>Three activities, then what follows.\<close>

definition scheduleNextWorkflow ::
  "polling \<Rightarrow> nat list \<Rightarrow> ConnectorID \<Rightarrow> Capability \<Rightarrow> ConnectorTaskTree \<Rightarrow> FromPayload option \<Rightarrow>
     next_workflow \<Rightarrow> psys job \<Rightarrow> psys job" where
  "scheduleNextWorkflow p at c capability task fromPayload nextWorkflow rest =
     (let scheduleID = task_schedule_id p c fromPayload capability in
      next_activity (tx_wrap ''failed to schedule periodic task'' (durable p at ''StorageSchedulesStore'' (\<lambda>fl. SchedulesUpsert (pol_env p) fl
          \<lparr>Schedule_ID = scheduleID, Schedule_ConnectorID = c,
           Schedule_CreatedAt = pol_now p at ''schedule'',
           Schedule_PausedAt = None, Schedule_PausedReason = None\<rparr>))) (\<lambda>_.
      next_activity (tx_wrap ''failed to schedule periodic task'' (connectorPollingPeriod p at c)) (\<lambda>pollingPeriod.
      next_activity (tx_wrap ''failed to schedule periodic task'' (create_schedule p at
          \<lparr>ts_ID = scheduleID, ts_Jitter = calculateJitter pollingPeriod, ts_Every = pollingPeriod,
           ts_Workflow = nextWorkflow, ts_NextTasks = TaskTree_NextTasks task\<rparr>)) (\<lambda>_. rest))))"

primrec runNextTasksV3_1 ::
  "polling \<Rightarrow> nat list \<Rightarrow> ConnectorID \<Rightarrow> FromPayload option \<Rightarrow> ConnectorTaskTree list \<Rightarrow> psys job" where
  "runNextTasksV3_1 p at c fromPayload [] = Finished"
| "runNextTasksV3_1 p at c fromPayload (task # nextTasks) =
     (let (nextWorkflow, capability) = next_of_task c fromPayload task;
          here = at @ [length nextTasks];
          rest = runNextTasksV3_1 p at c fromPayload nextTasks in
      if TaskTree_Periodically task
      then scheduleNextWorkflow p here c capability task fromPayload nextWorkflow rest
      else next_activity (tx_wrap ''running next workflow''
             (start_child p here nextWorkflow (TaskTree_NextTasks task))) (\<lambda>_. rest))"

text \<open>The goroutine of an item: its payload, then the tasks.\<close>

definition item_job ::
  "polling \<Rightarrow> nat list \<Rightarrow> ConnectorID \<Rightarrow> ConnectorTaskTree list \<Rightarrow> string \<Rightarrow> string \<times> string option result \<Rightarrow>
     psys job" where
  "item_job p at c nextTasks msg item =
     next_activity (tx_wrap msg (tx_lift (snd item))) (\<lambda>payload.
       wrap_job ''running next tasks''
         (runNextTasksV3_1 p at c (Some \<lparr>FromPayload_ID = fst item, FromPayload_Payload = payload\<rparr>) nextTasks))"

definition item_jobs ::
  "polling \<Rightarrow> nat \<Rightarrow> ConnectorID \<Rightarrow> ConnectorTaskTree list \<Rightarrow> string \<Rightarrow>
     (string \<times> string option result) list \<Rightarrow> psys job list" where
  "item_jobs p k c nextTasks msg items =
     map (\<lambda>(i, item). item_job p [k, i] c nextTasks msg item) (enumerate 0 items)"

text \<open>Nothing to run without tasks, nothing is run for a connector that is being deleted.\<close>

definition next_task_jobs ::
  "polling \<Rightarrow> nat \<Rightarrow> ConnectorID \<Rightarrow> ConnectorTaskTree list \<Rightarrow> string \<Rightarrow>
     (string \<times> string option result) list \<Rightarrow> psys job list result" where
  "next_task_jobs p k c nextTasks msg items =
     (if nextTasks = [] then Inr []
      else case pol_connector p k c of
        Inl err \<Rightarrow> Inl (Wrap ''getting connector'' err)
      | Inr scheduledForDeletion \<Rightarrow>
          Inr (if scheduledForDeletion then [] else item_jobs p k c nextTasks msg items))"

end
