(* ===== verification/Polling_Workflows.thy ===== *)
theory Polling_Workflows
  imports Polling
begin

text \<open>
  internal/connectors/engine/workflow: fetch_accounts.go,
  fetch_external_accounts.go, fetch_payments.go, fetch_balances.go,
  fetch_orders.go, fetch_conversions.go, fetch_others.go, instances.go,
  create_webhooks.go and bootstrap_task.go.  Each workflow is the body of one page;
  the loop over pages and the instance around it are shared.
\<close>

section \<open>A page\<close>

text \<open>
  What is left of a page once its items are stored: the goroutines, the capacity
  of the channel for their errors, the next state, whether there is more.
\<close>

record page_plan =
  plan_jobs :: "psys job list"
  plan_capacity :: nat
  plan_NewState :: "string option"
  plan_HasMore :: bool

text \<open>
  PageBlocked: the goroutines send more errors than the channel holds; nobody
  receives before all of them are done, and the workflow stays there.
\<close>

datatype page_end = PageBlocked | PageFailed error | PageDone "string option" bool

definition run_page ::
  "polling \<Rightarrow> nat \<Rightarrow> (psys, page_plan) tx \<Rightarrow> psys \<Rightarrow> page_end \<times> psys" where
  "run_page p k prepare s = (case prepare s of
     (Inl err, s') \<Rightarrow> (PageFailed err, s')
   | (Inr plan, s') \<Rightarrow>
       (case wait_all (pol_order p k) (plan_jobs plan) s' of
          ([], s'') \<Rightarrow> (PageDone (plan_NewState plan) (plan_HasMore plan), s'')
        | (err # errs, s'') \<Rightarrow>
            (if length (err # errs) > plan_capacity plan then PageBlocked else PageFailed err, s'')))"

text \<open>The translation of the items of a page; one that fails fails the page.\<close>

definition translated :: "string \<Rightarrow> 'a result \<Rightarrow> (psys, 'a) tx" where
  "translated msg r = (case r of
     Inl err \<Rightarrow> tx_fail (ApplicationError workflow_ErrValidation msg True None (Some err))
   | Inr a \<Rightarrow> tx_return a)"

definition fetch_request_of :: "string \<Rightarrow> FetchNext \<Rightarrow> int \<Rightarrow> string option \<Rightarrow> fetch_request" where
  "fetch_request_of name req pageSize cursor =
     \<lparr>fetch_Name = name, fetch_FromPayload = GetPayload (FetchNext_FromPayload req),
      fetch_State = cursor, fetch_PageSize = pageSize\<rparr>"

section \<open>The pages of the workflows\<close>

definition accounts_page_of ::
  "polling \<Rightarrow> PSPAccount page_response result \<Rightarrow> AccountType \<Rightarrow> string \<Rightarrow>
     FetchNext \<Rightarrow> ConnectorTaskTree list \<Rightarrow> nat \<Rightarrow> (psys, page_plan) tx" where
  "accounts_page_of p answer accountType marshalling req nextTasks k =
     (let c = FetchNext_ConnectorID req in
      tx_bind (tx_wrap ''fetching next accounts'' (plugin_activity p (FetchNext_Periodically req) answer)) (\<lambda>response.
      tx_bind (translated ''failed to translate accounts'' (FromPSPAccounts (response_Items response) accountType c)) (\<lambda>accounts.
      tx_seq (tx_when (response_Items response \<noteq> [])
          (tx_wrap ''storing next accounts'' (durable p [k] ''StorageAccountsStore''
             (\<lambda>fl. AccountsUpsert (pol_env p) fl accounts))))
      (tx_bind (tx_lift (next_task_jobs p k c nextTasks marshalling
          (map (\<lambda>a. (PSPAccount_Reference a, map_sum id Some (pol_marshal_account p a)))
             (response_Items response)))) (\<lambda>jobs.
       tx_return \<lparr>plan_jobs = jobs, plan_capacity = length (response_Items response) * 2,
         plan_NewState = response_NewState response, plan_HasMore = response_HasMore response\<rparr>)))))"

definition accounts_page ::
  "polling \<Rightarrow> FetchNext \<Rightarrow> ConnectorTaskTree list \<Rightarrow> int \<Rightarrow> nat \<Rightarrow> string option \<Rightarrow> (psys, page_plan) tx" where
  "accounts_page p req nextTasks pageSize k cursor =
     accounts_page_of p (pol_accounts p k (FetchNext_ConnectorID req) (fetch_request_of [] req pageSize cursor))
       ACCOUNT_TYPE_INTERNAL ''marshalling account'' req nextTasks k"

definition external_accounts_page ::
  "polling \<Rightarrow> FetchNext \<Rightarrow> ConnectorTaskTree list \<Rightarrow> int \<Rightarrow> nat \<Rightarrow> string option \<Rightarrow> (psys, page_plan) tx" where
  "external_accounts_page p req nextTasks pageSize k cursor =
     accounts_page_of p
       (pol_external_accounts p k (FetchNext_ConnectorID req) (fetch_request_of [] req pageSize cursor))
       ACCOUNT_TYPE_EXTERNAL ''marshalling external account'' req nextTasks k"

text \<open>
  Per stored payment a goroutine that updates its initiations; per payment of the
  provider one with the next tasks; per payment to delete one that deletes it.
\<close>

definition update_initiation_job :: "polling \<Rightarrow> nat \<Rightarrow> nat \<times> Payment \<Rightarrow> psys job" where
  "update_initiation_job p k = (\<lambda>(i, x).
     next_activity (tx_wrap ''updating payment initiation from payment''
       (durable p [k, i] ''StoragePaymentInitiationUpdateFromPayment'' (\<lambda>fl.
          StoragePaymentInitiationUpdateFromPayment (pol_env p) fl (Payment_Status x) (Payment_CreatedAt x)
            (Payment_ID x)))) (\<lambda>_. Finished))"

definition delete_payment_job :: "polling \<Rightarrow> nat \<Rightarrow> ConnectorID \<Rightarrow> nat \<times> string \<Rightarrow> psys job" where
  "delete_payment_job p k c = (\<lambda>(i, reference).
     next_activity (tx_wrap ''deleting payment''
       (durable p [k, i] ''StoragePaymentsDeleteFromReference'' (\<lambda>fl.
          PaymentsDeleteFromReference (pol_env p) fl reference c))) (\<lambda>_. Finished))"

definition payments_page ::
  "polling \<Rightarrow> FetchNext \<Rightarrow> ConnectorTaskTree list \<Rightarrow> int \<Rightarrow> nat \<Rightarrow> string option \<Rightarrow> (psys, page_plan) tx" where
  "payments_page p req nextTasks pageSize k cursor =
     (let c = FetchNext_ConnectorID req in
      tx_bind (tx_wrap ''fetching next payments'' (plugin_activity p (FetchNext_Periodically req)
          (pol_payments p k c (fetch_request_of [] req pageSize cursor)))) (\<lambda>response.
      tx_bind (translated ''failed to translate psp payments''
          (FromPSPPayments (response_Items response) c)) (\<lambda>payments.
      tx_seq (tx_when (payments \<noteq> [])
          (tx_wrap ''storing next payments'' (durable p [k] ''StoragePaymentsStore''
             (\<lambda>fl. PaymentsUpsert (pol_env p) fl payments))))
      (tx_bind (tx_lift (next_task_jobs p k c nextTasks ''marshalling payment''
          (map (\<lambda>x. (PSPPayment_Reference x, map_sum id Some (pol_marshal_payment p x)))
             (response_Items response)))) (\<lambda>jobs.
       tx_return
         \<lparr>plan_jobs = map (update_initiation_job p k) (enumerate 0 payments) @ jobs @
            map (delete_payment_job p k c) (enumerate 0 (response_PaymentsToDelete response)),
          plan_capacity = length (response_Items response) * 3,
          plan_NewState = response_NewState response, plan_HasMore = response_HasMore response\<rparr>)))))"

text \<open>connectors.Get is called whether there are next tasks or not.\<close>

definition balances_page ::
  "polling \<Rightarrow> FetchNext \<Rightarrow> ConnectorTaskTree list \<Rightarrow> int \<Rightarrow> nat \<Rightarrow> string option \<Rightarrow> (psys, page_plan) tx" where
  "balances_page p req nextTasks pageSize k cursor =
     (let c = FetchNext_ConnectorID req in
      tx_bind (tx_wrap ''fetching next balances'' (plugin_activity p (FetchNext_Periodically req)
          (pol_balances p k c (fetch_request_of [] req pageSize cursor)))) (\<lambda>response.
      tx_bind (translated ''failed to translate psp balances''
          (FromPSPBalances (response_Items response) c None None)) (\<lambda>balances.
      tx_seq (tx_when (response_Items response \<noteq> [])
          (tx_wrap ''storing next balances'' (durable p [k] ''StorageBalancesStore''
             (\<lambda>fl. BalancesUpsert (pol_env p) fl balances))))
      (tx_bind (tx_wrap ''getting connector'' (tx_lift (pol_connector p k c))) (\<lambda>scheduledForDeletion.
       tx_return
         \<lparr>plan_jobs = (if nextTasks = [] \<or> scheduledForDeletion then []
            else item_jobs p k c nextTasks ''marshalling balances''
              (map (\<lambda>b. (PSPBalance_AccountReference b @ ''-balances'', map_sum id Some (pol_marshal_balance p b)))
                 (response_Items response))),
          plan_capacity = length (response_Items response) * 2,
          plan_NewState = response_NewState response, plan_HasMore = response_HasMore response\<rparr>)))))"

text \<open>Orders and conversions have no tasks that follow.\<close>

definition no_jobs :: "'a page_response \<Rightarrow> page_plan" where
  "no_jobs response = \<lparr>plan_jobs = [], plan_capacity = 0,
     plan_NewState = response_NewState response, plan_HasMore = response_HasMore response\<rparr>"

definition orders_page ::
  "polling \<Rightarrow> FetchNext \<Rightarrow> ConnectorTaskTree list \<Rightarrow> int \<Rightarrow> nat \<Rightarrow> string option \<Rightarrow> (psys, page_plan) tx" where
  "orders_page p req nextTasks pageSize k cursor =
     (let c = FetchNext_ConnectorID req in
      tx_bind (tx_wrap ''fetching next orders'' (plugin_activity p (FetchNext_Periodically req)
          (pol_orders p k c (fetch_request_of [] req pageSize cursor)))) (\<lambda>response.
      tx_bind (translated ''failed to translate psp orders''
          (FromPSPOrders (response_Items response) c (pol_now p [k] ''orders''))) (\<lambda>os.
      tx_seq (tx_when (os \<noteq> [])
          (tx_wrap ''storing next orders'' (durable p [k] ''StorageOrdersUpsert''
             (\<lambda>fl. OrdersUpsert (pol_env p) fl os))))
       (tx_return (no_jobs response)))))"

definition conversions_page ::
  "polling \<Rightarrow> FetchNext \<Rightarrow> ConnectorTaskTree list \<Rightarrow> int \<Rightarrow> nat \<Rightarrow> string option \<Rightarrow> (psys, page_plan) tx" where
  "conversions_page p req nextTasks pageSize k cursor =
     (let c = FetchNext_ConnectorID req in
      tx_bind (tx_wrap ''fetching next conversions'' (plugin_activity p (FetchNext_Periodically req)
          (pol_conversions p k c (fetch_request_of [] req pageSize cursor)))) (\<lambda>response.
      tx_bind (translated ''failed to translate psp conversions''
          (FromPSPConversions (pol_now p [k] ''conversions'') (response_Items response) c)) (\<lambda>cs.
      tx_seq (tx_when (response_Items response \<noteq> [])
          (tx_wrap ''storing next conversions'' (durable p [k] ''StorageConversionsUpsert''
             (\<lambda>fl. ConversionsUpsert (pol_env p) fl cs))))
       (tx_return (no_jobs response)))))"

text \<open>The others of a plugin are not stored, only handed to the next tasks.\<close>

definition others_page ::
  "polling \<Rightarrow> FetchNextOthers \<Rightarrow> ConnectorTaskTree list \<Rightarrow> int \<Rightarrow> nat \<Rightarrow> string option \<Rightarrow> (psys, page_plan) tx" where
  "others_page p req nextTasks pageSize k cursor =
     (let c = FetchNext_ConnectorID req in
      tx_bind (tx_wrap ''fetching next others'' (plugin_activity p (FetchNext_Periodically req)
          (pol_others p k c (fetch_request_of (FetchNextOthers_Name req) (FetchNext.truncate req) pageSize cursor))))
        (\<lambda>response.
      tx_bind (tx_lift (next_task_jobs p k c nextTasks []
          (map (\<lambda>x. (PSPOther_ID x, Inr (PSPOther_Other x))) (response_Items response)))) (\<lambda>jobs.
       tx_return \<lparr>plan_jobs = jobs, plan_capacity = length (response_Items response),
         plan_NewState = response_NewState response, plan_HasMore = response_HasMore response\<rparr>)))"

section \<open>The loop over pages\<close>

text \<open>A workflow returns, asks Temporal to run it again from the start, or stays blocked.\<close>

datatype outcome = Returned "unit result" | ContinuedAsNew | Blocked

text \<open>
  From a state of the pagination: the page, then its new state is stored.  None:
  the provider always has more and the workflow never ends.
\<close>

partial_function (option) fetch_loop ::
  "polling \<Rightarrow> (nat \<Rightarrow> string option \<Rightarrow> (psys, page_plan) tx) \<Rightarrow> State \<Rightarrow> nat \<Rightarrow> psys \<Rightarrow>
     (outcome \<times> psys) option" where
  "fetch_loop p page st k s = (case run_page p k (page k (State_State st)) s of
     (PageBlocked, s') \<Rightarrow> Some (Blocked, s')
   | (PageFailed err, s') \<Rightarrow> Some (Returned (Inl err), s')
   | (PageDone newState hasMore, s') \<Rightarrow>
       (case tx_wrap ''storing state'' (durable p [k] ''StorageStatesStore''
               (\<lambda>fl. StatesUpsert (pol_env p) fl (st\<lparr>State_State := newState\<rparr>))) s' of
          (Inl err, s'') \<Rightarrow> Some (Returned (Inl err), s'')
        | (Inr u, s'') \<Rightarrow>
            if pol_continue p k then Some (ContinuedAsNew, s'')
            else if hasMore then fetch_loop p page (st\<lparr>State_State := newState\<rparr>) (Suc k) s''
            else Some (Returned (Inr ()), s'')))"

text \<open>
  The state of the pagination is kept per capability and item.  Most workflows
  format the error of reading it with %v, which keeps its text only.
\<close>

definition fetch_state_id :: "Capability \<Rightarrow> FromPayload option \<Rightarrow> ConnectorID \<Rightarrow> StateID" where
  "fetch_state_id capability fromPayload c =
     \<lparr>StateID_Reference = (case fromPayload of
          None \<Rightarrow> Capability_String capability
        | Some f \<Rightarrow> Capability_String capability @ ''-'' @ FromPayload_ID f),
      StateID_ConnectorID = c\<rparr>"

definition state_error :: "polling \<Rightarrow> bool \<Rightarrow> StateID \<Rightarrow> error \<Rightarrow> error" where
  "state_error p wrapped i err =
     (let msg = ''retrieving state '' @ pol_state_text p i in
      if wrapped then Wrap msg err else Plain (msg @ '': '' @ error_text err))"

definition fetch_pages ::
  "polling \<Rightarrow> bool \<Rightarrow> Capability \<Rightarrow> FromPayload option \<Rightarrow> ConnectorID \<Rightarrow>
     (int \<Rightarrow> nat \<Rightarrow> string option \<Rightarrow> (psys, page_plan) tx) \<Rightarrow> psys \<Rightarrow> (outcome \<times> psys) option" where
  "fetch_pages p wrapped capability fromPayload c page s =
     (let i = fetch_state_id capability fromPayload c in
      case durable p [] ''StorageStatesGet'' (\<lambda>fl. StorageStatesGet fl i) s of
        (Inl err, s') \<Rightarrow> Some (Returned (Inl (state_error p wrapped i err)), s')
      | (Inr st, s') \<Rightarrow>
          (case pol_page_size p (ConnectorID_Provider c) of
             Inl err \<Rightarrow> Some (Returned (Inl (Wrap ''getting page size'' err)), s')
           | Inr pageSize \<Rightarrow> fetch_loop p (page pageSize) st 0 s'))"

definition fetchAccounts ::
  "polling \<Rightarrow> FetchNext \<Rightarrow> ConnectorTaskTree list \<Rightarrow> psys \<Rightarrow> (outcome \<times> psys) option" where
  "fetchAccounts p req nextTasks =
     fetch_pages p False CAPABILITY_FETCH_ACCOUNTS (FetchNext_FromPayload req) (FetchNext_ConnectorID req)
       (accounts_page p req nextTasks)"

definition fetchExternalAccounts ::
  "polling \<Rightarrow> FetchNext \<Rightarrow> ConnectorTaskTree list \<Rightarrow> psys \<Rightarrow> (outcome \<times> psys) option" where
  "fetchExternalAccounts p req nextTasks =
     fetch_pages p False CAPABILITY_FETCH_EXTERNAL_ACCOUNTS (FetchNext_FromPayload req)
       (FetchNext_ConnectorID req) (external_accounts_page p req nextTasks)"

definition fetchNextPayments ::
  "polling \<Rightarrow> FetchNext \<Rightarrow> ConnectorTaskTree list \<Rightarrow> psys \<Rightarrow> (outcome \<times> psys) option" where
  "fetchNextPayments p req nextTasks =
     fetch_pages p False CAPABILITY_FETCH_PAYMENTS (FetchNext_FromPayload req) (FetchNext_ConnectorID req)
       (payments_page p req nextTasks)"

definition fetchBalances ::
  "polling \<Rightarrow> FetchNext \<Rightarrow> ConnectorTaskTree list \<Rightarrow> psys \<Rightarrow> (outcome \<times> psys) option" where
  "fetchBalances p req nextTasks =
     fetch_pages p False CAPABILITY_FETCH_BALANCES (FetchNext_FromPayload req) (FetchNext_ConnectorID req)
       (balances_page p req nextTasks)"

definition fetchOrders ::
  "polling \<Rightarrow> FetchNext \<Rightarrow> ConnectorTaskTree list \<Rightarrow> psys \<Rightarrow> (outcome \<times> psys) option" where
  "fetchOrders p req nextTasks =
     fetch_pages p True CAPABILITY_FETCH_ORDERS (FetchNext_FromPayload req) (FetchNext_ConnectorID req)
       (orders_page p req nextTasks)"

definition fetchConversions ::
  "polling \<Rightarrow> FetchNext \<Rightarrow> ConnectorTaskTree list \<Rightarrow> psys \<Rightarrow> (outcome \<times> psys) option" where
  "fetchConversions p req nextTasks =
     fetch_pages p True CAPABILITY_FETCH_CONVERSIONS (FetchNext_FromPayload req) (FetchNext_ConnectorID req)
       (conversions_page p req nextTasks)"

definition fetchNextOthers ::
  "polling \<Rightarrow> FetchNextOthers \<Rightarrow> ConnectorTaskTree list \<Rightarrow> psys \<Rightarrow> (outcome \<times> psys) option" where
  "fetchNextOthers p req nextTasks =
     fetch_pages p False CAPABILITY_FETCH_OTHERS (FetchNext_FromPayload req) (FetchNext_ConnectorID req)
       (others_page p req nextTasks)"

section \<open>Instances\<close>

datatype schedule_lookup = NotFromSchedule | ScheduleError error | FromSchedule string

text \<open>The attribute of the run that names its schedule; None is a missing or nil value.\<close>

definition getPaymentScheduleID :: "polling \<Rightarrow> schedule_lookup" where
  "getPaymentScheduleID p = (case pol_attributes p of
     None \<Rightarrow> NotFromSchedule
   | Some attributes \<Rightarrow>
       (case attributes ''PaymentScheduleID'' of
          None \<Rightarrow> NotFromSchedule
        | Some v \<Rightarrow>
            (case result_bind v json_to_string of
               Inl err \<Rightarrow> ScheduleError (Wrap ''unmarshalling schedule ID'' err)
             | Inr scheduleID \<Rightarrow> FromSchedule scheduleID)))"

definition createInstance :: "polling \<Rightarrow> ConnectorID \<Rightarrow> (psys, unit) tx" where
  "createInstance p c = (case getPaymentScheduleID p of
     NotFromSchedule \<Rightarrow> tx_return ()
   | ScheduleError err \<Rightarrow> tx_fail err
   | FromSchedule scheduleID \<Rightarrow>
       durable p [] ''StorageInstancesStore'' (\<lambda>fl. InstancesUpsert (pol_env p) fl
         \<lparr>Instance_ID = pol_execution p, Instance_ScheduleID = scheduleID, Instance_ConnectorID = c,
          Instance_CreatedAt = pol_now p [] ''create instance'',
          Instance_UpdatedAt = pol_now p [] ''create instance'',
          Instance_Terminated = False, Instance_TerminatedAt = None, Instance_Error = None\<rparr>))"

text \<open>
  The error a workflow ends with; continuing as new is one for Go, with this
  text.  selectError keeps it over an error of the update.
\<close>

fun terminate_error :: "outcome \<Rightarrow> string option" where
  "terminate_error (Returned (Inl err)) = Some (error_text err)"
| "terminate_error (Returned (Inr u)) = None"
| "terminate_error ContinuedAsNew = Some ''continue as new''"
| "terminate_error Blocked = None"

fun selectError :: "outcome \<Rightarrow> unit result \<Rightarrow> outcome" where
  "selectError (Returned (Inr u)) r = Returned r"
| "selectError err1 r = err1"

definition terminateInstance :: "polling \<Rightarrow> ConnectorID \<Rightarrow> outcome \<Rightarrow> psys \<Rightarrow> outcome \<times> psys" where
  "terminateInstance p c out s = (case getPaymentScheduleID p of
     NotFromSchedule \<Rightarrow> (selectError out (Inr ()), s)
   | ScheduleError err \<Rightarrow> (selectError out (Inl err), s)
   | FromSchedule scheduleID \<Rightarrow>
       (let now = pol_now p [] ''terminate instance'';
            (r, s') = durable p [] ''StorageInstancesUpdate'' (\<lambda>fl. InstancesUpdate (pol_env p) fl
              \<lparr>Instance_ID = pol_execution p, Instance_ScheduleID = scheduleID, Instance_ConnectorID = c,
               Instance_CreatedAt = 0, Instance_UpdatedAt = now,
               Instance_Terminated = True, Instance_TerminatedAt = Some now,
               Instance_Error = terminate_error out\<rparr>) s in
        (selectError out r, s')))"

text \<open>The body of every run: an instance around a workflow; a blocked one never gets to the end.\<close>

definition with_instance ::
  "polling \<Rightarrow> ConnectorID \<Rightarrow> (psys \<Rightarrow> (outcome \<times> psys) option) \<Rightarrow> psys \<Rightarrow> (outcome \<times> psys) option" where
  "with_instance p c body s = (case createInstance p c s of
     (Inl err, s') \<Rightarrow> Some (Returned (Inl (Wrap ''creating instance'' err)), s')
   | (Inr u, s') \<Rightarrow>
       (case body s' of
          None \<Rightarrow> None
        | Some (Blocked, s'') \<Rightarrow> Some (Blocked, s'')
        | Some (out, s'') \<Rightarrow> Some (terminateInstance p c out s'')))"

definition createWebhooks :: "polling \<Rightarrow> CreateWebhooks \<Rightarrow> ConnectorTaskTree list \<Rightarrow> (psys, page_plan) tx" where
  "createWebhooks p req nextTasks =
     (let c = CreateWebhooks_ConnectorID req in
      tx_bind (tx_wrap ''joining webhook base URL'' (tx_lift (pol_webhook_url p c))) (\<lambda>webhookBaseURL.
      tx_bind (tx_wrap ''failed to create webhooks'' (plugin_activity p False
          (pol_webhooks p c webhookBaseURL (GetPayload (CreateWebhooks_FromPayload req))))) (\<lambda>resp.
      tx_seq (tx_when (webhooks_Configs resp \<noteq> []) (tx_wrap ''storing webhooks''
          (durable p [] ''StorageWebhooksConfigsStore'' (\<lambda>fl. WebhooksConfigsUpsert fl
             (map (\<lambda>x. \<lparr>WebhookConfig_Name = PSPWebhookConfig_Name x, WebhookConfig_ConnectorID = c,
                 WebhookConfig_URLPath = PSPWebhookConfig_URLPath x, WebhookConfig_FullURL = [],
                 WebhookConfig_Metadata = PSPWebhookConfig_Metadata x\<rparr>) (webhooks_Configs resp))))))
      (tx_bind (tx_wrap ''getting connector'' (tx_lift (pol_connector p 0 c))) (\<lambda>scheduledForDeletion.
       tx_return
         \<lparr>plan_jobs = (if scheduledForDeletion then []
            else item_jobs p 0 c nextTasks [] (map (\<lambda>x. (PSPOther_ID x, Inr (PSPOther_Other x))) (webhooks_Others resp))),
          plan_capacity = length (webhooks_Others resp) * 2,
          plan_NewState = None, plan_HasMore = False\<rparr>)))))"

definition runCreateWebhooks ::
  "polling \<Rightarrow> CreateWebhooks \<Rightarrow> ConnectorTaskTree list \<Rightarrow> psys \<Rightarrow> (outcome \<times> psys) option" where
  "runCreateWebhooks p req nextTasks s = Some (case run_page p 0 (createWebhooks p req nextTasks) s of
     (PageBlocked, s') \<Rightarrow> (Blocked, s')
   | (PageFailed err, s') \<Rightarrow> (Returned (Inl err), s')
   | (PageDone newState hasMore, s') \<Rightarrow> (Returned (Inr ()), s'))"

text \<open>What Temporal runs for a workflow.\<close>

fun run_workflow :: "polling \<Rightarrow> next_workflow \<Rightarrow> ConnectorTaskTree list \<Rightarrow> psys \<Rightarrow> (outcome \<times> psys) option" where
  "run_workflow p (RunFetchNextAccounts req) ts =
     with_instance p (FetchNext_ConnectorID req) (fetchAccounts p req ts)"
| "run_workflow p (RunFetchNextExternalAccounts req) ts =
     with_instance p (FetchNext_ConnectorID req) (fetchExternalAccounts p req ts)"
| "run_workflow p (RunFetchNextOthers req) ts =
     with_instance p (FetchNext_ConnectorID req) (fetchNextOthers p req ts)"
| "run_workflow p (RunFetchNextPayments req) ts =
     with_instance p (FetchNext_ConnectorID req) (fetchNextPayments p req ts)"
| "run_workflow p (RunFetchNextBalances req) ts =
     with_instance p (FetchNext_ConnectorID req) (fetchBalances p req ts)"
| "run_workflow p (RunFetchNextOrders req) ts =
     with_instance p (FetchNext_ConnectorID req) (fetchOrders p req ts)"
| "run_workflow p (RunFetchNextConversions req) ts =
     with_instance p (FetchNext_ConnectorID req) (fetchConversions p req ts)"
| "run_workflow p (RunCreateWebhooks req) ts = runCreateWebhooks p req ts"

end
