(* ===== verification/Polling_Jobs.thy ===== *)
theory Polling_Jobs
  imports Polling_Workflows Consistency_Store
begin

text \<open>
  Reasoning about the workflows that fetch: goroutines whose activities
  interleave in any order, relative to a relation every activity stays in; and
  that relation for the storage: what is stored stays stored, except the payments
  the provider takes back.
\<close>

section \<open>Goroutines that move by a relation\<close>

definition moves :: "('s \<Rightarrow> 's \<Rightarrow> bool) \<Rightarrow> ('s, 'a) tx \<Rightarrow> bool" where
  "moves R m \<longleftrightarrow> (\<forall>s r s'. m s = (r, s') \<longrightarrow> R s s')"

lemma movesD: "moves R m \<Longrightarrow> m s = (r, s') \<Longrightarrow> R s s'"
  by (simp add: moves_def)

inductive job_moves :: "('s \<Rightarrow> 's \<Rightarrow> bool) \<Rightarrow> 's job \<Rightarrow> bool" for R where
  finished: "job_moves R Finished"
| activity: "(\<And>s r s'. f s = (r, s') \<Longrightarrow> R s s') \<Longrightarrow>
    (\<And>s j s'. f s = (Inr j, s') \<Longrightarrow> job_moves R j) \<Longrightarrow> job_moves R (Activity f)"

text \<open>
  A goroutine on its way to a goal: whatever the others do, if it ends without an
  error the goal holds from then on.
\<close>

inductive on_track :: "('s \<Rightarrow> 's \<Rightarrow> bool) \<Rightarrow> ('s \<Rightarrow> bool) \<Rightarrow> 's job \<Rightarrow> 's \<Rightarrow> bool" for R G where
  finished: "(\<And>s1. R s s1 \<Longrightarrow> G s1) \<Longrightarrow> on_track R G Finished s"
| activity: "(\<And>s1 j s'. R s s1 \<Longrightarrow> f s1 = (Inr j, s') \<Longrightarrow> on_track R G j s') \<Longrightarrow> on_track R G (Activity f) s"

inductive_simps on_track_Finished: "on_track R G Finished s"
inductive_simps on_track_Activity: "on_track R G (Activity f) s"
inductive_simps job_moves_Activity: "job_moves R (Activity f)"

lemma run_job_Activity [simp]:
  "run_job (Activity f) s = (case f s of (Inl err, s') \<Rightarrow> (Inl err, s') | (Inr j, s') \<Rightarrow> run_job j s')"
  by (auto split: prod.splits sum.splits)

declare run_job.simps(2) [simp del]

locale relation =
  fixes R :: "'s \<Rightarrow> 's \<Rightarrow> bool"
  assumes R_refl [simp]: "R s s"
    and R_trans [trans]: "R s s' \<Longrightarrow> R s' s'' \<Longrightarrow> R s s''"
begin

lemma moves_return: "moves R (tx_return a)" "moves R (tx_fail e)" "moves R (tx_lift r)"
  by (simp_all add: moves_def)

lemma moves_bind: "moves R m \<Longrightarrow> (\<And>a. moves R (f a)) \<Longrightarrow> moves R (tx_bind m f)"
  unfolding moves_def tx_bind_def by (auto split: prod.splits sum.splits intro: R_trans) (meson R_trans)+

lemma moves_seq: "moves R m \<Longrightarrow> moves R n \<Longrightarrow> moves R (tx_seq m n)"
  unfolding tx_seq_def by (rule moves_bind)

lemma moves_wrap: "moves R m \<Longrightarrow> moves R (tx_wrap msg m)"
  by (auto simp: moves_def tx_wrap_def split: prod.splits sum.splits)

lemma moves_when: "moves R m \<Longrightarrow> moves R (tx_when b m)"
  by (simp add: tx_when_def moves_return)

lemma job_moves_next: "moves R m \<Longrightarrow> (\<And>a. job_moves R (k a)) \<Longrightarrow> job_moves R (next_activity m k)"
  unfolding next_activity_def
  by (rule job_moves.activity) (auto simp: moves_def split: prod.splits sum.splits)

lemma job_moves_wrap: "job_moves R j \<Longrightarrow> job_moves R (wrap_job msg j)"
proof (induction rule: job_moves.induct)
  case finished
  then show ?case by (simp add: job_moves.finished)
next
  case (activity f)
  show ?case unfolding wrap_job.simps
  proof (rule job_moves.activity)
    fix s r s'
    assume "(map_prod (map_sum (Wrap msg) (wrap_job msg)) id \<circ> f) s = (r, s')"
    then obtain x where "f s = (x, s')" by (cases "f s") auto
    then show "R s s'" by (rule activity.hyps(1))
  next
    fix s j s'
    assume "(map_prod (map_sum (Wrap msg) (wrap_job msg)) id \<circ> f) s = (Inr j, s')"
    then obtain j' where "f s = (Inr j', s')" "j = wrap_job msg j'"
      by (cases "f s"; cases "fst (f s)") auto
    with activity.IH show "job_moves R j" by blast
  qed
qed

lemma run_job_moves: "job_moves R j \<Longrightarrow> run_job j s = (r, s') \<Longrightarrow> R s s'"
proof (induction arbitrary: s r s' rule: job_moves.induct)
  case finished
  then show ?case by simp
next
  case (activity f)
  obtain x s1 where f: "f s = (x, s1)" by fastforce
  with activity.hyps(1) have "R s s1" by blast
  moreover have "R s1 s'"
  proof (cases x)
    case (Inl err)
    with f activity.prems show ?thesis by simp
  next
    case (Inr j)
    with f activity.prems activity.IH[of s j s1 s1 r s'] show ?thesis by simp
  qed
  ultimately show ?case by (rule R_trans)
qed

lemma on_track_moved:
  assumes "on_track R G j s" "R s s'"
  shows "on_track R G j s'"
  using assms by (cases rule: on_track.cases) (auto intro!: on_track.intros dest: R_trans)

lemma on_track_next:
  assumes "\<And>s1 a s'. R s s1 \<Longrightarrow> m s1 = (Inr a, s') \<Longrightarrow> on_track R G (k a) s'"
  shows "on_track R G (next_activity m k) s"
  unfolding next_activity_def
  by (rule on_track.activity) (auto split: prod.splits sum.splits dest: assms)

lemma on_track_wrap: "on_track R G j s \<Longrightarrow> on_track R G (wrap_job msg j) s"
proof (induction rule: on_track.induct)
  case (finished s)
  then show ?case by (simp add: on_track.finished)
next
  case (activity s f)
  show ?case unfolding wrap_job.simps
  proof (rule on_track.activity)
    fix s1 j s'
    assume r: "R s s1" and e: "(map_prod (map_sum (Wrap msg) (wrap_job msg)) id \<circ> f) s1 = (Inr j, s')"
    then obtain j' where "f s1 = (Inr j', s')" "j = wrap_job msg j'"
      by (cases "f s1"; cases "fst (f s1)") auto
    with activity.IH[OF r] show "on_track R G j s'" by simp
  qed
qed

lemma run_job_reaches:
  "on_track R G j s \<Longrightarrow> run_job j s = (Inr u, s') \<Longrightarrow> on_track R G Finished s'"
proof (induction arbitrary: s' rule: on_track.induct)
  case (finished s)
  then show ?case by (auto intro: on_track.finished)
next
  case (activity s f)
  then obtain j s1 where "f s = (Inr j, s1)" "run_job j s1 = (Inr u, s')"
    by (auto split: prod.splits sum.splits)
  with activity.IH[of s j s1] show ?case by simp
qed

text \<open>One step of one goroutine, among the others.\<close>

definition all_move :: "'s job list \<Rightarrow> bool" where
  "all_move js \<longleftrightarrow> (\<forall>j\<in>set js. job_moves R j)"

definition all_on_track :: "(nat \<Rightarrow> 's \<Rightarrow> bool) \<Rightarrow> 's job list \<Rightarrow> 's \<Rightarrow> bool" where
  "all_on_track G js s \<longleftrightarrow> (\<forall>i<length js. on_track R (G i) (js ! i) s)"

lemma step_job_moves:
  assumes "step_job i js s = (es, js', s')" "all_move js"
  shows "R s s' \<and> all_move js' \<and> length js' = length js"
proof (cases "i < length js")
  case False
  with assms show ?thesis by (simp add: step_job_def)
next
  case True
  then have m: "job_moves R (js ! i)" using assms(2) by (simp add: all_move_def)
  show ?thesis
  proof (cases "js ! i")
    case Finished
    with assms True show ?thesis by (simp add: step_job_def)
  next
    case (Activity f)
    obtain x s1 where f: "f s = (x, s1)" by fastforce
    have r: "R s s1" using m f unfolding Activity job_moves_Activity by blast
    have j: "x = Inr j \<Longrightarrow> job_moves R j" for j
      using m f unfolding Activity job_moves_Activity by blast
    have up: "job_moves R j \<Longrightarrow> all_move (js[i := j])" for j
      using assms(2) set_update_subset_insert[of js i j] by (auto simp: all_move_def)
    show ?thesis
      using assms(1) True Activity f r j up job_moves.finished[of R]
      by (cases x) (auto simp: step_job_def)
  qed
qed

lemma step_job_on_track:
  assumes "step_job i js s = ([], js', s')" "all_move js" "all_on_track G js s"
  shows "all_on_track G js' s'"
proof -
  have R: "R s s'" using step_job_moves[OF assms(1,2)] by simp
  have moved: "on_track R (G k) (js ! k) s'" if "k < length js" for k
    using assms(3) that R on_track_moved by (auto simp: all_on_track_def)
  show ?thesis
  proof (cases "i < length js \<and> (\<exists>f. js ! i = Activity f)")
    case False
    then have "js' = js" using assms(1) by (cases "js ! i") (auto simp: step_job_def split: if_splits)
    with moved show ?thesis by (simp add: all_on_track_def)
  next
    case True
    then obtain f j where i: "i < length js" "js ! i = Activity f" "f s = (Inr j, s')" "js' = js[i := j]"
      using assms(1) by (auto simp: step_job_def split: prod.splits sum.splits)
    have "on_track R (G i) (Activity f) s" using assms(3) i by (auto simp: all_on_track_def)
    then have "on_track R (G i) j s'" using i(3) R_refl unfolding on_track_Activity by blast
    with moved i show ?thesis by (auto simp: all_on_track_def nth_list_update)
  qed
qed

lemma interleave_moves:
  "interleave order js s = (es, js', s') \<Longrightarrow> all_move js \<Longrightarrow> R s s' \<and> all_move js' \<and> length js' = length js"
proof (induction order js s arbitrary: es js' s' rule: interleave.induct)
  case (1 js s)
  then show ?case by simp
next
  case (2 i order js s)
  obtain e1 js1 s1 where one: "step_job i js s = (e1, js1, s1)" using prod_cases3 by blast
  obtain e2 js2 s2 where rest: "interleave order js1 s1 = (e2, js2, s2)" using prod_cases3 by blast
  from 2 one rest step_job_moves[OF one 2(3)] show ?case by (auto intro: R_trans)
qed

lemma interleave_on_track:
  "interleave order js s = ([], js', s') \<Longrightarrow> all_move js \<Longrightarrow> all_on_track G js s \<Longrightarrow> all_on_track G js' s'"
proof (induction order js s arbitrary: js' s' rule: interleave.induct)
  case (1 js s)
  then show ?case by simp
next
  case (2 i order js s)
  obtain e1 js1 s1 where one: "step_job i js s = (e1, js1, s1)" using prod_cases3 by blast
  obtain e2 js2 s2 where rest: "interleave order js1 s1 = (e2, js2, s2)" using prod_cases3 by blast
  have e: "e1 = []" "e2 = []" "js2 = js'" "s2 = s'" using 2(2) by (auto simp: one rest)
  have one': "step_job i js s = ([], js1, s1)" and rest': "interleave order js1 s1 = ([], js', s')"
    using one rest e by simp_all
  have "all_move js1" using step_job_moves[OF one 2(3)] by simp
  moreover have "all_on_track G js1 s1" by (rule step_job_on_track[OF one' 2(3,4)])
  ultimately show ?case using 2(1) one[symmetric] rest' by auto
qed

lemma run_jobs_moves: "run_jobs js s = (es, s') \<Longrightarrow> all_move js \<Longrightarrow> R s s'"
proof (induction js s arbitrary: es s' rule: run_jobs.induct)
  case (1 s)
  then show ?case by simp
next
  case (2 j js s)
  obtain r s1 where one: "run_job j s = (r, s1)" by fastforce
  obtain e2 s2 where rest: "run_jobs js s1 = (e2, s2)" by fastforce
  have "R s s1" using run_job_moves one 2(3) by (auto simp: all_move_def)
  moreover have "R s1 s2" using 2(1)[OF one[symmetric] HOL.refl] rest 2(3) one by (auto simp: all_move_def)
  ultimately show ?case using 2(2) one rest by (auto intro: R_trans)
qed

lemma run_jobs_reach:
  "run_jobs js s = ([], s') \<Longrightarrow> all_move js \<Longrightarrow> all_on_track G js s \<Longrightarrow> i < length js \<Longrightarrow> G i s'"
proof (induction js s arbitrary: s' G i rule: run_jobs.induct)
  case (1 s)
  then show ?case by simp
next
  case (2 j js s)
  obtain r s1 where one: "run_job j s = (r, s1)" by fastforce
  obtain e2 s2 where rest: "run_jobs js s1 = (e2, s2)" by fastforce
  have e: "r = Inr ()" "e2 = []" "s2 = s'" using 2(2) by (auto simp: one rest split: sum.splits)
  have m: "job_moves R j" "all_move js" using 2(3) by (auto simp: all_move_def)
  have R1: "R s s1" by (rule run_job_moves[OF m(1) one])
  have R2: "R s1 s'" using run_jobs_moves[OF _ m(2), of s1 "[]" s'] rest e by simp
  show ?case
  proof (cases i)
    case 0
    have "on_track R (G 0) j s" using 2(4) by (auto simp: all_on_track_def)
    then have "on_track R (G 0) Finished s1" using run_job_reaches one e(1) by blast
    then show ?thesis using R2 0 by (auto simp: on_track_Finished)
  next
    case (Suc k)
    have "all_on_track (\<lambda>i. G (Suc i)) js s1"
      using 2(4) R1 on_track_moved by (fastforce simp: all_on_track_def)
    with 2(1)[OF one[symmetric] refl, where s' = s' and G = "\<lambda>i. G (Suc i)" and i = k] 2(5) Suc rest e m one
    show ?thesis by simp
  qed
qed

lemma wait_all_moves: "wait_all order js s = (es, s') \<Longrightarrow> all_move js \<Longrightarrow> R s s'"
  unfolding wait_all_def Let_def
  by (auto split: prod.splits dest!: interleave_moves run_jobs_moves intro: R_trans)

text \<open>A page without errors reaches the goal of each of its goroutines.\<close>

lemma wait_all_reaches:
  assumes "wait_all order js s = ([], s')" "all_move js" "all_on_track G js s" "i < length js"
  shows "G i s'"
proof -
  obtain es js' s1 where one: "interleave order js s = (es, js', s1)" using prod_cases3 by blast
  obtain es' s2 where rest: "run_jobs js' s1 = (es', s2)" by fastforce
  have e: "es = []" "es' = []" "s2 = s'" using assms(1) by (auto simp: wait_all_def one rest)
  from interleave_moves[OF one assms(2)] have "all_move js'" "length js' = length js" by simp_all
  moreover from interleave_on_track[OF one[unfolded e(1)] assms(2,3)] have "all_on_track G js' s1" .
  ultimately show ?thesis using run_jobs_reach[of js' s1 s' G i] rest e assms(4) by simp
qed

end

section \<open>How many errors\<close>

text \<open>A goroutine sends one error at most.\<close>

fun weight :: "'s job \<Rightarrow> nat" where
  "weight Finished = 0"
| "weight (Activity f) = 1"

definition still_open :: "'s job list \<Rightarrow> nat" where
  "still_open js = sum_list (map weight js)"

lemma still_open_simps [simp]: "still_open [] = 0" "still_open (j # js) = weight j + still_open js"
  by (simp_all add: still_open_def)

lemma weight_le: "weight j \<le> 1"
  by (cases j) simp_all

lemma still_open_le: "still_open js \<le> length js"
  by (induction js) (auto intro: add_mono[OF weight_le, simplified])

lemma still_open_update: "i < length js \<Longrightarrow> still_open (js[i := j]) + weight (js ! i) = still_open js + weight j"
proof (induction js arbitrary: i)
  case (Cons a js)
  then show ?case by (cases i) (simp_all add: add.assoc)
qed simp

lemma step_job_errors:
  assumes "step_job i js s = (es, js', s')"
  shows "length es + still_open js' \<le> still_open js"
proof (cases "i < length js \<and> (\<exists>f. js ! i = Activity f)")
  case False
  then have "es = [] \<and> js' = js" using assms by (cases "js ! i") (auto simp: step_job_def split: if_splits)
  then show ?thesis by simp
next
  case True
  then obtain f where i: "i < length js" "js ! i = Activity f" by blast
  obtain x s1 where f: "f s = (x, s1)" by fastforce
  have "\<exists>j. length es + weight j \<le> 1 \<and> js' = js[i := j]"
  proof (cases x)
    case (Inl err)
    with assms i f show ?thesis by (intro exI[of _ Finished]) (auto simp: step_job_def)
  next
    case (Inr j)
    with assms i f weight_le[of j] show ?thesis by (intro exI[of _ j]) (auto simp: step_job_def)
  qed
  then obtain j where "length es + weight j \<le> 1" "js' = js[i := j]" by blast
  with still_open_update[OF i(1), of j] i(2) show ?thesis by simp
qed

lemma interleave_errors: "interleave order js s = (es, js', s') \<Longrightarrow> length es + still_open js' \<le> still_open js"
proof (induction order js s arbitrary: es js' s' rule: interleave.induct)
  case (1 js s)
  then show ?case by simp
next
  case (2 i order js s)
  obtain e1 js1 s1 where one: "step_job i js s = (e1, js1, s1)" using prod_cases3 by blast
  obtain e2 js2 s2 where rest: "interleave order js1 s1 = (e2, js2, s2)" using prod_cases3 by blast
  from 2 one rest step_job_errors[OF one] show ?case by fastforce
qed

lemma run_jobs_errors: "run_jobs js s = (es, s') \<Longrightarrow> length es \<le> still_open js"
proof (induction js s arbitrary: es s' rule: run_jobs.induct)
  case (1 s)
  then show ?case by simp
next
  case (2 j js s)
  obtain r s1 where one: "run_job j s = (r, s1)" by fastforce
  obtain e2 s2 where rest: "run_jobs js s1 = (e2, s2)" by fastforce
  have "length e2 \<le> still_open js" using 2(1)[OF one[symmetric] HOL.refl rest] .
  moreover have "length (case r of Inl err \<Rightarrow> [err] | Inr u \<Rightarrow> []) \<le> weight j"
    using one by (cases j) (auto split: sum.splits)
  ultimately show ?case using 2(2) one rest by auto
qed

lemma wait_all_errors:
  assumes "wait_all order js s = (es, s')"
  shows "length es \<le> length js"
proof -
  obtain e1 js1 s1 where one: "interleave order js s = (e1, js1, s1)" using prod_cases3 by blast
  obtain e2 s2 where rest: "run_jobs js1 s1 = (e2, s2)" by fastforce
  have "es = e1 @ e2" using assms by (simp add: wait_all_def one rest)
  with interleave_errors[OF one] run_jobs_errors[OF rest] still_open_le[of js] show ?thesis by simp
qed

lemma run_page_blocked:
  assumes "run_page p k prepare s = (PageBlocked, s')"
  obtains plan s1 where "prepare s = (Inr plan, s1)" "plan_capacity plan < length (plan_jobs plan)"
proof -
  obtain plan s1 es where "prepare s = (Inr plan, s1)" and w: "wait_all (pol_order p k) (plan_jobs plan) s1 = (es, s')"
    and "plan_capacity plan < length es"
    using assms by (auto simp: run_page_def split: prod.splits sum.splits list.splits if_splits)
  with wait_all_errors[OF w] that show thesis by simp
qed

end
