(* ===== verification/Polling_Laws.thy ===== *)
theory Polling_Laws
  imports Polling_Jobs
begin

text \<open>
  What the storage keeps while workflows fetch: the rows of accounts, balances,
  orders, conversions and schedules stay, the states of the pagination change only
  where a workflow stores one, payments go only when the provider takes them back.
\<close>

section \<open>The relation\<close>

text \<open>A payment's reference and connector are those of its identifier.\<close>

definition coherent :: "db \<Rightarrow> bool" where
  "coherent d \<longleftrightarrow> (\<forall>r\<in>set (payments d).
     payment_connector_id r = PaymentID_ConnectorID (payment_id r) \<and>
     payment_reference r = PaymentReference_Reference (PaymentID_PaymentReference (payment_id r)))"

definition taken_back :: "ConnectorID \<Rightarrow> string set \<Rightarrow> PaymentID \<Rightarrow> bool" where
  "taken_back c D i \<longleftrightarrow> PaymentID_ConnectorID i = c \<and>
     PaymentReference_Reference (PaymentID_PaymentReference i) \<in> D"

definition payments_grow :: "ConnectorID \<Rightarrow> string set \<Rightarrow> db \<Rightarrow> db \<Rightarrow> bool" where
  "payments_grow c D d d' \<longleftrightarrow> (coherent d \<longrightarrow> coherent d' \<and>
     (\<forall>i\<in>payment_id ` set (payments d). PaymentID_ConnectorID i = c \<longrightarrow>
        i \<in> payment_id ` set (payments d') \<or> taken_back c D i))"

definition tables_grow :: "db \<Rightarrow> db \<Rightarrow> bool" where
  "tables_grow d d' \<longleftrightarrow>
     account_id ` set (accounts d) \<subseteq> account_id ` set (accounts d') \<and>
     balance_pair ` set (balances d) \<subseteq> balance_pair ` set (balances d') \<and>
     order_id ` set (orders d) \<subseteq> order_id ` set (orders d') \<and>
     conversion_id ` set (conversions d) \<subseteq> conversion_id ` set (conversions d') \<and>
     schedule_key ` set (schedules d) \<subseteq> schedule_key ` set (schedules d') \<and>
     instance_key ` set (workflow_instances d) \<subseteq> instance_key ` set (workflow_instances d')"

definition db_grows :: "ConnectorID \<Rightarrow> string set \<Rightarrow> db \<Rightarrow> db \<Rightarrow> bool" where
  "db_grows c D d d' \<longleftrightarrow> states d' = states d \<and> tables_grow d d' \<and> payments_grow c D d d'"

lemma db_grows_refl [simp]: "db_grows c D d d"
  by (simp add: db_grows_def tables_grow_def payments_grow_def)

lemma tables_grow_trans: "tables_grow d d' \<Longrightarrow> tables_grow d' d'' \<Longrightarrow> tables_grow d d''"
  unfolding tables_grow_def by (meson subset_trans)

lemma payments_grow_trans: "payments_grow c D d d' \<Longrightarrow> payments_grow c D d' d'' \<Longrightarrow> payments_grow c D d d''"
  unfolding payments_grow_def by meson

lemma db_grows_trans: "db_grows c D d d' \<Longrightarrow> db_grows c D d' d'' \<Longrightarrow> db_grows c D d d''"
  unfolding db_grows_def by (metis tables_grow_trans payments_grow_trans)

text \<open>An operation that leaves the tables of the relation alone.\<close>

lemma db_grows_same:
  "states d' = states d \<Longrightarrow> accounts d' = accounts d \<Longrightarrow> balances d' = balances d \<Longrightarrow>
   orders d' = orders d \<Longrightarrow> conversions d' = conversions d \<Longrightarrow> schedules d' = schedules d \<Longrightarrow>
   payments d' = payments d \<Longrightarrow> workflow_instances d' = workflow_instances d \<Longrightarrow> db_grows c D d d'"
  by (simp add: db_grows_def tables_grow_def payments_grow_def coherent_def)

lemma keeps_grows: "(\<And>s r s'. m s = (r, s') \<Longrightarrow> db_grows c D s s') \<Longrightarrow> keeps (db_grows c D d) m"
  by (rule keepsI) (blast intro: db_grows_trans)

lemma grows_keeps: "keeps (db_grows c D d) m \<Longrightarrow> m d = (r, d') \<Longrightarrow> db_grows c D d d'"
  using keepsD[of "db_grows c D d" m d r d'] by simp

lemma same_keys: "map f xs = map f ys \<Longrightarrow> f ` set ys \<subseteq> f ` set xs"
  by (metis list.set_map order_refl)

section \<open>The operations\<close>

lemma grows_OutboxEventsInsert [keeps_intros]: "keeps (db_grows c D d) (OutboxEventsInsert env fl evs)"
proof (rule keeps_grows)
  fix s r s'
  assume "OutboxEventsInsert env fl evs s = (r, s')"
  then show "db_grows c D s s'"
    by (cases r) (auto dest!: outbox.only_outbox outbox.emit_error intro: db_grows_same)
qed

lemma grows_emit_events [keeps_intros]: "keeps (db_grows c D d) (emit_events env fl evs)"
  unfolding emit_events_def by (intro keeps_intros)

lemma db_grows_accounts: "db_grows c D d (d\<lparr>accounts := accounts d @ new\<rparr>)"
  by (auto simp: db_grows_def tables_grow_def payments_grow_def coherent_def)

lemma grows_AccountsUpsert: "keeps (db_grows c D d) (AccountsUpsert env fl as)"
  unfolding AccountsUpsert_def insert_accounts_stmt_def
  by (intro keeps_intros keeps_grows)
    (auto simp: refuse_def split: prod.splits if_splits dest!: inserted_rows intro: db_grows_accounts)

lemma db_grows_schedules: "db_grows c D d (d\<lparr>schedules := schedules d @ new\<rparr>)"
  by (auto simp: db_grows_def tables_grow_def payments_grow_def coherent_def)

lemma grows_SchedulesUpsert: "keeps (db_grows c D d) (SchedulesUpsert env fl sch)"
  unfolding SchedulesUpsert_def
  by (intro keeps_intros keeps_grows)
    (auto simp: refuse_def Let_def split: prod.splits if_splits dest!: inserted_rows intro: db_grows_schedules)

lemma instances_grow:
  "instance_key ` set (workflow_instances d) \<subseteq> instance_key ` set T \<Longrightarrow>
     db_grows c D d (d\<lparr>workflow_instances := T\<rparr>)"
  by (auto simp: db_grows_def tables_grow_def payments_grow_def coherent_def)

lemma grows_InstancesUpsert: "keeps (db_grows c D d) (InstancesUpsert env fl i)"
  unfolding InstancesUpsert_def
proof (rule keeps_stmt, rule keeps_grows)
  fix s :: db and r s'
  obtain ins tbl where t: "insert_ignore instance_key [fromInstanceModel env i] (workflow_instances s) = (ins, tbl)"
    by fastforce
  assume run: "(let (ins, tbl) = insert_ignore instance_key [fromInstanceModel env i] (workflow_instances s) in
      if \<not> list_all (\<lambda>r. connector_exists s (instance_connector_id r)) ins
      then refuse ''failed to insert new instance'' (DbFKConstraintFailed ''workflows_instances_connector_id_fk'') s
      else if \<not> list_all (\<lambda>r. has_key schedule_key
               (instance_schedule_id r, instance_connector_id r) (schedules s)) ins
      then refuse ''failed to insert new instance'' (DbFKConstraintFailed ''workflows_instances_schedule_id_fk'') s
      else (Inr (), s\<lparr>workflow_instances := tbl\<rparr>)) = (r, s')"
  then have "s' = s \<or> s' = s\<lparr>workflow_instances := tbl\<rparr>"
    unfolding t Let_def prod.case refuse_def tx_fail_def by (auto split: if_splits)
  moreover have "db_grows c D s (s\<lparr>workflow_instances := tbl\<rparr>)"
    by (rule instances_grow) (simp add: insert_ignore_append[OF t] image_Un)
  ultimately show "db_grows c D s s'" by auto
qed

lemma grows_InstancesUpdate: "keeps (db_grows c D d) (InstancesUpdate env fl i)"
  unfolding InstancesUpdate_def
proof (rule keeps_stmt, rule keeps_modify, erule db_grows_trans, rule instances_grow)
  fix s :: db
  let ?T = "update_where (\<lambda>r. instance_key r = instance_key (fromInstanceModel env i))
      (\<lambda>r. r\<lparr>instance_updated_at := env_db_time env (Instance_UpdatedAt i),
             instance_terminated := Instance_Terminated i,
             instance_terminated_at := map_option (env_db_time env) (Instance_TerminatedAt i),
             instance_error := Instance_Error i\<rparr>) (workflow_instances s)"
  have "map instance_key ?T = map instance_key (workflow_instances s)"
    by (rule map_key_update_where) (simp add: instance_key_def)
  then show "instance_key ` set (workflow_instances s) \<subseteq> instance_key ` set ?T" by (rule same_keys)
qed

lemma grows_WebhooksConfigsUpsert: "keeps (db_grows c D d) (WebhooksConfigsUpsert fl cs)"
  unfolding WebhooksConfigsUpsert_def
  by (intro keeps_intros keeps_grows)
    (auto simp: refuse_def Let_def split: prod.splits if_splits intro: db_grows_same)

lemma grows_PaymentInitiationAdjustmentsUpsert:
  "keeps (db_grows c D d) (PaymentInitiationAdjustmentsUpsert env fl a)"
  unfolding PaymentInitiationAdjustmentsUpsert_def insert_pi_adjustments_stmt_def
  by (intro keeps_intros keeps_rows_affected keeps_grows)
    (auto simp: refuse_def Let_def split: prod.splits if_splits intro: db_grows_same)

lemma grows_StoragePaymentInitiationUpdateFromPayment:
  "keeps (db_grows c D d) (StoragePaymentInitiationUpdateFromPayment env fl status createdAt i)"
  unfolding StoragePaymentInitiationUpdateFromPayment_def PaymentInitiationIDsListFromPaymentID_def
  by (intro keeps_intros grows_PaymentInitiationAdjustmentsUpsert)

lemma orders_grow:
  assumes "insert_update order_id merge_order_row rows (orders d) = Some tbl"
  shows "db_grows c D d (d\<lparr>orders := tbl\<rparr>)"
proof -
  have "has_key order_id i tbl" if "has_key order_id i (orders d)" for i
    using insert_update_grows[OF assms that] by (simp add: merge_order_row_def)
  then show ?thesis
    by (auto simp: db_grows_def tables_grow_def payments_grow_def coherent_def has_key_iff)
qed

lemma grows_OrdersUpsert: "keeps (db_grows c D d) (OrdersUpsert env fl os)"
proof (rule keeps_grows)
  fix s r s'
  assume run: "OrdersUpsert env fl os s = (r, s')"
  show "db_grows c D s s'"
  proof (cases r)
    case (Inl err)
    then have "s' = s" using run by (auto simp: OrdersUpsert_def Let_def dest: in_tx_rollback)
    then show ?thesis by simp
  next
    case (Inr u)
    with run have run': "OrdersUpsert env fl os s = (Inr (), s')" by simp
    obtain tbl new es where
      t: "insert_update order_id merge_order_row (map (fromOrderModels env) os) (orders s) = Some tbl" and
      o: "OutboxEventsInsert env fl es (s\<lparr>orders := tbl, order_adjustments := order_adjustments s @ new\<rparr>)
            = (Inr (), s')"
      by (rule OrdersUpsert_result[OF run'])
    have "db_grows c D s (s\<lparr>orders := tbl\<rparr>)" by (rule orders_grow[OF t])
    moreover have "db_grows c D (s\<lparr>orders := tbl\<rparr>) (s\<lparr>orders := tbl, order_adjustments := order_adjustments s @ new\<rparr>)"
      by (rule db_grows_same) simp_all
    ultimately show ?thesis using grows_keeps[OF grows_OutboxEventsInsert o] by (blast intro: db_grows_trans)
  qed
qed

lemma conversions_grow:
  assumes "insert_update conversion_id merge_conversion_row rows (conversions d) = Some tbl"
  shows "db_grows c D d (d\<lparr>conversions := tbl\<rparr>)"
proof -
  have "has_key conversion_id i tbl" if "has_key conversion_id i (conversions d)" for i
    using insert_update_grows[OF assms that] by (simp add: merge_conversion_row_def)
  then show ?thesis
    by (auto simp: db_grows_def tables_grow_def payments_grow_def coherent_def has_key_iff)
qed

lemma grows_ConversionsUpsert: "keeps (db_grows c D d) (ConversionsUpsert env fl cs)"
proof (rule keeps_grows)
  fix s r s'
  assume run: "ConversionsUpsert env fl cs s = (r, s')"
  show "db_grows c D s s'"
  proof (cases r)
    case (Inl err)
    then have "s' = s" using run by (auto simp: ConversionsUpsert_def dest: in_tx_rollback)
    then show ?thesis by simp
  next
    case (Inr u)
    with run have run': "ConversionsUpsert env fl cs s = (Inr (), s')" by simp
    obtain tbl es where
      t: "insert_update conversion_id merge_conversion_row (map (fromConversionModels env) cs) (conversions s)
            = Some tbl" and
      o: "OutboxEventsInsert env fl es (s\<lparr>conversions := tbl\<rparr>) = (Inr (), s')"
      by (rule ConversionsUpsert_result[OF run'])
    show ?thesis
      using conversions_grow[OF t] grows_keeps[OF grows_OutboxEventsInsert o] by (blast intro: db_grows_trans)
  qed
qed

lemma balances_grow:
  "balance_pair ` set (balances d) \<subseteq> balance_pair ` set T \<Longrightarrow> db_grows c D d (d\<lparr>balances := T\<rparr>)"
  by (auto simp: db_grows_def tables_grow_def payments_grow_def coherent_def)

lemma grows_set_last_updated [keeps_intros]: "keeps (db_grows c D d) (set_last_updated fl b t)"
  unfolding set_last_updated_def
proof (rule keeps_stmt, rule keeps_modify, erule db_grows_trans, rule balances_grow)
  fix s :: db
  let ?T = "update_where (\<lambda>r. balance_key r = balance_key b) (\<lambda>r. r\<lparr>balance_last_updated_at := t\<rparr>) (balances s)"
  have "map balance_pair ?T = map balance_pair (balances s)"
    by (rule map_key_update_where) (simp add: balance_pair_def)
  then show "balance_pair ` set (balances s) \<subseteq> balance_pair ` set ?T" by (rule same_keys)
qed

lemma grows_insert_balance_row [keeps_intros]: "keeps (db_grows c D d) (insert_balance_row fl b)"
  unfolding insert_balance_row_def
  by (intro keeps_intros keeps_grows) (auto simp: refuse_def split: if_splits intro!: balances_grow)

lemma grows_insertBalances [keeps_intros]: "keeps (db_grows c D d) (insertBalances fl b n)"
  unfolding insertBalances_def
proof (rule keeps_stmt, rule keeps_pointwise)
  fix s :: db
  show "\<exists>m. keeps (db_grows c D d) m \<and> (case last_balance (balance_pair b) (balances s) of
      None \<Rightarrow> if n then stmt fl ''failed to insert balance''
               (refuse ''failed to insert balance'' not_null_violation) s
             else tx_seq (insert_balance_row fl b) (tx_return True) s
    | Some lastBalance \<Rightarrow>
        if balance_created_at lastBalance > balance_created_at b then (Inr False, s)
        else if n then (Inl (Panic ''runtime error: invalid memory address or nil pointer dereference''), s)
        else if balance_balance lastBalance = balance_balance b
        then tx_seq (set_last_updated fl lastBalance (balance_last_updated_at b)) (tx_return True) s
        else tx_seq (insert_balance_row fl b)
              (tx_seq (set_last_updated fl lastBalance (balance_created_at b)) (tx_return True)) s) = m s"
  proof (cases "last_balance (balance_pair b) (balances s)")
    case None
    have k: "keeps (db_grows c D d) (stmt fl ''failed to insert balance''
        (refuse ''failed to insert balance'' not_null_violation) :: (db, bool) tx)"
      "keeps (db_grows c D d) (tx_seq (insert_balance_row fl b) (tx_return True))"
      by (intro keeps_intros)+
    show ?thesis unfolding None option.case using k by metis
  next
    case (Some l)
    let ?fail = "tx_fail (Panic ''runtime error: invalid memory address or nil pointer dereference'')"
    have k: "keeps (db_grows c D d) (tx_return False)" "keeps (db_grows c D d) (?fail :: (db, bool) tx)"
      "keeps (db_grows c D d) (tx_seq (set_last_updated fl l (balance_last_updated_at b)) (tx_return True))"
      "keeps (db_grows c D d) (tx_seq (insert_balance_row fl b)
         (tx_seq (set_last_updated fl l (balance_created_at b)) (tx_return True)))"
      by (intro keeps_intros)+
    show ?thesis
      unfolding Some option.case
      using k by (metis tx_fail_apply tx_return_apply)
  qed
qed

lemma grows_insert_balances_loop [keeps_intros]: "keeps (db_grows c D d) (insert_balances_loop env fl bs)"
  by (induction bs) (simp_all only: insert_balances_loop.simps, (intro keeps_intros | assumption)+)

lemma grows_BalancesUpsert: "keeps (db_grows c D d) (BalancesUpsert env fl bs)"
  unfolding BalancesUpsert_def by (intro keeps_intros)

section \<open>Payments\<close>

text \<open>What the updates of amounts leave of a row.\<close>

lemma upd_columns:
  assumes "\<And>x y. f (g x y) = f x" "\<And>x y. payment_id (g x y) = payment_id x"
    "payment_id ` set rows \<subseteq> payment_id ` set T"
  shows "map f (upd g rows T) = map f T"
  using assms(3)
proof (induction rows arbitrary: T)
  case Nil
  then show ?case by simp
next
  case (Cons r rows)
  have u: "upsert_row payment_id g r T = update_where (\<lambda>x. payment_id x = payment_id r) (\<lambda>x. g x r) T"
    using Cons.prems by (auto simp: upsert_row_def has_key_iff)
  have m: "map f (upsert_row payment_id g r T) = map f T"
    unfolding u by (rule map_key_update_where) (simp add: assms(1))
  have "map payment_id (upsert_row payment_id g r T) = map payment_id T"
    unfolding u by (rule map_key_update_where) (simp add: assms(2))
  then have "payment_id ` set (upsert_row payment_id g r T) = payment_id ` set T" by (metis list.set_map)
  with Cons m show ?case by simp
qed

text \<open>The columns the relation looks at.\<close>

definition identity :: "payment_row \<Rightarrow> PaymentID \<times> ConnectorID \<times> string" where
  "identity r = (payment_id r, payment_connector_id r, payment_reference r)"

lemma coherent_identity:
  "coherent d \<longleftrightarrow> (\<forall>(i, c, reference)\<in>identity ` set (payments d). c = PaymentID_ConnectorID i \<and>
     reference = PaymentReference_Reference (PaymentID_PaymentReference i))"
  by (auto simp: coherent_def identity_def)

lemma payments_grow_identity:
  assumes "identity ` set (payments d') = identity ` set (payments d) \<union> identity ` new"
    and "\<forall>r\<in>new. payment_connector_id r = PaymentID_ConnectorID (payment_id r) \<and>
      payment_reference r = PaymentReference_Reference (PaymentID_PaymentReference (payment_id r))"
  shows "payments_grow c D d d'"
proof -
  have "coherent d'" if "coherent d"
    using that assms by (auto simp: coherent_identity identity_def)
  moreover have "payment_id ` set (payments d) \<subseteq> payment_id ` set (payments d')"
  proof -
    have "fst ` identity ` set (payments d) \<subseteq> fst ` identity ` set (payments d')"
      using assms(1) by blast
    then show ?thesis by (simp add: identity_def image_image)
  qed
  ultimately show ?thesis by (auto simp: payments_grow_def)
qed

definition well_identified :: "Payment \<Rightarrow> bool" where
  "well_identified p \<longleftrightarrow> Payment_ConnectorID p = PaymentID_ConnectorID (Payment_ID p) \<and>
     Payment_Reference p = PaymentReference_Reference (PaymentID_PaymentReference (Payment_ID p))"

text \<open>A successful insert: the payments are there, under their identity.\<close>

lemma PaymentsUpsert_stores:
  assumes run: "PaymentsUpsert env fl ps d = (Inr u, d')" and ps: "\<forall>p\<in>set ps. well_identified p"
  shows "db_grows c D d d' \<and> Payment_ID ` set ps \<subseteq> payment_id ` set (payments d')"
proof -
  let ?rows = "map (fromPaymentModels env) ps"
  obtain P1 new R C evs d1 where
    P1: "P1 = snd (insert_ignore payment_id ?rows (payments d))" and
    rc: "amount_deltas env ps new = (R, C)" and
    new: "\<forall>r\<in>set new. has_key payment_id (pa_payment_id r) P1" and
    d1: "d1 = d\<lparr>payments := upd sub_amount R (upd add_amount C (upd set_initial (initial_amounts env ps) P1)),
            payment_adjustments := payment_adjustments d @ new\<rparr>" and
    o: "OutboxEventsInsert env fl evs d1 = (Inr u, d')"
    by (rule PaymentsUpsert_result[OF run])
  obtain ins where ins: "insert_ignore payment_id ?rows (payments d) = (ins, P1)"
    using P1 by (cases "insert_ignore payment_id ?rows (payments d)") auto
  have app: "P1 = payments d @ ins" by (rule insert_ignore_append[OF ins])
  have sound: "set ins \<subseteq> set ?rows" using insert_ignore_sound[OF ins] by (elim conjE)
  have keys: "payment_id ` set ?rows \<subseteq> payment_id ` set P1"
    unfolding app set_append image_Un using insert_ignore_sound[OF ins] by (elim conjE)
  have ids: "Payment_ID ` set ps \<subseteq> payment_id ` set P1"
  proof -
    have "payment_id ` set ?rows = Payment_ID ` set ps" by (simp add: image_image fromPaymentModels_def)
    with keys show ?thesis by (simp only:)
  qed
  have sub: "payment_id ` set (initial_amounts env ps) \<subseteq> payment_id ` set P1"
    "payment_id ` set C \<subseteq> payment_id ` set P1" "payment_id ` set R \<subseteq> payment_id ` set P1"
    using amount_deltas_ok(1)[OF rc] initial_amounts_ok[of ps env] subset_trans[OF _ ids]
    by (simp_all add: rc_ok_def init_ok_def)
  have I: "map identity (payments d1) = map identity P1"
  proof -
    let ?T1 = "upd set_initial (initial_amounts env ps) P1"
    let ?T2 = "upd add_amount C ?T1"
    have k1: "payment_id ` set ?T1 = payment_id ` set P1"
    proof -
      have "map payment_id ?T1 = map payment_id P1"
        by (rule upd_columns) (simp_all add: set_initial_def sub(1))
      then show ?thesis by (metis list.set_map)
    qed
    have k2: "payment_id ` set ?T2 = payment_id ` set P1"
    proof -
      have "map payment_id ?T2 = map payment_id ?T1"
        by (rule upd_columns) (simp_all add: add_amount_def sub(2) k1)
      then have "payment_id ` set ?T2 = payment_id ` set ?T1" by (metis list.set_map)
      then show ?thesis using k1 by (rule trans)
    qed
    have "map identity ?T1 = map identity P1"
      by (rule upd_columns) (simp_all add: set_initial_def identity_def sub(1))
    moreover have "map identity ?T2 = map identity ?T1"
      by (rule upd_columns) (simp_all add: add_amount_def identity_def sub(2) k1)
    moreover have "map identity (upd sub_amount R ?T2) = map identity ?T2"
      by (rule upd_columns) (simp_all add: sub_amount_def identity_def sub(3) k2)
    ultimately show ?thesis by (simp add: d1)
  qed
  have set1: "identity ` set (payments d1) = identity ` set (payments d) \<union> identity ` set ins"
    using arg_cong[OF I, of set] by (simp only: list.set_map app set_append image_Un)
  have "payments_grow c D d d1"
  proof (rule payments_grow_identity[OF set1], intro ballI)
    fix r
    assume "r \<in> set ins"
    with sound obtain p where "p \<in> set ps" "r = fromPaymentModels env p" by auto
    with ps show "payment_connector_id r = PaymentID_ConnectorID (payment_id r) \<and>
        payment_reference r = PaymentReference_Reference (PaymentID_PaymentReference (payment_id r))"
      by (auto simp: well_identified_def fromPaymentModels_def)
  qed
  then have g1: "db_grows c D d d1" by (simp add: db_grows_def tables_grow_def d1)
  have g2: "db_grows c D d1 d'" by (rule grows_keeps[OF grows_OutboxEventsInsert o])
  have same: "payment_id ` set (payments d') = payment_id ` set (payments d1)"
    using outbox.only_outbox[OF o] by auto
  have k: "payment_id ` set (payments d1) = payment_id ` set P1"
  proof -
    have "identity ` set (payments d1) = identity ` set P1"
      using arg_cong[OF I, of set] by (simp only: list.set_map)
    then have "fst ` (identity ` set (payments d1)) = fst ` (identity ` set P1)" by (rule arg_cong)
    then show ?thesis by (simp only: image_image identity_def fst_conv)
  qed
  show ?thesis by (simp only: db_grows_trans[OF g1 g2] ids same k simp_thms)
qed

lemma grows_PaymentsUpsert:
  assumes "\<forall>p\<in>set ps. well_identified p"
  shows "keeps (db_grows c D d) (PaymentsUpsert env fl ps)"
proof (rule keeps_grows)
  fix s r s'
  assume run: "PaymentsUpsert env fl ps s = (r, s')"
  show "db_grows c D s s'"
  proof (cases r)
    case (Inl err)
    then have "s' = s" using run by (auto simp: PaymentsUpsert_def Let_def dest: in_tx_rollback)
    then show ?thesis by simp
  next
    case (Inr u)
    with run PaymentsUpsert_stores[OF _ assms] show ?thesis by blast
  qed
qed

lemma grows_PaymentsDeleteFromReference:
  assumes "c' = c \<Longrightarrow> reference \<in> D"
  shows "keeps (db_grows c D d) (PaymentsDeleteFromReference env fl reference c')"
  unfolding PaymentsDeleteFromReference_def
proof (rule keeps_in_tx, rule keeps_pointwise)
  fix s :: db
  let ?p = "\<lambda>r. payment_reference r = reference \<and> payment_connector_id r = c'"
  let ?m = "\<lambda>p. tx_seq (stmt fl ''failed to delete payment'' (tx_modify (delete_payments ?p)))
    (OutboxEventsInsert env fl [payment_deleted_event env (payment_id p) c'])"
  have del: "db_grows c D x (delete_payments ?p x)" for x
    using assms
    by (auto simp: db_grows_def tables_grow_def payments_grow_def coherent_def delete_payments_def
        taken_back_def Let_def)
  have k: "keeps (db_grows c D d) (?m p)" "keeps (db_grows c D d) (tx_return ())"
    "keeps (db_grows c D d) (tx_fail e :: (db, unit) tx)" for p e
    by (intro keeps_intros | erule db_grows_trans[OF _ del])+
  obtain r s' where sel: "select_payment_by_reference fl reference c' s = (r, s')" by fastforce
  then have "s' = s"
    by (auto simp: select_payment_by_reference_def stmt_def refuse_def split: option.splits)
  with sel k show "\<exists>m. keeps (db_grows c D d) m \<and>
      (case select_payment_by_reference fl reference c' s of
        (Inl pErr, d') \<Rightarrow> if errors_Is pErr Storage_ErrNotFound then (Inr (), d') else (Inl pErr, d')
      | (Inr p, d') \<Rightarrow> ?m p d') = m s"
    unfolding tx_return_apply[symmetric] tx_fail_apply[symmetric]
    by (auto split: sum.split simp del: tx_return_apply tx_fail_apply)
qed

end
