(* ===== verification/Polling_Proofs.thy ===== *)
theory Polling_Proofs
  imports Polling_Laws
begin

text \<open>
  The pages of the workflows that fetch: every activity grows what is stored, and
  a page that ends well has stored its items and started the tasks that follow.
\<close>

section \<open>The relation on the whole state\<close>

definition ps_grows :: "ConnectorID \<Rightarrow> string set \<Rightarrow> psys \<Rightarrow> psys \<Rightarrow> bool" where
  "ps_grows c D s s' \<longleftrightarrow> db_grows c D (ps_db s) (ps_db s') \<and>
     ts_ID ` set (ps_schedules s) \<subseteq> ts_ID ` set (ps_schedules s') \<and> set (ps_children s) \<subseteq> set (ps_children s')"

interpretation growing: relation "ps_grows c D" for c D
proof
  fix s s' s''
  show "ps_grows c D s s" by (simp add: ps_grows_def)
  show "ps_grows c D s s' \<Longrightarrow> ps_grows c D s' s'' \<Longrightarrow> ps_grows c D s s''"
    unfolding ps_grows_def by (meson db_grows_trans subset_trans)
qed

lemma attempts_grow:
  assumes "\<And>fl d. keeps (db_grows c D d) (op fl)"
  shows "db_grows c D d (attempts op fls d)"
proof (induction fls arbitrary: d)
  case Nil
  then show ?case by simp
next
  case (Cons fl fls)
  obtain r d1 where run: "op fl d = (r, d1)" by fastforce
  with Cons.IH[of d1] grows_keeps[OF assms run] show ?case by (auto intro: db_grows_trans)
qed

lemma durable_result:
  assumes "\<And>fl d. keeps (db_grows c D d) (op fl)" and run: "durable p at name op s = (r, s')"
  obtains fl d res where "db_grows c D (ps_db s) d" "op fl d = (res, ps_db s')" "s' = s\<lparr>ps_db := ps_db s'\<rparr>"
    "\<And>a. r = Inr a \<Longrightarrow> res = Inr a"
proof -
  obtain fls fl where t: "pol_tries p at name = (fls, fl)" by fastforce
  obtain res d' where o: "op fl (attempts op fls (ps_db s)) = (res, d')" by fastforce
  have s': "s' = s\<lparr>ps_db := d'\<rparr>" and r: "\<And>a. r = Inr a \<Longrightarrow> res = Inr a"
    using run o t by (auto simp: durable_def split: sum.splits)
  show thesis
    by (rule that[where fl = fl and res = res, OF attempts_grow[where op = op and fls = fls, OF assms(1)]])
      (use o s' r in simp_all)
qed

lemma moves_durable:
  assumes "\<And>fl d. keeps (db_grows c D d) (op fl)"
  shows "moves (ps_grows c D) (durable p at name op)"
  unfolding moves_def
proof (intro allI impI)
  fix s r s'
  assume "durable p at name op s = (r, s')"
  then obtain fl d res where g: "db_grows c D (ps_db s) d" "op fl d = (res, ps_db s')"
    "s' = s\<lparr>ps_db := ps_db s'\<rparr>"
    by (rule durable_result[OF assms])
  have db: "db_grows c D (ps_db s) (ps_db s')" using g(1) grows_keeps[OF assms g(2)] by (rule db_grows_trans)
  have "ps_schedules s' = ps_schedules s" "ps_children s' = ps_children s"
    by (subst g(3), simp)+
  with db show "ps_grows c D s s'" by (simp add: ps_grows_def)
qed

lemma moves_plugin_activity: "moves (ps_grows c D) (plugin_activity p b answer)"
  by (simp add: plugin_activity_def growing.moves_return split: sum.splits)

lemma moves_translated: "moves (ps_grows c D) (translated msg answer)"
  by (simp add: translated_def growing.moves_return split: sum.splits)

lemma moves_create_schedule: "moves (ps_grows c D) (create_schedule p at sch)"
  by (auto simp: moves_def create_schedule_def ps_grows_def split: if_splits option.splits)

lemma moves_start_child: "moves (ps_grows c D) (start_child p at w ts)"
  by (auto simp: moves_def start_child_def ps_grows_def split: option.splits)

lemma keeps_StorageConnectorsGetPollingPeriod: "keeps P (StorageConnectorsGetPollingPeriod p fl c)"
  unfolding StorageConnectorsGetPollingPeriod_def by (intro keeps_intros)

lemma moves_connectorPollingPeriod: "moves (ps_grows c D) (connectorPollingPeriod p at c')"
  unfolding connectorPollingPeriod_def
  by (intro growing.moves_wrap growing.moves_bind growing.moves_return moves_durable
      keeps_StorageConnectorsGetPollingPeriod)

lemmas polling_moves =
  growing.moves_wrap growing.moves_bind growing.moves_seq growing.moves_when growing.moves_return
  growing.job_moves_next growing.job_moves_wrap job_moves.finished moves_durable moves_plugin_activity
  moves_translated moves_create_schedule moves_start_child moves_connectorPollingPeriod
  grows_AccountsUpsert grows_SchedulesUpsert grows_BalancesUpsert grows_OrdersUpsert grows_ConversionsUpsert
  grows_WebhooksConfigsUpsert grows_InstancesUpsert grows_InstancesUpdate
  grows_StoragePaymentInitiationUpdateFromPayment

section \<open>Tasks\<close>

lemma runNextTasks_moves: "job_moves (ps_grows c D) (runNextTasksV3_1 p at c' fp ts)"
proof (induction ts)
  case Nil
  then show ?case by (simp add: job_moves.finished)
next
  case (Cons t ts)
  then show ?case
    by (auto simp: scheduleNextWorkflow_def Let_def split: prod.splits intro!: polling_moves)
qed

lemma item_job_moves: "job_moves (ps_grows c D) (item_job p at c' ts msg item)"
  unfolding item_job_def by (intro polling_moves runNextTasks_moves)

text \<open>
  A task that has been started: a periodic one has its schedule, in the database
  and in Temporal; another one its run.
\<close>

definition task_started ::
  "string \<Rightarrow> string \<Rightarrow> ConnectorID \<Rightarrow> FromPayload option \<Rightarrow> psys \<Rightarrow> ConnectorTaskTree \<Rightarrow> bool" where
  "task_started stack text c fromPayload s task =
     (let (w, capability) = next_of_task c fromPayload task;
          i = fetchNextWorkflowScheduleID stack text (Capability_String capability) fromPayload in
      if TaskTree_Periodically task
      then (i, c) \<in> schedule_key ` set (schedules (ps_db s)) \<and> i \<in> ts_ID ` set (ps_schedules s)
      else (w, TaskTree_NextTasks task) \<in> set (ps_children s))"

abbreviation started_by :: "polling \<Rightarrow> ConnectorID \<Rightarrow> FromPayload option \<Rightarrow> psys \<Rightarrow> ConnectorTaskTree \<Rightarrow> bool" where
  "started_by p c \<equiv> task_started (pol_stack p) (env_connector_text (pol_env p) c) c"

lemma task_started_grows: "task_started stack text c fp s t \<Longrightarrow> ps_grows c' D s s' \<Longrightarrow> task_started stack text c fp s' t"
  by (auto simp: task_started_def ps_grows_def db_grows_def tables_grow_def Let_def split: prod.splits if_splits)

lemma SchedulesUpsert_stores:
  "SchedulesUpsert env fl sch d = (Inr u, d') \<Longrightarrow>
     (Schedule_ID sch, Schedule_ConnectorID sch) \<in> schedule_key ` set (schedules d')"
  by (auto simp: SchedulesUpsert_def refuse_def Let_def fromScheduleModel_def schedule_key_def has_key_iff
      split: if_splits prod.splits)

lemma runNextTasks_on_track:
  assumes "\<forall>t\<in>A. t \<in> set ts \<or> started_by p c fp s t"
  shows "on_track (ps_grows c D) (\<lambda>s. \<forall>t\<in>A. started_by p c fp s t) (runNextTasksV3_1 p at c fp ts) s"
  using assms
proof (induction ts arbitrary: s)
  case Nil
  then show ?case by (auto intro!: on_track.finished intro: task_started_grows)
next
  case (Cons t ts)
  obtain w capability where n: "next_of_task c fp t = (w, capability)" by fastforce
  let ?here = "at @ [length ts]"
  let ?i = "task_schedule_id p c fp capability"
  have rest: "on_track (ps_grows c D) (\<lambda>s. \<forall>t\<in>A. started_by p c fp s t) (runNextTasksV3_1 p at c fp ts) s2"
    if "ps_grows c D s s2" "started_by p c fp s2 t" for s2
    by (rule Cons.IH) (use Cons.prems that task_started_grows in auto)
  show ?case
  proof (cases "TaskTree_Periodically t")
    case False
    have "started_by p c fp s2 t" if "start_child p ?here w (TaskTree_NextTasks t) s1 = (Inr u, s2)" for s1 s2 u
      using that False n by (auto simp: start_child_def task_started_def split: option.splits)
    with False n show ?thesis
      by (auto simp: tx_wrap_def split: prod.splits sum.splits intro!: growing.on_track_next rest
          dest!: movesD[OF moves_start_child] intro: growing.R_trans)
  next
    case True
    have st: "started_by p c fp s3 t"
      if "(?i, c) \<in> schedule_key ` set (schedules (ps_db s2))"
        "create_schedule p ?here sch s2 = (Inr u, s3)" "ts_ID sch = ?i" for sch s2 s3 u
      using that True n
      by (auto simp: create_schedule_def task_started_def task_schedule_id_def split: if_splits option.splits)
    let ?store = "durable p ?here ''StorageSchedulesStore'' (\<lambda>fl. SchedulesUpsert (pol_env p) fl
        \<lparr>Schedule_ID = ?i, Schedule_ConnectorID = c, Schedule_CreatedAt = pol_now p ?here ''schedule'',
         Schedule_PausedAt = None, Schedule_PausedReason = None\<rparr>)"
    have one: "ps_grows c D s1 s2 \<and> (?i, c) \<in> schedule_key ` set (schedules (ps_db s2))"
      if "?store s1 = (Inr u, s2)" for s1 s2 u
    proof
      show "ps_grows c D s1 s2" using that by (rule movesD[OF moves_durable[OF grows_SchedulesUpsert]])
      show "(?i, c) \<in> schedule_key ` set (schedules (ps_db s2))"
        by (rule durable_result[OF grows_SchedulesUpsert that]) (auto dest!: SchedulesUpsert_stores)
    qed
    have keep: "(?i, c) \<in> schedule_key ` set (schedules (ps_db s2))"
      if "(?i, c) \<in> schedule_key ` set (schedules (ps_db s1))" "ps_grows c D s1 s2" for s1 s2
      using that by (auto simp: ps_grows_def db_grows_def tables_grow_def)
    show ?thesis
      unfolding runNextTasksV3_1.simps Let_def n prod.case scheduleNextWorkflow_def
      apply (simp only: True if_True)
      apply (rule growing.on_track_next)
      apply (rule growing.on_track_next)
      apply (rule growing.on_track_next)
      subgoal for s1 a s2 s3 period s4 s5 b s6
      proof -
        assume a: "ps_grows c D s s1" "tx_wrap ''failed to schedule periodic task'' ?store s1 = (Inr a, s2)"
          "ps_grows c D s2 s3"
          "tx_wrap ''failed to schedule periodic task'' (connectorPollingPeriod p ?here c) s3 = (Inr period, s4)"
          "ps_grows c D s4 s5"
          "tx_wrap ''failed to schedule periodic task'' (create_schedule p ?here
            \<lparr>ts_ID = ?i, ts_Jitter = calculateJitter period, ts_Every = period, ts_Workflow = w,
             ts_NextTasks = TaskTree_NextTasks t\<rparr>) s5 = (Inr b, s6)"
        have "?store s1 = (Inr a, s2)" using a(2) by (auto simp: tx_wrap_def split: prod.splits sum.splits)
        note s12 = one[OF this]
        have s34: "ps_grows c D s3 s4" by (rule movesD[OF growing.moves_wrap[OF moves_connectorPollingPeriod] a(4)])
        have cr: "create_schedule p ?here
            \<lparr>ts_ID = ?i, ts_Jitter = calculateJitter period, ts_Every = period, ts_Workflow = w,
             ts_NextTasks = TaskTree_NextTasks t\<rparr> s5 = (Inr b, s6)"
          using a(6) by (auto simp: tx_wrap_def split: prod.splits sum.splits)
        have s56: "ps_grows c D s5 s6" by (rule movesD[OF moves_create_schedule cr])
        have s25: "ps_grows c D s2 s5" using a(3) s34 a(5) by (meson growing.R_trans)
        have "ps_grows c D s s6" using a(1) s12 s25 s56 by (meson growing.R_trans)
        moreover have "started_by p c fp s6 t" by (rule st[OF keep[OF conjunct2[OF s12] s25] cr]) simp
        ultimately show ?thesis by (rule rest)
      qed
      done
  qed
qed

text \<open>The goroutine of an item reaches its goal: payload and tasks.\<close>

definition item_done ::
  "polling \<Rightarrow> ConnectorID \<Rightarrow> ConnectorTaskTree list \<Rightarrow> string \<times> string option result \<Rightarrow> psys \<Rightarrow> bool" where
  "item_done p c ts item s \<longleftrightarrow> (\<exists>payload. snd item = Inr payload \<and>
     (\<forall>t\<in>set ts. started_by p c (Some \<lparr>FromPayload_ID = fst item, FromPayload_Payload = payload\<rparr>) s t))"

lemma item_job_on_track: "on_track (ps_grows c D) (item_done p c ts item) (item_job p at c ts msg item) s"
  unfolding item_job_def
proof (rule growing.on_track_next)
  fix s1 :: psys and payload s'
  assume "tx_wrap msg (tx_lift (snd item)) s1 = (Inr payload, s')"
  then have "snd item = Inr payload" by (auto simp: tx_wrap_def split: sum.splits)
  then have "item_done p c ts item =
      (\<lambda>s. \<forall>t\<in>set ts. started_by p c (Some \<lparr>FromPayload_ID = fst item, FromPayload_Payload = payload\<rparr>) s t)"
    by (simp add: item_done_def fun_eq_iff)
  then show "on_track (ps_grows c D) (item_done p c ts item)
      (wrap_job ''running next tasks'' (runNextTasksV3_1 p at c
         (Some \<lparr>FromPayload_ID = fst item, FromPayload_Payload = payload\<rparr>) ts)) s'"
    by (simp add: growing.on_track_wrap runNextTasks_on_track)
qed

lemma length_item_jobs [simp]: "length (item_jobs p k c ts msg items) = length items"
  by (simp add: item_jobs_def)

lemma nth_item_jobs: "i < length items \<Longrightarrow>
    item_jobs p k c ts msg items ! i = item_job p [k, i] c ts msg (items ! i)"
  by (simp add: item_jobs_def nth_enumerate_eq)

lemma item_jobs_move: "j \<in> set (item_jobs p k c' ts msg items) \<Longrightarrow> job_moves (ps_grows c D) j"
  by (auto simp: item_jobs_def item_job_moves)

section \<open>Pages\<close>

lemma run_page_moves:
  assumes "run_page p k prepare s = (r, s')" "moves (ps_grows c D) prepare"
    "\<And>plan s1 j. prepare s = (Inr plan, s1) \<Longrightarrow> j \<in> set (plan_jobs plan) \<Longrightarrow> job_moves (ps_grows c D) j"
  shows "ps_grows c D s s'"
proof (cases "prepare s")
  case (Pair x s1)
  have one: "ps_grows c D s s1" by (rule movesD[OF assms(2) Pair])
  show ?thesis
  proof (cases x)
    case (Inl err)
    with assms(1) Pair one show ?thesis by (simp add: run_page_def)
  next
    case (Inr plan)
    obtain es s2 where w: "wait_all (pol_order p k) (plan_jobs plan) s1 = (es, s2)" by fastforce
    have "ps_grows c D s1 s2"
      using growing.wait_all_moves[OF w] assms(3)[OF Pair[unfolded Inr]] by (auto simp: growing.all_move_def)
    moreover have "s' = s2" using assms(1) Pair Inr w by (auto simp: run_page_def split: list.splits)
    ultimately show ?thesis using one by (auto intro: growing.R_trans)
  qed
qed

lemma run_page_done:
  assumes "run_page p k prepare s = (PageDone newState hasMore, s')"
  obtains plan s1 where "prepare s = (Inr plan, s1)" "plan_NewState plan = newState" "plan_HasMore plan = hasMore"
    "wait_all (pol_order p k) (plan_jobs plan) s1 = ([], s')"
  using assms by (auto simp: run_page_def split: prod.splits sum.splits list.splits if_splits)

text \<open>The goroutines of the items, among others on both sides.\<close>

lemma items_done:
  assumes w: "wait_all order (pre @ item_jobs p k c ts msg items @ post) s = ([], s')"
    and m: "\<And>j. j \<in> set pre \<union> set post \<Longrightarrow> job_moves (ps_grows c D) j"
    and item: "item \<in> set items"
  shows "item_done p c ts item s'"
proof -
  let ?js = "pre @ item_jobs p k c ts msg items @ post"
  obtain i where i: "i < length items" "items ! i = item" using item by (auto simp: in_set_conv_nth)
  let ?k = "length pre + i"
  define G where "G = (\<lambda>n s. n = ?k \<longrightarrow> item_done p c ts item s)"
  have at_k: "?js ! ?k = item_job p [k, i] c ts msg item"
    using i by (simp add: nth_append nth_item_jobs)
  have mv: "growing.all_move c D ?js"
    using m item_jobs_move by (auto simp: growing.all_move_def)
  have "on_track (ps_grows c D) (G n) (?js ! n) s" if "n < length ?js" for n
  proof (cases "n = ?k")
    case True
    then have "G n = item_done p c ts item" by (simp add: G_def)
    with True at_k show ?thesis by (simp add: item_job_on_track)
  next
    case False
    then have "G n = (\<lambda>s. True)" by (simp add: G_def)
    moreover have "on_track (ps_grows c D) (\<lambda>s. True) j s" if "job_moves (ps_grows c D) j" for j s
      using that by (induction arbitrary: s rule: job_moves.induct) (auto intro: on_track.intros)
    moreover have "job_moves (ps_grows c D) (?js ! n)" using mv nth_mem[OF that] by (simp only: growing.all_move_def)
    ultimately show ?thesis by simp
  qed
  then have "growing.all_on_track c D G ?js s" by (simp add: growing.all_on_track_def)
  from growing.wait_all_reaches[OF w mv this, of ?k] i show ?thesis by (simp add: G_def)
qed

end
