(* ===== verification/Polling_Runs.thy ===== *)
theory Polling_Runs
  imports Polling_Proofs
begin

text \<open>
  Runs of the workflows that fetch, any number of them, with what the rest of the
  system does in between: the cursor a workflow has stored never gets ahead of
  what is stored and started.
\<close>

section \<open>What the others leave alone\<close>

definition undisturbed :: "StateID \<Rightarrow> ConnectorID \<Rightarrow> string set \<Rightarrow> psys \<Rightarrow> psys \<Rightarrow> bool" where
  "undisturbed i c D s s' \<longleftrightarrow>
     (\<forall>r\<in>set (states (ps_db s')). state_id r = i \<longrightarrow> r \<in> set (states (ps_db s))) \<and>
     tables_grow (ps_db s) (ps_db s') \<and> payments_grow c D (ps_db s) (ps_db s') \<and>
     ts_ID ` set (ps_schedules s) \<subseteq> ts_ID ` set (ps_schedules s') \<and> set (ps_children s) \<subseteq> set (ps_children s')"

lemma grows_undisturbed: "ps_grows c D s s' \<Longrightarrow> undisturbed i c D s s'"
  by (simp add: ps_grows_def undisturbed_def db_grows_def)

lemma undisturbed_trans: "undisturbed i c D s s' \<Longrightarrow> undisturbed i c D s' s'' \<Longrightarrow> undisturbed i c D s s''"
  unfolding undisturbed_def by (meson tables_grow_trans payments_grow_trans subset_trans)

lemma undisturbed_coherent: "undisturbed i c D s s' \<Longrightarrow> coherent (ps_db s) \<Longrightarrow> coherent (ps_db s')"
  by (simp add: undisturbed_def payments_grow_def)

text \<open>
  The steps a state row goes through: runs of its workflow, whose parameters are
  good, and whatever leaves it and what is stored alone, such as the other
  workflows, or a run of its own that is cut short before it stores the cursor.
\<close>

inductive polled ::
  "(polling \<Rightarrow> psys \<Rightarrow> (outcome \<times> psys) option) \<Rightarrow> (polling \<Rightarrow> bool) \<Rightarrow> StateID \<Rightarrow> ConnectorID \<Rightarrow> string set \<Rightarrow>
     psys \<Rightarrow> psys \<Rightarrow> bool" for run good i c D s0 where
  start: "polled run good i c D s0 s0"
| ran: "polled run good i c D s0 s \<Longrightarrow> good p \<Longrightarrow> run p s = Some (out, s') \<Longrightarrow> polled run good i c D s0 s'"
| others: "polled run good i c D s0 s \<Longrightarrow> undisturbed i c D s s' \<Longrightarrow> polled run good i c D s0 s'"

section \<open>Storing the state\<close>

text \<open>Whatever the attempts: rows of the state are old, or hold the new state; the rest is as it was.\<close>

definition restated :: "StateID \<Rightarrow> string option \<Rightarrow> db \<Rightarrow> db \<Rightarrow> bool" where
  "restated i new d d' \<longleftrightarrow> (\<exists>T. d' = d\<lparr>states := T\<rparr> \<and>
     (\<forall>r\<in>set T. r \<in> set (states d) \<or> (state_id r = i \<and> state_state r = new)))"

lemma restated_refl: "restated i new d d"
  unfolding restated_def by (rule exI[where x = "states d"]) simp

lemma restated_trans: "restated i new d d' \<Longrightarrow> restated i new d' d'' \<Longrightarrow> restated i new d d''"
  unfolding restated_def by fastforce

lemma StatesUpsert_restates:
  assumes "StatesUpsert env fl st d = (r, d')"
  shows "restated (State_ID st) (State_State st) d d'"
proof (cases "d' = d")
  case True
  then show ?thesis by (simp add: restated_refl)
next
  case False
  then have "d' = d\<lparr>states := upsert_row state_id (\<lambda>old new. old\<lparr>state_state := state_state new\<rparr>)
      (fromStateModels st) (states d)\<rparr>"
    using assms by (auto simp: StatesUpsert_def stmt_def refuse_def split: option.splits if_splits)
  then show ?thesis
    unfolding restated_def
    by (intro exI conjI) (assumption, auto simp: upsert_row_def update_where_def fromStateModels_def split: if_splits)
qed

lemma attempts_restate: "restated (State_ID st) (State_State st) d (attempts (\<lambda>fl. StatesUpsert env fl st) fls d)"
proof (induction fls arbitrary: d)
  case Nil
  then show ?case by (simp add: restated_refl)
next
  case (Cons fl fls)
  obtain r d1 where run: "StatesUpsert env fl st d = (r, d1)" by fastforce
  from restated_trans[OF StatesUpsert_restates[OF run] Cons.IH[of d1]] run show ?case by simp
qed

lemma storing_state:
  assumes "tx_wrap msg (durable p at name (\<lambda>fl. StatesUpsert env fl st)) s = (r, s')"
  shows "restated (State_ID st) (State_State st) (ps_db s) (ps_db s') \<and> s' = s\<lparr>ps_db := ps_db s'\<rparr>"
proof -
  obtain fls fl where t: "pol_tries p at name = (fls, fl)" by fastforce
  let ?d = "attempts (\<lambda>fl. StatesUpsert env fl st) fls (ps_db s)"
  obtain res d' where o: "StatesUpsert env fl st ?d = (res, d')" by fastforce
  have "s' = s\<lparr>ps_db := d'\<rparr>"
    using assms o t by (auto simp: durable_def tx_wrap_def split: sum.splits)
  with restated_trans[OF attempts_restate[of st "ps_db s" env fls] StatesUpsert_restates[OF o]]
  show ?thesis by simp
qed

lemma restated_tables: "restated i new d d' \<Longrightarrow> tables_grow d d' \<and> payments_grow c D d d' \<and>
    (coherent d \<longrightarrow> coherent d')"
  by (auto simp: restated_def tables_grow_def payments_grow_def coherent_def)

lemma restated_undisturbed:
  assumes "restated i new (ps_db s) (ps_db s')" "s' = s\<lparr>ps_db := ps_db s'\<rparr>" "i \<noteq> i'"
  shows "undisturbed i' c D s s'"
proof -
  have "ps_schedules s' = ps_schedules s" "ps_children s' = ps_children s" by (subst assms(2), simp)+
  moreover have "\<forall>r\<in>set (states (ps_db s')). state_id r = i' \<longrightarrow> r \<in> set (states (ps_db s))"
    using assms(1,3) by (auto simp: restated_def)
  ultimately show ?thesis using restated_tables[OF assms(1)] by (simp add: undisturbed_def)
qed

section \<open>Reading the state, instances\<close>

lemma reading_state:
  assumes "durable p at name (\<lambda>fl. StorageStatesGet fl i) s = (r, s')"
  shows "s' = s \<and> (\<forall>st. r = Inr st \<longrightarrow> State_ID st = i \<and>
    (State_State st = None \<or> (\<exists>x\<in>set (states (ps_db s)). state_id x = i \<and> state_state x = State_State st)))"
proof -
  have same: "d' = d" if "StorageStatesGet fl i d = (res, d')" for fl d res d'
    using that by (auto simp: StorageStatesGet_def StatesGet_def stmt_def refuse_def
        split: option.splits sum.splits prod.splits if_splits)
  have att: "attempts (\<lambda>fl. StorageStatesGet fl i) fls d = d" for fls d
  proof (induction fls)
    case (Cons fl fls)
    have "snd (StorageStatesGet fl i d) = d" using same by (cases "StorageStatesGet fl i d") auto
    with Cons show ?case by simp
  qed simp
  obtain fls fl where t: "pol_tries p at name = (fls, fl)" by fastforce
  obtain res d' where o: "StorageStatesGet fl i (ps_db s) = (res, d')" by fastforce
  have "State_ID st = i \<and> (State_State st = None \<or>
      (\<exists>x\<in>set (states (ps_db s)). state_id x = i \<and> state_state x = State_State st))" if "res = Inr st" for st
    using o that by (auto simp: StorageStatesGet_def StatesGet_def stmt_def refuse_def toStateModels_def
        split: option.splits sum.splits prod.splits if_splits dest!: lookup_row_SomeD)
  with assms o t same[OF o] show ?thesis
    by (auto simp: durable_def att split: sum.splits)
qed

lemma moves_createInstance: "moves (ps_grows c D) (createInstance p c')"
  by (auto simp: createInstance_def intro!: polling_moves split: schedule_lookup.splits)

lemma terminateInstance_grows: "terminateInstance p c' out s = (out', s') \<Longrightarrow> ps_grows c D s s'"
  by (auto simp: terminateInstance_def Let_def split: schedule_lookup.splits prod.splits
      dest!: movesD[OF moves_durable[OF grows_InstancesUpdate]])

section \<open>A run beside the others\<close>

text \<open>What a run does to the cursors of the others, and to what is stored.\<close>

lemma loop_undisturbed:
  assumes "fetch_loop p pg st k s = Some res" "State_ID st \<noteq> i"
    and "\<And>k cur s r s'. run_page p k (pg k cur) s = (r, s') \<Longrightarrow> ps_grows c D s s'"
  shows "undisturbed i c D s (snd res)"
proof -
  have "fetch_loop p0 pg0 st k s = Some res \<Longrightarrow> p0 = p \<longrightarrow> pg0 = pg \<longrightarrow> State_ID st \<noteq> i \<longrightarrow>
      undisturbed i c D s (snd res)" for p0 pg0
  proof (induction rule: fetch_loop.raw_induct[rotated, consumes 1, case_names step])
    case (step loop p0 pg0 st k s res)
    show ?case
    proof (intro impI)
      assume p0: "p0 = p" "pg0 = pg" and st: "State_ID st \<noteq> i"
      obtain e s1 where pe: "run_page p k (pg k (State_State st)) s = (e, s1)" by fastforce
      have u1: "undisturbed i c D s s1" by (rule grows_undisturbed[OF assms(3)[OF pe]])
      show "undisturbed i c D s (snd res)"
      proof (cases e)
        case PageBlocked
        with step(2) p0 pe u1 show ?thesis by auto
      next
        case (PageFailed err)
        with step(2) p0 pe u1 show ?thesis by auto
      next
        case (PageDone new hasMore)
        let ?st = "st\<lparr>State_State := new\<rparr>"
        obtain r s2 where ss: "tx_wrap ''storing state'' (durable p [k] ''StorageStatesStore''
            (\<lambda>fl. StatesUpsert (pol_env p) fl ?st)) s1 = (r, s2)" by fastforce
        from storing_state[OF ss] have "restated (State_ID st) new (ps_db s1) (ps_db s2)"
          "s2 = s1\<lparr>ps_db := ps_db s2\<rparr>" by simp_all
        from undisturbed_trans[OF u1 restated_undisturbed[OF this st]] have u2: "undisturbed i c D s s2" .
        have "loop p pg ?st (Suc k) s2 = Some res \<Longrightarrow> ?thesis"
          using step(1)[of p pg ?st "Suc k" s2 res] p0 st undisturbed_trans[OF u2] by simp
        then show ?thesis
          using step(2) p0 pe PageDone ss u2 by (auto split: sum.splits if_splits)
      qed
    qed
  qed
  from this[OF assms(1)] assms(2) show ?thesis by simp
qed

lemma pages_undisturbed:
  assumes "fetch_pages p wrapped capability fp c0 page s = Some res" "fetch_state_id capability fp c0 \<noteq> i"
    and "\<And>n k cur s r s'. run_page p k (page n k cur) s = (r, s') \<Longrightarrow> ps_grows c D s s'"
  shows "undisturbed i c D s (snd res)"
proof -
  have idle: "undisturbed i c D s s" by (rule grows_undisturbed) simp
  obtain r s1 where g: "durable p [] ''StorageStatesGet''
      (\<lambda>fl. StorageStatesGet fl (fetch_state_id capability fp c0)) s = (r, s1)" by fastforce
  note got = reading_state[OF g]
  show ?thesis
  proof (cases r)
    case (Inl err)
    with assms(1) g got idle show ?thesis by (auto simp: fetch_pages_def)
  next
    case (Inr st)
    show ?thesis
    proof (cases "pol_page_size p (ConnectorID_Provider c0)")
      case (Inl err)
      with assms(1) g got \<open>r = Inr st\<close> idle show ?thesis by (auto simp: fetch_pages_def)
    next
      case (Inr n)
      have "fetch_loop p (page n) st 0 s = Some res"
        using assms(1) g got \<open>r = Inr st\<close> Inr by (auto simp: fetch_pages_def)
      moreover have "State_ID st \<noteq> i" using got \<open>r = Inr st\<close> assms(2) by simp
      ultimately show ?thesis by (rule loop_undisturbed[OF _ _ assms(3)])
    qed
  qed
qed

lemma with_instance_undisturbed:
  assumes "with_instance p c0 body s = Some (out, s')"
    and "\<And>s res. body s = Some res \<Longrightarrow> undisturbed i c D s (snd res)"
  shows "undisturbed i c D s s'"
proof -
  obtain r s1 where cr: "createInstance p c0 s = (r, s1)" by fastforce
  have u1: "undisturbed i c D s s1" by (rule grows_undisturbed[OF movesD[OF moves_createInstance cr]])
  have u2: "undisturbed i c D s s2" if "body s1 = Some (o', s2)" for o' s2
    using undisturbed_trans[OF u1] assms(2)[OF that] by simp
  have u3: "undisturbed i c D s s3" if "terminateInstance p c0 o' s2 = (o'', s3)" "undisturbed i c D s s2" for o' o'' s2 s3
    using undisturbed_trans[OF that(2) grows_undisturbed[OF terminateInstance_grows[OF that(1)]]] .
  show ?thesis
    using assms(1) cr u1 u2 u3
    by (auto simp: with_instance_def split: sum.splits option.splits outcome.splits)
qed

section \<open>The loop\<close>

text \<open>
  What the provider has handed over up to a cursor (covered) against what is kept
  of it in the state of the system.  grows: a page moves by the relation.  served:
  a page that ends well adds what its new cursor covers.
\<close>

locale fetching =
  fixes page :: "polling \<Rightarrow> int \<Rightarrow> nat \<Rightarrow> string option \<Rightarrow> (psys, page_plan) tx"
    and good :: "polling \<Rightarrow> bool"
    and wrapped :: bool
    and capability :: Capability
    and fromPayload :: "FromPayload option"
    and c :: ConnectorID
    and D :: "string set"
    and covered :: "string option \<Rightarrow> 'i set"
    and kept :: "psys \<Rightarrow> 'i set"
    and sane :: "psys \<Rightarrow> bool"
  assumes grows: "good p \<Longrightarrow> run_page p k (page p n k cur) s = (r, s') \<Longrightarrow> ps_grows c D s s'"
    and served: "good p \<Longrightarrow> run_page p k (page p n k cur) s = (PageDone new hasMore, s') \<Longrightarrow>
      sane s \<Longrightarrow> covered new \<subseteq> covered cur \<union> kept s'"
    and stays: "undisturbed i c D s s' \<Longrightarrow> sane s \<Longrightarrow> sane s' \<and> kept s \<subseteq> kept s'"
begin

abbreviation cursor_id :: StateID where
  "cursor_id \<equiv> fetch_state_id capability fromPayload c"

definition behind :: "psys \<Rightarrow> bool" where
  "behind s \<longleftrightarrow> sane s \<and>
     (\<forall>r\<in>set (states (ps_db s)). state_id r = cursor_id \<longrightarrow> covered (state_state r) \<subseteq> kept s)"

lemma behindD:
  "behind s \<Longrightarrow> r \<in> set (states (ps_db s)) \<Longrightarrow> state_id r = cursor_id \<Longrightarrow> x \<in> covered (state_state r) \<Longrightarrow> x \<in> kept s"
  unfolding behind_def by blast

lemma behind_undisturbed: "undisturbed cursor_id c D s s' \<Longrightarrow> behind s \<Longrightarrow> behind s'"
  unfolding behind_def using stays[of cursor_id s s'] by (auto simp: undisturbed_def)

lemma behind_grows: "ps_grows c D s s' \<Longrightarrow> behind s \<Longrightarrow> behind s'"
  by (rule behind_undisturbed[OF grows_undisturbed])

lemma kept_grows: "ps_grows c D s s' \<Longrightarrow> behind s \<Longrightarrow> kept s \<subseteq> kept s'"
  using stays[OF grows_undisturbed] by (simp add: behind_def)

lemma kept_restated:
  assumes "restated i new (ps_db s) (ps_db s')" "s' = s\<lparr>ps_db := ps_db s'\<rparr>" "sane s"
  shows "sane s' \<and> kept s \<subseteq> kept s'"
proof -
  obtain j :: StateID where "i \<noteq> j" by (metis StateID.ext_inject StateID.surjective list.distinct(1))
  from stays[OF restated_undisturbed[OF assms(1,2) this] assms(3)] show ?thesis .
qed

text \<open>Storing the cursor of a page that was served.\<close>

lemma behind_stored:
  assumes "restated cursor_id new (ps_db s) (ps_db s')" "s' = s\<lparr>ps_db := ps_db s'\<rparr>" "behind s"
    "covered new \<subseteq> kept s"
  shows "behind s' \<and> covered new \<subseteq> kept s'"
proof -
  have "sane s' \<and> kept s \<subseteq> kept s'"
    by (rule kept_restated[OF assms(1,2)]) (use assms(3) in \<open>simp add: behind_def\<close>)
  moreover have "covered (state_state r) \<subseteq> kept s"
    if "r \<in> set (states (ps_db s'))" "state_id r = cursor_id" for r
  proof -
    have "r \<in> set (states (ps_db s)) \<or> state_state r = new"
      using assms(1) that(1) by (auto simp: restated_def)
    with assms(3,4) that(2) show ?thesis unfolding behind_def by metis
  qed
  ultimately show ?thesis using assms(4) unfolding behind_def by blast
qed

lemma loop_behind:
  assumes "fetch_loop p pg st k s = Some (out, s')" and "good p" "pg = page p n"
    and "behind s" "State_ID st = cursor_id" "covered (State_State st) \<subseteq> kept s"
  shows "behind s'"
proof -
  have "fetch_loop p0 pg st k s = Some res \<Longrightarrow> p0 = p \<longrightarrow> pg = page p n \<longrightarrow>
      behind s \<longrightarrow> State_ID st = cursor_id \<longrightarrow> covered (State_State st) \<subseteq> kept s \<longrightarrow> behind (snd res)" for p0 res
  proof (induction rule: fetch_loop.raw_induct[rotated, consumes 1, case_names step])
    case (step loop p0 pg st k s res)
    show ?case
    proof (intro impI)
      assume p0: "p0 = p" and pg: "pg = page p n" and b: "behind s" and st: "State_ID st = cursor_id"
        and cov: "covered (State_State st) \<subseteq> kept s"
      obtain e s1 where pe: "run_page p k (page p n k (State_State st)) s = (e, s1)" by fastforce
      have g: "ps_grows c D s s1" by (rule grows[OF assms(2) pe])
      have b1: "behind s1" by (rule behind_grows[OF g b])
      show "behind (snd res)"
      proof (cases e)
        case PageBlocked
        with step(2) p0 pg pe b1 show ?thesis by auto
      next
        case (PageFailed err)
        with step(2) p0 pg pe b1 show ?thesis by auto
      next
        case (PageDone new hasMore)
        let ?st = "st\<lparr>State_State := new\<rparr>"
        obtain r s2 where ss: "tx_wrap ''storing state'' (durable p [k] ''StorageStatesStore''
            (\<lambda>fl. StatesUpsert (pol_env p) fl ?st)) s1 = (r, s2)" by fastforce
        have "covered new \<subseteq> covered (State_State st) \<union> kept s1"
          using served[OF assms(2) pe[unfolded PageDone]] b by (simp add: behind_def)
        with cov kept_grows[OF g b] have cov1: "covered new \<subseteq> kept s1" by blast
        from storing_state[OF ss] have "restated cursor_id new (ps_db s1) (ps_db s2)"
          "s2 = s1\<lparr>ps_db := ps_db s2\<rparr>" by (simp_all add: st)
        from behind_stored[OF this b1 cov1] have b2: "behind s2" "covered new \<subseteq> kept s2" by simp_all
        have "res = (Returned (Inl err), s2) \<Longrightarrow> ?thesis" for err using b2 by simp
        moreover have "loop p pg ?st (Suc k) s2 = Some res \<Longrightarrow> ?thesis"
          using step(1)[of p pg ?st "Suc k" s2 res] p0 pg b2 st by simp
        ultimately show ?thesis
          using step(2) p0 pg pe PageDone ss b2 by (auto split: sum.splits if_splits)
      qed
    qed
  qed
  from this[OF assms(1)] assms(3-) show ?thesis by simp
qed

lemma pages_behind:
  assumes "fetch_pages p wrapped capability fromPayload c (page p) s = Some (out, s')"
    and "good p" "behind s" "covered None = {}"
  shows "behind s'"
proof -
  obtain r s1 where g: "durable p [] ''StorageStatesGet'' (\<lambda>fl. StorageStatesGet fl cursor_id) s = (r, s1)"
    by fastforce
  note got = reading_state[OF g]
  show ?thesis
  proof (cases r)
    case (Inl err)
    with assms(1,3) g got show ?thesis by (auto simp: fetch_pages_def)
  next
    case (Inr st)
    with got have st: "State_ID st = cursor_id" by simp
    have "State_State st = None \<or>
        (\<exists>x\<in>set (states (ps_db s)). state_id x = cursor_id \<and> state_state x = State_State st)"
      using got Inr by simp
    then have cov: "covered (State_State st) \<subseteq> kept s"
      using assms(3,4) unfolding behind_def by (metis empty_subsetI)
    show ?thesis
    proof (cases "pol_page_size p (ConnectorID_Provider c)")
      case (Inl err)
      with assms(1,3) g got Inr show ?thesis by (auto simp: fetch_pages_def)
    next
      case (Inr n)
      have "fetch_loop p (page p n) st 0 s = Some (out, s')"
        using assms(1) g got \<open>r = Inr st\<close> Inr by (auto simp: fetch_pages_def)
      then show ?thesis by (rule loop_behind[OF _ assms(2) HOL.refl assms(3) st cov])
    qed
  qed
qed

definition polls :: "polling \<Rightarrow> psys \<Rightarrow> (outcome \<times> psys) option" where
  "polls p = with_instance p c (fetch_pages p wrapped capability fromPayload c (page p))"

lemma polls_behind:
  assumes "polls p s = Some (out, s')" "good p" "behind s" "covered None = {}"
  shows "behind s'"
proof -
  obtain r s1 where cr: "createInstance p c s = (r, s1)" by fastforce
  have b1: "behind s1" by (rule behind_grows[OF movesD[OF moves_createInstance cr] assms(3)])
  have body: "behind s2" if "fetch_pages p wrapped capability fromPayload c (page p) s1 = Some (o', s2)" for o' s2
    by (rule pages_behind[OF that assms(2) b1 assms(4)])
  have ended: "behind s3" if "terminateInstance p c o' s2 = (o'', s3)" "behind s2" for o' o'' s2 s3
    by (rule behind_grows[OF terminateInstance_grows[OF that(1)] that(2)])
  show ?thesis
    using assms(1) cr b1 body ended
    by (auto simp: polls_def with_instance_def split: sum.splits option.splits outcome.splits)
qed

theorem never_ahead:
  assumes "polled polls good cursor_id c D s0 s" "behind s0" "covered None = {}"
  shows "behind s"
  using assms
proof (induction rule: polled.induct)
  case start
  then show ?case by simp
next
  case (ran s p out s')
  then show ?case using polls_behind by blast
next
  case (others s s')
  then show ?case using behind_undisturbed by blast
qed

end

end
