(* ===== verification/Polling_Feeds.thy ===== *)
theory Polling_Feeds
  imports Polling_Runs
begin

text \<open>
  The workflows that fetch, each as an instance of the contract of theory
  Polling_Runs: what of a provider's items is kept once its cursor is stored.
\<close>

section \<open>Providers\<close>

text \<open>
  The contract of a plugin: an answer may move its cursor only over what it has
  handed over.  covered says what a cursor is past; a repeated, an empty or a
  failed answer, or one with more items than asked for, is allowed.
\<close>

definition hands_over :: "(string option \<Rightarrow> 'i set) \<Rightarrow> string option \<Rightarrow> ('i, 'b) page_response_scheme result \<Rightarrow> bool" where
  "hands_over covered cursor answer \<longleftrightarrow> (\<forall>response. answer = Inr response \<longrightarrow>
     covered (response_NewState response) \<subseteq> covered cursor \<union> set (response_Items response))"

text \<open>
  Runs of one deployment: the same stack, names of connectors and encoding of the
  items; the connector is not being deleted when the tasks are started.
\<close>

record deployment =
  dep_stack :: string
  dep_text :: "ConnectorID \<Rightarrow> string"
  dep_account :: "PSPAccount \<Rightarrow> string result"
  dep_payment :: "PSPPayment \<Rightarrow> string result"
  dep_balance :: "PSPBalance \<Rightarrow> string result"

definition runs_in :: "deployment \<Rightarrow> ConnectorID \<Rightarrow> polling \<Rightarrow> bool" where
  "runs_in dep c p \<longleftrightarrow> pol_stack p = dep_stack dep \<and> env_connector_text (pol_env p) = dep_text dep \<and>
     pol_marshal_account p = dep_account dep \<and> pol_marshal_payment p = dep_payment dep \<and>
     pol_marshal_balance p = dep_balance dep \<and> (\<forall>k. pol_connector p k c \<noteq> Inr True)"

text \<open>The tasks of an item with this identifier and this encoding are started.\<close>

definition followed ::
  "deployment \<Rightarrow> ConnectorID \<Rightarrow> ConnectorTaskTree list \<Rightarrow> psys \<Rightarrow> string \<Rightarrow> string option result \<Rightarrow> bool" where
  "followed dep c ts s i encoded \<longleftrightarrow> ts = [] \<or> (\<exists>payload. encoded = Inr payload \<and>
     (\<forall>t\<in>set ts. task_started (dep_stack dep) (dep_text dep c) c
        (Some \<lparr>FromPayload_ID = i, FromPayload_Payload = payload\<rparr>) s t))"

lemma task_started_undisturbed:
  "task_started stack text c fp s t \<Longrightarrow> undisturbed i c' D s s' \<Longrightarrow> task_started stack text c fp s' t"
  by (auto simp: task_started_def undisturbed_def tables_grow_def Let_def split: prod.splits if_splits)

lemma followed_undisturbed: "followed dep c ts s i e \<Longrightarrow> undisturbed j c' D s s' \<Longrightarrow> followed dep c ts s' i e"
  unfolding followed_def using task_started_undisturbed by blast

lemma item_done_followed:
  assumes "runs_in dep c p" "item_done p c ts item s"
  shows "followed dep c ts s (fst item) (snd item)"
  using assms by (auto simp: item_done_def followed_def runs_in_def)

text \<open>The goroutines of a page with tasks, and their goal.\<close>

lemma tasks_followed:
  assumes dep: "runs_in dep c p"
    and jobs: "next_task_jobs p k c ts msg items = Inr js"
    and w: "wait_all order (pre @ js @ post) s = ([], s')"
    and m: "\<And>j. j \<in> set pre \<union> set post \<Longrightarrow> job_moves (ps_grows c D) j"
    and item: "item \<in> set items"
  shows "followed dep c ts s' (fst item) (snd item)"
proof (cases "ts = []")
  case True
  then show ?thesis by (simp add: followed_def)
next
  case False
  with jobs dep have "js = item_jobs p k c ts msg items"
    by (auto simp: next_task_jobs_def runs_in_def split: sum.splits if_splits)
  with items_done[OF _ m item] w dep show ?thesis by (blast intro: item_done_followed)
qed

lemma next_task_jobs_move:
  "next_task_jobs p k c' ts msg items = Inr js \<Longrightarrow> j \<in> set js \<Longrightarrow> job_moves (ps_grows c D) j"
  by (auto simp: next_task_jobs_def item_jobs_move split: if_splits sum.splits)

lemma tx_wrap_Inr [simp]: "tx_wrap msg m s = (Inr a, s') \<longleftrightarrow> m s = (Inr a, s')"
  by (auto simp: tx_wrap_def split: prod.splits sum.splits)

lemma plugin_activity_Inr [simp]: "plugin_activity p b answer s = (Inr a, s') \<longleftrightarrow> answer = Inr a \<and> s' = s"
  by (auto simp: plugin_activity_def split: sum.splits)

lemma translated_Inr [simp]: "translated msg answer s = (Inr a, s') \<longleftrightarrow> answer = Inr a \<and> s' = s"
  by (auto simp: translated_def split: sum.splits)

text \<open>A durable activity that succeeds: its last attempt did.\<close>

lemma durable_stores:
  assumes "\<And>fl d. keeps (db_grows c D d) (op fl)" "durable p at name op s = (Inr a, s')"
    and "\<And>fl d d'. op fl d = (Inr a, d') \<Longrightarrow> Q d'"
  shows "Q (ps_db s')"
  by (rule durable_result[OF assms(1,2)]) (auto intro: assms(3))

section \<open>Accounts\<close>

definition account_kept ::
  "deployment \<Rightarrow> ConnectorID \<Rightarrow> ConnectorTaskTree list \<Rightarrow> psys \<Rightarrow> PSPAccount set" where
  "account_kept dep c ts s = {a.
     \<lparr>AccountID_Reference = PSPAccount_Reference a, AccountID_ConnectorID = c\<rparr> \<in> account_id ` set (accounts (ps_db s)) \<and>
     followed dep c ts s (PSPAccount_Reference a) (map_sum id Some (dep_account dep a))}"

lemma AccountsUpsert_stores:
  assumes "AccountsUpsert env fl as d = (Inr u, d')"
  shows "Account_ID ` set as \<subseteq> account_id ` set (accounts d')"
proof -
  obtain new es where
    "insert_ignore account_id (map (fromAccountModels env) as) (accounts d) = (new, accounts d @ new)"
    "accounts d' = accounts d @ new"
    by (rule AccountsUpsert_result[OF assms])
  then have "account_id ` set (map (fromAccountModels env) as) \<subseteq> account_id ` set (accounts d')"
    using insert_ignore_sound[of account_id "map (fromAccountModels env) as" "accounts d" new "accounts d @ new"]
    by (simp only: set_append image_Un)
  moreover have "account_id ` set (map (fromAccountModels env) as) = Account_ID ` set as"
    by (simp add: image_image fromAccountModels_def)
  ultimately show ?thesis by (simp only:)
qed

lemma FromPSPAccounts_ids:
  assumes "FromPSPAccounts xs ty c = Inr as"
  shows "Account_ID ` set as = (\<lambda>a. \<lparr>AccountID_Reference = PSPAccount_Reference a, AccountID_ConnectorID = c\<rparr>) ` set xs"
proof -
  have "list_all2 (\<lambda>x a. FromPSPAccount x ty c = Inr a) xs as"
    using assms by (simp add: FromPSPAccounts_def result_map_list_Inr_iff)
  then show ?thesis
    by (induction rule: list_all2_induct) (auto simp: FromPSPAccount_def split: option.splits)
qed

lemma accounts_page_of_moves: "moves (ps_grows c D) (accounts_page_of p answer ty msg req ts k)"
  unfolding accounts_page_of_def Let_def by (intro polling_moves)

lemma accounts_page_of_plan:
  assumes "accounts_page_of p answer ty msg req ts k s = (Inr plan, s')" "c = FetchNext_ConnectorID req"
  obtains response js where "answer = Inr response" "plan_NewState plan = response_NewState response"
    "plan_jobs plan = js" "next_task_jobs p k c ts msg
       (map (\<lambda>a. (PSPAccount_Reference a, map_sum id Some (pol_marshal_account p a))) (response_Items response)) = Inr js"
    "(\<lambda>a. \<lparr>AccountID_Reference = PSPAccount_Reference a, AccountID_ConnectorID = c\<rparr>) ` set (response_Items response)
       \<subseteq> account_id ` set (accounts (ps_db s'))"
proof -
  from assms obtain response as s1 js where
    a: "answer = Inr response" "FromPSPAccounts (response_Items response) ty c = Inr as"
    "tx_when (response_Items response \<noteq> []) (tx_wrap ''storing next accounts'' (durable p [k]
       ''StorageAccountsStore'' (\<lambda>fl. AccountsUpsert (pol_env p) fl as))) s = (Inr (), s')"
    "next_task_jobs p k c ts msg
       (map (\<lambda>a. (PSPAccount_Reference a, map_sum id Some (pol_marshal_account p a))) (response_Items response)) = Inr js"
    "plan_NewState plan = response_NewState response" "plan_jobs plan = js"
    by (auto simp: accounts_page_of_def Let_def tx_bind_Inr_iff tx_seq_Inr_iff)
  have "Account_ID ` set as \<subseteq> account_id ` set (accounts (ps_db s'))"
  proof (cases "response_Items response = []")
    case True
    with a(2) show ?thesis by (simp add: FromPSPAccounts_def)
  next
    case False
    with a(3) have "durable p [k] ''StorageAccountsStore'' (\<lambda>fl. AccountsUpsert (pol_env p) fl as) s = (Inr (), s')"
      by (simp add: tx_when_def)
    then show ?thesis by (rule durable_stores[OF grows_AccountsUpsert]) (rule AccountsUpsert_stores)
  qed
  with FromPSPAccounts_ids[OF a(2)] have
    "(\<lambda>a. \<lparr>AccountID_Reference = PSPAccount_Reference a, AccountID_ConnectorID = c\<rparr>) ` set (response_Items response)
       \<subseteq> account_id ` set (accounts (ps_db s'))" by (simp only:)
  with a(1,5,6,4) show thesis by (rule that)
qed

lemma accounts_page_served:
  assumes run: "run_page p k (accounts_page_of p answer ty msg req ts k) s = (PageDone new hasMore, s')"
    and c: "c = FetchNext_ConnectorID req" and dep: "runs_in dep c p" and cov: "hands_over covered cursor answer"
  shows "covered new \<subseteq> covered cursor \<union> account_kept dep c ts s'"
proof -
  obtain plan s1 where p: "accounts_page_of p answer ty msg req ts k s = (Inr plan, s1)"
    "plan_NewState plan = new" "wait_all (pol_order p k) (plan_jobs plan) s1 = ([], s')"
    by (rule run_page_done[OF run])
  obtain response js where r: "answer = Inr response" "plan_NewState plan = response_NewState response"
    "plan_jobs plan = js" "next_task_jobs p k c ts msg
       (map (\<lambda>a. (PSPAccount_Reference a, map_sum id Some (pol_marshal_account p a))) (response_Items response)) = Inr js"
    "(\<lambda>a. \<lparr>AccountID_Reference = PSPAccount_Reference a, AccountID_ConnectorID = c\<rparr>) ` set (response_Items response)
       \<subseteq> account_id ` set (accounts (ps_db s1))"
    by (rule accounts_page_of_plan[OF p(1) c])
  have m: "growing.all_move c {} js" using next_task_jobs_move[OF r(4)] by (simp add: growing.all_move_def)
  have g: "ps_grows c {} s1 s'" using growing.wait_all_moves[OF p(3)] m r(3) by simp
  have "a \<in> account_kept dep c ts s'" if "a \<in> set (response_Items response)" for a
  proof -
    have "\<lparr>AccountID_Reference = PSPAccount_Reference a, AccountID_ConnectorID = c\<rparr>
        \<in> account_id ` set (accounts (ps_db s'))"
      using r(5) that g by (auto simp: ps_grows_def db_grows_def tables_grow_def)
    moreover have "followed dep c ts s' (PSPAccount_Reference a) (map_sum id Some (pol_marshal_account p a))"
      using tasks_followed[OF dep r(4), where pre = "[]" and post = "[]" and D = "{}"
          and item = "(PSPAccount_Reference a, map_sum id Some (pol_marshal_account p a))"] p(3) r(3) that
      by simp
    ultimately show ?thesis using dep by (simp add: account_kept_def runs_in_def)
  qed
  then have "set (response_Items response) \<subseteq> account_kept dep c ts s'" by (rule subsetI)
  moreover have "covered new \<subseteq> covered cursor \<union> set (response_Items response)"
    using cov r(1,2) p(2) by (simp add: hands_over_def)
  ultimately show ?thesis by (rule order_trans[OF _ Un_mono[OF order_refl], rotated])
qed

lemma accounts_page_grows:
  assumes "run_page p k (accounts_page_of p answer ty msg req ts k) s = (r, s')"
  shows "ps_grows c D s s'"
proof (rule run_page_moves[OF assms accounts_page_of_moves])
  fix plan s1 j
  assume plan: "accounts_page_of p answer ty msg req ts k s = (Inr plan, s1)" and j: "j \<in> set (plan_jobs plan)"
  obtain js items where "plan_jobs plan = js" "next_task_jobs p k (FetchNext_ConnectorID req) ts msg items = Inr js"
    by (rule accounts_page_of_plan[OF plan HOL.refl])
  with j show "job_moves (ps_grows c D) j" by (simp add: next_task_jobs_move)
qed

lemma account_kept_stays: "undisturbed i c D s s' \<Longrightarrow> account_kept dep c ts s \<subseteq> account_kept dep c ts s'"
  by (auto simp: account_kept_def followed_undisturbed) (auto simp: undisturbed_def tables_grow_def)

text \<open>A provider of accounts, and the runs that see it.\<close>

definition accounts_provider ::
  "(string option \<Rightarrow> PSPAccount set) \<Rightarrow> deployment \<Rightarrow> FetchNext \<Rightarrow> polling \<Rightarrow> bool" where
  "accounts_provider covered dep req p \<longleftrightarrow> runs_in dep (FetchNext_ConnectorID req) p \<and>
     (\<forall>k n cursor. hands_over covered cursor
        (pol_accounts p k (FetchNext_ConnectorID req) (fetch_request_of [] req n cursor)))"

definition external_accounts_provider ::
  "(string option \<Rightarrow> PSPAccount set) \<Rightarrow> deployment \<Rightarrow> FetchNext \<Rightarrow> polling \<Rightarrow> bool" where
  "external_accounts_provider covered dep req p \<longleftrightarrow> runs_in dep (FetchNext_ConnectorID req) p \<and>
     (\<forall>k n cursor. hands_over covered cursor
        (pol_external_accounts p k (FetchNext_ConnectorID req) (fetch_request_of [] req n cursor)))"

interpretation accounts_feed: fetching "\<lambda>p. accounts_page p req ts" "accounts_provider covered dep req"
  False CAPABILITY_FETCH_ACCOUNTS "FetchNext_FromPayload req" "FetchNext_ConnectorID req" "{}" covered
  "account_kept dep (FetchNext_ConnectorID req) ts" "\<lambda>s. True" for covered dep req ts
proof
  fix p k n cur s r s'
  assume "accounts_provider covered dep req p" "run_page p k (accounts_page p req ts n k cur) s = (r, s')"
  then show "ps_grows (FetchNext_ConnectorID req) {} s s'"
    unfolding accounts_page_def by (blast intro: accounts_page_grows)
next
  fix p k n cur s new hasMore s'
  assume "accounts_provider covered dep req p"
    "run_page p k (accounts_page p req ts n k cur) s = (PageDone new hasMore, s')"
  then show "covered new \<subseteq> covered cur \<union> account_kept dep (FetchNext_ConnectorID req) ts s'"
    unfolding accounts_page_def accounts_provider_def
    by (elim conjE) (rule accounts_page_served[OF _ HOL.refl], assumption+, elim allE, assumption)
next
  fix i s s'
  assume "undisturbed i (FetchNext_ConnectorID req) {} s s'"
  then show "True \<and> account_kept dep (FetchNext_ConnectorID req) ts s \<subseteq> account_kept dep (FetchNext_ConnectorID req) ts s'"
    by (simp add: account_kept_stays)
qed

interpretation external_accounts_feed: fetching "\<lambda>p. external_accounts_page p req ts"
  "external_accounts_provider covered dep req" False CAPABILITY_FETCH_EXTERNAL_ACCOUNTS
  "FetchNext_FromPayload req" "FetchNext_ConnectorID req" "{}" covered
  "account_kept dep (FetchNext_ConnectorID req) ts" "\<lambda>s. True" for covered dep req ts
proof
  fix p k n cur s r s'
  assume "run_page p k (external_accounts_page p req ts n k cur) s = (r, s')"
  then show "ps_grows (FetchNext_ConnectorID req) {} s s'"
    unfolding external_accounts_page_def by (rule accounts_page_grows)
next
  fix p k n cur s new hasMore s'
  assume "external_accounts_provider covered dep req p"
    "run_page p k (external_accounts_page p req ts n k cur) s = (PageDone new hasMore, s')"
  then show "covered new \<subseteq> covered cur \<union> account_kept dep (FetchNext_ConnectorID req) ts s'"
    unfolding external_accounts_page_def external_accounts_provider_def
    by (elim conjE) (rule accounts_page_served[OF _ HOL.refl], assumption+, elim allE, assumption)
next
  fix i s s'
  assume "undisturbed i (FetchNext_ConnectorID req) {} s s'"
  then show "True \<and> account_kept dep (FetchNext_ConnectorID req) ts s \<subseteq> account_kept dep (FetchNext_ConnectorID req) ts s'"
    by (simp add: account_kept_stays)
qed

end
