(* ===== verification/Polling_Items.thy ===== *)
theory Polling_Items
  imports Polling_Feeds
begin

text \<open>
  The other workflows that fetch as instances of the contract: payments, which a
  provider can take back, balances, orders, conversions, and the others of a
  plugin, of which only the tasks are kept.
\<close>

section \<open>Payments\<close>

definition psp_payment_id :: "ConnectorID \<Rightarrow> PSPPayment \<Rightarrow> PaymentID" where
  "psp_payment_id c x =
     \<lparr>PaymentID_PaymentReference =
        \<lparr>PaymentReference_Reference =
           (if PSPPayment_HasParent x then PSPPayment_ParentReference x else PSPPayment_Reference x),
         PaymentReference_Type = PSPPayment_Type x\<rparr>,
      PaymentID_ConnectorID = c\<rparr>"

definition payment_kept ::
  "deployment \<Rightarrow> ConnectorID \<Rightarrow> string set \<Rightarrow> ConnectorTaskTree list \<Rightarrow> psys \<Rightarrow> PSPPayment set" where
  "payment_kept dep c D ts s = {x.
     (psp_payment_id c x \<in> payment_id ` set (payments (ps_db s)) \<or> taken_back c D (psp_payment_id c x)) \<and>
     followed dep c ts s (PSPPayment_Reference x) (map_sum id Some (dep_payment dep x))}"

lemma psp_payment_id_connector [simp]: "PaymentID_ConnectorID (psp_payment_id c x) = c"
  by (simp add: psp_payment_id_def)

lemma payment_stays:
  "payments_grow c D d d' \<Longrightarrow> coherent d \<Longrightarrow> PaymentID_ConnectorID i = c \<Longrightarrow>
     i \<in> payment_id ` set (payments d) \<Longrightarrow> i \<in> payment_id ` set (payments d') \<or> taken_back c D i"
  unfolding payments_grow_def by blast

lemma payment_kept_stays:
  assumes "undisturbed i c D s s'" "coherent (ps_db s)"
  shows "payment_kept dep c D ts s \<subseteq> payment_kept dep c D ts s'"
proof
  fix x
  assume x: "x \<in> payment_kept dep c D ts s"
  then have "followed dep c ts s' (PSPPayment_Reference x) (map_sum id Some (dep_payment dep x))"
    using assms(1) by (auto simp: payment_kept_def intro: followed_undisturbed)
  moreover have "psp_payment_id c x \<in> payment_id ` set (payments (ps_db s')) \<or> taken_back c D (psp_payment_id c x)"
    using x assms payment_stays[of c D "ps_db s" "ps_db s'" "psp_payment_id c x"]
    unfolding payment_kept_def undisturbed_def by auto
  ultimately show "x \<in> payment_kept dep c D ts s'" by (simp add: payment_kept_def)
qed

lemma FromPSPPayments_ids:
  assumes "FromPSPPayments xs c = Inr ps"
  shows "Payment_ID ` set ps = psp_payment_id c ` set xs \<and> (\<forall>p\<in>set ps. well_identified p)"
proof -
  have "list_all2 (\<lambda>x p. FromPSPPaymentToPayment x c = Inr p) xs ps"
    using assms by (simp add: FromPSPPayments_def result_map_list_Inr_iff)
  then show ?thesis
    by (induction rule: list_all2_induct)
      (auto simp: FromPSPPaymentToPayment_def psp_payment_id_def well_identified_def Let_def split: option.splits)
qed

lemma update_initiation_job_moves: "job_moves (ps_grows c D) (update_initiation_job p k x)"
  unfolding update_initiation_job_def by (auto intro!: polling_moves split: prod.splits)

lemma delete_payment_job_moves:
  "(c' = c \<Longrightarrow> snd x \<in> D) \<Longrightarrow> job_moves (ps_grows c D) (delete_payment_job p k c' x)"
  unfolding delete_payment_job_def
  by (auto intro!: polling_moves grows_PaymentsDeleteFromReference split: prod.splits)

lemma payments_page_plan:
  assumes "payments_page p req ts n k cur s = (Inr plan, s')" "c = FetchNext_ConnectorID req"
  obtains response ps js where "pol_payments p k c (fetch_request_of [] req n cur) = Inr response"
    "plan_NewState plan = response_NewState response"
    "plan_jobs plan = map (update_initiation_job p k) (enumerate 0 ps) @ js @
       map (delete_payment_job p k c) (enumerate 0 (response_PaymentsToDelete response))"
    "next_task_jobs p k c ts ''marshalling payment''
       (map (\<lambda>x. (PSPPayment_Reference x, map_sum id Some (pol_marshal_payment p x))) (response_Items response)) = Inr js"
    "psp_payment_id c ` set (response_Items response) \<subseteq> payment_id ` set (payments (ps_db s'))"
proof -
  from assms obtain response ps js where
    a: "pol_payments p k c (fetch_request_of [] req n cur) = Inr response"
    "FromPSPPayments (response_Items response) c = Inr ps"
    "tx_when (ps \<noteq> []) (tx_wrap ''storing next payments'' (durable p [k]
       ''StoragePaymentsStore'' (\<lambda>fl. PaymentsUpsert (pol_env p) fl ps))) s = (Inr (), s')"
    "next_task_jobs p k c ts ''marshalling payment''
       (map (\<lambda>x. (PSPPayment_Reference x, map_sum id Some (pol_marshal_payment p x))) (response_Items response)) = Inr js"
    "plan_NewState plan = response_NewState response"
    "plan_jobs plan = map (update_initiation_job p k) (enumerate 0 ps) @ js @
       map (delete_payment_job p k c) (enumerate 0 (response_PaymentsToDelete response))"
    by (auto simp: payments_page_def Let_def tx_bind_Inr_iff tx_seq_Inr_iff)
  note ids = FromPSPPayments_ids[OF a(2)]
  have "Payment_ID ` set ps \<subseteq> payment_id ` set (payments (ps_db s'))"
  proof (cases "ps = []")
    case False
    with a(3) have "durable p [k] ''StoragePaymentsStore'' (\<lambda>fl. PaymentsUpsert (pol_env p) fl ps) s = (Inr (), s')"
      by (simp add: tx_when_def)
    then show ?thesis
      by (rule durable_stores[OF grows_PaymentsUpsert, rotated])
        (use ids PaymentsUpsert_stores in blast)+
  qed simp
  with ids have "psp_payment_id c ` set (response_Items response) \<subseteq> payment_id ` set (payments (ps_db s'))"
    by (simp only: simp_thms)
  with a(1,5,6,4) show thesis by (rule that)
qed

lemma payments_page_moves: "moves (ps_grows c0 D) (payments_page p req ts n k cur)"
proof -
  have store: "moves (ps_grows c0 D) (tx_wrap msg (durable p [k] name (\<lambda>fl. PaymentsUpsert (pol_env p) fl ps)))"
    if "FromPSPPayments xs c = Inr ps" for xs ps msg name and c
    using FromPSPPayments_ids[OF that] by (intro polling_moves grows_PaymentsUpsert) blast
  show ?thesis
    unfolding payments_page_def Let_def
  proof (rule growing.moves_bind[OF growing.moves_wrap[OF moves_plugin_activity]])
    fix response
    let ?c = "FetchNext_ConnectorID req"
    let ?rest = "\<lambda>ps. tx_seq (tx_when (ps \<noteq> []) (tx_wrap ''storing next payments'' (durable p [k]
        ''StoragePaymentsStore'' (\<lambda>fl. PaymentsUpsert (pol_env p) fl ps))))
      (tx_bind (tx_lift (next_task_jobs p k ?c ts ''marshalling payment''
          (map (\<lambda>x. (PSPPayment_Reference x, map_sum id Some (pol_marshal_payment p x)))
             (response_Items response)))) (\<lambda>jobs.
       tx_return
         \<lparr>plan_jobs = map (update_initiation_job p k) (enumerate 0 ps) @ jobs @
            map (delete_payment_job p k ?c) (enumerate 0 (response_PaymentsToDelete response)),
          plan_capacity = length (response_Items response) * 3,
          plan_NewState = response_NewState response, plan_HasMore = response_HasMore response\<rparr>))"
    show "moves (ps_grows c0 D) (tx_bind (translated ''failed to translate psp payments''
        (FromPSPPayments (response_Items response) ?c)) ?rest)"
    proof (cases "FromPSPPayments (response_Items response) ?c")
      case (Inl err)
      then show ?thesis by (simp add: translated_def growing.moves_return)
    next
      case (Inr ps)
      have "moves (ps_grows c0 D) (?rest ps)"
        by (intro growing.moves_seq growing.moves_when store[OF Inr] growing.moves_bind growing.moves_return)
      with Inr show ?thesis by (simp add: translated_def)
    qed
  qed
qed

definition payments_provider ::
  "(string option \<Rightarrow> PSPPayment set) \<Rightarrow> string set \<Rightarrow> deployment \<Rightarrow> FetchNext \<Rightarrow> polling \<Rightarrow> bool" where
  "payments_provider covered D dep req p \<longleftrightarrow> runs_in dep (FetchNext_ConnectorID req) p \<and>
     (\<forall>k n cursor. let answer = pol_payments p k (FetchNext_ConnectorID req) (fetch_request_of [] req n cursor) in
        hands_over covered cursor answer \<and>
        (\<forall>response. answer = Inr response \<longrightarrow> set (response_PaymentsToDelete response) \<subseteq> D))"

lemma payments_jobs_move:
  assumes "j \<in> set (map (update_initiation_job p k) us) \<union> set (map (delete_payment_job p k c') (enumerate 0 ds))"
    "c' = c \<Longrightarrow> set ds \<subseteq> D"
  shows "job_moves (ps_grows c D) j"
  using assms by (auto simp: update_initiation_job_moves in_set_enumerate_eq subset_iff intro!: delete_payment_job_moves)

lemma payments_page_grows:
  assumes run: "run_page p k (payments_page p req ts n k cur) s = (r, s')"
    and gone: "\<And>response. FetchNext_ConnectorID req = c \<Longrightarrow>
      pol_payments p k c (fetch_request_of [] req n cur) = Inr response \<Longrightarrow>
      set (response_PaymentsToDelete response) \<subseteq> D"
  shows "ps_grows c D s s'"
proof (rule run_page_moves[OF run payments_page_moves])
  let ?c = "FetchNext_ConnectorID req"
  fix plan s1 j
  assume plan: "payments_page p req ts n k cur s = (Inr plan, s1)" and j: "j \<in> set (plan_jobs plan)"
  obtain response ps js items where r: "pol_payments p k ?c (fetch_request_of [] req n cur) = Inr response"
    "plan_jobs plan = map (update_initiation_job p k) (enumerate 0 ps) @ js @
       map (delete_payment_job p k ?c) (enumerate 0 (response_PaymentsToDelete response))"
    "next_task_jobs p k ?c ts ''marshalling payment'' items = Inr js"
    by (rule payments_page_plan[OF plan HOL.refl])
  have "?c = c \<Longrightarrow> set (response_PaymentsToDelete response) \<subseteq> D" using gone r(1) by simp
  with j r(2,3) show "job_moves (ps_grows c D) j"
    using payments_jobs_move[where c' = ?c and D = D and c = c and j = j and p = p and k = k and us = "enumerate 0 ps"
        and ds = "response_PaymentsToDelete response"]
      next_task_jobs_move[OF r(3)] by auto
qed

interpretation payments_feed: fetching "\<lambda>p. payments_page p req ts" "payments_provider covered D dep req"
  False CAPABILITY_FETCH_PAYMENTS "FetchNext_FromPayload req" "FetchNext_ConnectorID req" D covered
  "payment_kept dep (FetchNext_ConnectorID req) D ts" "\<lambda>s. coherent (ps_db s)" for covered D dep req ts
proof
  fix p k n cur s r s'
  assume prov: "payments_provider covered D dep req p"
    and run: "run_page p k (payments_page p req ts n k cur) s = (r, s')"
  show "ps_grows (FetchNext_ConnectorID req) D s s'"
  proof (rule payments_page_grows[OF run])
    fix response
    assume "pol_payments p k (FetchNext_ConnectorID req) (fetch_request_of [] req n cur) = Inr response"
    with prov show "set (response_PaymentsToDelete response) \<subseteq> D"
      unfolding payments_provider_def Let_def by blast
  qed
next
  fix p k n cur s new hasMore s'
  let ?c = "FetchNext_ConnectorID req"
  assume prov: "payments_provider covered D dep req p" and coh: "coherent (ps_db s)"
    and run: "run_page p k (payments_page p req ts n k cur) s = (PageDone new hasMore, s')"
  obtain plan s1 where p: "payments_page p req ts n k cur s = (Inr plan, s1)" "plan_NewState plan = new"
    "wait_all (pol_order p k) (plan_jobs plan) s1 = ([], s')"
    by (rule run_page_done[OF run])
  obtain response ps js where r: "pol_payments p k ?c (fetch_request_of [] req n cur) = Inr response"
    "plan_NewState plan = response_NewState response"
    "plan_jobs plan = map (update_initiation_job p k) (enumerate 0 ps) @ js @
       map (delete_payment_job p k ?c) (enumerate 0 (response_PaymentsToDelete response))"
    "next_task_jobs p k ?c ts ''marshalling payment''
       (map (\<lambda>x. (PSPPayment_Reference x, map_sum id Some (pol_marshal_payment p x))) (response_Items response)) = Inr js"
    "psp_payment_id ?c ` set (response_Items response) \<subseteq> payment_id ` set (payments (ps_db s1))"
    by (rule payments_page_plan[OF p(1) HOL.refl])
  have dep: "runs_in dep ?c p" and gone: "set (response_PaymentsToDelete response) \<subseteq> D"
    and cov: "covered new \<subseteq> covered cur \<union> set (response_Items response)"
    using prov r(1,2) p(2) by (simp_all add: payments_provider_def Let_def hands_over_def)
  note m = payments_jobs_move[where c' = ?c and c = ?c and D = D and p = p and k = k, OF _ gone]
  have coh1: "coherent (ps_db s1)"
    using movesD[OF payments_page_moves p(1), of ?c D] coh
    by (simp add: ps_grows_def db_grows_def payments_grow_def)
  have "growing.all_move ?c D (plan_jobs plan)"
    using m[where us = "enumerate 0 ps"] next_task_jobs_move[OF r(4)] by (auto simp: growing.all_move_def r(3))
  then have g: "ps_grows ?c D s1 s'" by (rule growing.wait_all_moves[OF p(3)])
  have "x \<in> payment_kept dep ?c D ts s'" if x: "x \<in> set (response_Items response)" for x
  proof -
    have "psp_payment_id ?c x \<in> payment_id ` set (payments (ps_db s1))" using r(5) x by blast
    then have "psp_payment_id ?c x \<in> payment_id ` set (payments (ps_db s')) \<or> taken_back ?c D (psp_payment_id ?c x)"
      using g coh1 payment_stays[of ?c D "ps_db s1" "ps_db s'" "psp_payment_id ?c x"]
      unfolding ps_grows_def db_grows_def by simp
    moreover have "followed dep ?c ts s' (PSPPayment_Reference x) (map_sum id Some (pol_marshal_payment p x))"
      using tasks_followed[OF dep r(4) p(3)[unfolded r(3)] m, where
          item = "(PSPPayment_Reference x, map_sum id Some (pol_marshal_payment p x))"] x by simp
    ultimately show ?thesis using dep by (simp add: payment_kept_def runs_in_def)
  qed
  then have "set (response_Items response) \<subseteq> payment_kept dep ?c D ts s'" by (rule subsetI)
  with cov show "covered new \<subseteq> covered cur \<union> payment_kept dep ?c D ts s'"
    by (rule order_trans[OF _ Un_mono[OF order_refl]])
next
  fix i s s'
  assume "undisturbed i (FetchNext_ConnectorID req) D s s'" "coherent (ps_db s)"
  then show "coherent (ps_db s') \<and>
      payment_kept dep (FetchNext_ConnectorID req) D ts s \<subseteq> payment_kept dep (FetchNext_ConnectorID req) D ts s'"
    by (auto intro: undisturbed_coherent dest: payment_kept_stays)
qed

section \<open>Balances\<close>

text \<open>A balance is kept as a row of its account and asset; what becomes of the rows is another matter.\<close>

definition psp_balance_pair :: "ConnectorID \<Rightarrow> PSPBalance \<Rightarrow> AccountID \<times> string" where
  "psp_balance_pair c b =
     (\<lparr>AccountID_Reference = PSPBalance_AccountReference b, AccountID_ConnectorID = c\<rparr>, PSPBalance_Asset b)"

definition balance_kept ::
  "deployment \<Rightarrow> ConnectorID \<Rightarrow> ConnectorTaskTree list \<Rightarrow> psys \<Rightarrow> PSPBalance set" where
  "balance_kept dep c ts s = {b.
     psp_balance_pair c b \<in> balance_pair ` set (balances (ps_db s)) \<and>
     followed dep c ts s (PSPBalance_AccountReference b @ ''-balances'') (map_sum id Some (dep_balance dep b))}"

lemma balance_kept_stays: "undisturbed i c D s s' \<Longrightarrow> balance_kept dep c ts s \<subseteq> balance_kept dep c ts s'"
  by (auto simp: balance_kept_def followed_undisturbed) (auto simp: undisturbed_def tables_grow_def)

lemma FromPSPBalances_pairs:
  assumes "FromPSPBalances xs c u o' = Inr bs"
  shows "(\<lambda>b. (Balance_AccountID b, Balance_Asset b)) ` set bs = psp_balance_pair c ` set xs"
proof -
  have "list_all2 (\<lambda>x b. FromPSPBalance x c u o' = Inr b) xs bs"
    using assms by (simp add: FromPSPBalances_def result_map_list_Inr_iff)
  then show ?thesis
    by (induction rule: list_all2_induct)
      (auto simp: FromPSPBalance_def psp_balance_pair_def Let_def split: option.splits)
qed

lemma insertBalances_pair:
  assumes "insertBalances fl b n d = (Inr x, d')"
  shows "balance_pair b \<in> balance_pair ` set (balances d')"
proof (cases "last_balance (balance_pair b) (balances d)")
  case None
  with assms have "insert_balance_row fl b d = (Inr (), d')"
    by (auto simp: insertBalances_def refuse_def tx_seq_Inr_iff stmt_def split: if_splits option.splits)
  then show ?thesis by (auto simp: insert_balance_row_def refuse_def split: if_splits)
next
  case (Some l)
  then have "l \<in> set (filter (\<lambda>r. balance_pair r = balance_pair b) (balances d))"
    unfolding last_balance_def by (rule latest_by_SomeD(1))
  then have "balance_pair l = balance_pair b" "l \<in> set (balances d)" by simp_all
  then have "balance_pair b \<in> balance_pair ` set (balances d)" by (metis imageI)
  moreover have "db_grows undefined {} d d'" by (rule grows_keeps[OF grows_insertBalances assms])
  ultimately show ?thesis by (auto simp: db_grows_def tables_grow_def)
qed

lemma insert_balances_loop_pairs:
  "insert_balances_loop env fl bs d = (Inr ins, d') \<Longrightarrow>
     (\<lambda>b. (Balance_AccountID b, Balance_Asset b)) ` set bs \<subseteq> balance_pair ` set (balances d')"
proof (induction bs arbitrary: ins d)
  case Nil
  then show ?case by simp
next
  case (Cons b bs)
  then obtain ch d1 rest where i: "insertBalances fl (fromBalanceModels env b) (Balance_Balance b = None) d = (Inr ch, d1)"
    and l: "insert_balances_loop env fl bs d1 = (Inr rest, d')"
    by (auto simp: tx_bind_Inr_iff)
  have "balance_pair (fromBalanceModels env b) \<in> balance_pair ` set (balances d1)" by (rule insertBalances_pair[OF i])
  moreover have "db_grows undefined {} d1 d'" by (rule grows_keeps[OF grows_insert_balances_loop l])
  ultimately have "balance_pair (fromBalanceModels env b) \<in> balance_pair ` set (balances d')"
    by (auto simp: db_grows_def tables_grow_def)
  with Cons.IH[OF l] show ?case by (simp add: balance_pair_def fromBalanceModels_def)
qed

lemma BalancesUpsert_stores:
  assumes "BalancesUpsert env fl bs d = (Inr u, d')"
  shows "(\<lambda>b. (Balance_AccountID b, Balance_Asset b)) ` set bs \<subseteq> balance_pair ` set (balances d')"
proof -
  obtain ins d1 where l: "insert_balances_loop env fl bs d = (Inr ins, d1)"
    and o: "OutboxEventsInsert env fl (map (balance_event env) ins) d1 = (Inr u, d')"
    by (rule BalancesUpsert_Inr[OF assms])
  obtain t where "d' = d1\<lparr>outbox_events := t\<rparr>" using outbox.only_outbox[OF o] by blast
  with insert_balances_loop_pairs[OF l] show ?thesis by simp
qed

lemma balances_page_moves: "moves (ps_grows c D) (balances_page p req ts n k cur)"
  unfolding balances_page_def Let_def by (intro polling_moves)

lemma balances_page_plan:
  assumes "balances_page p req ts n k cur s = (Inr plan, s')" "c = FetchNext_ConnectorID req"
  obtains response js where "pol_balances p k c (fetch_request_of [] req n cur) = Inr response"
    "plan_NewState plan = response_NewState response" "plan_jobs plan = js"
    "next_task_jobs p k c ts ''marshalling balances''
       (map (\<lambda>b. (PSPBalance_AccountReference b @ ''-balances'', map_sum id Some (pol_marshal_balance p b)))
          (response_Items response)) = Inr js"
    "psp_balance_pair c ` set (response_Items response) \<subseteq> balance_pair ` set (balances (ps_db s'))"
proof -
  from assms obtain response bs gone where
    a: "pol_balances p k c (fetch_request_of [] req n cur) = Inr response"
    "FromPSPBalances (response_Items response) c None None = Inr bs"
    "tx_when (response_Items response \<noteq> []) (tx_wrap ''storing next balances'' (durable p [k]
       ''StorageBalancesStore'' (\<lambda>fl. BalancesUpsert (pol_env p) fl bs))) s = (Inr (), s')"
    "pol_connector p k c = Inr gone"
    "plan_NewState plan = response_NewState response"
    "plan_jobs plan = (if ts = [] \<or> gone then [] else item_jobs p k c ts ''marshalling balances''
       (map (\<lambda>b. (PSPBalance_AccountReference b @ ''-balances'', map_sum id Some (pol_marshal_balance p b)))
          (response_Items response)))"
    by (auto simp: balances_page_def Let_def tx_bind_Inr_iff tx_seq_Inr_iff)
  have js: "next_task_jobs p k c ts ''marshalling balances''
       (map (\<lambda>b. (PSPBalance_AccountReference b @ ''-balances'', map_sum id Some (pol_marshal_balance p b)))
          (response_Items response)) = Inr (plan_jobs plan)"
    by (simp add: next_task_jobs_def a(4,6))
  have "(\<lambda>b. (Balance_AccountID b, Balance_Asset b)) ` set bs \<subseteq> balance_pair ` set (balances (ps_db s'))"
  proof (cases "response_Items response = []")
    case True
    with a(2) show ?thesis by (simp add: FromPSPBalances_def)
  next
    case False
    with a(3) have "durable p [k] ''StorageBalancesStore'' (\<lambda>fl. BalancesUpsert (pol_env p) fl bs) s = (Inr (), s')"
      by (simp add: tx_when_def)
    then show ?thesis by (rule durable_stores[OF grows_BalancesUpsert]) (rule BalancesUpsert_stores)
  qed
  with FromPSPBalances_pairs[OF a(2)]
  have "psp_balance_pair c ` set (response_Items response) \<subseteq> balance_pair ` set (balances (ps_db s'))"
    by (simp only:)
  with a(1,5) HOL.refl js show thesis by (rule that)
qed

definition balances_provider ::
  "(string option \<Rightarrow> PSPBalance set) \<Rightarrow> deployment \<Rightarrow> FetchNext \<Rightarrow> polling \<Rightarrow> bool" where
  "balances_provider covered dep req p \<longleftrightarrow> runs_in dep (FetchNext_ConnectorID req) p \<and>
     (\<forall>k n cursor. hands_over covered cursor
        (pol_balances p k (FetchNext_ConnectorID req) (fetch_request_of [] req n cursor)))"

lemma balances_page_grows:
  assumes run: "run_page p k (balances_page p req ts n k cur) s = (r, s')"
  shows "ps_grows c D s s'"
proof (rule run_page_moves[OF run balances_page_moves])
  fix plan s1 j
  assume plan: "balances_page p req ts n k cur s = (Inr plan, s1)" and j: "j \<in> set (plan_jobs plan)"
  obtain js items where "plan_jobs plan = js"
    "next_task_jobs p k (FetchNext_ConnectorID req) ts ''marshalling balances'' items = Inr js"
    by (rule balances_page_plan[OF plan HOL.refl])
  with j show "job_moves (ps_grows c D) j" by (simp add: next_task_jobs_move)
qed

interpretation balances_feed: fetching "\<lambda>p. balances_page p req ts" "balances_provider covered dep req"
  False CAPABILITY_FETCH_BALANCES "FetchNext_FromPayload req" "FetchNext_ConnectorID req" "{}" covered
  "balance_kept dep (FetchNext_ConnectorID req) ts" "\<lambda>s. True" for covered dep req ts
proof
  fix p k n cur s r s'
  assume "run_page p k (balances_page p req ts n k cur) s = (r, s')"
  then show "ps_grows (FetchNext_ConnectorID req) {} s s'" by (rule balances_page_grows)
next
  fix p k n cur s new hasMore s'
  let ?c = "FetchNext_ConnectorID req"
  assume prov: "balances_provider covered dep req p"
    and run: "run_page p k (balances_page p req ts n k cur) s = (PageDone new hasMore, s')"
  obtain plan s1 where p: "balances_page p req ts n k cur s = (Inr plan, s1)" "plan_NewState plan = new"
    "wait_all (pol_order p k) (plan_jobs plan) s1 = ([], s')"
    by (rule run_page_done[OF run])
  let ?item = "\<lambda>b. (PSPBalance_AccountReference b @ ''-balances'', map_sum id Some (pol_marshal_balance p b))"
  obtain response js where r: "pol_balances p k ?c (fetch_request_of [] req n cur) = Inr response"
    "plan_NewState plan = response_NewState response" "plan_jobs plan = js"
    "next_task_jobs p k ?c ts ''marshalling balances'' (map ?item (response_Items response)) = Inr js"
    "psp_balance_pair ?c ` set (response_Items response) \<subseteq> balance_pair ` set (balances (ps_db s1))"
    by (rule balances_page_plan[OF p(1) HOL.refl])
  have dep: "runs_in dep ?c p" and cov: "covered new \<subseteq> covered cur \<union> set (response_Items response)"
    using prov r(1,2) p(2) by (simp_all add: balances_provider_def hands_over_def)
  have "growing.all_move ?c {} (plan_jobs plan)"
    using next_task_jobs_move[OF r(4)] by (simp add: growing.all_move_def r(3))
  then have g: "ps_grows ?c {} s1 s'" by (rule growing.wait_all_moves[OF p(3)])
  have "b \<in> balance_kept dep ?c ts s'" if b: "b \<in> set (response_Items response)" for b
  proof -
    have "psp_balance_pair ?c b \<in> balance_pair ` set (balances (ps_db s'))"
    proof -
      have "balance_pair ` set (balances (ps_db s1)) \<subseteq> balance_pair ` set (balances (ps_db s'))"
        using g by (simp add: ps_grows_def db_grows_def tables_grow_def)
      then show ?thesis by (rule subsetD[OF _ subsetD[OF r(5) imageI[OF b]]])
    qed
    moreover have "followed dep ?c ts s' (fst (?item b)) (snd (?item b))"
      using tasks_followed[OF dep r(4), where pre = "[]" and post = "[]" and D = "{}" and item = "?item b"]
        p(3) r(3) b by simp
    ultimately show ?thesis using dep by (simp add: balance_kept_def runs_in_def)
  qed
  then have "set (response_Items response) \<subseteq> balance_kept dep ?c ts s'" by (rule subsetI)
  with cov show "covered new \<subseteq> covered cur \<union> balance_kept dep ?c ts s'"
    by (rule order_trans[OF _ Un_mono[OF order_refl]])
next
  fix i s s'
  assume "undisturbed i (FetchNext_ConnectorID req) {} s s'"
  then show "True \<and> balance_kept dep (FetchNext_ConnectorID req) ts s \<subseteq> balance_kept dep (FetchNext_ConnectorID req) ts s'"
    by (simp add: balance_kept_stays)
qed

section \<open>Orders and conversions\<close>

definition order_kept :: "ConnectorID \<Rightarrow> psys \<Rightarrow> PSPOrder set" where
  "order_kept c s = {x. \<lparr>OrderID_Reference = PSPOrder_Reference x, OrderID_ConnectorID = c\<rparr>
     \<in> order_id ` set (orders (ps_db s))}"

definition conversion_kept :: "ConnectorID \<Rightarrow> psys \<Rightarrow> PSPConversion set" where
  "conversion_kept c s = {x. \<lparr>ConversionID_Reference = PSPConversion_Reference x, ConversionID_ConnectorID = c\<rparr>
     \<in> conversion_id ` set (conversions (ps_db s))}"

lemma order_kept_stays: "undisturbed i c' D s s' \<Longrightarrow> order_kept c s \<subseteq> order_kept c s'"
  by (auto simp: order_kept_def undisturbed_def tables_grow_def)

lemma conversion_kept_stays: "undisturbed i c' D s s' \<Longrightarrow> conversion_kept c s \<subseteq> conversion_kept c s'"
  by (auto simp: conversion_kept_def undisturbed_def tables_grow_def)

lemma insert_update_has:
  assumes "insert_update key g rs tbl = Some tbl'" and g: "\<And>x y. key x = key y \<Longrightarrow> key (g x y) = key x"
  shows "key ` set rs \<subseteq> key ` set tbl'"
proof -
  have "has_key key k (fold (upsert_row key g) rs tbl)" if "k \<in> key ` set rs \<or> has_key key k tbl" for k
    using that by (induction rs arbitrary: tbl) (auto simp: has_key_upsert_row g)
  with assms(1) show ?thesis by (auto simp: insert_update_def has_key_iff split: if_splits)
qed

lemma add_order_ids: "Order_ID ` set (add_order os x) = insert (Order_ID x) (Order_ID ` set os)"
proof -
  have "Order_ID (merge_order o' x) = Order_ID x" if "Order_ID o' = Order_ID x" for o'
    using that by (simp add: merge_order_def Let_def)
  then have "Order_ID (if Order_ID o' = Order_ID x then merge_order o' x else o') = Order_ID o'" for o'
    by simp
  then have "Order_ID ` set (map (\<lambda>o'. if Order_ID o' = Order_ID x then merge_order o' x else o') os)
      = Order_ID ` set os" by (simp only: list.set_map image_image)
  moreover have "list_ex (\<lambda>o'. Order_ID o' = Order_ID x) os \<longleftrightarrow> Order_ID x \<in> Order_ID ` set os"
    by (induction os) auto
  ultimately show ?thesis by (simp add: add_order_def insert_absorb del: set_map)
qed

lemma FromPSPOrders_ids:
  assumes "FromPSPOrders xs c now = Inr os"
  shows "Order_ID ` set os =
    (\<lambda>x. \<lparr>OrderID_Reference = PSPOrder_Reference x, OrderID_ConnectorID = c\<rparr>) ` set xs"
proof -
  have "psp_orders_loop c now xs acc = Inr os \<Longrightarrow> Order_ID ` set os = Order_ID ` set acc \<union>
      (\<lambda>x. \<lparr>OrderID_Reference = PSPOrder_Reference x, OrderID_ConnectorID = c\<rparr>) ` set xs" for acc
  proof (induction xs arbitrary: acc)
    case Nil
    then show ?case by simp
  next
    case (Cons x xs)
    then obtain y where y: "FromPSPOrderToOrder x c now = Inr y" "psp_orders_loop c now xs (add_order acc y) = Inr os"
      by auto
    have "Order_ID y = \<lparr>OrderID_Reference = PSPOrder_Reference x, OrderID_ConnectorID = c\<rparr>"
      using y(1) by (auto simp: FromPSPOrderToOrder_def split: option.splits)
    with Cons.IH[OF y(2)] show ?case by (auto simp: add_order_ids)
  qed
  with assms show ?thesis by (simp add: FromPSPOrders_def)
qed

lemma OrdersUpsert_stores:
  assumes "OrdersUpsert env fl os d = (Inr u, d')"
  shows "Order_ID ` set os \<subseteq> order_id ` set (orders d')"
proof -
  have run: "OrdersUpsert env fl os d = (Inr (), d')" using assms by simp
  obtain tbl new es where
    t: "insert_update order_id merge_order_row (map (fromOrderModels env) os) (orders d) = Some tbl" and
    o: "OutboxEventsInsert env fl es (d\<lparr>orders := tbl, order_adjustments := order_adjustments d @ new\<rparr>)
          = (Inr (), d')"
    by (rule OrdersUpsert_result[OF run])
  have "orders d' = tbl" using outbox.only_outbox[OF o] by auto
  moreover have "order_id ` set (map (fromOrderModels env) os) \<subseteq> order_id ` set tbl"
    by (rule insert_update_has[OF t]) (simp add: merge_order_row_def)
  moreover have "order_id ` set (map (fromOrderModels env) os) = Order_ID ` set os"
    by (simp add: image_image fromOrderModels_def)
  ultimately show ?thesis by (simp only:)
qed

lemma FromPSPConversions_ids:
  assumes "FromPSPConversions now xs c = Inr cs"
  shows "Conversion_ID ` set cs =
    (\<lambda>x. \<lparr>ConversionID_Reference = PSPConversion_Reference x, ConversionID_ConnectorID = c\<rparr>) ` set xs"
proof -
  have "list_all2 (\<lambda>x y. FromPSPConversionToConversion now x c = Inr y) xs cs"
    using assms by (simp add: FromPSPConversions_def result_map_list_Inr_iff)
  then show ?thesis
    by (induction rule: list_all2_induct) (auto simp: FromPSPConversionToConversion_def split: option.splits)
qed

lemma ConversionsUpsert_stores:
  assumes "ConversionsUpsert env fl cs d = (Inr u, d')"
  shows "Conversion_ID ` set cs \<subseteq> conversion_id ` set (conversions d')"
proof -
  have run: "ConversionsUpsert env fl cs d = (Inr (), d')" using assms by simp
  obtain tbl es where
    t: "insert_update conversion_id merge_conversion_row (map (fromConversionModels env) cs) (conversions d) = Some tbl"
    and o: "OutboxEventsInsert env fl es (d\<lparr>conversions := tbl\<rparr>) = (Inr (), d')"
    by (rule ConversionsUpsert_result[OF run])
  have "conversions d' = tbl" using outbox.only_outbox[OF o] by auto
  moreover have "conversion_id ` set (map (fromConversionModels env) cs) \<subseteq> conversion_id ` set tbl"
    by (rule insert_update_has[OF t]) (simp add: merge_conversion_row_def)
  moreover have "conversion_id ` set (map (fromConversionModels env) cs) = Conversion_ID ` set cs"
    by (simp add: image_image fromConversionModels_def)
  ultimately show ?thesis by (simp only:)
qed

text \<open>A page without goroutines ends where its preparation does.\<close>

lemma run_page_no_jobs:
  assumes "run_page p k prepare s = (PageDone new hasMore, s')"
    and "\<And>plan s1. prepare s = (Inr plan, s1) \<Longrightarrow> plan_jobs plan = []"
  obtains plan where "prepare s = (Inr plan, s')" "plan_NewState plan = new"
proof -
  obtain plan s1 where p: "prepare s = (Inr plan, s1)" "plan_NewState plan = new"
    "wait_all (pol_order p k) (plan_jobs plan) s1 = ([], s')"
    by (rule run_page_done[OF assms(1)])
  have "interleave order [] x = ([], [], x)" for order and x :: psys
    by (induction order) (simp_all add: step_job_def)
  then have "s1 = s'" using p(3) assms(2)[OF p(1)] by (simp add: wait_all_def)
  with p that show thesis by blast
qed

definition orders_provider ::
  "(string option \<Rightarrow> PSPOrder set) \<Rightarrow> FetchNext \<Rightarrow> polling \<Rightarrow> bool" where
  "orders_provider covered req p \<longleftrightarrow> (\<forall>k n cursor. hands_over covered cursor
     (pol_orders p k (FetchNext_ConnectorID req) (fetch_request_of [] req n cursor)))"

definition conversions_provider ::
  "(string option \<Rightarrow> PSPConversion set) \<Rightarrow> FetchNext \<Rightarrow> polling \<Rightarrow> bool" where
  "conversions_provider covered req p \<longleftrightarrow> (\<forall>k n cursor. hands_over covered cursor
     (pol_conversions p k (FetchNext_ConnectorID req) (fetch_request_of [] req n cursor)))"

lemma orders_page_moves: "moves (ps_grows c D) (orders_page p req ts n k cur)"
  unfolding orders_page_def Let_def by (intro polling_moves)

lemma conversions_page_moves: "moves (ps_grows c D) (conversions_page p req ts n k cur)"
  unfolding conversions_page_def Let_def by (intro polling_moves)

lemma orders_page_plan:
  assumes "orders_page p req ts n k cur s = (Inr plan, s')"
  shows "\<exists>response. pol_orders p k (FetchNext_ConnectorID req) (fetch_request_of [] req n cur) = Inr response \<and>
    plan = no_jobs response \<and> set (response_Items response) \<subseteq> order_kept (FetchNext_ConnectorID req) s'"
proof -
  let ?c = "FetchNext_ConnectorID req"
  from assms obtain response os where
    a: "pol_orders p k ?c (fetch_request_of [] req n cur) = Inr response"
    "FromPSPOrders (response_Items response) ?c (pol_now p [k] ''orders'') = Inr os"
    "tx_when (os \<noteq> []) (tx_wrap ''storing next orders'' (durable p [k] ''StorageOrdersUpsert''
       (\<lambda>fl. OrdersUpsert (pol_env p) fl os))) s = (Inr (), s')" "plan = no_jobs response"
    by (auto simp: orders_page_def Let_def tx_bind_Inr_iff tx_seq_Inr_iff)
  have "Order_ID ` set os \<subseteq> order_id ` set (orders (ps_db s'))"
  proof (cases "os = []")
    case False
    with a(3) have "durable p [k] ''StorageOrdersUpsert'' (\<lambda>fl. OrdersUpsert (pol_env p) fl os) s = (Inr (), s')"
      by (simp add: tx_when_def)
    then show ?thesis by (rule durable_stores[OF grows_OrdersUpsert]) (rule OrdersUpsert_stores)
  qed simp
  with FromPSPOrders_ids[OF a(2)] have
    "(\<lambda>x. \<lparr>OrderID_Reference = PSPOrder_Reference x, OrderID_ConnectorID = ?c\<rparr>) ` set (response_Items response)
       \<subseteq> order_id ` set (orders (ps_db s'))" by (simp only:)
  then have "set (response_Items response) \<subseteq> order_kept ?c s'"
    by (auto simp only: order_kept_def mem_Collect_eq dest: subsetD[OF _ imageI])
  with a(1,4) show ?thesis by blast
qed

lemma conversions_page_plan:
  assumes "conversions_page p req ts n k cur s = (Inr plan, s')"
  shows "\<exists>response. pol_conversions p k (FetchNext_ConnectorID req) (fetch_request_of [] req n cur) = Inr response \<and>
    plan = no_jobs response \<and> set (response_Items response) \<subseteq> conversion_kept (FetchNext_ConnectorID req) s'"
proof -
  let ?c = "FetchNext_ConnectorID req"
  from assms obtain response cs where
    a: "pol_conversions p k ?c (fetch_request_of [] req n cur) = Inr response"
    "FromPSPConversions (pol_now p [k] ''conversions'') (response_Items response) ?c = Inr cs"
    "tx_when (response_Items response \<noteq> []) (tx_wrap ''storing next conversions'' (durable p [k]
       ''StorageConversionsUpsert'' (\<lambda>fl. ConversionsUpsert (pol_env p) fl cs))) s = (Inr (), s')"
    "plan = no_jobs response"
    by (auto simp: conversions_page_def Let_def tx_bind_Inr_iff tx_seq_Inr_iff)
  have "Conversion_ID ` set cs \<subseteq> conversion_id ` set (conversions (ps_db s'))"
  proof (cases "response_Items response = []")
    case True
    with a(2) show ?thesis by (simp add: FromPSPConversions_def)
  next
    case False
    with a(3) have "durable p [k] ''StorageConversionsUpsert''
        (\<lambda>fl. ConversionsUpsert (pol_env p) fl cs) s = (Inr (), s')" by (simp add: tx_when_def)
    then show ?thesis by (rule durable_stores[OF grows_ConversionsUpsert]) (rule ConversionsUpsert_stores)
  qed
  with FromPSPConversions_ids[OF a(2)] have
    "(\<lambda>x. \<lparr>ConversionID_Reference = PSPConversion_Reference x, ConversionID_ConnectorID = ?c\<rparr>) ` set (response_Items response)
       \<subseteq> conversion_id ` set (conversions (ps_db s'))" by (simp only:)
  then have "set (response_Items response) \<subseteq> conversion_kept ?c s'"
    by (auto simp only: conversion_kept_def mem_Collect_eq dest: subsetD[OF _ imageI])
  with a(1,4) show ?thesis by blast
qed

lemma orders_page_grows: "run_page p k (orders_page p req ts n k cur) s = (r, s') \<Longrightarrow> ps_grows c D s s'"
  by (erule run_page_moves[OF _ orders_page_moves]) (auto simp: no_jobs_def dest!: orders_page_plan)

interpretation orders_feed: fetching "\<lambda>p. orders_page p req ts" "orders_provider covered req"
  True CAPABILITY_FETCH_ORDERS "FetchNext_FromPayload req" "FetchNext_ConnectorID req" "{}" covered
  "order_kept (FetchNext_ConnectorID req)" "\<lambda>s. True" for covered req ts
proof
  fix p k n cur s r s'
  assume "run_page p k (orders_page p req ts n k cur) s = (r, s')"
  then show "ps_grows (FetchNext_ConnectorID req) {} s s'"
    by (rule orders_page_grows)
next
  fix p k n cur s new hasMore s'
  assume prov: "orders_provider covered req p"
    and run: "run_page p k (orders_page p req ts n k cur) s = (PageDone new hasMore, s')"
  obtain plan where plan: "orders_page p req ts n k cur s = (Inr plan, s')" "plan_NewState plan = new"
    by (rule run_page_no_jobs[OF run]) (auto simp: no_jobs_def dest!: orders_page_plan)
  from orders_page_plan[OF plan(1)] plan(2) prov
  show "covered new \<subseteq> covered cur \<union> order_kept (FetchNext_ConnectorID req) s'"
    by (fastforce simp: orders_provider_def hands_over_def no_jobs_def)
next
  fix i s s'
  assume "undisturbed i (FetchNext_ConnectorID req) {} s s'"
  then show "True \<and> order_kept (FetchNext_ConnectorID req) s \<subseteq> order_kept (FetchNext_ConnectorID req) s'"
    by (simp add: order_kept_stays)
qed

lemma conversions_page_grows: "run_page p k (conversions_page p req ts n k cur) s = (r, s') \<Longrightarrow> ps_grows c D s s'"
  by (erule run_page_moves[OF _ conversions_page_moves]) (auto simp: no_jobs_def dest!: conversions_page_plan)

interpretation conversions_feed: fetching "\<lambda>p. conversions_page p req ts" "conversions_provider covered req"
  True CAPABILITY_FETCH_CONVERSIONS "FetchNext_FromPayload req" "FetchNext_ConnectorID req" "{}" covered
  "conversion_kept (FetchNext_ConnectorID req)" "\<lambda>s. True" for covered req ts
proof
  fix p k n cur s r s'
  assume "run_page p k (conversions_page p req ts n k cur) s = (r, s')"
  then show "ps_grows (FetchNext_ConnectorID req) {} s s'"
    by (rule conversions_page_grows)
next
  fix p k n cur s new hasMore s'
  assume prov: "conversions_provider covered req p"
    and run: "run_page p k (conversions_page p req ts n k cur) s = (PageDone new hasMore, s')"
  obtain plan where plan: "conversions_page p req ts n k cur s = (Inr plan, s')" "plan_NewState plan = new"
    by (rule run_page_no_jobs[OF run]) (auto simp: no_jobs_def dest!: conversions_page_plan)
  from conversions_page_plan[OF plan(1)] plan(2) prov
  show "covered new \<subseteq> covered cur \<union> conversion_kept (FetchNext_ConnectorID req) s'"
    by (fastforce simp: conversions_provider_def hands_over_def no_jobs_def)
next
  fix i s s'
  assume "undisturbed i (FetchNext_ConnectorID req) {} s s'"
  then show "True \<and> conversion_kept (FetchNext_ConnectorID req) s \<subseteq> conversion_kept (FetchNext_ConnectorID req) s'"
    by (simp add: conversion_kept_stays)
qed

section \<open>Others\<close>

definition other_kept ::
  "deployment \<Rightarrow> ConnectorID \<Rightarrow> ConnectorTaskTree list \<Rightarrow> psys \<Rightarrow> PSPOther set" where
  "other_kept dep c ts s = {x. followed dep c ts s (PSPOther_ID x) (Inr (PSPOther_Other x))}"

definition others_provider ::
  "(string option \<Rightarrow> PSPOther set) \<Rightarrow> deployment \<Rightarrow> FetchNextOthers \<Rightarrow> polling \<Rightarrow> bool" where
  "others_provider covered dep req p \<longleftrightarrow> runs_in dep (FetchNext_ConnectorID req) p \<and>
     (\<forall>k n cursor. hands_over covered cursor (pol_others p k (FetchNext_ConnectorID req)
        (fetch_request_of (FetchNextOthers_Name req) (FetchNext.truncate req) n cursor)))"

lemma others_page_moves: "moves (ps_grows c D) (others_page p req ts n k cur)"
  unfolding others_page_def Let_def by (intro polling_moves)

lemma others_page_plan:
  assumes "others_page p req ts n k cur s = (Inr plan, s')" "c = FetchNext_ConnectorID req"
  obtains response js where "pol_others p k c
      (fetch_request_of (FetchNextOthers_Name req) (FetchNext.truncate req) n cur) = Inr response"
    "plan_NewState plan = response_NewState response" "plan_jobs plan = js"
    "next_task_jobs p k c ts [] (map (\<lambda>x. (PSPOther_ID x, Inr (PSPOther_Other x))) (response_Items response)) = Inr js"
  using assms by (auto simp: others_page_def Let_def tx_bind_Inr_iff)

lemma others_page_grows:
  assumes run: "run_page p k (others_page p req ts n k cur) s = (r, s')"
  shows "ps_grows c D s s'"
proof (rule run_page_moves[OF run others_page_moves])
  fix plan s1 j
  assume plan: "others_page p req ts n k cur s = (Inr plan, s1)" and j: "j \<in> set (plan_jobs plan)"
  obtain js items where "plan_jobs plan = js"
    "next_task_jobs p k (FetchNext_ConnectorID req) ts [] items = Inr js"
    by (rule others_page_plan[OF plan HOL.refl])
  with j show "job_moves (ps_grows c D) j" by (simp add: next_task_jobs_move)
qed

interpretation others_feed: fetching "\<lambda>p. others_page p req ts" "others_provider covered dep req"
  False CAPABILITY_FETCH_OTHERS "FetchNext_FromPayload req" "FetchNext_ConnectorID req" "{}" covered
  "other_kept dep (FetchNext_ConnectorID req) ts" "\<lambda>s. True" for covered dep req ts
proof
  fix p k n cur s r s'
  assume "run_page p k (others_page p req ts n k cur) s = (r, s')"
  then show "ps_grows (FetchNext_ConnectorID req) {} s s'" by (rule others_page_grows)
next
  fix p k n cur s new hasMore s'
  let ?c = "FetchNext_ConnectorID req"
  assume prov: "others_provider covered dep req p"
    and run: "run_page p k (others_page p req ts n k cur) s = (PageDone new hasMore, s')"
  obtain plan s1 where p: "others_page p req ts n k cur s = (Inr plan, s1)" "plan_NewState plan = new"
    "wait_all (pol_order p k) (plan_jobs plan) s1 = ([], s')"
    by (rule run_page_done[OF run])
  obtain response js where r: "pol_others p k ?c
      (fetch_request_of (FetchNextOthers_Name req) (FetchNext.truncate req) n cur) = Inr response"
    "plan_NewState plan = response_NewState response" "plan_jobs plan = js"
    "next_task_jobs p k ?c ts [] (map (\<lambda>x. (PSPOther_ID x, Inr (PSPOther_Other x))) (response_Items response)) = Inr js"
    by (rule others_page_plan[OF p(1) HOL.refl])
  have dep: "runs_in dep ?c p" and cov: "covered new \<subseteq> covered cur \<union> set (response_Items response)"
    using prov r(1,2) p(2) by (simp_all add: others_provider_def hands_over_def)
  have "x \<in> other_kept dep ?c ts s'" if "x \<in> set (response_Items response)" for x
    using tasks_followed[OF dep r(4), where pre = "[]" and post = "[]" and D = "{}"
        and item = "(PSPOther_ID x, Inr (PSPOther_Other x))"] p(3) r(3) that by (simp add: other_kept_def)
  then have "set (response_Items response) \<subseteq> other_kept dep ?c ts s'" by (rule subsetI)
  with cov show "covered new \<subseteq> covered cur \<union> other_kept dep ?c ts s'"
    by (rule order_trans[OF _ Un_mono[OF order_refl]])
next
  fix i s s'
  assume "undisturbed i (FetchNext_ConnectorID req) {} s s'"
  then show "True \<and> other_kept dep (FetchNext_ConnectorID req) ts s \<subseteq> other_kept dep (FetchNext_ConnectorID req) ts s'"
    by (auto simp: other_kept_def followed_undisturbed)
qed

end
