(* ===== verification/Polling_Examples.thy ===== *)
theory Polling_Examples
  imports Polling_Items Examples
begin

text \<open>
  Concrete runs the witnesses of the workflows that fetch share: a provider of one account, one
  balance and one payment, a periodic task that follows each.
\<close>

declare fetch_loop.simps [code]

definition ex_psp_account :: PSPAccount where
  "ex_psp_account =
     \<lparr>PSPAccount_Reference = ''acc'', PSPAccount_CreatedAt = 5, PSPAccount_Name = None,
      PSPAccount_DefaultAsset = None, PSPAccount_PsuID = None, PSPAccount_OpenBankingConnectionID = None,
      PSPAccount_Metadata = Map.empty, PSPAccount_Raw = Some ''{}''\<rparr>"

definition ex_psp_balance :: PSPBalance where
  "ex_psp_balance =
     \<lparr>PSPBalance_AccountReference = ''acc'', PSPBalance_CreatedAt = 6, PSPBalance_Amount = Some 10,
      PSPBalance_Asset = ''USD/2'', PSPBalance_PsuID = None, PSPBalance_OpenBankingConnectionID = None\<rparr>"

definition ex_answer :: "'a list \<Rightarrow> 'a page_response result" where
  "ex_answer items = Inr \<lparr>response_Items = items, response_NewState = Some ''cursor'', response_HasMore = False\<rparr>"

definition ex_polling :: polling where
  "ex_polling =
     \<lparr>pol_env = ex_env, pol_stack = ''stack'', pol_now = (\<lambda>at what. 50),
      pol_tries = (\<lambda>at name. ([], no_faults)), pol_state_text = StateID_Reference,
      pol_page_size = (\<lambda>provider. Inr 25), pol_retry_delay = 60,
      pol_connector = (\<lambda>k c. Inr False), pol_default_period = 30 * time_Minute,
      pol_config_period = (\<lambda>s. Inr (20 * time_Minute)), pol_attributes = None,
      pol_execution = ''execution'', pol_schedule = (\<lambda>at i. None), pol_start = (\<lambda>at w. None),
      pol_continue = (\<lambda>k. False), pol_order = (\<lambda>k. []),
      pol_marshal_account = (\<lambda>a. Inr (PSPAccount_Reference a)),
      pol_marshal_payment = (\<lambda>x. Inr (PSPPayment_Reference x)),
      pol_marshal_balance = (\<lambda>b. Inr (PSPBalance_AccountReference b)),
      pol_accounts = (\<lambda>k c r. ex_answer [ex_psp_account]),
      pol_external_accounts = (\<lambda>k c r. ex_answer [ex_psp_account]),
      pol_payments = (\<lambda>k c r. Inr \<lparr>response_Items = [ex_psp_payment [] ''p1'' PAYMENT_STATUS_SUCCEEDED 500],
        response_NewState = Some ''cursor'', response_HasMore = False, response_PaymentsToDelete = []\<rparr>),
      pol_balances = (\<lambda>k c r. ex_answer [ex_psp_balance]),
      pol_orders = (\<lambda>k c r. ex_answer []), pol_conversions = (\<lambda>k c r. ex_answer []),
      pol_others = (\<lambda>k c r. ex_answer []),
      pol_webhooks = (\<lambda>c url payload. Inr \<lparr>webhooks_Configs = [], webhooks_Others = []\<rparr>),
      pol_webhook_url = (\<lambda>c. Inr ''https://base'')\<rparr>"

definition ex_fetch :: FetchNext where
  "ex_fetch = \<lparr>FetchNext_ConnectorID = ex_connector, FetchNext_FromPayload = None, FetchNext_Periodically = True\<rparr>"

definition ex_tasks :: "ConnectorTaskTree list" where
  "ex_tasks = [ConnectorTaskTree TASK_FETCH_PAYMENTS ''payments'' True []]"

definition ex_sys :: psys where
  "ex_sys = \<lparr>ps_db = ex_db, ps_schedules = [], ps_children = []\<rparr>"

definition ex_run :: "next_workflow \<Rightarrow> (outcome \<times> psys) option" where
  "ex_run w = run_workflow ex_polling w ex_tasks ex_sys"

definition ex_fetched :: "next_workflow \<Rightarrow> psys" where
  "ex_fetched w = snd (the (ex_run w))"

text \<open>A provider that fetches page after page, its cursor one longer each time, until it has three.\<close>

definition ex_paging :: polling where
  "ex_paging = ex_polling\<lparr>pol_accounts := (\<lambda>k c r. Inr
     \<lparr>response_Items = [ex_psp_account],
      response_NewState = Some (case fetch_State r of None \<Rightarrow> ''x'' | Some cursor \<Rightarrow> ''x'' @ cursor),
      response_HasMore = (case fetch_State r of None \<Rightarrow> True | Some cursor \<Rightarrow> length cursor < 3)\<rparr>)\<rparr>"

text \<open>A provider that has no payments, but one to delete; deleting it fails for good.\<close>

definition ex_blocked :: polling where
  "ex_blocked = ex_polling\<lparr>
     pol_payments := (\<lambda>k c r. Inr \<lparr>response_Items = [], response_NewState = None, response_HasMore = False,
       response_PaymentsToDelete = [''p1'']\<rparr>),
     pol_tries := (\<lambda>at name. ([],
       if name = ''StoragePaymentsDeleteFromReference'' then (\<lambda>m. Some (DbOther (Plain ''canceled''))) else no_faults))\<rparr>"

lemma ex_runs:
  "ex_run (RunFetchNextAccounts ex_fetch) = Some (Returned (Inr ()), ex_fetched (RunFetchNextAccounts ex_fetch))"
  "ex_run (RunFetchNextPayments ex_fetch) = Some (Returned (Inr ()), ex_fetched (RunFetchNextPayments ex_fetch))"
proof -
  have "map_option fst (ex_run (RunFetchNextAccounts ex_fetch)) = Some (Returned (Inr ()))" by code_simp
  then show "ex_run (RunFetchNextAccounts ex_fetch) = Some (Returned (Inr ()), ex_fetched (RunFetchNextAccounts ex_fetch))"
    by (auto simp: ex_fetched_def)
  have "map_option fst (ex_run (RunFetchNextPayments ex_fetch)) = Some (Returned (Inr ()))" by code_simp
  then show "ex_run (RunFetchNextPayments ex_fetch) = Some (Returned (Inr ()), ex_fetched (RunFetchNextPayments ex_fetch))"
    by (auto simp: ex_fetched_def)
qed

lemma ex_states:
  "map (\<lambda>r. (state_id r, state_state r)) (states (ps_db (ex_fetched (RunFetchNextAccounts ex_fetch)))) =
     [(\<lparr>StateID_Reference = ''FETCH_ACCOUNTS'', StateID_ConnectorID = ex_connector\<rparr>, Some ''cursor'')]"
  "map (\<lambda>r. (state_id r, state_state r)) (states (ps_db (ex_fetched (RunFetchNextPayments ex_fetch)))) =
     [(\<lparr>StateID_Reference = ''FETCH_PAYMENTS'', StateID_ConnectorID = ex_connector\<rparr>, Some ''cursor'')]"
  by code_simp+

lemma ex_blocks: "map_option fst (run_workflow ex_blocked (RunFetchNextPayments ex_fetch) [] ex_sys) = Some Blocked"
  by code_simp

definition ex_deployment :: deployment where
  "ex_deployment = \<lparr>dep_stack = ''stack'', dep_text = (\<lambda>c. ''connector''),
     dep_account = (\<lambda>a. Inr (PSPAccount_Reference a)), dep_payment = (\<lambda>x. Inr (PSPPayment_Reference x)),
     dep_balance = (\<lambda>b. Inr (PSPBalance_AccountReference b))\<rparr>"

text \<open>What a cursor of these providers is past.\<close>

definition ex_covered :: "'a \<Rightarrow> string option \<Rightarrow> 'a set" where
  "ex_covered item cursor = (if cursor = None then {} else {item})"

abbreviation ex_psp_p1 :: PSPPayment where
  "ex_psp_p1 \<equiv> ex_psp_payment [] ''p1'' PAYMENT_STATUS_SUCCEEDED 500"

lemma ex_runs_in: "runs_in ex_deployment c ex_polling"
  by (simp add: runs_in_def ex_deployment_def ex_polling_def ex_env_def fun_eq_iff)

lemma ex_answers:
  "pol_accounts ex_polling k c r = ex_answer [ex_psp_account]"
  "pol_payments ex_polling k c r = Inr \<lparr>response_Items = [ex_psp_p1], response_NewState = Some ''cursor'',
     response_HasMore = False, response_PaymentsToDelete = []\<rparr>"
  by (simp_all add: ex_polling_def)

lemma ex_providers:
  "accounts_provider (ex_covered ex_psp_account) ex_deployment ex_fetch ex_polling"
  "payments_provider (ex_covered ex_psp_p1) {} ex_deployment ex_fetch ex_polling"
  by (simp_all add: accounts_provider_def payments_provider_def ex_runs_in hands_over_def ex_covered_def
      ex_answers ex_answer_def Let_def)

lemma ex_state_rows:
  "\<exists>r\<in>set (states (ps_db (ex_fetched (RunFetchNextAccounts ex_fetch)))).
     state_id r = \<lparr>StateID_Reference = ''FETCH_ACCOUNTS'', StateID_ConnectorID = ex_connector\<rparr> \<and> state_state r = Some ''cursor''"
  "\<exists>r\<in>set (states (ps_db (ex_fetched (RunFetchNextPayments ex_fetch)))).
     state_id r = \<lparr>StateID_Reference = ''FETCH_PAYMENTS'', StateID_ConnectorID = ex_connector\<rparr> \<and> state_state r = Some ''cursor''"
proof -
  have found: "\<exists>r\<in>set rows. state_id r = i \<and> state_state r = cur"
    if "map (\<lambda>r. (state_id r, state_state r)) rows = [(i, cur)]" for rows i cur
    using that by (cases rows) auto
  show "\<exists>r\<in>set (states (ps_db (ex_fetched (RunFetchNextAccounts ex_fetch)))).
     state_id r = \<lparr>StateID_Reference = ''FETCH_ACCOUNTS'', StateID_ConnectorID = ex_connector\<rparr> \<and> state_state r = Some ''cursor''"
    by (rule found[OF ex_states(1)])
  show "\<exists>r\<in>set (states (ps_db (ex_fetched (RunFetchNextPayments ex_fetch)))).
     state_id r = \<lparr>StateID_Reference = ''FETCH_PAYMENTS'', StateID_ConnectorID = ex_connector\<rparr> \<and> state_state r = Some ''cursor''"
    by (rule found[OF ex_states(2)])
qed

end
