(* ===== verification/Polling_Properties.thy ===== *)
theory Polling_Properties
  imports Polling_Examples
begin

text \<open>Properties of the workflows that fetch from a provider.\<close>

section \<open>Runs in the terms of the contract\<close>

lemma run_accounts: "run_workflow p (RunFetchNextAccounts req) ts = accounts_feed.polls req ts p"
  by (rule ext) (simp add: accounts_feed.polls_def fetchAccounts_def)

lemma run_external_accounts:
  "run_workflow p (RunFetchNextExternalAccounts req) ts = external_accounts_feed.polls req ts p"
  by (rule ext) (simp add: external_accounts_feed.polls_def fetchExternalAccounts_def)

lemma run_payments: "run_workflow p (RunFetchNextPayments req) ts = payments_feed.polls req ts p"
  by (rule ext) (simp add: payments_feed.polls_def fetchNextPayments_def)

lemma run_balances: "run_workflow p (RunFetchNextBalances req) ts = balances_feed.polls req ts p"
  by (rule ext) (simp add: balances_feed.polls_def fetchBalances_def)

lemma run_orders: "run_workflow p (RunFetchNextOrders req) ts = orders_feed.polls req ts p"
  by (rule ext) (simp add: orders_feed.polls_def fetchOrders_def)

lemma run_conversions: "run_workflow p (RunFetchNextConversions req) ts = conversions_feed.polls req ts p"
  by (rule ext) (simp add: conversions_feed.polls_def fetchConversions_def)

lemma run_others: "run_workflow p (RunFetchNextOthers req) ts = others_feed.polls req ts p"
  by (rule ext) (simp add: others_feed.polls_def fetchNextOthers_def)

text \<open>The cursor a workflow keeps; the one that creates webhooks has none.\<close>

fun cursor_of :: "next_workflow \<Rightarrow> StateID option" where
  "cursor_of (RunFetchNextAccounts req) =
     Some (fetch_state_id CAPABILITY_FETCH_ACCOUNTS (FetchNext_FromPayload req) (FetchNext_ConnectorID req))"
| "cursor_of (RunFetchNextExternalAccounts req) =
     Some (fetch_state_id CAPABILITY_FETCH_EXTERNAL_ACCOUNTS (FetchNext_FromPayload req) (FetchNext_ConnectorID req))"
| "cursor_of (RunFetchNextOthers req) =
     Some (fetch_state_id CAPABILITY_FETCH_OTHERS (FetchNext_FromPayload req) (FetchNext_ConnectorID req))"
| "cursor_of (RunFetchNextPayments req) =
     Some (fetch_state_id CAPABILITY_FETCH_PAYMENTS (FetchNext_FromPayload req) (FetchNext_ConnectorID req))"
| "cursor_of (RunFetchNextBalances req) =
     Some (fetch_state_id CAPABILITY_FETCH_BALANCES (FetchNext_FromPayload req) (FetchNext_ConnectorID req))"
| "cursor_of (RunFetchNextOrders req) =
     Some (fetch_state_id CAPABILITY_FETCH_ORDERS (FetchNext_FromPayload req) (FetchNext_ConnectorID req))"
| "cursor_of (RunFetchNextConversions req) =
     Some (fetch_state_id CAPABILITY_FETCH_CONVERSIONS (FetchNext_FromPayload req) (FetchNext_ConnectorID req))"
| "cursor_of (RunCreateWebhooks req) = None"

text \<open>The references of payments of a connector that its provider asks to delete in a run.\<close>

definition asks_to_delete :: "polling \<Rightarrow> ConnectorID \<Rightarrow> string set" where
  "asks_to_delete p c =
     {x. \<exists>k request response. pol_payments p k c request = Inr response \<and> x \<in> set (response_PaymentsToDelete response)}"

section \<open>No item is lost\<close>





text \<open>The balances a stored cursor is past have a row of their account and asset, and the tasks
  that follow each of them, under the name of its account with the suffix -balances, are started.
  Under the same circumstances as accounts.\<close>

lemma balances_cursor_never_ahead:
  assumes "polled (\<lambda>p. run_workflow p (RunFetchNextBalances req) ts) (balances_provider covered dep req) i c {} s0 s"
    and "cursor_of (RunFetchNextBalances req) = Some i" "FetchNext_ConnectorID req = c" "covered None = {}"
    and "\<forall>r\<in>set (states (ps_db s0)). state_id r \<noteq> i"
    and "r \<in> set (states (ps_db s))" "state_id r = i" "x \<in> covered (state_state r)"
  shows "psp_balance_pair c x \<in> balance_pair ` set (balances (ps_db s)) \<and>
    followed dep c ts s (PSPBalance_AccountReference x @ ''-balances'') (map_sum id Some (dep_balance dep x))"
proof -
  have i: "i = fetch_state_id CAPABILITY_FETCH_BALANCES (FetchNext_FromPayload req) (FetchNext_ConnectorID req)"
    using assms(2) by simp
  have "balances_feed.behind req covered dep ts s"
    by (rule balances_feed.never_ahead[OF assms(1)[unfolded run_balances assms(3)[symmetric] i]])
      (use assms(4,5) i in \<open>simp_all add: balances_feed.behind_def\<close>)
  from balances_feed.behindD[OF this assms(6) assms(7)[unfolded i] assms(8)] assms(3)
  show ?thesis by (simp add: balance_kept_def)
qed

text \<open>The same for the other workflows; the others of a plugin are not stored.\<close>

lemma external_accounts_cursor_never_ahead:
  assumes "polled (\<lambda>p. run_workflow p (RunFetchNextExternalAccounts req) ts) (external_accounts_provider covered dep req) i c {} s0 s"
    and "cursor_of (RunFetchNextExternalAccounts req) = Some i" "FetchNext_ConnectorID req = c" "covered None = {}"
    and "\<forall>r\<in>set (states (ps_db s0)). state_id r \<noteq> i"
    and "r \<in> set (states (ps_db s))" "state_id r = i" "x \<in> covered (state_state r)"
  shows "\<lparr>AccountID_Reference = PSPAccount_Reference x, AccountID_ConnectorID = c\<rparr>
      \<in> account_id ` set (accounts (ps_db s)) \<and>
    followed dep c ts s (PSPAccount_Reference x) (map_sum id Some (dep_account dep x))"
proof -
  have i: "i = fetch_state_id CAPABILITY_FETCH_EXTERNAL_ACCOUNTS (FetchNext_FromPayload req) (FetchNext_ConnectorID req)"
    using assms(2) by simp
  have "external_accounts_feed.behind req covered dep ts s"
    by (rule external_accounts_feed.never_ahead[OF assms(1)[unfolded run_external_accounts assms(3)[symmetric] i]])
      (use assms(4,5) i in \<open>simp_all add: external_accounts_feed.behind_def\<close>)
  from external_accounts_feed.behindD[OF this assms(6) assms(7)[unfolded i] assms(8)] assms(3)
  show ?thesis by (simp add: account_kept_def)
qed

lemma orders_cursor_never_ahead:
  assumes "polled (\<lambda>p. run_workflow p (RunFetchNextOrders req) ts) (orders_provider covered req) i c {} s0 s"
    and "cursor_of (RunFetchNextOrders req) = Some i" "FetchNext_ConnectorID req = c" "covered None = {}"
    and "\<forall>r\<in>set (states (ps_db s0)). state_id r \<noteq> i"
    and "r \<in> set (states (ps_db s))" "state_id r = i" "x \<in> covered (state_state r)"
  shows "\<lparr>OrderID_Reference = PSPOrder_Reference x, OrderID_ConnectorID = c\<rparr> \<in> order_id ` set (orders (ps_db s))"
proof -
  have i: "i = fetch_state_id CAPABILITY_FETCH_ORDERS (FetchNext_FromPayload req) (FetchNext_ConnectorID req)"
    using assms(2) by simp
  have "orders_feed.behind req covered s"
    by (rule orders_feed.never_ahead[OF assms(1)[unfolded run_orders assms(3)[symmetric] i]])
      (use assms(4,5) i in \<open>simp_all add: orders_feed.behind_def\<close>)
  from orders_feed.behindD[OF this assms(6) assms(7)[unfolded i] assms(8)] assms(3)
  show ?thesis by (simp add: order_kept_def)
qed

lemma conversions_cursor_never_ahead:
  assumes "polled (\<lambda>p. run_workflow p (RunFetchNextConversions req) ts) (conversions_provider covered req) i c {} s0 s"
    and "cursor_of (RunFetchNextConversions req) = Some i" "FetchNext_ConnectorID req = c" "covered None = {}"
    and "\<forall>r\<in>set (states (ps_db s0)). state_id r \<noteq> i"
    and "r \<in> set (states (ps_db s))" "state_id r = i" "x \<in> covered (state_state r)"
  shows "\<lparr>ConversionID_Reference = PSPConversion_Reference x, ConversionID_ConnectorID = c\<rparr>
      \<in> conversion_id ` set (conversions (ps_db s))"
proof -
  have i: "i = fetch_state_id CAPABILITY_FETCH_CONVERSIONS (FetchNext_FromPayload req) (FetchNext_ConnectorID req)"
    using assms(2) by simp
  have "conversions_feed.behind req covered s"
    by (rule conversions_feed.never_ahead[OF assms(1)[unfolded run_conversions assms(3)[symmetric] i]])
      (use assms(4,5) i in \<open>simp_all add: conversions_feed.behind_def\<close>)
  from conversions_feed.behindD[OF this assms(6) assms(7)[unfolded i] assms(8)] assms(3)
  show ?thesis by (simp add: conversion_kept_def)
qed

lemma others_cursor_never_ahead:
  assumes "polled (\<lambda>p. run_workflow p (RunFetchNextOthers req) ts) (others_provider covered dep req) i c {} s0 s"
    and "cursor_of (RunFetchNextOthers req) = Some i" "FetchNext_ConnectorID req = c" "covered None = {}"
    and "\<forall>r\<in>set (states (ps_db s0)). state_id r \<noteq> i"
    and "r \<in> set (states (ps_db s))" "state_id r = i" "x \<in> covered (state_state r)"
  shows "followed dep c ts s (PSPOther_ID x) (Inr (PSPOther_Other x))"
proof -
  have i: "i = fetch_state_id CAPABILITY_FETCH_OTHERS (FetchNext_FromPayload req) (FetchNext_ConnectorID req)"
    using assms(2) by simp
  have "others_feed.behind req covered dep ts s"
    by (rule others_feed.never_ahead[OF assms(1)[unfolded run_others assms(3)[symmetric] i]])
      (use assms(4,5) i in \<open>simp_all add: others_feed.behind_def\<close>)
  from others_feed.behindD[OF this assms(6) assms(7)[unfolded i] assms(8)] assms(3)
  show ?thesis by (simp add: other_kept_def)
qed

section \<open>Workflows beside each other\<close>

lemma createWebhooks_moves: "moves (ps_grows c D) (createWebhooks p req ts)"
  unfolding createWebhooks_def Let_def by (intro polling_moves)

lemma runCreateWebhooks_grows:
  assumes "runCreateWebhooks p req ts s = Some (out, s')"
  shows "ps_grows c D s s'"
proof -
  obtain e where run: "run_page p 0 (createWebhooks p req ts) s = (e, s')"
    using assms by (auto simp: runCreateWebhooks_def split: prod.splits page_end.splits)
  show ?thesis
  proof (rule run_page_moves[OF run createWebhooks_moves])
    fix plan s1 j
    assume "createWebhooks p req ts s = (Inr plan, s1)" "j \<in> set (plan_jobs plan)"
    then show "job_moves (ps_grows c D) j"
      by (auto simp: createWebhooks_def Let_def tx_bind_Inr_iff tx_seq_Inr_iff item_jobs_move split: if_splits)
  qed
qed



section \<open>Termination\<close>

text \<open>What the plugin of a workflow answers at a page and a cursor: the next cursor, whether there is more.\<close>

definition ends_of :: "('i, 'b) page_response_scheme result \<Rightarrow> (string option \<times> bool) result" where
  "ends_of = map_sum id (\<lambda>response. (response_NewState response, response_HasMore response))"

fun page_answer :: "polling \<Rightarrow> next_workflow \<Rightarrow> int \<Rightarrow> nat \<Rightarrow> string option \<Rightarrow> (string option \<times> bool) result" where
  "page_answer p (RunFetchNextAccounts req) n k cur =
     ends_of (pol_accounts p k (FetchNext_ConnectorID req) (fetch_request_of [] req n cur))"
| "page_answer p (RunFetchNextExternalAccounts req) n k cur =
     ends_of (pol_external_accounts p k (FetchNext_ConnectorID req) (fetch_request_of [] req n cur))"
| "page_answer p (RunFetchNextOthers req) n k cur =
     ends_of (pol_others p k (FetchNext_ConnectorID req)
       (fetch_request_of (FetchNextOthers_Name req) (FetchNext.truncate req) n cur))"
| "page_answer p (RunFetchNextPayments req) n k cur =
     ends_of (pol_payments p k (FetchNext_ConnectorID req) (fetch_request_of [] req n cur))"
| "page_answer p (RunFetchNextBalances req) n k cur =
     ends_of (pol_balances p k (FetchNext_ConnectorID req) (fetch_request_of [] req n cur))"
| "page_answer p (RunFetchNextOrders req) n k cur =
     ends_of (pol_orders p k (FetchNext_ConnectorID req) (fetch_request_of [] req n cur))"
| "page_answer p (RunFetchNextConversions req) n k cur =
     ends_of (pol_conversions p k (FetchNext_ConnectorID req) (fetch_request_of [] req n cur))"
| "page_answer p (RunCreateWebhooks req) n k cur = Inr (cur, False)"

lemma page_answers:
  "accounts_page p req ts n k cur s = (Inr plan, s') \<Longrightarrow>
     page_answer p (RunFetchNextAccounts req) n k cur = Inr (plan_NewState plan, plan_HasMore plan)"
  "external_accounts_page p req ts n k cur s = (Inr plan, s') \<Longrightarrow>
     page_answer p (RunFetchNextExternalAccounts req) n k cur = Inr (plan_NewState plan, plan_HasMore plan)"
  "others_page p reqo ts n k cur s = (Inr plan, s') \<Longrightarrow>
     page_answer p (RunFetchNextOthers reqo) n k cur = Inr (plan_NewState plan, plan_HasMore plan)"
  "payments_page p req ts n k cur s = (Inr plan, s') \<Longrightarrow>
     page_answer p (RunFetchNextPayments req) n k cur = Inr (plan_NewState plan, plan_HasMore plan)"
  "balances_page p req ts n k cur s = (Inr plan, s') \<Longrightarrow>
     page_answer p (RunFetchNextBalances req) n k cur = Inr (plan_NewState plan, plan_HasMore plan)"
  "orders_page p req ts n k cur s = (Inr plan, s') \<Longrightarrow>
     page_answer p (RunFetchNextOrders req) n k cur = Inr (plan_NewState plan, plan_HasMore plan)"
  "conversions_page p req ts n k cur s = (Inr plan, s') \<Longrightarrow>
     page_answer p (RunFetchNextConversions req) n k cur = Inr (plan_NewState plan, plan_HasMore plan)"
  by (auto simp: accounts_page_def external_accounts_page_def accounts_page_of_def others_page_def
      payments_page_def balances_page_def orders_page_def conversions_page_def no_jobs_def ends_of_def
      Let_def tx_bind_Inr_iff tx_seq_Inr_iff)

lemma page_moves_on:
  assumes "run_page p k prepare s = (PageDone new True, s')"
    and "\<And>plan s1. prepare s = (Inr plan, s1) \<Longrightarrow> answer = Inr (plan_NewState plan, plan_HasMore plan)"
  shows "answer = Inr (new, True)"
proof -
  obtain plan s1 where "prepare s = (Inr plan, s1)" "plan_NewState plan = new" "plan_HasMore plan = True"
    by (rule run_page_done[OF assms(1)])
  with assms(2) show ?thesis by simp
qed

lemma fetch_loop_ends:
  assumes "\<And>k cur s new s'. run_page p k (pg k cur) s = (PageDone new True, s') \<Longrightarrow> left new < (left cur :: nat)"
  shows "fetch_loop p pg st k s \<noteq> None"
proof (induction "left (State_State st)" arbitrary: st k s rule: less_induct)
  case less
  obtain e s1 where pe: "run_page p k (pg k (State_State st)) s = (e, s1)" by fastforce
  show ?case
  proof (cases e)
    case (PageDone new hasMore)
    obtain r s2 where "tx_wrap ''storing state'' (durable p [k] ''StorageStatesStore''
        (\<lambda>fl. StatesUpsert (pol_env p) fl (st\<lparr>State_State := new\<rparr>))) s1 = (r, s2)" by fastforce
    moreover have "fetch_loop p pg (st\<lparr>State_State := new\<rparr>) (Suc k) s2 \<noteq> None" if hasMore
      by (rule less) (use assms pe PageDone that in auto)
    ultimately show ?thesis
      by (subst fetch_loop.simps) (auto simp: pe PageDone split: sum.splits)
  qed (subst fetch_loop.simps, simp add: pe)+
qed

lemma with_instance_ends:
  assumes "\<And>s. body s \<noteq> None"
  shows "with_instance p c body s \<noteq> None"
proof -
  obtain r s1 where cr: "createInstance p c s = (r, s1)" by fastforce
  obtain out s2 where "body s1 = Some (out, s2)" using assms[of s1] by auto
  with cr show ?thesis by (cases r; cases out) (auto simp: with_instance_def)
qed

lemma pages_end:
  assumes "\<And>n k cur s new s'. run_page p k (page n k cur) s = (PageDone new True, s') \<Longrightarrow> left new < (left cur :: nat)"
  shows "fetch_pages p wrapped capability fp c page s \<noteq> None"
  using fetch_loop_ends[of p "page n" left for n, OF assms]
  by (auto simp: fetch_pages_def Let_def split: sum.splits prod.splits)

text \<open>C13: a workflow that fetches ends, whatever fails: if every answer of the plugin that announces
  more makes what is left to fetch smaller (left, any measure of its cursors), each of the seven
  workflows, and the one that creates webhooks, returns, continues as new or is blocked, and never
  asks for pages for ever.\<close>

theorem fetching_ends:
  assumes "\<forall>n k cur new. page_answer p w n k cur = Inr (new, True) \<longrightarrow> left new < (left cur :: nat)"
  shows "run_workflow p w ts s \<noteq> None"
proof -
  have on: "left new < left cur"
    if "run_page p k prepare s = (PageDone new True, s')"
      "\<And>plan s1. prepare s = (Inr plan, s1) \<Longrightarrow> page_answer p w n k cur = Inr (plan_NewState plan, plan_HasMore plan)"
    for n k cur new s s' prepare
    using page_moves_on[where answer = "page_answer p w n k cur", OF that(1)] that(2) assms by blast
  show ?thesis
  proof (cases w)
    case (RunFetchNextAccounts req)
    show ?thesis unfolding RunFetchNextAccounts run_workflow.simps fetchAccounts_def
      by (intro with_instance_ends pages_end[of p _ left], erule on, unfold RunFetchNextAccounts, rule page_answers)
  next
    case (RunFetchNextExternalAccounts req)
    show ?thesis unfolding RunFetchNextExternalAccounts run_workflow.simps fetchExternalAccounts_def
      by (intro with_instance_ends pages_end[of p _ left], erule on, unfold RunFetchNextExternalAccounts, rule page_answers)
  next
    case (RunFetchNextOthers req)
    show ?thesis unfolding RunFetchNextOthers run_workflow.simps fetchNextOthers_def
      by (intro with_instance_ends pages_end[of p _ left], erule on, unfold RunFetchNextOthers, rule page_answers)
  next
    case (RunFetchNextPayments req)
    show ?thesis unfolding RunFetchNextPayments run_workflow.simps fetchNextPayments_def
      by (intro with_instance_ends pages_end[of p _ left], erule on, unfold RunFetchNextPayments, rule page_answers)
  next
    case (RunFetchNextBalances req)
    show ?thesis unfolding RunFetchNextBalances run_workflow.simps fetchBalances_def
      by (intro with_instance_ends pages_end[of p _ left], erule on, unfold RunFetchNextBalances, rule page_answers)
  next
    case (RunFetchNextOrders req)
    show ?thesis unfolding RunFetchNextOrders run_workflow.simps fetchOrders_def
      by (intro with_instance_ends pages_end[of p _ left], erule on, unfold RunFetchNextOrders, rule page_answers)
  next
    case (RunFetchNextConversions req)
    show ?thesis unfolding RunFetchNextConversions run_workflow.simps fetchConversions_def
      by (intro with_instance_ends pages_end[of p _ left], erule on, unfold RunFetchNextConversions, rule page_answers)
  next
    case (RunCreateWebhooks req)
    then show ?thesis by (simp add: runCreateWebhooks_def)
  qed
qed

lemma fetching_ends_witness: "run_workflow ex_paging (RunFetchNextAccounts ex_fetch) ex_tasks ex_sys \<noteq> None"
  by (rule fetching_ends[where left = "\<lambda>cursor. case cursor of None \<Rightarrow> 4 | Some c \<Rightarrow> 3 - length c"])
    (auto simp: ex_paging_def ends_of_def fetch_request_of_def split: option.splits)

section \<open>Blocked workflows\<close>

lemma loop_blocked:
  assumes "fetch_loop p pg st k s = Some (Blocked, s')"
  shows "\<exists>k cur s1 s2. run_page p k (pg k cur) s1 = (PageBlocked, s2)"
proof -
  have "fetch_loop p0 pg0 st k s = Some res \<Longrightarrow> p0 = p \<longrightarrow> pg0 = pg \<longrightarrow> fst res = Blocked \<longrightarrow>
      (\<exists>k cur s1 s2. run_page p k (pg k cur) s1 = (PageBlocked, s2))" for p0 pg0 res
    by (induction rule: fetch_loop.raw_induct[rotated, consumes 1, case_names step])
      (fastforce split: prod.splits page_end.splits sum.splits if_splits)
  from this[OF assms] show ?thesis by simp
qed

lemma pages_blocked:
  "fetch_pages p wrapped capability fp c page s = Some (Blocked, s') \<Longrightarrow>
     \<exists>n k cur s1 s2. run_page p k (page n k cur) s1 = (PageBlocked, s2)"
  by (auto simp: fetch_pages_def Let_def split: sum.splits prod.splits dest!: loop_blocked) blast

lemma with_instance_blocked:
  "with_instance p c body s = Some (Blocked, s') \<Longrightarrow> \<exists>s1. body s1 = Some (Blocked, s')"
  by (auto simp: with_instance_def terminateInstance_def Let_def
      split: sum.splits prod.splits option.splits outcome.splits schedule_lookup.splits)
    (auto elim!: selectError.elims)

text \<open>The goroutines of a page, against the capacity of their channel.\<close>

lemma next_task_jobs_few: "next_task_jobs p k c ts msg items = Inr js \<Longrightarrow> length js \<le> length items"
  by (auto simp: next_task_jobs_def item_jobs_def split: if_splits sum.splits)

lemma FromPSPPayments_length: "FromPSPPayments xs c = Inr ps \<Longrightarrow> length ps = length xs"
  by (auto simp: FromPSPPayments_def result_map_list_Inr_iff dest: list_all2_lengthD)

lemma page_capacities:
  "accounts_page_of p accounts_answer ty msg req ts k s = (Inr plan, s') \<Longrightarrow> length (plan_jobs plan) \<le> plan_capacity plan"
  "others_page p reqo ts n k cur s = (Inr plan, s') \<Longrightarrow> length (plan_jobs plan) \<le> plan_capacity plan"
  "balances_page p req ts n k cur s = (Inr plan, s') \<Longrightarrow> length (plan_jobs plan) \<le> plan_capacity plan"
  "orders_page p req ts n k cur s = (Inr plan, s') \<Longrightarrow> length (plan_jobs plan) \<le> plan_capacity plan"
  "conversions_page p req ts n k cur s = (Inr plan, s') \<Longrightarrow> length (plan_jobs plan) \<le> plan_capacity plan"
  "createWebhooks p reqw ts s = (Inr plan, s') \<Longrightarrow> length (plan_jobs plan) \<le> plan_capacity plan"
  by (auto simp: accounts_page_of_def others_page_def balances_page_def orders_page_def conversions_page_def
      createWebhooks_def no_jobs_def item_jobs_def Let_def tx_bind_Inr_iff tx_seq_Inr_iff
      dest!: next_task_jobs_few)

lemma payments_page_capacity:
  assumes "payments_page p req ts n k cur s = (Inr plan, s')" "plan_capacity plan < length (plan_jobs plan)"
  shows "\<exists>request response. pol_payments p k (FetchNext_ConnectorID req) request = Inr response \<and>
    length (response_Items response) < length (response_PaymentsToDelete response)"
  using assms
  by (fastforce simp: payments_page_def Let_def tx_bind_Inr_iff tx_seq_Inr_iff
      dest!: next_task_jobs_few FromPSPPayments_length)

text \<open>C23: no goroutine of a workflow waits for room on the channel of errors, whatever fails and in
  whatever order: a run that never comes back from waiting for them is one that fetches payments,
  and its provider has asked it to delete more payments than the page holds.\<close>

theorem only_deletions_block:
  assumes "run_workflow p w ts s = Some (Blocked, s')"
  shows "\<exists>req k request response. w = RunFetchNextPayments req \<and>
    pol_payments p k (FetchNext_ConnectorID req) request = Inr response \<and>
    length (response_Items response) < length (response_PaymentsToDelete response)"
proof -
  have never: False
    if "run_page p k prepare s1 = (PageBlocked, s2)"
      "\<And>plan s3. prepare s1 = (Inr plan, s3) \<Longrightarrow> length (plan_jobs plan) \<le> plan_capacity plan"
    for k s1 s2 prepare
    using run_page_blocked[OF that(1)] that(2) by (metis not_le)
  show ?thesis
  proof (cases w)
    case (RunFetchNextPayments req)
    then obtain s1 where "fetchNextPayments p req ts s1 = Some (Blocked, s')"
      using assms by (auto dest: with_instance_blocked)
    then obtain n k cur s2 s3 where "run_page p k (payments_page p req ts n k cur) s2 = (PageBlocked, s3)"
      unfolding fetchNextPayments_def by (auto dest: pages_blocked)
    then obtain plan s4 where "payments_page p req ts n k cur s2 = (Inr plan, s4)"
      "plan_capacity plan < length (plan_jobs plan)" by (rule run_page_blocked)
    with payments_page_capacity RunFetchNextPayments show ?thesis by blast
  next
    case (RunCreateWebhooks req)
    then show ?thesis using assms never page_capacities(6)
      by (fastforce simp: runCreateWebhooks_def split: prod.splits page_end.splits)
  qed (use assms in \<open>auto simp: fetchAccounts_def fetchExternalAccounts_def fetchNextOthers_def fetchBalances_def
      fetchOrders_def fetchConversions_def accounts_page_def external_accounts_page_def
      dest!: with_instance_blocked pages_blocked dest: never page_capacities never[OF _ page_capacities(1)]\<close>)
qed

lemma only_deletions_block_witness:
  "\<exists>req k request response. RunFetchNextPayments ex_fetch = RunFetchNextPayments req \<and>
    pol_payments ex_blocked k (FetchNext_ConnectorID req) request = Inr response \<and>
    length (response_Items response) < length (response_PaymentsToDelete response)"
proof -
  obtain s where "run_workflow ex_blocked (RunFetchNextPayments ex_fetch) [] ex_sys = Some (Blocked, s)"
    using ex_blocks by auto
  then show ?thesis by (rule only_deletions_block)
qed

end
