(* ===== verification/Spec2Isabelle.thy ===== *)
theory Spec2Isabelle
  imports Payments_Properties Outbox_Properties Model_Properties Accounts_Properties Storage_Properties
    Initiations_Properties Runs_Properties Orders_Properties Pools_Properties Users_Properties
    OpenBanking_Properties Uninstall_Properties Pools_Service_Properties Polling_Properties
begin

text \<open>
  A verification development of the core of the payments service.

  \<^bold>\<open>The program.\<close>  The service reads accounts, balances, payments, orders and
  conversions from payment providers through connectors, keeps them in
  PostgreSQL, publishes an event for every change, and creates transfers and
  payouts at the providers on request.  It also keeps the bank accounts and the
  users on whose behalf it does so, with their open banking connections.  Its parts: the domain models
  (pkg/domain/models) give the data, its validation and conversions; the
  storage (internal/storage) writes it, each operation in one transaction that
  also inserts the events of the change in a table, the outbox; two activities
  publish and clean the outbox (internal/connectors/engine/activities); the
  services (internal/api/services) check a request and call the engine
  (internal/connectors/engine/engine.go), which records a task and starts a
  Temporal workflow (internal/connectors/engine/workflow); a workflow calls the
  plugin of the connector and the storage through activities, which Temporal
  repeats until they answer.

  \<^bold>\<open>The theories, in the order of the code.\<close>
  Prelude holds results (\<^theory_text>\<open>error + 'a\<close>), nilable values, JSON and SQL values, and
  transactions: a \<^theory_text>\<open>tx\<close> is a state transformer with a result, \<^theory_text>\<open>stmt\<close> a statement
  that a fault may refuse, \<^theory_text>\<open>in_tx\<close> a transaction that restores the state when it
  fails.  Errors has Go's error trees and the classifications of errors on the
  way from a plugin to the API.  Codec states as locales what the conversions
  of an enumeration promise; Payment_Enums, Initiation_Enums and Order_Enums are the
  eleven enumerations, Base64 and Ids the identifiers, Assets the asset pattern.
  Payments_Model, Accounts_Model, Initiations_Model, Orders_Model, Users_Model
  (bank accounts, users, open banking, webhooks) and Entities_Model are the structures of pkg/domain/models with their validation
  and conversions.  Tables has the SQL statements the storage uses (insert with
  a conflict clause, update, delete, latest row), Schema the rows and the database
  record \<^theory_text>\<open>db\<close>, with the environment \<^theory_text>\<open>env\<close> of clocks, identifier texts and keys.
  Outbox is outbox.go, events.go and the two activities; Payments_Store,
  Accounts_Store (accounts and balances), Initiations_Store, Reversals_Store,
  Orders_Store (orders and conversions), Pools_Store, Runtime_Store (tasks,
  schedules, states, workflow instances), Users_Store (bank accounts), Psu_Store,
  OpenBanking_Store, Webhooks_Store (with the configurations and the trees of
  tasks) and Connectors_Store are the files of internal/storage of those names,
  function by function.  Paging is the listing of
  adjustments over a paginator.  Initiations_Services is the services and the
  engine operations on payment initiations, over the state \<^theory_text>\<open>sys\<close> (the database, the
  workflows started, the requests sent to providers, the schedules);
  Pools_Engine is the engine and the services on pools, over the database, with the
  listing of accounts;
  Initiations_Workflows and Reversal_Workflows are the workflows.  Batch_Delete has
  the deletions by batches and Uninstall_Workflow the workflow that uninstalls a
  connector, as a step relation over its goroutines.  Polling and
  Polling_Workflows are the workflows that fetch from a provider (fetch_*.go, plugin_workflow.go,
  instances.go, create_webhooks.go): a state \<^theory_text>\<open>psys\<close> of the database, the schedules of Temporal
  and the children started; activities that Temporal repeats (\<^theory_text>\<open>durable\<close>); the goroutines of a page
  as resumptions (\<^theory_text>\<open>job\<close>) that interleave at their activities (\<^theory_text>\<open>wait_all\<close>); one definition per
  page, the loop over pages and the instance around it.

  \<^bold>\<open>What the lemmas show.\<close>
  Retries states what an operation that may be repeated owes, and what follows
  for any sequence of attempts; payments, accounts, orders, conversions,
  adjustments and related payments are shown to satisfy it.  Payments_Proofs, Payments_Ledger
  and Payments_Success give the closed form of PaymentsUpsert, the invariant that an
  amount is the ledger of its adjustments, and that no batch built from reports
  fails; Accounts_Proofs the intervals of balances.  Outbox_Machine is the state
  machine of events, its invariant, and the refinement of the publishing
  activity.  Consistency, Consistency_Store, Consistency_Users and Storage_Machine prove the
  type of the database, statement by statement, for every operation, the cascades
  of a deleted connector, user or connection included.  Initiations_Proofs,
  Initiations_Laws, Initiations_Tasks and Initiations_Runs carry the properties of payment
  initiations: listings and the loops over them, the last adjustment, guards, tasks,
  the run of a workflow.  Batch_Delete and Uninstall_Workflow show that a deletion
  by batches ends like the deletion at once, and what every goroutine leaves
  unchanged.  Orders_Proofs has the merge of reported orders, Pools_Proofs the accounts of
  a dynamic pool over all pages and the balances of accounts as sums.
  Polling_Jobs shows what interleaved goroutines keep and reach, and how many errors they send;
  Polling_Laws what each storage operation of a fetch leaves (tables grow), Polling_Proofs the
  tasks that follow an item; Polling_Runs any sequence of runs of a workflow beside others, and the
  contract of a feed (what a page stores before its cursor is stored), which Polling_Feeds and
  Polling_Items prove for each workflow.
  The theories named _Properties hold the properties (C1 to C40), each with a
  witness where it has hypotheses; Examples and Initiations_Examples the concrete
  values of the witnesses.

  \<^bold>\<open>Interfaces.\<close>  The locales \<^theory_text>\<open>dedup_store\<close> (Tables), \<^theory_text>\<open>event_sink\<close> (Outbox), the
  codecs (Codec, Ids), the retried operation (Retries), \<^theory_text>\<open>logged_insert\<close>
  (Initiations_Laws), \<^theory_text>\<open>row_merge\<close> (Orders_Proofs), \<^theory_text>\<open>batched_deletion\<close> and
  \<^theory_text>\<open>table_batch\<close> (Batch_Delete), \<^theory_text>\<open>relation\<close> (Polling_Jobs), \<^theory_text>\<open>fetching\<close> (Polling_Runs)
  and \<^theory_text>\<open>refines_members\<close> (Pools_Properties) are interpreted on the definitions of the code.

  \<^bold>\<open>Bounds.\<close>  No fuel is used.  Loops over slices are structural recursion; the
  loops that read pages, those that fetch and the one that deletes by batches are \<^theory_text>\<open>partial_function (option)\<close>, so that not returning is
  \<^theory_text>\<open>None\<close>, and their termination is a property.  Amounts are big.Int, hence \<^theory_text>\<open>int\<close>; times
  are nanoseconds.

  \<^bold>\<open>Simplifications.\<close>
  A fault oracle \<^theory_text>\<open>faults\<close> says, for the message the code gives a statement, whether the
  database refuses it; statements of one operation with one message fail
  together.  Transactions run one after the other; the interleavings modelled are those of
  whole transactions.  Of the constraints of the migrations, the primary keys,
  unique keys, foreign keys with their cascades and NOT NULL on nilable amounts
  are modelled, other NOT NULL and CHECK constraints are not.  A SELECT with
  LIMIT and no ORDER BY takes the first rows; so does the join of a forwarded user
  with the access tokens, and related accounts come in the order of insertion.
  The pgp functions of the database are functions of the environment, so equal
  texts have equal encryptions.  The tree of tasks of a connector is stored as the value
  its JSON encodes.  An insert of no webhook configuration succeeds.  json.Marshal fails exactly
  on an invalid raw message.  The branches of the workflows for histories
  older than the outbox (IsEventOutboxPatternEnabled) are left out, and those of the workflows
  that fetch on other versions than the newest.  Temporal is its contract: an activity is
  attempted until its last attempt answers, a schedule of a known name is not made again, a child
  is started or its start fails; the answers of a plugin are arbitrary.
  Parameters: the canonical JSON encoder and SHA-1, the event broker, the
  paginator, the query builder and the comparison of a column with a value, the
  order in which the goroutines of an errgroup finish, the Temporal client, the plugins, the encryption of the database and
  the lookup of bank accounts for a provider.

  \<^bold>\<open>Not modelled.\<close>  The JSON forms of the structures; the read-only listings but
  those of adjustments and accounts; the workflows of installation and
  of received webhooks, and of the uninstallation the termination of the schedules and
  workflows, which orchestrate the Temporal SDK; services that only forward;
  the connector plugins, the HTTP API and the commands, which are glue over
  generated and third-party code.
\<close>

end
